(* ===== verification/Prelude.thy ===== *)
theory Prelude
  imports Complex_Main "HOL-Library.Word" "HOL-Library.Char_ord" "HOL-Library.List_Lexorder"
    "HOL-Library.Product_Lexorder" "HOL-Library.Sublist"
begin

text \<open>
  Shared vocabulary of the development: results of fallible Rust code, the byte-string predicates
  of the Rust standard library that the control plane uses, bounded integers, rows of SQL tables,
  the functions of third-party crates and of PostgreSQL that are parameters of the model, and the
  generic invariant rule for the transition systems of the components.
\<close>

named_theorems result_simps "rewrite rules for results and their sequencing"
named_theorems ascii_simps "definitions of the byte predicates, for evaluation on literals"
named_theorems table_simps "rewrite rules for SQL statements on tables"

section \<open>Results\<close>

text \<open>
  \<open>SessionError\<close> of \<^verbatim>\<open>burd-control-plane/src/remote_session.rs\<close>; a \<open>Result<T, SessionError>\<close> is a
  value of \<open>session_error + 'a\<close>.
\<close>

datatype session_error =
    Database string
  | NotFound string
  | Invalid string
  | Unauthorized
  | Expired
  | Revoked
  | SignatureInvalid
  | Conflict string

type_synonym 'a res = "session_error + 'a"

text \<open>The \<open>?\<close> operator and an early \<open>return Err\<close>.\<close>

definition bind_res :: "'e + 'a \<Rightarrow> ('a \<Rightarrow> 'e + 'b) \<Rightarrow> 'e + 'b" where
  "bind_res r f = (case r of Inl e \<Rightarrow> Inl e | Inr x \<Rightarrow> f x)"

definition ensure :: "bool \<Rightarrow> 'e \<Rightarrow> 'e + unit" where
  "ensure b e = (if b then Inr () else Inl e)"

fun ok_or :: "'a option \<Rightarrow> 'e \<Rightarrow> 'e + 'a" where
  "ok_or None e = Inl e"
| "ok_or (Some x) e = Inr x"

text \<open>A loop whose body may return early with an error.\<close>

fun try_each :: "('a \<Rightarrow> 'e + unit) \<Rightarrow> 'a list \<Rightarrow> 'e + unit" where
  "try_each f [] = Inr ()"
| "try_each f (x # xs) = bind_res (f x) (\<lambda>_. try_each f xs)"

lemma bind_res_Inr [simp]: "bind_res (Inr x) f = f x"
  by (simp add: bind_res_def)

lemma bind_res_Inl [simp]: "bind_res (Inl e) f = Inl e"
  by (simp add: bind_res_def)

lemma bind_resE:
  assumes "bind_res r f = Inr y"
  obtains x where "r = Inr x" "f x = Inr y"
  using assms by (cases r) auto

lemma bind_res_eq_Inr [result_simps]:
  "bind_res r f = Inr y \<longleftrightarrow> (\<exists>x. r = Inr x \<and> f x = Inr y)"
  by (cases r) auto

lemma bind_ensure [simp]: "bind_res (ensure b e) f = (if b then f () else Inl e)"
  by (simp add: ensure_def)

lemma ensure_eq_Inr [simp]: "ensure b e = Inr u \<longleftrightarrow> b"
  by (simp add: ensure_def)

lemma ensure_eq_Inl [simp]: "ensure b e = Inl e' \<longleftrightarrow> \<not> b \<and> e' = e"
  by (auto simp: ensure_def)

lemma ok_or_eq_Inr [simp]: "ok_or p e = Inr x \<longleftrightarrow> p = Some x"
  by (cases p) auto

lemma try_each_ok [simp]: "try_each f xs = Inr u \<longleftrightarrow> (\<forall>x \<in> set xs. f x = Inr ())"
  by (induction xs) (auto simp: bind_res_eq_Inr)

section \<open>Bytes and strings\<close>

text \<open>
  A Rust \<open>String\<close> is its UTF-8 bytes: \<open>len\<close> counts bytes, and an ASCII test that holds for
  every \<open>char\<close> holds for every byte and the other way round.
\<close>

abbreviation byte :: "char \<Rightarrow> nat" where
  "byte c \<equiv> of_char c"

definition is_ascii :: "char \<Rightarrow> bool" where
  [ascii_simps]: "is_ascii c \<longleftrightarrow> byte c < 128"

definition is_ascii_digit :: "char \<Rightarrow> bool" where
  [ascii_simps]: "is_ascii_digit c \<longleftrightarrow> 48 \<le> byte c \<and> byte c \<le> 57"

definition is_ascii_uppercase :: "char \<Rightarrow> bool" where
  [ascii_simps]: "is_ascii_uppercase c \<longleftrightarrow> 65 \<le> byte c \<and> byte c \<le> 90"

definition is_ascii_lowercase :: "char \<Rightarrow> bool" where
  [ascii_simps]: "is_ascii_lowercase c \<longleftrightarrow> 97 \<le> byte c \<and> byte c \<le> 122"

definition is_ascii_alphanumeric :: "char \<Rightarrow> bool" where
  [ascii_simps]: "is_ascii_alphanumeric c \<longleftrightarrow>
     is_ascii_digit c \<or> is_ascii_uppercase c \<or> is_ascii_lowercase c"

definition is_ascii_hexdigit :: "char \<Rightarrow> bool" where
  [ascii_simps]: "is_ascii_hexdigit c \<longleftrightarrow>
     is_ascii_digit c \<or> (65 \<le> byte c \<and> byte c \<le> 70) \<or> (97 \<le> byte c \<and> byte c \<le> 102)"

text \<open>\<open>char::is_control\<close> restricted to ASCII, as every use of it is guarded by \<open>is_ascii\<close>.\<close>

definition is_ascii_control :: "char \<Rightarrow> bool" where
  [ascii_simps]: "is_ascii_control c \<longleftrightarrow> byte c < 32 \<or> byte c = 127"

definition is_ascii_whitespace :: "char \<Rightarrow> bool" where
  [ascii_simps]: "is_ascii_whitespace c \<longleftrightarrow> (9 \<le> byte c \<and> byte c \<le> 13) \<or> byte c = 32"

definition to_ascii_lowercase_char :: "char \<Rightarrow> char" where
  [ascii_simps]: "to_ascii_lowercase_char c = (if is_ascii_uppercase c then char_of (byte c + 32) else c)"

definition to_ascii_lowercase :: "string \<Rightarrow> string" where
  [ascii_simps]: "to_ascii_lowercase s = map to_ascii_lowercase_char s"

definition eq_ignore_ascii_case :: "string \<Rightarrow> string \<Rightarrow> bool" where
  "eq_ignore_ascii_case a b \<longleftrightarrow> to_ascii_lowercase a = to_ascii_lowercase b"

text \<open>
  The characters with the Unicode property \<open>White_Space\<close>, in their UTF-8 encodings of one, two and
  three bytes: \<open>leading_whitespace s\<close> is the length of such a character at the start of \<open>s\<close>, zero if
  there is none. \<open>s.trim().is_empty()\<close> holds if all characters of \<open>s\<close> are white space,
  \<open>s.chars().any(char::is_whitespace)\<close> if one is.
\<close>

fun leading_whitespace :: "string \<Rightarrow> nat" where
  "leading_whitespace [] = 0"
| "leading_whitespace (a # s) =
     (if is_ascii_whitespace a then 1
      else case s of
        [] \<Rightarrow> 0
      | b # s' \<Rightarrow>
          if byte a = 194 \<and> (byte b = 133 \<or> byte b = 160) then 2
          else case s' of
            [] \<Rightarrow> 0
          | c # _ \<Rightarrow>
              if (byte a, byte b, byte c) \<in> {(225, 154, 128), (226, 128, 168), (226, 128, 169),
                    (226, 128, 175), (226, 129, 159), (227, 128, 128)}
                 \<or> byte a = 226 \<and> byte b = 128 \<and> 128 \<le> byte c \<and> byte c \<le> 138
              then 3 else 0)"

fun trim_is_empty :: "string \<Rightarrow> bool" where
  "trim_is_empty [] = True"
| "trim_is_empty (a # s) =
     (case leading_whitespace (a # s) of 0 \<Rightarrow> False | Suc n \<Rightarrow> trim_is_empty (drop n s))"

fun any_whitespace :: "string \<Rightarrow> bool" where
  "any_whitespace [] = False"
| "any_whitespace (a # s) = (0 < leading_whitespace (a # s) \<or> any_whitespace s)"

text \<open>\<open>str::rsplit_once\<close>: the split at the last occurrence of the delimiter.\<close>

fun rsplit_once :: "string \<Rightarrow> string \<Rightarrow> (string \<times> string) option" where
  "rsplit_once [] d = (if d = [] then Some ([], []) else None)"
| "rsplit_once (c # cs) d =
     (case rsplit_once cs d of
        Some (a, b) \<Rightarrow> Some (c # a, b)
      | None \<Rightarrow> if prefix d (c # cs) then Some ([], drop (length d) (c # cs)) else None)"

lemma eq_ignore_ascii_case_refl [simp]: "eq_ignore_ascii_case a a"
  by (simp add: eq_ignore_ascii_case_def)

lemma eq_ignore_ascii_case_sym: "eq_ignore_ascii_case a b \<Longrightarrow> eq_ignore_ascii_case b a"
  by (simp add: eq_ignore_ascii_case_def)

lemma rsplit_once_Some: "rsplit_once s d = Some (a, b) \<Longrightarrow> s = a @ d @ b"
proof (induction s arbitrary: a b)
  case Nil
  then show ?case by (auto split: if_splits)
next
  case (Cons c cs)
  then show ?case
    by (auto split: option.splits if_splits simp: prefix_def)
qed

lemma rsplit_once_None: "rsplit_once s d = None \<Longrightarrow> \<not> sublist d s"
  by (induction s) (auto split: option.splits if_splits simp: sublist_Cons_right)

section \<open>Bounded integers\<close>

type_synonym u32 = "32 word"
type_synonym u64 = "64 word"

definition u32_max :: nat where "u32_max = 2 ^ 32 - 1"
definition u64_max :: nat where "u64_max = 2 ^ 64 - 1"
definition i64_max :: int where "i64_max = 2 ^ 63 - 1"
definition i64_min :: int where "i64_min = - (2 ^ 63)"

definition fits_i64 :: "int \<Rightarrow> bool" where
  "fits_i64 x \<longleftrightarrow> i64_min \<le> x \<and> x \<le> i64_max"

text \<open>\<open>Ord::clamp\<close>.\<close>

definition clamp :: "'a::linorder \<Rightarrow> 'a \<Rightarrow> 'a \<Rightarrow> 'a" where
  "clamp lo hi x = (if x < lo then lo else if hi < x then hi else x)"

lemma clamp_bounds: "lo \<le> hi \<Longrightarrow> lo \<le> clamp lo hi x \<and> clamp lo hi x \<le> hi"
  by (auto simp: clamp_def)

definition saturating_sub :: "u64 \<Rightarrow> u64 \<Rightarrow> u64" where
  "saturating_sub a b = (if a < b then 0 else a - b)"

definition saturating_add :: "u64 \<Rightarrow> u64 \<Rightarrow> u64" where
  "saturating_add a b = (if uint a + uint b < 2 ^ 64 then a + b else - 1)"

lemma unat_u64_less [simp]: "unat (x :: u64) < 18446744073709551616"
  using unsigned_less[of x, where 'a = nat] by simp

lemma unat_saturating_sub: "unat (saturating_sub a b) = unat a - unat b"
  by (auto simp: saturating_sub_def unat_sub word_le_nat_alt word_less_nat_alt not_less)

lemma unat_minus_one_u64: "unat (- 1 :: u64) = 2 ^ 64 - 1"
  by (simp add: unsigned_minus_1_eq_mask mask_eq_exp_minus_1)

lemma unat_saturating_add: "unat (saturating_add a b) = min (unat a + unat b) (2 ^ 64 - 1)"
proof -
  have "uint a = int (unat a)" "uint b = int (unat b)" by simp_all
  then have "uint a + uint b < 2 ^ 64 \<longleftrightarrow> unat a + unat b < 2 ^ 64"
    using of_nat_less_iff[of "unat a + unat b" "2 ^ 64", where 'a = int]
    by (simp only: of_nat_add of_nat_power of_nat_numeral)
  then show ?thesis by (auto simp: saturating_add_def unat_word_ariths unat_minus_one_u64)
qed

text \<open>
  A finite \<open>f64\<close> is a rational number; the other values are the infinities and NaN.
\<close>

datatype f64 = F64 rat | F64_NaN | F64_PosInf | F64_NegInf

section \<open>JSON values\<close>

text \<open>
  \<open>serde_json::Value\<close>. A column that stores the text of a JSON value holds the value itself, and
  the objects of \<open>serde_json::Map\<close> are association lists.
\<close>

datatype json =
    JNull
  | JBool bool
  | JNumber string
  | JString string
  | JArray "json list"
  | JObject "(string \<times> json) list"

section \<open>External functions\<close>

text \<open>
  Code the repository calls and does not contain: \<open>chrono\<close>'s parser and printer of RFC 3339
  timestamps (an instant is its number of nanoseconds since the epoch), the SHA-256 of the \<open>sha2\<close>
  crate in lower-case hexadecimal, and the order PostgreSQL gives to \<open>TEXT\<close> values, as the sort
  key of the database's collation: \<open>a < b\<close> in SQL compares the sort keys of \<open>a\<close> and \<open>b\<close>.
\<close>

record externs =
  parse_from_rfc3339 :: "string \<Rightarrow> int option"
  to_rfc3339 :: "int \<Rightarrow> string"
  sha256_hex :: "string \<Rightarrow> string"
  collation_key :: "string \<Rightarrow> string"

definition sql_less :: "externs \<Rightarrow> string \<Rightarrow> string \<Rightarrow> bool" where
  "sql_less X a b \<longleftrightarrow> collation_key X a < collation_key X b"

definition sql_le :: "externs \<Rightarrow> string \<Rightarrow> string \<Rightarrow> bool" where
  "sql_le X a b \<longleftrightarrow> collation_key X a \<le> collation_key X b"

lemma sql_le_iff_not_less: "sql_le X a b \<longleftrightarrow> \<not> sql_less X b a"
  by (auto simp: sql_le_def sql_less_def)

definition nanos_per_second :: int where
  "nanos_per_second = 1000000000"

section \<open>SQL tables\<close>

text \<open>
  A table is the list of its rows. \<open>UPDATE t SET f WHERE P\<close> maps the rows that satisfy \<open>P\<close>,
  \<open>execute\<close> returns their number, \<open>query_opt\<close> on a key returns the row.
\<close>

definition sql_update :: "('r \<Rightarrow> bool) \<Rightarrow> ('r \<Rightarrow> 'r) \<Rightarrow> 'r list \<Rightarrow> 'r list" where
  "sql_update P f t = map (\<lambda>r. if P r then f r else r) t"

definition sql_count :: "('r \<Rightarrow> bool) \<Rightarrow> 'r list \<Rightarrow> nat" where
  "sql_count P t = length (filter P t)"

definition coalesce :: "'a option \<Rightarrow> 'a \<Rightarrow> 'a option" where
  "coalesce a b = (case a of None \<Rightarrow> Some b | Some x \<Rightarrow> Some x)"

lemma length_sql_update [simp]: "length (sql_update P f t) = length t"
  by (simp add: sql_update_def)

lemma set_sql_update [table_simps]:
  "set (sql_update P f t) = {f r |r. r \<in> set t \<and> P r} \<union> {r \<in> set t. \<not> P r}"
  by (auto simp: sql_update_def)

lemma in_sql_updateE:
  assumes "r \<in> set (sql_update P f t)"
  obtains r0 where "r0 \<in> set t" "P r0" "r = f r0" | "r \<in> set t" "\<not> P r"
  using assms by (auto simp: set_sql_update)

lemma in_sql_update_iff: "r \<in> set (sql_update P f t) \<longleftrightarrow> (\<exists>r0 \<in> set t. r = (if P r0 then f r0 else r0))"
  by (auto simp: sql_update_def)

lemma sql_updateI: "r \<in> set t \<Longrightarrow> (if P r then f r else r) \<in> set (sql_update P f t)"
  by (auto simp: sql_update_def)

lemma map_sql_update [simp]:
  "(\<And>r. k (f r) = k r) \<Longrightarrow> map k (sql_update P f t) = map k t"
  by (auto simp: sql_update_def)

lemma sql_update_id [simp]: "sql_update P (\<lambda>r. r) t = t"
  by (simp add: sql_update_def)

lemma sql_update_Nil [simp]: "sql_update P f [] = []"
  by (simp add: sql_update_def)

lemma list_all2_find1: "list_all2 R xs ys \<Longrightarrow> x \<in> set xs \<Longrightarrow> \<exists>y \<in> set ys. R x y"
  by (induction rule: list_all2_induct) auto

lemma list_all2_find2: "list_all2 R xs ys \<Longrightarrow> y \<in> set ys \<Longrightarrow> \<exists>x \<in> set xs. R x y"
  by (induction rule: list_all2_induct) auto

lemma find_distinct_key:
  assumes "distinct (map k t)" "r \<in> set t"
  shows "find (\<lambda>x. k x = k r) t = Some r"
  using assms
proof (induction t)
  case Nil
  then show ?case by simp
next
  case (Cons x t)
  then show ?case by (auto simp: image_iff)
qed

lemma find_SomeD: "find P t = Some r \<Longrightarrow> r \<in> set t \<and> P r"
  by (induction t) (auto split: if_splits)

lemma find_append_None: "find P xs = None \<Longrightarrow> find P (xs @ ys) = find P ys"
  by (induction xs) (auto split: if_splits)

lemma find_NoneD: "find P t = None \<Longrightarrow> \<forall>r \<in> set t. \<not> P r"
  by (simp add: find_None_iff)

lemma distinct_map_same:
  "distinct (map k t) \<Longrightarrow> a \<in> set t \<Longrightarrow> b \<in> set t \<Longrightarrow> k a = k b \<Longrightarrow> a = b"
  by (meson distinct_map inj_on_def)

section \<open>Transition systems\<close>

text \<open>
  The contract every stateful component of the development meets: its initial states satisfy the
  invariant and each of its steps keeps it. The client's lemma is that the invariant holds after
  any number of steps, in any interleaving of the operations.
\<close>

locale invariant_system =
  fixes init :: "'s \<Rightarrow> bool"
    and step :: "'s \<Rightarrow> 's \<Rightarrow> bool"
    and inv :: "'s \<Rightarrow> bool"
  assumes inv_init: "init s \<Longrightarrow> inv s"
    and inv_step: "inv s \<Longrightarrow> step s t \<Longrightarrow> inv t"
begin

lemma inv_steps:
  assumes "step\<^sup>*\<^sup>* s t" "inv s"
  shows "inv t"
  using assms by (induction rule: rtranclp_induct) (auto intro: inv_step)

lemma inv_reachable:
  assumes "init s" "step\<^sup>*\<^sup>* s t"
  shows "inv t"
  using assms inv_steps inv_init by blast

end

end
