(* ===== verification/Rate_Limit.thy ===== *)
theory Rate_Limit
  imports Prelude
begin

text \<open>
  The fixed-window rate limiter of the HTTP layer, \<^verbatim>\<open>burd-control-plane/src/rate_limit.rs\<close>. The mutex
  makes each call of \<open>check_at\<close> one atomic step on the map of buckets. Instants and durations are
  nanoseconds; \<open>Instant::duration_since\<close> saturates at zero, as subtraction on \<open>nat\<close> does.
\<close>

record rate_bucket =
  rb_window_start :: nat
  rb_count :: u32

record rate_limiter =
  rl_limit :: u32
  rl_window :: nat
  rl_buckets :: "string \<rightharpoonup> rate_bucket"

definition secs :: "nat \<Rightarrow> nat" where
  "secs n = n * 1000000000"

definition as_secs :: "nat \<Rightarrow> nat" where
  "as_secs d = d div 1000000000"

definition per_minute :: "u32 \<Rightarrow> rate_limiter" where
  "per_minute limit = \<lparr>rl_limit = max limit 1, rl_window = secs 60, rl_buckets = Map.empty\<rparr>"

definition check_at :: "rate_limiter \<Rightarrow> string \<Rightarrow> nat \<Rightarrow> rate_limiter \<times> (nat + unit)" where
  "check_at rl key now =
     (let bucket = (case rl_buckets rl key of
                      Some b \<Rightarrow> b
                    | None \<Rightarrow> \<lparr>rb_window_start = now, rb_count = 0\<rparr>);
          bucket = (if now - rb_window_start bucket \<ge> rl_window rl
                    then bucket\<lparr>rb_window_start := now, rb_count := 0\<rparr> else bucket)
      in if rb_count bucket \<ge> rl_limit rl
         then (rl\<lparr>rl_buckets := (rl_buckets rl)(key \<mapsto> bucket)\<rparr>,
               Inl (max (as_secs (rl_window rl - (now - rb_window_start bucket))) 1))
         else (rl\<lparr>rl_buckets := (rl_buckets rl)(key \<mapsto> bucket\<lparr>rb_count := rb_count bucket + 1\<rparr>)\<rparr>,
               Inr ()))"

text \<open>A run of the limiter: the calls in the order the mutex serves them, with their results.\<close>

fun run_checks :: "rate_limiter \<Rightarrow> (string \<times> nat) list \<Rightarrow> rate_limiter \<times> (nat + unit) list" where
  "run_checks rl [] = (rl, [])"
| "run_checks rl ((key, now) # calls) =
     (let (rl', r) = check_at rl key now; (rl'', rs) = run_checks rl' calls in (rl'', r # rs))"

definition granted :: "string \<Rightarrow> (string \<times> nat) list \<Rightarrow> (nat + unit) list \<Rightarrow> nat" where
  "granted key calls rs = length (filter (\<lambda>((k, _), r). k = key \<and> r = Inr ()) (zip calls rs))"

definition requested :: "string \<Rightarrow> (string \<times> nat) list \<Rightarrow> nat" where
  "requested key calls = length (filter (\<lambda>(k, _). k = key) calls)"

definition bucket_count :: "rate_limiter \<Rightarrow> string \<Rightarrow> nat" where
  "bucket_count rl key = (case rl_buckets rl key of None \<Rightarrow> 0 | Some b \<Rightarrow> unat (rb_count b))"

text \<open>The invariant: the counter of every bucket stays within the limit, so it never wraps.\<close>

definition limiter_inv :: "rate_limiter \<Rightarrow> bool" where
  "limiter_inv rl \<longleftrightarrow> 0 < rl_limit rl \<and> 0 < rl_window rl \<and>
     (\<forall>key b. rl_buckets rl key = Some b \<longrightarrow> rb_count b \<le> rl_limit rl)"

definition limiter_step :: "rate_limiter \<Rightarrow> rate_limiter \<Rightarrow> bool" where
  "limiter_step rl rl' \<longleftrightarrow> (\<exists>key now. rl' = fst (check_at rl key now))"

section \<open>Lemmas\<close>

lemma check_at_limit [simp]: "rl_limit (fst (check_at rl key now)) = rl_limit rl"
  by (simp add: check_at_def Let_def)

lemma check_at_window [simp]: "rl_window (fst (check_at rl key now)) = rl_window rl"
  by (simp add: check_at_def Let_def)

lemma check_at_other:
  "k \<noteq> key \<Longrightarrow> rl_buckets (fst (check_at rl key now)) k = rl_buckets rl k"
  by (simp add: check_at_def Let_def)

lemma count_succ: "(c :: u32) < l \<Longrightarrow> c + 1 \<le> l \<and> unat (c + 1) = unat c + 1"
proof -
  assume less: "c < l"
  then have "unat c + 1 < 2 ^ 32"
    using unsigned_less[of l, where 'a = nat] by (simp add: word_less_nat_alt)
  then have "unat (c + 1) = unat c + 1" by (simp add: unat_word_ariths)
  with less show ?thesis by (simp add: word_less_nat_alt word_le_nat_alt)
qed

lemma positive_limit: "0 < (l :: u32) \<Longrightarrow> 1 \<le> l"
  by (simp add: word_less_nat_alt word_le_nat_alt)

lemma limiter_inv_step: "limiter_inv rl \<Longrightarrow> limiter_inv (fst (check_at rl key now))"
  unfolding limiter_inv_def
  by (auto simp: check_at_def Let_def count_succ positive_limit not_le
      split: option.splits if_splits intro: order_antisym)

lemma limiter_inv_per_minute: "limiter_inv (per_minute n)"
  by (auto simp: limiter_inv_def per_minute_def secs_def max_def word_less_nat_alt word_le_nat_alt)

interpretation limiter: invariant_system
  "\<lambda>rl. \<exists>n. rl = per_minute n" limiter_step limiter_inv
  by unfold_locales (auto simp: limiter_step_def limiter_inv_per_minute limiter_inv_step)

text \<open>All buckets of a set of keys opened their windows inside one interval of the window's length.\<close>

definition windows_in :: "nat \<Rightarrow> rate_limiter \<Rightarrow> bool" where
  "windows_in t0 rl \<longleftrightarrow>
     (\<forall>key b. rl_buckets rl key = Some b \<longrightarrow>
        t0 \<le> rb_window_start b \<and> rb_window_start b < t0 + rl_window rl)"

lemma check_at_same_window:
  assumes "limiter_inv rl" "windows_in t0 rl" "t0 \<le> now" "now < t0 + rl_window rl"
  shows "snd (check_at rl key now) = Inr () \<longleftrightarrow> bucket_count rl key < unat (rl_limit rl)"
    and "bucket_count (fst (check_at rl key now)) key =
           (if bucket_count rl key < unat (rl_limit rl) then bucket_count rl key + 1
            else bucket_count rl key)"
    and "windows_in t0 (fst (check_at rl key now))"
  using assms unfolding limiter_inv_def windows_in_def
  by (fastforce simp: check_at_def Let_def bucket_count_def word_less_nat_alt word_le_nat_alt
      count_succ not_le split: option.splits if_splits)+

lemma bucket_count_other:
  "k \<noteq> key \<Longrightarrow> bucket_count (fst (check_at rl key now)) k = bucket_count rl k"
  by (simp add: bucket_count_def check_at_other)

lemma granted_in_window:
  assumes "limiter_inv rl" "windows_in t0 rl" "bucket_count rl key \<le> unat (rl_limit rl)"
    and "\<forall>(k, now) \<in> set calls. t0 \<le> now \<and> now < t0 + rl_window rl"
  shows "granted key calls (snd (run_checks rl calls)) =
         min (requested key calls) (unat (rl_limit rl) - bucket_count rl key)"
  using assms
proof (induction calls arbitrary: rl)
  case Nil
  then show ?case by (simp add: granted_def requested_def)
next
  case (Cons call calls)
  obtain k now where call: "call = (k, now)" by force
  let ?rl' = "fst (check_at rl k now)"
  have now: "t0 \<le> now" "now < t0 + rl_window rl" using Cons.prems(4) by (auto simp: call)
  note here = check_at_same_window[OF Cons.prems(1,2) now]
  have le: "bucket_count ?rl' key \<le> unat (rl_limit rl)"
    using here(2)[of k] Cons.prems(3) by (cases "k = key") (auto simp: bucket_count_other)
  have IH: "granted key calls (snd (run_checks ?rl' calls)) =
      min (requested key calls) (unat (rl_limit rl) - bucket_count ?rl' key)"
    using Cons.IH[of ?rl'] Cons.prems here(3)[of k] le by (auto simp: limiter_inv_step)
  show ?case
    using IH here(1,2)[of k] Cons.prems(3)
    by (cases "k = key")
       (auto simp: call granted_def requested_def bucket_count_other Let_def split: prod.splits)
qed

section \<open>Properties\<close>

text \<open>
  Within one window the limiter grants exactly the first \<open>limit\<close> requests of each key,
  however the calls of different keys are interleaved: starting from a fresh limiter, a run whose
  calls all fall into one minute grants a key the minimum of its requests and the limit (which is at
  least one).
\<close>

theorem rate_limit_exact_in_window:
  assumes "\<forall>(k, now) \<in> set calls. t0 \<le> now \<and> now < t0 + secs 60"
  shows "granted key calls (snd (run_checks (per_minute limit) calls)) =
         min (requested key calls) (max (unat limit) 1)"
proof -
  have "windows_in t0 (per_minute limit)" "bucket_count (per_minute limit) key = 0"
    by (simp_all add: windows_in_def per_minute_def bucket_count_def)
  moreover have "unat (rl_limit (per_minute limit)) = max (unat limit) 1"
    by (simp add: per_minute_def max_def word_le_nat_alt)
  moreover have "rl_window (per_minute limit) = secs 60" by (simp add: per_minute_def)
  ultimately show ?thesis
    using granted_in_window[OF limiter_inv_per_minute, of t0 limit key calls] assms by simp
qed

theorem rate_limit_exact_in_window_witness:
  "granted ''a'' [(''a'', 5), (''b'', 6), (''a'', 7), (''a'', 8)]
     (snd (run_checks (per_minute 2) [(''a'', 5), (''b'', 6), (''a'', 7), (''a'', 8)])) = 2"
proof -
  have "\<forall>(k, now) \<in> set [(''a'', 5), (''b'', 6), (''a'', 7), (''a'', 8)].
      (5::nat) \<le> now \<and> now < 5 + secs 60"
    by (simp add: secs_def)
  from rate_limit_exact_in_window[OF this, of "''a''" 2] show ?thesis
    by (simp add: requested_def)
qed

text \<open>
  In every reachable state of the limiter no counter exceeds the limit (so the 32-bit
  increment never wraps), a refused call names a delay between one second and the window, and a call
  made one window after the bucket's window opened is granted.
\<close>

theorem rate_limit_safe_and_recovers:
  assumes "limiter_step\<^sup>*\<^sup>* (per_minute n) rl"
  shows "(\<forall>key b. rl_buckets rl key = Some b \<longrightarrow> rb_count b \<le> rl_limit rl) \<and>
         (\<forall>key now d. snd (check_at rl key now) = Inl d \<longrightarrow> 1 \<le> d \<and> d \<le> 60) \<and>
         (\<forall>key now b. rl_buckets rl key = Some b \<and> rb_window_start b + secs 60 \<le> now \<longrightarrow>
            snd (check_at rl key now) = Inr ())"
proof -
  have inv: "limiter_inv rl" using assms by (blast intro: limiter.inv_reachable)
  have win: "rl_window rl = secs 60"
    using assms by (induction rule: rtranclp_induct)
      (auto simp: per_minute_def limiter_step_def)
  show ?thesis
    using inv win
    by (auto simp: limiter_inv_def check_at_def Let_def as_secs_def secs_def not_le
        split: option.splits if_splits)
qed

theorem rate_limit_safe_and_recovers_witness:
  "snd (check_at (fst (check_at (per_minute 1) ''k'' 0)) ''k'' (secs 60)) = Inr ()"
proof -
  have "limiter_step\<^sup>*\<^sup>* (per_minute 1) (fst (check_at (per_minute 1) ''k'' 0))"
    by (rule r_into_rtranclp) (auto simp: limiter_step_def)
  from rate_limit_safe_and_recovers[OF this] show ?thesis
    by (simp add: check_at_def per_minute_def secs_def Let_def)
qed

text \<open>
  The delay a refused call is told is rounded down to whole seconds: a client that waits
  exactly the announced number of seconds can be refused again. With the limit one, a call half a
  second into the window is told 59 seconds, and the call 59 seconds later is refused.
\<close>

theorem rate_limit_retry_after_too_short:
  "let rl = fst (check_at (per_minute 1) ''k'' 0);
       (rl', r) = check_at rl ''k'' (secs 1 div 2)
   in r = Inl 59 \<and> snd (check_at rl' ''k'' (secs 1 div 2 + secs 59)) = Inl 1"
  by (simp add: check_at_def per_minute_def secs_def as_secs_def Let_def)

end
