(* ===== verification/Protocol.thy ===== *)
theory Protocol
  imports Prelude
begin

text \<open>
  The data the control plane and the provider agent exchange about jobs: the structs of
  \<^verbatim>\<open>burd-protocol/src/job.rs\<close>, \<^verbatim>\<open>lease.rs\<close>, \<^verbatim>\<open>usage.rs\<close> and \<^verbatim>\<open>job_execution.rs\<close> as records with
  the fields of the source, prefixed by the struct.
\<close>

definition JOB_SCHEMA_VERSION :: string where
  "JOB_SCHEMA_VERSION = ''burd-job-v1''"

definition JOB_EVENT_SCHEMA_VERSION :: string where
  "JOB_EVENT_SCHEMA_VERSION = ''burd-job-event-v1''"

definition JOB_DATA_PLANE_GRANT_VERSION :: string where
  "JOB_DATA_PLANE_GRANT_VERSION = ''burd-job-data-plane-grant-v1''"

definition JOB_ARTIFACT_UPLOAD_VERSION :: string where
  "JOB_ARTIFACT_UPLOAD_VERSION = ''burd-job-artifact-upload-v1''"

definition JOB_LEASE_SCHEMA_VERSION :: string where
  "JOB_LEASE_SCHEMA_VERSION = ''burd-job-lease-v1''"

definition PROVIDER_JOB_EXECUTION_SCHEMA_VERSION :: string where
  "PROVIDER_JOB_EXECUTION_SCHEMA_VERSION = ''burd-provider-job-execution-v3''"

definition PROVIDER_JOB_EXECUTION_POLICY_VERSION :: string where
  "PROVIDER_JOB_EXECUTION_POLICY_VERSION = ''burd-provider-job-runtime-policy-v2''"

definition JOB_EXECUTION_CONTROL_SCHEMA_VERSION :: string where
  "JOB_EXECUTION_CONTROL_SCHEMA_VERSION = ''burd-job-execution-control-v1''"

definition PROVIDER_JOB_APPROVED_TEMPLATES :: "string list" where
  "PROVIDER_JOB_APPROVED_TEMPLATES =
     [''llm_inference'', ''embeddings'', ''image_generation'', ''whisper_transcription'',
      ''file_processing'']"

section \<open>Jobs\<close>

record JobArtifact =
  artifact_id :: string
  art_role :: string
  art_object_key :: string
  art_sha256 :: "string option"
  art_size_bytes :: "u64 option"
  art_content_type :: "string option"

record JobDataPlaneUrl =
  url_artifact_id :: string
  url_method :: string
  url_url :: string
  url_expires_at :: string

record JobDataPlaneGrant =
  grant_schema_version :: string
  grant_job_id :: string
  grant_credential :: string
  grant_credential_expires_at :: string
  grant_download_urls :: "JobDataPlaneUrl list"
  grant_upload_urls :: "JobDataPlaneUrl list"

record CreateJobRequest =
  cr_client_job_id :: "string option"
  cr_provider_id :: string
  cr_device_id :: string
  cr_session_id :: string
  cr_workload_type :: string
  cr_template_id :: string
  cr_image_ref :: string
  cr_gpu_uuid :: string
  cr_backend :: string
  cr_parameters :: json
  cr_input_artifacts :: "JobArtifact list"
  cr_expected_outputs :: "JobArtifact list"
  cr_timeout_seconds :: "u32 option"
  cr_policy_id :: "string option"
  cr_policy_version :: "string option"

record JobRecord =
  job_id :: string
  job_client_job_id :: "string option"
  job_provider_id :: string
  job_device_id :: string
  job_session_id :: string
  job_schema_version :: string
  job_workload_type :: string
  job_template_id :: string
  job_image_ref :: string
  job_gpu_uuid :: string
  job_backend :: string
  job_parameters :: json
  job_input_artifacts :: "JobArtifact list"
  job_expected_outputs :: "JobArtifact list"
  job_result_artifacts :: "JobArtifact list"
  job_policy_id :: "string option"
  job_policy_version :: "string option"
  job_status :: string
  job_progress_percent :: "f64 option"
  job_status_message :: "string option"
  job_error_code :: "string option"
  job_error_message :: "string option"
  job_cancellation_reason :: "string option"
  job_timeout_seconds :: u32
  job_created_at :: string
  job_assigned_at :: "string option"
  job_accepted_at :: "string option"
  job_started_at :: "string option"
  job_completed_at :: "string option"
  job_updated_at :: string

record CreateJobResponse =
  cj_request_id :: string
  cj_job :: JobRecord
  cj_duplicate :: bool

record AcceptJobRequest =
  ar_lease_id :: string
  ar_status_message :: "string option"

record JobEventRequest =
  er_sequence :: u64
  er_event_type :: string
  er_progress_percent :: "f64 option"
  er_message :: "string option"
  er_metadata :: json
  er_occurred_at :: "string option"

record JobEventRecord =
  event_id :: string
  event_job_id :: string
  event_provider_id :: string
  event_device_id :: string
  event_session_id :: string
  event_sequence :: u64
  event_schema_version :: string
  event_event_type :: string
  event_progress_percent :: "f64 option"
  event_message :: "string option"
  event_metadata :: json
  event_occurred_at :: string
  event_server_received_at :: string

record SubmitJobResultRequest =
  rr_status :: string
  rr_result_artifacts :: "JobArtifact list"
  rr_metrics :: json
  rr_error_code :: "string option"
  rr_error_message :: "string option"
  rr_completed_at :: "string option"

record CancelJobRequest =
  xr_reason :: "string option"

section \<open>Leases\<close>

record JobLeaseRecord =
  lease_id :: string
  lease_job_id :: string
  lease_provider_id :: string
  lease_device_id :: string
  lease_session_id :: string
  lease_schema_version :: string
  lease_workload_type :: string
  lease_gpu_uuid :: string
  lease_policy_id :: "string option"
  lease_policy_version :: "string option"
  lease_status :: string
  lease_reason_codes :: "string list"
  lease_offered_at :: string
  lease_expires_at :: string
  lease_accepted_at :: "string option"
  lease_provisioning_at :: "string option"
  lease_active_at :: "string option"
  lease_completed_at :: "string option"
  lease_failure_reason :: "string option"
  lease_created_at :: string
  lease_updated_at :: string

record RunSchedulerRequest =
  sr_limit :: "u32 option"
  sr_lease_ttl_seconds :: "u32 option"
  sr_reason :: "string option"

record SchedulerDecisionRecord =
  sd_job_id :: string
  sd_lease_id :: "string option"
  sd_provider_id :: string
  sd_device_id :: string
  sd_session_id :: string
  sd_gpu_uuid :: string
  sd_decision :: string
  sd_reason_codes :: "string list"

record RunSchedulerResponse =
  rs_request_id :: string
  rs_evaluated :: nat
  rs_offered :: nat
  rs_expired :: nat
  rs_skipped :: nat
  rs_decisions :: "SchedulerDecisionRecord list"

section \<open>Execution contract\<close>

datatype ProviderJobExecutionState =
    Assigned | Accepted | Provisioning | Running | Uploading
  | Succeeded | Failed | Cancelled | ExpiredState

record ProviderJobRuntimePolicy =
  rt_runtime_engine :: string
  rt_container_os :: string
  rt_gpu_backend :: string
  rt_gpu_runtime :: string
  rt_command_source :: string
  rt_command_override_allowed :: bool
  rt_entrypoint_override_allowed :: bool
  rt_network_mode :: string
  rt_read_only_rootfs :: bool
  rt_no_new_privileges :: bool
  rt_run_as_user :: string
  rt_seccomp_profile :: string
  rt_cap_drop :: "string list"
  rt_cpu_millis :: u32
  rt_memory_mib :: u64
  rt_pids_limit :: u32
  rt_shm_size_mib :: u64

record ProviderJobCancellationPolicy =
  cp_poll_interval_seconds :: u32
  cp_max_control_silence_seconds :: u32
  cp_graceful_stop_seconds :: u32
  cp_force_kill_after_seconds :: u32

datatype JobExecutionDirective = Continue | Cancel

record JobExecutionControlResponse =
  ctl_schema_version :: string
  ctl_request_id :: string
  ctl_job_id :: string
  ctl_lease_id :: string
  ctl_directive :: JobExecutionDirective
  ctl_reason_code :: "string option"
  ctl_server_time :: string

record ProviderJobCleanupPolicy =
  cl_remove_container :: bool
  cl_remove_working_directory :: bool
  cl_clear_ephemeral_secrets :: bool
  cl_revoke_data_plane_credential :: bool

record ProviderJobExecutionSpec =
  spec_schema_version :: string
  spec_policy_version :: string
  spec_job_schema_version :: string
  spec_lease_schema_version :: string
  spec_data_plane_schema_version :: string
  spec_job_id :: string
  spec_lease_id :: string
  spec_provider_id :: string
  spec_device_id :: string
  spec_session_id :: string
  spec_workload_type :: string
  spec_template_id :: string
  spec_image_ref :: string
  spec_gpu_uuid :: string
  spec_backend :: string
  spec_policy_id :: "string option"
  spec_workload_policy_version :: "string option"
  spec_initial_state :: ProviderJobExecutionState
  spec_timeout_seconds :: u32
  spec_lease_expires_at :: string
  spec_data_plane_credential_expires_at :: string
  spec_runtime :: ProviderJobRuntimePolicy
  spec_cancellation :: ProviderJobCancellationPolicy
  spec_cleanup :: ProviderJobCleanupPolicy

record NextJobResponse =
  next_request_id :: string
  next_job :: "JobRecord option"
  next_data_plane :: "JobDataPlaneGrant option"
  next_lease :: "JobLeaseRecord option"
  next_execution :: "ProviderJobExecutionSpec option"

definition empty_next_job_response :: "string \<Rightarrow> NextJobResponse" where
  "empty_next_job_response request_id =
     \<lparr>next_request_id = request_id, next_job = None, next_data_plane = None,
      next_lease = None, next_execution = None\<rparr>"

text \<open>The execution states are finitely many, so a statement over all of them is decidable.\<close>

instantiation ProviderJobExecutionState :: enum
begin

definition enum_ProviderJobExecutionState :: "ProviderJobExecutionState list" where
  "enum_ProviderJobExecutionState =
     [Assigned, Accepted, Provisioning, Running, Uploading, Succeeded, Failed, Cancelled, ExpiredState]"

definition enum_all_ProviderJobExecutionState :: "(ProviderJobExecutionState \<Rightarrow> bool) \<Rightarrow> bool" where
  "enum_all_ProviderJobExecutionState P \<longleftrightarrow>
     list_all P (Enum.enum :: ProviderJobExecutionState list)"

definition enum_ex_ProviderJobExecutionState :: "(ProviderJobExecutionState \<Rightarrow> bool) \<Rightarrow> bool" where
  "enum_ex_ProviderJobExecutionState P \<longleftrightarrow>
     list_ex P (Enum.enum :: ProviderJobExecutionState list)"

lemma UNIV_ProviderJobExecutionState:
  "UNIV = set (Enum.enum :: ProviderJobExecutionState list)"
proof -
  have "s \<in> set (Enum.enum :: ProviderJobExecutionState list)" for s
    by (cases s) (simp_all add: enum_ProviderJobExecutionState_def)
  then show ?thesis by blast
qed

instance
proof
  show "(UNIV :: ProviderJobExecutionState set) = set Enum.enum"
    by (rule UNIV_ProviderJobExecutionState)
  show "distinct (Enum.enum :: ProviderJobExecutionState list)"
    by (simp add: enum_ProviderJobExecutionState_def)
  show "Enum.enum_all P \<longleftrightarrow> Ball UNIV P" for P :: "ProviderJobExecutionState \<Rightarrow> bool"
    unfolding enum_all_ProviderJobExecutionState_def UNIV_ProviderJobExecutionState
    by (simp add: list_all_iff)
  show "Enum.enum_ex P \<longleftrightarrow> Bex UNIV P" for P :: "ProviderJobExecutionState \<Rightarrow> bool"
    unfolding enum_ex_ProviderJobExecutionState_def UNIV_ProviderJobExecutionState
    by (simp add: list_ex_iff)
qed

end

end
