(* ===== verification/Job_Execution.thy ===== *)
theory Job_Execution
  imports Protocol
begin

text \<open>
  The execution contract between control plane and agent,
  \<^verbatim>\<open>burd-protocol/src/job_execution.rs\<close>: the execution state machine, the fixed policies, and the
  validators both sides run on an assignment and on a control response. An error is the message the
  code returns.
\<close>

section \<open>State machine and policies\<close>

fun can_transition_to :: "ProviderJobExecutionState \<Rightarrow> ProviderJobExecutionState \<Rightarrow> bool" where
  "can_transition_to Assigned next = (next \<in> {Accepted, Failed, Cancelled, ExpiredState})"
| "can_transition_to Accepted next = (next \<in> {Provisioning, Failed, Cancelled, ExpiredState})"
| "can_transition_to Provisioning next = (next \<in> {Running, Failed, Cancelled})"
| "can_transition_to Running next = (next \<in> {Uploading, Succeeded, Failed, Cancelled})"
| "can_transition_to Uploading next = (next \<in> {Succeeded, Failed, Cancelled})"
| "can_transition_to _ next = False"

definition is_terminal :: "ProviderJobExecutionState \<Rightarrow> bool" where
  "is_terminal s \<longleftrightarrow> s \<in> {Succeeded, Failed, Cancelled, ExpiredState}"

definition runtime_policy_v2 :: ProviderJobRuntimePolicy where
  "runtime_policy_v2 =
     \<lparr>rt_runtime_engine = ''docker'', rt_container_os = ''linux'', rt_gpu_backend = ''cuda'',
      rt_gpu_runtime = ''nvidia'', rt_command_source = ''approved_template'',
      rt_command_override_allowed = False, rt_entrypoint_override_allowed = False,
      rt_network_mode = ''none'', rt_read_only_rootfs = True, rt_no_new_privileges = True,
      rt_run_as_user = ''1000:1000'', rt_seccomp_profile = ''default'', rt_cap_drop = [''ALL''],
      rt_cpu_millis = 4000, rt_memory_mib = 8192, rt_pids_limit = 512, rt_shm_size_mib = 64\<rparr>"

definition cancellation_policy_v1 :: ProviderJobCancellationPolicy where
  "cancellation_policy_v1 =
     \<lparr>cp_poll_interval_seconds = 2, cp_max_control_silence_seconds = 30,
      cp_graceful_stop_seconds = 10, cp_force_kill_after_seconds = 15\<rparr>"

definition cleanup_policy_v1 :: ProviderJobCleanupPolicy where
  "cleanup_policy_v1 =
     \<lparr>cl_remove_container = True, cl_remove_working_directory = True,
      cl_clear_ephemeral_secrets = True, cl_revoke_data_plane_credential = True\<rparr>"

section \<open>Validators\<close>

definition validate_schema_versions ::
  "JobRecord \<Rightarrow> JobLeaseRecord \<Rightarrow> JobDataPlaneGrant \<Rightarrow> ProviderJobExecutionSpec \<Rightarrow> string + unit" where
  "validate_schema_versions job lease grant spec =
     ensure (\<not> (spec_schema_version spec \<noteq> PROVIDER_JOB_EXECUTION_SCHEMA_VERSION
         \<or> spec_policy_version spec \<noteq> PROVIDER_JOB_EXECUTION_POLICY_VERSION
         \<or> job_schema_version job \<noteq> JOB_SCHEMA_VERSION
         \<or> lease_schema_version lease \<noteq> JOB_LEASE_SCHEMA_VERSION
         \<or> grant_schema_version grant \<noteq> JOB_DATA_PLANE_GRANT_VERSION
         \<or> spec_job_schema_version spec \<noteq> job_schema_version job
         \<or> spec_lease_schema_version spec \<noteq> lease_schema_version lease
         \<or> spec_data_plane_schema_version spec \<noteq> grant_schema_version grant))
       ''execution bundle schema version mismatch''"

definition validate_identity_bindings ::
  "JobRecord \<Rightarrow> JobLeaseRecord \<Rightarrow> JobDataPlaneGrant \<Rightarrow> ProviderJobExecutionSpec \<Rightarrow> string + unit" where
  "validate_identity_bindings job lease grant spec =
     ensure (\<not> (job_id job \<noteq> lease_job_id lease
         \<or> job_id job \<noteq> grant_job_id grant
         \<or> job_id job \<noteq> spec_job_id spec
         \<or> lease_id lease \<noteq> spec_lease_id spec
         \<or> job_provider_id job \<noteq> lease_provider_id lease
         \<or> job_provider_id job \<noteq> spec_provider_id spec
         \<or> job_device_id job \<noteq> lease_device_id lease
         \<or> job_device_id job \<noteq> spec_device_id spec
         \<or> job_session_id job \<noteq> lease_session_id lease
         \<or> job_session_id job \<noteq> spec_session_id spec))
       ''execution bundle identity mismatch''"

definition validate_digest_pinned_image :: "string \<Rightarrow> string + unit" where
  "validate_digest_pinned_image image_ref =
     (case rsplit_once image_ref ''@sha256:'' of
        None \<Rightarrow> Inl ''execution image must be digest-pinned''
      | Some (repository, digest) \<Rightarrow>
          ensure (\<not> (repository = [] \<or> length digest \<noteq> 64 \<or> \<not> list_all is_ascii_hexdigit digest))
            ''execution image digest is invalid'')"

definition validate_workload_bindings ::
  "JobRecord \<Rightarrow> JobLeaseRecord \<Rightarrow> ProviderJobExecutionSpec \<Rightarrow> string + unit" where
  "validate_workload_bindings job lease spec =
     bind_res (ensure (\<not> (job_workload_type job \<noteq> lease_workload_type lease
         \<or> job_workload_type job \<noteq> spec_workload_type spec
         \<or> job_template_id job \<noteq> spec_template_id spec
         \<or> job_image_ref job \<noteq> spec_image_ref spec
         \<or> job_gpu_uuid job \<noteq> lease_gpu_uuid lease
         \<or> job_gpu_uuid job \<noteq> spec_gpu_uuid spec
         \<or> job_backend job \<noteq> spec_backend spec
         \<or> job_policy_id job \<noteq> lease_policy_id lease
         \<or> job_policy_id job \<noteq> spec_policy_id spec
         \<or> job_policy_version job \<noteq> lease_policy_version lease
         \<or> job_policy_version job \<noteq> spec_workload_policy_version spec))
       ''execution bundle workload mismatch'') (\<lambda>_.
     bind_res (ensure (job_template_id job \<in> set PROVIDER_JOB_APPROVED_TEMPLATES)
       ''execution template is not approved'') (\<lambda>_.
     bind_res (ensure (job_backend job = ''cuda'') ''execution backend must be cuda'') (\<lambda>_.
     validate_digest_pinned_image (job_image_ref job))))"

definition validate_assignment ::
  "JobRecord \<Rightarrow> JobLeaseRecord \<Rightarrow> JobDataPlaneGrant \<Rightarrow> ProviderJobExecutionSpec \<Rightarrow> string + unit" where
  "validate_assignment job lease grant spec =
     bind_res (ensure (\<not> (job_status job \<noteq> ''assigned'' \<or> lease_status lease \<noteq> ''offered''
         \<or> spec_initial_state spec \<noteq> Assigned))
       ''execution bundle is not an offered assignment'') (\<lambda>_.
     bind_res (ensure (\<not> (job_timeout_seconds job = 0
         \<or> job_timeout_seconds job \<noteq> spec_timeout_seconds spec))
       ''execution timeout mismatch'') (\<lambda>_.
     bind_res (ensure (\<not> (lease_expires_at lease \<noteq> spec_lease_expires_at spec
         \<or> grant_credential_expires_at grant \<noteq> spec_data_plane_credential_expires_at spec))
       ''execution expiry mismatch'') (\<lambda>_.
     ensure (\<not> (grant_credential grant = [] \<or> length (grant_credential grant) > 512
         \<or> \<not> list_all is_ascii (grant_credential grant)
         \<or> list_ex is_ascii_whitespace (grant_credential grant)))
       ''data-plane credential is invalid'')))"

definition validate_provider_job_runtime_policy :: "ProviderJobRuntimePolicy \<Rightarrow> string + unit" where
  "validate_provider_job_runtime_policy policy =
     ensure (\<not> (rt_runtime_engine policy \<noteq> ''docker''
         \<or> rt_container_os policy \<noteq> ''linux''
         \<or> rt_gpu_backend policy \<noteq> ''cuda''
         \<or> rt_gpu_runtime policy \<noteq> ''nvidia''
         \<or> rt_command_source policy \<noteq> ''approved_template''
         \<or> rt_command_override_allowed policy
         \<or> rt_entrypoint_override_allowed policy
         \<or> rt_network_mode policy \<noteq> ''none''
         \<or> \<not> rt_read_only_rootfs policy
         \<or> \<not> rt_no_new_privileges policy
         \<or> rt_run_as_user policy \<noteq> ''1000:1000''
         \<or> rt_seccomp_profile policy \<noteq> ''default''
         \<or> rt_cap_drop policy \<noteq> [''ALL'']
         \<or> rt_cpu_millis policy = 0
         \<or> rt_memory_mib policy = 0
         \<or> rt_pids_limit policy = 0
         \<or> rt_shm_size_mib policy = 0))
       ''provider runtime policy is unsafe''"

definition validate_cancellation_policy :: "ProviderJobCancellationPolicy \<Rightarrow> string + unit" where
  "validate_cancellation_policy policy =
     ensure (\<not> (cp_poll_interval_seconds policy = 0
         \<or> cp_max_control_silence_seconds policy < cp_poll_interval_seconds policy
         \<or> cp_graceful_stop_seconds policy = 0
         \<or> cp_force_kill_after_seconds policy < cp_graceful_stop_seconds policy))
       ''provider cancellation policy is invalid''"

definition validate_cleanup_policy :: "ProviderJobCleanupPolicy \<Rightarrow> string + unit" where
  "validate_cleanup_policy policy =
     ensure (\<not> (\<not> cl_remove_container policy
         \<or> \<not> cl_remove_working_directory policy
         \<or> \<not> cl_clear_ephemeral_secrets policy
         \<or> \<not> cl_revoke_data_plane_credential policy))
       ''provider cleanup policy is incomplete''"

definition data_plane_path :: "string \<Rightarrow> string \<Rightarrow> string \<Rightarrow> string \<Rightarrow> string" where
  "data_plane_path job collection artifact action =
     ''/v1/jobs/'' @ job @ ''/'' @ collection @ ''/'' @ artifact @ ''/'' @ action"

definition validate_data_plane_url ::
  "JobRecord \<Rightarrow> JobDataPlaneGrant \<Rightarrow> string \<Rightarrow> string \<Rightarrow> string \<Rightarrow> string set \<Rightarrow> JobDataPlaneUrl \<Rightarrow>
     string + unit" where
  "validate_data_plane_url job grant method collection action expected_ids url =
     (let expected_path = data_plane_path (job_id job) collection (url_artifact_id url) action in
      ensure (\<not> (url_method url \<noteq> method
          \<or> url_artifact_id url \<notin> expected_ids
          \<or> url_url url \<noteq> expected_path
          \<or> url_expires_at url \<noteq> grant_credential_expires_at grant
          \<or> sublist (grant_credential grant) (url_url url)))
        ''data-plane URL is not bound to the job'')"

definition validate_data_plane_urls :: "JobRecord \<Rightarrow> JobDataPlaneGrant \<Rightarrow> string + unit" where
  "validate_data_plane_urls job grant =
     (let input_ids = set (map artifact_id (job_input_artifacts job));
          output_ids = set (map artifact_id (job_expected_outputs job)) in
      bind_res (ensure (\<not> (length (grant_download_urls grant) \<noteq> card input_ids
          \<or> length (grant_upload_urls grant) \<noteq> card output_ids))
        ''data-plane artifact count mismatch'') (\<lambda>_.
      bind_res (try_each (validate_data_plane_url job grant ''GET'' ''artifacts'' ''download'' input_ids)
        (grant_download_urls grant)) (\<lambda>_.
      try_each (validate_data_plane_url job grant ''PUT'' ''results'' ''upload'' output_ids)
        (grant_upload_urls grant))))"

definition validate_provider_job_execution_bundle ::
  "JobRecord \<Rightarrow> JobLeaseRecord \<Rightarrow> JobDataPlaneGrant \<Rightarrow> ProviderJobExecutionSpec \<Rightarrow> string + unit" where
  "validate_provider_job_execution_bundle job lease grant spec =
     bind_res (validate_schema_versions job lease grant spec) (\<lambda>_.
     bind_res (validate_identity_bindings job lease grant spec) (\<lambda>_.
     bind_res (validate_workload_bindings job lease spec) (\<lambda>_.
     bind_res (validate_assignment job lease grant spec) (\<lambda>_.
     bind_res (validate_provider_job_runtime_policy (spec_runtime spec)) (\<lambda>_.
     bind_res (validate_cancellation_policy (spec_cancellation spec)) (\<lambda>_.
     bind_res (validate_cleanup_policy (spec_cleanup spec)) (\<lambda>_.
     validate_data_plane_urls job grant)))))))"

definition validate_next_job_execution_response :: "NextJobResponse \<Rightarrow> string + unit" where
  "validate_next_job_execution_response response =
     (case (next_job response, next_data_plane response, next_lease response, next_execution response) of
        (None, None, None, None) \<Rightarrow> Inr ()
      | (Some job, Some grant, Some lease, Some spec) \<Rightarrow>
          validate_provider_job_execution_bundle job lease grant spec
      | _ \<Rightarrow> Inl (''next-job response must contain either no assignment or ''
                 @ ''a complete execution bundle''))"

definition is_control_reason_code :: "string \<Rightarrow> bool" where
  "is_control_reason_code value \<longleftrightarrow> value \<noteq> [] \<and> length value \<le> 64 \<and>
     list_all (\<lambda>c. is_ascii_lowercase c \<or> is_ascii_digit c \<or> c = CHR ''_'') value"

definition validate_job_execution_control_response ::
  "externs \<Rightarrow> JobExecutionControlResponse \<Rightarrow> string \<Rightarrow> string \<Rightarrow> string + unit" where
  "validate_job_execution_control_response X response job lease =
     bind_res (ensure (\<not> (ctl_schema_version response \<noteq> JOB_EXECUTION_CONTROL_SCHEMA_VERSION
         \<or> ctl_job_id response \<noteq> job
         \<or> ctl_lease_id response \<noteq> lease
         \<or> trim_is_empty (ctl_request_id response)
         \<or> parse_from_rfc3339 X (ctl_server_time response) = None))
       ''job execution control response binding is invalid'') (\<lambda>_.
     (case ctl_directive response of
        Continue \<Rightarrow>
          ensure (ctl_reason_code response = None) ''continue directive cannot include a reason code''
      | Cancel \<Rightarrow>
          ensure (case ctl_reason_code response of None \<Rightarrow> False | Some r \<Rightarrow> is_control_reason_code r)
            ''cancel directive requires a bounded reason code''))"

section \<open>Lemmas\<close>

lemmas bundle_validators =
  validate_provider_job_execution_bundle_def validate_schema_versions_def
  validate_identity_bindings_def validate_workload_bindings_def validate_assignment_def
  validate_provider_job_runtime_policy_def validate_cancellation_policy_def
  validate_cleanup_policy_def validate_data_plane_urls_def

text \<open>How far an execution has come: every transition goes strictly forward.\<close>

fun stage :: "ProviderJobExecutionState \<Rightarrow> nat" where
  "stage Assigned = 0"
| "stage Accepted = 1"
| "stage Provisioning = 2"
| "stage Running = 3"
| "stage Uploading = 4"
| "stage _ = 5"

lemma can_transition_to_stage: "can_transition_to s t \<Longrightarrow> stage s < stage t"
  by (cases s) auto

lemma stage_le: "stage s \<le> 5"
  by (cases s) auto

text \<open>A run of the machine: each state follows from the one before it.\<close>

fun transitions :: "ProviderJobExecutionState \<Rightarrow> ProviderJobExecutionState list \<Rightarrow> bool" where
  "transitions s [] = True"
| "transitions s (t # ts) = (can_transition_to s t \<and> transitions t ts)"

lemma transitions_length: "transitions s ts \<Longrightarrow> length ts \<le> 5 - stage s"
proof (induction ts arbitrary: s)
  case Nil
  then show ?case by simp
next
  case (Cons t ts)
  then have "length ts \<le> 5 - stage t" "stage s < stage t"
    by (auto dest: can_transition_to_stage)
  with stage_le[of t] show ?case by simp
qed

lemma transitions_append:
  "transitions s (ts @ us) \<longleftrightarrow> transitions s ts \<and> transitions (last (s # ts)) us"
  by (induction ts arbitrary: s) auto

lemma transitions_terminal: "is_terminal s \<Longrightarrow> transitions s ts \<longleftrightarrow> ts = []"
  by (cases ts; cases s) (auto simp: is_terminal_def)

lemma succeeds_from_uploading:
  "transitions Uploading ts \<Longrightarrow> last (Uploading # ts) = Succeeded \<Longrightarrow> ts = [Succeeded]"
  by (cases ts) (auto simp: transitions_terminal is_terminal_def)

lemma succeeds_from_running:
  "transitions Running ts \<Longrightarrow> last (Running # ts) = Succeeded \<Longrightarrow>
     ts = [Succeeded] \<or> ts = [Uploading, Succeeded]"
  by (cases ts) (auto simp: transitions_terminal is_terminal_def dest: succeeds_from_uploading
      split: if_splits)

lemma succeeds_from_assigned:
  assumes "transitions Assigned ts" "last (Assigned # ts) = Succeeded"
  shows "\<exists>us. ts = [Accepted, Provisioning, Running] @ us \<and> transitions Running us \<and>
           last (Running # us) = Succeeded"
proof -
  obtain us where us: "ts = Accepted # us" "transitions Accepted us" "last (Accepted # us) = Succeeded"
    using assms by (cases ts) (auto simp: transitions_terminal is_terminal_def)
  obtain vs where vs: "us = Provisioning # vs" "transitions Provisioning vs"
      "last (Provisioning # vs) = Succeeded"
    using us(2,3) by (cases us) (auto simp: transitions_terminal is_terminal_def)
  obtain ws where "vs = Running # ws" "transitions Running ws" "last (Running # ws) = Succeeded"
    using vs(2,3) by (cases vs) (auto simp: transitions_terminal is_terminal_def)
  with us vs show ?thesis by simp
qed

section \<open>Properties\<close>



text \<open>
  No execution succeeds without having been accepted, provisioned and run: the successful
  runs of an assignment are exactly the two that go through these states in this order, with or
  without an upload phase.
\<close>

theorem execution_success_paths:
  "transitions Assigned ts \<and> last (Assigned # ts) = Succeeded \<longleftrightarrow>
     ts = [Accepted, Provisioning, Running, Succeeded] \<or>
     ts = [Accepted, Provisioning, Running, Uploading, Succeeded]"
  by (auto dest!: succeeds_from_assigned succeeds_from_running)

text \<open>
  A control response is accepted by the agent only if it is bound to its own job and lease,
  and a directive to continue never carries a reason while a directive to cancel always carries one of
  at most 64 bytes of lower-case letters, digits and underscores.
\<close>

theorem control_response_bound:
  assumes "validate_job_execution_control_response X r job lease = Inr u"
  shows "ctl_job_id r = job \<and> ctl_lease_id r = lease \<and>
    (ctl_directive r = Continue \<longrightarrow> ctl_reason_code r = None) \<and>
    (ctl_directive r = Cancel \<longrightarrow>
      (\<exists>c. ctl_reason_code r = Some c \<and> 0 < length c \<and> length c \<le> 64))"
  using assms
  by (auto simp: validate_job_execution_control_response_def is_control_reason_code_def
      split: if_splits JobExecutionDirective.splits option.splits)

function bits :: "int \<Rightarrow> string" where
  "bits n = (if n \<le> 0 then [] else (if n mod 2 = 0 then CHR ''0'' else CHR ''1'') # bits (n div 2))"
  by pat_completeness auto
termination
  by (relation "measure nat") auto

fun unbits :: "string \<Rightarrow> int" where
  "unbits [] = 0"
| "unbits (c # cs) = (if c = CHR ''1'' then 1 else 0) + 2 * unbits cs"

declare bits.simps [simp del]

lemma unbits_bits [simp]: "unbits (bits n) = max 0 n"
proof (induction n rule: bits.induct)
  case (1 n)
  show ?case
  proof (cases "n \<le> 0")
    case False
    then have "unbits (bits n) = (if n mod 2 = 0 then 0 else 1) + 2 * (n div 2)"
      using 1 bits.simps[of n] by simp
    moreover have "(if n mod 2 = 0 then 0 else 1) = n mod 2" by simp
    ultimately show ?thesis using False mult_div_mod_eq[of 2 n] by linarith
  qed (simp add: bits.simps)
qed

definition example_externs :: externs where
  "example_externs =
     \<lparr>parse_from_rfc3339 = (\<lambda>s. case s of [] \<Rightarrow> None
        | c # r \<Rightarrow> Some (if c = CHR ''-'' then - unbits r else unbits r)),
      to_rfc3339 = (\<lambda>t. (if t < 0 then CHR ''-'' else CHR ''+'') # bits \<bar>t\<bar>),
      sha256_hex = (\<lambda>s. ''h'' @ s),
      collation_key = (\<lambda>s. char_of (length s) # rev s)\<rparr>"

lemma example_round_trip [simp]: "parse_from_rfc3339 example_externs (to_rfc3339 example_externs t) = Some t"
  by (simp add: example_externs_def)

theorem control_response_bound_witness:
  "ctl_reason_code \<lparr>ctl_schema_version = JOB_EXECUTION_CONTROL_SCHEMA_VERSION, ctl_request_id = ''r'',
      ctl_job_id = ''j'', ctl_lease_id = ''l'', ctl_directive = Cancel,
      ctl_reason_code = Some ''job_cancelled'', ctl_server_time = ''t''\<rparr> \<noteq> None"
proof -
  let ?r = "\<lparr>ctl_schema_version = JOB_EXECUTION_CONTROL_SCHEMA_VERSION, ctl_request_id = ''r'',
      ctl_job_id = ''j'', ctl_lease_id = ''l'', ctl_directive = Cancel,
      ctl_reason_code = Some ''job_cancelled'', ctl_server_time = ''t''\<rparr>"
  have "validate_job_execution_control_response example_externs ?r ''j'' ''l'' = Inr ()"
    by (simp add: validate_job_execution_control_response_def is_control_reason_code_def
        example_externs_def ascii_simps)
  from control_response_bound[OF this] show ?thesis by auto
qed

end
