(* ===== verification/Validation.thy ===== *)
theory Validation
  imports Job_Execution
begin

text \<open>
  The validation of job requests in \<^verbatim>\<open>burd-control-plane/src/job_control.rs\<close>: identifiers, artifacts
  and transfer manifests, image references, secrets in JSON, and the requests that create a job, report
  an event and submit a result. \<open>scheduler.rs\<close>, \<open>metering.rs\<close> and \<open>billing.rs\<close> contain the same
  \<open>validate_id\<close> and \<open>is_bounded_ascii\<close>.
\<close>

definition DEFAULT_JOB_TIMEOUT_SECONDS :: u32 where
  "DEFAULT_JOB_TIMEOUT_SECONDS = 3600"

definition MAX_JOB_TIMEOUT_SECONDS :: u32 where
  "MAX_JOB_TIMEOUT_SECONDS = 24 * 60 * 60"

definition MAX_JOB_ARTIFACTS :: nat where
  "MAX_JOB_ARTIFACTS = 32"

definition MAX_JOB_MESSAGE_LEN :: nat where
  "MAX_JOB_MESSAGE_LEN = 512"

definition MAX_TRANSFER_BYTES :: nat where
  "MAX_TRANSFER_BYTES = 10 * 1024 * 1024 * 1024"

section \<open>Identifiers and text\<close>

definition id_char :: "char \<Rightarrow> bool" where
  [ascii_simps]: "id_char c \<longleftrightarrow> is_ascii_alphanumeric c \<or> c \<in> {CHR ''_'', CHR ''-'', CHR ''.'', CHR '':''}"

definition valid_id :: "string \<Rightarrow> nat \<Rightarrow> bool" where
  "valid_id value maximum_len \<longleftrightarrow>
     \<not> trim_is_empty value \<and> length value \<le> maximum_len \<and> list_all id_char value"

definition validate_id :: "string \<Rightarrow> string \<Rightarrow> nat \<Rightarrow> unit res" where
  "validate_id label value maximum_len =
     ensure (valid_id value maximum_len) (Invalid (label @ '' must be a short ASCII identifier''))"

definition is_bounded_ascii :: "string \<Rightarrow> nat \<Rightarrow> bool" where
  "is_bounded_ascii value maximum_len \<longleftrightarrow>
     \<not> trim_is_empty value \<and> length value \<le> maximum_len \<and>
     list_all (\<lambda>c. is_ascii c \<and> \<not> is_ascii_control c) value"

definition contains_secret_text :: "string \<Rightarrow> bool" where
  "contains_secret_text value =
     (let lower = to_ascii_lowercase value;
          exact_or_suffix_token =
            lower = ''token'' \<or> suffix ''_token'' lower \<or> suffix ''-token'' lower \<or>
            suffix ''.token'' lower
      in exact_or_suffix_token \<or>
         list_ex (\<lambda>needle. sublist needle lower)
           [''password'', ''secret'', ''private_key'', ''api_key'', ''authorization'', ''credential''])"

fun contains_secret_field :: "json \<Rightarrow> bool" where
  "contains_secret_field (JObject members) =
     list_ex (\<lambda>(key, value). contains_secret_text key \<or> contains_secret_field value) members"
| "contains_secret_field (JArray items) = list_ex contains_secret_field items"
| "contains_secret_field (JString value) = contains_secret_text value"
| "contains_secret_field _ = False"

definition is_sha256_digest :: "string \<Rightarrow> bool" where
  "is_sha256_digest value \<longleftrightarrow>
     prefix ''sha256:'' value \<and>
     (let hex = drop 7 value in length hex = 64 \<and> list_all is_ascii_hexdigit hex)"

definition validate_image_ref :: "string \<Rightarrow> unit res" where
  "validate_image_ref value =
     (let digest = map_option snd (rsplit_once value ''@'') in
      ensure (\<not> (\<not> is_bounded_ascii value 256 \<or> contains_secret_text value
          \<or> \<not> (case digest of None \<Rightarrow> False | Some d \<Rightarrow> is_sha256_digest d)))
        (Invalid ''job image_ref must be a digest-pinned, redacted image reference''))"

definition validate_progress :: "f64 option \<Rightarrow> unit res" where
  "validate_progress value =
     ensure (case value of
         None \<Rightarrow> True
       | Some (F64 x) \<Rightarrow> 0 \<le> x \<and> x \<le> 100
       | Some _ \<Rightarrow> False)
       (Invalid ''progress_percent must be finite and between 0 and 100'')"

definition validate_job_message :: "string option \<Rightarrow> unit res" where
  "validate_job_message value =
     ensure (case value of None \<Rightarrow> True | Some m \<Rightarrow> is_bounded_ascii m MAX_JOB_MESSAGE_LEN)
       (Invalid ''job message must be short printable ASCII'')"

definition validate_timestamp :: "externs \<Rightarrow> string \<Rightarrow> unit res" where
  "validate_timestamp X value =
     ensure (parse_from_rfc3339 X value \<noteq> None) (Invalid ''invalid timestamp'')"

definition is_terminal_status :: "string \<Rightarrow> bool" where
  "is_terminal_status status \<longleftrightarrow> status \<in> {''succeeded'', ''failed'', ''cancelled''}"

text \<open>
  \<open>normalized_json_object\<close> returns the text of the value; the model returns the value whose text it
  is, the empty object for \<open>null\<close>.
\<close>

definition normalized_json_object :: "json \<Rightarrow> string \<Rightarrow> json res" where
  "normalized_json_object value label =
     (case value of
        JNull \<Rightarrow> Inr (JObject [])
      | JObject members \<Rightarrow>
          if contains_secret_field value
          then Inl (Invalid (label @ '' must not contain secret fields''))
          else Inr value
      | _ \<Rightarrow> Inl (Invalid (label @ '' must be a JSON object'')))"

section \<open>Artifacts\<close>

definition validate_artifact :: "JobArtifact \<Rightarrow> unit res" where
  "validate_artifact a =
     bind_res (validate_id ''artifact_id'' (artifact_id a) 128) (\<lambda>_.
     bind_res (ensure (\<not> prefix ''.'' (artifact_id a))
       (Invalid ''artifact_id must not use a reserved hidden name'')) (\<lambda>_.
     bind_res (validate_id ''artifact_role'' (art_role a) 64) (\<lambda>_.
     bind_res (ensure (\<not> (\<not> is_bounded_ascii (art_object_key a) 256
         \<or> sublist ''..'' (art_object_key a)
         \<or> sublist ''://'' (art_object_key a)
         \<or> prefix ''/'' (art_object_key a)
         \<or> contains_secret_text (art_object_key a)))
       (Invalid ''artifact object_key must be a redacted object-storage key'')) (\<lambda>_.
     bind_res (ensure (case art_sha256 a of None \<Rightarrow> True | Some d \<Rightarrow> is_sha256_digest d)
       (Invalid ''artifact sha256 must use sha256:<64 hex> format'')) (\<lambda>_.
     bind_res (ensure (case art_size_bytes a of None \<Rightarrow> True | Some n \<Rightarrow> unat n \<le> MAX_TRANSFER_BYTES)
       (Invalid ''artifact size_bytes exceeds BN-13 limit'')) (\<lambda>_.
     ensure (case art_content_type a of None \<Rightarrow> True | Some c \<Rightarrow> is_bounded_ascii c 128)
       (Invalid ''artifact content_type must be short printable ASCII'')))))))"

definition validate_artifacts :: "JobArtifact list \<Rightarrow> string \<Rightarrow> unit res" where
  "validate_artifacts artifacts label =
     bind_res (ensure (length artifacts \<le> MAX_JOB_ARTIFACTS)
       (Invalid (label @ '' exceeds maximum artifact count''))) (\<lambda>_.
     try_each validate_artifact artifacts)"

text \<open>
  The two loops of \<open>validate_transfer_manifests\<close>: \<open>ids\<close> is the set of identifiers seen, \<open>total\<close>
  the sum of the sizes, which must stay within the limit (so the checked addition never overflows
  unnoticed).
\<close>

fun check_manifest ::
  "(JobArtifact \<Rightarrow> bool) \<Rightarrow> session_error \<Rightarrow> session_error \<Rightarrow> string list \<Rightarrow> nat \<Rightarrow> JobArtifact list \<Rightarrow>
     unit res" where
  "check_manifest good bad_entry too_big ids acc [] = Inr ()"
| "check_manifest good bad_entry too_big ids acc (a # as) =
     (if \<not> good a \<or> art_size_bytes a = None \<or> artifact_id a \<in> set ids then Inl bad_entry
      else let sum' = acc + unat (the (art_size_bytes a)) in
        if sum' < 2 ^ 64 \<and> sum' \<le> MAX_TRANSFER_BYTES
        then check_manifest good bad_entry too_big (artifact_id a # ids) sum' as
        else Inl too_big)"

definition validate_transfer_manifests :: "JobArtifact list \<Rightarrow> JobArtifact list \<Rightarrow> unit res" where
  "validate_transfer_manifests inputs outputs =
     bind_res (check_manifest (\<lambda>a. art_role a = ''input'' \<and> art_sha256 a \<noteq> None)
       (Invalid ''input artifacts require unique IDs, input role, size_bytes, and sha256'')
       (Invalid ''total input artifact size exceeds limit'') [] 0 inputs) (\<lambda>_.
     check_manifest (\<lambda>a. art_role a = ''output'')
       (Invalid ''expected outputs require unique IDs, output role, and a size_bytes limit'')
       (Invalid ''total output artifact size exceeds limit'') [] 0 outputs)"

section \<open>Requests\<close>

definition validate_create_job_request :: "CreateJobRequest \<Rightarrow> unit res" where
  "validate_create_job_request r =
     bind_res (case cr_client_job_id r of None \<Rightarrow> Inr () | Some c \<Rightarrow> validate_id ''client_job_id'' c 128) (\<lambda>_.
     bind_res (try_each (\<lambda>(label, value, max_len). validate_id label value max_len)
       [(''provider_id'', cr_provider_id r, 128),
        (''device_id'', cr_device_id r, 128),
        (''session_id'', cr_session_id r, 128),
        (''workload_type'', cr_workload_type r, 96),
        (''template_id'', cr_template_id r, 64),
        (''gpu_uuid'', cr_gpu_uuid r, 128),
        (''backend'', cr_backend r, 64)]) (\<lambda>_.
     bind_res (ensure (cr_template_id r \<in> set PROVIDER_JOB_APPROVED_TEMPLATES)
       (Invalid ''job template is not approved'')) (\<lambda>_.
     bind_res (validate_image_ref (cr_image_ref r)) (\<lambda>_.
     bind_res (ensure (cr_backend r = ''cuda'')
       (Invalid ''BN-13 jobs initially require cuda backend'')) (\<lambda>_.
     bind_res (ensure (case cr_timeout_seconds r of None \<Rightarrow> True
         | Some t \<Rightarrow> \<not> (t = 0 \<or> t > MAX_JOB_TIMEOUT_SECONDS))
       (Invalid ''job timeout_seconds is outside allowed range'')) (\<lambda>_.
     bind_res (case cr_policy_id r of None \<Rightarrow> Inr () | Some p \<Rightarrow> validate_id ''policy_id'' p 128) (\<lambda>_.
     bind_res (case cr_policy_version r of None \<Rightarrow> Inr ()
         | Some v \<Rightarrow> validate_id ''policy_version'' v 64) (\<lambda>_.
     bind_res (normalized_json_object (cr_parameters r) ''job parameters'') (\<lambda>_.
     bind_res (validate_artifacts (cr_input_artifacts r) ''input_artifacts'') (\<lambda>_.
     bind_res (validate_artifacts (cr_expected_outputs r) ''expected_outputs'') (\<lambda>_.
     validate_transfer_manifests (cr_input_artifacts r) (cr_expected_outputs r))))))))))))"

definition validate_job_event_request :: "externs \<Rightarrow> JobEventRequest \<Rightarrow> unit res" where
  "validate_job_event_request X r =
     bind_res (ensure (\<not> (er_sequence r = 0 \<or> int (unat (er_sequence r)) > i64_max))
       (Invalid ''job event sequence must be between 1 and i64::MAX'')) (\<lambda>_.
     bind_res (ensure (er_event_type r \<in> {''provisioning'', ''started'', ''running'', ''uploading'',
         ''progress'', ''log'', ''cleanup_completed''})
       (Invalid ''unsupported job event_type'')) (\<lambda>_.
     bind_res (validate_progress (er_progress_percent r)) (\<lambda>_.
     bind_res (validate_job_message (er_message r)) (\<lambda>_.
     bind_res (normalized_json_object (er_metadata r) ''job event metadata'') (\<lambda>_.
     (case er_occurred_at r of None \<Rightarrow> Inr () | Some t \<Rightarrow> validate_timestamp X t))))))"

definition validate_job_result_request :: "externs \<Rightarrow> SubmitJobResultRequest \<Rightarrow> unit res" where
  "validate_job_result_request X r =
     bind_res (ensure (rr_status r \<in> {''succeeded'', ''failed''})
       (Invalid ''job result status must be succeeded or failed'')) (\<lambda>_.
     bind_res (validate_artifacts (rr_result_artifacts r) ''result_artifacts'') (\<lambda>_.
     bind_res (normalized_json_object (rr_metrics r) ''job result metrics'') (\<lambda>_.
     bind_res (case rr_error_code r of None \<Rightarrow> Inr () | Some c \<Rightarrow> validate_id ''error_code'' c 64) (\<lambda>_.
     bind_res (validate_job_message (rr_error_message r)) (\<lambda>_.
     (case rr_completed_at r of None \<Rightarrow> Inr () | Some t \<Rightarrow> validate_timestamp X t))))))"

section \<open>Lemmas\<close>

lemma validate_id_ok [simp]: "validate_id label v n = Inr u \<longleftrightarrow> valid_id v n"
  by (simp add: validate_id_def)

lemma valid_id_mono: "valid_id v n \<Longrightarrow> n \<le> m \<Longrightarrow> valid_id v m"
  by (simp add: valid_id_def)

lemma check_manifest_ok:
  assumes "check_manifest good e1 e2 ids acc as = Inr u"
  shows "distinct (map artifact_id as)" "set ids \<inter> artifact_id ` set as = {}"
    "\<forall>a \<in> set as. good a \<and> (\<exists>n. art_size_bytes a = Some n)"
    "as \<noteq> [] \<Longrightarrow> acc + (\<Sum>a \<leftarrow> as. unat (the (art_size_bytes a))) \<le> MAX_TRANSFER_BYTES"
  using assms
proof (induction as arbitrary: ids acc)
  case Nil
  {
    case 1 then show ?case by simp
  next
    case 2 then show ?case by simp
  next
    case 3 then show ?case by simp
  next
    case 4 then show ?case by simp
  }
next
  case (Cons a as)
  {
    case 1 then show ?case using Cons.IH(1,2) by (fastforce simp: Let_def split: if_splits)
  next
    case 2 then show ?case using Cons.IH(2) by (fastforce simp: Let_def split: if_splits)
  next
    case 3 then show ?case using Cons.IH(3) by (auto simp: Let_def split: if_splits)
  next
    case 4
    then show ?case
      by (cases "as = []")
        (auto simp: Let_def add.assoc[symmetric] split: if_splits intro: Cons.IH(4))
  }
qed

lemma transfer_manifests_ok:
  assumes "validate_transfer_manifests inputs outputs = Inr u"
  shows "distinct (map artifact_id inputs)" "distinct (map artifact_id outputs)"
    "\<forall>a \<in> set inputs. art_role a = ''input'' \<and> art_sha256 a \<noteq> None \<and> art_size_bytes a \<noteq> None"
    "\<forall>a \<in> set outputs. art_role a = ''output'' \<and> art_size_bytes a \<noteq> None"
  using assms unfolding validate_transfer_manifests_def
  by (auto simp: result_simps dest: check_manifest_ok(1,3))

text \<open>What a digest-pinned reference with a repository means to the agent's validator.\<close>

lemma sha256_digest_not_at: "is_sha256_digest d \<Longrightarrow> CHR ''@'' \<notin> set d"
proof
  assume d: "is_sha256_digest d" and at: "CHR ''@'' \<in> set d"
  obtain hex where hex: "d = ''sha256:'' @ hex" "list_all is_ascii_hexdigit hex"
    using d by (auto simp: is_sha256_digest_def prefix_def Let_def)
  with at have "CHR ''@'' \<in> set hex" by auto
  with hex(2) show False by (auto simp: list_all_iff ascii_simps)
qed

lemma rsplit_once_last:
  assumes "d = x # d'" "x \<notin> set d'" "x \<notin> set b"
  shows "rsplit_once (a @ d @ b) d = Some (a, b)"
proof -
  have none: "rsplit_once s d = None" if "x \<notin> set s" for s
    using that assms(1) by (induction s) (auto split: option.splits simp: prefix_def)
  have base: "rsplit_once (d @ b) d = Some ([], b)"
    using none[of "d' @ b"] assms by (simp add: prefix_def)
  show ?thesis by (induction a) (auto simp: base)
qed

lemma digest_pinned_image_ok:
  assumes "validate_image_ref v = Inr u"
  shows "\<exists>repository digest. v = repository @ ''@sha256:'' @ digest \<and> length digest = 64 \<and>
    validate_digest_pinned_image v =
      (if repository = [] then Inl ''execution image digest is invalid'' else Inr ())"
proof -
  obtain r d where rd: "rsplit_once v ''@'' = Some (r, d)" "is_sha256_digest d"
    using assms by (auto simp: validate_image_ref_def Let_def split: option.splits)
  obtain hex where hex: "d = ''sha256:'' @ hex" "length hex = 64" "list_all is_ascii_hexdigit hex"
    using rd(2) by (auto simp: is_sha256_digest_def prefix_def Let_def)
  have v: "v = r @ ''@sha256:'' @ hex" using rsplit_once_Some[OF rd(1)] hex(1) by simp
  have "CHR ''@'' \<notin> set hex" using sha256_digest_not_at[OF rd(2)] hex(1) by auto
  then have "rsplit_once v ''@sha256:'' = Some (r, hex)"
    using rsplit_once_last[of "''@sha256:''" "CHR ''@''" "''sha256:''" hex r] v by simp
  then show ?thesis using v hex by (auto simp: validate_digest_pinned_image_def ensure_def)
qed

section \<open>Properties\<close>



end
