(* ===== verification/Negotiation.thy ===== *)
theory Negotiation
  imports Protocol
begin

text \<open>
  The negotiation of the agent control protocol, \<^verbatim>\<open>burd-control-plane/src/protocol_negotiation.rs\<close>:
  what a device declares when it starts or resumes a session, the outcome the control plane persists
  with the session, and the check that every compute operation makes on the persisted outcome.
  The \<open>semver\<close> crate is a parameter: which texts are versions, which are ranges, and which version
  is in which range.
\<close>

record semver =
  version_parses :: "string \<Rightarrow> bool"
  range_parses :: "string \<Rightarrow> bool"
  range_matches :: "string \<Rightarrow> string \<Rightarrow> bool"

definition AGENT_CONTROL_PROTOCOL_VERSION :: string where
  "AGENT_CONTROL_PROTOCOL_VERSION = ''burd-agent-control-protocol-v1''"

definition AGENT_CONTROL_PROTOCOL_POLICY_VERSION :: string where
  "AGENT_CONTROL_PROTOCOL_POLICY_VERSION = ''burd-agent-control-protocol-policy-v1''"

definition AGENT_RUNTIME_CONTRACT_VERSION :: string where
  "AGENT_RUNTIME_CONTRACT_VERSION = ''burd-agent-runtime-contract-v1''"

definition MAX_PROTOCOL_VERSIONS :: nat where
  "MAX_PROTOCOL_VERSIONS = 8"

definition MAX_PROTOCOL_CAPABILITIES :: nat where
  "MAX_PROTOCOL_CAPABILITIES = 32"

definition MAX_PROTOCOL_IDENTIFIER_LEN :: nat where
  "MAX_PROTOCOL_IDENTIFIER_LEN = 128"

definition REQUIRED_CAPABILITIES :: "string list" where
  "REQUIRED_CAPABILITIES =
     [PROVIDER_JOB_EXECUTION_SCHEMA_VERSION, JOB_EXECUTION_CONTROL_SCHEMA_VERSION,
      JOB_DATA_PLANE_GRANT_VERSION, JOB_ARTIFACT_UPLOAD_VERSION, AGENT_RUNTIME_CONTRACT_VERSION]"

datatype RemoteSessionProtocolNegotiationStatus =
    NegAccepted | UpgradeRequired | IncompatibleProtocol | MissingCapabilities | LegacyUnnegotiated

fun negotiation_status_as_str :: "RemoteSessionProtocolNegotiationStatus \<Rightarrow> string" where
  "negotiation_status_as_str NegAccepted = ''accepted''"
| "negotiation_status_as_str UpgradeRequired = ''upgrade_required''"
| "negotiation_status_as_str IncompatibleProtocol = ''incompatible_protocol''"
| "negotiation_status_as_str MissingCapabilities = ''missing_capabilities''"
| "negotiation_status_as_str LegacyUnnegotiated = ''legacy_unnegotiated''"

record RemoteSessionProtocolNegotiation =
  neg_status :: RemoteSessionProtocolNegotiationStatus
  neg_selected_protocol_version :: "string option"
  neg_minimum_agent_version :: string
  neg_required_capabilities :: "string list"
  neg_accepted_capabilities :: "string list"
  neg_policy_version :: string
  neg_reason_codes :: "string list"
  neg_negotiated_at :: "string option"

record AgentProtocolPolicy =
  ap_policy_version :: string
  ap_supported_agent_version_range :: string
  ap_minimum_agent_version :: string
  ap_supported_protocol_versions :: "string list"
  ap_allowed_capabilities :: "string list"
  ap_required_capabilities :: "string list"

definition current_agent_protocol_policy :: AgentProtocolPolicy where
  "current_agent_protocol_policy =
     \<lparr>ap_policy_version = AGENT_CONTROL_PROTOCOL_POLICY_VERSION,
      ap_supported_agent_version_range = ''>=0.1.0, <0.2.0'',
      ap_minimum_agent_version = ''0.1.0'',
      ap_supported_protocol_versions = [AGENT_CONTROL_PROTOCOL_VERSION],
      ap_allowed_capabilities = REQUIRED_CAPABILITIES,
      ap_required_capabilities = REQUIRED_CAPABILITIES\<rparr>"

text \<open>A \<open>BTreeSet\<close> of strings read back in order.\<close>

definition sorted_dedup :: "string list \<Rightarrow> string list" where
  "sorted_dedup values = sort (remdups values)"

definition protocol_identifier :: "string \<Rightarrow> bool" where
  "protocol_identifier value \<longleftrightarrow> value \<noteq> [] \<and> length value \<le> MAX_PROTOCOL_IDENTIFIER_LEN \<and>
     list_all (\<lambda>c. is_ascii_alphanumeric c \<or> c \<in> {CHR ''-'', CHR ''_'', CHR ''.''}) value"

definition normalize_identifiers :: "string \<Rightarrow> string list \<Rightarrow> nat \<Rightarrow> string list res" where
  "normalize_identifiers label values maximum =
     bind_res (ensure (length values \<le> maximum) (Invalid (label @ '' exceeds maximum items''))) (\<lambda>_.
     bind_res (try_each (\<lambda>v. ensure (protocol_identifier v)
         (Invalid (label @ '' contains an invalid identifier''))) values) (\<lambda>_.
     Inr (sorted_dedup values)))"

definition rejected ::
  "RemoteSessionProtocolNegotiationStatus \<Rightarrow> AgentProtocolPolicy \<Rightarrow> string list \<Rightarrow> string \<Rightarrow> string \<Rightarrow>
     RemoteSessionProtocolNegotiation" where
  "rejected status policy required reason now =
     \<lparr>neg_status = status, neg_selected_protocol_version = None,
      neg_minimum_agent_version = ap_minimum_agent_version policy,
      neg_required_capabilities = required, neg_accepted_capabilities = [],
      neg_policy_version = ap_policy_version policy, neg_reason_codes = [reason],
      neg_negotiated_at = Some now\<rparr>"

definition negotiate_agent_protocol ::
  "semver \<Rightarrow> string \<Rightarrow> string \<Rightarrow> string list \<Rightarrow> string list \<Rightarrow> AgentProtocolPolicy \<Rightarrow>
     (RemoteSessionProtocolNegotiation \<times> string list \<times> string list) res" where
  "negotiate_agent_protocol S now agent_version declared_versions declared_capabilities policy =
     bind_res (normalize_identifiers ''supported_protocol_versions'' declared_versions
       MAX_PROTOCOL_VERSIONS) (\<lambda>versions.
     bind_res (normalize_identifiers ''supported_capabilities'' declared_capabilities
       MAX_PROTOCOL_CAPABILITIES) (\<lambda>capabilities.
     let required = sorted_dedup (ap_required_capabilities policy) in
     if versions = [] \<and> capabilities = [] then
       Inr (rejected LegacyUnnegotiated policy required
              ''legacy_request_missing_protocol_declaration'' now, versions, capabilities)
     else
     bind_res (ensure (version_parses S agent_version)
       (Invalid ''agent_version must be a valid semantic version'')) (\<lambda>_.
     bind_res (ensure (range_parses S (ap_supported_agent_version_range policy))
       (Database ''invalid version requirement'')) (\<lambda>_.
     if \<not> range_matches S (ap_supported_agent_version_range policy) agent_version then
       Inr (rejected UpgradeRequired policy required
              ''agent_version_outside_supported_range'' now, versions, capabilities)
     else
     case find (\<lambda>candidate. candidate \<in> set versions) (ap_supported_protocol_versions policy) of
       None \<Rightarrow>
         Inr (rejected IncompatibleProtocol policy required ''no_common_protocol_version'' now,
              versions, capabilities)
     | Some selected \<Rightarrow>
         let accepted = filter (\<lambda>c. c \<in> set (ap_allowed_capabilities policy)) capabilities in
         if list_ex (\<lambda>r. r \<notin> set accepted) (ap_required_capabilities policy) then
           Inr ((rejected MissingCapabilities policy required
                  ''required_protocol_capability_missing'' now)
                  \<lparr>neg_accepted_capabilities := accepted\<rparr>, versions, capabilities)
         else
           Inr (\<lparr>neg_status = NegAccepted, neg_selected_protocol_version = Some selected,
                  neg_minimum_agent_version = ap_minimum_agent_version policy,
                  neg_required_capabilities = required, neg_accepted_capabilities = accepted,
                  neg_policy_version = ap_policy_version policy,
                  neg_reason_codes = [''protocol_negotiation_accepted''],
                  neg_negotiated_at = Some now\<rparr>, versions, capabilities)))))"

section \<open>The persisted negotiation\<close>

text \<open>
  A row of \<open>provider_sessions\<close>, with the columns that the compute operations read: identity,
  status, start, hardware fingerprint and the outcome of the negotiation.
\<close>

record provider_session =
  ps_session_id :: string
  ps_provider_id :: string
  ps_device_id :: string
  ps_status :: string
  ps_started_at :: string
  ps_hardware_fingerprint :: "string option"
  ps_negotiated_protocol_version :: "string option"
  ps_protocol_negotiation_status :: string
  ps_accepted_protocol_capabilities :: "string list"
  ps_protocol_policy_version :: "string option"

text \<open>The columns that starting or resuming a session writes (\<open>remote_session.rs\<close>).\<close>

definition persist_negotiation ::
  "RemoteSessionProtocolNegotiation \<Rightarrow> provider_session \<Rightarrow> provider_session" where
  "persist_negotiation n s =
     s\<lparr>ps_negotiated_protocol_version := neg_selected_protocol_version n,
       ps_protocol_negotiation_status := negotiation_status_as_str (neg_status n),
       ps_accepted_protocol_capabilities := neg_accepted_capabilities n,
       ps_protocol_policy_version := Some (neg_policy_version n)\<rparr>"

definition negotiation_authorized :: "provider_session \<Rightarrow> bool" where
  "negotiation_authorized s =
     (let policy = current_agent_protocol_policy in
      ps_protocol_negotiation_status s = negotiation_status_as_str NegAccepted
      \<and> (case ps_negotiated_protocol_version s of
           None \<Rightarrow> False | Some v \<Rightarrow> v \<in> set (ap_supported_protocol_versions policy))
      \<and> ps_protocol_policy_version s = Some (ap_policy_version policy)
      \<and> list_all (\<lambda>r. r \<in> set (ps_accepted_protocol_capabilities s)) (ap_required_capabilities policy))"

definition assert_current_compute_protocol_negotiation ::
  "provider_session list \<Rightarrow> string \<Rightarrow> unit res" where
  "assert_current_compute_protocol_negotiation sessions session =
     bind_res (ok_or (find (\<lambda>s. ps_session_id s = session) sessions)
       (NotFound ''remote session not found'')) (\<lambda>row.
     ensure (negotiation_authorized row)
       (Conflict ''session has no current accepted protocol negotiation''))"

section \<open>Lemmas\<close>

lemma set_sorted_dedup [simp]: "set (sorted_dedup xs) = set xs"
  by (simp add: sorted_dedup_def)

lemma sorted_dedup_sorted [simp]: "sorted (sorted_dedup xs)" "distinct (sorted_dedup xs)"
  by (simp_all add: sorted_dedup_def)

lemma normalize_identifiers_ok:
  "normalize_identifiers label values m = Inr ns \<Longrightarrow>
     ns = sorted_dedup values \<and> length values \<le> m \<and> list_all protocol_identifier values"
  by (auto simp: normalize_identifiers_def result_simps list_all_iff split: if_splits)

lemma negotiate_normalized:
  assumes "negotiate_agent_protocol S now agent_version versions capabilities policy = Inr r"
  shows "normalize_identifiers ''supported_protocol_versions'' versions MAX_PROTOCOL_VERSIONS =
           Inr (sorted_dedup versions)"
    and "normalize_identifiers ''supported_capabilities'' capabilities MAX_PROTOCOL_CAPABILITIES =
           Inr (sorted_dedup capabilities)"
  using assms unfolding negotiate_agent_protocol_def bind_res_eq_Inr
  by (blast dest: normalize_identifiers_ok)+

lemma status_as_str_inj: "negotiation_status_as_str a = ''accepted'' \<longleftrightarrow> a = NegAccepted"
  by (cases a) auto

section \<open>Properties\<close>

text \<open>
  A session may run compute operations exactly when its persisted negotiation was accepted:
  negotiating under the current policy and persisting the outcome authorises the session if and only
  if the outcome is \<open>Accepted\<close>, whatever the session row held before.
\<close>

theorem negotiation_authorizes_iff_accepted:
  assumes "negotiate_agent_protocol S now agent_version versions capabilities
             current_agent_protocol_policy = Inr (n, vs, cs)"
  shows "negotiation_authorized (persist_negotiation n s) \<longleftrightarrow> neg_status n = NegAccepted"
  using assms
  by (auto simp: negotiate_agent_protocol_def result_simps Let_def rejected_def
      negotiation_authorized_def persist_negotiation_def status_as_str_inj list_all_iff list_ex_iff
      current_agent_protocol_policy_def split: if_splits option.splits dest!: find_SomeD)

definition example_semver :: semver where
  "example_semver = \<lparr>version_parses = (\<lambda>v. v \<noteq> []), range_parses = (\<lambda>r. True),
     range_matches = (\<lambda>r v. prefix ''0.1.'' v)\<rparr>"

definition example_session :: provider_session where
  "example_session = \<lparr>ps_session_id = ''s1'', ps_provider_id = ''p1'', ps_device_id = ''d1'',
     ps_status = ''online'', ps_started_at = ''+1'', ps_hardware_fingerprint = Some ''hw'',
     ps_negotiated_protocol_version = None, ps_protocol_negotiation_status = ''legacy_unnegotiated'',
     ps_accepted_protocol_capabilities = [], ps_protocol_policy_version = None\<rparr>"

theorem negotiation_authorizes_iff_accepted_witness:
  "\<exists>n vs cs. negotiate_agent_protocol example_semver ''t'' ''0.1.0'' [AGENT_CONTROL_PROTOCOL_VERSION]
       REQUIRED_CAPABILITIES current_agent_protocol_policy = Inr (n, vs, cs) \<and>
     neg_status n = NegAccepted \<and> negotiation_authorized (persist_negotiation n example_session)"
proof -
  have acc: "case negotiate_agent_protocol example_semver ''t'' ''0.1.0'' [AGENT_CONTROL_PROTOCOL_VERSION]
        REQUIRED_CAPABILITIES current_agent_protocol_policy of
      Inr (n, vs, cs) \<Rightarrow> neg_status n = NegAccepted | Inl e \<Rightarrow> False"
    by code_simp
  then obtain n vs cs where n: "negotiate_agent_protocol example_semver ''t'' ''0.1.0''
       [AGENT_CONTROL_PROTOCOL_VERSION] REQUIRED_CAPABILITIES current_agent_protocol_policy
         = Inr (n, vs, cs)" "neg_status n = NegAccepted"
    by (auto split: sum.splits)
  from negotiation_authorizes_iff_accepted[OF n(1), of example_session] n show ?thesis by blast
qed

text \<open>
  An accepted negotiation is sound for any policy: the selected version is declared by the
  agent and supported by the policy (the first supported one), every required capability is declared
  and allowed, no accepted capability is outside the allowed set, and the agent's version is in the
  supported range.
\<close>

theorem negotiation_accepted_sound:
  assumes "negotiate_agent_protocol S now agent_version versions capabilities policy = Inr (n, vs, cs)"
    and "neg_status n = NegAccepted"
  shows "(\<exists>v. neg_selected_protocol_version n = Some v \<and> v \<in> set versions \<and>
      find (\<lambda>c. c \<in> set versions) (ap_supported_protocol_versions policy) = Some v) \<and>
    set (ap_required_capabilities policy) \<subseteq> set (neg_accepted_capabilities n) \<and>
    set (neg_accepted_capabilities n) = set capabilities \<inter> set (ap_allowed_capabilities policy) \<and>
    range_matches S (ap_supported_agent_version_range policy) agent_version"
  using assms negotiate_normalized[OF assms(1)]
  by (auto simp: negotiate_agent_protocol_def Let_def rejected_def list_ex_iff
      split: if_splits option.splits dest: find_SomeD)

theorem negotiation_accepted_sound_witness:
  "range_matches example_semver ''>=0.1.0, <0.2.0'' ''0.1.0''"
proof -
  have acc: "case negotiate_agent_protocol example_semver ''t'' ''0.1.0'' [AGENT_CONTROL_PROTOCOL_VERSION]
        REQUIRED_CAPABILITIES current_agent_protocol_policy of
      Inr (n, vs, cs) \<Rightarrow> neg_status n = NegAccepted | Inl e \<Rightarrow> False"
    by code_simp
  then obtain n vs cs where n: "negotiate_agent_protocol example_semver ''t'' ''0.1.0''
       [AGENT_CONTROL_PROTOCOL_VERSION] REQUIRED_CAPABILITIES current_agent_protocol_policy
         = Inr (n, vs, cs)" "neg_status n = NegAccepted"
    by (auto split: sum.splits)
  from negotiation_accepted_sound[OF n] show ?thesis
    by (simp add: current_agent_protocol_policy_def)
qed

end
