(* ===== verification/Store.thy ===== *)
theory Store
  imports Validation Negotiation
begin

text \<open>
  The tables of the control plane's PostgreSQL database that job execution reads and writes, as the
  migrations under \<^verbatim>\<open>burd-control-plane/migrations\<close> declare them, and the structs of
  \<^verbatim>\<open>burd-protocol/src/runtime_admission.rs\<close>, \<^verbatim>\<open>runtime_verification.rs\<close> and \<^verbatim>\<open>usage.rs\<close> that
  their JSON columns hold. A JSON column whose text may not parse holds an \<open>option\<close>. A transaction
  that fails leaves the database unchanged; a handler is a function from the database to the database
  and the handler's result.
\<close>

section \<open>Rows\<close>

record provider_row =
  pr_provider_id :: string
  pr_status :: string

record device_row =
  dv_device_id :: string
  dv_provider_id :: string
  dv_status :: string

text \<open>\<open>RegionalReachability\<close> of \<^verbatim>\<open>network_probe.rs\<close>, without the measurements.\<close>

record RegionalReachability =
  rg_probe_region :: string
  rg_status :: string
  rg_approximate_region :: "string option"

text \<open>
  A row of \<open>provider_workload_eligibility\<close>: the decision that job creation and the scheduler check, and the
  evidence from which the marketplace derives a listing.
\<close>

record eligibility_row =
  el_provider_id :: string
  el_device_id :: string
  el_workload_type :: string
  el_policy_id :: string
  el_policy_version :: string
  el_status :: string
  el_reason_codes :: "string list"
  el_trust_score :: "f64 option"
  el_risk_score :: "f64 option"
  el_reliability_score :: "f64 option"
  el_verification_status :: "string option"
  el_remote_network_score :: "f64 option"
  el_benchmark_result_id :: "string option"
  el_benchmark_status :: "string option"
  el_session_status :: "string option"
  el_latest_gpu_uuid :: "string option"
  el_vram_total_mib :: "int option"
  el_regional_reachability :: "RegionalReachability list"
  el_evaluated_at :: string
  el_updated_at :: string

record public_key_row =
  pk_public_key_id :: string
  pk_provider_id :: string
  pk_device_id :: string
  pk_status :: string
  pk_created_at :: string

record inventory_snapshot_row =
  sn_snapshot_id :: string
  sn_provider_id :: string
  sn_device_id :: string
  sn_ingest_seq :: int

record inventory_row =
  in_snapshot_id :: string
  in_provider_id :: string
  in_device_id :: string
  in_gpu_uuid :: string
  in_status :: string
  in_public_key_id :: string

record ProviderRuntimeObservationPayload =
  op_schema_version :: string
  op_provider_id :: string
  op_device_id :: string
  op_session_id :: string
  op_hardware_fingerprint :: string
  op_host_os :: string
  op_runtime_backend :: string
  op_container_os :: string
  op_gpu_backend :: string
  op_gpu_runtime :: string
  op_isolation_mode :: string
  op_docker_server_version :: string
  op_nvidia_driver_version :: string
  op_nvidia_runtime :: string
  op_gpu_uuids :: "string list"
  op_agent_runtime_contract_version :: string
  op_observed_at :: string

record RuntimeAdmissionFingerprintClaims =
  fc_version :: string
  fc_provider_id :: string
  fc_device_id :: string
  fc_hardware_fingerprint :: string
  fc_gpu_uuid :: string
  fc_host_os :: string
  fc_runtime_backend :: string
  fc_container_os :: string
  fc_gpu_backend :: string
  fc_gpu_runtime :: string
  fc_isolation_mode :: string
  fc_docker_server_version :: string
  fc_nvidia_driver_version :: string
  fc_nvidia_runtime :: string
  fc_agent_runtime_contract_version :: string

record ProviderRuntimeVerificationRecord =
  vr_schema_version :: string
  vr_verification_id :: string
  vr_challenge_id :: string
  vr_provider_id :: string
  vr_device_id :: string
  vr_session_id :: string
  vr_hardware_fingerprint :: string
  vr_gpu_uuid :: string
  vr_host_os :: string
  vr_runtime_backend :: string
  vr_status :: string
  vr_gpu_uuid_binding :: string
  vr_runtime_verification_fingerprint :: string
  vr_proof_policy_version :: string
  vr_agent_runtime_contract_version :: string
  vr_proof_image_digest :: string
  vr_public_key_id :: "string option"
  vr_runtime_admission_fingerprint :: "string option"
  vr_runtime_admission_claims :: "RuntimeAdmissionFingerprintClaims option"
  vr_verified_at :: string
  vr_expires_at :: string
  vr_reason_codes :: "string list"

record observation_row =
  ob_observation_hash :: string
  ob_provider_id :: string
  ob_device_id :: string
  ob_session_id :: string
  ob_public_key_id :: string
  ob_server_received_at :: string
  ob_payload :: "ProviderRuntimeObservationPayload option"

record verification_row =
  ve_provider_id :: string
  ve_device_id :: string
  ve_gpu_uuid :: string
  ve_verified_at :: string
  ve_record :: "ProviderRuntimeVerificationRecord option"

text \<open>A row of \<open>compute_jobs\<close>: the columns of the API record and the internal ones.\<close>

record job_row = JobRecord +
  jr_result_metrics :: json
  jr_assignment_lease_id :: "string option"
  jr_job_credential_hash :: "string option"
  jr_job_credential_expires_at :: "string option"
  jr_scheduler_last_evaluated_at :: "string option"
  jr_workload_id :: "string option"
  jr_placement_id :: "string option"
  jr_reservation_id :: "string option"

record upload_row =
  up_job_id :: string
  up_artifact_id :: string
  up_object_key :: string
  up_sha256 :: string
  up_size_bytes :: int
  up_content_type :: "string option"
  up_uploaded_at :: string

record JobUsageReceipt =
  ur_job_id :: string
  ur_lease_id :: "string option"
  ur_reservation_id :: "string option"
  ur_pricing_snapshot_id :: "string option"
  ur_provider_id :: string
  ur_device_id :: string
  ur_session_id :: string
  ur_workload_type :: string
  ur_gpu_uuid :: string
  ur_job_status :: string
  ur_lease_started_at :: "string option"
  ur_lease_ended_at :: "string option"
  ur_job_started_at :: "string option"
  ur_job_completed_at :: "string option"
  ur_reserved_gpu_seconds :: u64
  ur_actual_gpu_seconds :: u64
  ur_billable_gpu_seconds :: u64
  ur_non_billable_gpu_seconds :: u64
  ur_idle_billable_gpu_seconds :: u64
  ur_idle_unbillable_gpu_seconds :: u64
  ur_input_bytes :: u64
  ur_output_bytes :: u64
  ur_network_transfer_bytes :: u64
  ur_storage_bytes :: u64
  ur_retry_count :: u32
  ur_provider_caused_failure :: bool
  ur_customer_caused_failure :: bool
  ur_failure_classification :: "string option"
  ur_challenge_non_billable_seconds :: u64
  ur_reason_codes :: "string list"

record UsageLedgerEntry =
  ul_entry_id :: string
  ul_entry_type :: string
  ul_receipt :: JobUsageReceipt
  ul_receipt_hash :: string
  ul_receipt_signature_status :: string
  ul_source_hash :: string
  ul_created_at :: string

record IdempotencyRow =
  ik_scope :: string
  ik_key :: string
  ik_request_hash :: string
  ik_status_code :: nat
  ik_response :: "CreateJobResponse option"

record audit_row =
  au_request_id :: string
  au_actor_type :: string
  au_actor_id :: "string option"
  au_entity_type :: string
  au_entity_id :: string
  au_event_type :: string

record ComputeRequirements =
  cq_gpu_count :: u32
  cq_backend :: string
  cq_minimum_vram_mib :: "u64 option"
  cq_region :: "string option"
  cq_minimum_trust_score :: "f64 option"
  cq_maximum_risk_score :: "f64 option"
  cq_minimum_reliability_score :: "f64 option"
  cq_maximum_price_per_hour_micros :: "u64 option"

record workload_row =
  wl_workload_id :: string
  wl_organization_id :: string
  wl_project_id :: string
  wl_reservation_id :: "string option"
  wl_schema_version :: string
  wl_client_workload_id :: "string option"
  wl_workload_type :: string
  wl_requirements :: ComputeRequirements
  wl_parameters :: json
  wl_timeout_seconds :: u32
  wl_status :: string
  wl_idempotency_key :: string
  wl_request_hash :: string
  wl_job_id :: "string option"
  wl_created_at :: string
  wl_updated_at :: string

text \<open>
  A row of \<open>compute_placements\<close>; the text of the admission decision, which is only ever written, is left out.
\<close>

record placement_row =
  pl_placement_id :: string
  pl_workload_id :: string
  pl_reservation_id :: "string option"
  pl_schema_version :: string
  pl_listing_id :: string
  pl_provider_id :: string
  pl_device_id :: string
  pl_session_id :: string
  pl_gpu_uuid :: string
  pl_policy_id :: string
  pl_policy_version :: string
  pl_status :: string
  pl_reason_codes :: "string list"
  pl_created_at :: string

record reservation_row =
  rv_reservation_id :: string
  rv_organization_id :: string
  rv_project_id :: string
  rv_listing_id :: string
  rv_pricing_snapshot_id :: "string option"
  rv_provider_id :: string
  rv_device_id :: string
  rv_session_id :: "string option"
  rv_schema_version :: string
  rv_workload_type :: string
  rv_gpu_uuid :: "string option"
  rv_status :: string
  rv_idempotency_key :: "string option"
  rv_request_hash :: "string option"
  rv_starts_at :: string
  rv_expires_at :: string
  rv_cancelled_at :: "string option"
  rv_reserved_gpu_seconds :: u64
  rv_reason_codes :: "string list"
  rv_created_at :: string
  rv_updated_at :: string

record customer_audit_row =
  ca_organization_id :: string
  ca_project_id :: "string option"
  ca_actor_type :: string
  ca_actor_id :: "string option"
  ca_event_type :: string
  ca_entity_type :: string
  ca_entity_id :: string

section \<open>The database\<close>

record db =
  providers :: "provider_row list"
  devices :: "device_row list"
  provider_sessions :: "provider_session list"
  workload_eligibility :: "eligibility_row list"
  provider_public_keys :: "public_key_row list"
  gpu_inventory_snapshots :: "inventory_snapshot_row list"
  gpu_inventory :: "inventory_row list"
  runtime_observations :: "observation_row list"
  runtime_verifications :: "verification_row list"
  compute_jobs :: "job_row list"
  job_leases :: "JobLeaseRecord list"
  job_events :: "JobEventRecord list"
  job_artifact_uploads :: "upload_row list"
  usage_ledger_entries :: "UsageLedgerEntry list"
  idempotency_keys :: "IdempotencyRow list"
  audit_events :: "audit_row list"
  customer_workloads :: "workload_row list"
  compute_placements :: "placement_row list"
  marketplace_reservations :: "reservation_row list"
  customer_audit_events :: "customer_audit_row list"

record AuthorizedSession =
  as_provider_id :: string
  as_device_id :: string
  as_session_id :: string

text \<open>\<open>ORDER BY k DESC LIMIT 1\<close>.\<close>

definition latest_by :: "('r \<Rightarrow> 'k::linorder) \<Rightarrow> 'r list \<Rightarrow> 'r option" where
  "latest_by k rows = (if rows = [] then None else Some (last (sort_key k rows)))"

lemma latest_by_Some: "latest_by k rows = Some r \<Longrightarrow> r \<in> set rows"
  by (auto simp: latest_by_def split: if_splits)
     (metis last_in_set set_empty set_sort)

lemma latest_by_None [simp]: "latest_by k rows = None \<longleftrightarrow> rows = []"
  by (simp add: latest_by_def)

definition insert_audit_event ::
  "string \<Rightarrow> string \<Rightarrow> string option \<Rightarrow> string \<Rightarrow> string \<Rightarrow> string \<Rightarrow> db \<Rightarrow> db" where
  "insert_audit_event request_id actor_type actor_id entity_type entity_id event_type s =
     s\<lparr>audit_events := audit_events s @
        [\<lparr>au_request_id = request_id, au_actor_type = actor_type, au_actor_id = actor_id,
          au_entity_type = entity_type, au_entity_id = entity_id, au_event_type = event_type\<rparr>]\<rparr>"

definition insert_customer_audit_event ::
  "string \<Rightarrow> string option \<Rightarrow> string \<Rightarrow> string option \<Rightarrow> string \<Rightarrow> string \<Rightarrow> string \<Rightarrow> db \<Rightarrow> db" where
  "insert_customer_audit_event org project actor_type actor_id event_type entity_type entity_id s =
     s\<lparr>customer_audit_events := customer_audit_events s @
        [\<lparr>ca_organization_id = org, ca_project_id = project, ca_actor_type = actor_type,
          ca_actor_id = actor_id, ca_event_type = event_type, ca_entity_type = entity_type,
          ca_entity_id = entity_id\<rparr>]\<rparr>"

text \<open>\<open>job_from_row\<close>: the API record of a row.\<close>

definition job_from_row :: "job_row \<Rightarrow> JobRecord" where
  "job_from_row r = JobRecord.truncate r"

lemma job_from_row_simps [simp]:
  "job_id (job_from_row r) = job_id r"
  "job_status (job_from_row r) = job_status r"
  "job_provider_id (job_from_row r) = job_provider_id r"
  "job_device_id (job_from_row r) = job_device_id r"
  "job_session_id (job_from_row r) = job_session_id r"
  "job_gpu_uuid (job_from_row r) = job_gpu_uuid r"
  by (simp_all add: job_from_row_def JobRecord.defs)

text \<open>
  The outcome of a handler: it commits a new state and returns, or it fails and the transaction is
  rolled back. \<open>accept_job\<close> also commits before it returns an error, so its result is an error in a
  committed outcome.
\<close>

definition commit :: "(db \<times> 'a) res \<Rightarrow> db \<Rightarrow> db \<times> 'a res" where
  "commit r s = (case r of Inl e \<Rightarrow> (s, Inl e) | Inr (s', a) \<Rightarrow> (s', Inr a))"

lemma commit_Inr: "commit r s = (s', Inr a) \<longleftrightarrow> r = Inr (s', a)"
  by (cases r) (auto simp: commit_def)

lemma commit_state: "fst (commit r s) = (case r of Inl e \<Rightarrow> s | Inr (s', a) \<Rightarrow> s')"
  by (cases r) (auto simp: commit_def)

end
