(* ===== verification/Lease_State.thy ===== *)
theory Lease_State
  imports Store Validation
begin

text \<open>
  The lease table of \<^verbatim>\<open>burd-control-plane/src/scheduler.rs\<close>: the statements that move a lease through
  its states, the unique indexes of migration \<^verbatim>\<open>0013_scheduler_leases.sql\<close>, and the invariant that
  ties leases and jobs together. Every statement that changes leases meets the contract
  \<open>lease_update\<close>, from which the exclusivity of GPUs and jobs follows once for all of them.
\<close>

section \<open>Statuses and statements\<close>

definition ACTIVE_LEASE_STATUSES :: "string list" where
  "ACTIVE_LEASE_STATUSES = [''offered'', ''accepted'', ''provisioning'', ''active'']"

definition lease_active :: "JobLeaseRecord \<Rightarrow> bool" where
  "lease_active l \<longleftrightarrow> lease_status l \<in> set ACTIVE_LEASE_STATUSES"

text \<open>The columns the code compares with \<open>lower(gpu_uuid)\<close>.\<close>

definition gpu_key :: "JobLeaseRecord \<Rightarrow> string \<times> string \<times> string" where
  "gpu_key l = (lease_provider_id l, lease_device_id l, to_ascii_lowercase (lease_gpu_uuid l))"

definition gpu_has_active_lease :: "string \<Rightarrow> string \<Rightarrow> string \<Rightarrow> JobLeaseRecord list \<Rightarrow> bool" where
  "gpu_has_active_lease provider device gpu leases \<longleftrightarrow>
     list_ex (\<lambda>l. lease_provider_id l = provider \<and> lease_device_id l = device
       \<and> to_ascii_lowercase (lease_gpu_uuid l) = to_ascii_lowercase gpu \<and> lease_active l) leases"

text \<open>
  The \<open>INSERT\<close>: the primary key and the two partial unique indexes of the table refuse a duplicate;
  \<open>idx_job_leases_active_gpu\<close> compares the GPU with its case.
\<close>

definition insert_lease :: "JobLeaseRecord \<Rightarrow> JobLeaseRecord list \<Rightarrow> JobLeaseRecord list res" where
  "insert_lease l leases =
     (if list_ex (\<lambda>m. lease_id m = lease_id l) leases
        \<or> (lease_active l \<and> list_ex (\<lambda>m. lease_active m \<and> lease_job_id m = lease_job_id l) leases)
        \<or> (lease_active l \<and> list_ex (\<lambda>m. lease_active m \<and> lease_provider_id m = lease_provider_id l
             \<and> lease_device_id m = lease_device_id l \<and> lease_gpu_uuid m = lease_gpu_uuid l) leases)
      then Inl (Database ''duplicate key value violates unique constraint'')
      else Inr (leases @ [l]))"

definition mark_lease_accepted_for_job ::
  "externs \<Rightarrow> string \<Rightarrow> string \<Rightarrow> string \<Rightarrow> JobLeaseRecord list \<Rightarrow> JobLeaseRecord list res" where
  "mark_lease_accepted_for_job X lid jid now leases =
     (let sel = (\<lambda>l. lease_id l = lid \<and> lease_job_id l = jid \<and> lease_status l = ''offered''
                   \<and> sql_less X now (lease_expires_at l)) in
      bind_res (ensure (sql_count sel leases = 1)
        (Conflict ''job acceptance requires exactly one current offered lease'')) (\<lambda>_.
      Inr (sql_update sel (\<lambda>l. l\<lparr>lease_status := ''accepted'',
             lease_accepted_at := coalesce (lease_accepted_at l) now, lease_updated_at := now\<rparr>) leases)))"

definition mark_lease_progress_for_job ::
  "string \<Rightarrow> string \<Rightarrow> string \<Rightarrow> JobLeaseRecord list \<Rightarrow> JobLeaseRecord list" where
  "mark_lease_progress_for_job jid event_type now leases =
     (let sel = (\<lambda>l. lease_job_id l = jid
                   \<and> lease_status l \<in> {''accepted'', ''provisioning'', ''active''}) in
      if event_type = ''provisioning'' then
        sql_update sel (\<lambda>l. l\<lparr>lease_status := ''provisioning'',
          lease_provisioning_at := coalesce (lease_provisioning_at l) now, lease_updated_at := now\<rparr>) leases
      else if event_type \<in> {''started'', ''running'', ''uploading''} then
        sql_update sel (\<lambda>l. l\<lparr>lease_status := ''active'',
          lease_active_at := coalesce (lease_active_at l) now, lease_updated_at := now\<rparr>) leases
      else leases)"

definition mark_lease_terminal_for_job ::
  "string \<Rightarrow> string \<Rightarrow> string option \<Rightarrow> string \<Rightarrow> JobLeaseRecord list \<Rightarrow> JobLeaseRecord list" where
  "mark_lease_terminal_for_job jid status failure_reason now leases =
     sql_update (\<lambda>l. lease_job_id l = jid
                   \<and> lease_status l \<in> {''offered'', ''accepted'', ''provisioning'', ''active''})
       (\<lambda>l. l\<lparr>lease_status := (if status = ''succeeded'' then ''completed'' else ''failed''),
          lease_completed_at := Some now, lease_failure_reason := failure_reason,
          lease_updated_at := now\<rparr>) leases"

definition stale_offer :: "externs \<Rightarrow> string \<Rightarrow> JobLeaseRecord \<Rightarrow> bool" where
  "stale_offer X now l \<longleftrightarrow> lease_status l = ''offered'' \<and> sql_le X (lease_expires_at l) now"

text \<open>
  \<open>expire_stale_offers\<close>: the \<open>UPDATE ... RETURNING\<close> on the leases, then for each returned row the
  \<open>UPDATE\<close> that puts its job back in the queue.
\<close>

definition requeued :: "string \<Rightarrow> job_row \<Rightarrow> job_row" where
  "requeued now j = j\<lparr>job_status := ''queued'', job_assigned_at := None, jr_assignment_lease_id := None,
     jr_job_credential_hash := None, jr_job_credential_expires_at := None, job_updated_at := now\<rparr>"

definition requeue_job :: "string \<Rightarrow> JobLeaseRecord \<Rightarrow> job_row list \<Rightarrow> job_row list" where
  "requeue_job now l jobs =
     sql_update (\<lambda>j. job_id j = lease_job_id l \<and> job_status j = ''assigned''
                   \<and> jr_assignment_lease_id j = Some (lease_id l))
       (requeued now) jobs"

definition expire_stale_offers :: "externs \<Rightarrow> string \<Rightarrow> db \<Rightarrow> db \<times> nat" where
  "expire_stale_offers X now s =
     (let rows = filter (stale_offer X now) (job_leases s) in
      (s\<lparr>job_leases := sql_update (stale_offer X now) (\<lambda>l. l\<lparr>lease_status := ''expired'',
            lease_failure_reason := Some ''lease_ack_timeout'', lease_updated_at := now\<rparr>) (job_leases s),
         compute_jobs := fold (requeue_job now) rows (compute_jobs s)\<rparr>,
       nat (int (length rows) mod 2 ^ 32)))"

lemma sql_update_bexI:
  "r \<in> set t \<Longrightarrow> Q (if P r then f r else r) \<Longrightarrow> \<exists>r \<in> set (sql_update P f t). Q r"
  by (rule bexI[rotated], rule sql_updateI)

lemma requeued_simps [simp]:
  "job_status (requeued now j) = ''queued''" "job_id (requeued now j) = job_id j"
  "jr_assignment_lease_id (requeued now j) = None" "jr_job_credential_hash (requeued now j) = None"
  "jr_job_credential_expires_at (requeued now j) = None"
  by (simp_all add: requeued_def)

section \<open>The contract of a lease update\<close>

text \<open>
  What every \<open>UPDATE job_leases\<close> of the control plane promises: it changes neither the identity of a
  lease nor what it reserves, and it never activates a lease that was not active.
\<close>

locale lease_update =
  fixes sel :: "JobLeaseRecord \<Rightarrow> bool" and upd :: "JobLeaseRecord \<Rightarrow> JobLeaseRecord"
  assumes keeps_id: "lease_id (upd l) = lease_id l"
    and keeps_job: "lease_job_id (upd l) = lease_job_id l"
    and keeps_gpu: "gpu_key (upd l) = gpu_key l"
    and keeps_session: "lease_session_id (upd l) = lease_session_id l"
    and never_activates: "sel l \<Longrightarrow> lease_active (upd l) \<Longrightarrow> lease_active l"
begin

lemma upd_distinct:
  assumes "\<And>l. k (upd l) = k l" "distinct (map k (filter lease_active ls))"
  shows "distinct (map k (filter lease_active (sql_update sel upd ls)))"
  using assms(2)
proof (induction ls)
  case (Cons l ls)
  have sub: "k ` set (filter lease_active (sql_update sel upd ls)) \<subseteq> k ` set (filter lease_active ls)"
    using assms(1) never_activates by (force simp: set_sql_update)
  have step: "sql_update sel upd (l # ls) = (if sel l then upd l else l) # sql_update sel upd ls"
    by (simp add: sql_update_def)
  have key: "k (if sel l then upd l else l) = k l" using assms(1) by simp
  show ?case
  proof (cases "lease_active (if sel l then upd l else l)")
    case True
    then have "lease_active l" using never_activates by (auto split: if_splits)
    then show ?thesis using Cons True sub key unfolding step by (auto simp del: if_split)
  next
    case False
    then show ?thesis using Cons unfolding step by (auto split: if_splits)
  qed
qed simp

lemma upd_ids: "map lease_id (sql_update sel upd ls) = map lease_id ls"
  by (rule map_sql_update) (rule keeps_id)

end

text \<open>
  Exclusivity: lease identifiers are unique, and no two active leases share a job or a GPU, where GPU
  identifiers are compared without case as the scheduler does.
\<close>

definition leases_exclusive :: "JobLeaseRecord list \<Rightarrow> bool" where
  "leases_exclusive ls \<longleftrightarrow> distinct (map lease_id ls)
     \<and> distinct (map lease_job_id (filter lease_active ls))
     \<and> distinct (map gpu_key (filter lease_active ls))"

context lease_update
begin

lemma exclusive_upd: "leases_exclusive ls \<Longrightarrow> leases_exclusive (sql_update sel upd ls)"
  using upd_distinct[of lease_job_id ls] upd_distinct[of gpu_key ls] keeps_job keeps_gpu
  by (simp add: leases_exclusive_def upd_ids)

end

lemmas lease_state_defs = gpu_key_def lease_active_def ACTIVE_LEASE_STATUSES_def

interpretation accepted: lease_update
    "\<lambda>l. lease_id l = lid \<and> lease_job_id l = jid \<and> lease_status l = ''offered'' \<and> sql_less X now (lease_expires_at l)"
    "\<lambda>l. l\<lparr>lease_status := ''accepted'', lease_accepted_at := coalesce (lease_accepted_at l) now,
       lease_updated_at := now\<rparr>" for lid jid X now
  by unfold_locales (auto simp: lease_state_defs)

interpretation provisioned: lease_update
    "\<lambda>l. lease_job_id l = jid \<and> lease_status l \<in> {''accepted'', ''provisioning'', ''active''}"
    "\<lambda>l. l\<lparr>lease_status := ''provisioning'', lease_provisioning_at := coalesce (lease_provisioning_at l) now,
       lease_updated_at := now\<rparr>" for jid now
  by unfold_locales (auto simp: lease_state_defs)

interpretation activated: lease_update
    "\<lambda>l. lease_job_id l = jid \<and> lease_status l \<in> {''accepted'', ''provisioning'', ''active''}"
    "\<lambda>l. l\<lparr>lease_status := ''active'', lease_active_at := coalesce (lease_active_at l) now,
       lease_updated_at := now\<rparr>" for jid now
  by unfold_locales (auto simp: lease_state_defs)

interpretation terminated: lease_update
    "\<lambda>l. lease_job_id l = jid \<and> lease_status l \<in> {''offered'', ''accepted'', ''provisioning'', ''active''}"
    "\<lambda>l. l\<lparr>lease_status := (if status = ''succeeded'' then ''completed'' else ''failed''),
       lease_completed_at := Some now, lease_failure_reason := fr, lease_updated_at := now\<rparr>" for jid status fr now
  by unfold_locales (auto simp: lease_state_defs)

interpretation expired_offers: lease_update "stale_offer X now"
    "\<lambda>l. l\<lparr>lease_status := ''expired'', lease_failure_reason := Some ''lease_ack_timeout'',
       lease_updated_at := now\<rparr>" for X now
  by unfold_locales (auto simp: lease_state_defs)

lemma mark_lease_accepted_exclusive:
  "mark_lease_accepted_for_job X lid jid now ls = Inr ls' \<Longrightarrow> leases_exclusive ls \<Longrightarrow> leases_exclusive ls'"
  by (auto simp: mark_lease_accepted_for_job_def Let_def result_simps ensure_def split: if_splits
      intro: accepted.exclusive_upd)

lemma mark_lease_progress_exclusive:
  "leases_exclusive ls \<Longrightarrow> leases_exclusive (mark_lease_progress_for_job jid ev now ls)"
  unfolding mark_lease_progress_for_job_def Let_def
  using provisioned.exclusive_upd activated.exclusive_upd by simp

lemma mark_lease_terminal_exclusive:
  "leases_exclusive ls \<Longrightarrow> leases_exclusive (mark_lease_terminal_for_job jid st fr now ls)"
  unfolding mark_lease_terminal_for_job_def by (rule terminated.exclusive_upd)

lemma insert_lease_Inr:
  "insert_lease l ls = Inr ls' \<longleftrightarrow> ls' = ls @ [l] \<and> (\<forall>m \<in> set ls. lease_id m \<noteq> lease_id l) \<and>
     (lease_active l \<longrightarrow> (\<forall>m \<in> set ls. lease_active m \<longrightarrow> lease_job_id m \<noteq> lease_job_id l \<and>
        (lease_provider_id m, lease_device_id m, lease_gpu_uuid m)
          \<noteq> (lease_provider_id l, lease_device_id l, lease_gpu_uuid l)))"
  by (auto simp: insert_lease_def list_ex_iff)

lemma insert_lease_exclusive:
  assumes "insert_lease l ls = Inr ls'" "leases_exclusive ls"
    "\<not> gpu_has_active_lease (lease_provider_id l) (lease_device_id l) (lease_gpu_uuid l) ls"
  shows "leases_exclusive ls'"
  using assms(2,3) assms(1)[unfolded insert_lease_Inr]
  by (auto simp: leases_exclusive_def gpu_has_active_lease_def list_ex_iff gpu_key_def)

section \<open>Agreement of jobs and leases\<close>

text \<open>
  The status a job's assigned lease has while the job is in a given status, as
  \<open>execution_lease_matches_job_state\<close> and \<open>acceptance_authority_failure\<close> expect it.
\<close>

definition bound_lease_status :: "string \<Rightarrow> string option" where
  "bound_lease_status st =
     (if st = ''assigned'' then Some ''offered''
      else if st = ''accepted'' then Some ''accepted''
      else if st = ''provisioning'' then Some ''provisioning''
      else if st = ''running'' \<or> st = ''uploading'' then Some ''active''
      else None)"

definition job_ok :: "JobLeaseRecord list \<Rightarrow> job_row \<Rightarrow> bool" where
  "job_ok ls j \<longleftrightarrow>
     (case bound_lease_status (job_status j) of
        Some st \<Rightarrow>
          (\<exists>l \<in> set ls. jr_assignment_lease_id j = Some (lease_id l) \<and> lease_job_id l = job_id j \<and>
             lease_status l = st) \<and> jr_job_credential_hash j \<noteq> None
      | None \<Rightarrow>
          jr_job_credential_hash j = None \<and> jr_job_credential_expires_at j = None \<and>
          (if job_status j = ''queued'' then jr_assignment_lease_id j = None \<and>
             (\<forall>l \<in> set ls. lease_active l \<and> lease_job_id l = job_id j \<longrightarrow> lease_status l = ''offered'')
           else is_terminal_status (job_status j) \<and>
             (\<forall>l \<in> set ls. lease_job_id l = job_id j \<longrightarrow> \<not> lease_active l)))"

definition lease_for :: "JobLeaseRecord \<Rightarrow> job_row \<Rightarrow> bool" where
  "lease_for l j \<longleftrightarrow> lease_job_id l = job_id j \<and> lease_provider_id l = job_provider_id j \<and>
     lease_device_id l = job_device_id j \<and> lease_session_id l = job_session_id j \<and>
     to_ascii_lowercase (lease_gpu_uuid l) = to_ascii_lowercase (job_gpu_uuid j)"

definition lease_authority :: "db \<Rightarrow> bool" where
  "lease_authority s \<longleftrightarrow> leases_exclusive (job_leases s) \<and> distinct (map job_id (compute_jobs s)) \<and>
     (\<forall>j \<in> set (compute_jobs s). job_ok (job_leases s) j) \<and>
     (\<forall>l \<in> set (job_leases s). lease_active l \<longrightarrow> (\<exists>j \<in> set (compute_jobs s). lease_for l j))"

lemma job_ok_local:
  assumes "{l \<in> set ls. lease_job_id l = job_id j} = {l \<in> set ls'. lease_job_id l = job_id j}"
  shows "job_ok ls j = job_ok ls' j"
proof -
  have "l \<in> set ls \<longleftrightarrow> l \<in> set ls'" if "lease_job_id l = job_id j" for l using assms that by blast
  then show ?thesis unfolding job_ok_def by (auto split: option.splits)
qed

text \<open>
  A statement pair that changes one job and leases of that job keeps the agreement as soon as that job
  still agrees with its leases.
\<close>

locale job_lease_update = lease_update +
  fixes jid :: string and jsel :: "job_row \<Rightarrow> bool" and jupd :: "job_row \<Rightarrow> job_row"
  assumes sel_job: "sel l \<Longrightarrow> lease_job_id l = jid"
    and jsel_job: "jsel j \<Longrightarrow> job_id j = jid"
    and keeps_job_key: "job_id (jupd j) = job_id j" "lease_for l (jupd j) = lease_for l j"
begin

lemma authority_update:
  assumes inv: "lease_authority s"
    and ok: "\<And>j. j \<in> set (compute_jobs s) \<Longrightarrow> job_id j = jid \<Longrightarrow>
      job_ok (sql_update sel upd (job_leases s)) (if jsel j then jupd j else j)"
  shows "lease_authority (s\<lparr>compute_jobs := sql_update jsel jupd (compute_jobs s),
                           job_leases := sql_update sel upd (job_leases s)\<rparr>)"
proof -
  let ?ls = "sql_update sel upd (job_leases s)"
  have other: "job_ok ?ls j = job_ok (job_leases s) j" if "job_id j \<noteq> jid" for j
  proof (rule job_ok_local)
    show "{l \<in> set ?ls. lease_job_id l = job_id j} = {l \<in> set (job_leases s). lease_job_id l = job_id j}"
      using that sel_job keeps_job by (auto simp: set_sql_update)
  qed
  have "job_ok ?ls j" if "j \<in> set (sql_update jsel jupd (compute_jobs s))" for j
    using that
  proof (rule in_sql_updateE)
    fix j0 assume "j0 \<in> set (compute_jobs s)" "jsel j0" "j = jupd j0"
    then show ?thesis using ok[of j0] jsel_job by simp
  next
    assume "j \<in> set (compute_jobs s)" "\<not> jsel j"
    then show ?thesis using ok[of j] other[of j] inv
      by (cases "job_id j = jid") (auto simp: lease_authority_def)
  qed
  moreover have "\<exists>j \<in> set (sql_update jsel jupd (compute_jobs s)). lease_for l j"
    if "l \<in> set ?ls" "lease_active l" for l
  proof -
    have "\<exists>l0 \<in> set (job_leases s). lease_active l0 \<and> (\<forall>j. lease_for l j = lease_for l0 j)"
      using that(1)
    proof (rule in_sql_updateE)
      fix l0 assume "l0 \<in> set (job_leases s)" "sel l0" "l = upd l0"
      then show ?thesis using that(2) never_activates[of l0] keeps_job[of l0] keeps_gpu[of l0]
          keeps_session[of l0] by (auto simp: lease_for_def gpu_key_def intro!: bexI[of _ l0])
    qed (use that in auto)
    then obtain j where "j \<in> set (compute_jobs s)" "lease_for l j"
      using inv by (auto simp: lease_authority_def)
    then show ?thesis by (intro sql_update_bexI) (auto simp: keeps_job_key)
  qed
  moreover have "map job_id (sql_update jsel jupd (compute_jobs s)) = map job_id (compute_jobs s)"
    by (rule map_sql_update) (rule keeps_job_key)
  ultimately show ?thesis using inv exclusive_upd by (simp add: lease_authority_def)
qed

end

lemma active_lease_unique:
  assumes "leases_exclusive ls" "l \<in> set ls" "m \<in> set ls" "lease_active l" "lease_active m"
    "lease_job_id l = lease_job_id m"
  shows "l = m"
  using assms distinct_map_same[of lease_job_id "filter lease_active ls" l m]
  by (auto simp: leases_exclusive_def)

lemma bound_lease_active: "bound_lease_status st = Some (lease_status l) \<Longrightarrow> lease_active l"
  by (auto simp: bound_lease_status_def lease_state_defs split: if_splits)

text \<open>The loop of \<open>expire_stale_offers\<close> in one statement.\<close>

lemma fold_requeue_job:
  "fold (requeue_job now) rows jobs =
     sql_update (\<lambda>j. job_status j = ''assigned'' \<and> (\<exists>l \<in> set rows. job_id j = lease_job_id l \<and>
         jr_assignment_lease_id j = Some (lease_id l)))
       (requeued now) jobs"
proof (induction rows arbitrary: jobs)
  case (Cons l rows)
  have "fold (requeue_job now) (l # rows) jobs = fold (requeue_job now) rows (requeue_job now l jobs)"
    by simp
  also have "\<dots> = sql_update (\<lambda>j. job_status j = ''assigned'' \<and> (\<exists>l \<in> set (l # rows).
      job_id j = lease_job_id l \<and> jr_assignment_lease_id j = Some (lease_id l))) (requeued now) jobs"
    unfolding Cons.IH unfolding requeue_job_def sql_update_def map_map
  proof (rule map_cong[OF refl])
    fix j :: job_row
    let ?q = "job_id j = lease_job_id l \<and> job_status j = ''assigned'' \<and> jr_assignment_lease_id j = Some (lease_id l)"
    show "((\<lambda>r. if job_status r = ''assigned'' \<and> (\<exists>l\<in>set rows. job_id r = lease_job_id l \<and>
          jr_assignment_lease_id r = Some (lease_id l)) then requeued now r else r) \<circ>
        (\<lambda>r. if job_id r = lease_job_id l \<and> job_status r = ''assigned'' \<and>
          jr_assignment_lease_id r = Some (lease_id l) then requeued now r else r)) j =
      (if job_status j = ''assigned'' \<and> (\<exists>l\<in>set (l # rows). job_id j = lease_job_id l \<and>
          jr_assignment_lease_id j = Some (lease_id l)) then requeued now j else j)"
      by (cases ?q) auto
  qed
  finally show ?case .
qed (simp add: sql_update_def)

lemma expire_job_ok:
  fixes X now
  assumes excl: "leases_exclusive ls" and ok: "job_ok ls j"
  defines "rows \<equiv> filter (stale_offer X now) ls"
  defines "ls' \<equiv> sql_update (stale_offer X now) (\<lambda>l. l\<lparr>lease_status := ''expired'',
            lease_failure_reason := Some ''lease_ack_timeout'', lease_updated_at := now\<rparr>) ls"
  shows "job_ok ls' (if job_status j = ''assigned'' \<and> (\<exists>l \<in> set rows. job_id j = lease_job_id l \<and>
         jr_assignment_lease_id j = Some (lease_id l))
       then requeued now j
       else j)" (is "job_ok ls' (if ?c then _ else _)")
proof (cases "bound_lease_status (job_status j)")
  case None
  then have "\<not> ?c" by (auto simp: bound_lease_status_def)
  then show ?thesis using ok None
    by (auto simp: job_ok_def ls'_def set_sql_update lease_state_defs stale_offer_def split: if_splits)
next
  case (Some st)
  then obtain l where l: "l \<in> set ls" "jr_assignment_lease_id j = Some (lease_id l)"
    "lease_job_id l = job_id j" "lease_status l = st" and cred: "jr_job_credential_hash j \<noteq> None"
    using ok by (auto simp: job_ok_def)
  have act: "lease_active l" using Some l(4) bound_lease_active by simp
  show ?thesis
  proof (cases "stale_offer X now l")
    case True
    then have "job_status j = ''assigned''"
      using Some l(4) by (auto simp: stale_offer_def bound_lease_status_def split: if_splits)
    then have c: ?c using True l by (auto simp: rows_def)
    have "\<not> lease_active m" if "m \<in> set ls'" "lease_job_id m = job_id j" for m
      using that active_lease_unique[OF excl l(1) _ act, of m] True l(3)
      by (auto simp: ls'_def set_sql_update lease_state_defs)
    then show ?thesis using c by (auto simp: job_ok_def bound_lease_status_def requeued_def)
  next
    case False
    then have "\<not> ?c" using l excl distinct_map_same[of lease_id ls l]
      by (auto simp: rows_def leases_exclusive_def)
    moreover have "l \<in> set ls'" using False l(1) by (auto simp: ls'_def set_sql_update)
    ultimately show ?thesis using Some l cred unfolding if_not_P[OF \<open>\<not> ?c\<close>] job_ok_def by auto
  qed
qed

lemma expire_stale_offers_authority:
  assumes "lease_authority s"
  shows "lease_authority (fst (expire_stale_offers X now s))"
proof -
  note inv = assms[unfolded lease_authority_def]
  let ?rows = "filter (stale_offer X now) (job_leases s)"
  let ?s = "fst (expire_stale_offers X now s)"
  have jobs: "compute_jobs ?s = fold (requeue_job now) ?rows (compute_jobs s)"
    and leases: "job_leases ?s = sql_update (stale_offer X now) (\<lambda>l. l\<lparr>lease_status := ''expired'',
            lease_failure_reason := Some ''lease_ack_timeout'', lease_updated_at := now\<rparr>) (job_leases s)"
    by (simp_all add: expire_stale_offers_def Let_def)
  have "job_ok (job_leases ?s) j" if j: "j \<in> set (compute_jobs ?s)" for j
  proof -
    from j obtain j0 where "j0 \<in> set (compute_jobs s)" and j: "j = (if job_status j0 = ''assigned'' \<and>
        (\<exists>l \<in> set ?rows. job_id j0 = lease_job_id l \<and> jr_assignment_lease_id j0 = Some (lease_id l))
       then requeued now j0
       else j0)"
      unfolding jobs fold_requeue_job in_sql_update_iff by blast
    then have "job_ok (job_leases s) j0" using inv by blast
    then show ?thesis unfolding leases j using inv by (intro expire_job_ok) simp_all
  qed
  moreover have "\<exists>j \<in> set (compute_jobs ?s). lease_for l j" if l: "l \<in> set (job_leases ?s)" "lease_active l" for l
  proof -
    have "l \<in> set (job_leases s)"
      using l by (auto simp: leases set_sql_update lease_state_defs)
    then obtain j where "j \<in> set (compute_jobs s)" "lease_for l j" using inv l(2) by blast
    then show ?thesis unfolding jobs fold_requeue_job
      by (intro sql_update_bexI) (auto simp: lease_for_def requeued_def)
  qed
  moreover have "map job_id (compute_jobs ?s) = map job_id (compute_jobs s)"
    unfolding jobs fold_requeue_job by (rule map_sql_update) (simp add: requeued_def)
  moreover have "leases_exclusive (job_leases ?s)"
    using inv unfolding leases by (intro expired_offers.exclusive_upd) simp
  ultimately show ?thesis using inv by (simp add: lease_authority_def)
qed

text \<open>Updates of job columns that play no part in the agreement.\<close>

lemma job_ok_cong:
  assumes "job_id j = job_id j'" "job_status j = job_status j'"
    "jr_assignment_lease_id j = jr_assignment_lease_id j'"
    "jr_job_credential_hash j = jr_job_credential_hash j'"
    "jr_job_credential_expires_at j = jr_job_credential_expires_at j'"
  shows "job_ok ls j = job_ok ls j'"
  unfolding job_ok_def assms ..

lemma authority_jobs_update:
  assumes "lease_authority s" "\<And>j. job_id (f j) = job_id j" "\<And>ls j. job_ok ls (f j) = job_ok ls j"
    "\<And>l j. lease_for l (f j) = lease_for l j"
  shows "lease_authority (s\<lparr>compute_jobs := sql_update P f (compute_jobs s)\<rparr>)"
proof -
  have "job_ok (job_leases s) j" if "j \<in> set (sql_update P f (compute_jobs s))" for j
    using that assms(1,3) by (auto simp: lease_authority_def in_sql_update_iff)
  moreover have "\<exists>j \<in> set (sql_update P f (compute_jobs s)). lease_for l j"
    if l: "l \<in> set (job_leases s)" "lease_active l" for l
  proof -
    obtain j where "j \<in> set (compute_jobs s)" "lease_for l j"
      using assms(1) l by (auto simp: lease_authority_def)
    then show ?thesis using assms(4) by (intro sql_update_bexI) auto
  qed
  ultimately show ?thesis using assms(1,2) by (simp add: lease_authority_def)
qed

end
