(* ===== verification/Admission.thy ===== *)
theory Admission
  imports Store
begin

text \<open>
  Runtime admission, \<^verbatim>\<open>burd-control-plane/src/runtime_admission.rs\<close> with the validators of
  \<^verbatim>\<open>burd-protocol/src/runtime_admission.rs\<close> and \<^verbatim>\<open>runtime_verification.rs\<close>: whether a GPU of a device
  may be used now, from the latest signed inventory, the active device keys, the latest runtime
  observation and the latest runtime verification. The canonical JSON hashes (\<open>hash_canonical\<close>,
  serialisation by \<open>serde_json\<close> and SHA-256) are parameters.
\<close>

record canonical_hashes =
  observation_hash :: "ProviderRuntimeObservationPayload \<Rightarrow> string"
  claims_hash :: "RuntimeAdmissionFingerprintClaims \<Rightarrow> string"

record RuntimeAdmissionPolicy =
  rp_clock_skew_seconds :: u32
  rp_observation_max_age_seconds :: u32
  rp_approved_proof_image_ref :: "string option"

record RuntimeAdmissionDecision =
  ad_schema_version :: string
  ad_provider_id :: string
  ad_device_id :: string
  ad_gpu_uuid :: string
  ad_status :: string
  ad_reason_codes :: "string list"
  ad_runtime_backend :: "string option"
  ad_verification_id :: "string option"
  ad_runtime_verification_fingerprint :: "string option"
  ad_runtime_observation_hash :: "string option"
  ad_evaluated_at :: string

definition RUNTIME_ADMISSION_SCHEMA_VERSION :: string where
  "RUNTIME_ADMISSION_SCHEMA_VERSION = ''burd-runtime-admission-v1''"

definition RUNTIME_ADMISSION_FINGERPRINT_VERSION :: string where
  "RUNTIME_ADMISSION_FINGERPRINT_VERSION = ''burd-runtime-admission-fingerprint-v1''"

definition PROVIDER_RUNTIME_OBSERVATION_SCHEMA_VERSION :: string where
  "PROVIDER_RUNTIME_OBSERVATION_SCHEMA_VERSION = ''burd-provider-runtime-observation-v1''"

definition RUNTIME_VERIFICATION_RECORD_SCHEMA_VERSION :: string where
  "RUNTIME_VERIFICATION_RECORD_SCHEMA_VERSION = ''burd-runtime-verification-record-v2''"

definition RUNTIME_PROOF_POLICY_VERSION :: string where
  "RUNTIME_PROOF_POLICY_VERSION = ''burd-runtime-proof-policy-v1''"

section \<open>Validators of the protocol crate\<close>

definition safe_id :: "string \<Rightarrow> nat \<Rightarrow> bool" where
  "safe_id value maximum \<longleftrightarrow> value \<noteq> [] \<and> length value \<le> maximum \<and> list_all is_ascii value \<and>
     list_all id_char value"

definition safe_hash :: "string \<Rightarrow> bool" where
  "safe_hash value \<longleftrightarrow> length value = 64 \<and> list_all is_ascii_hexdigit value"

definition safe_gpu_uuid :: "string \<Rightarrow> bool" where
  "safe_gpu_uuid value \<longleftrightarrow> value \<noteq> [] \<and> length value \<le> 128 \<and> list_all is_ascii value \<and>
     \<not> list_ex is_ascii_whitespace value"

definition safe_version :: "string \<Rightarrow> bool" where
  "safe_version value \<longleftrightarrow> value \<noteq> [] \<and> length value \<le> 128 \<and> list_all is_ascii value \<and>
     \<not> list_ex is_ascii_control value"

definition valid_platform :: "string \<Rightarrow> string \<Rightarrow> bool" where
  "valid_platform host_os runtime_backend \<longleftrightarrow>
     (host_os, runtime_backend) \<in> {(''linux'', ''docker_linux_native''), (''windows'', ''docker_wsl2'')}"

definition immutable_image_ref :: "string \<Rightarrow> bool" where
  "immutable_image_ref value =
     (case rsplit_once value ''@sha256:'' of
        None \<Rightarrow> False
      | Some (name, digest) \<Rightarrow>
          name \<noteq> [] \<and> length name \<le> 512 \<and> \<not> any_whitespace name \<and>
          length digest = 64 \<and> list_all is_ascii_hexdigit digest)"

definition validate_provider_runtime_observation_payload ::
  "externs \<Rightarrow> ProviderRuntimeObservationPayload \<Rightarrow> bool" where
  "validate_provider_runtime_observation_payload X p \<longleftrightarrow>
     (let unique = set (map to_ascii_lowercase (op_gpu_uuids p)) in
      \<not> (op_schema_version p \<noteq> PROVIDER_RUNTIME_OBSERVATION_SCHEMA_VERSION
         \<or> \<not> safe_id (op_provider_id p) 128
         \<or> \<not> safe_id (op_device_id p) 128
         \<or> \<not> safe_id (op_session_id p) 128
         \<or> \<not> safe_hash (op_hardware_fingerprint p)
         \<or> op_container_os p \<noteq> ''linux''
         \<or> op_gpu_backend p \<noteq> ''cuda''
         \<or> op_gpu_runtime p \<noteq> ''nvidia''
         \<or> op_isolation_mode p \<noteq> ''linux_container''
         \<or> op_nvidia_runtime p \<noteq> ''nvidia''
         \<or> op_agent_runtime_contract_version p \<noteq> AGENT_RUNTIME_CONTRACT_VERSION
         \<or> op_gpu_uuids p = []
         \<or> length (op_gpu_uuids p) > 32
         \<or> card unique \<noteq> length (op_gpu_uuids p)
         \<or> list_ex (\<lambda>v. \<not> safe_gpu_uuid v) (op_gpu_uuids p)
         \<or> \<not> safe_version (op_docker_server_version p)
         \<or> \<not> safe_version (op_nvidia_driver_version p)
         \<or> parse_from_rfc3339 X (op_observed_at p) = None)
      \<and> valid_platform (op_host_os p) (op_runtime_backend p))"

definition validate_runtime_admission_fingerprint_claims ::
  "RuntimeAdmissionFingerprintClaims \<Rightarrow> bool" where
  "validate_runtime_admission_fingerprint_claims c \<longleftrightarrow>
     \<not> (fc_version c \<noteq> RUNTIME_ADMISSION_FINGERPRINT_VERSION
        \<or> \<not> safe_id (fc_provider_id c) 128
        \<or> \<not> safe_id (fc_device_id c) 128
        \<or> \<not> safe_hash (fc_hardware_fingerprint c)
        \<or> \<not> safe_gpu_uuid (fc_gpu_uuid c)
        \<or> fc_container_os c \<noteq> ''linux''
        \<or> fc_gpu_backend c \<noteq> ''cuda''
        \<or> fc_gpu_runtime c \<noteq> ''nvidia''
        \<or> fc_isolation_mode c \<noteq> ''linux_container''
        \<or> fc_nvidia_runtime c \<noteq> ''nvidia''
        \<or> fc_agent_runtime_contract_version c \<noteq> AGENT_RUNTIME_CONTRACT_VERSION
        \<or> \<not> safe_version (fc_docker_server_version c)
        \<or> \<not> safe_version (fc_nvidia_driver_version c))
     \<and> valid_platform (fc_host_os c) (fc_runtime_backend c)"

definition runtime_admission_claims_from_observation ::
  "externs \<Rightarrow> ProviderRuntimeObservationPayload \<Rightarrow> string \<Rightarrow> RuntimeAdmissionFingerprintClaims option" where
  "runtime_admission_claims_from_observation X p gpu =
     (if \<not> validate_provider_runtime_observation_payload X p then None
      else if \<not> list_ex (\<lambda>v. eq_ignore_ascii_case v gpu) (op_gpu_uuids p) \<or> \<not> safe_gpu_uuid gpu then None
      else Some
        \<lparr>fc_version = RUNTIME_ADMISSION_FINGERPRINT_VERSION,
         fc_provider_id = op_provider_id p, fc_device_id = op_device_id p,
         fc_hardware_fingerprint = op_hardware_fingerprint p, fc_gpu_uuid = gpu,
         fc_host_os = op_host_os p, fc_runtime_backend = op_runtime_backend p,
         fc_container_os = op_container_os p, fc_gpu_backend = op_gpu_backend p,
         fc_gpu_runtime = op_gpu_runtime p, fc_isolation_mode = op_isolation_mode p,
         fc_docker_server_version = op_docker_server_version p,
         fc_nvidia_driver_version = op_nvidia_driver_version p,
         fc_nvidia_runtime = op_nvidia_runtime p,
         fc_agent_runtime_contract_version = op_agent_runtime_contract_version p\<rparr>)"

definition opt_default :: "string option \<Rightarrow> string" where
  "opt_default v = (case v of None \<Rightarrow> [] | Some s \<Rightarrow> s)"

definition validate_provider_runtime_verification_record ::
  "externs \<Rightarrow> canonical_hashes \<Rightarrow> ProviderRuntimeVerificationRecord \<Rightarrow> int \<Rightarrow> bool" where
  "validate_provider_runtime_verification_record X H r now =
     (case (parse_from_rfc3339 X (vr_verified_at r), parse_from_rfc3339 X (vr_expires_at r)) of
        (Some verified_at, Some expires_at) \<Rightarrow>
          let public_key_id = opt_default (vr_public_key_id r);
              admission_fingerprint = opt_default (vr_runtime_admission_fingerprint r);
              admission_claims_valid = (case vr_runtime_admission_claims r of
                  None \<Rightarrow> False
                | Some c \<Rightarrow>
                    validate_runtime_admission_fingerprint_claims c
                    \<and> fc_provider_id c = vr_provider_id r
                    \<and> fc_device_id c = vr_device_id r
                    \<and> fc_hardware_fingerprint c = vr_hardware_fingerprint r
                    \<and> fc_gpu_uuid c = vr_gpu_uuid r
                    \<and> fc_host_os c = vr_host_os r
                    \<and> fc_runtime_backend c = vr_runtime_backend r
                    \<and> fc_agent_runtime_contract_version c = vr_agent_runtime_contract_version r
                    \<and> claims_hash H c = admission_fingerprint)
          in \<not> (vr_schema_version r \<noteq> RUNTIME_VERIFICATION_RECORD_SCHEMA_VERSION
               \<or> \<not> safe_id (vr_verification_id r) 128
               \<or> \<not> safe_id (vr_challenge_id r) 128
               \<or> \<not> safe_id (vr_provider_id r) 128
               \<or> \<not> safe_id (vr_device_id r) 128
               \<or> \<not> safe_id (vr_session_id r) 128
               \<or> \<not> safe_hash (vr_hardware_fingerprint r)
               \<or> \<not> safe_gpu_uuid (vr_gpu_uuid r)
               \<or> \<not> safe_hash (vr_runtime_verification_fingerprint r)
               \<or> vr_proof_policy_version r \<noteq> RUNTIME_PROOF_POLICY_VERSION
               \<or> vr_agent_runtime_contract_version r \<noteq> AGENT_RUNTIME_CONTRACT_VERSION
               \<or> \<not> immutable_image_ref (vr_proof_image_digest r)
               \<or> \<not> safe_id public_key_id 128
               \<or> \<not> safe_hash admission_fingerprint
               \<or> \<not> admission_claims_valid
               \<or> vr_status r \<noteq> ''verified''
               \<or> vr_gpu_uuid_binding r \<noteq> ''verified''
               \<or> vr_reason_codes r \<noteq> []
               \<or> verified_at > now
               \<or> expires_at \<le> verified_at
               \<or> expires_at \<le> now
               \<or> expires_at - verified_at > 604800 * nanos_per_second)
             \<and> valid_platform (vr_host_os r) (vr_runtime_backend r)
      | _ \<Rightarrow> False)"

definition validate_runtime_admission_decision :: "externs \<Rightarrow> RuntimeAdmissionDecision \<Rightarrow> bool" where
  "validate_runtime_admission_decision X d \<longleftrightarrow>
     \<not> (ad_schema_version d \<noteq> RUNTIME_ADMISSION_SCHEMA_VERSION
        \<or> \<not> safe_id (ad_provider_id d) 128
        \<or> \<not> safe_id (ad_device_id d) 128
        \<or> \<not> safe_gpu_uuid (ad_gpu_uuid d)
        \<or> \<not> (ad_status d \<in> {''admitted'', ''denied''})
        \<or> (ad_status d = ''admitted'' \<and> ad_reason_codes d \<noteq> [])
        \<or> (ad_status d = ''denied'' \<and> ad_reason_codes d = [])
        \<or> list_ex (\<lambda>v. \<not> safe_id v 128) (ad_reason_codes d)
        \<or> parse_from_rfc3339 X (ad_evaluated_at d) = None)"

section \<open>The decision\<close>

record InventoryCandidate =
  ic_device_id :: string
  ic_device_status :: string
  ic_gpu_uuid :: string
  ic_gpu_status :: string
  ic_public_key_id :: string

record ObservationSnapshot =
  os_hash :: string
  os_public_key_id :: string
  os_session_id :: string
  os_server_received_at :: int
  os_session_status :: string
  os_session_hardware_fingerprint :: "string option"
  os_payload :: ProviderRuntimeObservationPayload

record AdmissionContext =
  cx_provider_id :: string
  cx_provider_status :: string
  cx_inventory :: InventoryCandidate
  cx_active_public_key_ids :: "string list"
  cx_observation :: "ObservationSnapshot option"
  cx_observation_invalid :: bool
  cx_verification :: "ProviderRuntimeVerificationRecord option"
  cx_verification_invalid :: bool

text \<open>\<open>if b { reasons.push(code) }\<close>.\<close>

definition reason :: "bool \<Rightarrow> string \<Rightarrow> string list" where
  "reason b code = (if b then [code] else [])"

definition active_device_key :: "AdmissionContext \<Rightarrow> string option" where
  "active_device_key cx = (case cx_active_public_key_ids cx of [k] \<Rightarrow> Some k | _ \<Rightarrow> None)"

definition identity_reasons :: "AdmissionContext \<Rightarrow> string list" where
  "identity_reasons cx =
     reason (cx_provider_status cx \<in> {''blocked'', ''quarantined''}) ''provider_not_active''
     @ reason (ic_device_status (cx_inventory cx) \<noteq> ''active'') ''device_not_active''
     @ reason (ic_gpu_status (cx_inventory cx) \<noteq> ''active'') ''gpu_not_active''
     @ (if length (cx_active_public_key_ids cx) = 1 then []
        else [if cx_active_public_key_ids cx = [] then ''active_device_key_missing''
              else ''active_device_key_ambiguous''])
     @ reason (active_device_key cx \<noteq> Some (ic_public_key_id (cx_inventory cx))) ''inventory_key_changed''
     @ reason (cx_observation_invalid cx) ''runtime_observation_invalid''
     @ reason (cx_verification_invalid cx) ''runtime_verification_invalid''"

definition observation_reasons ::
  "externs \<Rightarrow> canonical_hashes \<Rightarrow> AdmissionContext \<Rightarrow> RuntimeAdmissionPolicy \<Rightarrow> int \<Rightarrow> string list" where
  "observation_reasons X H cx policy now =
     (let max_age = int (unat (rp_observation_max_age_seconds policy)) * nanos_per_second;
          skew = int (unat (rp_clock_skew_seconds policy)) * nanos_per_second in
      case cx_observation cx of
        Some ob \<Rightarrow>
          let p = os_payload ob in
          reason (observation_hash H p \<noteq> os_hash ob
              \<or> op_provider_id p \<noteq> cx_provider_id cx
              \<or> op_device_id p \<noteq> ic_device_id (cx_inventory cx)
              \<or> op_session_id p \<noteq> os_session_id ob) ''runtime_observation_invalid''
          @ (case parse_from_rfc3339 X (op_observed_at p) of
               Some observed_at \<Rightarrow>
                 if observed_at < now - max_age then [''runtime_observation_stale'']
                 else if observed_at > now + skew then [''runtime_observation_timestamp_invalid'']
                 else []
             | None \<Rightarrow> [''runtime_observation_timestamp_invalid''])
          @ reason (now - os_server_received_at ob > max_age) ''runtime_observation_stale''
          @ reason (active_device_key cx \<noteq> Some (os_public_key_id ob)) ''runtime_observation_key_changed''
          @ reason (os_session_status ob \<notin> {''online'', ''degraded''}) ''runtime_observation_session_not_online''
          @ reason (os_session_hardware_fingerprint ob \<noteq> Some (op_hardware_fingerprint p))
              ''session_hardware_changed''
          @ reason (\<not> list_ex (\<lambda>v. eq_ignore_ascii_case v (ic_gpu_uuid (cx_inventory cx))) (op_gpu_uuids p))
              ''gpu_missing_from_runtime''
          @ reason (op_host_os p = ''windows'') ''windows_physical_gate_required''
      | None \<Rightarrow> reason (\<not> cx_observation_invalid cx) ''runtime_observation_missing'')"

definition verification_reasons ::
  "externs \<Rightarrow> canonical_hashes \<Rightarrow> AdmissionContext \<Rightarrow> RuntimeAdmissionPolicy \<Rightarrow> int \<Rightarrow> string list" where
  "verification_reasons X H cx policy now =
     (case cx_verification cx of
        Some v \<Rightarrow>
          let expires_at = parse_from_rfc3339 X (vr_expires_at v);
              unexpired = (case expires_at of Some e \<Rightarrow> \<not> e \<le> now | None \<Rightarrow> False) in
          reason (vr_provider_id v \<noteq> cx_provider_id cx
              \<or> vr_device_id v \<noteq> ic_device_id (cx_inventory cx)) ''runtime_verification_identity_changed''
          @ reason (vr_status v \<noteq> ''verified'') ''runtime_verification_not_verified''
          @ (case expires_at of
               Some e \<Rightarrow> reason (e \<le> now) ''runtime_verification_expired''
             | None \<Rightarrow> [''runtime_verification_invalid''])
          @ reason (vr_status v = ''verified'' \<and> unexpired
              \<and> \<not> validate_provider_runtime_verification_record X H v now) ''runtime_verification_invalid''
          @ reason (vr_public_key_id v \<noteq> active_device_key cx) ''runtime_verification_key_changed''
          @ reason (\<not> eq_ignore_ascii_case (vr_gpu_uuid v) (ic_gpu_uuid (cx_inventory cx)))
              ''runtime_verification_gpu_changed''
          @ (case rp_approved_proof_image_ref policy of
               None \<Rightarrow> [''runtime_proof_policy_unconfigured'']
             | Some approved \<Rightarrow> reason (vr_proof_image_digest v \<noteq> approved) ''runtime_proof_image_changed'')
          @ (case cx_observation cx of
               None \<Rightarrow> []
             | Some ob \<Rightarrow>
                 reason (vr_hardware_fingerprint v \<noteq> op_hardware_fingerprint (os_payload ob))
                   ''hardware_fingerprint_changed''
                 @ reason (vr_runtime_backend v \<noteq> op_runtime_backend (os_payload ob))
                   ''runtime_backend_changed''
                 @ (case runtime_admission_claims_from_observation X (os_payload ob)
                         (ic_gpu_uuid (cx_inventory cx)) of
                      Some claims \<Rightarrow>
                        reason (vr_runtime_admission_fingerprint v \<noteq> Some (claims_hash H claims))
                          ''runtime_changed''
                    | None \<Rightarrow> [''runtime_observation_invalid'']))
      | None \<Rightarrow> reason (\<not> cx_verification_invalid cx) ''runtime_verification_required'')"

definition evaluate_runtime_admission ::
  "externs \<Rightarrow> canonical_hashes \<Rightarrow> AdmissionContext \<Rightarrow> RuntimeAdmissionPolicy \<Rightarrow> int \<Rightarrow>
     RuntimeAdmissionDecision" where
  "evaluate_runtime_admission X H cx policy now =
     (let reasons = sorted_dedup (identity_reasons cx @ observation_reasons X H cx policy now
                                  @ verification_reasons X H cx policy now) in
      \<lparr>ad_schema_version = RUNTIME_ADMISSION_SCHEMA_VERSION,
       ad_provider_id = cx_provider_id cx,
       ad_device_id = ic_device_id (cx_inventory cx),
       ad_gpu_uuid = ic_gpu_uuid (cx_inventory cx),
       ad_status = (if reasons = [] then ''admitted'' else ''denied''),
       ad_reason_codes = reasons,
       ad_runtime_backend = map_option (\<lambda>ob. op_runtime_backend (os_payload ob)) (cx_observation cx),
       ad_verification_id = map_option vr_verification_id (cx_verification cx),
       ad_runtime_verification_fingerprint =
         map_option vr_runtime_verification_fingerprint (cx_verification cx),
       ad_runtime_observation_hash = map_option os_hash (cx_observation cx),
       ad_evaluated_at = to_rfc3339 X now\<rparr>)"

section \<open>Loading the context\<close>

definition latest_snapshot_id :: "db \<Rightarrow> string \<Rightarrow> string \<Rightarrow> string option" where
  "latest_snapshot_id s provider device =
     map_option sn_snapshot_id (latest_by sn_ingest_seq
       (filter (\<lambda>r. sn_provider_id r = provider \<and> sn_device_id r = device) (gpu_inventory_snapshots s)))"

definition inventory_gpu :: "db \<Rightarrow> string \<Rightarrow> string \<Rightarrow> string \<Rightarrow> inventory_row option" where
  "inventory_gpu s provider device gpu =
     find (\<lambda>r. in_provider_id r = provider \<and> in_device_id r = device
        \<and> eq_ignore_ascii_case (in_gpu_uuid r) gpu
        \<and> latest_snapshot_id s provider device = Some (in_snapshot_id r)) (gpu_inventory s)"

definition assert_gpu_inventory_contains :: "db \<Rightarrow> string \<Rightarrow> string \<Rightarrow> string \<Rightarrow> unit res" where
  "assert_gpu_inventory_contains s provider device gpu =
     ensure (map_option in_status (inventory_gpu s provider device gpu) = Some ''active'')
       (Conflict ''requested GPU is not active in the latest device inventory'')"

definition load_admission_context ::
  "externs \<Rightarrow> db \<Rightarrow> string \<Rightarrow> string \<Rightarrow> InventoryCandidate \<Rightarrow> AdmissionContext" where
  "load_admission_context X s provider provider_status inventory =
     (let device = ic_device_id inventory;
          keys = filter (\<lambda>k. pk_provider_id k = provider \<and> pk_device_id k = device
                   \<and> pk_status k = ''active'') (provider_public_keys s);
          obs_row = latest_by (\<lambda>(o', _). collation_key X (ob_server_received_at o'))
            [(o', ps). o' \<leftarrow> runtime_observations s, ps \<leftarrow> provider_sessions s,
               ps_session_id ps = ob_session_id o' \<and> ob_provider_id o' = provider
               \<and> ob_device_id o' = device];
          obs = Option.bind obs_row (\<lambda>(o', ps).
            Option.bind (ob_payload o') (\<lambda>payload.
            map_option (\<lambda>received_at.
              \<lparr>os_hash = ob_observation_hash o', os_public_key_id = ob_public_key_id o',
               os_session_id = ob_session_id o', os_server_received_at = received_at,
               os_session_status = ps_status ps,
               os_session_hardware_fingerprint = ps_hardware_fingerprint ps,
               os_payload = payload\<rparr>) (parse_from_rfc3339 X (ob_server_received_at o'))));
          ver_row = latest_by (\<lambda>v. collation_key X (ve_verified_at v))
            (filter (\<lambda>v. ve_provider_id v = provider \<and> ve_device_id v = device
               \<and> eq_ignore_ascii_case (ve_gpu_uuid v) (ic_gpu_uuid inventory)) (runtime_verifications s));
          ver = Option.bind ver_row ve_record in
      \<lparr>cx_provider_id = provider, cx_provider_status = provider_status, cx_inventory = inventory,
       cx_active_public_key_ids = map pk_public_key_id (rev (sort_key (\<lambda>k. collation_key X (pk_created_at k)) keys)),
       cx_observation = obs, cx_observation_invalid = (obs_row \<noteq> None \<and> obs = None),
       cx_verification = ver, cx_verification_invalid = (ver_row \<noteq> None \<and> ver = None)\<rparr>)"

definition validated_decision :: "externs \<Rightarrow> RuntimeAdmissionDecision \<Rightarrow> RuntimeAdmissionDecision res" where
  "validated_decision X d =
     (if validate_runtime_admission_decision X d then Inr d
      else Inl (Invalid ''runtime admission decision is invalid''))"

definition validated_denied_decision ::
  "externs \<Rightarrow> string \<Rightarrow> string \<Rightarrow> string \<Rightarrow> string list \<Rightarrow> int \<Rightarrow> RuntimeAdmissionDecision res" where
  "validated_denied_decision X provider device gpu reasons now =
     validated_decision X
       \<lparr>ad_schema_version = RUNTIME_ADMISSION_SCHEMA_VERSION, ad_provider_id = provider,
        ad_device_id = device, ad_gpu_uuid = gpu, ad_status = ''denied'',
        ad_reason_codes = sorted_dedup reasons, ad_runtime_backend = None,
        ad_verification_id = None, ad_runtime_verification_fingerprint = None,
        ad_runtime_observation_hash = None, ad_evaluated_at = to_rfc3339 X now\<rparr>"

definition evaluate_runtime_admission_for_gpu_in_transaction ::
  "externs \<Rightarrow> canonical_hashes \<Rightarrow> db \<Rightarrow> string \<Rightarrow> string \<Rightarrow> string \<Rightarrow> RuntimeAdmissionPolicy \<Rightarrow> int \<Rightarrow>
     RuntimeAdmissionDecision res" where
  "evaluate_runtime_admission_for_gpu_in_transaction X H s provider device gpu policy now =
     bind_res (ensure (safe_id provider 128 \<and> safe_id device 128 \<and> safe_id gpu 128)
       (Invalid ''runtime admission identity is invalid'')) (\<lambda>_.
     (case (find (\<lambda>p. pr_provider_id p = provider) (providers s),
            find (\<lambda>d. dv_provider_id d = provider \<and> dv_device_id d = device) (devices s)) of
        (Some p, Some d) \<Rightarrow>
          (case inventory_gpu s provider device gpu of
             None \<Rightarrow>
               validated_denied_decision X provider device gpu
                 (''gpu_inventory_missing''
                   # reason (pr_status p \<in> {''blocked'', ''quarantined''}) ''provider_not_active''
                   @ reason (dv_status d \<noteq> ''active'') ''device_not_active'') now
           | Some i \<Rightarrow>
               validated_decision X (evaluate_runtime_admission X H
                 (load_admission_context X s provider (pr_status p)
                   \<lparr>ic_device_id = device, ic_device_status = dv_status d,
                    ic_gpu_uuid = in_gpu_uuid i, ic_gpu_status = in_status i,
                    ic_public_key_id = in_public_key_id i\<rparr>) policy now))
      | _ \<Rightarrow>
          validated_denied_decision X provider device gpu [''runtime_admission_identity_missing''] now))"

section \<open>Lemmas\<close>

lemma reason_Nil [simp]: "reason b c = [] \<longleftrightarrow> \<not> b"
  by (simp add: reason_def)

lemma set_reason [simp]: "set (reason b c) = (if b then {c} else {})"
  by (simp add: reason_def)

lemma sorted_dedup_Nil [simp]: "sorted_dedup xs = [] \<longleftrightarrow> xs = []"
  by (metis set_empty set_sorted_dedup)

lemma active_device_key_Some: "active_device_key cx = Some k \<longleftrightarrow> cx_active_public_key_ids cx = [k]"
  by (auto simp: active_device_key_def split: list.splits)

text \<open>The reason codes the decision can carry, all of them identifiers the validator accepts.\<close>

definition admission_reason_codes :: "string list" where
  "admission_reason_codes =
     [''provider_not_active'', ''device_not_active'', ''gpu_not_active'', ''active_device_key_missing'',
      ''active_device_key_ambiguous'', ''inventory_key_changed'', ''runtime_observation_invalid'',
      ''runtime_verification_invalid'', ''runtime_observation_stale'',
      ''runtime_observation_timestamp_invalid'', ''runtime_observation_key_changed'',
      ''runtime_observation_session_not_online'', ''session_hardware_changed'',
      ''gpu_missing_from_runtime'', ''windows_physical_gate_required'', ''runtime_observation_missing'',
      ''runtime_verification_identity_changed'', ''runtime_verification_not_verified'',
      ''runtime_verification_expired'', ''runtime_verification_key_changed'',
      ''runtime_verification_gpu_changed'', ''runtime_proof_policy_unconfigured'',
      ''runtime_proof_image_changed'', ''hardware_fingerprint_changed'', ''runtime_backend_changed'',
      ''runtime_changed'', ''runtime_verification_required'', ''gpu_inventory_missing'',
      ''runtime_admission_identity_missing'']"

lemma admission_reason_codes_safe: "list_all (\<lambda>c. safe_id c 128) admission_reason_codes"
  by code_simp

lemma admission_reason_code_members:
  "''provider_not_active'' \<in> set admission_reason_codes"
  "''device_not_active'' \<in> set admission_reason_codes"
  "''gpu_not_active'' \<in> set admission_reason_codes"
  "''active_device_key_missing'' \<in> set admission_reason_codes"
  "''active_device_key_ambiguous'' \<in> set admission_reason_codes"
  "''inventory_key_changed'' \<in> set admission_reason_codes"
  "''runtime_observation_invalid'' \<in> set admission_reason_codes"
  "''runtime_verification_invalid'' \<in> set admission_reason_codes"
  "''runtime_observation_stale'' \<in> set admission_reason_codes"
  "''runtime_observation_timestamp_invalid'' \<in> set admission_reason_codes"
  "''runtime_observation_key_changed'' \<in> set admission_reason_codes"
  "''runtime_observation_session_not_online'' \<in> set admission_reason_codes"
  "''session_hardware_changed'' \<in> set admission_reason_codes"
  "''gpu_missing_from_runtime'' \<in> set admission_reason_codes"
  "''windows_physical_gate_required'' \<in> set admission_reason_codes"
  "''runtime_observation_missing'' \<in> set admission_reason_codes"
  "''runtime_verification_identity_changed'' \<in> set admission_reason_codes"
  "''runtime_verification_not_verified'' \<in> set admission_reason_codes"
  "''runtime_verification_expired'' \<in> set admission_reason_codes"
  "''runtime_verification_key_changed'' \<in> set admission_reason_codes"
  "''runtime_verification_gpu_changed'' \<in> set admission_reason_codes"
  "''runtime_proof_policy_unconfigured'' \<in> set admission_reason_codes"
  "''runtime_proof_image_changed'' \<in> set admission_reason_codes"
  "''hardware_fingerprint_changed'' \<in> set admission_reason_codes"
  "''runtime_backend_changed'' \<in> set admission_reason_codes"
  "''runtime_changed'' \<in> set admission_reason_codes"
  "''runtime_verification_required'' \<in> set admission_reason_codes"
  "''gpu_inventory_missing'' \<in> set admission_reason_codes"
  "''runtime_admission_identity_missing'' \<in> set admission_reason_codes"
  by (simp_all add: admission_reason_codes_def)

definition known_reasons :: "string list \<Rightarrow> bool" where
  "known_reasons rs \<longleftrightarrow> set rs \<subseteq> set admission_reason_codes"

lemma known_reasons_simps:
  "known_reasons []"
  "known_reasons (c # rs) \<longleftrightarrow> c \<in> set admission_reason_codes \<and> known_reasons rs"
  "known_reasons (rs @ rs') \<longleftrightarrow> known_reasons rs \<and> known_reasons rs'"
  "known_reasons (reason b c) \<longleftrightarrow> (b \<longrightarrow> c \<in> set admission_reason_codes)"
  by (auto simp: known_reasons_def)

lemma known_reasons_option:
  "known_reasons (case v of None \<Rightarrow> f | Some x \<Rightarrow> g x) \<longleftrightarrow>
     (v = None \<longrightarrow> known_reasons f) \<and> (\<forall>x. v = Some x \<longrightarrow> known_reasons (g x))"
  by (cases v) simp_all

lemmas known_reasons_rules = known_reasons_simps known_reasons_option if_distrib[of known_reasons]
  admission_reason_code_members

lemma identity_reasons_codes: "known_reasons (identity_reasons cx)"
  by (simp add: identity_reasons_def known_reasons_rules)

lemma observation_reasons_codes: "known_reasons (observation_reasons X H cx policy now)"
  by (simp add: observation_reasons_def Let_def known_reasons_rules)

lemma verification_reasons_codes: "known_reasons (verification_reasons X H cx policy now)"
  by (simp add: verification_reasons_def Let_def known_reasons_rules)

lemma decision_reason_codes:
  "set (ad_reason_codes (evaluate_runtime_admission X H cx policy now)) \<subseteq> set admission_reason_codes"
  using identity_reasons_codes[of cx] observation_reasons_codes[of X H cx policy now]
    verification_reasons_codes[of X H cx policy now]
  by (simp add: evaluate_runtime_admission_def Let_def known_reasons_def)

lemma lower_char_safe:
  "is_ascii (to_ascii_lowercase_char c) \<longleftrightarrow> is_ascii c"
  "is_ascii_whitespace (to_ascii_lowercase_char c) \<longleftrightarrow> is_ascii_whitespace c"
  by (auto simp: to_ascii_lowercase_char_def is_ascii_def is_ascii_uppercase_def
      is_ascii_whitespace_def)

lemma safe_gpu_uuid_lower: "safe_gpu_uuid (to_ascii_lowercase v) \<longleftrightarrow> safe_gpu_uuid v"
  by (simp add: safe_gpu_uuid_def to_ascii_lowercase_def list_all_iff list_ex_iff lower_char_safe)

lemma safe_gpu_uuid_cong: "eq_ignore_ascii_case a b \<Longrightarrow> safe_gpu_uuid a \<longleftrightarrow> safe_gpu_uuid b"
  by (metis eq_ignore_ascii_case_def safe_gpu_uuid_lower)

lemma id_char_not_whitespace: "id_char c \<Longrightarrow> \<not> is_ascii_whitespace c"
  by (auto simp: ascii_simps)

lemma safe_id_gpu_uuid: "safe_id v 128 \<Longrightarrow> safe_gpu_uuid v"
  by (auto simp: safe_id_def safe_gpu_uuid_def list_all_iff list_ex_iff dest: id_char_not_whitespace)

lemma inventory_gpu_SomeD:
  "inventory_gpu s provider device gpu = Some i \<Longrightarrow>
     i \<in> set (gpu_inventory s) \<and> in_provider_id i = provider \<and> in_device_id i = device \<and>
     eq_ignore_ascii_case (in_gpu_uuid i) gpu \<and>
     latest_snapshot_id s provider device = Some (in_snapshot_id i)"
  by (auto simp: inventory_gpu_def dest!: find_SomeD)

lemma validated_decision_ok [simp]: "validated_decision X d = Inr d' \<longleftrightarrow>
    validate_runtime_admission_decision X d \<and> d' = d"
  by (auto simp: validated_decision_def)

text \<open>What the three groups of checks establish when none of them objects.\<close>

lemma identity_reasons_Nil:
  "identity_reasons cx = [] \<Longrightarrow>
     cx_provider_status cx \<notin> {''blocked'', ''quarantined''} \<and>
     ic_device_status (cx_inventory cx) = ''active'' \<and> ic_gpu_status (cx_inventory cx) = ''active'' \<and>
     cx_active_public_key_ids cx = [ic_public_key_id (cx_inventory cx)] \<and>
     \<not> cx_observation_invalid cx \<and> \<not> cx_verification_invalid cx"
  by (auto simp: identity_reasons_def active_device_key_Some)

lemma observation_reasons_Nil:
  assumes "observation_reasons X H cx policy now = []" "\<not> cx_observation_invalid cx"
  shows "\<exists>ob t. cx_observation cx = Some ob \<and>
    observation_hash H (os_payload ob) = os_hash ob \<and>
    op_provider_id (os_payload ob) = cx_provider_id cx \<and>
    op_device_id (os_payload ob) = ic_device_id (cx_inventory cx) \<and>
    parse_from_rfc3339 X (op_observed_at (os_payload ob)) = Some t \<and>
    now - int (unat (rp_observation_max_age_seconds policy)) * nanos_per_second \<le> t \<and>
    t \<le> now + int (unat (rp_clock_skew_seconds policy)) * nanos_per_second \<and>
    active_device_key cx = Some (os_public_key_id ob) \<and>
    os_session_status ob \<in> {''online'', ''degraded''} \<and>
    os_session_hardware_fingerprint ob = Some (op_hardware_fingerprint (os_payload ob))"
  using assms
  by (auto simp: observation_reasons_def Let_def split: option.splits if_splits)

lemma verification_reasons_Nil:
  assumes "verification_reasons X H cx policy now = []" "\<not> cx_verification_invalid cx"
    "cx_observation cx = Some ob"
  shows "\<exists>v claims. cx_verification cx = Some v \<and>
    validate_provider_runtime_verification_record X H v now \<and> vr_status v = ''verified'' \<and>
    vr_public_key_id v = active_device_key cx \<and>
    eq_ignore_ascii_case (vr_gpu_uuid v) (ic_gpu_uuid (cx_inventory cx)) \<and>
    rp_approved_proof_image_ref policy = Some (vr_proof_image_digest v) \<and>
    runtime_admission_claims_from_observation X (os_payload ob) (ic_gpu_uuid (cx_inventory cx))
      = Some claims \<and>
    vr_runtime_admission_fingerprint v = Some (claims_hash H claims)"
  using assms
  by (auto simp: verification_reasons_def Let_def split: option.splits if_splits)

lemma verification_record_valid:
  "validate_provider_runtime_verification_record X H v now \<Longrightarrow>
     \<exists>t0 t1. parse_from_rfc3339 X (vr_verified_at v) = Some t0 \<and>
       parse_from_rfc3339 X (vr_expires_at v) = Some t1 \<and> t0 \<le> now \<and> now < t1 \<and>
       t1 - t0 \<le> 604800 * nanos_per_second"
  by (auto simp: validate_provider_runtime_verification_record_def Let_def split: option.splits)

lemma loaded_observation:
  "cx_observation (load_admission_context X s provider st ic) = Some ob \<Longrightarrow>
     \<exists>row \<in> set (runtime_observations s). \<exists>ps \<in> set (provider_sessions s).
       ob_provider_id row = provider \<and> ob_device_id row = ic_device_id ic \<and>
       ob_observation_hash row = os_hash ob \<and> ob_public_key_id row = os_public_key_id ob \<and>
       ob_payload row = Some (os_payload ob) \<and> ps_session_id ps = ob_session_id row \<and>
       ps_status ps = os_session_status ob"
  by (fastforce simp: load_admission_context_def Let_def bind_eq_Some_conv dest!: latest_by_Some)

lemma loaded_verification:
  "cx_verification (load_admission_context X s provider st ic) = Some v \<Longrightarrow>
     \<exists>row \<in> set (runtime_verifications s). ve_provider_id row = provider \<and>
       ve_device_id row = ic_device_id ic \<and> eq_ignore_ascii_case (ve_gpu_uuid row) (ic_gpu_uuid ic) \<and>
       ve_record row = Some v"
  by (auto simp: load_admission_context_def Let_def bind_eq_Some_conv dest!: latest_by_Some)

text \<open>
  The abstract statement of admission: the provider is not blocked, the device is active, the GPU is
  active in the latest inventory snapshot, a runtime observation received on an online session is fresh
  and hashes to what was recorded, and a verification is valid now, lives at most seven days, ran the
  approved proof image and carries the fingerprint computed from that observation for this GPU; the
  inventory, the observation and the verification were all signed by one device key.
\<close>

definition inventory_evidence :: "db \<Rightarrow> string \<Rightarrow> string \<Rightarrow> string \<Rightarrow> inventory_row \<Rightarrow> bool" where
  "inventory_evidence s provider device gpu i \<longleftrightarrow>
     (\<exists>p \<in> set (providers s). pr_provider_id p = provider \<and> pr_status p \<notin> {''blocked'', ''quarantined''}) \<and>
     (\<exists>d \<in> set (devices s). dv_provider_id d = provider \<and> dv_device_id d = device \<and> dv_status d = ''active'') \<and>
     i \<in> set (gpu_inventory s) \<and> in_provider_id i = provider \<and> in_device_id i = device \<and>
     eq_ignore_ascii_case (in_gpu_uuid i) gpu \<and> in_status i = ''active'' \<and>
     latest_snapshot_id s provider device = Some (in_snapshot_id i)"

definition observation_evidence ::
  "externs \<Rightarrow> canonical_hashes \<Rightarrow> db \<Rightarrow> string \<Rightarrow> string \<Rightarrow> RuntimeAdmissionPolicy \<Rightarrow> int \<Rightarrow> string \<Rightarrow>
     ProviderRuntimeObservationPayload \<Rightarrow> bool" where
  "observation_evidence X H s provider device policy now key payload \<longleftrightarrow>
     (\<exists>row \<in> set (runtime_observations s). \<exists>ps \<in> set (provider_sessions s). \<exists>t.
       ob_provider_id row = provider \<and> ob_device_id row = device \<and> ob_payload row = Some payload \<and>
       ob_public_key_id row = key \<and> ob_observation_hash row = observation_hash H payload \<and>
       ps_session_id ps = ob_session_id row \<and> ps_status ps \<in> {''online'', ''degraded''} \<and>
       parse_from_rfc3339 X (op_observed_at payload) = Some t \<and>
       now - int (unat (rp_observation_max_age_seconds policy)) * nanos_per_second \<le> t \<and>
       t \<le> now + int (unat (rp_clock_skew_seconds policy)) * nanos_per_second)"

definition verification_evidence ::
  "externs \<Rightarrow> canonical_hashes \<Rightarrow> db \<Rightarrow> string \<Rightarrow> string \<Rightarrow> RuntimeAdmissionPolicy \<Rightarrow> int \<Rightarrow> string \<Rightarrow> string \<Rightarrow>
     ProviderRuntimeObservationPayload \<Rightarrow> bool" where
  "verification_evidence X H s provider device policy now key gpu payload \<longleftrightarrow>
     (\<exists>row \<in> set (runtime_verifications s). \<exists>v claims t0 t1.
       ve_provider_id row = provider \<and> ve_device_id row = device \<and>
       eq_ignore_ascii_case (ve_gpu_uuid row) gpu \<and> ve_record row = Some v \<and>
       vr_status v = ''verified'' \<and> vr_public_key_id v = Some key \<and>
       rp_approved_proof_image_ref policy = Some (vr_proof_image_digest v) \<and>
       parse_from_rfc3339 X (vr_verified_at v) = Some t0 \<and>
       parse_from_rfc3339 X (vr_expires_at v) = Some t1 \<and>
       t0 \<le> now \<and> now < t1 \<and> t1 - t0 \<le> 604800 * nanos_per_second \<and>
       runtime_admission_claims_from_observation X payload gpu = Some claims \<and>
       vr_runtime_admission_fingerprint v = Some (claims_hash H claims))"

definition admission_evidence ::
  "externs \<Rightarrow> canonical_hashes \<Rightarrow> db \<Rightarrow> string \<Rightarrow> string \<Rightarrow> string \<Rightarrow> RuntimeAdmissionPolicy \<Rightarrow> int \<Rightarrow> bool" where
  "admission_evidence X H s provider device gpu policy now \<longleftrightarrow>
     (\<exists>i payload. inventory_evidence s provider device gpu i \<and>
       observation_evidence X H s provider device policy now (in_public_key_id i) payload \<and>
       verification_evidence X H s provider device policy now (in_public_key_id i) (in_gpu_uuid i) payload)"

lemma admitted_evidence:
  assumes "evaluate_runtime_admission_for_gpu_in_transaction X H s provider device gpu policy now = Inr d"
    and "ad_status d = ''admitted''"
  shows "admission_evidence X H s provider device gpu policy now"
proof -
  obtain p dv i where found:
    "find (\<lambda>p. pr_provider_id p = provider) (providers s) = Some p"
    "find (\<lambda>d. dv_provider_id d = provider \<and> dv_device_id d = device) (devices s) = Some dv"
    "inventory_gpu s provider device gpu = Some i"
    using assms
    by (auto simp: evaluate_runtime_admission_for_gpu_in_transaction_def validated_denied_decision_def
        split: option.splits if_splits)
  define cx where "cx = load_admission_context X s provider (pr_status p)
      \<lparr>ic_device_id = device, ic_device_status = dv_status dv, ic_gpu_uuid = in_gpu_uuid i,
       ic_gpu_status = in_status i, ic_public_key_id = in_public_key_id i\<rparr>"
  have cx: "cx_provider_status cx = pr_status p" "ic_device_status (cx_inventory cx) = dv_status dv"
    "ic_gpu_status (cx_inventory cx) = in_status i" "ic_gpu_uuid (cx_inventory cx) = in_gpu_uuid i"
    "ic_public_key_id (cx_inventory cx) = in_public_key_id i"
    by (simp_all add: cx_def load_admission_context_def Let_def)
  have d: "d = evaluate_runtime_admission X H cx policy now"
    using assms(1) found
    by (auto simp: evaluate_runtime_admission_for_gpu_in_transaction_def cx_def split: if_splits)
  have nil: "identity_reasons cx = []" "observation_reasons X H cx policy now = []"
    "verification_reasons X H cx policy now = []"
    using assms(2) unfolding d by (auto simp: evaluate_runtime_admission_def Let_def split: if_splits)
  note ident = identity_reasons_Nil[OF nil(1)]
  have key: "active_device_key cx = Some (in_public_key_id i)"
    using ident cx by (simp add: active_device_key_Some)
  obtain ob where ob: "cx_observation cx = Some ob"
    and obs: "observation_evidence X H s provider device policy now (in_public_key_id i) (os_payload ob)"
    using observation_reasons_Nil[OF nil(2)] ident key
    by (fastforce simp: observation_evidence_def cx_def dest!: loaded_observation)
  obtain v where v: "cx_verification cx = Some v"
    "validate_provider_runtime_verification_record X H v now"
    using verification_reasons_Nil[OF nil(3) _ ob] ident by blast
  have "verification_evidence X H s provider device policy now (in_public_key_id i) (in_gpu_uuid i)
      (os_payload ob)"
    using verification_reasons_Nil[OF nil(3) _ ob] ident key cx v verification_record_valid[OF v(2)]
      loaded_verification[OF v(1)[unfolded cx_def]]
    by (fastforce simp: verification_evidence_def)
  moreover have "inventory_evidence s provider device gpu i"
    using found(1,2) ident cx inventory_gpu_SomeD[OF found(3)]
    by (auto simp: inventory_evidence_def dest: find_SomeD)
  ultimately show ?thesis using obs unfolding admission_evidence_def by blast
qed

lemma admission_decides:
  assumes chrono_round_trip: "\<And>t. parse_from_rfc3339 X (to_rfc3339 X t) = Some t"
    and ids: "safe_id provider 128" "safe_id device 128" "safe_id gpu 128"
  shows "\<exists>d. evaluate_runtime_admission_for_gpu_in_transaction X H s provider device gpu policy now = Inr d
    \<and> (ad_status d = ''admitted'' \<longleftrightarrow> ad_reason_codes d = [])
    \<and> set (ad_reason_codes d) \<subseteq> set admission_reason_codes"
proof -
  have valid: "validate_runtime_admission_decision X d"
    if "ad_schema_version d = RUNTIME_ADMISSION_SCHEMA_VERSION" "ad_provider_id d = provider"
      "ad_device_id d = device" "safe_gpu_uuid (ad_gpu_uuid d)" "ad_evaluated_at d = to_rfc3339 X now"
      "ad_status d = (if ad_reason_codes d = [] then ''admitted'' else ''denied'')"
      "set (ad_reason_codes d) \<subseteq> set admission_reason_codes" for d
    using that ids admission_reason_codes_safe
    by (auto simp: validate_runtime_admission_decision_def chrono_round_trip list_ex_iff list_all_iff)
  have denied: "\<exists>d. validated_denied_decision X provider device gpu rs now = Inr d \<and>
      (ad_status d = ''admitted'' \<longleftrightarrow> ad_reason_codes d = []) \<and>
      set (ad_reason_codes d) \<subseteq> set admission_reason_codes"
    if "rs \<noteq> []" "known_reasons rs" for rs
    using that
    by (auto simp: validated_denied_decision_def known_reasons_def intro!: valid safe_id_gpu_uuid ids)
  have evald: "validate_runtime_admission_decision X (evaluate_runtime_admission X H
        (load_admission_context X s provider st \<lparr>ic_device_id = device, ic_device_status = ds,
           ic_gpu_uuid = in_gpu_uuid i, ic_gpu_status = gs, ic_public_key_id = k\<rparr>) policy now)"
    if "inventory_gpu s provider device gpu = Some i" for st ds i gs k
  proof (rule valid)
    show "safe_gpu_uuid (ad_gpu_uuid (evaluate_runtime_admission X H
        (load_admission_context X s provider st \<lparr>ic_device_id = device, ic_device_status = ds,
           ic_gpu_uuid = in_gpu_uuid i, ic_gpu_status = gs, ic_public_key_id = k\<rparr>) policy now))"
      using safe_gpu_uuid_cong[of "in_gpu_uuid i" gpu] inventory_gpu_SomeD[OF that] safe_id_gpu_uuid[OF ids(3)]
      by (simp add: evaluate_runtime_admission_def load_admission_context_def Let_def)
  qed (use decision_reason_codes in
      \<open>simp_all add: evaluate_runtime_admission_def load_admission_context_def Let_def\<close>)
  have dec: "ad_status (evaluate_runtime_admission X H cx policy now) = ''admitted'' \<longleftrightarrow>
      ad_reason_codes (evaluate_runtime_admission X H cx policy now) = []" for cx
    by (simp add: evaluate_runtime_admission_def Let_def)
  show ?thesis
    unfolding evaluate_runtime_admission_for_gpu_in_transaction_def using ids
    by (auto simp: dec evald decision_reason_codes known_reasons_rules split: option.splits intro!: denied)
qed

section \<open>Properties\<close>

text \<open>
  C20. Admission is granted only on complete, current and mutually bound evidence: when the
  decision for a GPU is \<open>admitted\<close>, the provider is not blocked, the device is active, the GPU is active
  in the latest inventory snapshot, and one device key signed that inventory, a fresh runtime
  observation of an online session and a verification that is valid now, lives at most seven days, ran
  the approved proof image and whose fingerprint is the one computed from the observation for this GPU.
\<close>

theorem admission_sound:
  assumes "evaluate_runtime_admission_for_gpu_in_transaction X H s provider device gpu policy now = Inr d"
    and "ad_status d = ''admitted''"
  shows "admission_evidence X H s provider device gpu policy now"
  using assms by (rule admitted_evidence)

text \<open>
  The evaluation is total: for identifiers of the accepted form it always returns a
  decision, never the error branch of the decision's own validator, and the decision is \<open>admitted\<close>
  exactly when its list of reasons is empty. It relies on \<open>chrono\<close> reading back the timestamps it
  prints.
\<close>

theorem admission_total:
  assumes chrono_round_trip: "\<And>t. parse_from_rfc3339 X (to_rfc3339 X t) = Some t"
    and ids: "safe_id provider 128" "safe_id device 128" "safe_id gpu 128"
  shows "\<exists>d. evaluate_runtime_admission_for_gpu_in_transaction X H s provider device gpu policy now = Inr d
    \<and> (ad_status d = ''admitted'' \<longleftrightarrow> ad_reason_codes d = [])
    \<and> set (ad_reason_codes d) \<subseteq> set admission_reason_codes"
  using assms by (rule admission_decides)

text \<open>A GPU that is admitted: the inputs at which the hypotheses above hold.\<close>

definition example_hash :: string where
  "example_hash = replicate 64 CHR ''a''"

definition example_observation :: ProviderRuntimeObservationPayload where
  "example_observation = \<lparr>op_schema_version = PROVIDER_RUNTIME_OBSERVATION_SCHEMA_VERSION,
     op_provider_id = ''p1'', op_device_id = ''d1'', op_session_id = ''s1'',
     op_hardware_fingerprint = example_hash, op_host_os = ''linux'',
     op_runtime_backend = ''docker_linux_native'', op_container_os = ''linux'', op_gpu_backend = ''cuda'',
     op_gpu_runtime = ''nvidia'', op_isolation_mode = ''linux_container'',
     op_docker_server_version = ''24'', op_nvidia_driver_version = ''550'', op_nvidia_runtime = ''nvidia'',
     op_gpu_uuids = [''gpu1''], op_agent_runtime_contract_version = AGENT_RUNTIME_CONTRACT_VERSION,
     op_observed_at = ''+11''\<rparr>"

definition example_verification :: ProviderRuntimeVerificationRecord where
  "example_verification = \<lparr>vr_schema_version = RUNTIME_VERIFICATION_RECORD_SCHEMA_VERSION,
     vr_verification_id = ''v1'', vr_challenge_id = ''c1'', vr_provider_id = ''p1'', vr_device_id = ''d1'',
     vr_session_id = ''s1'', vr_hardware_fingerprint = example_hash, vr_gpu_uuid = ''gpu1'',
     vr_host_os = ''linux'', vr_runtime_backend = ''docker_linux_native'', vr_status = ''verified'',
     vr_gpu_uuid_binding = ''verified'', vr_runtime_verification_fingerprint = example_hash,
     vr_proof_policy_version = RUNTIME_PROOF_POLICY_VERSION,
     vr_agent_runtime_contract_version = AGENT_RUNTIME_CONTRACT_VERSION,
     vr_proof_image_digest = ''proof@sha256:'' @ example_hash, vr_public_key_id = Some ''k1'',
     vr_runtime_admission_fingerprint = Some example_hash,
     vr_runtime_admission_claims =
       runtime_admission_claims_from_observation example_externs example_observation ''gpu1'',
     vr_verified_at = ''+1'', vr_expires_at = ''+1001'', vr_reason_codes = []\<rparr>"

definition example_hashes :: canonical_hashes where
  "example_hashes = \<lparr>observation_hash = (\<lambda>_. example_hash), claims_hash = (\<lambda>_. example_hash)\<rparr>"

definition example_policy :: RuntimeAdmissionPolicy where
  "example_policy = \<lparr>rp_clock_skew_seconds = 60, rp_observation_max_age_seconds = 300,
     rp_approved_proof_image_ref = Some (''proof@sha256:'' @ example_hash)\<rparr>"

definition example_db :: db where
  "example_db =
     \<lparr>providers = [\<lparr>pr_provider_id = ''p1'', pr_status = ''active''\<rparr>],
      devices = [\<lparr>dv_device_id = ''d1'', dv_provider_id = ''p1'', dv_status = ''active''\<rparr>],
      provider_sessions = [example_session\<lparr>ps_hardware_fingerprint := Some example_hash\<rparr>],
      workload_eligibility = [],
      provider_public_keys = [\<lparr>pk_public_key_id = ''k1'', pk_provider_id = ''p1'', pk_device_id = ''d1'',
        pk_status = ''active'', pk_created_at = ''+''\<rparr>],
      gpu_inventory_snapshots = [\<lparr>sn_snapshot_id = ''n1'', sn_provider_id = ''p1'', sn_device_id = ''d1'',
        sn_ingest_seq = 1\<rparr>],
      gpu_inventory = [\<lparr>in_snapshot_id = ''n1'', in_provider_id = ''p1'', in_device_id = ''d1'',
        in_gpu_uuid = ''gpu1'', in_status = ''active'', in_public_key_id = ''k1''\<rparr>],
      runtime_observations = [\<lparr>ob_observation_hash = example_hash, ob_provider_id = ''p1'',
        ob_device_id = ''d1'', ob_session_id = ''s1'', ob_public_key_id = ''k1'',
        ob_server_received_at = ''+11'', ob_payload = Some example_observation\<rparr>],
      runtime_verifications = [\<lparr>ve_provider_id = ''p1'', ve_device_id = ''d1'', ve_gpu_uuid = ''gpu1'',
        ve_verified_at = ''+1'', ve_record = Some example_verification\<rparr>],
      compute_jobs = [], job_leases = [], job_events = [], job_artifact_uploads = [],
      usage_ledger_entries = [], idempotency_keys = [], audit_events = [], customer_workloads = [],
      compute_placements = [], marketplace_reservations = [], customer_audit_events = []\<rparr>"

lemma example_admitted:
  "case evaluate_runtime_admission_for_gpu_in_transaction example_externs example_hashes example_db
     ''p1'' ''d1'' ''gpu1'' example_policy 5 of Inr d \<Rightarrow> ad_status d = ''admitted'' | Inl _ \<Rightarrow> False"
  by code_simp

theorem admission_sound_witness:
  "admission_evidence example_externs example_hashes example_db ''p1'' ''d1'' ''gpu1'' example_policy 5"
  using example_admitted by (auto split: sum.splits intro: admission_sound)

theorem admission_total_witness:
  "\<exists>d. evaluate_runtime_admission_for_gpu_in_transaction example_externs example_hashes example_db
      ''p1'' ''d1'' ''GPU1'' example_policy 5 = Inr d
    \<and> (ad_status d = ''admitted'' \<longleftrightarrow> ad_reason_codes d = [])
    \<and> set (ad_reason_codes d) \<subseteq> set admission_reason_codes"
  by (rule admission_total) (simp_all add: safe_id_def ascii_simps)

end
