(* ===== verification/Scheduler.thy ===== *)
theory Scheduler
  imports Lease_State Admission
begin

text \<open>
  The scheduler, \<^verbatim>\<open>burd-control-plane/src/scheduler.rs\<close>: \<open>run_scheduler\<close> and its helpers. One run is
  one transaction. What other transactions do meanwhile is the environment's: which job rows are
  locked when a batch is read (\<open>FOR UPDATE SKIP LOCKED\<close>) and which advisory locks are free, both as
  functions of the number of jobs evaluated so far, so that they may change between batches and between
  candidates; the random part of lease identifiers is the environment's too.
\<close>

section \<open>Constants and request validation\<close>

definition DEFAULT_SCHEDULER_LIMIT :: nat where "DEFAULT_SCHEDULER_LIMIT = 50"
definition MAX_SCHEDULER_LIMIT :: nat where "MAX_SCHEDULER_LIMIT = 200"
definition DEFAULT_LEASE_TTL_SECONDS :: nat where "DEFAULT_LEASE_TTL_SECONDS = 120"
definition MAX_LEASE_TTL_SECONDS :: nat where "MAX_LEASE_TTL_SECONDS = 15 * 60"
definition SCHEDULER_BATCH_SIZE :: nat where "SCHEDULER_BATCH_SIZE = 50"
definition MAX_SCHEDULER_EVALUATIONS :: nat where "MAX_SCHEDULER_EVALUATIONS = MAX_SCHEDULER_LIMIT * 4"

definition validate_scheduler_request :: "RunSchedulerRequest \<Rightarrow> unit res" where
  "validate_scheduler_request r =
     bind_res (case sr_limit r of
         Some limit \<Rightarrow> ensure (\<not> (limit = 0 \<or> unat limit > MAX_SCHEDULER_LIMIT))
           (Invalid ''scheduler limit is outside allowed range'')
       | None \<Rightarrow> Inr ()) (\<lambda>_.
     bind_res (case sr_lease_ttl_seconds r of
         Some ttl \<Rightarrow> ensure (\<not> (ttl = 0 \<or> unat ttl > MAX_LEASE_TTL_SECONDS))
           (Invalid ''lease_ttl_seconds is outside allowed range'')
       | None \<Rightarrow> Inr ()) (\<lambda>_.
     case sr_reason r of
         Some t \<Rightarrow> ensure (is_bounded_ascii t 256) (Invalid ''scheduler reason must be short printable ASCII'')
       | None \<Rightarrow> Inr ()))"

definition effective_limit :: "RunSchedulerRequest \<Rightarrow> nat" where
  "effective_limit r = clamp 1 MAX_SCHEDULER_LIMIT
     (case sr_limit r of Some l \<Rightarrow> unat l | None \<Rightarrow> DEFAULT_SCHEDULER_LIMIT)"

definition effective_ttl_seconds :: "RunSchedulerRequest \<Rightarrow> nat" where
  "effective_ttl_seconds r = min (case sr_lease_ttl_seconds r of Some t \<Rightarrow> unat t | None \<Rightarrow> DEFAULT_LEASE_TTL_SECONDS)
     MAX_LEASE_TTL_SECONDS"

text \<open>\<open>limit.saturating_mul(4).clamp(...)\<close> on \<open>u32\<close>.\<close>

definition scheduler_evaluation_budget :: "nat \<Rightarrow> nat" where
  "scheduler_evaluation_budget limit =
     clamp DEFAULT_SCHEDULER_LIMIT MAX_SCHEDULER_EVALUATIONS (nat (min (int limit * 4) (2 ^ 32 - 1)))"

section \<open>Candidates\<close>

record SchedulerCandidate =
  sc_job_id :: string
  sc_provider_id :: string
  sc_device_id :: string
  sc_session_id :: string
  sc_workload_type :: string
  sc_gpu_uuid :: string
  sc_policy_id :: "string option"
  sc_policy_version :: "string option"

definition scheduler_candidate_from_row :: "job_row \<Rightarrow> SchedulerCandidate" where
  "scheduler_candidate_from_row j =
     \<lparr>sc_job_id = job_id j, sc_provider_id = job_provider_id j, sc_device_id = job_device_id j,
      sc_session_id = job_session_id j, sc_workload_type = job_workload_type j,
      sc_gpu_uuid = job_gpu_uuid j, sc_policy_id = job_policy_id j,
      sc_policy_version = job_policy_version j\<rparr>"

definition eligible_for :: "db \<Rightarrow> job_row \<Rightarrow> bool" where
  "eligible_for s j \<longleftrightarrow>
     list_ex (\<lambda>e. el_provider_id e = job_provider_id j \<and> el_device_id e = job_device_id j
       \<and> el_workload_type e = job_workload_type j \<and> el_status e \<in> {''eligible'', ''limited''}
       \<and> (job_policy_id j = None \<or> job_policy_id j = Some (el_policy_id e))
       \<and> (job_policy_version j = None \<or> job_policy_version j = Some (el_policy_version e)))
     (workload_eligibility s)"

text \<open>The \<open>WHERE\<close> clause of the candidate query, with its joins.\<close>

definition candidate_row :: "db \<Rightarrow> string list \<Rightarrow> job_row \<Rightarrow> bool" where
  "candidate_row s evaluated j \<longleftrightarrow>
     list_ex (\<lambda>p. pr_provider_id p = job_provider_id j) (providers s)
     \<and> list_ex (\<lambda>d. dv_device_id d = job_device_id j \<and> dv_provider_id d = job_provider_id j) (devices s)
     \<and> list_ex (\<lambda>ps. ps_session_id ps = job_session_id j \<and> ps_provider_id ps = job_provider_id j
          \<and> ps_device_id ps = job_device_id j \<and> ps_status ps \<in> {''online'', ''degraded''}) (provider_sessions s)
     \<and> job_status j = ''queued''
     \<and> job_id j \<notin> set evaluated
     \<and> \<not> list_ex (\<lambda>l. lease_job_id l = job_id j \<and> lease_active l) (job_leases s)
     \<and> \<not> gpu_has_active_lease (job_provider_id j) (job_device_id j) (job_gpu_uuid j) (job_leases s)
     \<and> eligible_for s j"

definition fairness_key :: "externs \<Rightarrow> job_row \<Rightarrow> string \<times> string \<times> string" where
  "fairness_key X j =
     (collation_key X (case jr_scheduler_last_evaluated_at j of Some t \<Rightarrow> t | None \<Rightarrow> job_created_at j),
      collation_key X (job_created_at j), collation_key X (job_id j))"

definition candidate_batch ::
  "externs \<Rightarrow> (string \<Rightarrow> bool) \<Rightarrow> nat \<Rightarrow> string list \<Rightarrow> db \<Rightarrow> SchedulerCandidate list" where
  "candidate_batch X locked n evaluated s =
     map scheduler_candidate_from_row (take n (filter (\<lambda>j. \<not> locked (job_id j))
       (sort_key (fairness_key X) (filter (candidate_row s evaluated) (compute_jobs s)))))"

definition skipped_scheduler_decision ::
  "SchedulerCandidate \<Rightarrow> string list \<Rightarrow> SchedulerDecisionRecord" where
  "skipped_scheduler_decision c reason_codes =
     \<lparr>sd_job_id = sc_job_id c, sd_lease_id = None, sd_provider_id = sc_provider_id c,
      sd_device_id = sc_device_id c, sd_session_id = sc_session_id c, sd_gpu_uuid = sc_gpu_uuid c,
      sd_decision = ''skipped'', sd_reason_codes = reason_codes\<rparr>"

definition scheduler_gpu_lock_key :: "string \<Rightarrow> string \<Rightarrow> string \<Rightarrow> string" where
  "scheduler_gpu_lock_key provider device gpu = provider @ ''|'' @ device @ ''|'' @ to_ascii_lowercase gpu"

section \<open>The run\<close>

record sched_env =
  se_locked :: "nat \<Rightarrow> string \<Rightarrow> bool"
  se_try_lock :: "nat \<Rightarrow> string \<Rightarrow> bool"
  se_uuid :: "nat \<Rightarrow> string"

record sched_state =
  ss_db :: db
  ss_decisions :: "SchedulerDecisionRecord list"
  ss_evaluated :: "string list"
  ss_reserved :: "string list"
  ss_offered :: nat
  ss_skipped :: nat

text \<open>The constants of one run: its clock, the expiry of its offers, its limits.\<close>

record sched_run =
  sr_now :: int
  sr_expires_at :: string
  sr_max_offers :: nat
  sr_budget :: nat
  sr_policy :: RuntimeAdmissionPolicy
  sr_request_id :: string

definition offered_reason_codes :: "string list" where
  "offered_reason_codes = [''backend_eligibility_satisfied'', ''runtime_admission_admitted'',
     ''session_online_or_degraded'', ''gpu_not_reserved'']"

definition offered_lease :: "externs \<Rightarrow> sched_run \<Rightarrow> string \<Rightarrow> SchedulerCandidate \<Rightarrow> JobLeaseRecord" where
  "offered_lease X run lid c =
     \<lparr>lease_id = lid, lease_job_id = sc_job_id c, lease_provider_id = sc_provider_id c,
      lease_device_id = sc_device_id c, lease_session_id = sc_session_id c,
      lease_schema_version = JOB_LEASE_SCHEMA_VERSION, lease_workload_type = sc_workload_type c,
      lease_gpu_uuid = sc_gpu_uuid c, lease_policy_id = sc_policy_id c,
      lease_policy_version = sc_policy_version c, lease_status = ''offered'',
      lease_reason_codes = offered_reason_codes, lease_offered_at = to_rfc3339 X (sr_now run),
      lease_expires_at = sr_expires_at run, lease_accepted_at = None, lease_provisioning_at = None,
      lease_active_at = None, lease_completed_at = None, lease_failure_reason = None,
      lease_created_at = to_rfc3339 X (sr_now run), lease_updated_at = to_rfc3339 X (sr_now run)\<rparr>"

definition skip_candidate :: "SchedulerCandidate \<Rightarrow> string list \<Rightarrow> sched_state \<Rightarrow> sched_state" where
  "skip_candidate c codes st = st\<lparr>ss_skipped := ss_skipped st + 1,
     ss_decisions := ss_decisions st @ [skipped_scheduler_decision c codes]\<rparr>"

text \<open>The \<open>INSERT\<close> of the lease, its audit event and the bookkeeping of an offer.\<close>

definition offer_candidate ::
  "externs \<Rightarrow> sched_env \<Rightarrow> sched_run \<Rightarrow> string \<Rightarrow> SchedulerCandidate \<Rightarrow> sched_state \<Rightarrow> sched_state res" where
  "offer_candidate X E run lock_key c st =
     (let s = ss_db st; lid = ''lease_'' @ se_uuid E (length (ss_evaluated st)) in
      bind_res (insert_lease (offered_lease X run lid c) (job_leases s)) (\<lambda>leases.
      Inr (st\<lparr>ss_db := insert_audit_event (sr_request_id run) ''scheduler'' None ''job_lease'' lid
                 ''lease.offered'' (s\<lparr>job_leases := leases\<rparr>),
             ss_reserved := lock_key # ss_reserved st,
             ss_offered := ss_offered st + 1,
             ss_decisions := ss_decisions st @
               [\<lparr>sd_job_id = sc_job_id c, sd_lease_id = Some lid, sd_provider_id = sc_provider_id c,
                 sd_device_id = sc_device_id c, sd_session_id = sc_session_id c,
                 sd_gpu_uuid = sc_gpu_uuid c, sd_decision = ''offered'',
                 sd_reason_codes = offered_reason_codes\<rparr>]\<rparr>)))"

text \<open>The body of the \<open>for\<close> loop; the flag is set when the candidate was offered a lease.\<close>

definition evaluate_candidate ::
  "externs \<Rightarrow> canonical_hashes \<Rightarrow> sched_env \<Rightarrow> sched_run \<Rightarrow> SchedulerCandidate \<Rightarrow> sched_state \<Rightarrow>
     (sched_state \<times> bool) res" where
  "evaluate_candidate X H E run c st0 =
     (let st = st0\<lparr>ss_evaluated := ss_evaluated st0 @ [sc_job_id c]\<rparr>;
          s = ss_db st;
          lock_key = scheduler_gpu_lock_key (sc_provider_id c) (sc_device_id c) (sc_gpu_uuid c);
          skip = (\<lambda>codes. Inr (skip_candidate c codes st, False)) in
      case assert_current_compute_protocol_negotiation (provider_sessions s) (sc_session_id c) of
        Inl _ \<Rightarrow> skip [''session_protocol_ineligible'']
      | Inr _ \<Rightarrow>
        bind_res (evaluate_runtime_admission_for_gpu_in_transaction X H s (sc_provider_id c)
          (sc_device_id c) (sc_gpu_uuid c) (sr_policy run) (sr_now run)) (\<lambda>admission.
        if ad_status admission \<noteq> ''admitted'' then skip (ad_reason_codes admission)
        else if lock_key \<in> set (ss_reserved st) then skip [''gpu_already_reserved_in_scheduler_run'']
        else if \<not> se_try_lock E (length (ss_evaluated st)) lock_key then skip [''gpu_scheduler_lock_contended'']
        else if gpu_has_active_lease (sc_provider_id c) (sc_device_id c) (sc_gpu_uuid c) (job_leases s)
          then skip [''gpu_already_reserved'']
        else bind_res (offer_candidate X E run lock_key c st) (\<lambda>st'. Inr (st', True))))"

fun schedule_batch ::
  "externs \<Rightarrow> canonical_hashes \<Rightarrow> sched_env \<Rightarrow> sched_run \<Rightarrow> SchedulerCandidate list \<Rightarrow> sched_state \<Rightarrow>
     sched_state res" where
  "schedule_batch X H E run [] st = Inr st"
| "schedule_batch X H E run (c # cs) st =
     bind_res (evaluate_candidate X H E run c st) (\<lambda>(st', offered).
     if offered \<and> ss_offered st' \<ge> sr_max_offers run then Inr st'
     else schedule_batch X H E run cs st')"

definition next_batch :: "externs \<Rightarrow> sched_env \<Rightarrow> sched_run \<Rightarrow> sched_state \<Rightarrow> SchedulerCandidate list" where
  "next_batch X E run st =
     candidate_batch X (se_locked E (length (ss_evaluated st)))
       (min SCHEDULER_BATCH_SIZE (sr_budget run - length (ss_evaluated st))) (ss_evaluated st) (ss_db st)"

lemma evaluate_candidate_evaluated:
  "evaluate_candidate X H E run c st = Inr (st', b) \<Longrightarrow> ss_evaluated st' = ss_evaluated st @ [sc_job_id c]"
  by (auto simp: evaluate_candidate_def Let_def skip_candidate_def offer_candidate_def result_simps
      split: sum.splits if_splits)

lemma schedule_batch_evaluated:
  "schedule_batch X H E run cs st = Inr st' \<Longrightarrow>
     \<exists>n. ss_evaluated st' = ss_evaluated st @ map sc_job_id (take n cs) \<and> n \<le> length cs \<and>
       (cs \<noteq> [] \<longrightarrow> n > 0)"
proof (induction cs arbitrary: st)
  case (Cons c cs)
  from Cons.prems obtain st1 b where st1: "evaluate_candidate X H E run c st = Inr (st1, b)"
    and rest: "(if b \<and> ss_offered st1 \<ge> sr_max_offers run then Inr st1
                else schedule_batch X H E run cs st1) = Inr st'"
    by (auto simp: result_simps)
  note ev = evaluate_candidate_evaluated[OF st1]
  show ?case
  proof (cases "b \<and> ss_offered st1 \<ge> sr_max_offers run")
    case True
    then show ?thesis using rest ev by (intro exI[of _ 1]) auto
  next
    case False
    then obtain n where "ss_evaluated st' = ss_evaluated st1 @ map sc_job_id (take n cs)" "n \<le> length cs"
      using rest Cons.IH[of st1] by auto
    then show ?thesis using ev by (intro exI[of _ "Suc n"]) auto
  qed
qed auto

function (sequential) schedule_loop ::
  "externs \<Rightarrow> canonical_hashes \<Rightarrow> sched_env \<Rightarrow> sched_run \<Rightarrow> sched_state \<Rightarrow> sched_state res" where
  "schedule_loop X H E run st =
     (if ss_offered st < sr_max_offers run \<and> length (ss_evaluated st) < sr_budget run then
        (let batch = next_batch X E run st in
         if batch = [] then Inr st
         else case schedule_batch X H E run batch st of
                Inl e \<Rightarrow> Inl e
              | Inr st' \<Rightarrow> schedule_loop X H E run st')
      else Inr st)"
  by pat_completeness auto
termination
proof (relation "measure (\<lambda>(X, H, E, run, st). sr_budget run - length (ss_evaluated st))")
  fix X H E run st batch st'
  assume "ss_offered st < sr_max_offers run \<and> length (ss_evaluated st) < sr_budget run" "batch \<noteq> []"
    "schedule_batch X H E run batch st = Inr st'"
  then show "((X, H, E, run, st'), (X, H, E, run, st))
      \<in> measure (\<lambda>(X, H, E, run, st). sr_budget run - length (ss_evaluated st))"
    using schedule_batch_evaluated[of X H E run batch st st'] by auto
qed simp

declare schedule_loop.simps [simp del]

definition mark_evaluated :: "string \<Rightarrow> string list \<Rightarrow> db \<Rightarrow> db" where
  "mark_evaluated now ids s =
     (if ids = [] then s
      else s\<lparr>compute_jobs := sql_update (\<lambda>j. job_id j \<in> set ids)
        (\<lambda>j. j\<lparr>jr_scheduler_last_evaluated_at := Some now\<rparr>) (compute_jobs s)\<rparr>)"

definition scheduler_run_of :: "externs \<Rightarrow> string \<Rightarrow> RunSchedulerRequest \<Rightarrow> RuntimeAdmissionPolicy \<Rightarrow> int \<Rightarrow> sched_run" where
  "scheduler_run_of X request_id request policy now =
     \<lparr>sr_now = now,
      sr_expires_at = to_rfc3339 X (now + int (effective_ttl_seconds request) * nanos_per_second),
      sr_max_offers = effective_limit request,
      sr_budget = scheduler_evaluation_budget (effective_limit request), sr_policy = policy,
      sr_request_id = request_id\<rparr>"

definition initial_sched_state :: "db \<Rightarrow> sched_state" where
  "initial_sched_state s = \<lparr>ss_db = s, ss_decisions = [], ss_evaluated = [], ss_reserved = [],
     ss_offered = 0, ss_skipped = 0\<rparr>"

definition run_scheduler ::
  "externs \<Rightarrow> canonical_hashes \<Rightarrow> sched_env \<Rightarrow> string \<Rightarrow> RunSchedulerRequest \<Rightarrow> RuntimeAdmissionPolicy \<Rightarrow> int \<Rightarrow>
     db \<Rightarrow> (db \<times> RunSchedulerResponse) res" where
  "run_scheduler X H E request_id request policy now s =
     bind_res (validate_scheduler_request request) (\<lambda>_.
     (let (s1, expired) = expire_stale_offers X (to_rfc3339 X now) s in
      bind_res (schedule_loop X H E (scheduler_run_of X request_id request policy now)
        (initial_sched_state s1)) (\<lambda>st.
      Inr (mark_evaluated (to_rfc3339 X now) (ss_evaluated st) (ss_db st),
           \<lparr>rs_request_id = request_id, rs_evaluated = length (ss_evaluated st),
            rs_offered = ss_offered st, rs_expired = expired, rs_skipped = ss_skipped st,
            rs_decisions = ss_decisions st\<rparr>))))"

section \<open>Reading leases\<close>

definition list_provider_job_leases :: "externs \<Rightarrow> string \<Rightarrow> u32 \<Rightarrow> db \<Rightarrow> JobLeaseRecord list res" where
  "list_provider_job_leases X provider limit s =
     bind_res (validate_id ''provider_id'' provider 128) (\<lambda>_.
     Inr (take (clamp 1 MAX_SCHEDULER_LIMIT (unat limit))
       (rev (sort_key (\<lambda>l. collation_key X (lease_updated_at l))
         (filter (\<lambda>l. lease_provider_id l = provider) (job_leases s))))))"

definition list_job_leases :: "externs \<Rightarrow> string \<Rightarrow> db \<Rightarrow> JobLeaseRecord list res" where
  "list_job_leases X jid s =
     bind_res (validate_id ''job_id'' jid 128) (\<lambda>_.
     Inr (rev (sort_key (\<lambda>l. collation_key X (lease_updated_at l))
       (filter (\<lambda>l. lease_job_id l = jid) (job_leases s)))))"

section \<open>One candidate\<close>

lemma evaluate_candidateE:
  assumes "evaluate_candidate X H E run c st = Inr (st', b)"
  obtains (skipped) codes where "\<not> b"
      "st' = skip_candidate c codes (st\<lparr>ss_evaluated := ss_evaluated st @ [sc_job_id c]\<rparr>)"
  | (offered) d lid leases where "b"
      "assert_current_compute_protocol_negotiation (provider_sessions (ss_db st)) (sc_session_id c) = Inr ()"
      "evaluate_runtime_admission_for_gpu_in_transaction X H (ss_db st) (sc_provider_id c)
         (sc_device_id c) (sc_gpu_uuid c) (sr_policy run) (sr_now run) = Inr d"
      "ad_status d = ''admitted''"
      "\<not> gpu_has_active_lease (sc_provider_id c) (sc_device_id c) (sc_gpu_uuid c) (job_leases (ss_db st))"
      "lid = ''lease_'' @ se_uuid E (Suc (length (ss_evaluated st)))"
      "insert_lease (offered_lease X run lid c) (job_leases (ss_db st)) = Inr leases"
      "ss_db st' = insert_audit_event (sr_request_id run) ''scheduler'' None ''job_lease'' lid
         ''lease.offered'' ((ss_db st)\<lparr>job_leases := leases\<rparr>)"
      "ss_evaluated st' = ss_evaluated st @ [sc_job_id c]" "ss_offered st' = ss_offered st + 1"
      "ss_skipped st' = ss_skipped st"
      "ss_decisions st' = ss_decisions st @ [\<lparr>sd_job_id = sc_job_id c, sd_lease_id = Some lid,
         sd_provider_id = sc_provider_id c, sd_device_id = sc_device_id c,
         sd_session_id = sc_session_id c, sd_gpu_uuid = sc_gpu_uuid c, sd_decision = ''offered'',
         sd_reason_codes = offered_reason_codes\<rparr>]"
  using assms
  by (auto simp: evaluate_candidate_def offer_candidate_def Let_def result_simps
      split: sum.splits if_splits)

lemma insert_audit_event_frame [simp]:
  "job_leases (insert_audit_event r a i et ei ev s) = job_leases s"
  "compute_jobs (insert_audit_event r a i et ei ev s) = compute_jobs s"
  "providers (insert_audit_event r a i et ei ev s) = providers s"
  "devices (insert_audit_event r a i et ei ev s) = devices s"
  "provider_sessions (insert_audit_event r a i et ei ev s) = provider_sessions s"
  "workload_eligibility (insert_audit_event r a i et ei ev s) = workload_eligibility s"
  "usage_ledger_entries (insert_audit_event r a i et ei ev s) = usage_ledger_entries s"
  "job_events (insert_audit_event r a i et ei ev s) = job_events s"
  by (simp_all add: insert_audit_event_def)

lemma skip_candidate_frame [simp]:
  "ss_db (skip_candidate c codes st) = ss_db st"
  "ss_evaluated (skip_candidate c codes st) = ss_evaluated st"
  "ss_offered (skip_candidate c codes st) = ss_offered st"
  "ss_skipped (skip_candidate c codes st) = ss_skipped st + 1"
  "ss_decisions (skip_candidate c codes st) = ss_decisions st @ [skipped_scheduler_decision c codes]"
  by (simp_all add: skip_candidate_def)

text \<open>
  What a candidate taken from a batch still satisfies when its turn comes, whatever leases were
  offered to the candidates before it.
\<close>

definition fresh_candidate :: "sched_state \<Rightarrow> SchedulerCandidate \<Rightarrow> bool" where
  "fresh_candidate st c \<longleftrightarrow> sc_job_id c \<notin> set (ss_evaluated st) \<and>
     (\<exists>j \<in> set (compute_jobs (ss_db st)). c = scheduler_candidate_from_row j \<and> job_status j = ''queued'' \<and>
        eligible_for (ss_db st) j \<and>
        (\<exists>ps \<in> set (provider_sessions (ss_db st)). ps_session_id ps = job_session_id j \<and>
           ps_provider_id ps = job_provider_id j \<and> ps_device_id ps = job_device_id j \<and>
           ps_status ps \<in> {''online'', ''degraded''})) \<and>
     (\<forall>l \<in> set (job_leases (ss_db st)). lease_active l \<longrightarrow> lease_job_id l \<noteq> sc_job_id c)"

lemma next_batch_fresh: "c \<in> set (next_batch X E run st) \<Longrightarrow> fresh_candidate st c"
  by (auto simp: next_batch_def candidate_batch_def fresh_candidate_def candidate_row_def
      scheduler_candidate_from_row_def list_ex_iff dest!: in_set_takeD)

lemma next_batch_length: "length (next_batch X E run st) \<le> sr_budget run - length (ss_evaluated st)"
  by (simp add: next_batch_def candidate_batch_def)

lemma next_batch_distinct:
  assumes "distinct (map job_id (compute_jobs (ss_db st)))"
  shows "distinct (map sc_job_id (next_batch X E run st))"
proof -
  let ?js = "filter (candidate_row (ss_db st) (ss_evaluated st)) (compute_jobs (ss_db st))"
  have "distinct (map job_id ?js)" using assms by (rule distinct_map_filter)
  then have "distinct (map job_id (sort_key (fairness_key X) ?js))"
    by (simp add: distinct_map)
  then have "distinct (map job_id (take n (filter P (sort_key (fairness_key X) ?js))))" for n P
    by (metis distinct_map_filter distinct_take take_map)
  moreover have "sc_job_id \<circ> scheduler_candidate_from_row = job_id"
    by (auto simp: scheduler_candidate_from_row_def)
  ultimately show ?thesis by (simp add: next_batch_def candidate_batch_def)
qed

lemma fresh_candidate_stable:
  assumes "evaluate_candidate X H E run c st = Inr (st', b)" "fresh_candidate st c'"
    "sc_job_id c' \<noteq> sc_job_id c"
  shows "fresh_candidate st' c'"
  using assms(1)
proof (cases rule: evaluate_candidateE)
  case (skipped codes)
  then show ?thesis using assms(2,3) by (auto simp: fresh_candidate_def)
next
  case (offered d lid leases)
  have "eligible_for (ss_db st') j = eligible_for (ss_db st) j" for j
    by (simp add: eligible_for_def offered)
  then show ?thesis using assms(2,3) offered
    by (auto simp: fresh_candidate_def insert_lease_Inr offered_lease_def)
qed

section \<open>Invariants of the loop\<close>

text \<open>
  The contract of an invariant of the scheduler's loop: evaluating one fresh candidate while offers are
  left keeps it. The client's lemma is that the whole loop keeps it.
\<close>

locale sched_invariant =
  fixes X :: externs and H :: canonical_hashes and E :: sched_env and run :: sched_run
    and I :: "sched_state \<Rightarrow> bool"
  assumes jobs_distinct: "I st \<Longrightarrow> distinct (map job_id (compute_jobs (ss_db st)))"
    and candidate_step: "I st \<Longrightarrow> ss_offered st < sr_max_offers run \<Longrightarrow> fresh_candidate st c \<Longrightarrow>
      evaluate_candidate X H E run c st = Inr (st', b) \<Longrightarrow> I st'"
begin

lemma candidate_offers:
  "evaluate_candidate X H E run c st = Inr (st', b) \<Longrightarrow>
     ss_offered st' = ss_offered st + (if b then 1 else 0)"
  by (erule evaluate_candidateE) auto

lemma batch_invariant:
  assumes "schedule_batch X H E run cs st = Inr st'" "I st" "ss_offered st < sr_max_offers run"
    "\<forall>c \<in> set cs. fresh_candidate st c" "distinct (map sc_job_id cs)"
  shows "I st'"
  using assms
proof (induction cs arbitrary: st)
  case (Cons c cs)
  from Cons.prems(1) obtain st1 b where st1: "evaluate_candidate X H E run c st = Inr (st1, b)"
    and rest: "(if b \<and> ss_offered st1 \<ge> sr_max_offers run then Inr st1
                else schedule_batch X H E run cs st1) = Inr st'"
    by (auto simp: result_simps)
  have I1: "I st1" using Cons.prems candidate_step[OF _ _ _ st1] by simp
  have "\<forall>c' \<in> set cs. fresh_candidate st1 c'"
    using Cons.prems(4,5) fresh_candidate_stable[OF st1] by (auto simp: image_iff)
  then show ?case
    using rest I1 Cons.IH[of st1] Cons.prems(3,5) candidate_offers[OF st1] by (auto split: if_splits)
qed simp

lemma loop_invariant: "schedule_loop X H E run st = Inr st' \<Longrightarrow> I st \<Longrightarrow> I st'"
proof (induction "sr_budget run - length (ss_evaluated st)" arbitrary: st rule: less_induct)
  case less
  let ?batch = "next_batch X E run st"
  show ?case
  proof (cases "ss_offered st < sr_max_offers run \<and> length (ss_evaluated st) < sr_budget run \<and> ?batch \<noteq> []")
    case True
    then obtain st1 where st1: "schedule_batch X H E run ?batch st = Inr st1"
      "schedule_loop X H E run st1 = Inr st'"
      using less.prems(1) schedule_loop.simps[of X H E run st] by (auto simp: Let_def split: sum.splits)
    have "I st1"
      using batch_invariant[OF st1(1) less.prems(2)] True next_batch_fresh
        next_batch_distinct[OF jobs_distinct[OF less.prems(2)]] by blast
    then show ?thesis
      using less.hyps[OF _ st1(2)] True schedule_batch_evaluated[OF st1(1)] by force
  next
    case False
    then show ?thesis
      using less.prems schedule_loop.simps[of X H E run st] by (auto simp: Let_def split: if_splits)
  qed
qed

end

text \<open>The same for an invariant under which no candidate can fail: then the whole loop returns.\<close>

locale sched_total = sched_invariant +
  assumes candidate_total: "I st \<Longrightarrow> ss_offered st < sr_max_offers run \<Longrightarrow> fresh_candidate st c \<Longrightarrow>
      \<exists>st' b. evaluate_candidate X H E run c st = Inr (st', b)"
begin

lemma batch_total:
  assumes "I st" "ss_offered st < sr_max_offers run"
    "\<forall>c \<in> set cs. fresh_candidate st c" "distinct (map sc_job_id cs)"
  shows "\<exists>st'. schedule_batch X H E run cs st = Inr st'"
  using assms
proof (induction cs arbitrary: st)
  case (Cons c cs)
  then obtain st1 b where st1: "evaluate_candidate X H E run c st = Inr (st1, b)"
    using candidate_total by fastforce
  have "\<forall>c' \<in> set cs. fresh_candidate st1 c'"
    using Cons.prems(3,4) fresh_candidate_stable[OF st1] by (auto simp: image_iff)
  then show ?case
    using st1 Cons.IH[of st1] Cons.prems candidate_offers[OF st1] candidate_step[OF _ _ _ st1] by auto
qed simp

lemma loop_total: "I st \<Longrightarrow> \<exists>st'. schedule_loop X H E run st = Inr st'"
proof (induction "sr_budget run - length (ss_evaluated st)" arbitrary: st rule: less_induct)
  case less
  let ?batch = "next_batch X E run st"
  show ?case
  proof (cases "ss_offered st < sr_max_offers run \<and> length (ss_evaluated st) < sr_budget run \<and> ?batch \<noteq> []")
    case True
    note batch = next_batch_fresh next_batch_distinct[OF jobs_distinct[OF less.prems]]
    obtain st1 where st1: "schedule_batch X H E run ?batch st = Inr st1"
      using batch_total[OF less.prems] True batch by blast
    moreover have "I st1" using batch_invariant[OF st1 less.prems] True batch by blast
    ultimately show ?thesis
      using less.hyps[of st1] True schedule_batch_evaluated[OF st1] schedule_loop.simps[of X H E run st]
      by (force simp: Let_def)
  next
    case False
    then show ?thesis using schedule_loop.simps[of X H E run st] by (auto simp: Let_def)
  qed
qed

end

text \<open>The accounting of a run: the counters, the decisions and the evaluated jobs agree.\<close>

definition sched_accounting :: "sched_run \<Rightarrow> db \<Rightarrow> sched_state \<Rightarrow> bool" where
  "sched_accounting run s1 st \<longleftrightarrow>
     compute_jobs (ss_db st) = compute_jobs s1 \<and> distinct (map job_id (compute_jobs s1)) \<and>
     ss_offered st \<le> sr_max_offers run \<and> distinct (ss_evaluated st) \<and>
     map sd_job_id (ss_decisions st) = ss_evaluated st \<and>
     ss_offered st + ss_skipped st = length (ss_evaluated st) \<and>
     length (filter (\<lambda>d. sd_decision d = ''offered'') (ss_decisions st)) = ss_offered st \<and>
     length (job_leases (ss_db st)) = length (job_leases s1) + ss_offered st"

interpretation accounting: sched_invariant X H E run "sched_accounting run s1" for X H E run s1
proof
  fix st c st' b
  assume "sched_accounting run s1 st" "ss_offered st < sr_max_offers run" "fresh_candidate st c"
    "evaluate_candidate X H E run c st = Inr (st', b)"
  then show "sched_accounting run s1 st'"
    by (elim evaluate_candidateE)
       (auto simp: sched_accounting_def fresh_candidate_def skipped_scheduler_decision_def insert_lease_Inr)
qed (simp add: sched_accounting_def)

text \<open>The agreement of jobs and leases.\<close>

lemma offer_authority:
  assumes inv: "lease_authority s" and j: "j \<in> set (compute_jobs s)" "job_status j = ''queued''"
    and ins: "insert_lease l (job_leases s) = Inr leases" "lease_status l = ''offered''" "lease_for l j"
    and free: "\<not> gpu_has_active_lease (lease_provider_id l) (lease_device_id l) (lease_gpu_uuid l) (job_leases s)"
  shows "lease_authority (s\<lparr>job_leases := leases\<rparr>)"
proof -
  have leases: "leases = job_leases s @ [l]" using ins by (simp add: insert_lease_Inr)
  have jid: "lease_job_id l = job_id j" using ins(3) by (simp add: lease_for_def)
  have "job_ok leases j'" if "j' \<in> set (compute_jobs s)" for j'
  proof (cases "j' = j")
    case True
    then show ?thesis using inv j ins(2)
      by (auto simp: lease_authority_def job_ok_def leases bound_lease_status_def)
  next
    case False
    then have "job_id j' \<noteq> lease_job_id l"
      using inv that j distinct_map_same[of job_id "compute_jobs s" j' j]
      by (auto simp: lease_authority_def jid)
    then have "job_ok leases j' = job_ok (job_leases s) j'"
      by (intro job_ok_local) (auto simp: leases)
    then show ?thesis using inv that by (simp add: lease_authority_def)
  qed
  moreover have "leases_exclusive leases"
    using insert_lease_exclusive[OF ins(1) _ free] inv by (simp add: lease_authority_def)
  ultimately show ?thesis using inv j(1) ins(3) by (auto simp: lease_authority_def leases)
qed

lemma lease_authority_cong:
  "job_leases s = job_leases s' \<Longrightarrow> compute_jobs s = compute_jobs s' \<Longrightarrow>
     lease_authority s \<longleftrightarrow> lease_authority s'"
  by (simp add: lease_authority_def)

interpretation authority: sched_invariant X H E run "\<lambda>st. lease_authority (ss_db st)" for X H E run
proof
  fix st c st' b
  assume inv: "lease_authority (ss_db st)" and fresh: "fresh_candidate st c"
    and ev: "evaluate_candidate X H E run c st = Inr (st', b)"
  from ev show "lease_authority (ss_db st')"
  proof (cases rule: evaluate_candidateE)
    case (skipped codes)
    then show ?thesis using inv by simp
  next
    case (offered d lid leases)
    obtain j where j: "j \<in> set (compute_jobs (ss_db st))" "c = scheduler_candidate_from_row j"
      "job_status j = ''queued''"
      using fresh by (auto simp: fresh_candidate_def)
    have "lease_authority ((ss_db st)\<lparr>job_leases := leases\<rparr>)"
      using offered(5) j(2)
      by (intro offer_authority[OF inv j(1,3) offered(7)])
         (simp_all add: offered_lease_def lease_for_def scheduler_candidate_from_row_def)
    then show ?thesis using offered by (simp add: lease_authority_def)
  qed
qed (simp add: lease_authority_def)

section \<open>What an offer rests on\<close>

text \<open>A run changes only leases and audit events before it stamps the evaluated jobs.\<close>

definition same_supply :: "db \<Rightarrow> db \<Rightarrow> bool" where
  "same_supply s1 s \<longleftrightarrow> s = s1\<lparr>job_leases := job_leases s, audit_events := audit_events s\<rparr>"

lemma same_supply_offer:
  "same_supply s1 s \<Longrightarrow> same_supply s1 (insert_audit_event r a i et ei ev (s\<lparr>job_leases := ls\<rparr>))"
  by (cases s) (auto simp: same_supply_def insert_audit_event_def)

lemma latest_snapshot_id_frame [simp]:
  "latest_snapshot_id (s\<lparr>job_leases := ls, audit_events := au\<rparr>) = latest_snapshot_id s"
  by (simp add: latest_snapshot_id_def fun_eq_iff)

lemma inventory_gpu_frame [simp]:
  "inventory_gpu (s\<lparr>job_leases := ls, audit_events := au\<rparr>) = inventory_gpu s"
  by (simp add: inventory_gpu_def fun_eq_iff)

lemma load_admission_context_frame [simp]:
  "load_admission_context X (s\<lparr>job_leases := ls, audit_events := au\<rparr>) = load_admission_context X s"
  by (simp add: load_admission_context_def fun_eq_iff)

lemma admission_frame:
  "evaluate_runtime_admission_for_gpu_in_transaction X H (s\<lparr>job_leases := ls, audit_events := au\<rparr>) =
   evaluate_runtime_admission_for_gpu_in_transaction X H s"
  unfolding fun_eq_iff evaluate_runtime_admission_for_gpu_in_transaction_def inventory_gpu_frame
    load_admission_context_frame by simp

lemma same_supply_simps:
  assumes "same_supply s1 s"
  shows "evaluate_runtime_admission_for_gpu_in_transaction X H s =
      evaluate_runtime_admission_for_gpu_in_transaction X H s1"
    and "provider_sessions s = provider_sessions s1" and "compute_jobs s = compute_jobs s1"
    and "eligible_for s = eligible_for s1"
proof -
  obtain ls au where s: "s = s1\<lparr>job_leases := ls, audit_events := au\<rparr>"
    using assms by (auto simp: same_supply_def)
  show "evaluate_runtime_admission_for_gpu_in_transaction X H s =
      evaluate_runtime_admission_for_gpu_in_transaction X H s1"
    unfolding s by (rule admission_frame)
  show "provider_sessions s = provider_sessions s1" "compute_jobs s = compute_jobs s1"
    "eligible_for s = eligible_for s1"
    by (simp_all add: s eligible_for_def fun_eq_iff)
qed

definition justified_offer ::
  "externs \<Rightarrow> canonical_hashes \<Rightarrow> sched_run \<Rightarrow> db \<Rightarrow> JobLeaseRecord list \<Rightarrow> SchedulerDecisionRecord \<Rightarrow> bool" where
  "justified_offer X H run s1 leases d \<longleftrightarrow>
     (\<exists>j \<in> set (compute_jobs s1). \<exists>l \<in> set leases. \<exists>ps \<in> set (provider_sessions s1).
        job_id j = sd_job_id d \<and> job_status j = ''queued'' \<and> eligible_for s1 j \<and>
        lease_for l j \<and> sd_lease_id d = Some (lease_id l) \<and> lease_status l = ''offered'' \<and>
        lease_expires_at l = sr_expires_at run \<and>
        ps_session_id ps = job_session_id j \<and> ps_provider_id ps = job_provider_id j \<and>
        ps_device_id ps = job_device_id j \<and> ps_status ps \<in> {''online'', ''degraded''} \<and>
        assert_current_compute_protocol_negotiation (provider_sessions s1) (job_session_id j) = Inr () \<and>
        admission_evidence X H s1 (job_provider_id j) (job_device_id j) (job_gpu_uuid j)
          (sr_policy run) (sr_now run))"

definition offers_justified ::
  "externs \<Rightarrow> canonical_hashes \<Rightarrow> sched_run \<Rightarrow> db \<Rightarrow> sched_state \<Rightarrow> bool" where
  "offers_justified X H run s1 st \<longleftrightarrow> same_supply s1 (ss_db st) \<and> distinct (map job_id (compute_jobs s1)) \<and>
     (\<forall>d \<in> set (ss_decisions st). sd_decision d = ''offered'' \<longrightarrow>
        justified_offer X H run s1 (job_leases (ss_db st)) d)"

lemma justified_offer_mono:
  "justified_offer X H run s1 ls d \<Longrightarrow> set ls \<subseteq> set ls' \<Longrightarrow> justified_offer X H run s1 ls' d"
  unfolding justified_offer_def by blast

interpretation justified: sched_invariant X H E run "offers_justified X H run s1" for X H E run s1
proof
  fix st c st' b
  assume inv: "offers_justified X H run s1 st" and fresh: "fresh_candidate st c"
    and ev: "evaluate_candidate X H E run c st = Inr (st', b)"
  note frame = same_supply_simps[of s1 "ss_db st"]
  from ev show "offers_justified X H run s1 st'"
  proof (cases rule: evaluate_candidateE)
    case (skipped codes)
    then show ?thesis using inv by (auto simp: offers_justified_def skipped_scheduler_decision_def)
  next
    case (offered d lid leases)
    have same: "same_supply s1 (ss_db st)" using inv by (simp add: offers_justified_def)
    obtain j ps where j: "j \<in> set (compute_jobs s1)" "c = scheduler_candidate_from_row j"
      "job_status j = ''queued''" "eligible_for s1 j" "ps \<in> set (provider_sessions s1)"
      "ps_session_id ps = job_session_id j" "ps_provider_id ps = job_provider_id j"
      "ps_device_id ps = job_device_id j" "ps_status ps \<in> {''online'', ''degraded''}"
      using fresh frame[OF same] by (auto simp: fresh_candidate_def)
    have leases: "leases = job_leases (ss_db st) @ [offered_lease X run lid c]"
      using offered(7) by (simp add: insert_lease_Inr)
    have "admission_evidence X H s1 (job_provider_id j) (job_device_id j) (job_gpu_uuid j)
        (sr_policy run) (sr_now run)"
      using offered(3,4) j(2) frame[OF same]
      by (intro admitted_evidence) (auto simp: scheduler_candidate_from_row_def)
    then have new: "justified_offer X H run s1 leases (last (ss_decisions st'))"
      using j offered(2) frame[OF same] unfolding justified_offer_def leases
      by (intro bexI[of _ j] bexI[of _ "offered_lease X run lid c"] bexI[of _ ps])
         (auto simp: offered(12) offered_lease_def lease_for_def scheduler_candidate_from_row_def)
    have old: "justified_offer X H run s1 leases d"
      if "d \<in> set (ss_decisions st)" "sd_decision d = ''offered''" for d
      using inv that by (auto simp: offers_justified_def leases intro: justified_offer_mono)
    show ?thesis
      using new old inv same offered(8,12) same_supply_offer by (auto simp: offers_justified_def)
  qed
qed (use same_supply_simps in \<open>auto simp: offers_justified_def\<close>)

text \<open>
  A run that cannot fail: the jobs carry identifiers of the accepted form, the timestamps can be read
  back, and the generated lease identifiers are new.
\<close>

definition fresh_lease_ids :: "sched_env \<Rightarrow> db \<Rightarrow> bool" where
  "fresh_lease_ids E s \<longleftrightarrow> inj (se_uuid E) \<and>
     (\<forall>l \<in> set (job_leases s). \<forall>n. lease_id l \<noteq> ''lease_'' @ se_uuid E n)"

definition schedulable_ids :: "job_row \<Rightarrow> bool" where
  "schedulable_ids j \<longleftrightarrow> safe_id (job_provider_id j) 128 \<and> safe_id (job_device_id j) 128 \<and>
     safe_id (job_gpu_uuid j) 128"

definition cannot_fail :: "externs \<Rightarrow> sched_env \<Rightarrow> sched_state \<Rightarrow> bool" where
  "cannot_fail X E st \<longleftrightarrow> (\<forall>t. parse_from_rfc3339 X (to_rfc3339 X t) = Some t) \<and> inj (se_uuid E) \<and>
     distinct (map job_id (compute_jobs (ss_db st))) \<and>
     (\<forall>j \<in> set (compute_jobs (ss_db st)). schedulable_ids j) \<and>
     (\<forall>l \<in> set (job_leases (ss_db st)). \<forall>n > length (ss_evaluated st). lease_id l \<noteq> ''lease_'' @ se_uuid E n)"

interpretation runs: sched_total X H E run "cannot_fail X E" for X H E run
proof
  fix st c st' b
  assume inv: "cannot_fail X E st" and ev: "evaluate_candidate X H E run c st = Inr (st', b)"
  from ev show "cannot_fail X E st'"
    by (cases rule: evaluate_candidateE)
       (use inv in \<open>auto simp: cannot_fail_def insert_lease_Inr offered_lease_def dest: injD\<close>)
next
  fix st c
  assume inv: "cannot_fail X E st" and fresh: "fresh_candidate st c"
  let ?lid = "''lease_'' @ se_uuid E (Suc (length (ss_evaluated st)))"
  have "\<exists>d. evaluate_runtime_admission_for_gpu_in_transaction X H (ss_db st) (sc_provider_id c)
      (sc_device_id c) (sc_gpu_uuid c) (sr_policy run) (sr_now run) = Inr d"
    using inv fresh admission_decides[of X "sc_provider_id c" "sc_device_id c" "sc_gpu_uuid c" H "ss_db st"
        "sr_policy run" "sr_now run"]
    by (auto simp: cannot_fail_def fresh_candidate_def schedulable_ids_def scheduler_candidate_from_row_def)
  moreover have "\<exists>ls. insert_lease (offered_lease X run ?lid c) (job_leases (ss_db st)) = Inr ls"
    if "\<not> gpu_has_active_lease (sc_provider_id c) (sc_device_id c) (sc_gpu_uuid c) (job_leases (ss_db st))"
    using that inv fresh
    by (auto simp: insert_lease_Inr cannot_fail_def fresh_candidate_def offered_lease_def
        gpu_has_active_lease_def list_ex_iff)
  ultimately have "evaluate_candidate X H E run c st \<noteq> Inl e" for e
    by (auto simp: evaluate_candidate_def offer_candidate_def Let_def split: sum.splits if_splits)
  then show "\<exists>st' b. evaluate_candidate X H E run c st = Inr (st', b)"
    by (cases "evaluate_candidate X H E run c st") auto
qed (simp add: cannot_fail_def)

section \<open>Properties\<close>

lemma run_scheduler_Inr:
  assumes "run_scheduler X H E request_id request policy now s = Inr (s', r)"
  obtains st where
    "schedule_loop X H E (scheduler_run_of X request_id request policy now)
       (initial_sched_state (fst (expire_stale_offers X (to_rfc3339 X now) s))) = Inr st"
    "s' = mark_evaluated (to_rfc3339 X now) (ss_evaluated st) (ss_db st)"
    "rs_evaluated r = length (ss_evaluated st)" "rs_offered r = ss_offered st"
    "rs_skipped r = ss_skipped st" "rs_decisions r = ss_decisions st"
  using assms by (auto simp: run_scheduler_def result_simps Let_def split: prod.splits)

lemma expire_stale_offers_keys:
  "map job_id (compute_jobs (fst (expire_stale_offers X now s))) = map job_id (compute_jobs s)"
  "length (job_leases (fst (expire_stale_offers X now s))) = length (job_leases s)"
  by (simp_all add: expire_stale_offers_def Let_def fold_requeue_job)

lemma mark_evaluated_frame:
  "job_leases (mark_evaluated now ids s) = job_leases s"
  "map job_id (compute_jobs (mark_evaluated now ids s)) = map job_id (compute_jobs s)"
  by (simp_all add: mark_evaluated_def)

lemma job_ok_evaluated [simp]: "job_ok ls (j\<lparr>jr_scheduler_last_evaluated_at := t\<rparr>) = job_ok ls j"
  by (rule job_ok_cong) simp_all

lemma mark_evaluated_authority: "lease_authority s \<Longrightarrow> lease_authority (mark_evaluated now ids s)"
  unfolding mark_evaluated_def
  by (auto intro!: authority_jobs_update simp: lease_for_def)

text \<open>The number of evaluated jobs never passes the budget: a batch reads at most what is left of it.\<close>

lemma loop_within_budget:
  "schedule_loop X H E run st = Inr st' \<Longrightarrow> length (ss_evaluated st) \<le> sr_budget run \<Longrightarrow>
     length (ss_evaluated st') \<le> sr_budget run"
proof (induction X H E run st rule: schedule_loop.induct)
  case (1 X H E run st)
  let ?batch = "next_batch X E run st"
  show ?case
  proof (cases "ss_offered st < sr_max_offers run \<and> length (ss_evaluated st) < sr_budget run \<and> ?batch \<noteq> []")
    case True
    then obtain st1 where st1: "schedule_batch X H E run ?batch st = Inr st1"
      "schedule_loop X H E run st1 = Inr st'"
      using "1.prems"(1) schedule_loop.simps[of X H E run st] by (auto simp: Let_def split: sum.splits)
    have "length (ss_evaluated st1) \<le> sr_budget run"
      using schedule_batch_evaluated[OF st1(1)] next_batch_length[of X E run st] True by auto
    then show ?thesis using "1.IH"[OF _ refl _ st1] True by blast
  next
    case False
    then show ?thesis
      using "1.prems" schedule_loop.simps[of X H E run st] by (auto simp: Let_def split: if_splits)
  qed
qed

lemma effective_bounds:
  "effective_limit r \<le> 200" "scheduler_evaluation_budget n \<le> 800"
  using clamp_bounds[of 1 MAX_SCHEDULER_LIMIT] clamp_bounds[of DEFAULT_SCHEDULER_LIMIT MAX_SCHEDULER_EVALUATIONS]
  by (simp_all add: effective_limit_def scheduler_evaluation_budget_def MAX_SCHEDULER_LIMIT_def
      MAX_SCHEDULER_EVALUATIONS_def DEFAULT_SCHEDULER_LIMIT_def)

text \<open>
  A scheduler run is bounded and its report is exact: at most the requested number of offers (never
  more than 200), at most the evaluation budget of jobs (never more than 800), every evaluated job
  exactly once in the decisions, and the offered and skipped counters add up to the evaluated one and
  to the leases that were written.
\<close>

theorem scheduler_run_bounded:
  assumes run: "run_scheduler X H E request_id request policy now s = Inr (s', r)"
    and keys: "distinct (map job_id (compute_jobs s))"
  shows "rs_offered r \<le> effective_limit request \<and> rs_offered r \<le> 200 \<and>
    rs_evaluated r \<le> scheduler_evaluation_budget (effective_limit request) \<and> rs_evaluated r \<le> 800 \<and>
    rs_offered r + rs_skipped r = rs_evaluated r \<and> length (rs_decisions r) = rs_evaluated r \<and>
    distinct (map sd_job_id (rs_decisions r)) \<and>
    length (filter (\<lambda>d. sd_decision d = ''offered'') (rs_decisions r)) = rs_offered r \<and>
    length (job_leases s') = length (job_leases s) + rs_offered r"
proof -
  let ?run = "scheduler_run_of X request_id request policy now"
  let ?s1 = "fst (expire_stale_offers X (to_rfc3339 X now) s)"
  obtain st where st: "schedule_loop X H E ?run (initial_sched_state ?s1) = Inr st"
    "s' = mark_evaluated (to_rfc3339 X now) (ss_evaluated st) (ss_db st)"
    "rs_evaluated r = length (ss_evaluated st)" "rs_offered r = ss_offered st"
    "rs_skipped r = ss_skipped st" "rs_decisions r = ss_decisions st"
    using run by (rule run_scheduler_Inr)
  have "sched_accounting ?run ?s1 st"
    using keys by (intro accounting.loop_invariant[OF st(1)])
      (simp add: sched_accounting_def initial_sched_state_def expire_stale_offers_keys)
  moreover have "length (ss_evaluated st) \<le> sr_budget ?run"
    by (rule loop_within_budget[OF st(1)]) (simp add: initial_sched_state_def)
  ultimately show ?thesis
    using effective_bounds(1)[of request] effective_bounds(2)[of "effective_limit request"] st(2-)
    by (auto simp: sched_accounting_def scheduler_run_of_def mark_evaluated_frame expire_stale_offers_keys
        dest: arg_cong[of _ _ length])
qed

lemma run_scheduler_authority:
  assumes "run_scheduler X H E request_id request policy now s = Inr (s', r)" "lease_authority s"
  shows "lease_authority s'"
proof -
  obtain st where st: "schedule_loop X H E (scheduler_run_of X request_id request policy now)
       (initial_sched_state (fst (expire_stale_offers X (to_rfc3339 X now) s))) = Inr st"
    "s' = mark_evaluated (to_rfc3339 X now) (ss_evaluated st) (ss_db st)"
    using assms(1) by (rule run_scheduler_Inr)
  have "lease_authority (ss_db st)"
    using authority.loop_invariant[OF st(1)] expire_stale_offers_authority[OF assms(2)]
    by (simp add: initial_sched_state_def)
  then show ?thesis using st(2) mark_evaluated_authority by simp
qed

text \<open>
  A GPU is never leased twice: after a run no two active leases belong to one job or reserve one
  GPU of a device, where GPU identifiers that differ only in case are one GPU (the database's own
  index compares them with case). The agreement of jobs and leases is kept.
\<close>

theorem scheduler_exclusive:
  assumes "run_scheduler X H E request_id request policy now s = Inr (s', r)" "lease_authority s"
  shows "lease_authority s' \<and>
    (\<forall>l \<in> set (job_leases s'). \<forall>m \<in> set (job_leases s'). lease_active l \<and> lease_active m \<and>
       (lease_job_id l = lease_job_id m \<or> lease_provider_id l = lease_provider_id m \<and>
          lease_device_id l = lease_device_id m \<and>
          eq_ignore_ascii_case (lease_gpu_uuid l) (lease_gpu_uuid m)) \<longrightarrow> l = m)"
proof -
  have inv: "lease_authority s'" by (rule run_scheduler_authority[OF assms])
  then have "leases_exclusive (job_leases s')" by (simp add: lease_authority_def)
  then show ?thesis
    using inv active_lease_unique[of "job_leases s'"]
      distinct_map_same[of gpu_key "filter lease_active (job_leases s')"]
    by (auto simp: leases_exclusive_def gpu_key_def eq_ignore_ascii_case_def)
qed

text \<open>
  C19. Nothing is offered without authority: every offered decision names a job that was queued and
  eligible, whose session is online under an accepted protocol negotiation, on a GPU with complete
  admission evidence at this instant, and the lease written for it expires when the run said.
\<close>

theorem scheduler_offers_authorized:
  assumes "run_scheduler X H E request_id request policy now s = Inr (s', r)"
    and "distinct (map job_id (compute_jobs s))" "d \<in> set (rs_decisions r)" "sd_decision d = ''offered''"
  shows "justified_offer X H (scheduler_run_of X request_id request policy now)
    (fst (expire_stale_offers X (to_rfc3339 X now) s)) (job_leases s') d"
proof -
  let ?run = "scheduler_run_of X request_id request policy now"
  let ?s1 = "fst (expire_stale_offers X (to_rfc3339 X now) s)"
  obtain st where st: "schedule_loop X H E ?run (initial_sched_state ?s1) = Inr st"
    "s' = mark_evaluated (to_rfc3339 X now) (ss_evaluated st) (ss_db st)" "rs_decisions r = ss_decisions st"
    using assms(1) by (rule run_scheduler_Inr)
  have "offers_justified X H ?run ?s1 st"
    using assms(2) by (intro justified.loop_invariant[OF st(1)])
      (simp add: offers_justified_def initial_sched_state_def same_supply_def expire_stale_offers_keys)
  then show ?thesis using assms(3,4) st(2,3) by (simp add: offers_justified_def mark_evaluated_frame)
qed

text \<open>
  A valid request is always served: when the jobs carry identifiers of the accepted form and the
  generated lease identifiers are new, no constraint of the database and no admission check makes the
  run fail, so it commits. It relies on \<open>chrono\<close> reading back the timestamps it prints.
\<close>

theorem scheduler_run_succeeds:
  assumes "\<And>t. parse_from_rfc3339 X (to_rfc3339 X t) = Some t" "validate_scheduler_request request = Inr ()"
    and "distinct (map job_id (compute_jobs s))" "list_all schedulable_ids (compute_jobs s)"
    and "fresh_lease_ids E s"
  shows "\<exists>s' r. run_scheduler X H E request_id request policy now s = Inr (s', r)"
proof -
  let ?s1 = "fst (expire_stale_offers X (to_rfc3339 X now) s)"
  have "\<forall>j \<in> set (compute_jobs ?s1). schedulable_ids j"
    using assms(4) by (auto simp: expire_stale_offers_def Let_def fold_requeue_job sql_update_def
        schedulable_ids_def requeued_def list_all_iff)
  moreover have "\<forall>l \<in> set (job_leases ?s1). \<forall>n. lease_id l \<noteq> ''lease_'' @ se_uuid E n"
    using assms(5) by (auto simp: expire_stale_offers_def Let_def sql_update_def fresh_lease_ids_def)
  ultimately have "cannot_fail X E (initial_sched_state ?s1)"
    using assms(1,3,5) by (simp add: cannot_fail_def initial_sched_state_def fresh_lease_ids_def
        expire_stale_offers_keys)
  then obtain st where "schedule_loop X H E (scheduler_run_of X request_id request policy now)
      (initial_sched_state ?s1) = Inr st"
    using runs.loop_total by blast
  then show ?thesis
    using assms(2) by (simp add: run_scheduler_def Let_def case_prod_unfold)
qed

section \<open>A run that offers a lease\<close>

definition example_job :: job_row where
  "example_job =
     \<lparr>job_id = ''j1'', job_client_job_id = None, job_provider_id = ''p1'', job_device_id = ''d1'',
      job_session_id = ''s1'', job_schema_version = JOB_SCHEMA_VERSION, job_workload_type = ''w'',
      job_template_id = ''t'', job_image_ref = ''i'', job_gpu_uuid = ''GPU1'', job_backend = ''cuda'',
      job_parameters = JObject [], job_input_artifacts = [], job_expected_outputs = [],
      job_result_artifacts = [], job_policy_id = None, job_policy_version = None,
      job_status = ''queued'', job_progress_percent = None, job_status_message = None,
      job_error_code = None, job_error_message = None, job_cancellation_reason = None,
      job_timeout_seconds = 60, job_created_at = ''+1'', job_assigned_at = None, job_accepted_at = None,
      job_started_at = None, job_completed_at = None, job_updated_at = ''+1'',
      jr_result_metrics = JObject [], jr_assignment_lease_id = None, jr_job_credential_hash = None,
      jr_job_credential_expires_at = None, jr_scheduler_last_evaluated_at = None,
      jr_workload_id = None, jr_placement_id = None, jr_reservation_id = None\<rparr>"

definition example_sched_db :: db where
  "example_sched_db = example_db\<lparr>
     provider_sessions := [example_session\<lparr>ps_hardware_fingerprint := Some example_hash,
       ps_negotiated_protocol_version := Some AGENT_CONTROL_PROTOCOL_VERSION,
       ps_protocol_negotiation_status := ''accepted'',
       ps_accepted_protocol_capabilities := REQUIRED_CAPABILITIES,
       ps_protocol_policy_version := Some (ap_policy_version current_agent_protocol_policy)\<rparr>],
     workload_eligibility := [\<lparr>el_provider_id = ''p1'', el_device_id = ''d1'', el_workload_type = ''w'',
       el_policy_id = ''pol'', el_policy_version = ''1'', el_status = ''eligible'', el_reason_codes = [],
       el_trust_score = Some (F64 90), el_risk_score = Some (F64 5), el_reliability_score = Some (F64 95),
       el_verification_status = Some ''verified'', el_remote_network_score = None, el_benchmark_result_id = Some ''br1'',
       el_benchmark_status = Some ''succeeded'', el_session_status = None, el_latest_gpu_uuid = Some ''gpu1'',
       el_vram_total_mib = Some 24000, el_regional_reachability = [], el_evaluated_at = ''+1'', el_updated_at = ''+1''\<rparr>],
     compute_jobs := [example_job]\<rparr>"

definition example_env :: sched_env where
  "example_env = \<lparr>se_locked = (\<lambda>_ _. False), se_try_lock = (\<lambda>_ _. True),
     se_uuid = (\<lambda>n. replicate n CHR ''u'')\<rparr>"

definition example_request :: RunSchedulerRequest where
  "example_request = \<lparr>sr_limit = Some 1, sr_lease_ttl_seconds = Some 60, sr_reason = None\<rparr>"

definition example_run :: "(db \<times> RunSchedulerResponse) res" where
  "example_run = run_scheduler example_externs example_hashes example_env ''r'' example_request example_policy 5
     example_sched_db"

lemma example_run_decisions:
  "case example_run of Inr (s', r) \<Rightarrow>
     map sd_decision (rs_decisions r) = [''offered''] | Inl _ \<Rightarrow> False"
  by code_simp

lemma example_sched_db_simps:
  "compute_jobs example_sched_db = [example_job]" "job_leases example_sched_db = []"
  by (simp_all add: example_sched_db_def example_db_def)

lemma example_authority: "lease_authority example_sched_db"
  by (simp add: lease_authority_def example_sched_db_simps leases_exclusive_def job_ok_def
      bound_lease_status_def example_job_def)

theorem scheduler_run_bounded_witness:
  "\<exists>s' r. example_run = Inr (s', r) \<and> length (rs_decisions r) = 1 \<and> rs_evaluated r = 1 \<and>
     rs_offered r = 1 \<and> length (job_leases s') = 1"
proof -
  obtain s' r where r: "example_run = Inr (s', r)" "map sd_decision (rs_decisions r) = [''offered'']"
    using example_run_decisions by (auto split: sum.splits)
  have offers: "length (rs_decisions r) = 1" "filter (\<lambda>d. sd_decision d = ''offered'') (rs_decisions r) = rs_decisions r"
    using r(2) by auto
  from scheduler_run_bounded[OF r(1)[unfolded example_run_def]] offers r(1) show ?thesis
    by (intro exI[of _ s'] exI[of _ r]) (simp add: example_sched_db_simps)
qed

theorem scheduler_exclusive_witness:
  "\<exists>s' r. example_run = Inr (s', r) \<and> lease_authority s'"
proof -
  obtain s' r where r: "example_run = Inr (s', r)"
    using example_run_decisions by (auto split: sum.splits)
  from scheduler_exclusive[OF r[unfolded example_run_def] example_authority] r show ?thesis by blast
qed

theorem scheduler_offers_authorized_witness:
  "\<exists>s' r d. example_run = Inr (s', r) \<and> d \<in> set (rs_decisions r) \<and>
     justified_offer example_externs example_hashes
       (scheduler_run_of example_externs ''r'' example_request example_policy 5)
       (fst (expire_stale_offers example_externs (to_rfc3339 example_externs 5) example_sched_db))
       (job_leases s') d"
proof -
  obtain s' r d where r: "example_run = Inr (s', r)" "rs_decisions r = [d]" "sd_decision d = ''offered''"
    using example_run_decisions by (auto split: sum.splits)
  from scheduler_offers_authorized[OF r(1)[unfolded example_run_def], of d] r show ?thesis
    by (intro exI[of _ s'] exI[of _ r] exI[of _ d]) (simp add: example_sched_db_simps)
qed

theorem scheduler_run_succeeds_witness: "\<exists>s' r. example_run = Inr (s', r)"
  unfolding example_run_def
proof (rule scheduler_run_succeeds)
  show "validate_scheduler_request example_request = Inr ()" by code_simp
  show "list_all schedulable_ids (compute_jobs example_sched_db)"
    by (simp add: example_sched_db_simps schedulable_ids_def example_job_def safe_id_def ascii_simps)
  show "fresh_lease_ids example_env example_sched_db"
    by (auto simp: fresh_lease_ids_def example_env_def example_sched_db_simps intro!: injI dest: arg_cong[of _ _ length])
qed (simp_all add: example_sched_db_simps)

text \<open>
  Expiry gives everything back: no stale offer survives it, every job whose assignment was such
  an offer is queued again without lease and credential, and every other job is untouched.
\<close>

theorem expiry_releases:
  assumes "lease_authority s"
  shows "let s' = fst (expire_stale_offers X now s) in
    (\<forall>l \<in> set (job_leases s'). \<not> stale_offer X now l) \<and>
    (\<forall>j \<in> set (compute_jobs s). (if \<exists>l \<in> set (job_leases s). stale_offer X now l \<and>
         jr_assignment_lease_id j = Some (lease_id l) \<and> job_status j = ''assigned''
       then requeued now j else j) \<in> set (compute_jobs s'))"
proof -
  let ?rows = "filter (stale_offer X now) (job_leases s)"
  let ?P = "\<lambda>j. job_status j = ''assigned'' \<and> (\<exists>l \<in> set ?rows. job_id j = lease_job_id l \<and>
      jr_assignment_lease_id j = Some (lease_id l))"
  have P: "?P j \<longleftrightarrow> (\<exists>l \<in> set (job_leases s). stale_offer X now l \<and>
         jr_assignment_lease_id j = Some (lease_id l) \<and> job_status j = ''assigned'')"
    if "j \<in> set (compute_jobs s)" for j
  proof -
    have "lease_job_id l = job_id j"
      if l: "l \<in> set (job_leases s)" "jr_assignment_lease_id j = Some (lease_id l)" "job_status j = ''assigned''" for l
    proof -
      have "job_ok (job_leases s) j" using assms \<open>j \<in> set (compute_jobs s)\<close> by (simp add: lease_authority_def)
      then obtain m where "m \<in> set (job_leases s)" "lease_id m = lease_id l" "lease_job_id m = job_id j"
        using l(2,3) by (auto simp: job_ok_def bound_lease_status_def)
      then show ?thesis using assms l(1) distinct_map_same[of lease_id "job_leases s" m l]
        by (auto simp: lease_authority_def leases_exclusive_def)
    qed
    then show ?thesis by auto
  qed
  have "\<forall>l \<in> set (job_leases (fst (expire_stale_offers X now s))). \<not> stale_offer X now l"
    by (auto simp: expire_stale_offers_def Let_def set_sql_update stale_offer_def)
  moreover have "(if ?P j then requeued now j else j) \<in> set (compute_jobs (fst (expire_stale_offers X now s)))"
    if "j \<in> set (compute_jobs s)" for j
    using sql_updateI[OF that, of ?P "requeued now"]
    by (simp add: expire_stale_offers_def Let_def fold_requeue_job)
  ultimately show ?thesis unfolding Let_def using P by (simp cong: if_cong)
qed

definition example_offer :: JobLeaseRecord where
  "example_offer = (offered_lease example_externs
     (scheduler_run_of example_externs ''r'' example_request example_policy 1) ''l1''
     (scheduler_candidate_from_row example_job))\<lparr>lease_expires_at := ''+1''\<rparr>"

definition example_assigned_db :: db where
  "example_assigned_db = example_sched_db\<lparr>job_leases := [example_offer],
     compute_jobs := [example_job\<lparr>job_status := ''assigned'', jr_assignment_lease_id := Some ''l1'',
       jr_job_credential_hash := Some ''h''\<rparr>]\<rparr>"

theorem expiry_releases_witness:
  "requeued ''+101'' (hd (compute_jobs example_assigned_db)) \<in>
     set (compute_jobs (fst (expire_stale_offers example_externs ''+101'' example_assigned_db)))"
proof -
  have "lease_authority example_assigned_db"
    by (simp add: lease_authority_def example_assigned_db_def leases_exclusive_def job_ok_def
        bound_lease_status_def example_job_def example_offer_def offered_lease_def lease_for_def
        scheduler_candidate_from_row_def)
  moreover have "stale_offer example_externs ''+101'' example_offer" by code_simp
  moreover have "job_leases example_assigned_db = [example_offer]" "lease_id example_offer = ''l1''"
    "compute_jobs example_assigned_db = [example_job\<lparr>job_status := ''assigned'',
       jr_assignment_lease_id := Some ''l1'', jr_job_credential_hash := Some ''h''\<rparr>]"
    by (simp_all add: example_assigned_db_def example_offer_def offered_lease_def)
  ultimately show ?thesis
    using expiry_releases[of example_assigned_db example_externs "''+101''"] by (simp add: Let_def)
qed

end
