(* ===== verification/Job_Artifact.thy ===== *)
theory Job_Artifact
  imports Scheduler
begin

text \<open>
  Artifact transfers of a job, \<^verbatim>\<open>burd-control-plane/src/job_artifact.rs\<close>: what the credential of a job
  authorises, the record of a verified upload, and the check that the results a provider submits are
  the uploads the control plane has seen.
\<close>

section \<open>Operations\<close>

definition MAX_ARTIFACT_BYTES :: nat where
  "MAX_ARTIFACT_BYTES = 10 * 1024 * 1024 * 1024"

datatype JobArtifactDirection = Download | Upload

definition validate_artifact_request_id :: "string \<Rightarrow> unit res" where
  "validate_artifact_request_id value =
     ensure (\<not> (value = [] \<or> length value > 128 \<or> \<not> list_all id_char value))
       (Invalid ''job artifact identifier is invalid'')"

definition validate_digest :: "string \<Rightarrow> unit res" where
  "validate_digest value =
     ensure (prefix ''sha256:'' value \<and>
       (let digest = drop 7 value in length digest = 64 \<and> list_all is_ascii_hexdigit digest))
       (Invalid ''uploaded artifact digest is invalid'')"

definition authorized_artifact_from_row ::
  "externs \<Rightarrow> job_row \<Rightarrow> string \<Rightarrow> string \<Rightarrow> JobArtifactDirection \<Rightarrow> int \<Rightarrow> JobArtifact res" where
  "authorized_artifact_from_row X row aid credential direction now =
     bind_res (ok_or (jr_job_credential_hash row) Unauthorized) (\<lambda>stored_hash.
     bind_res (ok_or (jr_job_credential_expires_at row) Unauthorized) (\<lambda>expires_at.
     bind_res (if sha256_hex X credential \<noteq> stored_hash then Inl Unauthorized
       else bind_res (ok_or (parse_from_rfc3339 X expires_at) (Invalid ''job credential expiry is invalid''))
              (\<lambda>e. if e \<le> now then Inl Unauthorized else Inr ())) (\<lambda>_.
     bind_res (ensure (case direction of
           Download \<Rightarrow> job_status row \<in> {''assigned'', ''accepted'', ''provisioning''}
         | Upload \<Rightarrow> job_status row = ''uploading'')
       (Conflict ''job state does not allow this artifact transfer'')) (\<lambda>_.
     bind_res (ok_or (find (\<lambda>a. artifact_id a = aid)
         (case direction of Download \<Rightarrow> job_input_artifacts row | Upload \<Rightarrow> job_expected_outputs row))
       (NotFound ''job artifact not found'')) (\<lambda>a.
     bind_res (case direction of
         Download \<Rightarrow> ensure (\<not> (art_size_bytes a = None \<or> art_sha256 a = None))
           (Invalid ''input artifact requires size_bytes and sha256'')
       | Upload \<Rightarrow> ensure (art_size_bytes a \<noteq> None)
           (Invalid ''expected output requires a size_bytes limit'')) (\<lambda>_.
     Inr a))))))"

definition authorize_job_artifact ::
  "externs \<Rightarrow> string \<Rightarrow> string \<Rightarrow> string \<Rightarrow> JobArtifactDirection \<Rightarrow> int \<Rightarrow> db \<Rightarrow> JobArtifact res" where
  "authorize_job_artifact X jid aid credential direction now s =
     bind_res (validate_artifact_request_id jid) (\<lambda>_.
     bind_res (validate_artifact_request_id aid) (\<lambda>_.
     bind_res (ok_or (find (\<lambda>j. job_id j = jid) (compute_jobs s)) (NotFound ''job not found'')) (\<lambda>row.
     bind_res (assert_current_compute_protocol_negotiation (provider_sessions s) (job_session_id row)) (\<lambda>_.
     authorized_artifact_from_row X row aid credential direction now))))"

text \<open>\<open>INSERT ... ON CONFLICT (job_id, artifact_id) DO UPDATE\<close>.\<close>

definition upsert_upload :: "upload_row \<Rightarrow> upload_row list \<Rightarrow> upload_row list" where
  "upsert_upload r rows =
     (if list_ex (\<lambda>u. up_job_id u = up_job_id r \<and> up_artifact_id u = up_artifact_id r) rows
      then sql_update (\<lambda>u. up_job_id u = up_job_id r \<and> up_artifact_id u = up_artifact_id r) (\<lambda>_. r) rows
      else rows @ [r])"

definition record_job_artifact_upload ::
  "externs \<Rightarrow> string \<Rightarrow> string \<Rightarrow> string \<Rightarrow> string \<Rightarrow> u64 \<Rightarrow> string option \<Rightarrow> int \<Rightarrow> db \<Rightarrow>
     (db \<times> JobArtifact) res" where
  "record_job_artifact_upload X jid aid credential sha256 size_bytes content_type now s =
     bind_res (validate_digest sha256) (\<lambda>_.
     bind_res (ensure (unat size_bytes \<le> MAX_ARTIFACT_BYTES)
       (Invalid ''uploaded artifact exceeds the maximum size'')) (\<lambda>_.
     bind_res (ok_or (find (\<lambda>j. job_id j = jid) (compute_jobs s)) (NotFound ''job not found'')) (\<lambda>row.
     bind_res (assert_current_compute_protocol_negotiation (provider_sessions s) (job_session_id row)) (\<lambda>_.
     bind_res (authorized_artifact_from_row X row aid credential Upload now) (\<lambda>expected.
     bind_res (ok_or (art_size_bytes expected) (Invalid ''expected output size_bytes is required'')) (\<lambda>maximum_size.
     bind_res (ensure (size_bytes \<le> maximum_size)
       (Invalid ''uploaded artifact exceeds its declared size limit'')) (\<lambda>_.
     bind_res (ensure (case art_content_type expected of None \<Rightarrow> True | Some t \<Rightarrow> content_type = Some t)
       (Invalid ''uploaded artifact content type does not match its manifest'')) (\<lambda>_.
     bind_res (ensure (uint size_bytes \<le> i64_max) (Invalid ''uploaded artifact size is invalid'')) (\<lambda>_.
     Inr (s\<lparr>job_artifact_uploads := upsert_upload
            \<lparr>up_job_id = jid, up_artifact_id = aid, up_object_key = art_object_key expected,
             up_sha256 = sha256, up_size_bytes = uint size_bytes, up_content_type = content_type,
             up_uploaded_at = to_rfc3339 X now\<rparr> (job_artifact_uploads s)\<rparr>,
          expected\<lparr>art_sha256 := Some sha256, art_size_bytes := Some size_bytes\<rparr>))))))))))"

text \<open>\<open>u64::try_from(size).ok()\<close>.\<close>

definition u64_of_i64 :: "int \<Rightarrow> u64 option" where
  "u64_of_i64 n = (if 0 \<le> n \<and> n < 2 ^ 64 then Some (word_of_int n) else None)"

definition result_matches :: "JobArtifact \<Rightarrow> upload_row \<Rightarrow> JobArtifact \<Rightarrow> bool" where
  "result_matches manifest stored r \<longleftrightarrow> art_role r = art_role manifest \<and>
     art_object_key r = art_object_key manifest \<and> art_sha256 r = Some (up_sha256 stored) \<and>
     art_size_bytes r = u64_of_i64 (up_size_bytes stored) \<and>
     art_content_type r = art_content_type manifest"

text \<open>
  The loop over the results; \<open>seen\<close> is the set of identifiers met. The two hash maps are built from
  lists, so the last entry of a key wins.
\<close>

fun check_results ::
  "(string \<Rightarrow> JobArtifact option) \<Rightarrow> (string \<Rightarrow> upload_row option) \<Rightarrow> string list \<Rightarrow> JobArtifact list \<Rightarrow>
     unit res" where
  "check_results expected uploaded seen [] = Inr ()"
| "check_results expected uploaded seen (r # rs) =
     bind_res (ok_or (expected (artifact_id r)) (Invalid ''job result contains an undeclared output'')) (\<lambda>manifest.
     bind_res (ok_or (uploaded (artifact_id r))
       (Invalid ''job result references an output that was not uploaded'')) (\<lambda>stored.
     if artifact_id r \<in> set seen \<or> \<not> result_matches manifest stored r
     then Inl (Invalid ''job result artifact does not match its verified upload'')
     else check_results expected uploaded (artifact_id r # seen) rs))"

definition validate_uploaded_job_results ::
  "db \<Rightarrow> string \<Rightarrow> JobArtifact list \<Rightarrow> string \<Rightarrow> JobArtifact list \<Rightarrow> unit res" where
  "validate_uploaded_job_results s jid expected_outputs status result_artifacts =
     (if status = ''failed'' then
        ensure (result_artifacts = []) (Invalid ''failed jobs cannot claim uploaded result artifacts'')
      else if length result_artifacts \<noteq> length expected_outputs then
        Inl (Invalid ''successful job result does not contain every expected output'')
      else check_results
        (map_of (rev (map (\<lambda>a. (artifact_id a, a)) expected_outputs)))
        (map_of (rev (map (\<lambda>u. (up_artifact_id u, u))
          (filter (\<lambda>u. up_job_id u = jid) (job_artifact_uploads s)))))
        [] result_artifacts)"

section \<open>Lemmas\<close>

lemma validate_artifact_request_id_ok [simp]:
  "validate_artifact_request_id v = Inr u \<longleftrightarrow> v \<noteq> [] \<and> length v \<le> 128 \<and> list_all id_char v"
  by (auto simp: validate_artifact_request_id_def ensure_def)

lemma check_results_ok:
  "check_results expected uploaded seen rs = Inr u \<longleftrightarrow>
     distinct (map artifact_id rs) \<and> set seen \<inter> artifact_id ` set rs = {} \<and>
     (\<forall>r \<in> set rs. \<exists>m stored. expected (artifact_id r) = Some m \<and>
        uploaded (artifact_id r) = Some stored \<and> result_matches m stored r)"
proof (induction rs arbitrary: seen)
  case (Cons r rs)
  show ?case
  proof (cases "expected (artifact_id r)"; cases "uploaded (artifact_id r)")
    fix m stored
    assume "expected (artifact_id r) = Some m" "uploaded (artifact_id r) = Some stored"
    then show ?thesis using Cons.IH[of "artifact_id r # seen"] by auto
  qed auto
qed simp

lemma map_of_rev_key:
  assumes "distinct (map k xs)"
  shows "map_of (rev (map (\<lambda>a. (k a, a)) xs)) v = Some a \<longleftrightarrow> a \<in> set xs \<and> k a = v"
proof -
  have "distinct (map fst (rev (map (\<lambda>a. (k a, a)) xs)))" using assms by (simp add: rev_map[symmetric] comp_def)
  then show ?thesis by (auto simp: map_of_eq_Some_iff)
qed

lemma authorized_artifact_ok:
  assumes "authorized_artifact_from_row X row aid credential direction now = Inr a"
  shows "jr_job_credential_hash row = Some (sha256_hex X credential)"
    "\<exists>e t. jr_job_credential_expires_at row = Some e \<and> parse_from_rfc3339 X e = Some t \<and> now < t"
    "artifact_id a = aid" "art_size_bytes a \<noteq> None"
    "direction = Download \<Longrightarrow> job_status row \<in> {''assigned'', ''accepted'', ''provisioning''} \<and>
       a \<in> set (job_input_artifacts row) \<and> art_sha256 a \<noteq> None"
    "direction = Upload \<Longrightarrow> job_status row = ''uploading'' \<and> a \<in> set (job_expected_outputs row)"
  using assms
  by (auto simp: authorized_artifact_from_row_def result_simps ensure_def
      split: if_splits option.splits JobArtifactDirection.splits dest: find_SomeD)

text \<open>A job's expected output is held by a verified upload with the digest and size of \<open>r\<close>.\<close>

definition uploaded_as :: "db \<Rightarrow> string \<Rightarrow> JobArtifact \<Rightarrow> JobArtifact \<Rightarrow> bool" where
  "uploaded_as s jid m r \<longleftrightarrow> artifact_id r = artifact_id m \<and>
     (\<exists>u \<in> set (job_artifact_uploads s). up_job_id u = jid \<and> up_artifact_id u = artifact_id m \<and>
        result_matches m u r)"

text \<open>The primary key of \<open>job_artifact_uploads\<close>.\<close>

definition uploads_keyed :: "db \<Rightarrow> bool" where
  "uploads_keyed s \<longleftrightarrow> distinct (map (\<lambda>u. (up_job_id u, up_artifact_id u)) (job_artifact_uploads s))"

lemma upsert_upload_keyed:
  "distinct (map (\<lambda>u. (up_job_id u, up_artifact_id u)) rows) \<Longrightarrow>
     distinct (map (\<lambda>u. (up_job_id u, up_artifact_id u)) (upsert_upload r rows))"
proof (cases "list_ex (\<lambda>u. up_job_id u = up_job_id r \<and> up_artifact_id u = up_artifact_id r) rows")
  case True
  then have "map (\<lambda>u. (up_job_id u, up_artifact_id u)) (upsert_upload r rows) =
      map (\<lambda>u. (up_job_id u, up_artifact_id u)) rows"
    by (simp add: upsert_upload_def sql_update_def)
  then show "distinct (map (\<lambda>u. (up_job_id u, up_artifact_id u)) rows) \<Longrightarrow> ?thesis" by simp
qed (auto simp: upsert_upload_def list_ex_iff)

lemma upsert_upload_in: "r \<in> set (upsert_upload r rows)"
  by (auto simp: upsert_upload_def list_ex_iff sql_update_def image_iff)

lemma upsert_upload_other:
  "u \<in> set rows \<Longrightarrow> (up_job_id u, up_artifact_id u) \<noteq> (up_job_id r, up_artifact_id r) \<Longrightarrow>
     u \<in> set (upsert_upload r rows)"
  by (auto simp: upsert_upload_def set_sql_update)

lemma uploads_of_job_keyed:
  assumes "uploads_keyed s"
  shows "distinct (map up_artifact_id (filter (\<lambda>u. up_job_id u = jid) (job_artifact_uploads s)))"
proof -
  have "inj_on (\<lambda>u. (up_job_id u, up_artifact_id u)) (set (job_artifact_uploads s))"
    "distinct (job_artifact_uploads s)"
    using assms by (auto simp: uploads_keyed_def distinct_map)
  then show ?thesis by (auto simp: distinct_map inj_on_def)
qed

lemma record_upload_effect:
  assumes "record_job_artifact_upload X jid aid credential sha256 n ct now s = Inr (s', a)"
  obtains row m where "row \<in> set (compute_jobs s)" "job_id row = jid" "job_status row = ''uploading''"
    "m \<in> set (job_expected_outputs row)" "artifact_id m = aid" "a = m\<lparr>art_sha256 := Some sha256, art_size_bytes := Some n\<rparr>"
    "\<exists>limit. art_size_bytes m = Some limit \<and> n \<le> limit"
    "jr_job_credential_hash row = Some (sha256_hex X credential)"
    "s' = s\<lparr>job_artifact_uploads := upsert_upload
            \<lparr>up_job_id = jid, up_artifact_id = aid, up_object_key = art_object_key m,
             up_sha256 = sha256, up_size_bytes = uint n, up_content_type = ct,
             up_uploaded_at = to_rfc3339 X now\<rparr> (job_artifact_uploads s)\<rparr>"
  using assms authorized_artifact_ok
  by (fastforce simp: record_job_artifact_upload_def result_simps ensure_def ok_or_eq_Inr
      dest!: find_SomeD split: if_splits)

lemma u64_of_i64_uint [simp]: "u64_of_i64 (uint (w :: u64)) = Some w"
  using unsigned_less[of w, where 'a = int] by (simp add: u64_of_i64_def)

lemma validate_uploaded_job_results_ok:
  assumes "distinct (map artifact_id expected)" "uploads_keyed s"
  shows "validate_uploaded_job_results s jid expected status results = Inr () \<longleftrightarrow>
    (if status = ''failed'' then results = []
     else length results = length expected \<and> distinct (map artifact_id results) \<and>
       (\<forall>r \<in> set results. \<exists>m \<in> set expected. uploaded_as s jid m r))"
  using uploads_of_job_keyed[OF assms(2), of jid]
  by (auto simp: validate_uploaded_job_results_def check_results_ok map_of_rev_key[OF assms(1)]
      map_of_rev_key uploaded_as_def ensure_def)
     (metis+)

section \<open>Properties\<close>


text \<open>
  What the control plane hands back after an upload is what it later accepts: recording an upload
  returns an artifact held by a verified upload, keeps the uploads of all other artifacts, and once
  every expected output is held that way, submitting the returned artifacts in order passes the check.
\<close>

theorem upload_round_trip:
  assumes "uploads_keyed s" and "distinct (map artifact_id expected)"
    and "record_job_artifact_upload X jid aid credential sha256 n ct now s = Inr (s', a)"
    and "m \<in> set expected" "artifact_id m = aid"
    and "\<And>row. row \<in> set (compute_jobs s) \<Longrightarrow> job_id row = jid \<Longrightarrow> job_expected_outputs row = expected"
  shows "uploads_keyed s' \<and> uploaded_as s' jid m a \<and>
    (\<forall>m' r. artifact_id m' \<noteq> aid \<and> uploaded_as s jid m' r \<longrightarrow> uploaded_as s' jid m' r) \<and>
    (\<forall>results. list_all2 (uploaded_as s' jid) expected results \<longrightarrow>
       validate_uploaded_job_results s' jid expected ''succeeded'' results = Inr ())"
proof -
  obtain row m0 where r: "row \<in> set (compute_jobs s)" "job_id row = jid"
    "m0 \<in> set (job_expected_outputs row)" "artifact_id m0 = aid"
    "a = m0\<lparr>art_sha256 := Some sha256, art_size_bytes := Some n\<rparr>"
    "s' = s\<lparr>job_artifact_uploads := upsert_upload
            \<lparr>up_job_id = jid, up_artifact_id = aid, up_object_key = art_object_key m0,
             up_sha256 = sha256, up_size_bytes = uint n, up_content_type = ct,
             up_uploaded_at = to_rfc3339 X now\<rparr> (job_artifact_uploads s)\<rparr>"
    using assms(3) by (rule record_upload_effect)
  have m0: "m0 = m" using assms(2,4-6) r(1-4) distinct_map_same[of artifact_id expected m0 m] by simp
  have keyed: "uploads_keyed s'" using assms(1) r(6) upsert_upload_keyed by (simp add: uploads_keyed_def)
  have "uploaded_as s' jid m a"
    unfolding uploaded_as_def using upsert_upload_in assms(5) r(5,6) m0
    by (force simp: result_matches_def)
  moreover have "uploaded_as s' jid m' r'" if "artifact_id m' \<noteq> aid" "uploaded_as s jid m' r'" for m' r'
    using that r(6) by (auto simp: uploaded_as_def intro!: bexI upsert_upload_other)
  moreover have "validate_uploaded_job_results s' jid expected ''succeeded'' results = Inr ()"
    if all: "list_all2 (uploaded_as s' jid) expected results" for results
  proof -
    have "map artifact_id results = map artifact_id expected"
      using all by (induction rule: list_all2_induct) (auto simp: uploaded_as_def)
    moreover have "\<forall>r \<in> set results. \<exists>m \<in> set expected. uploaded_as s' jid m r"
      using all by (auto simp: list_all2_conv_all_nth set_conv_nth)
    ultimately show ?thesis
      using validate_uploaded_job_results_ok[OF assms(2) keyed, of jid "''succeeded''" results] assms(2)
        list_all2_lengthD[OF all] by simp
  qed
  ultimately show ?thesis using keyed by blast
qed

section \<open>Instances\<close>

definition example_output :: JobArtifact where
  "example_output = \<lparr>artifact_id = ''out'', art_role = ''output'', art_object_key = ''k'',
     art_sha256 = None, art_size_bytes = Some 100, art_content_type = None\<rparr>"

definition example_digest :: string where
  "example_digest = ''sha256:'' @ example_hash"

definition example_uploading_db :: db where
  "example_uploading_db = example_sched_db\<lparr>compute_jobs := [example_job\<lparr>job_status := ''uploading'',
     job_expected_outputs := [example_output], jr_assignment_lease_id := Some ''l1'',
     jr_job_credential_hash := Some ''hsecret'', jr_job_credential_expires_at := Some ''+1001''\<rparr>]\<rparr>"

definition example_upload :: "(db \<times> JobArtifact) res" where
  "example_upload = record_job_artifact_upload example_externs ''j1'' ''out'' ''secret'' example_digest 7
     (Some ''text'') 5 example_uploading_db"

lemma example_upload_ok: "\<exists>s' a. example_upload = Inr (s', a)"
proof -
  have "validate_digest example_digest = Inr ()" by code_simp
  moreover have "assert_current_compute_protocol_negotiation (provider_sessions example_uploading_db) ''s1'' = Inr ()"
    by code_simp
  ultimately show ?thesis
    by (simp add: example_upload_def record_job_artifact_upload_def example_uploading_db_def
        example_sched_db_simps example_job_def authorized_artifact_from_row_def example_externs_def
        example_output_def MAX_ARTIFACT_BYTES_def i64_max_def)
qed


theorem upload_round_trip_witness:
  "\<exists>s' a. example_upload = Inr (s', a) \<and>
     validate_uploaded_job_results s' ''j1'' [example_output] ''succeeded'' [a] = Inr ()"
proof -
  obtain s' a where up: "example_upload = Inr (s', a)" using example_upload_ok by blast
  have keyed: "uploads_keyed example_uploading_db"
    by (simp add: uploads_keyed_def example_uploading_db_def example_sched_db_def example_db_def)
  have "list_all2 (uploaded_as s' ''j1'') [example_output] [a] \<longrightarrow>
      validate_uploaded_job_results s' ''j1'' [example_output] ''succeeded'' [a] = Inr ()"
    "uploaded_as s' ''j1'' example_output a"
    using upload_round_trip[OF keyed _ up[unfolded example_upload_def], of "[example_output]" example_output]
    by (simp_all add: example_uploading_db_def example_output_def)
  then show ?thesis using up by auto
qed

end
