(* ===== verification/Metering.thy ===== *)
theory Metering
  imports Scheduler
begin

text \<open>
  Usage metering, \<^verbatim>\<open>burd-control-plane/src/metering.rs\<close>: the receipt of a terminal job and the
  append-only usage ledger. The canonical hashes (\<open>hash_canonical\<close>) are parameters; the random part
  of an entry identifier is an argument.
\<close>

section \<open>The receipt\<close>

text \<open>The object whose canonical JSON is the source hash of an entry.\<close>

record UsageSourceClaims =
  uc_entry_type :: string
  uc_job_id :: string
  uc_job_updated_at :: string
  uc_lease_id :: "string option"
  uc_lease_updated_at :: "string option"
  uc_reservation_id :: "string option"
  uc_pricing_snapshot_id :: "string option"
  uc_retry_count :: u32

record usage_hashes =
  receipt_hash_canonical :: "JobUsageReceipt \<Rightarrow> string"
  source_hash_canonical :: "UsageSourceClaims \<Rightarrow> string"

definition ENTRY_TYPE_JOB_USAGE_FINALIZED :: string where
  "ENTRY_TYPE_JOB_USAGE_FINALIZED = ''job_usage_finalized''"

definition MAX_USAGE_LEDGER_LIMIT :: nat where "MAX_USAGE_LEDGER_LIMIT = 200"

record MeteredJobSource =
  ms_job_id :: string
  ms_provider_id :: string
  ms_device_id :: string
  ms_session_id :: string
  ms_workload_type :: string
  ms_gpu_uuid :: string
  ms_status :: string
  ms_input_artifacts :: "JobArtifact list"
  ms_result_artifacts :: "JobArtifact list"
  ms_error_code :: "string option"
  ms_cancellation_reason :: "string option"
  ms_assigned_at :: "string option"
  ms_started_at :: "string option"
  ms_completed_at :: "string option"
  ms_job_updated_at :: string
  ms_lease_id :: "string option"
  ms_reservation_id :: "string option"
  ms_pricing_snapshot_id :: "string option"
  ms_lease_offered_at :: "string option"
  ms_lease_accepted_at :: "string option"
  ms_lease_active_at :: "string option"
  ms_lease_completed_at :: "string option"
  ms_lease_updated_at :: "string option"
  ms_retry_count :: u32

fun or_else :: "'a option \<Rightarrow> 'a option \<Rightarrow> 'a option" where
  "or_else (Some x) _ = Some x"
| "or_else None y = y"

text \<open>\<open>TimeDelta::num_seconds\<close> truncates towards zero.\<close>

definition num_seconds :: "int \<Rightarrow> int" where
  "num_seconds d = (if d < 0 then - ((- d) div nanos_per_second) else d div nanos_per_second)"

definition seconds_between :: "externs \<Rightarrow> string option \<Rightarrow> string option \<Rightarrow> u64" where
  "seconds_between X start finish =
     (case (Option.bind start (parse_from_rfc3339 X), Option.bind finish (parse_from_rfc3339 X)) of
        (Some a, Some b) \<Rightarrow> word_of_int (max (num_seconds (b - a)) 0)
      | _ \<Rightarrow> 0)"

definition artifact_bytes :: "JobArtifact list \<Rightarrow> u64" where
  "artifact_bytes as = fold (\<lambda>n acc. saturating_add acc n) (List.map_filter art_size_bytes as) 0"

definition starts_with_any :: "string list \<Rightarrow> string \<Rightarrow> bool" where
  "starts_with_any ps v \<longleftrightarrow> list_ex (\<lambda>p. prefix p v) ps"

definition classify_failure :: "MeteredJobSource \<Rightarrow> bool \<times> bool \<times> string option" where
  "classify_failure src =
     (if ms_status src = ''succeeded'' then (False, False, None)
      else if ms_status src = ''cancelled'' then (False, False, Some ''admin_cancelled'')
      else
        let lower = to_ascii_lowercase (case ms_error_code src of None \<Rightarrow> [] | Some c \<Rightarrow> c) in
        if starts_with_any [''customer_'', ''input_'', ''invalid_request''] lower
        then (False, True, Some ''customer_caused_failure'')
        else if starts_with_any [''provider_'', ''runtime_'', ''container_'', ''gpu_'',
               ''infrastructure_'', ''timeout''] lower
        then (True, False, Some ''provider_caused_failure'')
        else if ms_cancellation_reason src \<noteq> None then (False, False, Some ''admin_cancelled'')
        else (False, False, Some ''unknown_failure''))"

definition build_job_usage_receipt :: "externs \<Rightarrow> MeteredJobSource \<Rightarrow> JobUsageReceipt" where
  "build_job_usage_receipt X src =
     (let lease_started_at = or_else (ms_lease_accepted_at src)
            (or_else (ms_lease_offered_at src) (ms_assigned_at src));
          lease_ended_at = or_else (ms_lease_completed_at src) (ms_completed_at src);
          job_started_at = or_else (ms_started_at src) (ms_lease_active_at src);
          job_completed_at = ms_completed_at src;
          reserved = seconds_between X lease_started_at lease_ended_at;
          actual = seconds_between X job_started_at job_completed_at;
          idle = saturating_sub reserved actual;
          (provider_caused, customer_caused, classification) = classify_failure src;
          billable = (if ms_status src = ''succeeded'' then actual else 0);
          input_bytes = artifact_bytes (ms_input_artifacts src);
          output_bytes = artifact_bytes (ms_result_artifacts src);
          network = saturating_add input_bytes output_bytes in
      \<lparr>ur_job_id = ms_job_id src, ur_lease_id = ms_lease_id src,
       ur_reservation_id = ms_reservation_id src, ur_pricing_snapshot_id = ms_pricing_snapshot_id src,
       ur_provider_id = ms_provider_id src, ur_device_id = ms_device_id src,
       ur_session_id = ms_session_id src, ur_workload_type = ms_workload_type src,
       ur_gpu_uuid = ms_gpu_uuid src, ur_job_status = ms_status src,
       ur_lease_started_at = lease_started_at, ur_lease_ended_at = lease_ended_at,
       ur_job_started_at = job_started_at, ur_job_completed_at = job_completed_at,
       ur_reserved_gpu_seconds = reserved, ur_actual_gpu_seconds = actual,
       ur_billable_gpu_seconds = billable,
       ur_non_billable_gpu_seconds = saturating_sub reserved billable,
       ur_idle_billable_gpu_seconds = 0, ur_idle_unbillable_gpu_seconds = idle,
       ur_input_bytes = input_bytes, ur_output_bytes = output_bytes,
       ur_network_transfer_bytes = network, ur_storage_bytes = network,
       ur_retry_count = ms_retry_count src, ur_provider_caused_failure = provider_caused,
       ur_customer_caused_failure = customer_caused, ur_failure_classification = classification,
       ur_challenge_non_billable_seconds = 0,
       ur_reason_codes = [''backend_metered_usage'', ''billing_not_executed_bn15'',
          ''idle_time_unbillable_initial_policy'', ''challenge_time_excluded'']
         @ (if ms_lease_id src = None then [''missing_scheduler_lease''] else [])
         @ (if classification \<noteq> None then [''failure_classified_for_dispute_basis''] else [])\<rparr>)"

section \<open>The ledger\<close>

definition load_metered_job_source :: "externs \<Rightarrow> db \<Rightarrow> string \<Rightarrow> MeteredJobSource res" where
  "load_metered_job_source X s jid =
     bind_res (ok_or (find (\<lambda>j. job_id j = jid) (compute_jobs s)) (NotFound ''job not found'')) (\<lambda>j.
     let reservation = Option.bind (jr_reservation_id j)
           (\<lambda>r. find (\<lambda>v. rv_reservation_id v = r) (marketplace_reservations s));
         lease = latest_by (\<lambda>l. collation_key X (lease_created_at l))
           (filter (\<lambda>l. lease_job_id l = job_id j) (job_leases s)) in
     Inr \<lparr>ms_job_id = job_id j, ms_provider_id = job_provider_id j, ms_device_id = job_device_id j,
          ms_session_id = job_session_id j, ms_workload_type = job_workload_type j,
          ms_gpu_uuid = job_gpu_uuid j, ms_status = job_status j,
          ms_input_artifacts = job_input_artifacts j, ms_result_artifacts = job_result_artifacts j,
          ms_error_code = job_error_code j, ms_cancellation_reason = job_cancellation_reason j,
          ms_assigned_at = job_assigned_at j, ms_started_at = job_started_at j,
          ms_completed_at = job_completed_at j, ms_job_updated_at = job_updated_at j,
          ms_lease_id = map_option lease_id lease, ms_reservation_id = jr_reservation_id j,
          ms_pricing_snapshot_id = Option.bind reservation rv_pricing_snapshot_id,
          ms_lease_offered_at = map_option lease_offered_at lease,
          ms_lease_accepted_at = Option.bind lease lease_accepted_at,
          ms_lease_active_at = Option.bind lease lease_active_at,
          ms_lease_completed_at = Option.bind lease lease_completed_at,
          ms_lease_updated_at = map_option lease_updated_at lease,
          ms_retry_count = word_of_int (int (sql_count (\<lambda>e. event_job_id e = job_id j
            \<and> event_event_type e \<in> {''retry'', ''retried'', ''retrying''}) (job_events s)))\<rparr>)"

definition usage_source_claims :: "MeteredJobSource \<Rightarrow> UsageSourceClaims" where
  "usage_source_claims src =
     \<lparr>uc_entry_type = ENTRY_TYPE_JOB_USAGE_FINALIZED, uc_job_id = ms_job_id src,
      uc_job_updated_at = ms_job_updated_at src, uc_lease_id = ms_lease_id src,
      uc_lease_updated_at = ms_lease_updated_at src, uc_reservation_id = ms_reservation_id src,
      uc_pricing_snapshot_id = ms_pricing_snapshot_id src, uc_retry_count = ms_retry_count src\<rparr>"

definition to_i64 :: "u64 \<Rightarrow> unit res" where
  "to_i64 v = ensure (uint v \<le> i64_max) (Invalid ''usage quantity overflow'')"

text \<open>
  \<open>usage_entry_from_row\<close>: the quantities were stored as \<open>BIGINT\<close> within range; the retry counter was
  cast to \<open>i32\<close>, so a value of 2^31 or more reads back as negative.
\<close>

definition usage_entry_from_row :: "UsageLedgerEntry \<Rightarrow> UsageLedgerEntry res" where
  "usage_entry_from_row e =
     (if uint (ur_retry_count (ul_receipt e)) < 2 ^ 31 then Inr e
      else Inl (Database ''negative retry count''))"

definition usage_key :: "UsageLedgerEntry \<Rightarrow> string \<times> string" where
  "usage_key e = (ur_job_id (ul_receipt e), ul_entry_type e)"

text \<open>
  \<open>INSERT ... ON CONFLICT (job_id, entry_type) DO NOTHING RETURNING entry_id\<close>: the new table and whether
  a row was inserted; a clash of the primary key is an error.
\<close>

definition insert_usage_entry ::
  "UsageLedgerEntry \<Rightarrow> UsageLedgerEntry list \<Rightarrow> (UsageLedgerEntry list \<times> bool) res" where
  "insert_usage_entry e rows =
     (if list_ex (\<lambda>r. usage_key r = usage_key e) rows then Inr (rows, False)
      else if list_ex (\<lambda>r. ul_entry_id r = ul_entry_id e) rows
        then Inl (Database ''duplicate key value violates unique constraint'')
      else Inr (rows @ [e], True))"

definition new_usage_entry :: "externs \<Rightarrow> usage_hashes \<Rightarrow> string \<Rightarrow> string \<Rightarrow> MeteredJobSource \<Rightarrow> UsageLedgerEntry" where
  "new_usage_entry X U uuid now src =
     (let receipt = build_job_usage_receipt X src in
      \<lparr>ul_entry_id = ''usage_'' @ uuid, ul_entry_type = ENTRY_TYPE_JOB_USAGE_FINALIZED,
       ul_receipt = receipt, ul_receipt_hash = receipt_hash_canonical U receipt,
       ul_receipt_signature_status = ''hash_only_backend_signature_not_configured'',
       ul_source_hash = source_hash_canonical U (usage_source_claims src), ul_created_at = now\<rparr>)"

text \<open>The guards of \<open>append_usage_ledger_for_job\<close> and the conversions of the quantities to \<open>BIGINT\<close>.\<close>

definition meterable_source :: "externs \<Rightarrow> db \<Rightarrow> string \<Rightarrow> MeteredJobSource res" where
  "meterable_source X s jid =
     bind_res (load_metered_job_source X s jid) (\<lambda>src.
     bind_res (ensure (\<not> (ms_reservation_id src \<noteq> None \<and> ms_pricing_snapshot_id src = None))
       (Conflict ''customer job has no authoritative pricing snapshot'')) (\<lambda>_.
     bind_res (ensure (ms_status src \<in> {''succeeded'', ''failed'', ''cancelled''})
       (Conflict ''usage can only be finalized for terminal jobs'')) (\<lambda>_.
     let receipt = build_job_usage_receipt X src in
     bind_res (try_each to_i64
       [ur_reserved_gpu_seconds receipt, ur_actual_gpu_seconds receipt, ur_billable_gpu_seconds receipt,
        ur_non_billable_gpu_seconds receipt, ur_idle_billable_gpu_seconds receipt,
        ur_idle_unbillable_gpu_seconds receipt, ur_input_bytes receipt, ur_output_bytes receipt,
        ur_network_transfer_bytes receipt, ur_storage_bytes receipt,
        ur_challenge_non_billable_seconds receipt]) (\<lambda>_.
     Inr src))))"

definition append_usage_ledger_for_job ::
  "externs \<Rightarrow> usage_hashes \<Rightarrow> string \<Rightarrow> string \<Rightarrow> string \<Rightarrow> string \<Rightarrow> db \<Rightarrow>
     (db \<times> UsageLedgerEntry \<times> bool) res" where
  "append_usage_ledger_for_job X U uuid request_id jid now s =
     bind_res (meterable_source X s jid) (\<lambda>src.
     bind_res (insert_usage_entry (new_usage_entry X U uuid now src) (usage_ledger_entries s)) (\<lambda>(rows, inserted).
     bind_res (ok_or (find (\<lambda>r. ur_job_id (ul_receipt r) = jid
         \<and> ul_entry_type r = ENTRY_TYPE_JOB_USAGE_FINALIZED) rows)
       (Database ''query returned an unexpected number of rows'')) (\<lambda>row.
     bind_res (usage_entry_from_row row) (\<lambda>e.
     let s1 = s\<lparr>usage_ledger_entries := rows\<rparr> in
     Inr (if inserted then insert_audit_event request_id ''system'' None ''usage_ledger_entry''
            (ul_entry_id e) ''usage.finalized'' s1 else s1, e, \<not> inserted)))))"

definition finalize_job_usage ::
  "externs \<Rightarrow> usage_hashes \<Rightarrow> string \<Rightarrow> string \<Rightarrow> string \<Rightarrow> int \<Rightarrow> db \<Rightarrow>
     (db \<times> UsageLedgerEntry \<times> bool) res" where
  "finalize_job_usage X U uuid request_id jid now s =
     bind_res (validate_id ''job_id'' jid 128) (\<lambda>_.
     append_usage_ledger_for_job X U uuid request_id jid (to_rfc3339 X now) s)"

definition list_job_usage_ledger :: "externs \<Rightarrow> string \<Rightarrow> db \<Rightarrow> UsageLedgerEntry list res" where
  "list_job_usage_ledger X jid s =
     bind_res (validate_id ''job_id'' jid 128) (\<lambda>_.
     Inr (rev (sort_key (\<lambda>e. collation_key X (ul_created_at e))
       (filter (\<lambda>e. ur_job_id (ul_receipt e) = jid) (usage_ledger_entries s)))))"

definition list_provider_usage_ledger :: "externs \<Rightarrow> string \<Rightarrow> u32 \<Rightarrow> db \<Rightarrow> UsageLedgerEntry list res" where
  "list_provider_usage_ledger X provider limit s =
     bind_res (validate_id ''provider_id'' provider 128) (\<lambda>_.
     Inr (take (clamp 1 MAX_USAGE_LEDGER_LIMIT (unat limit))
       (rev (sort_key (\<lambda>e. collation_key X (ul_created_at e))
         (filter (\<lambda>e. ur_provider_id (ul_receipt e) = provider) (usage_ledger_entries s))))))"

section \<open>Lemmas\<close>

lemma classify_failure_cases:
  "classify_failure src = (p, c, k) \<Longrightarrow> \<not> (p \<and> c) \<and> (k = None \<longleftrightarrow> ms_status src = ''succeeded'') \<and>
     (p \<or> c \<longrightarrow> ms_status src \<notin> {''succeeded'', ''cancelled''})"
  by (auto simp: classify_failure_def Let_def split: if_splits)

lemma seconds_between_exact:
  assumes "start = Some a" "finish = Some b" "parse_from_rfc3339 X a = Some t0"
    "parse_from_rfc3339 X b = Some t1" "t1 - t0 < 2 ^ 63 * nanos_per_second"
  shows "int (unat (seconds_between X start finish)) * nanos_per_second \<le> max 0 (t1 - t0) \<and>
    max 0 (t1 - t0) < (int (unat (seconds_between X start finish)) + 1) * nanos_per_second"
proof (cases "t1 < t0")
  case True
  then have "num_seconds (t1 - t0) \<le> 0" by (simp add: num_seconds_def nanos_per_second_def)
  then show ?thesis using True assms by (simp add: seconds_between_def nanos_per_second_def)
next
  case False
  let ?d = "t1 - t0"
  have d: "num_seconds ?d = ?d div 1000000000" "0 \<le> ?d div 1000000000"
    using False by (simp_all add: num_seconds_def nanos_per_second_def)
  have "?d div 1000000000 < 2 ^ 63" using assms(5) by (simp add: nanos_per_second_def)
  then have "int (unat (seconds_between X start finish)) = ?d div 1000000000"
    using d assms by (simp add: seconds_between_def uint_word_of_int take_bit_int_eq_self)
  moreover have "?d div 1000000000 * 1000000000 \<le> ?d" "?d < (?d div 1000000000 + 1) * 1000000000"
  proof -
    have "?d mod 1000000000 < 1000000000" "0 \<le> ?d mod 1000000000" by simp_all
    then show "?d div 1000000000 * 1000000000 \<le> ?d" "?d < (?d div 1000000000 + 1) * 1000000000"
      using div_mult_mod_eq[of ?d 1000000000] unfolding distrib_right by linarith+
  qed
  ultimately show ?thesis using False by (simp add: nanos_per_second_def max_def)
qed

lemma insert_usage_entry_ok:
  assumes "insert_usage_entry e rows = Inr (rows', inserted)" "distinct (map usage_key rows)"
  shows "distinct (map usage_key rows') \<and> usage_key e \<in> usage_key ` set rows' \<and> set rows \<subseteq> set rows' \<and>
    (\<not> inserted \<longrightarrow> rows' = rows) \<and> (inserted \<longrightarrow> rows' = rows @ [e])"
  using assms by (auto simp: insert_usage_entry_def list_ex_iff image_iff split: if_splits) metis+

lemma metered_source_key:
  "load_metered_job_source X s jid = Inr src \<Longrightarrow> ms_job_id src = jid \<and>
     (\<exists>j \<in> set (compute_jobs s). job_id j = jid \<and> job_status j = ms_status src)"
  by (auto simp: load_metered_job_source_def result_simps Let_def dest!: find_SomeD)

lemma receipt_key: "ur_job_id (build_job_usage_receipt X src) = ms_job_id src"
  "ur_job_status (build_job_usage_receipt X src) = ms_status src"
  by (simp_all add: build_job_usage_receipt_def Let_def split: prod.splits)

lemma meterable_source_ok:
  assumes "meterable_source X s jid = Inr src"
  shows "load_metered_job_source X s jid = Inr src \<and> is_terminal_status (ms_status src) \<and>
    (ms_reservation_id src = None \<or> ms_pricing_snapshot_id src \<noteq> None)"
  using assms by (auto simp: meterable_source_def bind_res_eq_Inr Let_def is_terminal_status_def
      split: if_splits)

lemma append_usageE:
  assumes "append_usage_ledger_for_job X U uuid rid jid now s = Inr (s', e, dup)"
  obtains src rows where "meterable_source X s jid = Inr src"
    "insert_usage_entry (new_usage_entry X U uuid now src) (usage_ledger_entries s) = Inr (rows, \<not> dup)"
    "find (\<lambda>r. ur_job_id (ul_receipt r) = jid \<and> ul_entry_type r = ENTRY_TYPE_JOB_USAGE_FINALIZED) rows = Some e"
    "s' = (if dup then s\<lparr>usage_ledger_entries := rows\<rparr> else insert_audit_event rid ''system'' None
        ''usage_ledger_entry'' (ul_entry_id e) ''usage.finalized'' (s\<lparr>usage_ledger_entries := rows\<rparr>))"
    "uint (ur_retry_count (ul_receipt e)) < 2 ^ 31"
proof -
  from assms obtain src rows inserted row where a: "meterable_source X s jid = Inr src"
    "insert_usage_entry (new_usage_entry X U uuid now src) (usage_ledger_entries s) = Inr (rows, inserted)"
    "find (\<lambda>r. ur_job_id (ul_receipt r) = jid \<and> ul_entry_type r = ENTRY_TYPE_JOB_USAGE_FINALIZED) rows = Some row"
    and row: "usage_entry_from_row row = Inr e"
    and s': "(if inserted then insert_audit_event rid ''system'' None ''usage_ledger_entry''
        (ul_entry_id e) ''usage.finalized'' (s\<lparr>usage_ledger_entries := rows\<rparr>)
       else s\<lparr>usage_ledger_entries := rows\<rparr>) = s'" and dup: "(\<not> inserted) = dup"
    unfolding append_usage_ledger_for_job_def Let_def
    by (elim bind_resE) (simp only: ok_or_eq_Inr case_prod_conv split: prod.splits, elim bind_resE, simp)
  from row have "row = e" "uint (ur_retry_count (ul_receipt e)) < 2 ^ 31"
    by (auto simp: usage_entry_from_row_def split: if_splits)
  then show ?thesis using a s' dup by (intro that[of src rows]) auto
qed

lemma append_usage_frame:
  assumes "append_usage_ledger_for_job X U uuid rid jid now s = Inr (s', e, dup)"
  shows "compute_jobs s' = compute_jobs s \<and> job_leases s' = job_leases s \<and> job_events s' = job_events s \<and>
    marketplace_reservations s' = marketplace_reservations s \<and> providers s' = providers s \<and>
    provider_sessions s' = provider_sessions s \<and> job_artifact_uploads s' = job_artifact_uploads s \<and>
    idempotency_keys s' = idempotency_keys s"
  using assms by (rule append_usageE) (simp add: insert_audit_event_def)

definition usage_keyed :: "db \<Rightarrow> bool" where
  "usage_keyed s \<longleftrightarrow> distinct (map usage_key (usage_ledger_entries s))"

lemma append_usage_entries:
  assumes "append_usage_ledger_for_job X U uuid rid jid now s = Inr (s', e, dup)" "usage_keyed s"
  shows "usage_keyed s' \<and> e \<in> set (usage_ledger_entries s') \<and> ur_job_id (ul_receipt e) = jid \<and>
    ul_entry_type e = ENTRY_TYPE_JOB_USAGE_FINALIZED \<and>
    usage_ledger_entries s' = usage_ledger_entries s @ (if dup then [] else [e])"
  using assms(1)
proof (rule append_usageE)
  fix src rows
  let ?e = "(new_usage_entry X U uuid now src)"
  assume ins: "insert_usage_entry ?e (usage_ledger_entries s) = Inr (rows, \<not> dup)"
    and src: "meterable_source X s jid = Inr src"
    and row: "find (\<lambda>r. ur_job_id (ul_receipt r) = jid \<and> ul_entry_type r = ENTRY_TYPE_JOB_USAGE_FINALIZED) rows = Some e"
    and s': "s' = (if dup then s\<lparr>usage_ledger_entries := rows\<rparr> else insert_audit_event rid ''system'' None
        ''usage_ledger_entry'' (ul_entry_id e) ''usage.finalized'' (s\<lparr>usage_ledger_entries := rows\<rparr>))"
  note ok = insert_usage_entry_ok[OF ins assms(2)[unfolded usage_keyed_def]]
  have rows: "usage_ledger_entries s' = rows" using s' by (simp add: insert_audit_event_def)
  have e: "e \<in> set rows" "usage_key e = (jid, ENTRY_TYPE_JOB_USAGE_FINALIZED)"
    using row by (auto simp: usage_key_def dest: find_SomeD)
  have key: "usage_key e = usage_key ?e"
    using e(2) metered_source_key[of X s jid src] meterable_source_ok[OF src]
    by (simp add: usage_key_def receipt_key new_usage_entry_def Let_def)
  have "rows = usage_ledger_entries s @ (if dup then [] else [e])"
  proof (cases dup)
    case False
    then have "?e \<in> set rows" "distinct (map usage_key rows)" "rows = usage_ledger_entries s @ [?e]"
      using ok by (auto simp only: set_append list.set Un_iff insert_iff simp_thms)
    moreover from this have "e = ?e" using key e(1) by (intro distinct_map_same[of usage_key rows])
    ultimately show ?thesis using False by metis
  qed (use ok in simp)
  then show ?thesis using ok e rows by (simp add: usage_keyed_def usage_key_def)
qed

lemma filter_unique_key:
  assumes "distinct (map k xs)" "x \<in> set xs"
  shows "filter (\<lambda>r. k r = k x) xs = [x]"
  using assms
proof (induction xs)
  case (Cons y xs)
  show ?case
  proof (cases "y = x")
    case True
    then have "filter (\<lambda>r. k r = k x) xs = []" using Cons.prems by (auto simp: filter_empty_conv image_iff)
    then show ?thesis using True by simp
  next
    case False
    then show ?thesis using Cons by (auto simp: image_iff)
  qed
qed simp

lemma meterable_source_frame:
  assumes "compute_jobs s' = compute_jobs s" "job_leases s' = job_leases s" "job_events s' = job_events s"
    "marketplace_reservations s' = marketplace_reservations s"
  shows "meterable_source X s' jid = meterable_source X s jid"
  by (simp add: meterable_source_def load_metered_job_source_def assms)

lemma append_usage_again:
  assumes "meterable_source X s jid = Inr src" "usage_keyed s" "e \<in> set (usage_ledger_entries s)"
    "usage_key e = (jid, ENTRY_TYPE_JOB_USAGE_FINALIZED)" "uint (ur_retry_count (ul_receipt e)) < 2 ^ 31"
  shows "append_usage_ledger_for_job X U uuid rid jid now s = Inr (s, e, True)"
proof -
  have jid: "ms_job_id src = jid" using assms(1) meterable_source_ok metered_source_key by blast
  have "usage_key (new_usage_entry X U uuid now src) = usage_key e"
    using jid assms(4) by (simp add: usage_key_def receipt_key new_usage_entry_def Let_def)
  then have "insert_usage_entry (new_usage_entry X U uuid now src) (usage_ledger_entries s)
      = Inr (usage_ledger_entries s, False)"
    using assms(3) by (auto simp: insert_usage_entry_def list_ex_iff)
  moreover have "find (\<lambda>r. ur_job_id (ul_receipt r) = jid \<and> ul_entry_type r = ENTRY_TYPE_JOB_USAGE_FINALIZED)
      (usage_ledger_entries s) = Some e"
    using find_distinct_key[of usage_key "usage_ledger_entries s" e] assms(2-4)
    by (simp add: usage_keyed_def usage_key_def)
  ultimately show ?thesis using assms(1,5)
    by (simp add: append_usage_ledger_for_job_def usage_entry_from_row_def)
qed

section \<open>Properties\<close>

text \<open>
  The receipt of any job is fair: only a job that succeeded is billed, for its actual seconds and
  never for more; what is reserved splits exactly into idle and used time, and into billable and
  non-billable time, without wrap-around; at most one party is blamed, only for a job that failed, and a
  classification is given exactly when the job did not succeed.
\<close>

theorem receipt_fair:
  "let r = build_job_usage_receipt X src in
    ur_billable_gpu_seconds r \<le> ur_actual_gpu_seconds r \<and>
    (ur_billable_gpu_seconds r \<noteq> 0 \<longrightarrow> ur_job_status r = ''succeeded'') \<and>
    unat (ur_idle_unbillable_gpu_seconds r) + min (unat (ur_actual_gpu_seconds r)) (unat (ur_reserved_gpu_seconds r))
      = unat (ur_reserved_gpu_seconds r) \<and>
    unat (ur_non_billable_gpu_seconds r) + min (unat (ur_billable_gpu_seconds r)) (unat (ur_reserved_gpu_seconds r))
      = unat (ur_reserved_gpu_seconds r) \<and>
    \<not> (ur_provider_caused_failure r \<and> ur_customer_caused_failure r) \<and>
    (ur_provider_caused_failure r \<or> ur_customer_caused_failure r \<longrightarrow>
       ur_job_status r \<notin> {''succeeded'', ''cancelled''}) \<and>
    (ur_failure_classification r = None \<longleftrightarrow> ur_job_status r = ''succeeded'')"
proof -
  obtain p c k where "classify_failure src = (p, c, k)" by (cases "classify_failure src") auto
  with classify_failure_cases[OF this] show ?thesis
    by (simp add: build_job_usage_receipt_def Let_def unat_saturating_sub del: insert_iff)
qed

text \<open>
  Metered seconds are the elapsed seconds, rounded down: for a job whose start and completion can
  be read, the receipt's actual seconds are the whole seconds between them, and 0 when the completion
  precedes the start.
\<close>

theorem metered_seconds_exact:
  assumes "ms_started_at src = Some a" "ms_completed_at src = Some b"
    and "parse_from_rfc3339 X a = Some t0" "parse_from_rfc3339 X b = Some t1"
    and "t1 - t0 < 2 ^ 63 * nanos_per_second"
  shows "int (unat (ur_actual_gpu_seconds (build_job_usage_receipt X src))) * nanos_per_second \<le> max 0 (t1 - t0) \<and>
    max 0 (t1 - t0) < (int (unat (ur_actual_gpu_seconds (build_job_usage_receipt X src))) + 1) * nanos_per_second"
proof -
  have "ur_actual_gpu_seconds (build_job_usage_receipt X src) = seconds_between X (Some a) (Some b)"
    using assms(1,2) by (simp add: build_job_usage_receipt_def Let_def split: prod.splits)
  then show ?thesis using seconds_between_exact[OF refl refl assms(3-5)] by simp
qed

text \<open>
  A job is metered once: finalising the usage of a job needs a terminal job, leaves exactly one
  finalised entry for it in the append-only ledger, and finalising it again, at any time and with any
  new identifier, returns that same entry as a duplicate and changes nothing.
\<close>

theorem usage_finalized_once:
  assumes "append_usage_ledger_for_job X U uuid rid jid now s = Inr (s', e, dup)" "usage_keyed s"
  shows "(\<exists>j \<in> set (compute_jobs s). job_id j = jid \<and> is_terminal_status (job_status j)) \<and>
    usage_keyed s' \<and> usage_ledger_entries s' = usage_ledger_entries s @ (if dup then [] else [e]) \<and>
    filter (\<lambda>r. usage_key r = (jid, ENTRY_TYPE_JOB_USAGE_FINALIZED)) (usage_ledger_entries s') = [e] \<and>
    append_usage_ledger_for_job X U uuid' rid' jid now' s' = Inr (s', e, True)"
proof -
  note frame = append_usage_frame[OF assms(1)] and entries = append_usage_entries[OF assms]
  obtain src where src: "meterable_source X s jid = Inr src"
    and retry: "uint (ur_retry_count (ul_receipt e)) < 2 ^ 31"
    using assms(1) by (rule append_usageE)
  have src': "meterable_source X s' jid = Inr src"
    using src frame meterable_source_frame[of s' s X jid] by simp
  have key: "usage_key e = (jid, ENTRY_TYPE_JOB_USAGE_FINALIZED)" using entries by (simp add: usage_key_def)
  have "append_usage_ledger_for_job X U uuid' rid' jid now' s' = Inr (s', e, True)"
    using append_usage_again[OF src' _ _ key retry] entries by blast
  moreover have "filter (\<lambda>r. usage_key r = usage_key e) (usage_ledger_entries s') = [e]"
    using entries unfolding usage_keyed_def by (intro filter_unique_key) blast+
  moreover have "\<exists>j \<in> set (compute_jobs s). job_id j = jid \<and> is_terminal_status (job_status j)"
    using meterable_source_ok[OF src] metered_source_key[of X s jid src] by auto
  ultimately show ?thesis using entries key by simp
qed

section \<open>Instances\<close>

definition example_usage_hashes :: usage_hashes where
  "example_usage_hashes = \<lparr>receipt_hash_canonical = (\<lambda>_. ''r''), source_hash_canonical = (\<lambda>_. ''s'')\<rparr>"

definition example_cancelled_db :: db where
  "example_cancelled_db = example_sched_db\<lparr>compute_jobs := [example_job\<lparr>job_status := ''cancelled'',
     job_started_at := Some ''+1'', job_completed_at := Some ''+1001''\<rparr>]\<rparr>"

definition example_source :: MeteredJobSource where
  "example_source = (case load_metered_job_source example_externs example_cancelled_db ''j1'' of Inr src \<Rightarrow> src)"

lemma example_source_times:
  "load_metered_job_source example_externs example_cancelled_db ''j1'' = Inr example_source"
  "ms_started_at example_source = Some ''+1''" "ms_completed_at example_source = Some ''+1001''"
  by (simp_all add: example_source_def load_metered_job_source_def example_cancelled_db_def example_job_def
      Let_def)

theorem metered_seconds_exact_witness:
  "int (unat (ur_actual_gpu_seconds (build_job_usage_receipt example_externs example_source)))
     * nanos_per_second \<le> 8"
  using metered_seconds_exact[OF example_source_times(2,3), of example_externs 1 9]
  by (simp add: example_externs_def nanos_per_second_def)

theorem receipt_fair_witness:
  "ur_billable_gpu_seconds (build_job_usage_receipt example_externs example_source) = 0 \<and>
   ur_failure_classification (build_job_usage_receipt example_externs example_source) \<noteq> None"
proof -
  have "ur_job_status (build_job_usage_receipt example_externs example_source) \<noteq> ''succeeded''"
    by code_simp
  with receipt_fair[of example_externs example_source] show ?thesis by (auto simp: Let_def)
qed

lemma example_usage_ok:
  "case append_usage_ledger_for_job example_externs example_usage_hashes ''u'' ''r'' ''j1'' ''+1''
     example_cancelled_db of Inr (s', e, dup) \<Rightarrow> \<not> dup | Inl _ \<Rightarrow> False"
  by code_simp

theorem usage_finalized_once_witness:
  "\<exists>s' e. append_usage_ledger_for_job example_externs example_usage_hashes ''u'' ''r'' ''j1'' ''+1''
       example_cancelled_db = Inr (s', e, False) \<and>
     usage_ledger_entries s' = [e] \<and>
     append_usage_ledger_for_job example_externs example_usage_hashes ''u2'' ''r2'' ''j1'' ''+11'' s' = Inr (s', e, True)"
proof -
  obtain s' e where a: "append_usage_ledger_for_job example_externs example_usage_hashes ''u'' ''r'' ''j1'' ''+1''
       example_cancelled_db = Inr (s', e, False)"
    using example_usage_ok by (auto split: sum.splits)
  have "usage_ledger_entries example_cancelled_db = []"
    by (simp add: example_cancelled_db_def example_sched_db_def example_db_def)
  with usage_finalized_once[OF a, of "''u2''" "''r2''" "''+11''"] a show ?thesis
    by (simp add: usage_keyed_def)
qed

end
