(* ===== verification/Job_Control.thy ===== *)
theory Job_Control
  imports Scheduler Job_Artifact Metering
begin

text \<open>
  Job control, \<^verbatim>\<open>burd-control-plane/src/job_control.rs\<close>: creation, assignment, acceptance, events,
  results and cancellation of jobs. A handler is one transaction: it returns the new database and its
  response, or an error and the database is unchanged; \<open>accept_job\<close> also commits before it returns an
  error. Random identifiers and credentials, the clock, and the rows other transactions have locked are
  arguments.
\<close>

section \<open>Creation\<close>

record CreateJobCommand =
  cc_request_id :: string
  cc_scope :: string
  cc_idempotency_key :: string
  cc_request_hash :: string
  cc_request :: CreateJobRequest

datatype CreateJobOutcome = Response IdempotencyRow | OutcomeConflict

definition assert_job_target_is_authorized :: "db \<Rightarrow> CreateJobRequest \<Rightarrow> unit res" where
  "assert_job_target_is_authorized s r =
     (case (find (\<lambda>p. pr_provider_id p = cr_provider_id r) (providers s),
            find (\<lambda>d. dv_device_id d = cr_device_id r \<and> dv_provider_id d = cr_provider_id r) (devices s),
            find (\<lambda>ps. ps_session_id ps = cr_session_id r \<and> ps_provider_id ps = cr_provider_id r
              \<and> ps_device_id ps = cr_device_id r) (provider_sessions s)) of
        (Some p, Some d, Some ps) \<Rightarrow>
          if pr_status p \<in> {''blocked'', ''quarantined''} \<or> dv_status d \<noteq> ''active''
          then Inl (Conflict ''job target provider or device is blocked'')
          else if ps_status ps \<notin> {''online'', ''degraded''}
          then Inl (Conflict ''job target requires an online or degraded remote session'')
          else Inr ()
      | _ \<Rightarrow> Inl (NotFound ''provider, device, or session not found''))"

definition load_job_eligibility :: "externs \<Rightarrow> db \<Rightarrow> CreateJobRequest \<Rightarrow> eligibility_row res" where
  "load_job_eligibility X s r =
     ok_or (latest_by (\<lambda>e. collation_key X (el_evaluated_at e))
       (filter (\<lambda>e. el_provider_id e = cr_provider_id r \<and> el_device_id e = cr_device_id r
          \<and> el_workload_type e = cr_workload_type r
          \<and> (cr_policy_id r = None \<or> cr_policy_id r = Some (el_policy_id e))
          \<and> (cr_policy_version r = None \<or> cr_policy_version r = Some (el_policy_version e)))
        (workload_eligibility s)))
       (Conflict ''job target has no backend workload eligibility'')"

text \<open>The row the \<open>INSERT\<close> writes, with the defaults of the table.\<close>

definition new_job_row ::
  "string \<Rightarrow> CreateJobRequest \<Rightarrow> json \<Rightarrow> eligibility_row \<Rightarrow> string \<Rightarrow> job_row" where
  "new_job_row jid r parameters el now =
     \<lparr>job_id = jid, job_client_job_id = cr_client_job_id r, job_provider_id = cr_provider_id r,
      job_device_id = cr_device_id r, job_session_id = cr_session_id r,
      job_schema_version = JOB_SCHEMA_VERSION, job_workload_type = cr_workload_type r,
      job_template_id = cr_template_id r, job_image_ref = cr_image_ref r, job_gpu_uuid = cr_gpu_uuid r,
      job_backend = cr_backend r, job_parameters = parameters,
      job_input_artifacts = cr_input_artifacts r, job_expected_outputs = cr_expected_outputs r,
      job_result_artifacts = [], job_policy_id = Some (el_policy_id el),
      job_policy_version = Some (el_policy_version el), job_status = ''queued'',
      job_progress_percent = None, job_status_message = None, job_error_code = None,
      job_error_message = None, job_cancellation_reason = None,
      job_timeout_seconds = (case cr_timeout_seconds r of None \<Rightarrow> DEFAULT_JOB_TIMEOUT_SECONDS | Some t \<Rightarrow> t),
      job_created_at = now, job_assigned_at = None, job_accepted_at = None, job_started_at = None,
      job_completed_at = None, job_updated_at = now,
      jr_result_metrics = JObject [], jr_assignment_lease_id = None, jr_job_credential_hash = None,
      jr_job_credential_expires_at = None, jr_scheduler_last_evaluated_at = None,
      jr_workload_id = None, jr_placement_id = None, jr_reservation_id = None\<rparr>"

definition insert_job :: "job_row \<Rightarrow> job_row list \<Rightarrow> job_row list res" where
  "insert_job j jobs =
     (if list_ex (\<lambda>r. job_id r = job_id j
          \<or> (job_client_job_id j \<noteq> None \<and> job_provider_id r = job_provider_id j
             \<and> job_client_job_id r = job_client_job_id j)) jobs
      then Inl (Database ''duplicate key value violates unique constraint'')
      else Inr (jobs @ [j]))"

definition same_key :: "CreateJobCommand \<Rightarrow> IdempotencyRow \<Rightarrow> bool" where
  "same_key c k \<longleftrightarrow> ik_scope k = cc_scope c \<and> ik_key k = cc_idempotency_key c"

text \<open>What follows the reservation of the idempotency key: the job, its audit event, the response.\<close>

definition create_job :: "externs \<Rightarrow> string \<Rightarrow> CreateJobCommand \<Rightarrow> string \<Rightarrow> db \<Rightarrow> (db \<times> CreateJobOutcome) res" where
  "create_job X uuid c now s =
     (let r = cc_request c in
      bind_res (assert_job_target_is_authorized s r) (\<lambda>_.
      bind_res (load_job_eligibility X s r) (\<lambda>el.
      bind_res (ensure (el_status el \<in> {''eligible'', ''limited''})
        (Conflict ''job target is not eligible for this workload'')) (\<lambda>_.
      bind_res (assert_gpu_inventory_contains s (cr_provider_id r) (cr_device_id r) (cr_gpu_uuid r)) (\<lambda>_.
      bind_res (ensure (\<not> (cr_client_job_id r \<noteq> None \<and> list_ex (\<lambda>j. job_provider_id j = cr_provider_id r
          \<and> job_client_job_id j = cr_client_job_id r) (compute_jobs s)))
        (Conflict ''client_job_id already exists for provider'')) (\<lambda>_.
      bind_res (normalized_json_object (cr_parameters r) ''job parameters'') (\<lambda>parameters.
      let row = new_job_row (''job_'' @ uuid) r parameters el now in
      bind_res (insert_job row (compute_jobs s)) (\<lambda>jobs.
      let record = \<lparr>ik_scope = cc_scope c, ik_key = cc_idempotency_key c,
                    ik_request_hash = cc_request_hash c, ik_status_code = 201,
                    ik_response = Some \<lparr>cj_request_id = cc_request_id c, cj_job = job_from_row row,
                                        cj_duplicate = False\<rparr>\<rparr> in
      Inr (insert_audit_event (cc_request_id c) ''admin'' None ''compute_job'' (job_id row) ''job.created''
             (s\<lparr>compute_jobs := jobs, idempotency_keys := idempotency_keys s @ [record]\<rparr>),
           Response record)))))))))"

definition create_job_idempotently ::
  "externs \<Rightarrow> string \<Rightarrow> CreateJobCommand \<Rightarrow> int \<Rightarrow> db \<Rightarrow> (db \<times> CreateJobOutcome) res" where
  "create_job_idempotently X uuid c now s =
     bind_res (validate_create_job_request (cc_request c)) (\<lambda>_.
     bind_res (assert_current_compute_protocol_negotiation (provider_sessions s)
       (cr_session_id (cc_request c))) (\<lambda>_.
     case find (same_key c) (idempotency_keys s) of
       Some k \<Rightarrow> Inr (s, if ik_request_hash k = cc_request_hash c then Response k else OutcomeConflict)
     | None \<Rightarrow> create_job X uuid c (to_rfc3339 X now) s))"

definition get_job :: "string \<Rightarrow> db \<Rightarrow> JobRecord res" where
  "get_job jid s =
     bind_res (validate_id ''job_id'' jid 128) (\<lambda>_.
     bind_res (ok_or (find (\<lambda>j. job_id j = jid) (compute_jobs s)) (NotFound ''job not found'')) (\<lambda>j.
     Inr (job_from_row j)))"

definition list_provider_jobs :: "externs \<Rightarrow> string \<Rightarrow> u32 \<Rightarrow> db \<Rightarrow> JobRecord list res" where
  "list_provider_jobs X provider limit s =
     bind_res (validate_id ''provider_id'' provider 128) (\<lambda>_.
     Inr (map job_from_row (take (clamp 1 200 (unat limit))
       (rev (sort_key (\<lambda>j. collation_key X (job_created_at j))
         (filter (\<lambda>j. job_provider_id j = provider) (compute_jobs s)))))))"

section \<open>Locked rows and authority\<close>

definition locked_job :: "db \<Rightarrow> string \<Rightarrow> job_row res" where
  "locked_job s jid = ok_or (find (\<lambda>j. job_id j = jid) (compute_jobs s)) (NotFound ''job not found'')"

definition load_job_in_transaction :: "db \<Rightarrow> string \<Rightarrow> job_row res" where
  "load_job_in_transaction s jid = ok_or (find (\<lambda>j. job_id j = jid) (compute_jobs s))
     (Database ''query returned an unexpected number of rows'')"

definition load_job_lease_in_transaction :: "db \<Rightarrow> string \<Rightarrow> JobLeaseRecord res" where
  "load_job_lease_in_transaction s lid = ok_or (find (\<lambda>l. lease_id l = lid) (job_leases s))
     (Database ''query returned an unexpected number of rows'')"

definition job_of_session :: "AuthorizedSession \<Rightarrow> job_row \<Rightarrow> bool" where
  "job_of_session auth j \<longleftrightarrow> job_provider_id j = as_provider_id auth \<and>
     job_device_id j = as_device_id auth \<and> job_session_id j = as_session_id auth"

definition lease_of_session :: "AuthorizedSession \<Rightarrow> JobLeaseRecord \<Rightarrow> bool" where
  "lease_of_session auth l \<longleftrightarrow> lease_provider_id l = as_provider_id auth \<and>
     lease_device_id l = as_device_id auth \<and> lease_session_id l = as_session_id auth"

definition locked_authorized_job :: "db \<Rightarrow> AuthorizedSession \<Rightarrow> string \<Rightarrow> job_row res" where
  "locked_authorized_job s auth jid =
     bind_res (validate_id ''job_id'' jid 128) (\<lambda>_.
     bind_res (locked_job s jid) (\<lambda>j.
     bind_res (ensure (job_of_session auth j) Unauthorized) (\<lambda>_. Inr j)))"

definition locked_authorized_assignment ::
  "db \<Rightarrow> AuthorizedSession \<Rightarrow> string \<Rightarrow> string \<Rightarrow> (job_row \<times> JobLeaseRecord) res" where
  "locked_authorized_assignment s auth jid lid =
     bind_res (validate_id ''job_id'' jid 128) (\<lambda>_.
     bind_res (validate_id ''lease_id'' lid 128) (\<lambda>_.
     case (find (\<lambda>j. job_id j = jid \<and> job_of_session auth j) (compute_jobs s),
           find (\<lambda>l. lease_id l = lid \<and> lease_job_id l = jid \<and> lease_of_session auth l) (job_leases s)) of
       (Some j, Some l) \<Rightarrow>
         bind_res (ensure (jr_assignment_lease_id j = Some lid)
           (Conflict ''stale assignment acknowledgement'')) (\<lambda>_.
         bind_res (load_job_in_transaction s jid) (\<lambda>job.
         bind_res (load_job_lease_in_transaction s lid) (\<lambda>lease. Inr (job, lease))))
     | _ \<Rightarrow>
         bind_res (locked_authorized_job s auth jid) (\<lambda>_.
         Inl (Conflict ''stale or mismatched assignment acknowledgement''))))"

definition acceptance_authority_failure ::
  "externs \<Rightarrow> job_row \<Rightarrow> JobLeaseRecord \<Rightarrow> AuthorizedSession \<Rightarrow> int \<Rightarrow> string option" where
  "acceptance_authority_failure X job lease auth now =
     (if lease_status lease \<noteq> ''offered'' then
        Some (if lease_status lease = ''expired'' then ''lease_expired_before_acceptance''
              else ''lease_not_offered_before_acceptance'')
      else case parse_from_rfc3339 X (lease_expires_at lease) of
        None \<Rightarrow> Some ''lease_expiry_invalid_before_acceptance''
      | Some expires_at \<Rightarrow>
          if expires_at \<le> now then Some ''lease_expired_before_acceptance''
          else if lease_job_id lease \<noteq> job_id job
             \<or> lease_provider_id lease \<noteq> as_provider_id auth
             \<or> lease_device_id lease \<noteq> as_device_id auth
             \<or> lease_session_id lease \<noteq> as_session_id auth
             \<or> lease_provider_id lease \<noteq> job_provider_id job
             \<or> lease_device_id lease \<noteq> job_device_id job
             \<or> lease_session_id lease \<noteq> job_session_id job
             \<or> \<not> eq_ignore_ascii_case (lease_gpu_uuid lease) (job_gpu_uuid job)
          then Some ''lease_job_binding_mismatch_before_acceptance''
          else None)"

definition execution_lease_matches_job_state :: "string \<Rightarrow> string \<Rightarrow> bool" where
  "execution_lease_matches_job_state job lease \<longleftrightarrow>
     (job, lease) \<in> {(''accepted'', ''accepted''), (''provisioning'', ''provisioning''),
                     (''running'', ''active''), (''uploading'', ''active'')}"

section \<open>Assignment\<close>

definition MAX_ASSIGNMENT_OFFER_SCAN :: nat where "MAX_ASSIGNMENT_OFFER_SCAN = 16"

definition data_plane_grant :: "JobRecord \<Rightarrow> string \<Rightarrow> string \<Rightarrow> JobDataPlaneGrant" where
  "data_plane_grant job credential credential_expires_at =
     \<lparr>grant_schema_version = JOB_DATA_PLANE_GRANT_VERSION, grant_job_id = job_id job,
      grant_credential = credential, grant_credential_expires_at = credential_expires_at,
      grant_download_urls = map (\<lambda>a. \<lparr>url_artifact_id = artifact_id a, url_method = ''GET'',
         url_url = ''/v1/jobs/'' @ job_id job @ ''/artifacts/'' @ artifact_id a @ ''/download'',
         url_expires_at = credential_expires_at\<rparr>) (job_input_artifacts job),
      grant_upload_urls = map (\<lambda>a. \<lparr>url_artifact_id = artifact_id a, url_method = ''PUT'',
         url_url = ''/v1/jobs/'' @ job_id job @ ''/results/'' @ artifact_id a @ ''/upload'',
         url_expires_at = credential_expires_at\<rparr>) (job_expected_outputs job)\<rparr>"

definition provider_job_execution_spec ::
  "JobRecord \<Rightarrow> JobLeaseRecord \<Rightarrow> JobDataPlaneGrant \<Rightarrow> ProviderJobExecutionSpec res" where
  "provider_job_execution_spec job lease grant =
     (let spec =
        \<lparr>spec_schema_version = PROVIDER_JOB_EXECUTION_SCHEMA_VERSION,
         spec_policy_version = PROVIDER_JOB_EXECUTION_POLICY_VERSION,
         spec_job_schema_version = job_schema_version job,
         spec_lease_schema_version = lease_schema_version lease,
         spec_data_plane_schema_version = grant_schema_version grant,
         spec_job_id = job_id job, spec_lease_id = lease_id lease,
         spec_provider_id = job_provider_id job, spec_device_id = job_device_id job,
         spec_session_id = job_session_id job, spec_workload_type = job_workload_type job,
         spec_template_id = job_template_id job, spec_image_ref = job_image_ref job,
         spec_gpu_uuid = job_gpu_uuid job, spec_backend = job_backend job,
         spec_policy_id = job_policy_id job, spec_workload_policy_version = job_policy_version job,
         spec_initial_state = Assigned, spec_timeout_seconds = job_timeout_seconds job,
         spec_lease_expires_at = lease_expires_at lease,
         spec_data_plane_credential_expires_at = grant_credential_expires_at grant,
         spec_runtime = runtime_policy_v2, spec_cancellation = cancellation_policy_v1,
         spec_cleanup = cleanup_policy_v1\<rparr> in
      case validate_provider_job_execution_bundle job lease grant spec of
        Inl _ \<Rightarrow> Inl (Conflict ''provider job execution bundle is inconsistent'')
      | Inr _ \<Rightarrow> Inr spec)"

text \<open>The lease columns both withholdings write.\<close>

definition withheld :: "string list \<Rightarrow> string \<Rightarrow> string \<Rightarrow> JobLeaseRecord \<Rightarrow> JobLeaseRecord" where
  "withheld codes failure now l = l\<lparr>lease_status := ''expired'', lease_reason_codes := codes,
     lease_failure_reason := Some failure, lease_updated_at := now\<rparr>"

definition withhold_assignment ::
  "string \<Rightarrow> AuthorizedSession \<Rightarrow> string \<Rightarrow> string \<Rightarrow> string \<Rightarrow> string list \<Rightarrow> string \<Rightarrow> db \<Rightarrow> db res" where
  "withhold_assignment request_id auth lid jid failure_reason reason_codes now s =
     (let lsel = (\<lambda>l. lease_id l = lid \<and> lease_status l = ''offered'');
          jsel = (\<lambda>j. job_id j = jid \<and> job_status j = ''queued'' \<and> jr_assignment_lease_id j = None) in
      bind_res (ensure (sql_count lsel (job_leases s) = 1)
        (Conflict ''offered lease changed before assignment could be withheld'')) (\<lambda>_.
      bind_res (ensure (sql_count jsel (compute_jobs s) = 1)
        (Conflict ''leased job changed before assignment could be withheld'')) (\<lambda>_.
      Inr (insert_audit_event request_id ''device'' (Some (as_device_id auth)) ''job_lease'' lid
        ''lease.assignment_withheld''
        (s\<lparr>compute_jobs := sql_update jsel (requeued now) (compute_jobs s),
           job_leases := sql_update lsel (withheld reason_codes failure_reason now) (job_leases s)\<rparr>)))))"

text \<open>The \<open>UPDATE\<close> that assigns a queued job, and the response built from it.\<close>

definition assignable :: "string \<Rightarrow> job_row \<Rightarrow> bool" where
  "assignable jid j \<longleftrightarrow> job_id j = jid \<and> job_status j = ''queued'' \<and> jr_assignment_lease_id j = None"

definition assigned_row :: "string \<Rightarrow> string \<Rightarrow> string \<Rightarrow> string \<Rightarrow> job_row \<Rightarrow> job_row" where
  "assigned_row now lid credential_hash expires_at j =
     j\<lparr>job_status := ''assigned'', job_assigned_at := Some now, jr_assignment_lease_id := Some lid,
       jr_job_credential_hash := Some credential_hash, jr_job_credential_expires_at := Some expires_at,
       job_updated_at := now\<rparr>"

definition credential_expiry :: "externs \<Rightarrow> int \<Rightarrow> job_row \<Rightarrow> string" where
  "credential_expiry X now j =
     to_rfc3339 X (now + (int (unat (job_timeout_seconds j)) + 600) * nanos_per_second)"

definition assign_db :: "externs \<Rightarrow> int \<Rightarrow> string \<Rightarrow> string \<Rightarrow> job_row \<Rightarrow> db \<Rightarrow> db" where
  "assign_db X now lid credential queued s =
     s\<lparr>compute_jobs := sql_update (assignable (job_id queued)) (assigned_row (to_rfc3339 X now) lid
         (sha256_hex X credential) (credential_expiry X now queued)) (compute_jobs s)\<rparr>"

definition assign_job ::
  "externs \<Rightarrow> string \<Rightarrow> AuthorizedSession \<Rightarrow> string res \<Rightarrow> int \<Rightarrow> string \<Rightarrow> job_row \<Rightarrow> db \<Rightarrow>
     (db \<times> NextJobResponse) res" where
  "assign_job X request_id auth token now lid queued s =
     bind_res token (\<lambda>credential.
     let expires_at = credential_expiry X now queued in
     bind_res (ensure (sql_count (assignable (job_id queued)) (compute_jobs s) = 1)
       (Conflict ''leased job is no longer queued'')) (\<lambda>_.
     let s1 = assign_db X now lid credential queued s in
     bind_res (load_job_in_transaction s1 (job_id queued)) (\<lambda>row.
     bind_res (load_job_lease_in_transaction s1 lid) (\<lambda>lease.
     let job = job_from_row row; grant = data_plane_grant job credential expires_at in
     bind_res (provider_job_execution_spec job lease grant) (\<lambda>execution.
     Inr (insert_audit_event request_id ''device'' (Some (as_device_id auth)) ''compute_job'' (job_id job)
            ''job.assigned'' s1,
          \<lparr>next_request_id = request_id, next_job = Some job, next_data_plane = Some grant,
           next_lease = Some lease, next_execution = Some execution\<rparr>))))))"

definition offered_leases_for ::
  "externs \<Rightarrow> (string \<Rightarrow> bool) \<Rightarrow> AuthorizedSession \<Rightarrow> string \<Rightarrow> db \<Rightarrow> JobLeaseRecord list" where
  "offered_leases_for X locked auth now s =
     take MAX_ASSIGNMENT_OFFER_SCAN (filter (\<lambda>l. \<not> locked (lease_id l))
       (sort_key (\<lambda>l. (collation_key X (lease_offered_at l), collation_key X (lease_id l)))
         (filter (\<lambda>l. lease_of_session auth l \<and> lease_status l = ''offered''
             \<and> sql_less X now (lease_expires_at l)
             \<and> list_ex (\<lambda>j. job_id j = lease_job_id l \<and> job_status j = ''queued'') (compute_jobs s))
           (job_leases s))))"

fun next_job_loop ::
  "externs \<Rightarrow> canonical_hashes \<Rightarrow> string \<Rightarrow> AuthorizedSession \<Rightarrow> RuntimeAdmissionPolicy \<Rightarrow> string res \<Rightarrow> int \<Rightarrow>
     JobLeaseRecord list \<Rightarrow> db \<Rightarrow> (db \<times> NextJobResponse) res" where
  "next_job_loop X H request_id auth policy token now [] s = Inr (s, empty_next_job_response request_id)"
| "next_job_loop X H request_id auth policy token now (l # ls) s =
     bind_res (locked_job s (lease_job_id l)) (\<lambda>queued.
     bind_res (ensure (job_status queued = ''queued'') (Conflict ''leased job is no longer queued'')) (\<lambda>_.
     if \<not> job_of_session auth queued \<or> \<not> eq_ignore_ascii_case (job_gpu_uuid queued) (lease_gpu_uuid l) then
       bind_res (withhold_assignment request_id auth (lease_id l) (job_id queued)
         ''lease_job_binding_mismatch'' [''lease_job_binding_mismatch''] (to_rfc3339 X now) s) (\<lambda>s'.
       next_job_loop X H request_id auth policy token now ls s')
     else
       bind_res (evaluate_runtime_admission_for_gpu_in_transaction X H s (as_provider_id auth)
         (as_device_id auth) (lease_gpu_uuid l) policy now) (\<lambda>admission.
       if ad_status admission \<noteq> ''admitted'' then
         bind_res (withhold_assignment request_id auth (lease_id l) (job_id queued)
           ''runtime_admission_lost_before_assignment'' (ad_reason_codes admission) (to_rfc3339 X now) s) (\<lambda>s'.
         next_job_loop X H request_id auth policy token now ls s')
       else assign_job X request_id auth token now (lease_id l) queued s)))"

definition next_job_for_session ::
  "externs \<Rightarrow> canonical_hashes \<Rightarrow> (string \<Rightarrow> bool) \<Rightarrow> string \<Rightarrow> AuthorizedSession \<Rightarrow> RuntimeAdmissionPolicy \<Rightarrow>
     string res \<Rightarrow> int \<Rightarrow> db \<Rightarrow> (db \<times> NextJobResponse) res" where
  "next_job_for_session X H locked request_id auth policy token now s =
     bind_res (assert_current_compute_protocol_negotiation (provider_sessions s) (as_session_id auth)) (\<lambda>_.
     next_job_loop X H request_id auth policy token now
       (offered_leases_for X locked auth (to_rfc3339 X now) s) s)"

section \<open>Acceptance\<close>

definition withhold_acceptance ::
  "string \<Rightarrow> AuthorizedSession \<Rightarrow> job_row \<Rightarrow> JobLeaseRecord \<Rightarrow> string \<Rightarrow> string list \<Rightarrow> string \<Rightarrow> db \<Rightarrow> db res" where
  "withhold_acceptance request_id auth job lease failure_reason reason_codes now s =
     (let lsel = (\<lambda>l. lease_id l = lease_id lease
                    \<and> lease_status l \<in> {''offered'', ''accepted'', ''provisioning'', ''active''});
          jsel = (\<lambda>j. job_id j = job_id job \<and> job_status j = ''assigned''
                    \<and> jr_assignment_lease_id j = Some (lease_id lease)) in
      bind_res (if lease_status lease \<in> {''offered'', ''accepted'', ''provisioning'', ''active''} then
          bind_res (ensure (sql_count lsel (job_leases s) = 1)
            (Conflict ''active lease changed before acceptance could be withheld'')) (\<lambda>_.
          Inr (sql_update lsel (withheld reason_codes failure_reason now) (job_leases s)))
        else Inr (job_leases s)) (\<lambda>leases.
      bind_res (ensure (sql_count jsel (compute_jobs s) = 1)
        (Conflict ''assigned job changed before acceptance could be withheld'')) (\<lambda>_.
      Inr (insert_audit_event request_id ''device'' (Some (as_device_id auth)) ''job_lease''
        (lease_id lease) ''lease.acceptance_withheld''
        (s\<lparr>compute_jobs := sql_update jsel (\<lambda>j. (requeued now j)\<lparr>job_accepted_at := None\<rparr>) (compute_jobs s),
           job_leases := leases\<rparr>)))))"

definition accept_assigned ::
  "externs \<Rightarrow> string \<Rightarrow> AuthorizedSession \<Rightarrow> AcceptJobRequest \<Rightarrow> string \<Rightarrow> job_row \<Rightarrow> JobLeaseRecord \<Rightarrow> db \<Rightarrow>
     (db \<times> JobRecord) res" where
  "accept_assigned X request_id auth request now job lease s =
     (let jsel = (\<lambda>j. job_id j = job_id job \<and> job_status j = ''assigned'') in
      bind_res (ensure (sql_count jsel (compute_jobs s) = 1)
        (Conflict ''assigned job changed before it could be accepted'')) (\<lambda>_.
      bind_res (mark_lease_accepted_for_job X (lease_id lease) (job_id job) now (job_leases s)) (\<lambda>leases.
      let s1 = s\<lparr>compute_jobs := sql_update jsel (\<lambda>j. j\<lparr>job_status := ''accepted'',
             job_accepted_at := Some now, job_status_message := ar_status_message request,
             job_updated_at := now\<rparr>) (compute_jobs s), job_leases := leases\<rparr> in
      bind_res (load_job_in_transaction s1 (job_id job)) (\<lambda>updated.
      Inr (insert_audit_event request_id ''device'' (Some (as_device_id auth)) ''compute_job'' (job_id job)
        ''job.accepted'' s1, job_from_row updated)))))"

definition accept_job_checks ::
  "db \<Rightarrow> AuthorizedSession \<Rightarrow> string \<Rightarrow> AcceptJobRequest \<Rightarrow> (job_row \<times> JobLeaseRecord) res" where
  "accept_job_checks s auth jid request =
     bind_res (validate_id ''lease_id'' (ar_lease_id request) 128) (\<lambda>_.
     bind_res (validate_job_message (ar_status_message request)) (\<lambda>_.
     bind_res (assert_current_compute_protocol_negotiation (provider_sessions s) (as_session_id auth)) (\<lambda>_.
     bind_res (locked_authorized_assignment s auth jid (ar_lease_id request)) (\<lambda>(job, lease).
     bind_res (ensure (job_status job = ''assigned'')
       (Conflict ''job must be assigned before it can be accepted'')) (\<lambda>_.
     Inr (job, lease))))))"

text \<open>A withheld acceptance is committed and then reported as a conflict.\<close>

definition withhold_and_refuse :: "db res \<Rightarrow> db \<Rightarrow> db \<times> JobRecord res" where
  "withhold_and_refuse r s =
     (case r of Inl e \<Rightarrow> (s, Inl e)
      | Inr s' \<Rightarrow> (s', Inl (Conflict ''job acceptance authority is no longer valid'')))"

definition accept_job ::
  "externs \<Rightarrow> canonical_hashes \<Rightarrow> string \<Rightarrow> AuthorizedSession \<Rightarrow> string \<Rightarrow> AcceptJobRequest \<Rightarrow>
     RuntimeAdmissionPolicy \<Rightarrow> int \<Rightarrow> db \<Rightarrow> db \<times> JobRecord res" where
  "accept_job X H request_id auth jid request policy now s =
     (let now_text = to_rfc3339 X now in
      case accept_job_checks s auth jid request of
        Inl e \<Rightarrow> (s, Inl e)
      | Inr (job, lease) \<Rightarrow>
          (case acceptance_authority_failure X job lease auth now of
             Some failure \<Rightarrow>
               withhold_and_refuse (withhold_acceptance request_id auth job lease failure [failure] now_text s) s
           | None \<Rightarrow>
               (case evaluate_runtime_admission_for_gpu_in_transaction X H s (as_provider_id auth)
                       (as_device_id auth) (lease_gpu_uuid lease) policy now of
                  Inl e \<Rightarrow> (s, Inl e)
                | Inr admission \<Rightarrow>
                    if ad_status admission \<noteq> ''admitted'' then
                      withhold_and_refuse (withhold_acceptance request_id auth job lease
                        ''runtime_admission_lost_before_acceptance'' (ad_reason_codes admission) now_text s) s
                    else commit (accept_assigned X request_id auth request now_text job lease s) s)))"

section \<open>Execution control, events, results, cancellation\<close>

definition job_execution_control ::
  "externs \<Rightarrow> string \<Rightarrow> AuthorizedSession \<Rightarrow> string \<Rightarrow> string \<Rightarrow> int \<Rightarrow> db \<Rightarrow> JobExecutionControlResponse res" where
  "job_execution_control X request_id auth jid lid now s =
     bind_res (locked_authorized_assignment s auth jid lid) (\<lambda>(job, lease).
     let protocol_authorized = (case assert_current_compute_protocol_negotiation (provider_sessions s)
           (as_session_id auth) of Inr _ \<Rightarrow> True | Inl _ \<Rightarrow> False) in
     bind_res (if job_status job \<in> {''accepted'', ''provisioning'', ''running'', ''uploading''} then
         (if protocol_authorized \<and> execution_lease_matches_job_state (job_status job) (lease_status lease)
          then Inr (Continue, None)
          else Inr (Cancel, Some ''session_protocol_authority_lost''))
       else if job_status job = ''cancelled'' then Inr (Cancel, Some ''job_cancelled'')
       else if job_status job \<in> {''succeeded'', ''failed''} then Inr (Cancel, Some ''job_terminal'')
       else Inl (Conflict ''job execution authority is no longer active'')) (\<lambda>(directive, reason_code).
     Inr \<lparr>ctl_schema_version = JOB_EXECUTION_CONTROL_SCHEMA_VERSION, ctl_request_id = request_id,
          ctl_job_id = job_id job, ctl_lease_id = lease_id lease, ctl_directive = directive,
          ctl_reason_code = reason_code, ctl_server_time = to_rfc3339 X now\<rparr>))"

definition event_next_status :: "string \<Rightarrow> string option" where
  "event_next_status ev =
     (if ev = ''provisioning'' then Some ''provisioning''
      else if ev \<in> {''started'', ''running''} then Some ''running''
      else if ev = ''uploading'' then Some ''uploading''
      else None)"

definition apply_event_state_update :: "string \<Rightarrow> JobEventRequest \<Rightarrow> string \<Rightarrow> job_row list \<Rightarrow> job_row list" where
  "apply_event_state_update jid request now jobs =
     (case event_next_status (er_event_type request) of
        Some st \<Rightarrow>
          if st = ''running'' then
            sql_update (\<lambda>j. job_id j = jid) (\<lambda>j. j\<lparr>job_status := st,
              job_progress_percent := er_progress_percent request, job_status_message := er_message request,
              job_started_at := coalesce (job_started_at j) now, job_updated_at := now\<rparr>) jobs
          else
            sql_update (\<lambda>j. job_id j = jid) (\<lambda>j. j\<lparr>job_status := st,
              job_progress_percent := er_progress_percent request, job_status_message := er_message request,
              job_updated_at := now\<rparr>) jobs
      | None \<Rightarrow>
          sql_update (\<lambda>j. job_id j = jid) (\<lambda>j. j\<lparr>
            job_progress_percent := or_else (er_progress_percent request) (job_progress_percent j),
            job_status_message := or_else (er_message request) (job_status_message j),
            job_updated_at := now\<rparr>) jobs)"

definition executing_status :: "string \<Rightarrow> bool" where
  "executing_status st \<longleftrightarrow> st \<in> {''accepted'', ''provisioning'', ''running'', ''uploading''}"

definition event_record :: "string \<Rightarrow> job_row \<Rightarrow> JobEventRequest \<Rightarrow> json \<Rightarrow> string \<Rightarrow> JobEventRecord" where
  "event_record uuid job request metadata now =
     \<lparr>event_id = ''job_event_'' @ uuid, event_job_id = job_id job, event_provider_id = job_provider_id job,
      event_device_id = job_device_id job, event_session_id = job_session_id job,
      event_sequence = er_sequence request, event_schema_version = JOB_EVENT_SCHEMA_VERSION,
      event_event_type = er_event_type request, event_progress_percent = er_progress_percent request,
      event_message = er_message request, event_metadata = metadata,
      event_occurred_at = (case er_occurred_at request of Some t \<Rightarrow> t | None \<Rightarrow> now),
      event_server_received_at = now\<rparr>"

text \<open>The primary key and \<open>UNIQUE(job_id, sequence)\<close> of \<open>job_events\<close>.\<close>

definition insert_event :: "JobEventRecord \<Rightarrow> JobEventRecord list \<Rightarrow> JobEventRecord list res" where
  "insert_event e events =
     (if list_ex (\<lambda>r. event_id r = event_id e
          \<or> (event_job_id r = event_job_id e \<and> event_sequence r = event_sequence e)) events
      then Inl (Database ''duplicate key value violates unique constraint'')
      else Inr (events @ [e]))"

definition record_job_event ::
  "externs \<Rightarrow> string \<Rightarrow> AuthorizedSession \<Rightarrow> string \<Rightarrow> JobEventRequest \<Rightarrow> int \<Rightarrow> db \<Rightarrow>
     (db \<times> JobEventRecord \<times> JobRecord) res" where
  "record_job_event X uuid auth jid request now_instant s =
     bind_res (validate_job_event_request X request) (\<lambda>_.
     bind_res (locked_authorized_job s auth jid) (\<lambda>job.
     bind_res (ensure (\<not> is_terminal_status (job_status job))
       (Conflict ''terminal jobs cannot accept new events'')) (\<lambda>_.
     bind_res (ensure (executing_status (job_status job))
       (Conflict ''job must be accepted before provider events can be recorded'')) (\<lambda>_.
     bind_res (ensure (\<not> list_ex (\<lambda>e. event_job_id e = job_id job
         \<and> event_sequence e = er_sequence request) (job_events s))
       (Conflict ''job event sequence already exists'')) (\<lambda>_.
     bind_res (normalized_json_object (er_metadata request) ''job event metadata'') (\<lambda>metadata.
     let now = to_rfc3339 X now_instant; e = event_record uuid job request metadata now in
     bind_res (insert_event e (job_events s)) (\<lambda>events.
     let s1 = s\<lparr>job_events := events,
                compute_jobs := apply_event_state_update (job_id job) request now (compute_jobs s),
                job_leases := mark_lease_progress_for_job (job_id job) (er_event_type request) now (job_leases s)\<rparr> in
     bind_res (load_job_in_transaction s1 (job_id job)) (\<lambda>updated.
     Inr (s1, e, job_from_row updated)))))))))"

definition release_customer_placement :: "string \<Rightarrow> string \<Rightarrow> db \<Rightarrow> db" where
  "release_customer_placement jid now s =
     (case find (\<lambda>j. job_id j = jid) (compute_jobs s) of
        None \<Rightarrow> s
      | Some job \<Rightarrow>
          s\<lparr>customer_workloads := sql_update (\<lambda>w. jr_workload_id job = Some (wl_workload_id w)
                \<and> wl_status w = ''placed'' \<and> job_status job \<in> {''succeeded'', ''failed'', ''cancelled''})
              (\<lambda>w. w\<lparr>wl_status := job_status job, wl_updated_at := job_updated_at job\<rparr>) (customer_workloads s),
            compute_placements := sql_update (\<lambda>p. jr_placement_id job = Some (pl_placement_id p)
                \<and> pl_status p = ''selected'') (\<lambda>p. p\<lparr>pl_status := ''released''\<rparr>) (compute_placements s),
            marketplace_reservations := sql_update (\<lambda>r. jr_reservation_id job = Some (rv_reservation_id r)
                \<and> rv_status r = ''consumed'') (\<lambda>r. r\<lparr>rv_status := ''released'', rv_updated_at := now\<rparr>)
              (marketplace_reservations s)\<rparr>)"

definition finish_result :: "SubmitJobResultRequest \<Rightarrow> json \<Rightarrow> string \<Rightarrow> job_row \<Rightarrow> job_row" where
  "finish_result request metrics now j =
     j\<lparr>job_status := rr_status request, job_result_artifacts := rr_result_artifacts request,
       jr_result_metrics := metrics, job_error_code := rr_error_code request,
       job_error_message := rr_error_message request, job_completed_at := Some now, job_updated_at := now,
       jr_job_credential_hash := None, jr_job_credential_expires_at := None\<rparr>"

definition finish_cancelled :: "CancelJobRequest \<Rightarrow> string \<Rightarrow> job_row \<Rightarrow> job_row" where
  "finish_cancelled request now j =
     j\<lparr>job_status := ''cancelled'', job_cancellation_reason := xr_reason request,
       job_completed_at := Some now, job_updated_at := now,
       jr_job_credential_hash := None, jr_job_credential_expires_at := None\<rparr>"

text \<open>
  The common end of \<open>submit_job_result\<close> and \<open>cancel_job\<close>: the \<open>UPDATE\<close> of the job, the release of what
  the customer had placed, the end of its leases, its usage entry and the audit event.
\<close>

definition finish_job ::
  "externs \<Rightarrow> usage_hashes \<Rightarrow> string \<Rightarrow> string \<Rightarrow> string \<Rightarrow> string \<Rightarrow> (job_row \<Rightarrow> job_row) \<Rightarrow> string \<Rightarrow>
     string option \<Rightarrow> (db \<Rightarrow> db) \<Rightarrow> db \<Rightarrow> (db \<times> JobRecord) res" where
  "finish_job X U uuid request_id jid now finish status failure audit s =
     (let s1 = release_customer_placement jid now
            (s\<lparr>compute_jobs := sql_update (\<lambda>j. job_id j = jid) finish (compute_jobs s)\<rparr>) in
      bind_res (load_job_in_transaction s1 jid) (\<lambda>updated.
      let s2 = s1\<lparr>job_leases := mark_lease_terminal_for_job jid status failure now (job_leases s1)\<rparr> in
      bind_res (append_usage_ledger_for_job X U uuid request_id jid now s2) (\<lambda>(s3, _, _).
      Inr (audit s3, job_from_row updated))))"

definition submit_job_result ::
  "externs \<Rightarrow> usage_hashes \<Rightarrow> string \<Rightarrow> string \<Rightarrow> AuthorizedSession \<Rightarrow> string \<Rightarrow> SubmitJobResultRequest \<Rightarrow> int \<Rightarrow>
     db \<Rightarrow> (db \<times> JobRecord) res" where
  "submit_job_result X U uuid request_id auth jid request now s =
     bind_res (validate_job_result_request X request) (\<lambda>_.
     bind_res (locked_authorized_job s auth jid) (\<lambda>job.
     bind_res (ensure (\<not> is_terminal_status (job_status job))
       (Conflict ''terminal job result cannot be changed'')) (\<lambda>_.
     bind_res (ensure (executing_status (job_status job))
       (Conflict ''job must be accepted before a result can be submitted'')) (\<lambda>_.
     bind_res (validate_uploaded_job_results s (job_id job) (job_expected_outputs job)
       (rr_status request) (rr_result_artifacts request)) (\<lambda>_.
     bind_res (normalized_json_object (rr_metrics request) ''job result metrics'') (\<lambda>metrics.
     let now_text = to_rfc3339 X now in
     finish_job X U uuid request_id (job_id job) now_text (finish_result request metrics now_text)
       (rr_status request) (rr_error_message request)
       (insert_audit_event request_id ''device'' (Some (as_device_id auth)) ''compute_job'' (job_id job)
         (if rr_status request = ''succeeded'' then ''job.succeeded'' else ''job.failed'')) s))))))"

definition cancel_job ::
  "externs \<Rightarrow> usage_hashes \<Rightarrow> string \<Rightarrow> string \<Rightarrow> string \<Rightarrow> CancelJobRequest \<Rightarrow> int \<Rightarrow> db \<Rightarrow> (db \<times> JobRecord) res" where
  "cancel_job X U uuid request_id jid request now s =
     bind_res (validate_id ''job_id'' jid 128) (\<lambda>_.
     bind_res (validate_job_message (xr_reason request)) (\<lambda>_.
     bind_res (locked_job s jid) (\<lambda>job.
     bind_res (ensure (\<not> is_terminal_status (job_status job))
       (Conflict ''terminal jobs cannot be cancelled'')) (\<lambda>_.
     let now_text = to_rfc3339 X now in
     finish_job X U uuid request_id (job_id job) now_text (finish_cancelled request now_text) ''cancelled''
       (or_else (xr_reason request) (Some ''job_cancelled''))
       (insert_audit_event request_id ''admin'' None ''compute_job'' (job_id job) ''job.cancelled'') s))))"

end
