(* ===== verification/Job_Invariant.thy ===== *)
theory Job_Invariant
  imports Job_Control
begin

text \<open>
  Every handler of job control keeps the agreement of jobs and leases. Each pair of statements on a job
  and its leases is an interpretation of \<open>job_lease_update\<close>; what is left for a handler is that the job
  it changed still agrees with its own leases.
\<close>

section \<open>The statement pairs\<close>

lemma sql_update_cong: "(\<And>r. r \<in> set t \<Longrightarrow> P r = Q r) \<Longrightarrow> sql_update P f t = sql_update Q f t"
  by (auto simp: sql_update_def)

lemma sql_update_selected: "r \<in> set t \<Longrightarrow> P r \<Longrightarrow> f r \<in> set (sql_update P f t)"
  by (auto simp: sql_update_def)

lemma sql_update_False: "sql_update (\<lambda>_. False) f t = t"
  by (simp add: sql_update_def)

text \<open>Introduction and elimination rules of the agreement of one job.\<close>

lemma bound_lease_status_simps [simp]:
  "bound_lease_status ''queued'' = None" "bound_lease_status ''assigned'' = Some ''offered''"
  "bound_lease_status ''accepted'' = Some ''accepted''"
  "bound_lease_status ''provisioning'' = Some ''provisioning''"
  "bound_lease_status ''running'' = Some ''active''" "bound_lease_status ''uploading'' = Some ''active''"
  by (simp_all add: bound_lease_status_def)

lemma lease_active_simps:
  "lease_status l = ''offered'' \<Longrightarrow> lease_active l" "lease_status l = ''expired'' \<Longrightarrow> \<not> lease_active l"
  "lease_status l = ''completed'' \<Longrightarrow> \<not> lease_active l" "lease_status l = ''failed'' \<Longrightarrow> \<not> lease_active l"
  by (simp_all add: lease_state_defs)

lemma lease_active_iff:
  "lease_active l \<longleftrightarrow> lease_status l \<in> {''offered'', ''accepted'', ''provisioning'', ''active''}"
  by (simp add: lease_state_defs)

lemma job_ok_queuedI:
  assumes "job_status j = ''queued''" "jr_assignment_lease_id j = None" "jr_job_credential_hash j = None"
    "jr_job_credential_expires_at j = None"
    "\<And>l. l \<in> set ls \<Longrightarrow> lease_active l \<Longrightarrow> lease_job_id l = job_id j \<Longrightarrow> lease_status l = ''offered''"
  shows "job_ok ls j"
  using assms by (simp add: job_ok_def)

lemma job_ok_queuedD:
  assumes "job_ok ls j" "job_status j = ''queued''" "l \<in> set ls" "lease_active l" "lease_job_id l = job_id j"
  shows "lease_status l = ''offered''"
  using assms by (simp add: job_ok_def)

lemma requeued_ok:
  assumes "\<And>l. l \<in> set ls \<Longrightarrow> lease_active l \<Longrightarrow> lease_job_id l = job_id j \<Longrightarrow> lease_status l = ''offered''"
  shows "job_ok ls (requeued now j)"
  by (rule job_ok_queuedI) (use assms in \<open>simp_all add: requeued_def\<close>)

lemma job_ok_boundI:
  assumes "bound_lease_status (job_status j) = Some (lease_status l)" "l \<in> set ls"
    "jr_assignment_lease_id j = Some (lease_id l)" "lease_job_id l = job_id j" "jr_job_credential_hash j \<noteq> None"
  shows "job_ok ls j"
  using assms unfolding job_ok_def by auto

lemma job_ok_boundE:
  assumes "job_ok ls j" "bound_lease_status (job_status j) = Some st"
  obtains l where "l \<in> set ls" "jr_assignment_lease_id j = Some (lease_id l)" "lease_job_id l = job_id j"
    "lease_status l = st" "jr_job_credential_hash j \<noteq> None"
  using assms by (auto simp: job_ok_def)

lemma job_ok_terminalI:
  assumes "is_terminal_status (job_status j)" "jr_job_credential_hash j = None"
    "jr_job_credential_expires_at j = None"
    "\<And>l. l \<in> set ls \<Longrightarrow> lease_job_id l = job_id j \<Longrightarrow> \<not> lease_active l"
  shows "job_ok ls j"
proof -
  have "bound_lease_status (job_status j) = None" "job_status j \<noteq> ''queued''"
    using assms(1) by (auto simp: is_terminal_status_def bound_lease_status_def)
  then show ?thesis using assms by (simp add: job_ok_def)
qed

interpretation withholding: job_lease_update
    "\<lambda>l. lease_id l = lid \<and> lease_job_id l = jid \<and> lease_status l \<in> {''offered'', ''accepted'', ''provisioning'', ''active''}"
    "withheld codes failure now" jid "\<lambda>j. job_id j = jid \<and> jsel j" "requeued now"
  for lid codes failure now jid jsel
  by unfold_locales (auto simp: withheld_def requeued_def lease_state_defs lease_for_def)

interpretation refusing: job_lease_update
    "\<lambda>l. lease_id l = lid \<and> lease_job_id l = jid \<and> lease_status l \<in> {''offered'', ''accepted'', ''provisioning'', ''active''}"
    "withheld codes failure now" jid "\<lambda>j. job_id j = jid \<and> jsel j" "\<lambda>j. (requeued now j)\<lparr>job_accepted_at := None\<rparr>"
  for lid codes failure now jid jsel
  by unfold_locales (auto simp: withheld_def requeued_def lease_state_defs lease_for_def)

interpretation assigning: job_lease_update "\<lambda>_. False" "\<lambda>l. l" jid "assignable jid" "assigned_row now lid h e"
  for jid now lid h e
  by unfold_locales (auto simp: lease_state_defs lease_for_def assignable_def assigned_row_def)

interpretation accepting: job_lease_update
    "\<lambda>l. lease_id l = lid \<and> lease_job_id l = jid \<and> lease_status l = ''offered'' \<and> sql_less X now (lease_expires_at l)"
    "\<lambda>l. l\<lparr>lease_status := ''accepted'', lease_accepted_at := coalesce (lease_accepted_at l) now,
       lease_updated_at := now\<rparr>" jid
    "\<lambda>j. job_id j = jid \<and> job_status j = ''assigned''"
    "\<lambda>j. j\<lparr>job_status := ''accepted'', job_accepted_at := Some now, job_status_message := m, job_updated_at := now\<rparr>"
  for lid jid X now m
  by unfold_locales (auto simp: lease_state_defs lease_for_def)

interpretation submitting: job_lease_update
    "\<lambda>l. lease_job_id l = jid \<and> lease_status l \<in> {''offered'', ''accepted'', ''provisioning'', ''active''}"
    "\<lambda>l. l\<lparr>lease_status := (if status = ''succeeded'' then ''completed'' else ''failed''),
       lease_completed_at := Some now, lease_failure_reason := fr, lease_updated_at := now\<rparr>" jid
    "\<lambda>j. job_id j = jid" "finish_result request metrics now"
  for jid status now fr request metrics
  by unfold_locales (auto simp: lease_state_defs lease_for_def finish_result_def)

interpretation cancelling: job_lease_update
    "\<lambda>l. lease_job_id l = jid \<and> lease_status l \<in> {''offered'', ''accepted'', ''provisioning'', ''active''}"
    "\<lambda>l. l\<lparr>lease_status := (if status = ''succeeded'' then ''completed'' else ''failed''),
       lease_completed_at := Some now, lease_failure_reason := fr, lease_updated_at := now\<rparr>" jid
    "\<lambda>j. job_id j = jid" "finish_cancelled request now"
  for jid status now fr request
  by unfold_locales (auto simp: lease_state_defs lease_for_def finish_cancelled_def)

text \<open>The columns an event changes, whatever its type.\<close>

definition event_update :: "JobEventRequest \<Rightarrow> string \<Rightarrow> job_row \<Rightarrow> job_row" where
  "event_update request now j =
     (case event_next_status (er_event_type request) of
        Some st \<Rightarrow> j\<lparr>job_status := st, job_progress_percent := er_progress_percent request,
            job_status_message := er_message request,
            job_started_at := (if st = ''running'' then coalesce (job_started_at j) now else job_started_at j),
            job_updated_at := now\<rparr>
      | None \<Rightarrow> j\<lparr>job_progress_percent := or_else (er_progress_percent request) (job_progress_percent j),
            job_status_message := or_else (er_message request) (job_status_message j), job_updated_at := now\<rparr>)"

lemma apply_event_state_update_eq:
  "apply_event_state_update jid request now jobs = sql_update (\<lambda>j. job_id j = jid) (event_update request now) jobs"
  by (auto simp: apply_event_state_update_def event_update_def sql_update_def split: option.split)

lemma event_update_frame [simp]:
  "job_id (event_update request now j) = job_id j"
  "jr_assignment_lease_id (event_update request now j) = jr_assignment_lease_id j"
  "jr_job_credential_hash (event_update request now j) = jr_job_credential_hash j"
  "jr_job_credential_expires_at (event_update request now j) = jr_job_credential_expires_at j"
  "lease_for l (event_update request now j) = lease_for l j"
  "job_status (event_update request now j) = (case event_next_status (er_event_type request) of
     Some st \<Rightarrow> st | None \<Rightarrow> job_status j)"
  by (auto simp: event_update_def lease_for_def split: option.split)

interpretation provisioning_event: job_lease_update
    "\<lambda>l. lease_job_id l = jid \<and> lease_status l \<in> {''accepted'', ''provisioning'', ''active''}"
    "\<lambda>l. l\<lparr>lease_status := ''provisioning'', lease_provisioning_at := coalesce (lease_provisioning_at l) now,
       lease_updated_at := now\<rparr>" jid
    "\<lambda>j. job_id j = jid" "event_update request now"
  for jid now request
  by unfold_locales (auto simp: lease_state_defs)

interpretation running_event: job_lease_update
    "\<lambda>l. lease_job_id l = jid \<and> lease_status l \<in> {''accepted'', ''provisioning'', ''active''}"
    "\<lambda>l. l\<lparr>lease_status := ''active'', lease_active_at := coalesce (lease_active_at l) now,
       lease_updated_at := now\<rparr>" jid
    "\<lambda>j. job_id j = jid" "event_update request now"
  for jid now request
  by unfold_locales (auto simp: lease_state_defs)

interpretation other_event: job_lease_update "\<lambda>_. False" "\<lambda>l. l" jid "\<lambda>j. job_id j = jid" "event_update request now"
  for jid now request
  by unfold_locales (auto simp: lease_state_defs)

section \<open>Handlers keep the agreement\<close>

lemma sql_count_one: "sql_count P t = Suc 0 \<Longrightarrow> \<exists>r \<in> set t. P r"
  by (cases "filter P t") (auto simp: sql_count_def filter_eq_Cons_iff)

lemma authority_leaseD:
  assumes "lease_authority s" "l \<in> set (job_leases s)" "m \<in> set (job_leases s)" "lease_id l = lease_id m"
  shows "l = m"
  using assms distinct_map_same[of lease_id "job_leases s" l m]
  by (simp add: lease_authority_def leases_exclusive_def)

lemma authority_jobD:
  assumes "lease_authority s" "j \<in> set (compute_jobs s)" "k \<in> set (compute_jobs s)" "job_id j = job_id k"
  shows "j = k"
  using assms distinct_map_same[of job_id "compute_jobs s" j k] by (simp add: lease_authority_def)

lemma authority_job_prop:
  "lease_authority s \<Longrightarrow> \<exists>k \<in> set (compute_jobs s). job_id k = jid \<and> P k \<Longrightarrow> j \<in> set (compute_jobs s) \<Longrightarrow>
     job_id j = jid \<Longrightarrow> P j"
  using authority_jobD by blast

lemma authority_lease_prop:
  "lease_authority s \<Longrightarrow> \<exists>m \<in> set (job_leases s). lease_id m = lid \<and> P m \<Longrightarrow> l \<in> set (job_leases s) \<Longrightarrow>
     lease_id l = lid \<Longrightarrow> P l"
  using authority_leaseD by blast

lemma authority_lease_job:
  "lease_authority s \<Longrightarrow> l \<in> set (job_leases s) \<Longrightarrow> lease_id l = lid \<Longrightarrow> lease_job_id l = jid \<Longrightarrow>
     m \<in> set (job_leases s) \<Longrightarrow> lease_id m = lid \<Longrightarrow> lease_job_id m = jid"
  using authority_leaseD by blast

lemma authority_audit [simp]:
  "lease_authority (insert_audit_event r a i et ei ev s) = lease_authority s"
  by (simp add: lease_authority_def)

lemma withhold_assignment_Inr:
  assumes "withhold_assignment rid auth lid jid failure codes now s = Inr s'"
  shows "\<exists>m \<in> set (job_leases s). lease_id m = lid \<and> lease_status m = ''offered''"
    "\<exists>j \<in> set (compute_jobs s). job_id j = jid \<and> (job_status j = ''queued'' \<and> jr_assignment_lease_id j = None)"
    "job_leases s' = sql_update (\<lambda>l. lease_id l = lid \<and> lease_status l = ''offered'')
       (withheld codes failure now) (job_leases s)"
    "compute_jobs s' = sql_update (\<lambda>j. job_id j = jid \<and> (job_status j = ''queued'' \<and> jr_assignment_lease_id j = None))
       (requeued now) (compute_jobs s)"
  using assms unfolding withhold_assignment_def Let_def
  by (auto split: if_splits dest!: sql_count_one)

lemma withhold_assignment_authority:
  assumes inv: "lease_authority s" and w: "withhold_assignment rid auth lid jid failure codes now s = Inr s'"
    and l: "l \<in> set (job_leases s)" "lease_id l = lid" "lease_job_id l = jid"
  shows "lease_authority s'"
proof -
  let ?lsel = "\<lambda>l. lease_id l = lid \<and> lease_job_id l = jid
      \<and> lease_status l \<in> {''offered'', ''accepted'', ''provisioning'', ''active''}"
  let ?jsel = "\<lambda>j. job_id j = jid \<and> (job_status j = ''queued'' \<and> jr_assignment_lease_id j = None)"
  note w = withhold_assignment_Inr[OF w]
  have lstat: "lease_status l = ''offered''" by (rule authority_lease_prop[OF inv w(1) l(1,2)])
  have leases: "job_leases s' = sql_update ?lsel (withheld codes failure now) (job_leases s)"
    unfolding w(3)
  proof (rule sql_update_cong)
    fix m assume m: "m \<in> set (job_leases s)"
    show "(lease_id m = lid \<and> lease_status m = ''offered'') = ?lsel m"
    proof (cases "m = l")
      case False
      then have "lease_id m \<noteq> lid" using authority_leaseD[OF inv m l(1)] l(2) by metis
      then show ?thesis by simp
    qed (simp add: l(2,3) lstat)
  qed
  have "lease_authority (s\<lparr>compute_jobs := sql_update ?jsel (requeued now) (compute_jobs s),
      job_leases := sql_update ?lsel (withheld codes failure now) (job_leases s)\<rparr>)"
  proof (rule withholding.authority_update[OF inv])
    fix j assume j: "j \<in> set (compute_jobs s)" "job_id j = jid"
    have q: "job_status j = ''queued'' \<and> jr_assignment_lease_id j = None"
      by (rule authority_job_prop[OF inv w(2) j])
    have ok: "job_ok (job_leases s) j" using inv j(1) by (simp add: lease_authority_def)
    have offered: "lease_status m = ''offered''"
      if "m \<in> set (sql_update ?lsel (withheld codes failure now) (job_leases s))" "lease_active m"
        "lease_job_id m = job_id j" for m
      using that(1)
    proof (rule in_sql_updateE)
      fix m0 assume "m = withheld codes failure now m0"
      then have "lease_status m = ''expired''" by (simp add: withheld_def)
      then show ?thesis using lease_active_simps(2) that(2) by blast
    next
      assume "m \<in> set (job_leases s)"
      then show ?thesis using job_ok_queuedD[OF ok _ _ that(2,3)] q by blast
    qed
    have "job_ok (sql_update ?lsel (withheld codes failure now) (job_leases s)) (requeued now j)"
      by (rule requeued_ok) (rule offered)
    then show "job_ok (sql_update ?lsel (withheld codes failure now) (job_leases s))
        (if ?jsel j then requeued now j else j)"
      unfolding if_P[OF conjI[OF j(2) q]] .
  qed
  then show ?thesis using w(4) leases by (simp add: lease_authority_def)
qed

lemma withhold_acceptance_Inr:
  assumes "withhold_acceptance rid auth job lease failure codes now s = Inr s'"
    "lease_status lease = ''offered''"
  shows "job_leases s' = sql_update (\<lambda>l. lease_id l = lease_id lease
       \<and> lease_status l \<in> {''offered'', ''accepted'', ''provisioning'', ''active''})
       (withheld codes failure now) (job_leases s)"
    "compute_jobs s' = sql_update (\<lambda>j. job_id j = job_id job \<and> (job_status j = ''assigned''
         \<and> jr_assignment_lease_id j = Some (lease_id lease)))
       (\<lambda>j. (requeued now j)\<lparr>job_accepted_at := None\<rparr>) (compute_jobs s)"
  using assms unfolding withhold_acceptance_def Let_def by (auto split: if_splits)

text \<open>The lease a job of a given status is bound to.\<close>

lemma bound_lease:
  assumes inv: "lease_authority s" and job: "job \<in> set (compute_jobs s)"
    "jr_assignment_lease_id job = Some (lease_id lease)" "lease \<in> set (job_leases s)"
    "bound_lease_status (job_status job) = Some st"
  shows "lease_status lease = st" "lease_job_id lease = job_id job" "jr_job_credential_hash job \<noteq> None"
proof -
  have "job_ok (job_leases s) job" using inv job(1) by (simp add: lease_authority_def)
  then have "\<exists>m \<in> set (job_leases s). lease_id m = lease_id lease \<and> (lease_status m = st \<and> lease_job_id m = job_id job)"
    "jr_job_credential_hash job \<noteq> None"
    using job(2,4) by (auto elim!: job_ok_boundE)
  then show "lease_status lease = st" "lease_job_id lease = job_id job" "jr_job_credential_hash job \<noteq> None"
    using authority_lease_prop[OF inv _ job(3) refl, of "\<lambda>m. lease_status m = st \<and> lease_job_id m = job_id job"]
    by simp_all
qed

lemma withhold_acceptance_authority:
  assumes inv: "lease_authority s" and w: "withhold_acceptance rid auth job lease failure codes now s = Inr s'"
    and job: "job \<in> set (compute_jobs s)" "job_status job = ''assigned''"
      "jr_assignment_lease_id job = Some (lease_id lease)" "lease \<in> set (job_leases s)"
  shows "lease_authority s'"
proof -
  let ?lsel = "\<lambda>l. lease_id l = lease_id lease \<and> lease_job_id l = job_id job
      \<and> lease_status l \<in> {''offered'', ''accepted'', ''provisioning'', ''active''}"
  let ?jsel = "\<lambda>j. job_id j = job_id job \<and> (job_status j = ''assigned'' \<and> jr_assignment_lease_id j = Some (lease_id lease))"
  have lease: "lease_status lease = ''offered''" "lease_job_id lease = job_id job"
    using bound_lease[OF inv job(1,3,4)] job(2) by simp_all
  have act: "lease_active lease" by (rule lease_active_simps(1)[OF lease(1)])
  have leases: "job_leases s' = sql_update ?lsel (withheld codes failure now) (job_leases s)"
    unfolding withhold_acceptance_Inr(1)[OF w lease(1)]
  proof (rule sql_update_cong)
    fix m assume m: "m \<in> set (job_leases s)"
    show "(lease_id m = lease_id lease \<and> lease_status m \<in> {''offered'', ''accepted'', ''provisioning'', ''active''})
        = ?lsel m"
      using authority_lease_job[OF inv job(4) refl lease(2) m] by blast
  qed
  have "lease_authority (s\<lparr>compute_jobs := sql_update ?jsel
        (\<lambda>j. (requeued now j)\<lparr>job_accepted_at := None\<rparr>) (compute_jobs s),
      job_leases := sql_update ?lsel (withheld codes failure now) (job_leases s)\<rparr>)"
  proof (rule refusing.authority_update[OF inv])
    fix j assume "j \<in> set (compute_jobs s)" "job_id j = job_id job"
    then have j: "j = job" using authority_jobD[OF inv _ job(1)] by blast
    have "\<not> lease_active l"
      if l: "l \<in> set (sql_update ?lsel (withheld codes failure now) (job_leases s))" "lease_job_id l = job_id job" for l
      using l(1)
    proof (rule in_sql_updateE)
      assume "l \<in> set (job_leases s)" "\<not> ?lsel l"
      moreover have "l = lease" if "lease_active l"
        using active_lease_unique[OF _ \<open>l \<in> set (job_leases s)\<close> job(4) that act] inv l(2) lease(2)
        by (simp add: lease_authority_def)
      ultimately show ?thesis using lease(2) unfolding lease_active_iff by blast
    qed (simp add: withheld_def lease_active_simps)
    then show "job_ok (sql_update ?lsel (withheld codes failure now) (job_leases s))
        (if ?jsel j then (requeued now j)\<lparr>job_accepted_at := None\<rparr> else j)"
      using job(2,3) unfolding j by (auto intro!: job_ok_queuedI)
  qed
  then show ?thesis using withhold_acceptance_Inr(2)[OF w lease(1)] leases by (simp add: lease_authority_def)
qed

lemma assign_jobE:
  assumes "assign_job X rid auth token now lid queued s = Inr (s', r)"
  obtains credential row lease spec where "token = Inr credential"
    "\<exists>j \<in> set (compute_jobs s). assignable (job_id queued) j"
    "s' = insert_audit_event rid ''device'' (Some (as_device_id auth)) ''compute_job'' (job_id row) ''job.assigned''
       (assign_db X now lid credential queued s)"
    "row \<in> set (compute_jobs s')" "job_id row = job_id queued"
    "lease \<in> set (job_leases s)" "lease_id lease = lid"
    "provider_job_execution_spec (job_from_row row) lease
       (data_plane_grant (job_from_row row) credential (credential_expiry X now queued)) = Inr spec"
    "r = \<lparr>next_request_id = rid, next_job = Some (job_from_row row),
       next_data_plane = Some (data_plane_grant (job_from_row row) credential (credential_expiry X now queued)),
       next_lease = Some lease, next_execution = Some spec\<rparr>"
proof -
  from assms obtain credential u row lease spec where a: "token = Inr credential"
    "ensure (sql_count (assignable (job_id queued)) (compute_jobs s) = 1)
       (Conflict ''leased job is no longer queued'') = Inr u"
    "load_job_in_transaction (assign_db X now lid credential queued s) (job_id queued) = Inr row"
    "load_job_lease_in_transaction (assign_db X now lid credential queued s) lid = Inr lease"
    "provider_job_execution_spec (job_from_row row) lease
       (data_plane_grant (job_from_row row) credential (credential_expiry X now queued)) = Inr spec"
    and r: "Inr (insert_audit_event rid ''device'' (Some (as_device_id auth)) ''compute_job''
         (job_id (job_from_row row)) ''job.assigned'' (assign_db X now lid credential queued s),
       \<lparr>next_request_id = rid, next_job = Some (job_from_row row),
        next_data_plane = Some (data_plane_grant (job_from_row row) credential (credential_expiry X now queued)),
        next_lease = Some lease, next_execution = Some spec\<rparr>) = (Inr (s', r) :: (db \<times> NextJobResponse) res)"
    unfolding assign_job_def Let_def by (elim bind_resE) (rule that)
  have "\<exists>j \<in> set (compute_jobs s). assignable (job_id queued) j"
    using a(2) sql_count_one[of "assignable (job_id queued)"] by simp
  moreover have "row \<in> set (compute_jobs (assign_db X now lid credential queued s))" "job_id row = job_id queued"
    "lease \<in> set (job_leases s)" "lease_id lease = lid"
    using a(3,4) by (auto simp: load_job_in_transaction_def load_job_lease_in_transaction_def assign_db_def
        dest: find_SomeD)
  moreover have "s' = insert_audit_event rid ''device'' (Some (as_device_id auth)) ''compute_job'' (job_id row)
       ''job.assigned'' (assign_db X now lid credential queued s)"
    "r = \<lparr>next_request_id = rid, next_job = Some (job_from_row row),
       next_data_plane = Some (data_plane_grant (job_from_row row) credential (credential_expiry X now queued)),
       next_lease = Some lease, next_execution = Some spec\<rparr>"
    using r by auto
  ultimately show ?thesis using a(1,5) by (intro that) simp_all
qed

lemma assign_job_authority:
  assumes inv: "lease_authority s" and a: "assign_job X rid auth token now lid queued s = Inr (s', r)"
    and l: "l \<in> set (job_leases s)" "lease_id l = lid" "lease_job_id l = job_id queued" "lease_status l = ''offered''"
  shows "lease_authority s'"
  using a
proof (rule assign_jobE)
  fix credential row
  let ?upd = "assigned_row (to_rfc3339 X now) lid (sha256_hex X credential) (credential_expiry X now queued)"
  assume ex: "\<exists>j \<in> set (compute_jobs s). assignable (job_id queued) j"
    and s': "s' = insert_audit_event rid ''device'' (Some (as_device_id auth)) ''compute_job'' (job_id row)
      ''job.assigned'' (assign_db X now lid credential queued s)"
  have "lease_authority (s\<lparr>compute_jobs := sql_update (assignable (job_id queued)) ?upd (compute_jobs s),
      job_leases := sql_update (\<lambda>_. False) (\<lambda>l. l) (job_leases s)\<rparr>)"
  proof (rule assigning.authority_update[OF inv])
    fix j assume j: "j \<in> set (compute_jobs s)" "job_id j = job_id queued"
    have "\<exists>k \<in> set (compute_jobs s). job_id k = job_id queued \<and> assignable (job_id queued) k"
      using ex by (auto simp: assignable_def)
    then have "assignable (job_id queued) j" by (rule authority_job_prop[OF inv _ j])
    then show "job_ok (sql_update (\<lambda>_. False) (\<lambda>l. l) (job_leases s))
        (if assignable (job_id queued) j then ?upd j else j)"
      using j l by (auto intro!: job_ok_boundI[of _ l] simp: assigned_row_def)
  qed
  then show ?thesis using s' by (simp add: lease_authority_def assign_db_def)
qed

lemma withhold_assignment_leases:
  assumes "withhold_assignment rid auth lid jid failure codes now s = Inr s'"
    "m \<in> set (job_leases s)" "lease_id m \<noteq> lid"
  shows "m \<in> set (job_leases s')"
  using assms(2,3) unfolding withhold_assignment_Inr(3)[OF assms(1)] by (simp add: set_sql_update)

lemma next_job_loop_authority:
  assumes "lease_authority s" "next_job_loop X H rid auth policy token now ls s = Inr (s', r)"
    "set ls \<subseteq> set (job_leases s)" "\<forall>l \<in> set ls. lease_status l = ''offered''" "distinct (map lease_id ls)"
  shows "lease_authority s'"
  using assms
proof (induction ls arbitrary: s)
  case (Cons l ls)
  obtain queued where q: "locked_job s (lease_job_id l) = Inr queued" using Cons.prems(2)
    by (auto elim: bind_resE)
  then have jid: "lease_job_id l = job_id queued" by (auto simp: locked_job_def dest: find_SomeD)
  have l: "l \<in> set (job_leases s)" "lease_status l = ''offered''" using Cons.prems(3,4) by simp_all
  consider
    (withheld) s1 failure codes where
      "withhold_assignment rid auth (lease_id l) (job_id queued) failure codes (to_rfc3339 X now) s = Inr s1"
      "next_job_loop X H rid auth policy token now ls s1 = Inr (s', r)"
  | (assigned) "assign_job X rid auth token now (lease_id l) queued s = Inr (s', r)"
    using Cons.prems(2) q by (auto elim!: bind_resE split: if_splits)
  then show ?case
  proof cases
    case withheld
    have "lease_authority s1"
      using withhold_assignment_authority[OF Cons.prems(1) withheld(1) l(1) refl jid] .
    moreover have "set ls \<subseteq> set (job_leases s1)"
      using withhold_assignment_leases[OF withheld(1)] Cons.prems(3,5) by (auto simp: image_iff subset_iff)
    ultimately show ?thesis using Cons.IH[OF _ withheld(2)] Cons.prems(4,5) by simp
  next
    case assigned
    then show ?thesis using assign_job_authority[OF Cons.prems(1) assigned l(1) refl jid l(2)] by simp
  qed
qed simp

lemma next_job_authority:
  assumes "lease_authority s" "next_job_for_session X H locked rid auth policy token now s = Inr (s', r)"
  shows "lease_authority s'"
proof -
  let ?ls = "offered_leases_for X locked auth (to_rfc3339 X now) s"
  have loop: "next_job_loop X H rid auth policy token now ?ls s = Inr (s', r)"
    using assms(2) by (auto simp: next_job_for_session_def elim: bind_resE)
  have sub: "set ?ls \<subseteq> set (job_leases s)" "\<forall>l \<in> set ?ls. lease_status l = ''offered''"
    by (auto simp: offered_leases_for_def dest!: in_set_takeD)
  have "distinct (map lease_id (job_leases s))" using assms(1) by (simp add: lease_authority_def leases_exclusive_def)
  then have "distinct (map lease_id ?ls)" unfolding offered_leases_for_def
    by (metis (no_types, lifting) distinct_map distinct_map_filter distinct_sort distinct_take set_sort take_map)
  then show ?thesis using next_job_loop_authority[OF assms(1) loop sub] by blast
qed

text \<open>What the handlers of an assignment know once its rows are locked.\<close>

lemma locked_authorized_assignmentE:
  assumes inv: "lease_authority s" and a: "locked_authorized_assignment s auth jid lid = Inr (job, lease)"
  obtains "job \<in> set (compute_jobs s)" "job_id job = jid" "job_of_session auth job"
    "jr_assignment_lease_id job = Some (lease_id lease)" "lease \<in> set (job_leases s)" "lease_id lease = lid"
    "lease_job_id lease = jid" "lease_of_session auth lease"
proof -
  from a obtain j l where f: "find (\<lambda>j. job_id j = jid \<and> job_of_session auth j) (compute_jobs s) = Some j"
    "find (\<lambda>l. lease_id l = lid \<and> lease_job_id l = jid \<and> lease_of_session auth l) (job_leases s) = Some l"
    "jr_assignment_lease_id j = Some lid" "load_job_in_transaction s jid = Inr job"
    "load_job_lease_in_transaction s lid = Inr lease"
    unfolding locked_authorized_assignment_def
    by (auto elim!: bind_resE split: option.splits if_splits)
  have j: "j \<in> set (compute_jobs s)" "job_id j = jid" "job_of_session auth j"
    and l: "l \<in> set (job_leases s)" "lease_id l = lid" "lease_job_id l = jid" "lease_of_session auth l"
    using f(1,2) by (auto dest: find_SomeD)
  have k: "job \<in> set (compute_jobs s)" "job_id job = jid" "lease \<in> set (job_leases s)" "lease_id lease = lid"
    using f(4,5) by (auto simp: load_job_in_transaction_def load_job_lease_in_transaction_def dest: find_SomeD)
  have "job = j" by (rule authority_jobD[OF inv k(1) j(1)]) (simp add: k(2) j(2))
  moreover have "lease = l" by (rule authority_leaseD[OF inv k(3) l(1)]) (simp add: k(4) l(2))
  ultimately show ?thesis using j l f(3) by (intro that) simp_all
qed

lemma locked_authorized_jobE:
  assumes "locked_authorized_job s auth jid = Inr job"
  obtains "job \<in> set (compute_jobs s)" "job_id job = jid" "job_of_session auth job"
proof -
  have "find (\<lambda>j. job_id j = jid) (compute_jobs s) = Some job" "job_of_session auth job"
    using assms unfolding locked_authorized_job_def locked_job_def by (auto elim!: bind_resE split: if_splits)
  then show ?thesis using find_SomeD[of _ "compute_jobs s" job] by (intro that) blast+
qed

lemma accept_assigned_authority:
  assumes inv: "lease_authority s" and a: "accept_assigned X rid auth request now job lease s = Inr (s', r)"
    and job: "job \<in> set (compute_jobs s)" "job_status job = ''assigned''"
      "jr_assignment_lease_id job = Some (lease_id lease)" "lease \<in> set (job_leases s)"
  shows "lease_authority s'"
proof -
  let ?lsel = "\<lambda>l. lease_id l = lease_id lease \<and> lease_job_id l = job_id job \<and> lease_status l = ''offered''
      \<and> sql_less X now (lease_expires_at l)"
  let ?lupd = "\<lambda>l. l\<lparr>lease_status := ''accepted'', lease_accepted_at := coalesce (lease_accepted_at l) now,
      lease_updated_at := now\<rparr>"
  let ?jsel = "\<lambda>j. job_id j = job_id job \<and> job_status j = ''assigned''"
  let ?jupd = "\<lambda>j. j\<lparr>job_status := ''accepted'', job_accepted_at := Some now,
      job_status_message := ar_status_message request, job_updated_at := now\<rparr>"
  from a obtain leases u where m: "mark_lease_accepted_for_job X (lease_id lease) (job_id job) now (job_leases s) = Inr leases"
    and s': "compute_jobs s' = sql_update ?jsel ?jupd (compute_jobs s)" "job_leases s' = leases"
    unfolding accept_assigned_def Let_def by (auto elim!: bind_resE split: if_splits)
  have leases: "leases = sql_update ?lsel ?lupd (job_leases s)" and ex: "\<exists>l \<in> set (job_leases s). ?lsel l"
    using m unfolding mark_lease_accepted_for_job_def Let_def
    by (auto elim!: bind_resE split: if_splits dest!: sql_count_one)
  have sel: "?lsel lease"
    using authority_lease_prop[OF inv _ job(4) refl, of ?lsel] ex by blast
  note cred = bound_lease(3)[OF inv job(1,3,4)]
  have "lease_authority (s\<lparr>compute_jobs := sql_update ?jsel ?jupd (compute_jobs s),
      job_leases := sql_update ?lsel ?lupd (job_leases s)\<rparr>)"
  proof (rule accepting.authority_update[OF inv])
    fix j assume "j \<in> set (compute_jobs s)" "job_id j = job_id job"
    then have j: "j = job" by (rule authority_jobD[OF inv _ job(1)])
    have "?lupd lease \<in> set (sql_update ?lsel ?lupd (job_leases s))"
      by (rule sql_update_selected[OF job(4)]) (rule sel)
    then show "job_ok (sql_update ?lsel ?lupd (job_leases s)) (if ?jsel j then ?jupd j else j)"
      using cred job(2,3) sel unfolding j by (intro job_ok_boundI[of _ "?lupd lease"]) simp_all
  qed
  then show ?thesis unfolding lease_authority_def s' leases by simp
qed

lemma accept_job_checksE:
  assumes inv: "lease_authority s" and c: "accept_job_checks s auth jid request = Inr (job, lease)"
  obtains "job \<in> set (compute_jobs s)" "job_id job = jid" "job_of_session auth job" "job_status job = ''assigned''"
    "jr_assignment_lease_id job = Some (lease_id lease)" "lease \<in> set (job_leases s)"
    "lease_id lease = ar_lease_id request" "lease_of_session auth lease"
    "assert_current_compute_protocol_negotiation (provider_sessions s) (as_session_id auth) = Inr ()"
  using c unfolding accept_job_checks_def
  by (auto elim!: bind_resE locked_authorized_assignmentE[OF inv] split: if_splits)

lemma accept_job_authority:
  assumes inv: "lease_authority s"
  shows "lease_authority (fst (accept_job X H rid auth jid request policy now s))"
proof (cases "accept_job_checks s auth jid request")
  case (Inl e)
  then show ?thesis using inv by (simp add: accept_job_def Let_def)
next
  case (Inr p)
  obtain job lease where p: "p = (job, lease)" by fastforce
  note c = Inr[unfolded p]
  from inv c have job: "job \<in> set (compute_jobs s)" "job_status job = ''assigned''"
    "jr_assignment_lease_id job = Some (lease_id lease)" "lease \<in> set (job_leases s)"
    by (auto elim: accept_job_checksE)
  have w: "lease_authority (fst (withhold_and_refuse (withhold_acceptance rid auth job lease f cs t s) s))" for f cs t
    using withhold_acceptance_authority[OF inv _ job] inv
    by (auto simp: withhold_and_refuse_def split: sum.split)
  have acc: "lease_authority (fst (commit (accept_assigned X rid auth request t job lease s) s))" for t
    using accept_assigned_authority[OF inv _ job] inv by (auto simp: commit_state split: sum.split)
  show ?thesis using w acc inv unfolding accept_job_def Let_def c
    by (simp split: option.split sum.split)
qed

text \<open>Events move a job and its lease together.\<close>

lemma executing_lease:
  assumes inv: "lease_authority s" and job: "job \<in> set (compute_jobs s)" "executing_status (job_status job)"
  obtains l where "l \<in> set (job_leases s)" "jr_assignment_lease_id job = Some (lease_id l)"
    "lease_job_id l = job_id job" "bound_lease_status (job_status job) = Some (lease_status l)"
    "lease_status l \<in> {''accepted'', ''provisioning'', ''active''}" "jr_job_credential_hash job \<noteq> None"
proof -
  obtain st where st: "bound_lease_status (job_status job) = Some st" "st \<in> {''accepted'', ''provisioning'', ''active''}"
    using job(2) unfolding executing_status_def by (elim insertE emptyE) simp_all
  have "job_ok (job_leases s) job" using inv job(1) by (simp add: lease_authority_def)
  then show ?thesis
  proof (rule job_ok_boundE[OF _ st(1)])
    fix l assume l: "l \<in> set (job_leases s)" "jr_assignment_lease_id job = Some (lease_id l)" "lease_job_id l = job_id job"
      "lease_status l = st" "jr_job_credential_hash job \<noteq> None"
    show ?thesis by (rule that[OF l(1-3) _ _ l(5)]) (simp_all only: l(4) st)
  qed
qed

text \<open>The statement pair of an event, given what it makes of the status of the lease.\<close>

lemma event_job_ok:
  assumes inv: "lease_authority s" and job: "job \<in> set (compute_jobs s)" "executing_status (job_status job)"
    and j: "j \<in> set (compute_jobs s)" "job_id j = job_id job"
    and upd: "\<And>l. lease_id (upd l) = lease_id l" "\<And>l. lease_job_id (upd l) = lease_job_id l"
    and bound: "\<And>l. bound_lease_status (job_status job) = Some (lease_status l) \<Longrightarrow>
      bound_lease_status (job_status (event_update request now job)) = Some (lease_status (upd l))"
  shows "job_ok (sql_update (\<lambda>l. lease_job_id l = job_id job \<and>
      lease_status l \<in> {''accepted'', ''provisioning'', ''active''}) upd (job_leases s))
      (if job_id j = job_id job then event_update request now j else j)"
proof -
  have j': "j = job" by (rule authority_jobD[OF inv j(1) job(1) j(2)])
  obtain l where l: "l \<in> set (job_leases s)" "jr_assignment_lease_id job = Some (lease_id l)"
    "lease_job_id l = job_id job" "bound_lease_status (job_status job) = Some (lease_status l)"
    "lease_status l \<in> {''accepted'', ''provisioning'', ''active''}" "jr_job_credential_hash job \<noteq> None"
    by (rule executing_lease[OF inv job])
  have mem: "upd l \<in> set (sql_update (\<lambda>l. lease_job_id l = job_id job \<and>
      lease_status l \<in> {''accepted'', ''provisioning'', ''active''}) upd (job_leases s))"
    by (rule sql_update_selected[OF l(1)]) (rule conjI[OF l(3,5)])
  show ?thesis unfolding j' if_P[OF refl]
    by (rule job_ok_boundI[OF bound[OF l(4)] mem]) (simp_all add: upd l(2,3,6))
qed

lemma event_statements_authority:
  assumes inv: "lease_authority s" and job: "job \<in> set (compute_jobs s)" "executing_status (job_status job)"
  shows "lease_authority (s\<lparr>compute_jobs := apply_event_state_update (job_id job) request now (compute_jobs s),
    job_leases := mark_lease_progress_for_job (job_id job) (er_event_type request) now (job_leases s)\<rparr>)"
proof -
  let ?ev = "er_event_type request"
  note ok = event_job_ok[OF inv job, where request = request and now = now]
  consider "?ev = ''provisioning''" | "?ev = ''started'' \<or> ?ev = ''running'' \<or> ?ev = ''uploading''"
    | "?ev \<noteq> ''provisioning''" "?ev \<noteq> ''started''" "?ev \<noteq> ''running''" "?ev \<noteq> ''uploading''" by blast
  then show ?thesis
  proof cases
    case 1
    show ?thesis unfolding apply_event_state_update_eq mark_lease_progress_for_job_def Let_def if_P[OF 1]
      by (rule provisioning_event.authority_update[OF inv], rule ok) (simp_all add: 1 event_next_status_def)
  next
    case 2
    then have ev: "?ev \<noteq> ''provisioning''" "?ev \<in> {''started'', ''running'', ''uploading''}" by auto
    show ?thesis
      unfolding apply_event_state_update_eq mark_lease_progress_for_job_def Let_def if_not_P[OF ev(1)] if_P[OF ev(2)]
      by (rule running_event.authority_update[OF inv], rule ok) (use 2 in \<open>auto simp: event_next_status_def\<close>)
  next
    case 3
    then have ev: "?ev \<notin> {''started'', ''running'', ''uploading''}" and n: "event_next_status ?ev = None"
      by (simp_all add: event_next_status_def)
    have "lease_authority (s\<lparr>compute_jobs := sql_update (\<lambda>j. job_id j = job_id job) (event_update request now) (compute_jobs s),
        job_leases := sql_update (\<lambda>_. False) (\<lambda>l. l) (job_leases s)\<rparr>)"
      by (rule other_event.authority_update[OF inv]) (use ok[where upd = "\<lambda>l. l"] n in \<open>simp_all\<close>)
    then show ?thesis unfolding apply_event_state_update_eq mark_lease_progress_for_job_def Let_def
        if_not_P[OF 3(1)] if_not_P[OF ev] by simp
  qed
qed

lemma record_job_eventE:
  assumes "record_job_event X uuid auth jid request now s = Inr (s', e, r)"
  obtains job metadata events where "job \<in> set (compute_jobs s)" "job_id job = jid" "job_of_session auth job"
    "executing_status (job_status job)" "validate_job_event_request X request = Inr ()"
    "e = event_record uuid job request metadata (to_rfc3339 X now)"
    "insert_event e (job_events s) = Inr events"
    "s' = s\<lparr>job_events := events, compute_jobs := apply_event_state_update jid request (to_rfc3339 X now) (compute_jobs s),
       job_leases := mark_lease_progress_for_job jid (er_event_type request) (to_rfc3339 X now) (job_leases s)\<rparr>"
    "\<exists>j \<in> set (compute_jobs s'). job_id j = jid \<and> r = job_from_row j"
proof -
  from assms obtain job metadata events updated where a: "locked_authorized_job s auth jid = Inr job"
    "executing_status (job_status job)" "validate_job_event_request X request = Inr ()"
    "e = event_record uuid job request metadata (to_rfc3339 X now)"
    "insert_event e (job_events s) = Inr events"
    "s' = s\<lparr>job_events := events, compute_jobs := apply_event_state_update (job_id job) request (to_rfc3339 X now) (compute_jobs s),
       job_leases := mark_lease_progress_for_job (job_id job) (er_event_type request) (to_rfc3339 X now) (job_leases s)\<rparr>"
    "load_job_in_transaction s' (job_id job) = Inr updated" "r = job_from_row updated"
    unfolding record_job_event_def Let_def by (auto elim!: bind_resE split: if_splits)
  from a(1) have "job \<in> set (compute_jobs s)" "job_id job = jid" "job_of_session auth job"
    by (auto elim: locked_authorized_jobE)
  moreover have "updated \<in> set (compute_jobs s') \<and> job_id updated = job_id job"
    using a(7) by (auto simp: load_job_in_transaction_def dest: find_SomeD)
  ultimately show ?thesis using a by (intro that[of job metadata events]) auto
qed

lemma lease_authority_jobs_leases:
  "compute_jobs s = compute_jobs t \<Longrightarrow> job_leases s = job_leases t \<Longrightarrow> lease_authority s = lease_authority t"
  by (simp add: lease_authority_def)

lemma record_job_event_authority:
  assumes inv: "lease_authority s" and r: "record_job_event X uuid auth jid request now s = Inr (s', e, r)"
  shows "lease_authority s'"
  using r
proof (rule record_job_eventE)
  fix job events
  assume job: "job \<in> set (compute_jobs s)" "job_id job = jid" "executing_status (job_status job)"
    and s': "s' = s\<lparr>job_events := events,
       compute_jobs := apply_event_state_update jid request (to_rfc3339 X now) (compute_jobs s),
       job_leases := mark_lease_progress_for_job jid (er_event_type request) (to_rfc3339 X now) (job_leases s)\<rparr>"
  show ?thesis
    by (rule lease_authority_jobs_leases[THEN iffD2, OF _ _ event_statements_authority[OF inv job(1,3)]])
      (simp_all add: s' job(2))
qed

section \<open>The end of a job\<close>

lemma release_customer_placement_frame [simp]:
  "compute_jobs (release_customer_placement jid now s) = compute_jobs s"
  "job_leases (release_customer_placement jid now s) = job_leases s"
  "job_events (release_customer_placement jid now s) = job_events s"
  "provider_sessions (release_customer_placement jid now s) = provider_sessions s"
  "usage_ledger_entries (release_customer_placement jid now s) = usage_ledger_entries s"
  "job_artifact_uploads (release_customer_placement jid now s) = job_artifact_uploads s"
  "idempotency_keys (release_customer_placement jid now s) = idempotency_keys s"
  by (simp_all add: release_customer_placement_def split: option.split)

lemma finish_jobE:
  assumes "finish_job X U uuid rid jid now finish status failure audit s = Inr (s', r)"
    "\<And>t. compute_jobs (audit t) = compute_jobs t" "\<And>t. job_leases (audit t) = job_leases t"
    "\<And>t. usage_ledger_entries (audit t) = usage_ledger_entries t" "\<And>t. job_events (audit t) = job_events t"
  obtains s2 s3 e dup where "append_usage_ledger_for_job X U uuid rid jid now s2 = Inr (s3, e, dup)"
    "compute_jobs s2 = sql_update (\<lambda>j. job_id j = jid) finish (compute_jobs s)"
    "job_leases s2 = mark_lease_terminal_for_job jid status failure now (job_leases s)"
    "usage_ledger_entries s2 = usage_ledger_entries s" "job_events s2 = job_events s"
    "compute_jobs s' = compute_jobs s2" "job_leases s' = job_leases s2" "job_events s' = job_events s"
    "usage_ledger_entries s' = usage_ledger_entries s3"
    "\<exists>j \<in> set (compute_jobs s'). job_id j = jid \<and> r = job_from_row j"
proof -
  let ?s1 = "release_customer_placement jid now
      (s\<lparr>compute_jobs := sql_update (\<lambda>j. job_id j = jid) finish (compute_jobs s)\<rparr>)"
  let ?s2 = "?s1\<lparr>job_leases := mark_lease_terminal_for_job jid status failure now (job_leases ?s1)\<rparr>"
  from assms(1) obtain updated s3 e dup where a: "load_job_in_transaction ?s1 jid = Inr updated"
    "append_usage_ledger_for_job X U uuid rid jid now ?s2 = Inr (s3, e, dup)"
    "s' = audit s3" "r = job_from_row updated"
    unfolding finish_job_def Let_def by (auto elim!: bind_resE)
  have "updated \<in> set (compute_jobs ?s1) \<and> job_id updated = jid"
    using a(1) by (auto simp: load_job_in_transaction_def dest: find_SomeD)
  then show ?thesis using append_usage_frame[OF a(2)] a(3,4) assms(2-)
    by (intro that[OF a(2)]) auto
qed

lemma mark_lease_terminal_inactive:
  assumes "l \<in> set (mark_lease_terminal_for_job jid status failure now ls)" "lease_job_id l = jid"
  shows "\<not> lease_active l"
  using assms(1) unfolding mark_lease_terminal_for_job_def
proof (rule in_sql_updateE)
  fix l0 assume "l = l0\<lparr>lease_status := (if status = ''succeeded'' then ''completed'' else ''failed''),
      lease_completed_at := Some now, lease_failure_reason := failure, lease_updated_at := now\<rparr>"
  then show ?thesis by (simp add: lease_state_defs)
next
  assume "\<not> (lease_job_id l = jid \<and> lease_status l \<in> {''offered'', ''accepted'', ''provisioning'', ''active''})"
  then show ?thesis using assms(2) unfolding lease_active_iff by blast
qed

text \<open>A terminal job has no credential and none of its leases is active.\<close>

lemma finished_ok:
  assumes "is_terminal_status (job_status j)" "jr_job_credential_hash j = None" "jr_job_credential_expires_at j = None"
  shows "job_ok (mark_lease_terminal_for_job (job_id j) status failure now ls) j"
  by (rule job_ok_terminalI[OF assms]) (rule mark_lease_terminal_inactive)

lemma submit_statements_authority:
  assumes "lease_authority s" "is_terminal_status (rr_status request)"
  shows "lease_authority (s\<lparr>compute_jobs := sql_update (\<lambda>j. job_id j = jid) (finish_result request metrics now) (compute_jobs s),
    job_leases := mark_lease_terminal_for_job jid status failure now (job_leases s)\<rparr>)"
proof (rule submitting.authority_update[OF assms(1), folded mark_lease_terminal_for_job_def])
  fix j :: job_row assume j: "job_id j = jid"
  show "job_ok (mark_lease_terminal_for_job jid status failure now (job_leases s))
      (if job_id j = jid then finish_result request metrics now j else j)"
    using finished_ok[of "finish_result request metrics now j"] assms(2) j by (simp add: finish_result_def)
qed

lemma cancel_statements_authority:
  assumes "lease_authority s"
  shows "lease_authority (s\<lparr>compute_jobs := sql_update (\<lambda>j. job_id j = jid) (finish_cancelled request now) (compute_jobs s),
    job_leases := mark_lease_terminal_for_job jid status failure now (job_leases s)\<rparr>)"
proof (rule cancelling.authority_update[OF assms(1), folded mark_lease_terminal_for_job_def])
  fix j :: job_row assume j: "job_id j = jid"
  show "job_ok (mark_lease_terminal_for_job jid status failure now (job_leases s))
      (if job_id j = jid then finish_cancelled request now j else j)"
    using finished_ok[of "finish_cancelled request now j"] j
    by (simp add: finish_cancelled_def is_terminal_status_def)
qed

lemma submit_job_resultE:
  assumes "submit_job_result X U uuid rid auth jid request now s = Inr (s', r)"
  obtains job metrics where "job \<in> set (compute_jobs s)" "job_id job = jid" "job_of_session auth job"
    "executing_status (job_status job)" "rr_status request \<in> {''succeeded'', ''failed''}"
    "validate_uploaded_job_results s jid (job_expected_outputs job) (rr_status request)
       (rr_result_artifacts request) = Inr ()"
    "finish_job X U uuid rid jid (to_rfc3339 X now) (finish_result request metrics (to_rfc3339 X now))
       (rr_status request) (rr_error_message request)
       (insert_audit_event rid ''device'' (Some (as_device_id auth)) ''compute_job'' jid
         (if rr_status request = ''succeeded'' then ''job.succeeded'' else ''job.failed'')) s = Inr (s', r)"
proof -
  from assms obtain job metrics where a: "validate_job_result_request X request = Inr ()"
    "locked_authorized_job s auth jid = Inr job" "executing_status (job_status job)"
    "validate_uploaded_job_results s (job_id job) (job_expected_outputs job) (rr_status request)
       (rr_result_artifacts request) = Inr ()"
    "finish_job X U uuid rid (job_id job) (to_rfc3339 X now) (finish_result request metrics (to_rfc3339 X now))
       (rr_status request) (rr_error_message request)
       (insert_audit_event rid ''device'' (Some (as_device_id auth)) ''compute_job'' (job_id job)
         (if rr_status request = ''succeeded'' then ''job.succeeded'' else ''job.failed'')) s = Inr (s', r)"
    unfolding submit_job_result_def Let_def by (auto elim!: bind_resE split: if_split_asm)
  have j: "job \<in> set (compute_jobs s)" "job_id job = jid" "job_of_session auth job"
    using a(2) by (auto elim: locked_authorized_jobE)
  have "rr_status request \<in> {''succeeded'', ''failed''}"
    using a(1) unfolding validate_job_result_request_def by (auto elim!: bind_resE split: if_split_asm)
  then show ?thesis by (rule that[OF j a(3)]) (use a(4,5) j(2) in simp_all)
qed

lemma submit_job_result_authority:
  assumes inv: "lease_authority s" and r: "submit_job_result X U uuid rid auth jid request now s = Inr (s', r)"
  shows "lease_authority s'"
  using r
proof (rule submit_job_resultE)
  fix metrics
  assume st: "rr_status request \<in> {''succeeded'', ''failed''}" and f: "finish_job X U uuid rid jid (to_rfc3339 X now)
       (finish_result request metrics (to_rfc3339 X now)) (rr_status request) (rr_error_message request)
       (insert_audit_event rid ''device'' (Some (as_device_id auth)) ''compute_job'' jid
         (if rr_status request = ''succeeded'' then ''job.succeeded'' else ''job.failed'')) s = Inr (s', r)"
  have "is_terminal_status (rr_status request)" using st by (auto simp: is_terminal_status_def)
  note auth = submit_statements_authority[OF inv this]
  show ?thesis using f
    by (rule finish_jobE)
      (simp_all add: insert_audit_event_def lease_authority_jobs_leases[THEN iffD2, OF _ _ auth])
qed

lemma cancel_jobE:
  assumes "cancel_job X U uuid rid jid request now s = Inr (s', r)"
  obtains job where "job \<in> set (compute_jobs s)" "job_id job = jid" "\<not> is_terminal_status (job_status job)"
    "finish_job X U uuid rid jid (to_rfc3339 X now) (finish_cancelled request (to_rfc3339 X now)) ''cancelled''
       (or_else (xr_reason request) (Some ''job_cancelled''))
       (insert_audit_event rid ''admin'' None ''compute_job'' jid ''job.cancelled'') s = Inr (s', r)"
proof -
  from assms obtain job where a: "locked_job s jid = Inr job" "\<not> is_terminal_status (job_status job)"
    "finish_job X U uuid rid (job_id job) (to_rfc3339 X now) (finish_cancelled request (to_rfc3339 X now)) ''cancelled''
       (or_else (xr_reason request) (Some ''job_cancelled''))
       (insert_audit_event rid ''admin'' None ''compute_job'' (job_id job) ''job.cancelled'') s = Inr (s', r)"
    unfolding cancel_job_def Let_def by (auto elim!: bind_resE split: if_split_asm)
  have "job \<in> set (compute_jobs s)" "job_id job = jid"
    using a(1) by (auto simp: locked_job_def dest: find_SomeD)
  then show ?thesis using a(2,3) by (intro that[of job]) simp_all
qed

lemma cancel_job_authority:
  assumes inv: "lease_authority s" and r: "cancel_job X U uuid rid jid request now s = Inr (s', r)"
  shows "lease_authority s'"
  using r
proof (rule cancel_jobE)
  assume f: "finish_job X U uuid rid jid (to_rfc3339 X now) (finish_cancelled request (to_rfc3339 X now)) ''cancelled''
       (or_else (xr_reason request) (Some ''job_cancelled''))
       (insert_audit_event rid ''admin'' None ''compute_job'' jid ''job.cancelled'') s = Inr (s', r)"
  show ?thesis using f
    by (rule finish_jobE)
      (simp_all add: insert_audit_event_def lease_authority_jobs_leases[THEN iffD2, OF _ _ cancel_statements_authority[OF inv]])
qed

section \<open>Creation\<close>

text \<open>A new queued job without lease and credential joins the agreement.\<close>

lemma authority_new_job:
  assumes inv: "lease_authority s" and new: "\<forall>k \<in> set (compute_jobs s). job_id k \<noteq> job_id j"
    and j: "job_status j = ''queued''" "jr_assignment_lease_id j = None" "jr_job_credential_hash j = None"
      "jr_job_credential_expires_at j = None"
  shows "lease_authority (s\<lparr>compute_jobs := compute_jobs s @ [j]\<rparr>)"
proof -
  have "lease_job_id l \<noteq> job_id j" if "l \<in> set (job_leases s)" "lease_active l" for l
    using inv that new by (auto simp: lease_authority_def lease_for_def)
  then have "job_ok (job_leases s) j" using j by (intro job_ok_queuedI) blast+
  then show ?thesis using inv new by (auto simp: lease_authority_def)
qed

lemma create_job_idempotentlyE:
  assumes "create_job_idempotently X uuid c now s = Inr (s', out)"
  obtains (replayed) k where "find (same_key c) (idempotency_keys s) = Some k" "s' = s"
      "out = (if ik_request_hash k = cc_request_hash c then Response k else OutcomeConflict)"
  | (created) row ikr where "find (same_key c) (idempotency_keys s) = None"
      "\<exists>parameters el. row = new_job_row (''job_'' @ uuid) (cc_request c) parameters el (to_rfc3339 X now)
         \<and> el \<in> set (workload_eligibility s) \<and> el_status el \<in> {''eligible'', ''limited''}"
      "\<forall>k \<in> set (compute_jobs s). job_id k \<noteq> job_id row"
      "validate_create_job_request (cc_request c) = Inr ()"
      "s' = insert_audit_event (cc_request_id c) ''admin'' None ''compute_job'' (job_id row) ''job.created''
         (s\<lparr>compute_jobs := compute_jobs s @ [row], idempotency_keys := idempotency_keys s @ [ikr]\<rparr>)"
      "out = Response ikr" "same_key c ikr" "ik_request_hash ikr = cc_request_hash c"
      "ik_response ikr = Some \<lparr>cj_request_id = cc_request_id c, cj_job = job_from_row row, cj_duplicate = False\<rparr>"
proof (cases "find (same_key c) (idempotency_keys s)")
  case (Some k)
  then have "s' = s" "out = (if ik_request_hash k = cc_request_hash c then Response k else OutcomeConflict)"
    using assms unfolding create_job_idempotently_def by (auto elim!: bind_resE)
  then show ?thesis using Some by (intro replayed) simp_all
next
  case None
  then have v: "validate_create_job_request (cc_request c) = Inr ()"
    and c: "create_job X uuid c (to_rfc3339 X now) s = Inr (s', out)"
    using assms unfolding create_job_idempotently_def by (auto elim!: bind_resE)
  from c obtain el parameters jobs where a: "load_job_eligibility X s (cc_request c) = Inr el"
    "el_status el \<in> {''eligible'', ''limited''}"
    "insert_job (new_job_row (''job_'' @ uuid) (cc_request c) parameters el (to_rfc3339 X now)) (compute_jobs s) = Inr jobs"
    "(s', out) = (let row = new_job_row (''job_'' @ uuid) (cc_request c) parameters el (to_rfc3339 X now);
      ikr = \<lparr>ik_scope = cc_scope c, ik_key = cc_idempotency_key c,
                    ik_request_hash = cc_request_hash c, ik_status_code = 201,
                    ik_response = Some \<lparr>cj_request_id = cc_request_id c, cj_job = job_from_row row,
                                        cj_duplicate = False\<rparr>\<rparr> in
      (insert_audit_event (cc_request_id c) ''admin'' None ''compute_job'' (job_id row) ''job.created''
             (s\<lparr>compute_jobs := jobs, idempotency_keys := idempotency_keys s @ [ikr]\<rparr>), Response ikr))"
    unfolding create_job_def Let_def by (auto elim!: bind_resE split: if_split_asm)
  have el: "el \<in> set (workload_eligibility s)"
    using a(1) by (auto simp: load_job_eligibility_def dest!: latest_by_Some)
  let ?row = "new_job_row (''job_'' @ uuid) (cc_request c) parameters el (to_rfc3339 X now)"
  have jobs: "jobs = compute_jobs s @ [?row]" "\<forall>k \<in> set (compute_jobs s). job_id k \<noteq> job_id ?row"
    using a(3) by (auto simp: insert_job_def list_ex_iff split: if_split_asm)
  show ?thesis
    by (rule created[OF None _ jobs(2) v]) (use a(2,4) el jobs(1) in \<open>auto simp: Let_def same_key_def\<close>)
qed

lemma create_job_authority:
  assumes inv: "lease_authority s" and c: "create_job_idempotently X uuid c now s = Inr (s', out)"
  shows "lease_authority s'"
  using c
proof (rule create_job_idempotentlyE)
  fix row ikr
  assume row: "\<exists>parameters el. row = new_job_row (''job_'' @ uuid) (cc_request c) parameters el (to_rfc3339 X now)
         \<and> el \<in> set (workload_eligibility s) \<and> el_status el \<in> {''eligible'', ''limited''}"
    "\<forall>k \<in> set (compute_jobs s). job_id k \<noteq> job_id row"
    and s': "s' = insert_audit_event (cc_request_id c) ''admin'' None ''compute_job'' (job_id row) ''job.created''
         (s\<lparr>compute_jobs := compute_jobs s @ [row], idempotency_keys := idempotency_keys s @ [ikr]\<rparr>)"
  have "lease_authority (s\<lparr>compute_jobs := compute_jobs s @ [row]\<rparr>)"
    using row by (intro authority_new_job[OF inv]) (auto simp: new_job_row_def)
  then show ?thesis using s' by (simp add: lease_authority_def)
qed (use inv in simp)

end
