(* ===== verification/Customer_Job.thy ===== *)
theory Customer_Job
  imports Job_Invariant
begin

text \<open>
  The customer's view of a job, \<^verbatim>\<open>burd-control-plane/src/customer_job.rs\<close> with the structs of
  \<^verbatim>\<open>burd-protocol/src/customer_compute.rs\<close>: the projection of a job and its events to what a customer
  may see, and cancellation by the customer. An API key is bound to an organisation and may be bound to
  one project.
\<close>

section \<open>Records\<close>

definition CUSTOMER_JOB_SCHEMA_VERSION :: string where
  "CUSTOMER_JOB_SCHEMA_VERSION = ''burd-customer-job-v1''"

definition CUSTOMER_JOB_EVENT_SCHEMA_VERSION :: string where
  "CUSTOMER_JOB_EVENT_SCHEMA_VERSION = ''burd-customer-job-event-v1''"

definition MAX_CANCEL_REASON_LEN :: nat where "MAX_CANCEL_REASON_LEN = 512"

record CustomerApiKeyAuth =
  ak_api_key_id :: string
  ak_organization_id :: string
  ak_project_id :: "string option"
  ak_scopes :: "string list"

record CustomerWorkloadRecord =
  cw_workload_id :: string
  cw_organization_id :: string
  cw_project_id :: string
  cw_schema_version :: string
  cw_client_workload_id :: "string option"
  cw_reservation_id :: "string option"
  cw_workload_type :: string
  cw_requirements :: ComputeRequirements
  cw_status :: string
  cw_job_id :: "string option"
  cw_created_at :: string
  cw_updated_at :: string

record CustomerResultArtifact =
  ra_artifact_id :: string
  ra_role :: string
  ra_sha256 :: "string option"
  ra_size_bytes :: "u64 option"
  ra_content_type :: "string option"

record CustomerJobRecord =
  cjr_schema_version :: string
  cjr_workload_id :: string
  cjr_job_id :: string
  cjr_workload_type :: string
  cjr_status :: string
  cjr_progress_percent :: "f64 option"
  cjr_error_code :: "string option"
  cjr_result_artifacts :: "CustomerResultArtifact list"
  cjr_created_at :: string
  cjr_started_at :: "string option"
  cjr_completed_at :: "string option"
  cjr_updated_at :: string

record CustomerJobEventRecord =
  ce_schema_version :: string
  ce_event_id :: string
  ce_job_id :: string
  ce_sequence :: u64
  ce_event_type :: string
  ce_progress_percent :: "f64 option"
  ce_occurred_at :: string

record CustomerJobResponse =
  cs_request_id :: string
  cs_workload :: CustomerWorkloadRecord
  cs_job :: CustomerJobRecord
  cs_duplicate :: bool

record CancelCustomerWorkloadRequest =
  cx_reason :: "string option"

section \<open>Authority\<close>

definition require_customer_scope :: "CustomerApiKeyAuth \<Rightarrow> string \<Rightarrow> unit res" where
  "require_customer_scope auth scope = ensure (scope \<in> set (ak_scopes auth)) Unauthorized"

definition assert_project_binding :: "CustomerApiKeyAuth \<Rightarrow> string \<Rightarrow> unit res" where
  "assert_project_binding auth project =
     ensure (case ak_project_id auth of None \<Rightarrow> True | Some b \<Rightarrow> b = project) Unauthorized"

definition validate_customer_id :: "string \<Rightarrow> string \<Rightarrow> nat \<Rightarrow> unit res" where
  "validate_customer_id label value maximum_len =
     ensure (value \<noteq> [] \<and> length value \<le> maximum_len \<and> list_all id_char value)
       (Invalid (label @ '' is invalid''))"

text \<open>\<open>char::is_control\<close>: the ASCII controls, and U+0080 to U+009F in two bytes.\<close>

fun any_control :: "string \<Rightarrow> bool" where
  "any_control [] = False"
| "any_control (a # s) = (is_ascii_control a \<or>
     (byte a = 194 \<and> (case s of [] \<Rightarrow> False | b # _ \<Rightarrow> 128 \<le> byte b \<and> byte b \<le> 159)) \<or> any_control s)"

definition customer_secret_text :: "string \<Rightarrow> bool" where
  "customer_secret_text value =
     (let lower = to_ascii_lowercase value in
      list_ex (\<lambda>needle. sublist needle lower)
        [''password'', ''secret'', ''private_key'', ''api_key'', ''api-key'', ''authorization'', ''credential'',
         ''access_token'', ''access-token'', ''bearer '', ''jobcred'', ''resume_token'', ''resume-token''])"

definition validate_cancel_reason :: "string option \<Rightarrow> unit res" where
  "validate_cancel_reason reason_text =
     ensure (case reason_text of None \<Rightarrow> True
       | Some v \<Rightarrow> \<not> (v = [] \<or> length v > MAX_CANCEL_REASON_LEN \<or> any_control v \<or> customer_secret_text v))
       (Invalid ''customer cancellation reason is invalid'')"

section \<open>Projection\<close>

definition public_job_status :: "string \<Rightarrow> string" where
  "public_job_status st =
     (if st \<in> {''queued'', ''assigned'', ''accepted''} then ''queued''
      else if st \<in> {''provisioning'', ''running'', ''uploading'', ''succeeded'', ''failed'', ''cancelled''} then st
      else ''failed'')"

definition public_event_type :: "string \<Rightarrow> string" where
  "public_event_type ev =
     (if ev = ''provisioning'' then ''provisioning''
      else if ev \<in> {''started'', ''running''} then ''running''
      else if ev \<in> {''uploading'', ''progress'', ''cleanup_completed''} then ev
      else ''update'')"

definition public_result_artifact :: "JobArtifact \<Rightarrow> CustomerResultArtifact" where
  "public_result_artifact a =
     \<lparr>ra_artifact_id = artifact_id a, ra_role = art_role a, ra_sha256 = art_sha256 a,
      ra_size_bytes = art_size_bytes a, ra_content_type = art_content_type a\<rparr>"

definition customer_event_from_row :: "JobEventRecord \<Rightarrow> CustomerJobEventRecord" where
  "customer_event_from_row e =
     \<lparr>ce_schema_version = CUSTOMER_JOB_EVENT_SCHEMA_VERSION, ce_event_id = event_id e,
      ce_job_id = event_job_id e, ce_sequence = event_sequence e,
      ce_event_type = public_event_type (event_event_type e),
      ce_progress_percent = event_progress_percent e, ce_occurred_at = event_occurred_at e\<rparr>"

definition customer_job_response :: "string \<Rightarrow> workload_row \<Rightarrow> job_row \<Rightarrow> bool \<Rightarrow> CustomerJobResponse" where
  "customer_job_response request_id w j duplicate =
     \<lparr>cs_request_id = request_id,
      cs_workload = \<lparr>cw_workload_id = wl_workload_id w, cw_organization_id = wl_organization_id w,
        cw_project_id = wl_project_id w, cw_schema_version = wl_schema_version w,
        cw_client_workload_id = wl_client_workload_id w, cw_reservation_id = wl_reservation_id w,
        cw_workload_type = wl_workload_type w, cw_requirements = wl_requirements w,
        cw_status = wl_status w, cw_job_id = wl_job_id w, cw_created_at = wl_created_at w,
        cw_updated_at = wl_updated_at w\<rparr>,
      cs_job = \<lparr>cjr_schema_version = CUSTOMER_JOB_SCHEMA_VERSION, cjr_workload_id = wl_workload_id w,
        cjr_job_id = (case wl_job_id w of Some i \<Rightarrow> i | None \<Rightarrow> []), cjr_workload_type = wl_workload_type w,
        cjr_status = public_job_status (job_status j), cjr_progress_percent = job_progress_percent j,
        cjr_error_code = job_error_code j,
        cjr_result_artifacts = map public_result_artifact (job_result_artifacts j),
        cjr_created_at = job_created_at j, cjr_started_at = job_started_at j,
        cjr_completed_at = job_completed_at j, cjr_updated_at = job_updated_at j\<rparr>,
      cs_duplicate = duplicate\<rparr>"

text \<open>The join of \<open>customer_job_select\<close>.\<close>

definition customer_job_select :: "string \<Rightarrow> string \<Rightarrow> string \<Rightarrow> db \<Rightarrow> (workload_row \<times> job_row) option" where
  "customer_job_select wid project org s =
     find (\<lambda>(w, j). wl_job_id w = Some (job_id j) \<and> jr_workload_id j = Some (wl_workload_id w)
         \<and> wl_workload_id w = wid \<and> wl_project_id w = project \<and> wl_organization_id w = org)
       (List.product (customer_workloads s) (compute_jobs s))"

definition customer_checks ::
  "CustomerApiKeyAuth \<Rightarrow> string \<Rightarrow> string \<Rightarrow> string \<Rightarrow> unit res \<Rightarrow> unit res" where
  "customer_checks auth scope project wid extra =
     bind_res (require_customer_scope auth scope) (\<lambda>_.
     bind_res (validate_customer_id ''project_id'' project 128) (\<lambda>_.
     bind_res (validate_customer_id ''workload_id'' wid 128) (\<lambda>_.
     bind_res extra (\<lambda>_. assert_project_binding auth project))))"

definition load_owned_customer_job ::
  "db \<Rightarrow> CustomerApiKeyAuth \<Rightarrow> string \<Rightarrow> string \<Rightarrow> (workload_row \<times> job_row) res" where
  "load_owned_customer_job s auth project wid =
     ok_or (customer_job_select wid project (ak_organization_id auth) s) (NotFound ''customer workload not found'')"

definition get_customer_job ::
  "string \<Rightarrow> CustomerApiKeyAuth \<Rightarrow> string \<Rightarrow> string \<Rightarrow> db \<Rightarrow> CustomerJobResponse res" where
  "get_customer_job request_id auth project wid s =
     bind_res (customer_checks auth ''workloads:read'' project wid (Inr ())) (\<lambda>_.
     bind_res (load_owned_customer_job s auth project wid) (\<lambda>(w, j).
     Inr (customer_job_response request_id w j False)))"

definition list_customer_job_events ::
  "externs \<Rightarrow> CustomerApiKeyAuth \<Rightarrow> string \<Rightarrow> string \<Rightarrow> u32 \<Rightarrow> db \<Rightarrow> CustomerJobEventRecord list res" where
  "list_customer_job_events X auth project wid limit s =
     bind_res (customer_checks auth ''workloads:read'' project wid (Inr ())) (\<lambda>_.
     bind_res (load_owned_customer_job s auth project wid) (\<lambda>(w, j).
     Inr (map customer_event_from_row (take (clamp 1 200 (unat limit))
       (sort_key (\<lambda>e. (uint (event_sequence e), collation_key X (event_id e)))
         (filter (\<lambda>e. Some (event_job_id e) = wl_job_id w) (job_events s)))))))"

section \<open>Cancellation\<close>

definition cancel_open :: "string \<Rightarrow> job_row \<Rightarrow> bool" where
  "cancel_open jid j \<longleftrightarrow> job_id j = jid \<and> job_status j \<notin> {''succeeded'', ''failed'', ''cancelled''}"

definition cancel_owned_job ::
  "externs \<Rightarrow> usage_hashes \<Rightarrow> string \<Rightarrow> string \<Rightarrow> CustomerApiKeyAuth \<Rightarrow> string \<Rightarrow> string \<Rightarrow>
     string option \<Rightarrow> string \<Rightarrow> string \<Rightarrow> db \<Rightarrow> (db \<times> CustomerJobResponse) res" where
  "cancel_owned_job X U uuid request_id auth project wid reason_text jid now s =
     (let s1 = s\<lparr>job_leases := mark_lease_terminal_for_job jid ''cancelled''
            (or_else reason_text (Some ''customer_cancelled'')) now (job_leases s)\<rparr> in
      bind_res (ensure (sql_count (cancel_open jid) (compute_jobs s1) = 1)
        (Conflict ''customer job cancellation lost state authority'')) (\<lambda>_.
      let s2 = release_customer_placement jid now (s1\<lparr>compute_jobs := sql_update (cancel_open jid)
            (finish_cancelled \<lparr>xr_reason = reason_text\<rparr> now) (compute_jobs s1)\<rparr>) in
      bind_res (append_usage_ledger_for_job X U uuid request_id jid now s2) (\<lambda>(s3, _, _).
      let s4 = insert_customer_audit_event (ak_organization_id auth) (Some project) ''customer_api_key''
            (Some (ak_api_key_id auth)) ''customer_workload.cancelled'' ''customer_workload'' wid s3 in
      bind_res (ok_or (customer_job_select wid project (ak_organization_id auth) s4)
        (Database ''query returned an unexpected number of rows'')) (\<lambda>(w, j).
      Inr (s4, customer_job_response request_id w j False)))))"

definition cancel_customer_job ::
  "externs \<Rightarrow> usage_hashes \<Rightarrow> string \<Rightarrow> string \<Rightarrow> CustomerApiKeyAuth \<Rightarrow> string \<Rightarrow> string \<Rightarrow>
     CancelCustomerWorkloadRequest \<Rightarrow> int \<Rightarrow> db \<Rightarrow> (db \<times> CustomerJobResponse) res" where
  "cancel_customer_job X U uuid request_id auth project wid request now s =
     bind_res (customer_checks auth ''workloads:write'' project wid (validate_cancel_reason (cx_reason request))) (\<lambda>_.
     bind_res (load_owned_customer_job s auth project wid) (\<lambda>(w, j).
     if job_status j = ''cancelled'' then Inr (s, customer_job_response request_id w j True)
     else if job_status j \<in> {''succeeded'', ''failed''}
     then Inl (Conflict ''terminal customer jobs cannot be cancelled'')
     else cancel_owned_job X U uuid request_id auth project wid (cx_reason request) (job_id j)
            (to_rfc3339 X now) s))"

section \<open>Lemmas\<close>

lemma customer_checks_ok:
  "customer_checks auth scope project wid extra = Inr u \<longleftrightarrow>
     scope \<in> set (ak_scopes auth) \<and> extra = Inr () \<and> (ak_project_id auth = None \<or> ak_project_id auth = Some project) \<and>
     (project \<noteq> [] \<and> length project \<le> 128 \<and> list_all id_char project) \<and>
     (wid \<noteq> [] \<and> length wid \<le> 128 \<and> list_all id_char wid)"
  by (auto simp: customer_checks_def require_customer_scope_def validate_customer_id_def
      assert_project_binding_def ensure_def bind_res_def split: option.splits sum.splits)

lemma customer_job_select_Some:
  assumes "customer_job_select wid project org s = Some (w, j)"
  shows "w \<in> set (customer_workloads s)" "j \<in> set (compute_jobs s)" "wl_job_id w = Some (job_id j)"
    "jr_workload_id j = Some (wl_workload_id w)" "wl_workload_id w = wid" "wl_project_id w = project"
    "wl_organization_id w = org"
  using assms find_SomeD[of _ "List.product (customer_workloads s) (compute_jobs s)" "(w, j)"]
  by (auto simp: customer_job_select_def)

lemma cancel_open_terminal: "cancel_open jid j \<longleftrightarrow> job_id j = jid \<and> \<not> is_terminal_status (job_status j)"
  by (simp add: cancel_open_def is_terminal_status_def)

lemma cancel_owned_jobE:
  assumes inv: "lease_authority s"
    and c: "cancel_owned_job X U uuid rid auth project wid rt jid now s = Inr (s', r)"
  obtains j s2 s3 e dup where "j \<in> set (compute_jobs s)" "job_id j = jid" "\<not> is_terminal_status (job_status j)"
    "append_usage_ledger_for_job X U uuid rid jid now s2 = Inr (s3, e, dup)"
    "compute_jobs s2 = sql_update (\<lambda>j. job_id j = jid) (finish_cancelled \<lparr>xr_reason = rt\<rparr> now) (compute_jobs s)"
    "job_leases s2 = mark_lease_terminal_for_job jid ''cancelled'' (or_else rt (Some ''customer_cancelled'')) now (job_leases s)"
    "usage_ledger_entries s2 = usage_ledger_entries s" "job_events s2 = job_events s"
    "compute_jobs s' = compute_jobs s2" "job_leases s' = job_leases s2" "job_events s' = job_events s"
    "usage_ledger_entries s' = usage_ledger_entries s3"
proof -
  let ?s1 = "s\<lparr>job_leases := mark_lease_terminal_for_job jid ''cancelled''
            (or_else rt (Some ''customer_cancelled'')) now (job_leases s)\<rparr>"
  let ?s2 = "release_customer_placement jid now (?s1\<lparr>compute_jobs := sql_update (cancel_open jid)
            (finish_cancelled \<lparr>xr_reason = rt\<rparr> now) (compute_jobs ?s1)\<rparr>)"
  from c obtain s3 e dup where a: "sql_count (cancel_open jid) (compute_jobs ?s1) = 1"
    "append_usage_ledger_for_job X U uuid rid jid now ?s2 = Inr (s3, e, dup)"
    "s' = insert_customer_audit_event (ak_organization_id auth) (Some project) ''customer_api_key''
            (Some (ak_api_key_id auth)) ''customer_workload.cancelled'' ''customer_workload'' wid s3"
    unfolding cancel_owned_job_def Let_def by (auto elim!: bind_resE split: if_split_asm)
  obtain j where "j \<in> set (compute_jobs s)" "cancel_open jid j" using sql_count_one[of "cancel_open jid"] a(1) by auto
  then have j: "j \<in> set (compute_jobs s)" "job_id j = jid" "\<not> is_terminal_status (job_status j)"
    by (simp_all add: cancel_open_terminal)
  have upd: "sql_update (cancel_open jid) f (compute_jobs s) = sql_update (\<lambda>j. job_id j = jid) f (compute_jobs s)" for f
  proof (rule sql_update_cong)
    fix k assume "k \<in> set (compute_jobs s)"
    then show "cancel_open jid k = (job_id k = jid)"
      using authority_job_prop[OF inv, of jid "\<lambda>k. \<not> is_terminal_status (job_status k)" k] j
      by (auto simp: cancel_open_terminal)
  qed
  show ?thesis using append_usage_frame[OF a(2)] a(3)
    by (intro that[OF j a(2)]) (simp_all add: upd insert_customer_audit_event_def)
qed

lemma cancel_customer_jobE:
  assumes "cancel_customer_job X U uuid rid auth project wid request now s = Inr (s', r)"
  obtains (duplicate) w j where "customer_job_select wid project (ak_organization_id auth) s = Some (w, j)"
      "job_status j = ''cancelled''" "s' = s" "r = customer_job_response rid w j True"
  | (cancelled) w j where "customer_job_select wid project (ak_organization_id auth) s = Some (w, j)"
      "cancel_owned_job X U uuid rid auth project wid (cx_reason request) (job_id j) (to_rfc3339 X now) s = Inr (s', r)"
proof -
  from assms obtain w j where w: "customer_job_select wid project (ak_organization_id auth) s = Some (w, j)"
    and c: "(if job_status j = ''cancelled'' then Inr (s, customer_job_response rid w j True)
     else if job_status j \<in> {''succeeded'', ''failed''}
     then Inl (Conflict ''terminal customer jobs cannot be cancelled'')
     else cancel_owned_job X U uuid rid auth project wid (cx_reason request) (job_id j)
            (to_rfc3339 X now) s) = Inr (s', r)"
    unfolding cancel_customer_job_def load_owned_customer_job_def by (auto elim!: bind_resE)
  show ?thesis
  proof (cases "job_status j = ''cancelled''")
    case True
    show ?thesis by (rule duplicate[OF w True]) (use c True in simp_all)
  next
    case False
    then show ?thesis using c by (cases "job_status j \<in> {''succeeded'', ''failed''}") (simp_all, rule cancelled[OF w])
  qed
qed

lemma cancel_owned_job_response:
  assumes "cancel_owned_job X U uuid rid auth project wid rt jid now s = Inr (s', r)"
  shows "\<exists>w j. r = customer_job_response rid w j False \<and> wl_workload_id w = wid"
proof -
  from assms obtain t w j where "customer_job_select wid project (ak_organization_id auth) t = Some (w, j)"
    "r = customer_job_response rid w j False"
    unfolding cancel_owned_job_def Let_def by (auto elim!: bind_resE split: if_split_asm)
  then show ?thesis using customer_job_select_Some(5) by blast
qed

lemma cancel_customer_job_authority:
  assumes inv: "lease_authority s"
    and c: "cancel_customer_job X U uuid rid auth project wid request now s = Inr (s', r)"
  shows "lease_authority s'"
  using c
proof (cases rule: cancel_customer_jobE)
  case (cancelled w j)
  show ?thesis using inv cancelled(2)
    by (rule cancel_owned_jobE)
      (simp add: lease_authority_jobs_leases[THEN iffD2, OF _ _ cancel_statements_authority[OF inv]])
qed (use inv in simp)

text \<open>What a customer may not see: where the job runs, with what image, credential and lease, and messages and keys of the provider.\<close>

definition redact_job :: "job_row \<Rightarrow> job_row" where
  "redact_job j = j\<lparr>job_client_job_id := None, job_provider_id := [], job_device_id := [], job_session_id := [],
     job_workload_type := [], job_template_id := [], job_image_ref := [], job_gpu_uuid := [], job_backend := [],
     job_parameters := JNull, job_input_artifacts := [], job_expected_outputs := [],
     job_result_artifacts := map (\<lambda>a. a\<lparr>art_object_key := []\<rparr>) (job_result_artifacts j),
     job_policy_id := None, job_policy_version := None, job_status_message := None, job_error_message := None,
     job_cancellation_reason := None, job_assigned_at := None, job_accepted_at := None,
     jr_result_metrics := JNull, jr_assignment_lease_id := None, jr_job_credential_hash := None,
     jr_job_credential_expires_at := None, jr_scheduler_last_evaluated_at := None,
     jr_placement_id := None, jr_reservation_id := None\<rparr>"

definition redact_event :: "JobEventRecord \<Rightarrow> JobEventRecord" where
  "redact_event e = e\<lparr>event_provider_id := [], event_device_id := [], event_session_id := [],
     event_message := None, event_metadata := JNull, event_server_received_at := []\<rparr>"

definition redact :: "db \<Rightarrow> db" where
  "redact s = s\<lparr>compute_jobs := map redact_job (compute_jobs s), job_events := map redact_event (job_events s),
     providers := [], devices := [], provider_sessions := [], workload_eligibility := [], provider_public_keys := [],
     gpu_inventory_snapshots := [], gpu_inventory := [], runtime_observations := [], runtime_verifications := [],
     job_leases := [], job_artifact_uploads := [], usage_ledger_entries := [], idempotency_keys := [],
     audit_events := [], compute_placements := [], marketplace_reservations := [], customer_audit_events := []\<rparr>"

lemma find_map: "find P (map f xs) = map_option f (find (P \<circ> f) xs)"
  by (induction xs) auto

lemma product_map_right: "List.product xs (map f ys) = map (\<lambda>(x, y). (x, f y)) (List.product xs ys)"
  by (induction xs) auto

lemma insort_key_map: "insort_key k (f x) (map f xs) = map f (insort_key (\<lambda>x. k (f x)) x xs)"
  by (induction xs) auto

lemma sort_key_map: "sort_key k (map f xs) = map f (sort_key (\<lambda>x. k (f x)) xs)"
  by (induction xs) (auto simp: insort_key_map)

lemma customer_job_select_redact:
  "customer_job_select wid project org (redact s) =
     map_option (\<lambda>(w, j). (w, redact_job j)) (customer_job_select wid project org s)"
  by (auto simp: customer_job_select_def redact_def product_map_right find_map redact_job_def
      intro!: arg_cong[of _ _ "map_option _"] arg_cong[of _ _ "\<lambda>P. find P _"])

lemma response_redact: "customer_job_response rid w (redact_job j) d = customer_job_response rid w j d"
  by (simp add: customer_job_response_def redact_job_def public_result_artifact_def)

lemma event_redact: "customer_event_from_row (redact_event e) = customer_event_from_row e"
  by (simp add: customer_event_from_row_def redact_event_def)

section \<open>Properties\<close>

text \<open>
  C30. A customer learns nothing private: the job and the events a customer reads are the same when
  everything internal is erased from the database first, that is where and with which image, GPU,
  policy, lease and credential the job runs, the provider's messages and metadata, the object keys of
  its results, and every table other than workloads, jobs and events.
\<close>

theorem customer_view_private:
  "get_customer_job rid auth project wid (redact s) = get_customer_job rid auth project wid s \<and>
   list_customer_job_events X auth project wid limit (redact s) = list_customer_job_events X auth project wid limit s"
proof -
  have job: "load_owned_customer_job (redact s) auth project wid =
      bind_res (load_owned_customer_job s auth project wid) (\<lambda>(w, j). Inr (w, redact_job j))"
    by (cases "customer_job_select wid project (ak_organization_id auth) s")
      (auto simp: load_owned_customer_job_def customer_job_select_redact)
  have events: "map customer_event_from_row (take n (sort_key (\<lambda>e. (uint (event_sequence e), collation_key X (event_id e)))
        (filter (\<lambda>e. Some (event_job_id e) = jid) (job_events (redact s))))) =
      map customer_event_from_row (take n (sort_key (\<lambda>e. (uint (event_sequence e), collation_key X (event_id e)))
        (filter (\<lambda>e. Some (event_job_id e) = jid) (job_events s))))" for n jid
    by (simp add: redact_def filter_map sort_key_map take_map event_redact comp_def)
      (simp add: redact_event_def)
  show ?thesis
    by (auto simp: get_customer_job_def list_customer_job_events_def job response_redact events bind_res_def
        split: sum.split)
qed


section \<open>Instances\<close>

definition example_workload :: workload_row where
  "example_workload = \<lparr>wl_workload_id = ''w1'', wl_organization_id = ''o1'', wl_project_id = ''pr1'', wl_reservation_id = None,
     wl_schema_version = ''v'', wl_client_workload_id = None, wl_workload_type = ''w'',
     wl_requirements = \<lparr>cq_gpu_count = 1, cq_backend = ''cuda'', cq_minimum_vram_mib = None, cq_region = None, cq_minimum_trust_score = None,
       cq_maximum_risk_score = None, cq_minimum_reliability_score = None, cq_maximum_price_per_hour_micros = None\<rparr>,
     wl_parameters = JObject [], wl_timeout_seconds = 60, wl_status = ''placed'', wl_idempotency_key = ''k'',
     wl_request_hash = ''h'', wl_job_id = Some ''j1'', wl_created_at = ''+1'', wl_updated_at = ''+1''\<rparr>"

definition example_customer_db :: db where
  "example_customer_db = example_sched_db\<lparr>customer_workloads := [example_workload],
     compute_jobs := [example_job\<lparr>jr_workload_id := Some ''w1''\<rparr>]\<rparr>"

definition example_key :: CustomerApiKeyAuth where
  "example_key = \<lparr>ak_api_key_id = ''k'', ak_organization_id = ''o1'', ak_project_id = Some ''pr1'',
     ak_scopes = [''workloads:write'']\<rparr>"

lemma example_customer_cancel: "case cancel_customer_job example_externs example_usage_hashes ''u'' ''r'' example_key
    ''pr1'' ''w1'' \<lparr>cx_reason = None\<rparr> 8 example_customer_db of Inr _ \<Rightarrow> True | Inl _ \<Rightarrow> False"
  by code_simp


end
