(* ===== verification/Job_Lifecycle.thy ===== *)
theory Job_Lifecycle
  imports Customer_Job
begin

text \<open>
  The life cycle of a compute job as a relation on its status, and that every handler of job control, of
  the scheduler and of the customer's cancellation moves each job along it: the contract columns of a job
  never change after its creation, and a terminal row is never touched again.
\<close>

section \<open>The life cycle\<close>

text \<open>The status a job may take next; a terminal status is never left.\<close>

definition lifecycle :: "string \<Rightarrow> string \<Rightarrow> bool" where
  "lifecycle a b \<longleftrightarrow> a = b
     \<or> (a, b) \<in> {(''queued'', ''assigned''), (''assigned'', ''queued''), (''assigned'', ''accepted'')}
     \<or> executing_status a \<and> b \<in> {''provisioning'', ''running'', ''uploading'', ''succeeded'', ''failed''}
     \<or> \<not> is_terminal_status a \<and> b = ''cancelled''"

text \<open>The columns of a job that nothing changes after its creation.\<close>

definition job_contract :: "job_row \<Rightarrow> job_row" where
  "job_contract j = j\<lparr>job_result_artifacts := [], job_status := [], job_progress_percent := None,
     job_status_message := None, job_error_code := None, job_error_message := None,
     job_cancellation_reason := None, job_assigned_at := None, job_accepted_at := None,
     job_started_at := None, job_completed_at := None, job_updated_at := [], jr_result_metrics := JNull,
     jr_assignment_lease_id := None, jr_job_credential_hash := None, jr_job_credential_expires_at := None,
     jr_scheduler_last_evaluated_at := None\<rparr>"

definition job_evolves :: "(string \<Rightarrow> string \<Rightarrow> bool) \<Rightarrow> job_row \<Rightarrow> job_row \<Rightarrow> bool" where
  "job_evolves R j j' \<longleftrightarrow> job_contract j' = job_contract j \<and> R (job_status j) (job_status j') \<and>
     (is_terminal_status (job_status j) \<longrightarrow> j' = j)"

abbreviation jobs_evolve :: "(string \<Rightarrow> string \<Rightarrow> bool) \<Rightarrow> db \<Rightarrow> db \<Rightarrow> bool" where
  "jobs_evolve R s s' \<equiv> list_all2 (job_evolves R) (compute_jobs s) (compute_jobs s')"

lemma job_evolves_refl: "R (job_status j) (job_status j) \<Longrightarrow> job_evolves R j j"
  by (simp add: job_evolves_def)

lemma job_evolves_trans:
  "job_evolves R j k \<Longrightarrow> job_evolves Q k l \<Longrightarrow> (\<And>a b c. R a b \<Longrightarrow> Q b c \<Longrightarrow> P a c) \<Longrightarrow> job_evolves P j l"
  unfolding job_evolves_def by metis

lemma jobs_evolve_trans:
  assumes "jobs_evolve R s t" "jobs_evolve Q t u" "\<And>a b c. R a b \<Longrightarrow> Q b c \<Longrightarrow> P a c"
  shows "jobs_evolve P s u"
  using list_all2_trans[OF _ assms(1,2), of "job_evolves P"] assms(3) job_evolves_trans by blast

lemma jobs_evolve_refl: "(\<And>a. R a a) \<Longrightarrow> compute_jobs s' = compute_jobs s \<Longrightarrow> jobs_evolve R s s'"
  by (auto intro!: list.rel_refl_strong job_evolves_refl)

lemma lifecycle_refl [simp]: "lifecycle a a"
  by (simp add: lifecycle_def)

lemma jobs_evolve_update:
  assumes "compute_jobs s' = sql_update P f (compute_jobs s)" "\<And>a. R a a"
    and "\<And>j. j \<in> set (compute_jobs s) \<Longrightarrow> P j \<Longrightarrow> job_evolves R j (f j)"
  shows "jobs_evolve R s s'"
  unfolding assms(1) sql_update_def list.rel_map
  using assms(2,3) by (auto intro!: list.rel_refl_strong job_evolves_refl)

lemma contract_frame:
  "job_contract (requeued now j) = job_contract j"
  "job_contract (assigned_row now lid h e j) = job_contract j"
  "job_contract (event_update request now j) = job_contract j"
  "job_contract (finish_result result metrics now j) = job_contract j"
  "job_contract (finish_cancelled cancel now j) = job_contract j"
  "job_contract (j\<lparr>jr_scheduler_last_evaluated_at := t\<rparr>) = job_contract j"
  by (simp_all add: job_contract_def requeued_def assigned_row_def event_update_def finish_result_def
      finish_cancelled_def split: option.split)

section \<open>Every handler follows the life cycle\<close>

lemma not_terminal:
  "\<not> is_terminal_status ''queued''" "\<not> is_terminal_status ''assigned''"
  "executing_status st \<Longrightarrow> \<not> is_terminal_status st"
  by (auto simp: is_terminal_status_def executing_status_def)

text \<open>Steps of the life cycle that do not end a job.\<close>

definition live_step :: "string \<Rightarrow> string \<Rightarrow> bool" where
  "live_step a b \<longleftrightarrow> lifecycle a b \<and> (is_terminal_status b \<longrightarrow> a = b)"

lemma live_step_refl [simp]: "live_step a a"
  by (simp add: live_step_def)

lemma live_stepI:
  "live_step ''queued'' ''assigned''" "live_step ''assigned'' ''queued''" "live_step ''assigned'' ''accepted''"
  "executing_status a \<Longrightarrow> b \<in> {''provisioning'', ''running'', ''uploading''} \<Longrightarrow> live_step a b"
  by (auto simp: live_step_def lifecycle_def is_terminal_status_def executing_status_def)

lemma requeue_evolves:
  "job_status j = ''assigned'' \<or> job_status j = ''queued'' \<Longrightarrow> job_evolves live_step j (requeued now j)"
  by (auto simp: job_evolves_def contract_frame not_terminal live_stepI)

lemma expire_evolves: "jobs_evolve live_step s (fst (expire_stale_offers X now s))"
proof (rule jobs_evolve_update)
  show "compute_jobs (fst (expire_stale_offers X now s)) =
     sql_update (\<lambda>j. job_status j = ''assigned'' \<and> (\<exists>l \<in> set (filter (stale_offer X now) (job_leases s)).
         job_id j = lease_job_id l \<and> jr_assignment_lease_id j = Some (lease_id l)))
       (requeued now) (compute_jobs s)"
    by (simp add: expire_stale_offers_def Let_def fold_requeue_job)
  fix j :: job_row assume "job_status j = ''assigned'' \<and> (\<exists>l \<in> set (filter (stale_offer X now) (job_leases s)).
         job_id j = lease_job_id l \<and> jr_assignment_lease_id j = Some (lease_id l))"
  then have "job_status j = ''assigned''" by blast
  then show "job_evolves live_step j (requeued now j)" by (simp add: requeue_evolves)
qed simp


interpretation evaluates_queued: sched_invariant X H E run "\<lambda>st. compute_jobs (ss_db st) = compute_jobs s \<and>
     usage_ledger_entries (ss_db st) = usage_ledger_entries s \<and> job_events (ss_db st) = job_events s \<and>
     distinct (map job_id (compute_jobs s)) \<and>
     (\<forall>jid \<in> set (ss_evaluated st). \<exists>j \<in> set (compute_jobs s). job_id j = jid \<and> job_status j = ''queued'')"
  for X H E run s
proof
  fix st c st' b
  assume I: "compute_jobs (ss_db st) = compute_jobs s \<and> usage_ledger_entries (ss_db st) = usage_ledger_entries s \<and>
     job_events (ss_db st) = job_events s \<and> distinct (map job_id (compute_jobs s)) \<and>
     (\<forall>jid \<in> set (ss_evaluated st). \<exists>j \<in> set (compute_jobs s). job_id j = jid \<and> job_status j = ''queued'')"
    and c: "fresh_candidate st c" and e: "evaluate_candidate X H E run c st = Inr (st', b)"
  from c I have "\<exists>j \<in> set (compute_jobs s). job_id j = sc_job_id c \<and> job_status j = ''queued''"
    by (auto simp: fresh_candidate_def scheduler_candidate_from_row_def)
  with e I show "compute_jobs (ss_db st') = compute_jobs s \<and> usage_ledger_entries (ss_db st') = usage_ledger_entries s \<and>
     job_events (ss_db st') = job_events s \<and> distinct (map job_id (compute_jobs s)) \<and>
     (\<forall>jid \<in> set (ss_evaluated st'). \<exists>j \<in> set (compute_jobs s). job_id j = jid \<and> job_status j = ''queued'')"
    by (elim evaluate_candidateE) auto
qed simp

lemma run_scheduler_frame:
  assumes "lease_authority s" "run_scheduler X H E request_id request policy now s = Inr (s', r)"
  shows "jobs_evolve live_step s s'" "usage_ledger_entries s' = usage_ledger_entries s" "job_events s' = job_events s"
proof -
  let ?s1 = "fst (expire_stale_offers X (to_rfc3339 X now) s)"
  obtain st where st: "schedule_loop X H E (scheduler_run_of X request_id request policy now) (initial_sched_state ?s1) = Inr st"
    "s' = mark_evaluated (to_rfc3339 X now) (ss_evaluated st) (ss_db st)"
    using assms(2) by (rule run_scheduler_Inr)
  have dist: "distinct (map job_id (compute_jobs ?s1))"
    using assms(1) by (simp add: expire_stale_offers_keys lease_authority_def)
  note I = evaluates_queued.loop_invariant[OF st(1), of ?s1]
  have I: "compute_jobs (ss_db st) = compute_jobs ?s1" "usage_ledger_entries (ss_db st) = usage_ledger_entries ?s1"
    "job_events (ss_db st) = job_events ?s1"
    and q: "\<forall>jid \<in> set (ss_evaluated st). \<exists>j \<in> set (compute_jobs ?s1). job_id j = jid \<and> job_status j = ''queued''"
    using I dist by (auto simp: initial_sched_state_def)
  have "jobs_evolve (=) ?s1 s'"
  proof (rule jobs_evolve_update)
    show "compute_jobs s' = sql_update (\<lambda>j. job_id j \<in> set (ss_evaluated st))
        (\<lambda>j. j\<lparr>jr_scheduler_last_evaluated_at := Some (to_rfc3339 X now)\<rparr>) (compute_jobs ?s1)"
      using st(2) I(1) by (simp add: mark_evaluated_def sql_update_False)
    fix j assume "j \<in> set (compute_jobs ?s1)" "job_id j \<in> set (ss_evaluated st)"
    then have "job_status j = ''queued''" using q distinct_map_same[OF dist] by blast
    then show "job_evolves (=) j (j\<lparr>jr_scheduler_last_evaluated_at := Some (to_rfc3339 X now)\<rparr>)"
      by (simp add: job_evolves_def contract_frame not_terminal)
  qed simp
  then show "jobs_evolve live_step s s'" by (rule jobs_evolve_trans[OF expire_evolves]) simp
  show "usage_ledger_entries s' = usage_ledger_entries s" "job_events s' = job_events s"
    using st(2) I(2,3) by (simp_all add: mark_evaluated_def expire_stale_offers_def Let_def)
qed

text \<open>Assignment and acceptance.\<close>

lemma withhold_assignment_frame:
  assumes "withhold_assignment rid auth lid jid failure codes now s = Inr s'"
  shows "jobs_evolve (=) s s'" "usage_ledger_entries s' = usage_ledger_entries s" "job_events s' = job_events s"
proof -
  show "jobs_evolve (=) s s'"
    by (rule jobs_evolve_update[OF withhold_assignment_Inr(4)[OF assms]])
      (auto simp: job_evolves_def contract_frame not_terminal)
  show "usage_ledger_entries s' = usage_ledger_entries s" "job_events s' = job_events s"
    using assms unfolding withhold_assignment_def Let_def by (auto split: if_split_asm)
qed

lemma assign_job_frame:
  assumes "assign_job X rid auth token now lid queued s = Inr (s', r)"
  shows "jobs_evolve live_step s s'" "usage_ledger_entries s' = usage_ledger_entries s" "job_events s' = job_events s"
proof -
  obtain credential and row :: job_row where s': "s' = insert_audit_event rid ''device'' (Some (as_device_id auth)) ''compute_job''
      (job_id row) ''job.assigned'' (assign_db X now lid credential queued s)"
    using assms by (rule assign_jobE)
  show "usage_ledger_entries s' = usage_ledger_entries s" "job_events s' = job_events s"
    by (simp_all add: s' assign_db_def)
  show "jobs_evolve live_step s s'"
  proof (rule jobs_evolve_update)
    show "compute_jobs s' = sql_update (assignable (job_id queued)) (assigned_row (to_rfc3339 X now) lid
         (sha256_hex X credential) (credential_expiry X now queued)) (compute_jobs s)"
      by (simp add: s' assign_db_def)
    fix j assume "assignable (job_id queued) j"
    then have "job_status j = ''queued''" by (simp add: assignable_def)
    then show "job_evolves live_step j (assigned_row (to_rfc3339 X now) lid (sha256_hex X credential)
        (credential_expiry X now queued) j)"
      by (simp add: job_evolves_def contract_frame not_terminal) (simp add: assigned_row_def live_stepI)
  qed simp
qed

lemma next_job_loop_frame:
  assumes "next_job_loop X H rid auth policy token now ls s = Inr (s', r)"
  shows "jobs_evolve live_step s s' \<and> usage_ledger_entries s' = usage_ledger_entries s \<and> job_events s' = job_events s"
  using assms
proof (induction ls arbitrary: s)
  case Nil
  then show ?case by (auto intro!: jobs_evolve_refl)
next
  case (Cons l ls)
  obtain queued where q: "locked_job s (lease_job_id l) = Inr queued" using Cons.prems by (auto elim: bind_resE)
  consider
    (withheld) s1 failure codes where
      "withhold_assignment rid auth (lease_id l) (job_id queued) failure codes (to_rfc3339 X now) s = Inr s1"
      "next_job_loop X H rid auth policy token now ls s1 = Inr (s', r)"
  | (assigned) "assign_job X rid auth token now (lease_id l) queued s = Inr (s', r)"
    using Cons.prems q by (auto elim!: bind_resE split: if_splits)
  then show ?case
  proof cases
    case withheld
    note w = withhold_assignment_frame[OF withheld(1)]
    note ih = Cons.IH[OF withheld(2)]
    have "jobs_evolve live_step s s'"
      by (rule jobs_evolve_trans[OF w(1) conjunct1[OF ih]]) simp
    then show ?thesis using ih w(2,3) by simp
  next
    case assigned
    show ?thesis using assign_job_frame[OF assigned] by simp
  qed
qed

lemma next_job_frame:
  assumes "next_job_for_session X H locked rid auth policy token now s = Inr (s', r)"
  shows "jobs_evolve live_step s s' \<and> usage_ledger_entries s' = usage_ledger_entries s \<and> job_events s' = job_events s"
  using assms by (auto simp: next_job_for_session_def elim!: bind_resE dest!: next_job_loop_frame)

lemma withhold_acceptance_frame:
  assumes "withhold_acceptance rid auth job lease failure codes now s = Inr s'"
  shows "jobs_evolve live_step s s'" "usage_ledger_entries s' = usage_ledger_entries s" "job_events s' = job_events s"
proof -
  have c: "compute_jobs s' = sql_update (\<lambda>j. job_id j = job_id job \<and> job_status j = ''assigned''
         \<and> jr_assignment_lease_id j = Some (lease_id lease))
       (\<lambda>j. (requeued now j)\<lparr>job_accepted_at := None\<rparr>) (compute_jobs s)"
    and u: "usage_ledger_entries s' = usage_ledger_entries s" "job_events s' = job_events s"
    using assms unfolding withhold_acceptance_def Let_def by (auto elim!: bind_resE split: if_split_asm)
  show "usage_ledger_entries s' = usage_ledger_entries s" "job_events s' = job_events s" by (rule u)+
  show "jobs_evolve live_step s s'"
  proof (rule jobs_evolve_update[OF c])
    fix j :: job_row
    assume "job_id j = job_id job \<and> job_status j = ''assigned'' \<and> jr_assignment_lease_id j = Some (lease_id lease)"
    then have "job_evolves live_step j (requeued now j)" by (simp add: requeue_evolves)
    then show "job_evolves live_step j ((requeued now j)\<lparr>job_accepted_at := None\<rparr>)"
      using \<open>job_id j = job_id job \<and> _\<close> by (simp add: job_evolves_def job_contract_def not_terminal)
  qed simp
qed

lemma accept_assigned_frame:
  assumes "accept_assigned X rid auth request now job lease s = Inr (s', r)"
  shows "jobs_evolve live_step s s'" "usage_ledger_entries s' = usage_ledger_entries s" "job_events s' = job_events s"
proof -
  have c: "compute_jobs s' = sql_update (\<lambda>j. job_id j = job_id job \<and> job_status j = ''assigned'')
      (\<lambda>j. j\<lparr>job_status := ''accepted'', job_accepted_at := Some now,
         job_status_message := ar_status_message request, job_updated_at := now\<rparr>) (compute_jobs s)"
    and u: "usage_ledger_entries s' = usage_ledger_entries s" "job_events s' = job_events s"
    using assms unfolding accept_assigned_def Let_def by (auto elim!: bind_resE split: if_split_asm)
  show "usage_ledger_entries s' = usage_ledger_entries s" "job_events s' = job_events s" by (rule u)+
  show "jobs_evolve live_step s s'"
    by (rule jobs_evolve_update[OF c]) (simp_all add: job_evolves_def job_contract_def not_terminal live_stepI)
qed

lemma accept_job_frame:
  "jobs_evolve live_step s (fst (accept_job X H rid auth jid request policy now s)) \<and>
   usage_ledger_entries (fst (accept_job X H rid auth jid request policy now s)) = usage_ledger_entries s \<and>
   job_events (fst (accept_job X H rid auth jid request policy now s)) = job_events s"
proof -
  have refl: "jobs_evolve live_step s s" by (rule jobs_evolve_refl) simp_all
  have w: "jobs_evolve live_step s (fst (withhold_and_refuse (withhold_acceptance rid auth job lease f cs t s) s)) \<and>
    usage_ledger_entries (fst (withhold_and_refuse (withhold_acceptance rid auth job lease f cs t s) s)) = usage_ledger_entries s \<and>
    job_events (fst (withhold_and_refuse (withhold_acceptance rid auth job lease f cs t s) s)) = job_events s" for job lease f cs t
    using refl withhold_acceptance_frame[of rid auth job lease f cs t s]
    by (auto simp: withhold_and_refuse_def split: sum.split)
  have a: "jobs_evolve live_step s (fst (commit (accept_assigned X rid auth request t job lease s) s)) \<and>
    usage_ledger_entries (fst (commit (accept_assigned X rid auth request t job lease s) s)) = usage_ledger_entries s \<and>
    job_events (fst (commit (accept_assigned X rid auth request t job lease s) s)) = job_events s" for job lease t
    using refl accept_assigned_frame[of X rid auth request t job lease s] by (auto simp: commit_state split: sum.split)
  show ?thesis using w a refl unfolding accept_job_def Let_def by (simp split: option.split sum.split prod.split)
qed

text \<open>Events.\<close>

lemma event_next_statusD: "event_next_status ev = Some st \<Longrightarrow> st \<in> {''provisioning'', ''running'', ''uploading''}"
  by (auto simp: event_next_status_def split: if_split_asm)

lemma record_job_event_frame:
  assumes inv: "lease_authority s" and r: "record_job_event X uuid auth jid request now s = Inr (s', e, r)"
  shows "jobs_evolve live_step s s'" "usage_ledger_entries s' = usage_ledger_entries s"
    "job_events s' = job_events s @ [e]" "event_event_type e = er_event_type request"
    "validate_job_event_request X request = Inr ()"
    "\<forall>e' \<in> set (job_events s). (event_job_id e', event_sequence e') \<noteq> (event_job_id e, event_sequence e)"
proof -
  obtain job :: job_row and metadata events where a: "job \<in> set (compute_jobs s)" "job_id job = jid"
    "executing_status (job_status job)" "validate_job_event_request X request = Inr ()"
    "e = event_record uuid job request metadata (to_rfc3339 X now)" "insert_event e (job_events s) = Inr events"
    "s' = s\<lparr>job_events := events, compute_jobs := apply_event_state_update jid request (to_rfc3339 X now) (compute_jobs s),
       job_leases := mark_lease_progress_for_job jid (er_event_type request) (to_rfc3339 X now) (job_leases s)\<rparr>"
    using r by (rule record_job_eventE) (rule that)
  show "validate_job_event_request X request = Inr ()" by (rule a(4))
  show "usage_ledger_entries s' = usage_ledger_entries s" using a(7) by simp
  show "event_event_type e = er_event_type request" using a(5) by (simp add: event_record_def)
  have ev: "events = job_events s @ [e]" "\<not> list_ex (\<lambda>r. event_id r = event_id e
          \<or> (event_job_id r = event_job_id e \<and> event_sequence r = event_sequence e)) (job_events s)"
    using a(6) by (auto simp: insert_event_def split: if_split_asm)
  show "job_events s' = job_events s @ [e]" using a(7) ev(1) by simp
  show "\<forall>e' \<in> set (job_events s). (event_job_id e', event_sequence e') \<noteq> (event_job_id e, event_sequence e)"
    using ev(2) by (auto simp: list_ex_iff)
  show "jobs_evolve live_step s s'"
  proof (rule jobs_evolve_update)
    show "compute_jobs s' = sql_update (\<lambda>j. job_id j = jid) (event_update request (to_rfc3339 X now)) (compute_jobs s)"
      using a(7) by (simp add: apply_event_state_update_eq)
    fix j assume "j \<in> set (compute_jobs s)" "job_id j = jid"
    then have j: "executing_status (job_status j)"
      using authority_job_prop[OF inv, of jid "\<lambda>k. executing_status (job_status k)" j] a(1-3) by blast
    have "live_step (job_status j) (job_status (event_update request (to_rfc3339 X now) j))"
      using live_stepI(4)[OF j event_next_statusD] by (simp split: option.split)
    then show "job_evolves live_step j (event_update request (to_rfc3339 X now) j)"
      using not_terminal(3)[OF j] by (simp only: job_evolves_def contract_frame simp_thms)
  qed simp
qed

text \<open>The end of a job.\<close>

lemma finish_evolves:
  assumes inv: "lease_authority s" and job: "job \<in> set (compute_jobs s)" "job_id job = jid" "P (job_status job)"
    and c: "compute_jobs s' = sql_update (\<lambda>j. job_id j = jid) f (compute_jobs s)"
    and f: "\<And>j. P (job_status j) \<Longrightarrow> \<not> is_terminal_status (job_status j) \<and> lifecycle (job_status j) (job_status (f j))"
      "\<And>j. job_contract (f j) = job_contract j"
  shows "jobs_evolve lifecycle s s'"
proof (rule jobs_evolve_update[OF c])
  fix j assume j: "j \<in> set (compute_jobs s)" "job_id j = jid"
  have "P (job_status j)" by (rule authority_job_prop[OF inv _ j]) (use job in blast)
  then show "job_evolves lifecycle j (f j)" using f by (simp add: job_evolves_def)
qed simp

lemma lifecycle_end:
  "executing_status a \<Longrightarrow> b \<in> {''succeeded'', ''failed''} \<Longrightarrow> lifecycle a b"
  "\<not> is_terminal_status a \<Longrightarrow> lifecycle a ''cancelled''"
  by (auto simp: lifecycle_def)

end
