(* ===== verification/Job_System.thy ===== *)
theory Job_System
  imports Job_Lifecycle
begin

text \<open>
  The job subsystem as a transition system: one step is one transaction of a handler of job control, the
  scheduler, the artifact store, metering or the customer's cancellation, or a change the rest of the
  control plane makes to its own tables. Every interleaving of transactions keeps the invariant of jobs,
  leases and the usage ledger, and every step moves each job along the job life cycle or leaves it alone.
\<close>

section \<open>The invariant\<close>

text \<open>
  Terminal jobs and finalised usage entries correspond: every terminal job has an entry with its status,
  and every finalised entry is that of a terminal job.
\<close>

definition metered :: "db \<Rightarrow> bool" where
  "metered s \<longleftrightarrow> usage_keyed s \<and>
     (\<forall>j \<in> set (compute_jobs s). is_terminal_status (job_status j) \<longrightarrow>
        (\<exists>e \<in> set (usage_ledger_entries s). usage_key e = (job_id j, ENTRY_TYPE_JOB_USAGE_FINALIZED) \<and>
           ur_job_status (ul_receipt e) = job_status j)) \<and>
     (\<forall>e \<in> set (usage_ledger_entries s). ul_entry_type e = ENTRY_TYPE_JOB_USAGE_FINALIZED \<longrightarrow>
        (\<exists>j \<in> set (compute_jobs s). job_id j = ur_job_id (ul_receipt e) \<and> is_terminal_status (job_status j)))"

text \<open>The events of a job are numbered without repetition and have the types the API admits.\<close>

definition events_ok :: "db \<Rightarrow> bool" where
  "events_ok s \<longleftrightarrow> distinct (map (\<lambda>e. (event_job_id e, event_sequence e)) (job_events s)) \<and>
     (\<forall>e \<in> set (job_events s). event_event_type e \<in> {''provisioning'', ''started'', ''running'', ''uploading'',
        ''progress'', ''log'', ''cleanup_completed''})"

definition no_retries :: "db \<Rightarrow> bool" where
  "no_retries s \<longleftrightarrow> (\<forall>e \<in> set (usage_ledger_entries s). ur_retry_count (ul_receipt e) = 0)"

definition job_inv :: "db \<Rightarrow> bool" where
  "job_inv s \<longleftrightarrow> lease_authority s \<and> metered s \<and> events_ok s \<and> no_retries s"

text \<open>Jobs follow the life cycle and new jobs are queued.\<close>

definition jobs_follow :: "(string \<Rightarrow> string \<Rightarrow> bool) \<Rightarrow> db \<Rightarrow> db \<Rightarrow> bool" where
  "jobs_follow R s s' \<longleftrightarrow> (\<exists>kept new. compute_jobs s' = kept @ new \<and>
     list_all2 (job_evolves R) (compute_jobs s) kept \<and> (\<forall>j \<in> set new. job_status j = ''queued''))"

lemma jobs_followI: "jobs_evolve R s s' \<Longrightarrow> jobs_follow R s s'"
  unfolding jobs_follow_def by (intro exI[of _ "compute_jobs s'"] exI[of _ "[]"]) simp

lemma jobs_follow_add:
  assumes "compute_jobs s' = compute_jobs s @ [row]" "job_status row = ''queued''" "\<And>a. R a a"
  shows "jobs_follow R s s'"
  unfolding jobs_follow_def assms(1) using assms(2,3)
  by (intro exI[of _ "compute_jobs s"] exI[of _ "[row]"]) (auto intro!: list.rel_refl_strong job_evolves_refl)

lemma jobs_follow_mono: "jobs_follow R s s' \<Longrightarrow> (\<And>a b. R a b \<Longrightarrow> Q a b) \<Longrightarrow> jobs_follow Q s s'"
  unfolding jobs_follow_def job_evolves_def by (blast intro: list_all2_mono)

lemma jobs_follow_old:
  assumes "jobs_follow R s s'" "j \<in> set (compute_jobs s)"
  obtains j' where "j' \<in> set (compute_jobs s')" "job_evolves R j j'"
proof -
  obtain kept new where k: "compute_jobs s' = kept @ new" "list_all2 (job_evolves R) (compute_jobs s) kept"
    using assms(1) unfolding jobs_follow_def by blast
  obtain j' where "j' \<in> set kept" "job_evolves R j j'" using list_all2_find1[OF k(2) assms(2)] by blast
  then show ?thesis using that[of j'] k(1) by simp
qed

lemma jobs_follow_new:
  assumes "jobs_follow R s s'" "j' \<in> set (compute_jobs s')"
  obtains (kept) j where "j \<in> set (compute_jobs s)" "job_evolves R j j'" | (new) "job_status j' = ''queued''"
proof -
  obtain kept new where k: "compute_jobs s' = kept @ new" "list_all2 (job_evolves R) (compute_jobs s) kept"
      "\<forall>j \<in> set new. job_status j = ''queued''"
    using assms(1) unfolding jobs_follow_def by blast
  from assms(2) k(1) consider "j' \<in> set kept" | "j' \<in> set new" by auto
  then show ?thesis
  proof cases
    case 1
    then show ?thesis using list_all2_find2[OF k(2)] that(1) by blast
  next
    case 2
    then show ?thesis using that(2) k(3) by blast
  qed
qed

lemma contract_id: "job_contract j' = job_contract j \<Longrightarrow> job_id j' = job_id j"
  unfolding job_contract_def by (drule arg_cong[of _ _ job_id]) simp

lemma live_metered:
  assumes f: "jobs_follow live_step s s'" and u: "usage_ledger_entries s' = usage_ledger_entries s" and m: "metered s"
  shows "metered s'"
proof -
  have old: "j \<in> set (compute_jobs s)" if j: "j \<in> set (compute_jobs s')" "is_terminal_status (job_status j)" for j
    using f j(1)
  proof (cases rule: jobs_follow_new)
    case (kept k)
    then have "live_step (job_status k) (job_status j)" by (simp only: job_evolves_def)
    then have "job_status k = job_status j" using j(2) unfolding live_step_def by blast
    then have "j = k" using kept(2) j(2) unfolding job_evolves_def by metis
    then show ?thesis using kept(1) by simp
  next
    case new
    then show ?thesis using j(2) not_terminal by simp
  qed
  moreover have "j \<in> set (compute_jobs s')" if j: "j \<in> set (compute_jobs s)" "is_terminal_status (job_status j)" for j
    using jobs_follow_old[OF f j(1)] j(2) by (auto simp: job_evolves_def)
  ultimately show ?thesis using m u unfolding metered_def usage_keyed_def by simp blast
qed

lemma append_usage_new:
  assumes "append_usage_ledger_for_job X U uuid rid jid now s = Inr (s', e, False)" "usage_keyed s"
  obtains src where "load_metered_job_source X s jid = Inr src" "e = new_usage_entry X U uuid now src"
  using assms(1)
proof (rule append_usageE)
  fix src rows
  assume src: "meterable_source X s jid = Inr src"
    and ins: "insert_usage_entry (new_usage_entry X U uuid now src) (usage_ledger_entries s) = Inr (rows, \<not> False)"
    and s': "s' = (if False then s\<lparr>usage_ledger_entries := rows\<rparr> else insert_audit_event rid ''system'' None
        ''usage_ledger_entry'' (ul_entry_id e) ''usage.finalized'' (s\<lparr>usage_ledger_entries := rows\<rparr>))"
  have "usage_ledger_entries s' = usage_ledger_entries s @ [e]" using append_usage_entries[OF assms] by simp
  moreover have "rows = usage_ledger_entries s @ [new_usage_entry X U uuid now src]"
    using insert_usage_entry_ok[OF ins assms(2)[unfolded usage_keyed_def]] by simp
  ultimately have "e = new_usage_entry X U uuid now src" using s' by simp
  then show ?thesis using that meterable_source_ok[OF src] by blast
qed

text \<open>Finishing a live job writes its one usage entry.\<close>

lemma finish_metered:
  assumes inv: "lease_authority s" and m: "metered s"
    and job: "job \<in> set (compute_jobs s)" "job_id job = jid" "\<not> is_terminal_status (job_status job)"
    and app: "append_usage_ledger_for_job X U uuid rid jid now s2 = Inr (s3, e, dup)"
    and s2: "compute_jobs s2 = sql_update (\<lambda>j. job_id j = jid) f (compute_jobs s)"
      "usage_ledger_entries s2 = usage_ledger_entries s" "\<And>j. job_id (f j) = job_id j"
    and s': "compute_jobs s' = compute_jobs s2" "usage_ledger_entries s' = usage_ledger_entries s3"
  shows "metered s'" "usage_ledger_entries s' = usage_ledger_entries s @ [e]"
    "\<exists>src. load_metered_job_source X s2 jid = Inr src \<and> e = new_usage_entry X U uuid now src"
proof -
  have keyed: "usage_keyed s2" using m s2(2) by (simp add: metered_def usage_keyed_def)
  note ent = append_usage_entries[OF app keyed]
  have dup: "\<not> dup"
  proof
    assume dup
    then have "e \<in> set (usage_ledger_entries s)" using ent s2(2) by (metis append_Nil2)
    then obtain k where "k \<in> set (compute_jobs s)" "job_id k = jid" "is_terminal_status (job_status k)"
      using ent m unfolding metered_def by metis
    then show False using authority_job_prop[OF inv, of jid "\<lambda>k. is_terminal_status (job_status k)" job] job by blast
  qed
  from dup app obtain src where src: "load_metered_job_source X s2 jid = Inr src" "e = new_usage_entry X U uuid now src"
    using append_usage_new[OF _ keyed] by (metis (full_types))
  then show "\<exists>src. load_metered_job_source X s2 jid = Inr src \<and> e = new_usage_entry X U uuid now src" by blast
  show ledger: "usage_ledger_entries s' = usage_ledger_entries s @ [e]" using ent dup s2(2) s'(2) by simp
  obtain j2 where j2: "j2 \<in> set (compute_jobs s2)" "job_id j2 = jid" "job_status j2 = ur_job_status (ul_receipt e)"
    using metered_source_key[OF src(1)] src(2) by (auto simp: new_usage_entry_def Let_def receipt_key)
  have term2: "is_terminal_status (job_status j2)"
    using app
  proof (rule append_usageE)
    fix src' assume "meterable_source X s2 jid = Inr src'"
    then show ?thesis using meterable_source_ok[of X s2 jid src'] src j2(3)
      by (auto simp: new_usage_entry_def Let_def receipt_key)
  qed
  have ids: "distinct (map job_id (compute_jobs s2))" using inv s2(1,3) by (simp add: lease_authority_def)
  have kept: "j \<in> set (compute_jobs s2)" if "j \<in> set (compute_jobs s)" "job_id j \<noteq> jid" for j
    using that sql_updateI[OF that(1), of "\<lambda>j. job_id j = jid" f] by (simp add: s2(1))
  have other: "j \<in> set (compute_jobs s)" if "j \<in> set (compute_jobs s2)" "job_id j \<noteq> jid" for j
    using that s2(3) by (auto simp: s2(1) in_sql_update_iff split: if_split_asm)
  have "\<exists>d \<in> set (usage_ledger_entries s'). usage_key d = (job_id j, ENTRY_TYPE_JOB_USAGE_FINALIZED) \<and>
      ur_job_status (ul_receipt d) = job_status j"
    if j: "j \<in> set (compute_jobs s')" "is_terminal_status (job_status j)" for j
  proof (cases "job_id j = jid")
    case True
    then have "j = j2" using distinct_map_same[OF ids, of j j2] j(1) j2(1,2) s'(1) by simp
    then show ?thesis using True ent j2(3) ledger by (auto simp: usage_key_def)
  next
    case False
    then show ?thesis using other[of j] j m s'(1) ledger unfolding metered_def by auto
  qed
  moreover have "\<exists>j \<in> set (compute_jobs s'). job_id j = ur_job_id (ul_receipt d) \<and> is_terminal_status (job_status j)"
    if d: "d \<in> set (usage_ledger_entries s')" "ul_entry_type d = ENTRY_TYPE_JOB_USAGE_FINALIZED" for d
  proof (cases "d = e")
    case True
    then show ?thesis using ent j2 term2 s'(1) by auto
  next
    case False
    then obtain k where k: "k \<in> set (compute_jobs s)" "job_id k = ur_job_id (ul_receipt d)" "is_terminal_status (job_status k)"
      using d m ledger unfolding metered_def by auto
    then have "job_id k \<noteq> jid"
      using authority_job_prop[OF inv, of jid "\<lambda>k. is_terminal_status (job_status k)" job] job by blast
    then show ?thesis using kept[OF k(1)] k s'(1) by auto
  qed
  moreover have "usage_keyed s'" using conjunct1[OF ent] unfolding usage_keyed_def s'(2) .
  ultimately show "metered s'" unfolding metered_def by blast
qed

lemma retry_not_admitted: "ev \<in> {''provisioning'', ''started'', ''running'', ''uploading'', ''progress'', ''log'',
    ''cleanup_completed''} \<Longrightarrow> ev \<notin> {''retry'', ''retried'', ''retrying''}"
  by auto

lemma events_ok_no_retry:
  assumes ev: "events_ok s" and src: "load_metered_job_source X s jid = Inr src" "e = new_usage_entry X U uuid now src"
  shows "ur_retry_count (ul_receipt e) = 0"
proof -
  have "\<not> (event_job_id d = i \<and> event_event_type d \<in> {''retry'', ''retried'', ''retrying''})" if "d \<in> set (job_events s)" for d i
    using retry_not_admitted[of "event_event_type d"] ev that unfolding events_ok_def by blast
  then have "sql_count (\<lambda>e. event_job_id e = i \<and> event_event_type e \<in> {''retry'', ''retried'', ''retrying''}) (job_events s) = 0" for i
    unfolding sql_count_def by (metis (no_types, lifting) filter_False list.size(3))
  then have "ms_retry_count src = 0" using src(1) unfolding load_metered_job_source_def Let_def by (elim bind_resE) auto
  then show ?thesis using src(2) by (simp add: new_usage_entry_def build_job_usage_receipt_def Let_def split_beta)
qed

lemma events_ok_cong:
  assumes "job_events s' = job_events s" "events_ok s"
  shows "events_ok s'"
  using assms(2) unfolding events_ok_def assms(1) .

section \<open>The contract of a handler\<close>

text \<open>
  A handler of the job tables keeps the invariant and moves every job along the life cycle. It does so
  because it is one of two kinds: a live handler ends no job and leaves the usage ledger alone, and an
  ending handler finishes one live job and meters it in the same transaction.
\<close>

definition new_event :: "db \<Rightarrow> JobEventRecord \<Rightarrow> bool" where
  "new_event s e \<longleftrightarrow> event_event_type e \<in> {''provisioning'', ''started'', ''running'', ''uploading'',
        ''progress'', ''log'', ''cleanup_completed''} \<and>
     (\<forall>e' \<in> set (job_events s). (event_job_id e', event_sequence e') \<noteq> (event_job_id e, event_sequence e))"

locale job_handler =
  fixes handler :: "db \<Rightarrow> db \<Rightarrow> bool"
  assumes keeps_inv: "job_inv s \<Longrightarrow> handler s s' \<Longrightarrow> job_inv s'"
    and follows: "job_inv s \<Longrightarrow> handler s s' \<Longrightarrow> jobs_follow lifecycle s s'"

locale live_handler =
  fixes handler :: "db \<Rightarrow> db \<Rightarrow> bool"
  assumes keeps_authority: "lease_authority s \<Longrightarrow> handler s s' \<Longrightarrow> lease_authority s'"
    and follows_live: "lease_authority s \<Longrightarrow> handler s s' \<Longrightarrow> jobs_follow live_step s s'"
    and keeps_ledger: "lease_authority s \<Longrightarrow> handler s s' \<Longrightarrow> usage_ledger_entries s' = usage_ledger_entries s"
    and adds_events: "lease_authority s \<Longrightarrow> handler s s' \<Longrightarrow>
      job_events s' = job_events s \<or> (\<exists>e. new_event s e \<and> job_events s' = job_events s @ [e])"
begin

lemma keeps_job_inv:
  assumes "job_inv s" "handler s s'"
  shows "job_inv s'"
proof -
  have a: "lease_authority s" using assms(1) by (simp add: job_inv_def)
  have "events_ok s'"
    using adds_events[OF a assms(2)] assms(1) unfolding job_inv_def
  proof (elim disjE exE conjE)
    fix e assume e: "new_event s e" "job_events s' = job_events s @ [e]" "events_ok s"
    then have "(event_job_id e, event_sequence e) \<notin> (\<lambda>e. (event_job_id e, event_sequence e)) ` set (job_events s)"
      unfolding new_event_def by force
    then show ?thesis using e unfolding events_ok_def new_event_def by (simp only: map_append distinct_append) simp
  qed (simp add: events_ok_def)
  moreover have "metered s'"
    using assms(1) by (intro live_metered[OF follows_live[OF a assms(2)] keeps_ledger[OF a assms(2)]]) (simp add: job_inv_def)
  ultimately show ?thesis
    using assms(1) keeps_authority[OF a assms(2)] keeps_ledger[OF a assms(2)] by (simp add: job_inv_def no_retries_def)
qed

lemma follows_lifecycle: "job_inv s \<Longrightarrow> handler s s' \<Longrightarrow> jobs_follow lifecycle s s'"
  using follows_live jobs_follow_mono[of live_step s s' lifecycle] by (simp add: job_inv_def live_step_def)

end

sublocale live_handler \<subseteq> job_handler handler
  by unfold_locales (fact keeps_job_inv follows_lifecycle)+

text \<open>What an ending handler did to the job tables.\<close>

definition ended_job :: "(job_row \<Rightarrow> job_row) \<Rightarrow> job_row \<Rightarrow> db \<Rightarrow> db \<Rightarrow> bool" where
  "ended_job f job s s' \<longleftrightarrow> (\<exists>X U uuid rid now s2 s3 e dup.
     append_usage_ledger_for_job X U uuid rid (job_id job) now s2 = Inr (s3, e, dup) \<and>
     compute_jobs s2 = sql_update (\<lambda>j. job_id j = job_id job) f (compute_jobs s) \<and>
     usage_ledger_entries s2 = usage_ledger_entries s \<and> job_events s2 = job_events s \<and>
     compute_jobs s' = compute_jobs s2 \<and> usage_ledger_entries s' = usage_ledger_entries s3 \<and>
     job_events s' = job_events s)"

locale ending_handler =
  fixes handler :: "db \<Rightarrow> db \<Rightarrow> bool"
  assumes keeps_authority: "lease_authority s \<Longrightarrow> handler s s' \<Longrightarrow> lease_authority s'"
    and ends: "lease_authority s \<Longrightarrow> handler s s' \<Longrightarrow> s' = s \<or>
      (\<exists>job f. job \<in> set (compute_jobs s) \<and> \<not> is_terminal_status (job_status job) \<and>
        lifecycle (job_status job) (job_status (f job)) \<and> (\<forall>j. job_contract (f j) = job_contract j) \<and>
        ended_job f job s s')"
begin

lemma keeps_job_inv:
  assumes inv: "job_inv s" and h: "handler s s'"
  shows "job_inv s'"
proof -
  have a: "lease_authority s" and m: "metered s" and ev: "events_ok s" and nr: "no_retries s"
    using inv by (simp_all add: job_inv_def)
  from ends[OF a h] show ?thesis
  proof (elim disjE exE conjE)
    fix job f
    assume job: "job \<in> set (compute_jobs s)" "\<not> is_terminal_status (job_status job)"
      "\<forall>j. job_contract (f j) = job_contract j" and e: "ended_job f job s s'"
    obtain X U uuid rid now s2 s3 e dup where d:
      "append_usage_ledger_for_job X U uuid rid (job_id job) now s2 = Inr (s3, e, dup)"
      "compute_jobs s2 = sql_update (\<lambda>j. job_id j = job_id job) f (compute_jobs s)"
      "usage_ledger_entries s2 = usage_ledger_entries s" "job_events s2 = job_events s"
      "compute_jobs s' = compute_jobs s2" "usage_ledger_entries s' = usage_ledger_entries s3"
      "job_events s' = job_events s"
      using e unfolding ended_job_def by blast
    note fm = finish_metered[OF a m job(1) refl job(2) d(1,2,3) contract_id[OF spec[OF job(3)]] d(5,6)]
    have "ur_retry_count (ul_receipt e) = 0"
      using fm(3) events_ok_no_retry[OF events_ok_cong[OF d(4) ev]] by blast
    then have "no_retries s'" using nr fm(2) by (auto simp: no_retries_def)
    moreover have "events_ok s'" by (rule events_ok_cong[OF d(7) ev])
    ultimately show ?thesis using keeps_authority[OF a h] fm(1) by (simp add: job_inv_def)
  qed (use inv in simp)
qed

lemma follows_lifecycle:
  assumes inv: "job_inv s" and h: "handler s s'"
  shows "jobs_follow lifecycle s s'"
proof -
  have a: "lease_authority s" using inv by (simp add: job_inv_def)
  from ends[OF a h] show ?thesis
  proof (elim disjE exE conjE)
    fix job f
    assume job: "job \<in> set (compute_jobs s)" "\<not> is_terminal_status (job_status job)"
      "lifecycle (job_status job) (job_status (f job))" "\<forall>j. job_contract (f j) = job_contract j"
      and e: "ended_job f job s s'"
    have c: "compute_jobs s' = sql_update (\<lambda>j. job_id j = job_id job) f (compute_jobs s)"
      using e unfolding ended_job_def by auto
    have "jobs_evolve lifecycle s s'"
    proof (rule jobs_evolve_update[OF c])
      fix j assume "j \<in> set (compute_jobs s)" "job_id j = job_id job"
      then have "j = job" using a job(1) by (metis distinct_map_same lease_authority_def)
      then show "job_evolves lifecycle j (f j)" using job unfolding job_evolves_def by blast
    qed simp
    then show ?thesis by (rule jobs_followI)
  qed (auto intro!: jobs_followI jobs_evolve_refl)
qed

end

sublocale ending_handler \<subseteq> job_handler handler
  by unfold_locales (fact keeps_job_inv follows_lifecycle)+

section \<open>The handlers keep the contract\<close>

text \<open>\<open>create_job_idempotently\<close>.\<close>

interpretation creating: live_handler "\<lambda>s s'. \<exists>uuid c now out. create_job_idempotently X uuid c now s = Inr (s', out)" for X
proof
  fix s s' assume inv: "lease_authority s" and h: "\<exists>uuid c now out. create_job_idempotently X uuid c now s = Inr (s', out)"
  show "lease_authority s'" using h create_job_authority[OF inv] by blast
  from h obtain uuid c now out where "create_job_idempotently X uuid c now s = Inr (s', out)" by blast
  then have "jobs_follow live_step s s' \<and> usage_ledger_entries s' = usage_ledger_entries s \<and> job_events s' = job_events s"
  proof (cases rule: create_job_idempotentlyE)
    case (created row ikr)
    have "compute_jobs s' = compute_jobs s @ [row]" "job_status row = ''queued''"
      using created(2,5) by (auto simp: new_job_row_def)
    then show ?thesis using created(5) by (simp add: jobs_follow_add)
  qed (auto intro!: jobs_followI jobs_evolve_refl)
  then show "jobs_follow live_step s s'" "usage_ledger_entries s' = usage_ledger_entries s"
    "job_events s' = job_events s \<or> (\<exists>e. new_event s e \<and> job_events s' = job_events s @ [e])" by blast+
qed

text \<open>\<open>run_scheduler\<close>.\<close>

interpretation scheduling: live_handler
  "\<lambda>s s'. \<exists>request_id request now r. run_scheduler X H E request_id request policy now s = Inr (s', r)" for X H E policy
  by unfold_locales
    (blast intro: run_scheduler_authority jobs_followI run_scheduler_frame run_scheduler_frame(3) [THEN disjI1])+

text \<open>\<open>next_job_for_session\<close>.\<close>

interpretation offering: live_handler
  "\<lambda>s s'. \<exists>locked rid auth token now r. next_job_for_session X H locked rid auth policy token now s = Inr (s', r)" for X H policy
  by unfold_locales (blast intro: next_job_authority jobs_followI dest: next_job_frame)+

text \<open>\<open>accept_job\<close>, whose refusal commits the withheld offer.\<close>

interpretation accepting_job: live_handler
  "\<lambda>s s'. \<exists>rid auth jid request now. s' = fst (accept_job X H rid auth jid request policy now s)" for X H policy
  by (unfold_locales; elim exE; hypsubst) (simp_all add: accept_job_authority jobs_followI accept_job_frame)

text \<open>\<open>record_job_event\<close>.\<close>

lemma record_job_event_new:
  assumes "lease_authority s" "record_job_event X uuid auth jid request now s = Inr (s', e, r)"
  shows "new_event s e \<and> job_events s' = job_events s @ [e]"
proof -
  note f = record_job_event_frame[OF assms]
  have "er_event_type request \<in> {''provisioning'', ''started'', ''running'', ''uploading'',
        ''progress'', ''log'', ''cleanup_completed''}"
    using f(5) unfolding validate_job_event_request_def by (elim bind_resE) (simp only: ensure_eq_Inr)
  then show ?thesis using f(3,4,6) unfolding new_event_def by metis
qed

interpretation recording: live_handler
  "\<lambda>s s'. \<exists>uuid auth jid request now e r. record_job_event X uuid auth jid request now s = Inr (s', e, r)" for X
  by unfold_locales
    (blast intro: record_job_event_authority jobs_followI record_job_event_frame dest: record_job_event_new)+

text \<open>\<open>record_job_artifact_upload\<close> and the changes other parts make to their own tables.\<close>

definition same_job_tables :: "db \<Rightarrow> db \<Rightarrow> bool" where
  "same_job_tables s s' \<longleftrightarrow> compute_jobs s' = compute_jobs s \<and> job_leases s' = job_leases s \<and>
     job_events s' = job_events s \<and> usage_ledger_entries s' = usage_ledger_entries s"

interpretation other_tables: live_handler same_job_tables
  by unfold_locales (auto simp: same_job_tables_def lease_authority_def intro!: jobs_followI jobs_evolve_refl)

lemma upload_same_tables:
  "record_job_artifact_upload X jid aid credential sha size_bytes ct now s = Inr (s', a) \<Longrightarrow> same_job_tables s s'"
  unfolding record_job_artifact_upload_def same_job_tables_def by (elim bind_resE) auto

text \<open>The insertion of a customer's job, queued and unassigned.\<close>

definition placed_job :: "job_row \<Rightarrow> db \<Rightarrow> bool" where
  "placed_job row s \<longleftrightarrow> job_status row = ''queued'' \<and> jr_assignment_lease_id row = None \<and>
     jr_job_credential_hash row = None \<and> jr_job_credential_expires_at row = None \<and>
     (\<forall>k \<in> set (compute_jobs s). job_id k \<noteq> job_id row)"

interpretation placing: live_handler
  "\<lambda>s s'. \<exists>row. placed_job row s \<and> same_job_tables (s\<lparr>compute_jobs := compute_jobs s @ [row]\<rparr>) s'"
proof
  fix s s' assume inv: "lease_authority s"
    and h: "\<exists>row. placed_job row s \<and> same_job_tables (s\<lparr>compute_jobs := compute_jobs s @ [row]\<rparr>) s'"
  from h obtain row where row: "placed_job row s" and s': "same_job_tables (s\<lparr>compute_jobs := compute_jobs s @ [row]\<rparr>) s'" by blast
  have "lease_authority (s\<lparr>compute_jobs := compute_jobs s @ [row]\<rparr>)"
    using row by (intro authority_new_job[OF inv]) (simp_all add: placed_job_def)
  then show "lease_authority s'" using s' by (simp add: same_job_tables_def lease_authority_def)
  show "jobs_follow live_step s s'"
    using s' row by (intro jobs_follow_add[of s' s row]) (simp_all add: same_job_tables_def placed_job_def)
  show "usage_ledger_entries s' = usage_ledger_entries s"
    "job_events s' = job_events s \<or> (\<exists>e. new_event s e \<and> job_events s' = job_events s @ [e])"
    using s' by (simp_all add: same_job_tables_def)
qed

lemma finish_job_ended:
  assumes "finish_job X U uuid rid (job_id job) now f status failure
     (insert_audit_event rid actor aid entity eid event) s = Inr (s', r)"
  shows "ended_job f job s s'"
  using assms
proof (rule finish_jobE)
  fix s2 s3 e dup
  assume "append_usage_ledger_for_job X U uuid rid (job_id job) now s2 = Inr (s3, e, dup)"
    "compute_jobs s2 = sql_update (\<lambda>j. job_id j = job_id job) f (compute_jobs s)"
    "usage_ledger_entries s2 = usage_ledger_entries s" "job_events s2 = job_events s"
    "compute_jobs s' = compute_jobs s2" "job_events s' = job_events s"
    "usage_ledger_entries s' = usage_ledger_entries s3"
  then show ?thesis unfolding ended_job_def by blast
qed simp_all

text \<open>\<open>submit_job_result\<close>.\<close>

interpretation submitting_result: ending_handler
  "\<lambda>s s'. \<exists>uuid rid auth jid request now r. submit_job_result X U uuid rid auth jid request now s = Inr (s', r)" for X U
proof
  fix s s' assume inv: "lease_authority s"
    and h: "\<exists>uuid rid auth jid request now r. submit_job_result X U uuid rid auth jid request now s = Inr (s', r)"
  show "lease_authority s'" using h submit_job_result_authority[OF inv] by blast
  from h obtain uuid rid auth jid request now r where "submit_job_result X U uuid rid auth jid request now s = Inr (s', r)" by blast
  then show "s' = s \<or> (\<exists>job f. job \<in> set (compute_jobs s) \<and> \<not> is_terminal_status (job_status job) \<and>
        lifecycle (job_status job) (job_status (f job)) \<and> (\<forall>j. job_contract (f j) = job_contract j) \<and>
        ended_job f job s s')"
  proof (rule submit_job_resultE)
    fix job metrics
    assume job: "job \<in> set (compute_jobs s)" "job_id job = jid" "executing_status (job_status job)"
      "rr_status request \<in> {''succeeded'', ''failed''}"
      and f: "finish_job X U uuid rid jid (to_rfc3339 X now) (finish_result request metrics (to_rfc3339 X now))
       (rr_status request) (rr_error_message request)
       (insert_audit_event rid ''device'' (Some (as_device_id auth)) ''compute_job'' jid
         (if rr_status request = ''succeeded'' then ''job.succeeded'' else ''job.failed'')) s = Inr (s', r)"
    have "job_status (finish_result request metrics (to_rfc3339 X now) job) = rr_status request" by (simp add: finish_result_def)
    then have "lifecycle (job_status job) (job_status (finish_result request metrics (to_rfc3339 X now) job))"
      using lifecycle_end(1)[OF job(3,4)] by simp
    then show ?thesis
      using finish_job_ended[OF f[folded job(2)]] job(1) not_terminal(3)[OF job(3)] contract_frame(4) by blast
  qed
qed

text \<open>\<open>cancel_job\<close>.\<close>

lemma finish_cancelled_status: "job_status (finish_cancelled request now j) = ''cancelled''"
  by (simp add: finish_cancelled_def)

interpretation cancelling_job: ending_handler
  "\<lambda>s s'. \<exists>uuid rid jid request now r. cancel_job X U uuid rid jid request now s = Inr (s', r)" for X U
proof
  fix s s' assume inv: "lease_authority s"
    and h: "\<exists>uuid rid jid request now r. cancel_job X U uuid rid jid request now s = Inr (s', r)"
  show "lease_authority s'" using h cancel_job_authority[OF inv] by blast
  from h obtain uuid rid jid request now r where "cancel_job X U uuid rid jid request now s = Inr (s', r)" by blast
  then show "s' = s \<or> (\<exists>job f. job \<in> set (compute_jobs s) \<and> \<not> is_terminal_status (job_status job) \<and>
        lifecycle (job_status job) (job_status (f job)) \<and> (\<forall>j. job_contract (f j) = job_contract j) \<and>
        ended_job f job s s')"
  proof (rule cancel_jobE)
    fix job
    assume job: "job \<in> set (compute_jobs s)" "job_id job = jid" "\<not> is_terminal_status (job_status job)"
      and f: "finish_job X U uuid rid jid (to_rfc3339 X now) (finish_cancelled request (to_rfc3339 X now)) ''cancelled''
       (or_else (xr_reason request) (Some ''job_cancelled''))
       (insert_audit_event rid ''admin'' None ''compute_job'' jid ''job.cancelled'') s = Inr (s', r)"
    have "lifecycle (job_status job) (job_status (finish_cancelled request (to_rfc3339 X now) job))"
      using lifecycle_end(2)[OF job(3)] by (simp only: finish_cancelled_status)
    then show ?thesis using finish_job_ended[OF f[folded job(2)]] job(1,3) contract_frame(5) by blast
  qed
qed

text \<open>\<open>cancel_customer_job\<close>.\<close>

interpretation cancelling_customer_job: ending_handler
  "\<lambda>s s'. \<exists>uuid rid auth project wid request now r.
      cancel_customer_job X U uuid rid auth project wid request now s = Inr (s', r)" for X U
proof
  fix s s' assume inv: "lease_authority s"
    and h: "\<exists>uuid rid auth project wid request now r. cancel_customer_job X U uuid rid auth project wid request now s = Inr (s', r)"
  show "lease_authority s'" using h cancel_customer_job_authority[OF inv] by blast
  from h obtain uuid rid auth project wid request now r
    where "cancel_customer_job X U uuid rid auth project wid request now s = Inr (s', r)" by blast
  then show "s' = s \<or> (\<exists>job f. job \<in> set (compute_jobs s) \<and> \<not> is_terminal_status (job_status job) \<and>
        lifecycle (job_status job) (job_status (f job)) \<and> (\<forall>j. job_contract (f j) = job_contract j) \<and>
        ended_job f job s s')"
  proof (cases rule: cancel_customer_jobE)
    case (cancelled w row)
    show ?thesis
      using inv cancelled(2)
    proof (rule cancel_owned_jobE)
      let ?now = "to_rfc3339 X now" let ?f = "finish_cancelled \<lparr>xr_reason = cx_reason request\<rparr> ?now"
      fix j s2 s3 e dup
      assume j: "j \<in> set (compute_jobs s)" "job_id j = job_id row" "\<not> is_terminal_status (job_status j)"
        and "append_usage_ledger_for_job X U uuid rid (job_id row) ?now s2 = Inr (s3, e, dup)"
        "compute_jobs s2 = sql_update (\<lambda>j. job_id j = job_id row) ?f (compute_jobs s)"
        "usage_ledger_entries s2 = usage_ledger_entries s" "job_events s2 = job_events s"
        "compute_jobs s' = compute_jobs s2" "job_events s' = job_events s"
        "usage_ledger_entries s' = usage_ledger_entries s3"
      then have "ended_job ?f j s s'" unfolding ended_job_def j(2) by blast
      moreover have "lifecycle (job_status j) (job_status (?f j))"
        using lifecycle_end(2)[OF j(3)] by (simp only: finish_cancelled_status)
      ultimately show ?thesis using j(1,3) contract_frame(5) by blast
    qed
  qed simp
qed

text \<open>\<open>finalize_job_usage\<close> finds every terminal job already metered.\<close>

lemma finalize_job_usage_replays:
  assumes inv: "job_inv s" and f: "finalize_job_usage X U uuid rid jid now s = Inr (s', e, dup)"
  shows "same_job_tables s s' \<and> dup \<and> e \<in> set (usage_ledger_entries s)"
proof -
  have app: "append_usage_ledger_for_job X U uuid rid jid (to_rfc3339 X now) s = Inr (s', e, dup)"
    using f unfolding finalize_job_usage_def by (elim bind_resE)
  have m: "metered s" and keyed: "usage_keyed s" using inv by (simp_all add: job_inv_def metered_def)
  note ent = append_usage_entries[OF app keyed]
  have "\<exists>j \<in> set (compute_jobs s). job_id j = jid \<and> is_terminal_status (job_status j)"
    using app by (rule append_usageE) (use meterable_source_ok metered_source_key in fastforce)
  then obtain d where d: "d \<in> set (usage_ledger_entries s)" "usage_key d = (jid, ENTRY_TYPE_JOB_USAGE_FINALIZED)"
    using m unfolding metered_def by blast
  have dup
  proof (rule ccontr)
    assume "\<not> dup"
    then have "distinct (map usage_key (usage_ledger_entries s @ [e]))"
      using ent unfolding usage_keyed_def by metis
    moreover have "usage_key e = (jid, ENTRY_TYPE_JOB_USAGE_FINALIZED)" using ent by (simp add: usage_key_def)
    ultimately show False using d by force
  qed
  then have "usage_ledger_entries s' = usage_ledger_entries s" "e \<in> set (usage_ledger_entries s)" using ent by (metis append_Nil2)+
  then show ?thesis using append_usage_frame[OF app] \<open>dup\<close> by (simp add: same_job_tables_def)
qed

interpretation finalizing: job_handler
  "\<lambda>s s'. \<exists>uuid rid jid now e dup. finalize_job_usage X U uuid rid jid now s = Inr (s', e, dup)" for X U
proof
  fix s s' assume inv: "job_inv s" and h: "\<exists>uuid rid jid now e dup. finalize_job_usage X U uuid rid jid now s = Inr (s', e, dup)"
  have t: "same_job_tables s s'" using h finalize_job_usage_replays[OF inv] by blast
  show "job_inv s'" by (rule other_tables.keeps_job_inv[OF inv t])
  show "jobs_follow lifecycle s s'" by (rule other_tables.follows_lifecycle[OF inv t])
qed

section \<open>The transition system\<close>

text \<open>
  One committed transaction. Transactions that fail roll back and are no step, except that a refused
  acceptance commits the withheld offer: \<open>accepted\<close> takes the state \<open>accept_job\<close> leaves either way.
  Locks, identifiers, tokens and the clock are whatever the transaction sees.
\<close>

inductive job_step :: "externs \<Rightarrow> canonical_hashes \<Rightarrow> usage_hashes \<Rightarrow> db \<Rightarrow> db \<Rightarrow> bool"
  for X :: externs and H :: canonical_hashes and U :: usage_hashes where
  created: "create_job_idempotently X uuid c now s = Inr (s', out) \<Longrightarrow> job_step X H U s s'"
| placed: "placed_job row s \<Longrightarrow> same_job_tables (s\<lparr>compute_jobs := compute_jobs s @ [row]\<rparr>) s' \<Longrightarrow> job_step X H U s s'"
| scheduled: "run_scheduler X H E rid request policy now s = Inr (s', r) \<Longrightarrow> job_step X H U s s'"
| offered: "next_job_for_session X H locked rid auth policy token now s = Inr (s', r) \<Longrightarrow> job_step X H U s s'"
| accepted: "s' = fst (accept_job X H rid auth jid accept policy now s) \<Longrightarrow> job_step X H U s s'"
| recorded: "record_job_event X uuid auth jid event now s = Inr (s', e, r) \<Longrightarrow> job_step X H U s s'"
| uploaded: "record_job_artifact_upload X jid aid credential sha size_bytes ct now s = Inr (s', a) \<Longrightarrow> job_step X H U s s'"
| submitted: "submit_job_result X U uuid rid auth jid result now s = Inr (s', r) \<Longrightarrow> job_step X H U s s'"
| cancelled: "cancel_job X U uuid rid jid cancel now s = Inr (s', r) \<Longrightarrow> job_step X H U s s'"
| customer_cancelled:
    "cancel_customer_job X U uuid rid customer project wid cx now s = Inr (s', r) \<Longrightarrow> job_step X H U s s'"
| finalized: "finalize_job_usage X U uuid rid jid now s = Inr (s', e, dup) \<Longrightarrow> job_step X H U s s'"
| elsewhere: "same_job_tables s s' \<Longrightarrow> job_step X H U s s'"

text \<open>A database whose job tables are empty.\<close>

definition job_init :: "db \<Rightarrow> bool" where
  "job_init s \<longleftrightarrow> compute_jobs s = [] \<and> job_leases s = [] \<and> job_events s = [] \<and> usage_ledger_entries s = []"

lemma job_init_inv: "job_init s \<Longrightarrow> job_inv s"
  by (simp add: job_init_def job_inv_def lease_authority_def leases_exclusive_def metered_def usage_keyed_def
      events_ok_def no_retries_def)

interpretation jobs: job_handler "job_step X H U" for X H U
proof
  fix s s' assume inv: "job_inv s" and st: "job_step X H U s s'"
  note laws = creating.keeps_inv scheduling.keeps_inv offering.keeps_inv accepting_job.keeps_inv recording.keeps_inv
    other_tables.keeps_inv placing.keeps_inv submitting_result.keeps_inv cancelling_job.keeps_inv
    cancelling_customer_job.keeps_inv finalizing.keeps_inv
  show "job_inv s'" using st by cases (use inv upload_same_tables in \<open>blast intro: laws\<close>)+
  note laws = creating.follows scheduling.follows offering.follows accepting_job.follows recording.follows
    other_tables.follows placing.follows submitting_result.follows cancelling_job.follows
    cancelling_customer_job.follows finalizing.follows
  show "jobs_follow lifecycle s s'" using st by cases (use inv upload_same_tables in \<open>blast intro: laws\<close>)+
qed

interpretation job_runs: invariant_system job_init "job_step X H U" job_inv for X H U
  by unfold_locales (auto intro: job_init_inv jobs.keeps_inv)

section \<open>What holds of every run\<close>

text \<open>A job that holds its GPU: assigned, accepted or executing.\<close>

definition holds_gpu :: "job_row \<Rightarrow> bool" where
  "holds_gpu j \<longleftrightarrow> job_status j = ''assigned'' \<or> executing_status (job_status j)"

lemma bound_status_active: "bound_lease_status st = Some ls \<Longrightarrow> ls \<in> set ACTIVE_LEASE_STATUSES"
  by (auto simp: bound_lease_status_def ACTIVE_LEASE_STATUSES_def split: if_split_asm)

lemma holding_lease:
  assumes inv: "lease_authority s" and j: "j \<in> set (compute_jobs s)" "holds_gpu j"
  obtains l where "l \<in> set (job_leases s)" "lease_active l" "lease_for l j" "jr_assignment_lease_id j = Some (lease_id l)"
proof -
  have "job_ok (job_leases s) j" using inv j(1) by (simp add: lease_authority_def)
  moreover obtain st where st: "bound_lease_status (job_status j) = Some st"
    using j(2) by (auto simp: holds_gpu_def executing_status_def bound_lease_status_def)
  ultimately obtain l where l: "l \<in> set (job_leases s)" "jr_assignment_lease_id j = Some (lease_id l)"
    "lease_job_id l = job_id j" "lease_status l = st"
    unfolding job_ok_def by auto
  then have act: "lease_active l" using bound_status_active[OF st] by (simp add: lease_active_def)
  then obtain k where "k \<in> set (compute_jobs s)" "lease_for l k" using inv l(1) unfolding lease_authority_def by blast
  moreover have "k = j" using calculation l(3) j(1) inv
    by (metis distinct_map_same lease_authority_def lease_for_def)
  ultimately show ?thesis using that l act by blast
qed

lemma lease_for_key: "lease_for l j \<Longrightarrow>
    gpu_key l = (job_provider_id j, job_device_id j, to_ascii_lowercase (job_gpu_uuid j)) \<and> lease_job_id l = job_id j"
  by (simp add: lease_for_def gpu_key_def)

text \<open>
  C1. In every state that any interleaving of the handlers' transactions reaches from empty job tables,
  two jobs that hold the same GPU of the same device of the same provider (compared as the code does, with
  \<open>lower(gpu_uuid)\<close>) are the same job, and no two active leases are for the same GPU or the same job.
\<close>

theorem gpu_exclusive:
  assumes "job_init s" "(job_step X H U)\<^sup>*\<^sup>* s t"
  shows "(\<forall>j \<in> set (compute_jobs t). \<forall>k \<in> set (compute_jobs t). holds_gpu j \<and> holds_gpu k \<and>
       job_provider_id j = job_provider_id k \<and> job_device_id j = job_device_id k \<and>
       to_ascii_lowercase (job_gpu_uuid j) = to_ascii_lowercase (job_gpu_uuid k) \<longrightarrow> j = k) \<and>
    (\<forall>l \<in> set (job_leases t). \<forall>m \<in> set (job_leases t). lease_active l \<and> lease_active m \<and>
       (gpu_key l = gpu_key m \<or> lease_job_id l = lease_job_id m) \<longrightarrow> l = m)"
proof -
  have inv: "lease_authority t" using job_runs.inv_reachable[OF assms] by (simp add: job_inv_def)
  have leases: "l = m" if "l \<in> set (job_leases t)" "m \<in> set (job_leases t)" "lease_active l" "lease_active m"
    "gpu_key l = gpu_key m \<or> lease_job_id l = lease_job_id m" for l m
  proof -
    have "l \<in> set (filter lease_active (job_leases t))" "m \<in> set (filter lease_active (job_leases t))" using that by auto
    then show ?thesis using that(5) inv distinct_map_same unfolding lease_authority_def leases_exclusive_def by metis
  qed
  have "j = k" if jk: "j \<in> set (compute_jobs t)" "k \<in> set (compute_jobs t)" "holds_gpu j" "holds_gpu k"
    "job_provider_id j = job_provider_id k" "job_device_id j = job_device_id k"
    "to_ascii_lowercase (job_gpu_uuid j) = to_ascii_lowercase (job_gpu_uuid k)" for j k
  proof -
    obtain l where l: "l \<in> set (job_leases t)" "lease_active l" "lease_for l j" by (rule holding_lease[OF inv jk(1,3)])
    obtain m where m: "m \<in> set (job_leases t)" "lease_active m" "lease_for m k" by (rule holding_lease[OF inv jk(2,4)])
    have "l = m" using leases[OF l(1) m(1) l(2) m(2)] lease_for_key[OF l(3)] lease_for_key[OF m(3)] jk(5-7) by simp
    then have "job_id j = job_id k" using lease_for_key[OF l(3)] lease_for_key[OF m(3)] by simp
    then show ?thesis using distinct_map_same jk(1,2) inv unfolding lease_authority_def by metis
  qed
  then show ?thesis using leases by blast
qed

text \<open>
  C3. In every reachable state a job is terminal exactly when the usage ledger has its finalised entry:
  a terminal job has one and only one entry of that type, with the job's status, and a live job has none.
\<close>

theorem terminal_iff_metered:
  assumes "job_init s" "(job_step X H U)\<^sup>*\<^sup>* s t" "j \<in> set (compute_jobs t)"
  shows "map (\<lambda>e. ur_job_status (ul_receipt e))
      (filter (\<lambda>e. usage_key e = (job_id j, ENTRY_TYPE_JOB_USAGE_FINALIZED)) (usage_ledger_entries t)) =
    (if is_terminal_status (job_status j) then [job_status j] else [])"
proof -
  have inv: "lease_authority t" and m: "metered t" using job_runs.inv_reachable[OF assms(1,2)] by (simp_all add: job_inv_def)
  let ?key = "(job_id j, ENTRY_TYPE_JOB_USAGE_FINALIZED)"
  show ?thesis
  proof (cases "is_terminal_status (job_status j)")
    case True
    then obtain e where e: "e \<in> set (usage_ledger_entries t)" "usage_key e = ?key" "ur_job_status (ul_receipt e) = job_status j"
      using m assms(3) unfolding metered_def by blast
    have "filter (\<lambda>d. usage_key d = usage_key e) (usage_ledger_entries t) = [e]"
      using m e(1) unfolding metered_def usage_keyed_def by (intro filter_unique_key) blast+
    then show ?thesis using True e(2,3) by simp
  next
    case False
    have "usage_key e \<noteq> ?key" if e: "e \<in> set (usage_ledger_entries t)" for e
    proof
      assume "usage_key e = ?key"
      then obtain k where "k \<in> set (compute_jobs t)" "job_id k = job_id j" "is_terminal_status (job_status k)"
        using m e unfolding metered_def usage_key_def by force
      then show False using False assms(3) inv distinct_map_same unfolding lease_authority_def by metis
    qed
    then show ?thesis using False by (simp add: filter_False)
  qed
qed

text \<open>
  C6. The handlers implement the job life cycle: along every run a job keeps its contract columns (who
  runs what, where, with which artifacts, policy and timeout), its status moves only along \<open>lifecycle\<close>, and
  once terminal its whole row never changes; jobs are never deleted.
\<close>

theorem job_history:
  assumes "job_init s0" "(job_step X H U)\<^sup>*\<^sup>* s0 s" "(job_step X H U)\<^sup>*\<^sup>* s t" "j \<in> set (compute_jobs s)"
  shows "\<exists>j' \<in> set (compute_jobs t). job_contract j' = job_contract j \<and>
    lifecycle\<^sup>*\<^sup>* (job_status j) (job_status j') \<and> (is_terminal_status (job_status j) \<longrightarrow> j' = j)"
  using assms(3)
proof (induction rule: rtranclp_induct)
  case base
  then show ?case using assms(4) by blast
next
  case (step t u)
  then obtain k where k: "k \<in> set (compute_jobs t)" "job_contract k = job_contract j"
    "lifecycle\<^sup>*\<^sup>* (job_status j) (job_status k)" "is_terminal_status (job_status j) \<longrightarrow> k = j" by blast
  have "job_inv t" using job_runs.inv_reachable[OF assms(1) rtranclp_trans[OF assms(2) step(1)]] .
  from jobs.follows[OF this step(2)] k(1) obtain l where l: "l \<in> set (compute_jobs u)" "job_evolves lifecycle k l"
    by (rule jobs_follow_old)
  have "lifecycle\<^sup>*\<^sup>* (job_status j) (job_status l)"
    by (rule rtranclp.rtrancl_into_rtrancl[OF k(3)]) (use l(2) in \<open>simp add: job_evolves_def\<close>)
  moreover have "job_contract l = job_contract j" "is_terminal_status (job_status j) \<longrightarrow> l = j"
    using k(2,4) l(2) unfolding job_evolves_def by metis+
  ultimately show ?case using l(1) by blast
qed

text \<open>
  C37. Job events are numbered without repetition and the usage ledger's retry counter is always zero: the
  ledger counts events of the types retry, retried and retrying, which no handler ever admits.
\<close>

theorem retry_count_always_zero:
  assumes "job_init s" "(job_step X H U)\<^sup>*\<^sup>* s t"
  shows "distinct (map (\<lambda>e. (event_job_id e, event_sequence e)) (job_events t)) \<and>
    (\<forall>e \<in> set (usage_ledger_entries t). ur_retry_count (ul_receipt e) = 0)"
  using job_runs.inv_reachable[OF assms] unfolding job_inv_def events_ok_def no_retries_def by blast

text \<open>
  The administrative \<open>finalize_job_usage\<close> is a replay in every reachable state: when it succeeds it
  reports a duplicate, returns an entry already in the ledger and writes nothing to the job tables.
\<close>

theorem finalize_is_replay:
  assumes "job_init s" "(job_step X H U)\<^sup>*\<^sup>* s t" "finalize_job_usage X U uuid rid jid now t = Inr (t', e, dup)"
  shows "dup \<and> e \<in> set (usage_ledger_entries t) \<and> same_job_tables t t'"
  using finalize_job_usage_replays[OF job_runs.inv_reachable[OF assms(1,2)] assms(3)] by blast

section \<open>Instances\<close>

definition example_empty_db :: db where
  "example_empty_db = example_sched_db\<lparr>compute_jobs := []\<rparr>"

abbreviation example_step :: "db \<Rightarrow> db \<Rightarrow> bool" where
  "example_step \<equiv> job_step example_externs example_hashes example_usage_hashes"

lemma example_init: "job_init example_empty_db"
  by (simp add: job_init_def example_empty_db_def example_sched_db_def example_db_def)

lemma example_placed: "example_step\<^sup>*\<^sup>* example_empty_db example_sched_db"
proof (rule r_into_rtranclp, rule job_step.placed)
  show "placed_job example_job example_empty_db" by (simp add: placed_job_def example_empty_db_def example_job_def)
  show "same_job_tables (example_empty_db\<lparr>compute_jobs := compute_jobs example_empty_db @ [example_job]\<rparr>) example_sched_db"
    by (simp add: same_job_tables_def example_empty_db_def example_sched_db_def)
qed

lemma example_run_leases: "case example_run of Inr (t, r) \<Rightarrow> length (job_leases t) = 1 | Inl _ \<Rightarrow> False"
  by code_simp

definition example_cancel :: "(db \<times> JobRecord) res" where
  "example_cancel = cancel_job example_externs example_usage_hashes ''u'' ''r'' ''j1'' \<lparr>xr_reason = None\<rparr> 8 example_sched_db"

lemma example_cancel_ok: "case example_cancel of Inr (t, r) \<Rightarrow> map job_status (compute_jobs t) = [''cancelled''] \<and>
   (case finalize_job_usage example_externs example_usage_hashes ''v'' ''r'' ''j1'' 9 t of Inr _ \<Rightarrow> True | Inl _ \<Rightarrow> False) | Inl _ \<Rightarrow> False"
  by code_simp

lemma example_cancelled:
  obtains t r t' e dup where "example_cancel = Inr (t, r)" "example_step\<^sup>*\<^sup>* example_empty_db t" "example_step example_sched_db t"
    "map job_status (compute_jobs t) = [''cancelled'']"
    "finalize_job_usage example_externs example_usage_hashes ''v'' ''r'' ''j1'' 9 t = Inr (t', e, dup)"
proof -
  obtain t r t' e dup where t: "example_cancel = Inr (t, r)" "map job_status (compute_jobs t) = [''cancelled'']"
    "finalize_job_usage example_externs example_usage_hashes ''v'' ''r'' ''j1'' 9 t = Inr (t', e, dup)"
    using example_cancel_ok by (auto split: sum.splits)
  have st: "example_step example_sched_db t" using t(1) unfolding example_cancel_def by (rule job_step.cancelled)
  then show ?thesis using that[OF t(1) _ st t(2,3)] rtranclp.rtrancl_into_rtrancl[OF example_placed st] by blast
qed

lemma example_run_lease:
  assumes "example_run = Inr (t, r)"
  shows "length (job_leases t) = 1"
  using example_run_leases[unfolded assms] by simp

theorem gpu_exclusive_witness:
  "\<exists>t. example_step\<^sup>*\<^sup>* example_empty_db t \<and> length (job_leases t) = 1 \<and>
     (\<forall>l \<in> set (job_leases t). \<forall>m \<in> set (job_leases t). lease_active l \<and> lease_active m \<and>
       (gpu_key l = gpu_key m \<or> lease_job_id l = lease_job_id m) \<longrightarrow> l = m)"
proof -
  obtain t r where t: "example_run = Inr (t, r)" "map sd_decision (rs_decisions r) = [''offered'']"
    using example_run_decisions by (auto split: sum.splits)
  have "example_step\<^sup>*\<^sup>* example_empty_db t"
    using t(1) unfolding example_run_def by (rule rtranclp.rtrancl_into_rtrancl[OF example_placed job_step.scheduled])
  then show ?thesis using gpu_exclusive[OF example_init, of example_externs example_hashes example_usage_hashes t]
      example_run_lease[OF t(1)] by blast
qed

theorem terminal_iff_metered_witness:
  "\<exists>t j. example_step\<^sup>*\<^sup>* example_empty_db t \<and> compute_jobs t = [j] \<and> job_status j = ''cancelled'' \<and>
     length (filter (\<lambda>e. usage_key e = (job_id j, ENTRY_TYPE_JOB_USAGE_FINALIZED)) (usage_ledger_entries t)) = 1"
proof -
  obtain t r j where t: "example_step\<^sup>*\<^sup>* example_empty_db t" "compute_jobs t = [j]" "job_status j = ''cancelled''"
    by (rule example_cancelled) auto
  have "is_terminal_status (job_status j)" using t(3) by (simp add: is_terminal_status_def)
  then have "map (\<lambda>e. ur_job_status (ul_receipt e)) (filter (\<lambda>e. usage_key e = (job_id j, ENTRY_TYPE_JOB_USAGE_FINALIZED))
      (usage_ledger_entries t)) = [job_status j]"
    using terminal_iff_metered[OF example_init t(1), of j] t(2) by simp
  from arg_cong[OF this, of length] t show ?thesis by (intro exI[of _ t] exI[of _ j]) simp
qed

theorem job_history_witness:
  "\<exists>t j. example_step example_sched_db t \<and> j \<in> set (compute_jobs t) \<and> job_contract j = job_contract example_job \<and>
     lifecycle\<^sup>*\<^sup>* ''queued'' (job_status j)"
proof -
  obtain t where t: "example_step example_sched_db t" by (rule example_cancelled)
  have "example_job \<in> set (compute_jobs example_sched_db)" "job_status example_job = ''queued''"
    by (simp_all add: example_sched_db_simps example_job_def)
  with job_history[OF example_init example_placed r_into_rtranclp[of example_step, OF t], of example_job] t show ?thesis by auto
qed

theorem retry_count_always_zero_witness:
  "\<exists>t. example_step\<^sup>*\<^sup>* example_empty_db t \<and> usage_ledger_entries t \<noteq> [] \<and>
     (\<forall>e \<in> set (usage_ledger_entries t). ur_retry_count (ul_receipt e) = 0)"
proof -
  obtain t t' e dup where t: "example_step\<^sup>*\<^sup>* example_empty_db t"
    "finalize_job_usage example_externs example_usage_hashes ''v'' ''r'' ''j1'' 9 t = Inr (t', e, dup)"
    by (rule example_cancelled)
  have "e \<in> set (usage_ledger_entries t)"
    using finalize_job_usage_replays[OF job_runs.inv_reachable[OF example_init t(1)] t(2)] by blast
  with retry_count_always_zero[OF example_init t(1)] t(1) show ?thesis by (intro exI[of _ t]) auto
qed

theorem finalize_is_replay_witness:
  "\<exists>t t' e. finalize_job_usage example_externs example_usage_hashes ''v'' ''r'' ''j1'' 9 t = Inr (t', e, True) \<and>
     usage_ledger_entries t' = usage_ledger_entries t"
proof -
  obtain t t' e dup where t: "example_step\<^sup>*\<^sup>* example_empty_db t"
    "finalize_job_usage example_externs example_usage_hashes ''v'' ''r'' ''j1'' 9 t = Inr (t', e, dup)"
    by (rule example_cancelled)
  with finalize_is_replay[OF example_init t] show ?thesis
    by (intro exI[of _ t] exI[of _ t'] exI[of _ e]) (simp add: same_job_tables_def)
qed

end
