(* ===== verification/Job_Safety.thy ===== *)
theory Job_Safety
  imports Job_System
begin

text \<open>
  What job control guarantees to the provider's agent and to the API's clients: an assignment or an
  acceptance is granted only on current authority and otherwise fails closed, what the server sends is what
  the agent's validators admit, and a repeated creation returns the first response.
\<close>

section \<open>Acceptance fails closed\<close>

text \<open>The authority an acceptance needs, as a specification.\<close>

definition may_accept ::
  "externs \<Rightarrow> canonical_hashes \<Rightarrow> db \<Rightarrow> AuthorizedSession \<Rightarrow> RuntimeAdmissionPolicy \<Rightarrow> int \<Rightarrow> job_row \<Rightarrow> JobLeaseRecord \<Rightarrow> bool" where
  "may_accept X H s auth policy now job lease \<longleftrightarrow>
     job \<in> set (compute_jobs s) \<and> job_of_session auth job \<and> job_status job = ''assigned'' \<and>
     lease \<in> set (job_leases s) \<and> lease_of_session auth lease \<and> lease_status lease = ''offered'' \<and>
     jr_assignment_lease_id job = Some (lease_id lease) \<and> lease_for lease job \<and>
     assert_current_compute_protocol_negotiation (provider_sessions s) (as_session_id auth) = Inr () \<and>
     (\<exists>t. parse_from_rfc3339 X (lease_expires_at lease) = Some t \<and> now < t) \<and>
     (\<exists>d. evaluate_runtime_admission_for_gpu_in_transaction X H s (as_provider_id auth) (as_device_id auth)
        (lease_gpu_uuid lease) policy now = Inr d \<and> ad_status d = ''admitted'')"

lemma authority_failure_None:
  assumes "acceptance_authority_failure X job lease auth now = None"
  shows "lease_status lease = ''offered'' \<and> lease_for lease job \<and>
    (\<exists>t. parse_from_rfc3339 X (lease_expires_at lease) = Some t \<and> now < t)"
  using assms unfolding acceptance_authority_failure_def lease_for_def
  by (simp add: eq_ignore_ascii_case_def not_le split: if_split_asm option.split_asm)

lemma withheld_job_requeued:
  assumes inv: "lease_authority s" and job: "job \<in> set (compute_jobs s)" "lease \<in> set (job_leases s)"
    and w: "withhold_acceptance rid auth job lease failure codes now s = Inr s'"
  shows "(requeued now job)\<lparr>job_accepted_at := None\<rparr> \<in> set (compute_jobs s')"
    "\<forall>l \<in> set (job_leases s'). lease_id l = lease_id lease \<longrightarrow> \<not> lease_active l"
proof -
  let ?jsel = "\<lambda>j. job_id j = job_id job \<and> job_status j = ''assigned'' \<and> jr_assignment_lease_id j = Some (lease_id lease)"
  have c: "sql_count ?jsel (compute_jobs s) = 1"
    "compute_jobs s' = sql_update ?jsel (\<lambda>j. (requeued now j)\<lparr>job_accepted_at := None\<rparr>) (compute_jobs s)"
    and l: "lease_active lease \<and> job_leases s' = sql_update (\<lambda>l. lease_id l = lease_id lease \<and> lease_active l)
        (withheld codes failure now) (job_leases s) \<or> \<not> lease_active lease \<and> job_leases s' = job_leases s"
    using w unfolding withhold_acceptance_def Let_def lease_active_iff by (auto elim!: bind_resE split: if_split_asm)
  from c(1) obtain k where k: "k \<in> set (compute_jobs s)" "?jsel k"
    using sql_count_one[of ?jsel "compute_jobs s"] by auto
  then have "k = job" using inv job(1) by (metis distinct_map_same lease_authority_def)
  then show "(requeued now job)\<lparr>job_accepted_at := None\<rparr> \<in> set (compute_jobs s')"
    using sql_updateI[OF job(1), of ?jsel "\<lambda>j. (requeued now j)\<lparr>job_accepted_at := None\<rparr>"] k(2) c(2) by simp
  have one: "m = lease" if "m \<in> set (job_leases s)" "lease_id m = lease_id lease" for m
    using that inv job(2) unfolding lease_authority_def leases_exclusive_def by (metis distinct_map_same)
  show "\<forall>l \<in> set (job_leases s'). lease_id l = lease_id lease \<longrightarrow> \<not> lease_active l"
  proof (intro ballI impI)
    fix m assume m: "m \<in> set (job_leases s')" "lease_id m = lease_id lease"
    have inactive: "\<not> lease_active (withheld codes failure now k)" for k by (simp add: withheld_def lease_active_simps)
    show "\<not> lease_active m"
      using l
    proof (elim disjE conjE)
      assume "job_leases s' = sql_update (\<lambda>l. lease_id l = lease_id lease \<and> lease_active l)
        (withheld codes failure now) (job_leases s)"
      then obtain k where
        "m = (if lease_id k = lease_id lease \<and> lease_active k then withheld codes failure now k else k)"
        using m(1) by (simp only: in_sql_update_iff) blast
      then show ?thesis using inactive m(2) by (metis (full_types))
    next
      assume "\<not> lease_active lease" "job_leases s' = job_leases s"
      then show ?thesis using one[of m] m by simp
    qed
  qed
qed

lemma accept_assigned_effect:
  assumes inv: "lease_authority s" and job: "job \<in> set (compute_jobs s)" "job_status job = ''assigned''"
    and a: "accept_assigned X rid auth request now job lease s = Inr (s', r)"
  shows "\<exists>j \<in> set (compute_jobs s'). r = job_from_row j \<and> job_status j = ''accepted'' \<and>
    job_contract j = job_contract job \<and> jr_assignment_lease_id j = jr_assignment_lease_id job"
proof -
  let ?jsel = "\<lambda>j. job_id j = job_id job \<and> job_status j = ''assigned''"
  let ?f = "\<lambda>j. j\<lparr>job_status := ''accepted'', job_accepted_at := Some now,
         job_status_message := ar_status_message request, job_updated_at := now\<rparr>"
  have c: "compute_jobs s' = sql_update ?jsel ?f (compute_jobs s)"
    and r: "\<exists>j. j \<in> set (compute_jobs s') \<and> job_id j = job_id job \<and> r = job_from_row j"
    using a unfolding accept_assigned_def Let_def load_job_in_transaction_def
    by (auto elim!: bind_resE dest!: find_SomeD split: if_split_asm)
  have "?f job \<in> set (compute_jobs s')" using sql_updateI[OF job(1), of ?jsel ?f] job(2) c by simp
  moreover have "distinct (map job_id (compute_jobs s'))" using inv c by (simp add: lease_authority_def)
  ultimately have "r = job_from_row (?f job)" using r distinct_map_same by fastforce
  then show ?thesis using \<open>?f job \<in> _\<close> by (intro bexI[of _ "?f job"]) (simp_all add: job_contract_def)
qed

text \<open>The outcomes of an acceptance whose checks passed: the evidence cannot be read, the authority or the
  admission is gone, or both hold and the job is accepted.\<close>

lemma accept_job_cases:
  assumes a: "accept_job X H rid auth jid request policy now s = (s', r)"
    and c: "accept_job_checks s auth jid request = Inr (job, lease)"
  obtains (error) e where "s' = s" "r = Inl e"
    | (refused) f codes where "withhold_and_refuse (withhold_acceptance rid auth job lease f codes (to_rfc3339 X now) s) s = (s', r)"
    | (granted) d where "acceptance_authority_failure X job lease auth now = None"
        "evaluate_runtime_admission_for_gpu_in_transaction X H s (as_provider_id auth) (as_device_id auth)
            (lease_gpu_uuid lease) policy now = Inr d" "ad_status d = ''admitted''"
        "commit (accept_assigned X rid auth request (to_rfc3339 X now) job lease s) s = (s', r)"
  using a c unfolding accept_job_def Let_def
  by (auto split: option.split_asm sum.split_asm if_split_asm)

text \<open>
  C4. Acceptance fails closed. It succeeds only with the full authority of \<open>may_accept\<close>: the lease is
  offered to this session and not expired, bound to the assigned job and its GPU, the session's protocol
  negotiation is current and the GPU is admitted now; the job is then accepted. Every refusal either changes
  nothing or puts the job back into the queue, without credential or lease, and ends the lease.
\<close>

theorem acceptance_fails_closed:
  assumes inv: "lease_authority s" and a: "accept_job X H rid auth jid request policy now s = (s', r)"
  shows "case r of
      Inr rec \<Rightarrow> (\<exists>job lease. job_id job = jid \<and> lease_id lease = ar_lease_id request \<and>
        may_accept X H s auth policy now job lease \<and>
        (\<exists>j \<in> set (compute_jobs s'). rec = job_from_row j \<and> job_status j = ''accepted'' \<and> job_contract j = job_contract job))
    | Inl e \<Rightarrow> s' = s \<or> (\<exists>job \<in> set (compute_jobs s). job_id job = jid \<and>
        (requeued (to_rfc3339 X now) job)\<lparr>job_accepted_at := None\<rparr> \<in> set (compute_jobs s') \<and>
        (\<forall>l \<in> set (job_leases s'). lease_id l = ar_lease_id request \<longrightarrow> \<not> lease_active l))"
proof (cases "accept_job_checks s auth jid request")
  case (Inl e)
  then have "s' = s \<and> r = Inl e" using a unfolding accept_job_def by (simp add: Let_def)
  then show ?thesis by simp
next
  case (Inr jl)
  obtain job lease where jl: "jl = (job, lease)" by (cases jl)
  obtain job: "job \<in> set (compute_jobs s)" "job_id job = jid" "job_of_session auth job" "job_status job = ''assigned''"
    "jr_assignment_lease_id job = Some (lease_id lease)" "lease \<in> set (job_leases s)"
    "lease_id lease = ar_lease_id request" "lease_of_session auth lease"
    "assert_current_compute_protocol_negotiation (provider_sessions s) (as_session_id auth) = Inr ()"
    by (rule accept_job_checksE[OF inv Inr[unfolded jl]])
  from a Inr[unfolded jl] show ?thesis
  proof (cases rule: accept_job_cases)
    case error
    then show ?thesis by simp
  next
    case (refused f codes)
    then show ?thesis using withheld_job_requeued[OF inv job(1,6), of rid auth f codes "to_rfc3339 X now"] job(1,2,7)
      by (auto simp: withhold_and_refuse_def split: sum.split_asm)
  next
    case (granted d)
    have may: "may_accept X H s auth policy now job lease"
      using job granted authority_failure_None[OF granted(1)] unfolding may_accept_def by blast
    show ?thesis
      using granted(4) may job(2,7) accept_assigned_effect[OF inv job(1,4), of X rid auth request "to_rfc3339 X now" lease]
      by (cases "accept_assigned X rid auth request (to_rfc3339 X now) job lease s") (auto simp: commit_def, blast)
  qed
qed

section \<open>What the agent receives\<close>

lemma executing_control:
  assumes inv: "lease_authority s" and job: "job \<in> set (compute_jobs s)" "executing_status (job_status job)"
    and l: "jr_assignment_lease_id job = Some (lease_id lease)" "lease \<in> set (job_leases s)"
  shows "execution_lease_matches_job_state (job_status job) (lease_status lease)"
proof -
  obtain st where st: "bound_lease_status (job_status job) = Some st"
    using job(2) by (auto simp: executing_status_def)
  have "lease_status lease = st" using bound_lease(1)[OF inv job(1) l st] .
  then show ?thesis using st job(2)
    by (auto simp: executing_status_def execution_lease_matches_job_state_def bound_lease_status_def)
qed

text \<open>
  C21. Execution control and the agent agree. In a state whose jobs and leases agree, every control response
  the server computes passes the validator the agent runs on it; it says to continue exactly while the job
  is executing and the session's negotiation is current, and to cancel otherwise.
\<close>

theorem execution_control_sound:
  assumes inv: "lease_authority s" and c: "job_execution_control X rid auth jid lid now s = Inr response"
    and clock: "parse_from_rfc3339 X (to_rfc3339 X now) = Some now" and rid: "\<not> trim_is_empty rid"
  shows "validate_job_execution_control_response X response jid lid = Inr () \<and>
    (\<exists>job \<in> set (compute_jobs s). job_id job = jid \<and> job_of_session auth job \<and>
       (ctl_directive response = Continue \<longleftrightarrow> executing_status (job_status job) \<and>
          assert_current_compute_protocol_negotiation (provider_sessions s) (as_session_id auth) = Inr ()))"
proof -
  obtain job lease where a: "locked_authorized_assignment s auth jid lid = Inr (job, lease)"
    using c unfolding job_execution_control_def by (auto elim!: bind_resE)
  obtain job: "job \<in> set (compute_jobs s)" "job_id job = jid" "job_of_session auth job"
    "jr_assignment_lease_id job = Some (lease_id lease)" "lease \<in> set (job_leases s)" "lease_id lease = lid"
    by (rule locked_authorized_assignmentE[OF inv a])
  let ?auth = "assert_current_compute_protocol_negotiation (provider_sessions s) (as_session_id auth)"
  let ?r = "\<lambda>d reason. \<lparr>ctl_schema_version = JOB_EXECUTION_CONTROL_SCHEMA_VERSION, ctl_request_id = rid,
          ctl_job_id = jid, ctl_lease_id = lid, ctl_directive = d,
          ctl_reason_code = reason, ctl_server_time = to_rfc3339 X now\<rparr>"
  have codes: "is_control_reason_code ''session_protocol_authority_lost''" "is_control_reason_code ''job_cancelled''"
    "is_control_reason_code ''job_terminal''" by code_simp+
  have ok: "validate_job_execution_control_response X (?r Continue None) jid lid = Inr ()"
    "is_control_reason_code code \<Longrightarrow> validate_job_execution_control_response X (?r Cancel (Some code)) jid lid = Inr ()" for code
    using clock rid by (simp_all add: validate_job_execution_control_response_def)
  show ?thesis
  proof (cases "executing_status (job_status job)")
    case True
    then have st: "job_status job \<in> {''accepted'', ''provisioning'', ''running'', ''uploading''}"
      by (simp add: executing_status_def)
    have "response = (if ?auth = Inr () then ?r Continue None else ?r Cancel (Some ''session_protocol_authority_lost''))"
      using c job(2,6) executing_control[OF inv job(1) True job(4,5)]
      unfolding job_execution_control_def a bind_res_Inr prod.case Let_def if_P[OF st]
      by (auto split: sum.split_asm if_split_asm)
    then show ?thesis using ok codes(1) job(1-3) True by (intro conjI bexI[of _ job]) simp_all
  next
    case False
    then have st: "job_status job \<notin> {''accepted'', ''provisioning'', ''running'', ''uploading''}"
      by (simp add: executing_status_def)
    have "response = ?r Cancel (Some ''job_cancelled'') \<or> response = ?r Cancel (Some ''job_terminal'')"
      using c job(2,6) unfolding job_execution_control_def a bind_res_Inr prod.case Let_def if_not_P[OF st]
      by (auto split: if_split_asm)
    then show ?thesis using ok(2) codes(2,3) job(1-3) False by (elim disjE) (auto intro!: bexI[of _ job])
  qed
qed

text \<open>
  Whatever the server answers to a request for the next job passes the agent's validator: either there
  is no assignment, or the job, its lease, the data-plane grant and the execution contract form a complete
  bundle that agrees in every identity, version, policy and address, on a digest-pinned image.
\<close>

theorem next_job_bundle_valid:
  assumes "next_job_for_session X H locked rid auth policy token now s = Inr (s', r)"
  shows "validate_next_job_execution_response r = Inr ()"
proof -
  have spec: "validate_provider_job_execution_bundle job lease grant spec = Inr ()"
    if "provider_job_execution_spec job lease grant = Inr spec" for job lease grant spec
    using that unfolding provider_job_execution_spec_def Let_def by (auto split: sum.split_asm)
  have assigned: "validate_next_job_execution_response r = Inr ()"
    if "assign_job X rid auth token now lid queued t = Inr (t', r)" for lid queued t t'
    using that by (rule assign_jobE) (simp add: validate_next_job_execution_response_def spec)
  have "validate_next_job_execution_response r = Inr ()" if "next_job_loop X H rid auth policy token now ls t = Inr (t', r)" for ls t t'
    using that
  proof (induction ls arbitrary: t)
    case Nil
    then show ?case by (auto simp: empty_next_job_response_def validate_next_job_execution_response_def)
  next
    case (Cons l ls)
    then show ?case using assigned by (auto elim!: bind_resE split: if_split_asm)
  qed
  then show ?thesis using assms unfolding next_job_for_session_def by (auto elim!: bind_resE)
qed

section \<open>Idempotent creation\<close>

text \<open>
  Creating a job is idempotent: after a creation the same command, under whatever generated identifier
  and at whatever time, returns the stored response and changes nothing, and a command that reuses the key
  for a different request is refused without effect.
\<close>

theorem create_job_idempotent:
  assumes c: "create_job_idempotently X uuid c now s = Inr (s', out)" and o: "out \<noteq> OutcomeConflict"
  shows "create_job_idempotently X uuid' c now' s' = Inr (s', out) \<and>
    (ch \<noteq> cc_request_hash c \<longrightarrow> create_job_idempotently X uuid' (c\<lparr>cc_request_hash := ch\<rparr>) now' s' = Inr (s', OutcomeConflict)) \<and>
    length (compute_jobs s') \<le> Suc (length (compute_jobs s))"
proof -
  have pre: "validate_create_job_request (cc_request c) = Inr ()"
    "assert_current_compute_protocol_negotiation (provider_sessions s) (cr_session_id (cc_request c)) = Inr ()"
    using c unfolding create_job_idempotently_def by (auto elim!: bind_resE)
  have key: "same_key (c\<lparr>cc_request_hash := ch\<rparr>) = same_key c" by (simp add: same_key_def fun_eq_iff)
  from c show ?thesis
  proof (cases rule: create_job_idempotentlyE)
    case (replayed k)
    then have "out = Response k" "ik_request_hash k = cc_request_hash c" using o by (auto split: if_split_asm)
    then show ?thesis using replayed(1,2) pre unfolding create_job_idempotently_def by (simp add: key)
  next
    case (created row ikr)
    have "find (same_key c) (idempotency_keys s') = Some ikr" "provider_sessions s' = provider_sessions s"
      "length (compute_jobs s') = Suc (length (compute_jobs s))"
      using created(1,5,7) by (simp_all add: insert_audit_event_def find_append_None)
    then show ?thesis using created(6,8) pre unfolding create_job_idempotently_def by (simp add: key)
  qed
qed

section \<open>Instances\<close>

definition example_offered_db :: db where
  "example_offered_db = example_assigned_db\<lparr>job_leases := [example_offer\<lparr>lease_expires_at := ''+1111111''\<rparr>]\<rparr>"

definition example_auth :: AuthorizedSession where
  "example_auth = \<lparr>as_provider_id = ''p1'', as_device_id = ''d1'', as_session_id = ''s1''\<rparr>"

definition example_accept :: "db \<times> JobRecord res" where
  "example_accept = accept_job example_externs example_hashes ''r'' example_auth ''j1''
     \<lparr>ar_lease_id = ''l1'', ar_status_message = None\<rparr> example_policy 5 example_offered_db"

lemma example_offered_authority: "lease_authority example_offered_db"
  by (simp add: lease_authority_def example_offered_db_def example_assigned_db_def leases_exclusive_def job_ok_def
        bound_lease_status_def example_job_def example_offer_def offered_lease_def lease_for_def
        scheduler_candidate_from_row_def)

lemma example_accept_ok: "case snd example_accept of Inr _ \<Rightarrow> True | Inl _ \<Rightarrow> False"
  by code_simp

theorem acceptance_fails_closed_witness:
  "\<exists>s' rec job lease. example_accept = (s', Inr rec) \<and>
     may_accept example_externs example_hashes example_offered_db example_auth example_policy 5 job lease"
proof -
  obtain s' rec where a: "example_accept = (s', Inr rec)"
    using example_accept_ok by (metis (no_types, lifting) old.sum.simps(5) prod.collapse sum.exhaust)
  from acceptance_fails_closed[OF example_offered_authority a[unfolded example_accept_def]] a show ?thesis
    by (auto simp: example_accept_def)
qed

definition example_control :: "JobExecutionControlResponse res" where
  "example_control = job_execution_control example_externs ''r'' example_auth ''j1'' ''l1'' 6
     (example_offered_db\<lparr>job_leases := [example_offer\<lparr>lease_status := ''accepted''\<rparr>],
        compute_jobs := [hd (compute_jobs example_offered_db)\<lparr>job_status := ''accepted''\<rparr>]\<rparr>)"

lemma example_control_ok: "case example_control of Inr r \<Rightarrow> ctl_directive r = Continue | Inl _ \<Rightarrow> False"
  by code_simp

theorem execution_control_sound_witness:
  "\<exists>r. example_control = Inr r \<and> ctl_directive r = Continue \<and>
     validate_job_execution_control_response example_externs r ''j1'' ''l1'' = Inr ()"
proof -
  obtain r where r: "example_control = Inr r" "ctl_directive r = Continue"
    using example_control_ok by (auto split: sum.splits)
  have "lease_authority (example_offered_db\<lparr>job_leases := [example_offer\<lparr>lease_status := ''accepted''\<rparr>],
        compute_jobs := [hd (compute_jobs example_offered_db)\<lparr>job_status := ''accepted''\<rparr>]\<rparr>)"
    by (simp add: lease_authority_def example_offered_db_def example_assigned_db_def leases_exclusive_def job_ok_def
        bound_lease_status_def example_job_def example_offer_def offered_lease_def lease_for_def
        scheduler_candidate_from_row_def)
  moreover have "\<not> trim_is_empty ''r''" by code_simp
  ultimately have "validate_job_execution_control_response example_externs r ''j1'' ''l1'' = Inr ()"
    using execution_control_sound[OF _ r(1)[unfolded example_control_def] example_round_trip] by blast
  then show ?thesis using r by blast
qed

definition example_runnable_db :: db where
  "example_runnable_db = example_sched_db\<lparr>
     compute_jobs := [example_job\<lparr>job_schema_version := JOB_SCHEMA_VERSION,
       job_template_id := hd PROVIDER_JOB_APPROVED_TEMPLATES,
       job_image_ref := ''burd/x@sha256:'' @ replicate 64 CHR ''a''\<rparr>],
     job_leases := [example_offer\<lparr>lease_expires_at := ''+1111111''\<rparr>]\<rparr>"

definition example_next :: "(db \<times> NextJobResponse) res" where
  "example_next = next_job_for_session example_externs example_hashes (\<lambda>_. False) ''r'' example_auth example_policy
     (Inr ''tok'') 5 example_runnable_db"

lemma example_next_ok: "case example_next of Inr (_, r) \<Rightarrow> next_job r \<noteq> None | Inl _ \<Rightarrow> False"
  by code_simp

theorem next_job_bundle_valid_witness:
  "\<exists>s' r. example_next = Inr (s', r) \<and> next_job r \<noteq> None \<and> validate_next_job_execution_response r = Inr ()"
proof -
  obtain s' r where r: "example_next = Inr (s', r)" "next_job r \<noteq> None"
    using example_next_ok by (auto split: sum.splits)
  with next_job_bundle_valid[OF r(1)[unfolded example_next_def]] show ?thesis by blast
qed

definition example_create :: CreateJobCommand where
  "example_create = \<lparr>cc_request_id = ''r'', cc_scope = ''sc'', cc_idempotency_key = ''k'', cc_request_hash = ''h'',
     cc_request = \<lparr>cr_client_job_id = None, cr_provider_id = ''p1'',
     cr_device_id = ''d1'', cr_session_id = ''s1'', cr_workload_type = ''w'', cr_template_id = hd PROVIDER_JOB_APPROVED_TEMPLATES,
     cr_image_ref = ''burd/x@sha256:'' @ replicate 64 CHR ''a'', cr_gpu_uuid = ''GPU1'', cr_backend = ''cuda'',
     cr_parameters = JObject [], cr_input_artifacts = [], cr_expected_outputs = [], cr_timeout_seconds = None,
     cr_policy_id = None, cr_policy_version = None\<rparr>\<rparr>"

lemma example_create_ok: "case create_job_idempotently example_externs ''u'' example_create 5 example_sched_db of
    Inr (s', out) \<Rightarrow> out \<noteq> OutcomeConflict \<and> length (compute_jobs s') = 2 | Inl _ \<Rightarrow> False"
  by code_simp

theorem create_job_idempotent_witness:
  "\<exists>s' out. create_job_idempotently example_externs ''u'' example_create 5 example_sched_db = Inr (s', out) \<and>
     create_job_idempotently example_externs ''v'' example_create 9 s' = Inr (s', out) \<and>
     create_job_idempotently example_externs ''v'' (example_create\<lparr>cc_request_hash := ''g''\<rparr>) 9 s' = Inr (s', OutcomeConflict)"
proof -
  obtain s' out where c: "create_job_idempotently example_externs ''u'' example_create 5 example_sched_db = Inr (s', out)"
    "out \<noteq> OutcomeConflict"
    using example_create_ok by (auto split: sum.splits)
  from create_job_idempotent[OF c, of "''v''" 9 "''g''"] c(1) show ?thesis by (simp add: example_create_def)
qed

end
