(* ===== verification/Billing.thy ===== *)
theory Billing
  imports Customer_Job
begin

text \<open>
  The billing of \<^verbatim>\<open>burd-control-plane/src/billing.rs\<close>: prices, Pix payment intents, the settlement of
  metered usage into invoices, provider payouts and the append-only double-entry ledger behind them. The
  tables of billing are a record of their own beside the database of job execution. A \<open>BIGINT\<close> or
  \<open>INTEGER\<close> column that the code fills through \<open>to_i64\<close> is kept as the unsigned value it came from: reading
  it back through \<open>from_i64_to_u64\<close> returns that value. Generated identifiers, the instant of a transaction
  and the canonical hash are arguments.
\<close>

section \<open>The protocol\<close>

definition MARKETPLACE_PRICE_SCHEMA_VERSION :: string where
  "MARKETPLACE_PRICE_SCHEMA_VERSION = ''burd-marketplace-price-v1''"

definition FINANCIAL_LEDGER_SCHEMA_VERSION :: string where
  "FINANCIAL_LEDGER_SCHEMA_VERSION = ''burd-financial-ledger-v1''"

definition BILLING_INVOICE_SCHEMA_VERSION :: string where
  "BILLING_INVOICE_SCHEMA_VERSION = ''burd-billing-invoice-v1''"

definition PIX_PAYMENT_INTENT_SCHEMA_VERSION :: string where
  "PIX_PAYMENT_INTENT_SCHEMA_VERSION = ''burd-pix-payment-intent-v1''"

definition PROVIDER_PAYOUT_ACCOUNT_SCHEMA_VERSION :: string where
  "PROVIDER_PAYOUT_ACCOUNT_SCHEMA_VERSION = ''burd-provider-payout-account-v1''"

definition PROVIDER_PAYOUT_SCHEMA_VERSION :: string where
  "PROVIDER_PAYOUT_SCHEMA_VERSION = ''burd-provider-payout-v1''"

record UpsertMarketplacePriceRequest =
  mq_currency :: string
  mq_price_per_hour_micros :: u64
  mq_pricing_model :: "string option"

record MarketplacePriceRecord =
  mp_price_id :: string
  mp_listing_id :: string
  mp_schema_version :: string
  mp_currency :: string
  mp_price_per_hour_micros :: u64
  mp_pricing_model :: string
  mp_status :: string
  mp_created_at :: string
  mp_updated_at :: string

record PricingSnapshotRecord =
  pn_pricing_snapshot_id :: string
  pn_source_price_id :: string
  pn_listing_id :: string
  pn_schema_version :: string
  pn_currency :: string
  pn_pricing_model :: string
  pn_price_per_hour_micros :: u64
  pn_platform_fee_bps :: u32
  pn_chargeback_reserve_bps :: u32
  pn_fee_policy_version :: string
  pn_created_at :: string

record CreatePixPaymentIntentRequest =
  xq_amount_micros :: u64
  xq_currency :: string
  xq_external_reference :: "string option"

record ConfirmPixPaymentIntentRequest =
  fq_provider :: string
  fq_external_reference :: string
  fq_paid_at :: "string option"

record PixPaymentIntentRecord =
  px_payment_intent_id :: string
  px_organization_id :: string
  px_project_id :: string
  px_schema_version :: string
  px_status :: string
  px_amount_micros :: u64
  px_currency :: string
  px_provider :: string
  px_external_reference :: "string option"
  px_adapter_status :: string
  px_confirmed_at :: "string option"
  px_created_at :: string
  px_updated_at :: string

record SettleReservationBillingRequest =
  tq_usage_entry_id :: string
  tq_platform_fee_bps :: "u32 option"
  tq_chargeback_reserve_bps :: "u32 option"

record BillingInvoiceRecord =
  iv_invoice_id :: string
  iv_organization_id :: string
  iv_project_id :: string
  iv_reservation_id :: "string option"
  iv_usage_entry_id :: "string option"
  iv_pricing_snapshot_id :: "string option"
  iv_schema_version :: string
  iv_status :: string
  iv_currency :: string
  iv_subtotal_micros :: u64
  iv_platform_fee_micros :: u64
  iv_provider_net_micros :: u64
  iv_chargeback_reserve_micros :: u64
  iv_total_micros :: u64
  iv_source_hash :: string
  iv_created_at :: string
  iv_updated_at :: string

record FinancialLedgerLineRecord =
  fl_ledger_line_id :: string
  fl_transaction_id :: string
  fl_schema_version :: string
  fl_line_number :: nat
  fl_account_type :: string
  fl_account_owner_type :: string
  fl_account_owner_id :: "string option"
  fl_currency :: string
  fl_amount_micros :: int
  fl_source_type :: string
  fl_source_id :: string
  fl_description :: string
  fl_created_at :: string

record BillingBalance =
  bb_account_type :: string
  bb_owner_type :: string
  bb_owner_id :: string
  bb_currency :: string
  bb_balance_micros :: int

record UpsertProviderPayoutAccountRequest =
  aq_payout_method :: string
  aq_currency :: string
  aq_pix_key_hash :: string
  aq_pix_key_last4 :: string
  aq_kyc_status :: string
  aq_tax_status :: string
  aq_minimum_payout_micros :: "u64 option"
  aq_payout_hold_days :: "u32 option"

record ProviderPayoutAccountRecord =
  pa_payout_account_id :: string
  pa_provider_id :: string
  pa_schema_version :: string
  pa_payout_method :: string
  pa_currency :: string
  pa_pix_key_hash :: string
  pa_pix_key_last4 :: string
  pa_kyc_status :: string
  pa_tax_status :: string
  pa_minimum_payout_micros :: u64
  pa_payout_hold_days :: u32
  pa_status :: string
  pa_created_at :: string
  pa_updated_at :: string

record CreateProviderPayoutRequest =
  oq_amount_micros :: u64
  oq_currency :: string

record ProviderPayoutRecord =
  po_payout_id :: string
  po_provider_id :: string
  po_payout_account_id :: string
  po_schema_version :: string
  po_status :: string
  po_amount_micros :: u64
  po_currency :: string
  po_hold_until :: "string option"
  po_external_reference :: "string option"
  po_paid_at :: "string option"
  po_created_at :: string
  po_updated_at :: string

section \<open>The tables\<close>

record organization_row =
  og_organization_id :: string
  og_schema_version :: string
  og_display_name :: string
  og_status :: string
  og_created_at :: string
  og_updated_at :: string

record project_row =
  pj_project_id :: string
  pj_organization_id :: string
  pj_schema_version :: string
  pj_display_name :: string
  pj_status :: string
  pj_created_at :: string
  pj_updated_at :: string

text \<open>
  A row of \<open>marketplace_listings\<close>: the price book writes its price, the marketplace sweep the rest,
  reservations its current status. Columns that are only copied and shown (names, versions,
  the benchmark, the availability window) are left out.
\<close>

record listing_row =
  li_listing_id :: string
  li_provider_id :: string
  li_device_id :: string
  li_session_id :: "string option"
  li_status :: string
  li_current_status :: string
  li_workload_type :: string
  li_policy_id :: string
  li_policy_version :: string
  li_gpu_uuid :: "string option"
  li_gpu_verified :: bool
  li_gpu_verification_source :: string
  li_vram_total_mib :: "u64 option"
  li_vram_verified :: bool
  li_vram_verification_source :: string
  li_region :: "string option"
  li_region_source :: string
  li_trust_score :: "f64 option"
  li_risk_score :: "f64 option"
  li_reliability_score :: "f64 option"
  li_verification_status :: "string option"
  li_proof_freshness_status :: string
  li_last_verified_at :: "string option"
  li_remote_network_score :: "f64 option"
  li_price_currency :: "string option"
  li_price_per_hour_micros :: "u64 option"
  li_price_source :: string
  li_active_lease_count :: int
  li_reason_codes :: "string list"
  li_source_hash :: string
  li_published_at :: "string option"
  li_updated_at :: string

record pix_row = PixPaymentIntentRecord +
  pxr_idempotency_key :: "string option"
  pxr_request_hash :: "string option"

text \<open>The idempotency keys of payment intents, with the response kept as a value.\<close>

record pix_key_row =
  xk_scope :: string
  xk_key :: string
  xk_request_hash :: string
  xk_status_code :: nat
  xk_response :: PixPaymentIntentRecord

record billing =
  bl_core :: db
  bl_organizations :: "organization_row list"
  bl_projects :: "project_row list"
  bl_listings :: "listing_row list"
  bl_prices :: "MarketplacePriceRecord list"
  bl_snapshots :: "PricingSnapshotRecord list"
  bl_pix :: "pix_row list"
  bl_pix_keys :: "pix_key_row list"
  bl_invoices :: "BillingInvoiceRecord list"
  bl_ledger :: "FinancialLedgerLineRecord list"
  bl_payout_accounts :: "ProviderPayoutAccountRecord list"
  bl_payouts :: "ProviderPayoutRecord list"

text \<open>An \<open>INSERT\<close> on a table whose unique keys make \<open>clash new old\<close> an error.\<close>

definition insert_unique :: "('r \<Rightarrow> 'r \<Rightarrow> bool) \<Rightarrow> 'r \<Rightarrow> 'r list \<Rightarrow> 'r list res" where
  "insert_unique clash r rows =
     (if list_ex (clash r) rows then Inl (Database ''duplicate key value violates unique constraint'')
      else Inr (rows @ [r]))"

lemma insert_unique_Inr: "insert_unique clash r rows = Inr rows' \<longleftrightarrow> rows' = rows @ [r] \<and> (\<forall>old \<in> set rows. \<not> clash r old)"
  by (auto simp: insert_unique_def list_ex_iff)

definition audit_core ::
  "string \<Rightarrow> string \<Rightarrow> string option \<Rightarrow> string \<Rightarrow> string \<Rightarrow> string \<Rightarrow> billing \<Rightarrow> billing" where
  "audit_core request_id actor_type actor_id entity_type entity_id event_type b =
     b\<lparr>bl_core := insert_audit_event request_id actor_type actor_id entity_type entity_id event_type (bl_core b)\<rparr>"

definition audit_customer ::
  "string \<Rightarrow> string option \<Rightarrow> string \<Rightarrow> string option \<Rightarrow> string \<Rightarrow> string \<Rightarrow> string \<Rightarrow> billing \<Rightarrow> billing" where
  "audit_customer org project actor_type actor_id event_type entity_type entity_id b =
     b\<lparr>bl_core := insert_customer_audit_event org project actor_type actor_id event_type entity_type entity_id (bl_core b)\<rparr>"

section \<open>Validation and amounts\<close>

definition DEFAULT_MINIMUM_PAYOUT_MICROS :: u64 where "DEFAULT_MINIMUM_PAYOUT_MICROS = 5000000"
definition DEFAULT_PAYOUT_HOLD_DAYS :: u32 where "DEFAULT_PAYOUT_HOLD_DAYS = 7"
definition MAX_FINANCIAL_LEDGER_LIMIT :: nat where "MAX_FINANCIAL_LEDGER_LIMIT = 200"
definition PIX_ADAPTER_PROVIDER :: string where "PIX_ADAPTER_PROVIDER = ''pix_manual_adapter_v1''"

definition validate_currency :: "string \<Rightarrow> unit res" where
  "validate_currency currency =
     ensure (length currency = 3 \<and> list_all is_ascii_uppercase currency)
       (Invalid ''currency must be a three-letter uppercase ISO code'')"

definition validate_money :: "u64 \<Rightarrow> string \<Rightarrow> unit res" where
  "validate_money amount currency =
     bind_res (ensure (amount \<noteq> 0) (Invalid ''amount_micros must be greater than zero'')) (\<lambda>_.
     validate_currency currency)"

definition validate_external_reference :: "string \<Rightarrow> unit res" where
  "validate_external_reference reference =
     ensure (is_bounded_ascii reference 160) (Invalid ''external reference must be printable ASCII'')"

definition validate_price_request :: "UpsertMarketplacePriceRequest \<Rightarrow> unit res" where
  "validate_price_request r =
     bind_res (validate_money (mq_price_per_hour_micros r) (mq_currency r)) (\<lambda>_.
     case mq_pricing_model r of
       None \<Rightarrow> Inr ()
     | Some model \<Rightarrow>
         bind_res (validate_id ''pricing_model'' model 64) (\<lambda>_.
         ensure (model = ''gpu_hour'') (Invalid ''only gpu_hour pricing is supported in BN-18'')))"

definition validate_pix_intent_request :: "CreatePixPaymentIntentRequest \<Rightarrow> unit res" where
  "validate_pix_intent_request r =
     bind_res (validate_money (xq_amount_micros r) (xq_currency r)) (\<lambda>_.
     case xq_external_reference r of None \<Rightarrow> Inr () | Some reference \<Rightarrow> validate_external_reference reference)"

text \<open>The parser's own message, which the code appends to the error, is not modelled.\<close>

definition parse_timestamp :: "externs \<Rightarrow> string \<Rightarrow> string \<Rightarrow> unit res" where
  "parse_timestamp X label value =
     ensure (parse_from_rfc3339 X value \<noteq> None) (Invalid (label @ '' must be RFC3339 timestamp''))"

definition validate_confirm_pix_request :: "externs \<Rightarrow> ConfirmPixPaymentIntentRequest \<Rightarrow> unit res" where
  "validate_confirm_pix_request X r =
     bind_res (validate_id ''provider'' (fq_provider r) 64) (\<lambda>_.
     bind_res (validate_external_reference (fq_external_reference r)) (\<lambda>_.
     case fq_paid_at r of None \<Rightarrow> Inr () | Some t \<Rightarrow> parse_timestamp X ''paid_at'' t))"

definition validate_payout_account_request :: "UpsertProviderPayoutAccountRequest \<Rightarrow> unit res" where
  "validate_payout_account_request r =
     bind_res (ensure (aq_payout_method r = ''pix'')
       (Invalid ''only Pix payout accounts are supported in BN-18'')) (\<lambda>_.
     bind_res (validate_currency (aq_currency r)) (\<lambda>_.
     bind_res (ensure (is_bounded_ascii (aq_pix_key_hash r) 160 \<and> 16 \<le> length (aq_pix_key_hash r))
       (Invalid ''pix_key_hash must be a stored hash, not a raw Pix key'')) (\<lambda>_.
     bind_res (ensure (is_bounded_ascii (aq_pix_key_last4 r) 16)
       (Invalid ''pix_key_last4 must be a short masked suffix'')) (\<lambda>_.
     bind_res (ensure (aq_kyc_status r \<in> {''pending'', ''verified'', ''rejected''})
       (Invalid ''unsupported KYC status'')) (\<lambda>_.
     bind_res (ensure (aq_tax_status r \<in> {''pending'', ''verified'', ''blocked''})
       (Invalid ''unsupported tax status'')) (\<lambda>_.
     bind_res (ensure (aq_minimum_payout_micros r \<noteq> Some 0)
       (Invalid ''minimum payout must be greater than zero'')) (\<lambda>_.
     ensure (\<not> (case aq_payout_hold_days r of None \<Rightarrow> DEFAULT_PAYOUT_HOLD_DAYS | Some d \<Rightarrow> d) > 90)
       (Invalid ''payout hold cannot exceed 90 days''))))))))"

definition validate_bps :: "u32 \<Rightarrow> u32 \<Rightarrow> unit res" where
  "validate_bps fee reserve =
     bind_res (ensure (\<not> (fee > 10000 \<or> reserve > 10000)) (Invalid ''basis points exceed 100%'')) (\<lambda>_.
     ensure (\<not> min (uint fee + uint reserve) (2 ^ 32 - 1) > 10000)
       (Invalid ''platform fee plus reserve cannot exceed 100%''))"

text \<open>\<open>to_i64\<close>: the value as the signed column holds it.\<close>

definition amount_to_i64 :: "u64 \<Rightarrow> int res" where
  "amount_to_i64 v = (if uint v \<le> i64_max then Inr (uint v) else Inl (Invalid ''amount overflow''))"

definition billable_amount_micros :: "u64 \<Rightarrow> u64 \<Rightarrow> u64 res" where
  "billable_amount_micros seconds price =
     (let raw = uint seconds * uint price in
      bind_res (ensure (raw < 2 ^ 128) (Invalid ''billing amount overflow'')) (\<lambda>_.
      let v = (raw + 3599) div 3600 in
      bind_res (ensure (v < 2 ^ 64) (Invalid ''billing amount overflow'')) (\<lambda>_. Inr (word_of_int v))))"

definition proportional_amount :: "u64 \<Rightarrow> u32 \<Rightarrow> u64 res" where
  "proportional_amount amount bps =
     (let raw = uint amount * uint bps in
      bind_res (ensure (raw < 2 ^ 128) (Invalid ''amount overflow'')) (\<lambda>_.
      let v = raw div 10000 in
      bind_res (ensure (v < 2 ^ 64) (Invalid ''amount overflow'')) (\<lambda>_. Inr (word_of_int v))))"

record SettlementAmounts =
  sm_subtotal_micros :: u64
  sm_platform_fee_micros :: u64
  sm_provider_net_micros :: u64
  sm_chargeback_reserve_micros :: u64

definition checked_sub :: "u64 \<Rightarrow> u64 \<Rightarrow> u64 option" where
  "checked_sub a b = (if b \<le> a then Some (a - b) else None)"

definition settlement_amounts :: "u64 \<Rightarrow> u32 \<Rightarrow> u32 \<Rightarrow> SettlementAmounts res" where
  "settlement_amounts subtotal fee_bps reserve_bps =
     bind_res (validate_bps fee_bps reserve_bps) (\<lambda>_.
     bind_res (proportional_amount subtotal fee_bps) (\<lambda>fee.
     bind_res (proportional_amount subtotal reserve_bps) (\<lambda>reserve.
     bind_res (ok_or (Option.bind (checked_sub subtotal fee) (\<lambda>remaining. checked_sub remaining reserve))
       (Invalid ''settlement amount underflow'')) (\<lambda>net.
     Inr \<lparr>sm_subtotal_micros = subtotal, sm_platform_fee_micros = fee, sm_provider_net_micros = net,
          sm_chargeback_reserve_micros = reserve\<rparr>))))"

section \<open>The ledger\<close>

record LedgerLine =
  lg_account_type :: string
  lg_owner_type :: string
  lg_owner_id :: "string option"
  lg_amount_micros :: int
  lg_description :: string

definition assert_balanced :: "LedgerLine list \<Rightarrow> unit res" where
  "assert_balanced ls =
     bind_res (ensure (\<not> length ls < 2)
       (Invalid ''financial transaction requires at least two non-zero ledger lines'')) (\<lambda>_.
     ensure (sum_list (map lg_amount_micros ls) = 0)
       (Invalid ''financial ledger transaction must balance to zero''))"

definition validate_ledger_line :: "LedgerLine \<Rightarrow> unit res" where
  "validate_ledger_line l =
     bind_res (validate_id ''account_type'' (lg_account_type l) 64) (\<lambda>_.
     bind_res (validate_id ''account_owner_type'' (lg_owner_type l) 64) (\<lambda>_.
     bind_res (case lg_owner_id l of None \<Rightarrow> Inr () | Some o' \<Rightarrow> validate_id ''account_owner_id'' o' 160) (\<lambda>_.
     ensure (is_bounded_ascii (lg_description l) 160)
       (Invalid ''ledger line description must be printable ASCII''))))"

text \<open>The record of the line with the given position in its transaction.\<close>

definition ledger_record ::
  "(nat \<Rightarrow> string) \<Rightarrow> string \<Rightarrow> string \<Rightarrow> string \<Rightarrow> string \<Rightarrow> string \<Rightarrow> nat \<Rightarrow> LedgerLine \<Rightarrow> FinancialLedgerLineRecord" where
  "ledger_record uuids txn source_type source_id currency now n l =
     \<lparr>fl_ledger_line_id = ''ledger_'' @ uuids n, fl_transaction_id = ''txn_'' @ txn,
      fl_schema_version = FINANCIAL_LEDGER_SCHEMA_VERSION, fl_line_number = n,
      fl_account_type = lg_account_type l, fl_account_owner_type = lg_owner_type l,
      fl_account_owner_id = lg_owner_id l, fl_currency = currency, fl_amount_micros = lg_amount_micros l,
      fl_source_type = source_type, fl_source_id = source_id, fl_description = lg_description l,
      fl_created_at = now\<rparr>"

definition ledger_clash :: "FinancialLedgerLineRecord \<Rightarrow> FinancialLedgerLineRecord \<Rightarrow> bool" where
  "ledger_clash r old \<longleftrightarrow> fl_ledger_line_id old = fl_ledger_line_id r \<or>
     (fl_transaction_id old = fl_transaction_id r \<and> fl_line_number old = fl_line_number r)"

text \<open>The loop over the lines, numbered from 1.\<close>

fun append_lines ::
  "(nat \<Rightarrow> LedgerLine \<Rightarrow> FinancialLedgerLineRecord) \<Rightarrow> nat \<Rightarrow> LedgerLine list \<Rightarrow> FinancialLedgerLineRecord list \<Rightarrow>
     FinancialLedgerLineRecord list res" where
  "append_lines mk n [] ledger = Inr ledger"
| "append_lines mk n (l # ls) ledger =
     bind_res (validate_ledger_line l) (\<lambda>_.
     bind_res (ensure (int n < 2 ^ 31) (Invalid ''ledger line index overflow'')) (\<lambda>_.
     bind_res (insert_unique ledger_clash (mk n l) ledger) (\<lambda>ledger'.
     append_lines mk (Suc n) ls ledger')))"

definition append_financial_transaction ::
  "(nat \<Rightarrow> string) \<Rightarrow> string \<Rightarrow> string \<Rightarrow> string \<Rightarrow> string \<Rightarrow> string \<Rightarrow> LedgerLine list \<Rightarrow> billing \<Rightarrow> billing res" where
  "append_financial_transaction uuids txn source_type source_id currency now ls b =
     bind_res (validate_id ''source_type'' source_type 64) (\<lambda>_.
     bind_res (validate_id ''source_id'' source_id 160) (\<lambda>_.
     bind_res (validate_currency currency) (\<lambda>_.
     let ls = filter (\<lambda>l. lg_amount_micros l \<noteq> 0) ls in
     bind_res (assert_balanced ls) (\<lambda>_.
     bind_res (append_lines (ledger_record uuids txn source_type source_id currency now) 1 ls (bl_ledger b)) (\<lambda>ledger.
     Inr (b\<lparr>bl_ledger := ledger\<rparr>))))))"

text \<open>\<open>SUM(amount_micros)::BIGINT\<close> fails when the sum does not fit.\<close>

definition ledger_sum :: "string \<Rightarrow> string \<Rightarrow> string \<Rightarrow> string \<Rightarrow> FinancialLedgerLineRecord list \<Rightarrow> int" where
  "ledger_sum account owner_type owner currency ls =
     sum_list (map fl_amount_micros (filter (\<lambda>l. fl_account_type l = account \<and> fl_account_owner_type l = owner_type
       \<and> fl_account_owner_id l = Some owner \<and> fl_currency l = currency) ls))"

definition cast_bigint :: "int \<Rightarrow> int res" where
  "cast_bigint v = (if - (2 ^ 63) \<le> v \<and> v \<le> i64_max then Inr v else Inl (Database ''bigint out of range''))"

definition account_balance :: "string \<Rightarrow> string \<Rightarrow> string \<Rightarrow> string \<Rightarrow> billing \<Rightarrow> int res" where
  "account_balance account owner_type owner currency b =
     cast_bigint (ledger_sum account owner_type owner currency (bl_ledger b))"

fun those_res :: "'a res list \<Rightarrow> 'a list res" where
  "those_res [] = Inr []"
| "those_res (r # rs) = bind_res r (\<lambda>x. bind_res (those_res rs) (\<lambda>xs. Inr (x # xs)))"

text \<open>\<open>GROUP BY account_type, currency ORDER BY account_type, currency\<close>.\<close>

definition load_balances :: "externs \<Rightarrow> string \<Rightarrow> string \<Rightarrow> billing \<Rightarrow> BillingBalance list res" where
  "load_balances X owner_type owner b =
     (let own = filter (\<lambda>l. fl_account_owner_type l = owner_type \<and> fl_account_owner_id l = Some owner) (bl_ledger b);
          groups = sort_key (\<lambda>(a, c). (collation_key X a, collation_key X c))
            (remdups (map (\<lambda>l. (fl_account_type l, fl_currency l)) own)) in
      those_res (map (\<lambda>(a, c). bind_res (cast_bigint (ledger_sum a owner_type owner c own)) (\<lambda>v.
        Inr \<lparr>bb_account_type = a, bb_owner_type = owner_type, bb_owner_id = owner, bb_currency = c,
             bb_balance_micros = v\<rparr>)) groups))"

definition load_ledger_lines ::
  "externs \<Rightarrow> string \<Rightarrow> string \<Rightarrow> u32 \<Rightarrow> billing \<Rightarrow> FinancialLedgerLineRecord list" where
  "load_ledger_lines X owner_type owner limit b =
     take (clamp 1 MAX_FINANCIAL_LEDGER_LIMIT (unat limit))
       (rev (sort_key (\<lambda>l. (collation_key X (fl_created_at l), fl_line_number l))
         (filter (\<lambda>l. fl_account_owner_type l = owner_type \<and> fl_account_owner_id l = Some owner) (bl_ledger b))))"

definition authorize_project_access :: "CustomerApiKeyAuth \<Rightarrow> string \<Rightarrow> billing \<Rightarrow> string res" where
  "authorize_project_access auth project b =
     bind_res (assert_project_binding auth project) (\<lambda>_.
     bind_res (ok_or (find (\<lambda>(p, g). pj_project_id p = project \<and> og_organization_id g = pj_organization_id p)
         (List.product (bl_projects b) (bl_organizations b))) (NotFound ''project not found'')) (\<lambda>(p, g).
     bind_res (ensure (pj_organization_id p = ak_organization_id auth) Unauthorized) (\<lambda>_.
     bind_res (ensure (\<not> (pj_status p \<noteq> ''active'' \<or> og_status g \<noteq> ''active''))
       (Conflict ''project or organization is not active'')) (\<lambda>_.
     Inr (pj_organization_id p)))))"

definition project_billing_balance ::
  "externs \<Rightarrow> CustomerApiKeyAuth \<Rightarrow> string \<Rightarrow> billing \<Rightarrow> BillingBalance list res" where
  "project_billing_balance X auth project b =
     bind_res (require_customer_scope auth ''billing:read'') (\<lambda>_.
     bind_res (validate_id ''project_id'' project 128) (\<lambda>_.
     bind_res (authorize_project_access auth project b) (\<lambda>_.
     load_balances X ''project'' project b)))"

definition provider_billing_balance :: "externs \<Rightarrow> string \<Rightarrow> billing \<Rightarrow> BillingBalance list res" where
  "provider_billing_balance X provider b =
     bind_res (validate_id ''provider_id'' provider 128) (\<lambda>_. load_balances X ''provider'' provider b)"

definition list_project_financial_ledger ::
  "externs \<Rightarrow> CustomerApiKeyAuth \<Rightarrow> string \<Rightarrow> u32 \<Rightarrow> billing \<Rightarrow> FinancialLedgerLineRecord list res" where
  "list_project_financial_ledger X auth project limit b =
     bind_res (require_customer_scope auth ''billing:read'') (\<lambda>_.
     bind_res (validate_id ''project_id'' project 128) (\<lambda>_.
     bind_res (authorize_project_access auth project b) (\<lambda>_.
     Inr (load_ledger_lines X ''project'' project limit b))))"

definition list_provider_financial_ledger ::
  "externs \<Rightarrow> string \<Rightarrow> u32 \<Rightarrow> billing \<Rightarrow> FinancialLedgerLineRecord list res" where
  "list_provider_financial_ledger X provider limit b =
     bind_res (validate_id ''provider_id'' provider 128) (\<lambda>_.
     Inr (load_ledger_lines X ''provider'' provider limit b))"

section \<open>Prices\<close>

definition load_one :: "('r \<Rightarrow> bool) \<Rightarrow> 'r list \<Rightarrow> 'r res" where
  "load_one P rows = ok_or (find P rows) (Database ''query returned an unexpected number of rows'')"

definition price_clash :: "MarketplacePriceRecord \<Rightarrow> MarketplacePriceRecord \<Rightarrow> bool" where
  "price_clash r old \<longleftrightarrow> mp_price_id old = mp_price_id r \<or>
     (mp_listing_id old = mp_listing_id r \<and> mp_status old = ''active'' \<and> mp_status r = ''active'')"

definition upsert_marketplace_price ::
  "externs \<Rightarrow> string \<Rightarrow> string \<Rightarrow> string \<Rightarrow> UpsertMarketplacePriceRequest \<Rightarrow> int \<Rightarrow> billing \<Rightarrow>
     (billing \<times> MarketplacePriceRecord) res" where
  "upsert_marketplace_price X uuid request_id listing r now b =
     bind_res (validate_id ''listing_id'' listing 160) (\<lambda>_.
     bind_res (validate_price_request r) (\<lambda>_.
     let now_text = to_rfc3339 X now in
     bind_res (ok_or (find (\<lambda>l. li_listing_id l = listing) (bl_listings b))
       (NotFound ''marketplace listing not found'')) (\<lambda>_.
     let superseded = sql_update (\<lambda>p. mp_listing_id p = listing \<and> mp_status p = ''active'')
           (\<lambda>p. p\<lparr>mp_status := ''superseded'', mp_updated_at := now_text\<rparr>) (bl_prices b);
         price = \<lparr>mp_price_id = ''price_'' @ uuid, mp_listing_id = listing,
           mp_schema_version = MARKETPLACE_PRICE_SCHEMA_VERSION, mp_currency = mq_currency r,
           mp_price_per_hour_micros = mq_price_per_hour_micros r,
           mp_pricing_model = (case mq_pricing_model r of None \<Rightarrow> ''gpu_hour'' | Some m \<Rightarrow> m),
           mp_status = ''active'', mp_created_at = now_text, mp_updated_at = now_text\<rparr> in
     bind_res (amount_to_i64 (mq_price_per_hour_micros r)) (\<lambda>_.
     bind_res (insert_unique price_clash price superseded) (\<lambda>prices.
     let b' = audit_core request_id ''admin'' None ''marketplace_listing_price'' (mp_price_id price)
           ''billing.price.updated''
           (b\<lparr>bl_prices := prices,
              bl_listings := sql_update (\<lambda>l. li_listing_id l = listing)
                (\<lambda>l. l\<lparr>li_price_currency := Some (mq_currency r),
                       li_price_per_hour_micros := Some (mq_price_per_hour_micros r),
                       li_price_source := ''billing_price_book'', li_updated_at := now_text\<rparr>) (bl_listings b)\<rparr>) in
     bind_res (load_one (\<lambda>p. mp_price_id p = mp_price_id price) (bl_prices b')) (\<lambda>row.
     Inr (b', row)))))))"

section \<open>Pix payment intents\<close>

record CreatePixPaymentIntentCommand =
  xc_request_id :: string
  xc_scope :: string
  xc_idempotency_key :: string
  xc_request_hash :: string
  xc_auth :: CustomerApiKeyAuth
  xc_project_id :: string
  xc_request :: CreatePixPaymentIntentRequest

datatype CreatePixPaymentIntentOutcome = PixResponse pix_key_row | PixConflict

definition pix_from_row :: "pix_row \<Rightarrow> PixPaymentIntentRecord" where
  "pix_from_row r = PixPaymentIntentRecord.truncate r"

text \<open>The primary key, \<open>UNIQUE(project_id, idempotency_key)\<close> and the unique provider reference.\<close>

definition pix_clash :: "pix_row \<Rightarrow> pix_row \<Rightarrow> bool" where
  "pix_clash r old \<longleftrightarrow> px_payment_intent_id old = px_payment_intent_id r \<or>
     (px_project_id old = px_project_id r \<and> pxr_idempotency_key old \<noteq> None \<and>
        pxr_idempotency_key old = pxr_idempotency_key r) \<or>
     (px_provider old = px_provider r \<and> px_external_reference old \<noteq> None \<and>
        px_external_reference old = px_external_reference r)"

definition new_pix_row :: "string \<Rightarrow> string \<Rightarrow> CreatePixPaymentIntentCommand \<Rightarrow> string \<Rightarrow> pix_row" where
  "new_pix_row uuid org c now =
     \<lparr>px_payment_intent_id = ''pix_'' @ uuid, px_organization_id = org, px_project_id = xc_project_id c,
      px_schema_version = PIX_PAYMENT_INTENT_SCHEMA_VERSION, px_status = ''requires_confirmation'',
      px_amount_micros = xq_amount_micros (xc_request c), px_currency = xq_currency (xc_request c),
      px_provider = PIX_ADAPTER_PROVIDER, px_external_reference = xq_external_reference (xc_request c),
      px_adapter_status = ''adapter_not_invoked_manual_confirmation_required'', px_confirmed_at = None,
      px_created_at = now, px_updated_at = now, pxr_idempotency_key = Some (xc_idempotency_key c),
      pxr_request_hash = Some (xc_request_hash c)\<rparr>"

definition create_pix_payment_intent_idempotently ::
  "externs \<Rightarrow> string \<Rightarrow> CreatePixPaymentIntentCommand \<Rightarrow> int \<Rightarrow> billing \<Rightarrow> (billing \<times> CreatePixPaymentIntentOutcome) res" where
  "create_pix_payment_intent_idempotently X uuid c now b =
     bind_res (require_customer_scope (xc_auth c) ''billing:write'') (\<lambda>_.
     bind_res (validate_id ''project_id'' (xc_project_id c) 128) (\<lambda>_.
     bind_res (validate_pix_intent_request (xc_request c)) (\<lambda>_.
     bind_res (authorize_project_access (xc_auth c) (xc_project_id c) b) (\<lambda>org.
     case find (\<lambda>k. xk_scope k = xc_scope c \<and> xk_key k = xc_idempotency_key c) (bl_pix_keys b) of
       Some k \<Rightarrow> Inr (b, if xk_request_hash k = xc_request_hash c then PixResponse k else PixConflict)
     | None \<Rightarrow>
         let row = new_pix_row uuid org c (to_rfc3339 X now) in
         bind_res (amount_to_i64 (xq_amount_micros (xc_request c))) (\<lambda>_.
         bind_res (insert_unique pix_clash row (bl_pix b)) (\<lambda>pix.
         let key = \<lparr>xk_scope = xc_scope c, xk_key = xc_idempotency_key c, xk_request_hash = xc_request_hash c,
                    xk_status_code = 201, xk_response = pix_from_row row\<rparr> in
         Inr (audit_customer org (Some (xc_project_id c)) ''customer_api_key''
                (Some (ak_api_key_id (xc_auth c))) ''billing.pix_payment_intent.created'' ''pix_payment_intent''
                (px_payment_intent_id row) (b\<lparr>bl_pix := pix, bl_pix_keys := bl_pix_keys b @ [key]\<rparr>),
              PixResponse key)))))))"

definition assert_confirmed_pix_matches_request ::
  "PixPaymentIntentRecord \<Rightarrow> ConfirmPixPaymentIntentRequest \<Rightarrow> unit res" where
  "assert_confirmed_pix_matches_request current r =
     bind_res (ensure (\<not> (px_provider current \<noteq> fq_provider r
         \<or> px_external_reference current \<noteq> Some (fq_external_reference r)))
       (Conflict (''confirmed Pix payment intent cannot be reconfirmed ''
         @ ''with a different provider reference''))) (\<lambda>_.
     ensure (case fq_paid_at r of None \<Rightarrow> True | Some t \<Rightarrow> px_confirmed_at current = Some t)
       (Conflict ''confirmed Pix payment intent cannot be reconfirmed with a different paid_at''))"

definition pix_lines :: "PixPaymentIntentRecord \<Rightarrow> LedgerLine list" where
  "pix_lines p =
     [\<lparr>lg_account_type = ''customer_balance'', lg_owner_type = ''project'', lg_owner_id = Some (px_project_id p),
       lg_amount_micros = uint (px_amount_micros p), lg_description = ''Pix payment credited to customer balance''\<rparr>,
      \<lparr>lg_account_type = ''payment_processor_clearing'', lg_owner_type = ''platform'', lg_owner_id = None,
       lg_amount_micros = - uint (px_amount_micros p), lg_description = ''Pix processor clearing offset''\<rparr>]"

text \<open>The \<open>UPDATE\<close> of a confirmed intent; the unique provider reference may refuse it.\<close>

definition confirmed_row :: "ConfirmPixPaymentIntentRequest \<Rightarrow> string \<Rightarrow> pix_row \<Rightarrow> pix_row" where
  "confirmed_row r confirmed_at p =
     p\<lparr>px_status := ''confirmed'', px_provider := fq_provider r,
       px_external_reference := Some (fq_external_reference r),
       px_adapter_status := ''confirmed_by_admin_or_webhook'', px_confirmed_at := Some confirmed_at,
       px_updated_at := confirmed_at\<rparr>"

definition update_confirmed ::
  "string \<Rightarrow> ConfirmPixPaymentIntentRequest \<Rightarrow> string \<Rightarrow> pix_row list \<Rightarrow> pix_row list res" where
  "update_confirmed pid r confirmed_at rows =
     bind_res (ensure (\<not> list_ex (\<lambda>p. px_payment_intent_id p \<noteq> pid \<and> px_provider p = fq_provider r
         \<and> px_external_reference p = Some (fq_external_reference r)) rows)
       (Database ''duplicate key value violates unique constraint'')) (\<lambda>_.
     Inr (sql_update (\<lambda>p. px_payment_intent_id p = pid) (confirmed_row r confirmed_at) rows))"

definition confirm_pix_payment_intent ::
  "externs \<Rightarrow> (nat \<Rightarrow> string) \<Rightarrow> string \<Rightarrow> string \<Rightarrow> string \<Rightarrow> ConfirmPixPaymentIntentRequest \<Rightarrow> int \<Rightarrow> billing \<Rightarrow>
     (billing \<times> PixPaymentIntentRecord \<times> bool) res" where
  "confirm_pix_payment_intent X uuids txn request_id pid r now b =
     bind_res (validate_id ''payment_intent_id'' pid 160) (\<lambda>_.
     bind_res (validate_confirm_pix_request X r) (\<lambda>_.
     bind_res (ok_or (find (\<lambda>p. px_payment_intent_id p = pid) (bl_pix b))
       (NotFound ''Pix payment intent not found'')) (\<lambda>row.
     let current = pix_from_row row in
     if px_status current = ''confirmed'' then
       bind_res (assert_confirmed_pix_matches_request current r) (\<lambda>_. Inr (b, current, True))
     else
       let now_text = to_rfc3339 X now;
           confirmed_at = (case fq_paid_at r of None \<Rightarrow> now_text | Some t \<Rightarrow> t) in
       bind_res (amount_to_i64 (px_amount_micros current)) (\<lambda>_.
       bind_res (append_financial_transaction uuids txn ''pix_payment_intent'' pid (px_currency current) now_text
         (pix_lines current) b) (\<lambda>b1.
       bind_res (update_confirmed pid r confirmed_at (bl_pix b1)) (\<lambda>pix.
       let b2 = audit_core request_id ''admin'' None ''pix_payment_intent'' pid ''billing.pix.confirmed''
             (audit_customer (px_organization_id current) (Some (px_project_id current)) ''admin'' None
               ''billing.pix_payment_intent.confirmed'' ''pix_payment_intent'' pid (b1\<lparr>bl_pix := pix\<rparr>)) in
       bind_res (load_one (\<lambda>p. px_payment_intent_id p = pid) (bl_pix b2)) (\<lambda>after.
       Inr (b2, pix_from_row after, False))))))))"

section \<open>Settlement\<close>

definition validate_pricing_snapshot_matches_reservation :: "reservation_row \<Rightarrow> PricingSnapshotRecord \<Rightarrow> unit res" where
  "validate_pricing_snapshot_matches_reservation v n =
     bind_res (ensure (rv_pricing_snapshot_id v = Some (pn_pricing_snapshot_id n))
       (Conflict ''pricing snapshot does not match reservation'')) (\<lambda>_.
     ensure (rv_listing_id v = pn_listing_id n)
       (Conflict ''pricing snapshot does not match reservation listing''))"

definition validate_legacy_fee_request_matches_snapshot ::
  "SettleReservationBillingRequest \<Rightarrow> PricingSnapshotRecord \<Rightarrow> unit res" where
  "validate_legacy_fee_request_matches_snapshot r n =
     bind_res (ensure (case tq_platform_fee_bps r of None \<Rightarrow> True | Some v \<Rightarrow> v = pn_platform_fee_bps n)
       (Conflict ''settlement platform fee does not match pricing snapshot'')) (\<lambda>_.
     bind_res (ensure (case tq_chargeback_reserve_bps r of None \<Rightarrow> True | Some v \<Rightarrow> v = pn_chargeback_reserve_bps n)
       (Conflict ''settlement reserve fee does not match pricing snapshot'')) (\<lambda>_.
     validate_bps (pn_platform_fee_bps n) (pn_chargeback_reserve_bps n)))"

definition validate_usage_matches_reservation :: "reservation_row \<Rightarrow> UsageLedgerEntry \<Rightarrow> unit res" where
  "validate_usage_matches_reservation v u =
     (let r = ul_receipt u in
      bind_res (ensure (ur_reservation_id r = Some (rv_reservation_id v))
        (Conflict ''usage entry does not match reservation id'')) (\<lambda>_.
      bind_res (ensure (ur_pricing_snapshot_id r = rv_pricing_snapshot_id v)
        (Conflict ''usage entry does not match reservation pricing snapshot'')) (\<lambda>_.
      bind_res (ensure (\<not> (rv_provider_id v \<noteq> ur_provider_id r \<or> rv_device_id v \<noteq> ur_device_id r))
        (Conflict ''usage entry does not match reservation provider/device'')) (\<lambda>_.
      ensure (case rv_gpu_uuid v of None \<Rightarrow> True | Some g \<Rightarrow> g = ur_gpu_uuid r)
        (Conflict ''usage entry does not match reservation GPU UUID'')))))"

definition load_invoice_for_usage :: "string \<Rightarrow> billing \<Rightarrow> BillingInvoiceRecord option" where
  "load_invoice_for_usage entry b = find (\<lambda>i. iv_usage_entry_id i = Some entry) (bl_invoices b)"

definition invoice_response_for_existing_usage ::
  "string \<Rightarrow> BillingInvoiceRecord \<Rightarrow> (BillingInvoiceRecord \<times> bool) res" where
  "invoice_response_for_existing_usage reservation i =
     (if iv_reservation_id i = Some reservation then Inr (i, True)
      else Inl (Conflict ''usage entry is already settled by another billing invoice''))"

text \<open>The claims hashed into an invoice, and the hash.\<close>

record SettlementClaims =
  sc_snapshot :: PricingSnapshotRecord
  sc_reservation_id :: string
  sc_usage_entry_id :: string
  sc_usage_source_hash :: string
  sc_usage_receipt_hash :: string
  sc_billable_gpu_seconds :: u64
  sc_amounts :: SettlementAmounts

text \<open>
  A settlement is a transaction in two halves. It first reads, locking the reservation, the snapshot and the
  usage entry: either the usage is already invoiced, or there is an amount that the balance of the project
  covers. Then it writes. The ledger itself is not locked.
\<close>

datatype settle_plan =
    Settled BillingInvoiceRecord
  | Settle reservation_row PricingSnapshotRecord UsageLedgerEntry SettlementAmounts

text \<open>The amount of a usage entry that is not yet invoiced.\<close>

definition settle_covered ::
  "reservation_row \<Rightarrow> PricingSnapshotRecord \<Rightarrow> UsageLedgerEntry \<Rightarrow> billing \<Rightarrow> settle_plan res" where
  "settle_covered v n u b =
     bind_res (ensure (ur_billable_gpu_seconds (ul_receipt u) \<noteq> 0)
       (Conflict ''usage entry has no billable GPU seconds'')) (\<lambda>_.
     bind_res (billable_amount_micros (ur_billable_gpu_seconds (ul_receipt u))
       (pn_price_per_hour_micros n)) (\<lambda>subtotal.
     bind_res (settlement_amounts subtotal (pn_platform_fee_bps n) (pn_chargeback_reserve_bps n)) (\<lambda>amounts.
     bind_res (amount_to_i64 (sm_subtotal_micros amounts)) (\<lambda>subtotal_i64.
     bind_res (account_balance ''customer_balance'' ''project'' (rv_project_id v) (pn_currency n) b) (\<lambda>balance.
     bind_res (ensure (\<not> balance < subtotal_i64)
       (Conflict ''project customer balance is insufficient for billing settlement'')) (\<lambda>_.
     Inr (Settle v n u amounts)))))))"

definition settle_read :: "string \<Rightarrow> SettleReservationBillingRequest \<Rightarrow> billing \<Rightarrow> settle_plan res" where
  "settle_read reservation_id r b =
     bind_res (validate_id ''reservation_id'' reservation_id 160) (\<lambda>_.
     bind_res (validate_id ''usage_entry_id'' (tq_usage_entry_id r) 160) (\<lambda>_.
     bind_res (ok_or (find (\<lambda>v. rv_reservation_id v = reservation_id) (marketplace_reservations (bl_core b)))
       (NotFound ''reservation not found'')) (\<lambda>v.
     bind_res (ensure (rv_status v \<noteq> ''cancelled'') (Conflict ''cancelled reservations cannot be billed'')) (\<lambda>_.
     bind_res (ok_or (rv_pricing_snapshot_id v)
       (Conflict ''reservation has no authoritative pricing snapshot'')) (\<lambda>nid.
     bind_res (ok_or (find (\<lambda>n. pn_pricing_snapshot_id n = nid) (bl_snapshots b))
       (Conflict ''pricing snapshot not found'')) (\<lambda>n.
     bind_res (validate_pricing_snapshot_matches_reservation v n) (\<lambda>_.
     bind_res (validate_legacy_fee_request_matches_snapshot r n) (\<lambda>_.
     bind_res (ok_or (find (\<lambda>u. ul_entry_id u = tq_usage_entry_id r) (usage_ledger_entries (bl_core b)))
       (NotFound ''usage ledger entry not found'')) (\<lambda>u.
     bind_res (validate_usage_matches_reservation v u) (\<lambda>_.
     case load_invoice_for_usage (tq_usage_entry_id r) b of
       Some i \<Rightarrow>
         bind_res (invoice_response_for_existing_usage reservation_id i) (\<lambda>_. Inr (Settled i))
     | None \<Rightarrow> settle_covered v n u b))))))))))"

definition new_invoice ::
  "(SettlementClaims \<Rightarrow> string) \<Rightarrow> string \<Rightarrow> string \<Rightarrow> reservation_row \<Rightarrow> PricingSnapshotRecord \<Rightarrow> UsageLedgerEntry \<Rightarrow>
     SettlementAmounts \<Rightarrow> BillingInvoiceRecord" where
  "new_invoice hash uuid now v n u m =
     \<lparr>iv_invoice_id = ''invoice_'' @ uuid, iv_organization_id = rv_organization_id v,
      iv_project_id = rv_project_id v, iv_reservation_id = Some (rv_reservation_id v),
      iv_usage_entry_id = Some (ul_entry_id u), iv_pricing_snapshot_id = Some (pn_pricing_snapshot_id n),
      iv_schema_version = BILLING_INVOICE_SCHEMA_VERSION, iv_status = ''issued'', iv_currency = pn_currency n,
      iv_subtotal_micros = sm_subtotal_micros m, iv_platform_fee_micros = sm_platform_fee_micros m,
      iv_provider_net_micros = sm_provider_net_micros m,
      iv_chargeback_reserve_micros = sm_chargeback_reserve_micros m, iv_total_micros = sm_subtotal_micros m,
      iv_source_hash = hash \<lparr>sc_snapshot = n, sc_reservation_id = rv_reservation_id v,
        sc_usage_entry_id = ul_entry_id u, sc_usage_source_hash = ul_source_hash u,
        sc_usage_receipt_hash = ul_receipt_hash u,
        sc_billable_gpu_seconds = ur_billable_gpu_seconds (ul_receipt u), sc_amounts = m\<rparr>,
      iv_created_at = now, iv_updated_at = now\<rparr>"

text \<open>\<open>ON CONFLICT DO NOTHING\<close> covers the primary key and both unique keys of the usage entry.\<close>

definition invoice_conflict :: "BillingInvoiceRecord \<Rightarrow> BillingInvoiceRecord list \<Rightarrow> bool" where
  "invoice_conflict i rows \<longleftrightarrow> list_ex (\<lambda>old. iv_invoice_id old = iv_invoice_id i \<or>
     (iv_usage_entry_id old \<noteq> None \<and> iv_usage_entry_id old = iv_usage_entry_id i)) rows"

definition invoice_lines :: "reservation_row \<Rightarrow> SettlementAmounts \<Rightarrow> LedgerLine list" where
  "invoice_lines v m =
     [\<lparr>lg_account_type = ''customer_balance'', lg_owner_type = ''project'', lg_owner_id = Some (rv_project_id v),
       lg_amount_micros = - uint (sm_subtotal_micros m),
       lg_description = ''customer billed for metered GPU usage''\<rparr>,
      \<lparr>lg_account_type = ''provider_payable'', lg_owner_type = ''provider'', lg_owner_id = Some (rv_provider_id v),
       lg_amount_micros = uint (sm_provider_net_micros m),
       lg_description = ''provider net payable for metered usage''\<rparr>,
      \<lparr>lg_account_type = ''platform_revenue'', lg_owner_type = ''platform'', lg_owner_id = None,
       lg_amount_micros = uint (sm_platform_fee_micros m), lg_description = ''platform fee earned on invoice''\<rparr>,
      \<lparr>lg_account_type = ''chargeback_reserve'', lg_owner_type = ''platform'', lg_owner_id = None,
       lg_amount_micros = uint (sm_chargeback_reserve_micros m),
       lg_description = ''chargeback reserve withheld from provider payout''\<rparr>]"

definition settle_write ::
  "externs \<Rightarrow> (SettlementClaims \<Rightarrow> string) \<Rightarrow> (nat \<Rightarrow> string) \<Rightarrow> string \<Rightarrow> string \<Rightarrow> string \<Rightarrow> string \<Rightarrow> int \<Rightarrow> settle_plan \<Rightarrow>
     billing \<Rightarrow> (billing \<times> BillingInvoiceRecord \<times> bool) res" where
  "settle_write X hash uuids txn uuid request_id reservation_id now plan b =
     (case plan of
        Settled i \<Rightarrow> Inr (b, i, True)
      | Settle v n u m \<Rightarrow>
          let now_text = to_rfc3339 X now; i = new_invoice hash uuid now_text v n u m in
          bind_res (amount_to_i64 (sm_platform_fee_micros m)) (\<lambda>_.
          bind_res (amount_to_i64 (sm_provider_net_micros m)) (\<lambda>_.
          bind_res (amount_to_i64 (sm_chargeback_reserve_micros m)) (\<lambda>_.
          if invoice_conflict i (bl_invoices b) then
            bind_res (ok_or (load_invoice_for_usage (ul_entry_id u) b)
              (Conflict ''billing invoice insert conflicted'')) (\<lambda>old.
            bind_res (invoice_response_for_existing_usage reservation_id old) (\<lambda>r. Inr (b, r)))
          else
            bind_res (append_financial_transaction uuids txn ''billing_invoice'' (iv_invoice_id i) (pn_currency n)
              now_text (invoice_lines v m) (b\<lparr>bl_invoices := bl_invoices b @ [i]\<rparr>)) (\<lambda>b1.
            let b2 = audit_core request_id ''admin'' None ''billing_invoice'' (iv_invoice_id i) ''billing.invoice.issued''
                  (audit_customer (rv_organization_id v) (Some (rv_project_id v)) ''admin'' None
                    ''billing.invoice.issued'' ''billing_invoice'' (iv_invoice_id i) b1) in
            bind_res (load_one (\<lambda>j. iv_invoice_id j = iv_invoice_id i) (bl_invoices b2)) (\<lambda>row.
            Inr (b2, row, False)))))))"

definition settle_reservation_billing ::
  "externs \<Rightarrow> (SettlementClaims \<Rightarrow> string) \<Rightarrow> (nat \<Rightarrow> string) \<Rightarrow> string \<Rightarrow> string \<Rightarrow> string \<Rightarrow> string \<Rightarrow>
     SettleReservationBillingRequest \<Rightarrow> int \<Rightarrow> billing \<Rightarrow> (billing \<times> BillingInvoiceRecord \<times> bool) res" where
  "settle_reservation_billing X hash uuids txn uuid request_id reservation_id r now b =
     bind_res (settle_read reservation_id r b) (\<lambda>plan.
     settle_write X hash uuids txn uuid request_id reservation_id now plan b)"

definition get_billing_invoice :: "string \<Rightarrow> billing \<Rightarrow> BillingInvoiceRecord res" where
  "get_billing_invoice iid b =
     bind_res (validate_id ''invoice_id'' iid 160) (\<lambda>_.
     ok_or (find (\<lambda>i. iv_invoice_id i = iid) (bl_invoices b)) (NotFound ''billing invoice not found''))"

section \<open>Payouts\<close>

definition same_account :: "string \<Rightarrow> UpsertProviderPayoutAccountRequest \<Rightarrow> ProviderPayoutAccountRecord \<Rightarrow> bool" where
  "same_account provider r a \<longleftrightarrow> pa_provider_id a = provider \<and> pa_payout_method a = aq_payout_method r
     \<and> pa_currency a = aq_currency r"

definition upsert_provider_payout_account ::
  "externs \<Rightarrow> string \<Rightarrow> string \<Rightarrow> string \<Rightarrow> UpsertProviderPayoutAccountRequest \<Rightarrow> int \<Rightarrow> billing \<Rightarrow>
     (billing \<times> ProviderPayoutAccountRecord) res" where
  "upsert_provider_payout_account X uuid request_id provider r now b =
     bind_res (validate_id ''provider_id'' provider 128) (\<lambda>_.
     bind_res (validate_payout_account_request r) (\<lambda>_.
     bind_res (ok_or (find (\<lambda>p. pr_provider_id p = provider) (providers (bl_core b)))
       (NotFound ''provider not found'')) (\<lambda>_.
     let now_text = to_rfc3339 X now;
         aid = (case find (same_account provider r) (bl_payout_accounts b) of
                  Some a \<Rightarrow> pa_payout_account_id a | None \<Rightarrow> ''payout_acct_'' @ uuid);
         minimum = (case aq_minimum_payout_micros r of None \<Rightarrow> DEFAULT_MINIMUM_PAYOUT_MICROS | Some m \<Rightarrow> m);
         hold_days = (case aq_payout_hold_days r of None \<Rightarrow> DEFAULT_PAYOUT_HOLD_DAYS | Some d \<Rightarrow> d);
         row = \<lparr>pa_payout_account_id = aid, pa_provider_id = provider,
           pa_schema_version = PROVIDER_PAYOUT_ACCOUNT_SCHEMA_VERSION, pa_payout_method = aq_payout_method r,
           pa_currency = aq_currency r, pa_pix_key_hash = aq_pix_key_hash r, pa_pix_key_last4 = aq_pix_key_last4 r,
           pa_kyc_status = aq_kyc_status r, pa_tax_status = aq_tax_status r, pa_minimum_payout_micros = minimum,
           pa_payout_hold_days = hold_days, pa_status = ''active'', pa_created_at = now_text,
           pa_updated_at = now_text\<rparr> in
     bind_res (amount_to_i64 minimum) (\<lambda>_.
     bind_res (if list_ex (same_account provider r) (bl_payout_accounts b) then
         Inr (sql_update (same_account provider r)
           (\<lambda>a. a\<lparr>pa_pix_key_hash := aq_pix_key_hash r, pa_pix_key_last4 := aq_pix_key_last4 r,
                  pa_kyc_status := aq_kyc_status r, pa_tax_status := aq_tax_status r,
                  pa_minimum_payout_micros := minimum, pa_payout_hold_days := hold_days,
                  pa_status := ''active'', pa_updated_at := now_text\<rparr>) (bl_payout_accounts b))
       else insert_unique (\<lambda>x old. pa_payout_account_id old = pa_payout_account_id x) row (bl_payout_accounts b)) (\<lambda>accounts.
     let b' = audit_core request_id ''admin'' None ''provider_payout_account'' aid ''billing.payout_account.upserted''
           (b\<lparr>bl_payout_accounts := accounts\<rparr>) in
     bind_res (load_one (\<lambda>a. pa_payout_account_id a = aid) (bl_payout_accounts b')) (\<lambda>a.
     Inr (b', a)))))))"

definition load_active_payout_account ::
  "externs \<Rightarrow> string \<Rightarrow> string \<Rightarrow> billing \<Rightarrow> ProviderPayoutAccountRecord res" where
  "load_active_payout_account X provider currency b =
     ok_or (latest_by (\<lambda>a. collation_key X (pa_updated_at a))
         (filter (\<lambda>a. pa_provider_id a = provider \<and> pa_currency a = currency \<and> pa_status a = ''active'')
           (bl_payout_accounts b)))
       (Conflict ''provider has no active payout account'')"

definition payout_lines :: "string \<Rightarrow> CreateProviderPayoutRequest \<Rightarrow> LedgerLine list" where
  "payout_lines provider r =
     [\<lparr>lg_account_type = ''provider_payable'', lg_owner_type = ''provider'', lg_owner_id = Some provider,
       lg_amount_micros = - uint (oq_amount_micros r), lg_description = ''provider payable reserved for payout''\<rparr>,
      \<lparr>lg_account_type = ''provider_payout_clearing'', lg_owner_type = ''platform'', lg_owner_id = None,
       lg_amount_micros = uint (oq_amount_micros r), lg_description = ''provider payout clearing liability''\<rparr>]"

definition create_provider_payout ::
  "externs \<Rightarrow> (nat \<Rightarrow> string) \<Rightarrow> string \<Rightarrow> string \<Rightarrow> string \<Rightarrow> string \<Rightarrow> CreateProviderPayoutRequest \<Rightarrow> int \<Rightarrow> billing \<Rightarrow>
     (billing \<times> ProviderPayoutRecord) res" where
  "create_provider_payout X uuids txn uuid request_id provider r now b =
     bind_res (validate_id ''provider_id'' provider 128) (\<lambda>_.
     bind_res (validate_money (oq_amount_micros r) (oq_currency r)) (\<lambda>_.
     bind_res (load_active_payout_account X provider (oq_currency r) b) (\<lambda>a.
     bind_res (ensure (\<not> (pa_kyc_status a \<noteq> ''verified'' \<or> pa_tax_status a \<noteq> ''verified''))
       (Conflict ''provider KYC and tax status must be verified before payout'')) (\<lambda>_.
     bind_res (ensure (\<not> oq_amount_micros r < pa_minimum_payout_micros a)
       (Conflict ''payout amount is below provider minimum payout'')) (\<lambda>_.
     bind_res (account_balance ''provider_payable'' ''provider'' provider (oq_currency r) b) (\<lambda>payable.
     bind_res (amount_to_i64 (oq_amount_micros r)) (\<lambda>amount.
     bind_res (ensure (\<not> payable < amount)
       (Conflict ''provider payable balance is insufficient for payout'')) (\<lambda>_.
     let now_text = to_rfc3339 X now;
         hold_until = (if pa_payout_hold_days a = 0 then None
           else Some (to_rfc3339 X (now + uint (pa_payout_hold_days a) * 86400 * nanos_per_second)));
         row = \<lparr>po_payout_id = ''payout_'' @ uuid, po_provider_id = provider,
           po_payout_account_id = pa_payout_account_id a, po_schema_version = PROVIDER_PAYOUT_SCHEMA_VERSION,
           po_status = (if hold_until \<noteq> None then ''held'' else ''approved''),
           po_amount_micros = oq_amount_micros r, po_currency = oq_currency r, po_hold_until = hold_until,
           po_external_reference = None, po_paid_at = None, po_created_at = now_text, po_updated_at = now_text\<rparr> in
     bind_res (insert_unique (\<lambda>x old. po_payout_id old = po_payout_id x) row (bl_payouts b)) (\<lambda>payouts.
     bind_res (append_financial_transaction uuids txn ''provider_payout'' (po_payout_id row) (oq_currency r) now_text
       (payout_lines provider r) (b\<lparr>bl_payouts := payouts\<rparr>)) (\<lambda>b1.
     let b2 = audit_core request_id ''admin'' None ''provider_payout'' (po_payout_id row) ''billing.payout.created'' b1 in
     bind_res (load_one (\<lambda>p. po_payout_id p = po_payout_id row) (bl_payouts b2)) (\<lambda>p.
     Inr (b2, p))))))))))))"

end
