(* ===== verification/Market.thy ===== *)
theory Market
  imports Billing
begin

text \<open>
  What the customer's side of the marketplace shares: the tables of \<^verbatim>\<open>migrations/0016\<close>, \<^verbatim>\<open>0031\<close> and \<^verbatim>\<open>0033\<close>
  that reservations and workloads use beside the database of job execution and billing, the idempotency
  keys of a customer's commands, and PostgreSQL's order on \<open>DOUBLE PRECISION\<close> values.
\<close>

section \<open>Idempotent commands\<close>

text \<open>
  The rows of \<open>idempotency_keys\<close> under the scope of one endpoint, the response kept as a value. A command
  first tries to insert its key; when the key exists the transaction answers with the stored record or with
  a conflict, otherwise it does its work and stores the response. A failing command rolls its key back.
\<close>

record 'r key_row =
  kr_scope :: string
  kr_key :: string
  kr_request_hash :: string
  kr_status_code :: nat
  kr_response :: 'r

datatype 'r keyed_outcome = Answered "'r key_row" | KeyConflict

definition idempotently ::
  "('s \<Rightarrow> 'r key_row list) \<Rightarrow> ('r key_row list \<Rightarrow> 's \<Rightarrow> 's) \<Rightarrow> string \<Rightarrow> string \<Rightarrow> string \<Rightarrow> ('s \<Rightarrow> ('s \<times> 'r) res) \<Rightarrow>
     's \<Rightarrow> ('s \<times> 'r keyed_outcome) res" where
  "idempotently keys put scope key hash body s =
     (case find (\<lambda>k. kr_scope k = scope \<and> kr_key k = key) (keys s) of
        Some k \<Rightarrow> Inr (s, if kr_request_hash k = hash then Answered k else KeyConflict)
      | None \<Rightarrow>
          bind_res (body s) (\<lambda>(s', r).
          let k = \<lparr>kr_scope = scope, kr_key = key, kr_request_hash = hash, kr_status_code = 201, kr_response = r\<rparr> in
          Inr (put (keys s' @ [k]) s', Answered k)))"

locale keyed_commands =
  fixes keys :: "'s \<Rightarrow> 'r key_row list" and put :: "'r key_row list \<Rightarrow> 's \<Rightarrow> 's"
  assumes keys_put: "keys (put ks s) = ks"
begin

text \<open>A body that leaves the keys alone makes an idempotent command, whatever the second attempt would do.\<close>

lemma replay:
  assumes run: "idempotently keys put scope key hash body s = Inr (s', out)" and out: "out \<noteq> KeyConflict"
    and frame: "\<And>t t' r. body t = Inr (t', r) \<Longrightarrow> keys t' = keys t"
  shows "idempotently keys put scope key hash body' s' = Inr (s', out)"
    and "hash' \<noteq> hash \<Longrightarrow> idempotently keys put scope key hash' body' s' = Inr (s', KeyConflict)"
proof -
  let ?P = "\<lambda>k. kr_scope k = scope \<and> kr_key k = key"
  obtain k where k: "find ?P (keys s') = Some k" "kr_request_hash k = hash" "out = Answered k"
  proof (cases "find ?P (keys s)")
    case (Some k)
    then have "s' = s" "out = Answered k" "kr_request_hash k = hash"
      using run out by (auto simp: idempotently_def split: if_split_asm)
    then show ?thesis using that Some by blast
  next
    case None
    then obtain t r where b: "body s = Inr (t, r)"
      and s': "s' = put (keys t @ [\<lparr>kr_scope = scope, kr_key = key, kr_request_hash = hash, kr_status_code = 201, kr_response = r\<rparr>]) t"
      and out': "out = Answered \<lparr>kr_scope = scope, kr_key = key, kr_request_hash = hash, kr_status_code = 201, kr_response = r\<rparr>"
      using run by (auto simp: idempotently_def Let_def elim!: bind_resE)
    have "find ?P (keys s') = Some \<lparr>kr_scope = scope, kr_key = key, kr_request_hash = hash, kr_status_code = 201, kr_response = r\<rparr>"
      using None frame[OF b] by (simp add: s' keys_put find_append_None)
    then show ?thesis using that out' by simp
  qed
  then show "idempotently keys put scope key hash body' s' = Inr (s', out)"
    and "hash' \<noteq> hash \<Longrightarrow> idempotently keys put scope key hash' body' s' = Inr (s', KeyConflict)"
    by (simp_all add: idempotently_def)
qed

end

lemma idempotentlyE:
  assumes "idempotently keys put scope key hash body s = Inr (s', out)"
  obtains (replayed) "s' = s"
    | (performed) t r k where "body s = Inr (t, r)" "s' = put (keys t @ [k]) t" "out = Answered k" "kr_response k = r"
  using assms unfolding idempotently_def by (auto simp: Let_def elim!: bind_resE split: option.split_asm)

section \<open>Scores\<close>

text \<open>The order of \<open>DOUBLE PRECISION\<close>: \<open>NaN\<close> is greater than every other value and equal to itself.\<close>

definition f64_key :: "f64 \<Rightarrow> nat \<times> rat" where
  "f64_key x = (case x of F64_NegInf \<Rightarrow> (0, 0) | F64 q \<Rightarrow> (1, q) | F64_PosInf \<Rightarrow> (2, 0) | F64_NaN \<Rightarrow> (3, 0))"

text \<open>The sort key of \<open>DESC NULLS LAST\<close>.\<close>

definition f64_desc :: "f64 option \<Rightarrow> nat \<times> int \<times> rat" where
  "f64_desc v = (case v of None \<Rightarrow> (1, 0, 0) | Some x \<Rightarrow> (0, - int (fst (f64_key x)), - snd (f64_key x)))"

text \<open>\<open>$n IS NULL OR column >= $n\<close>, and \<open><=\<close>; a column that is \<open>NULL\<close> satisfies neither comparison.\<close>

definition at_least :: "('a \<Rightarrow> 'k::linorder) \<Rightarrow> 'a option \<Rightarrow> 'a option \<Rightarrow> bool" where
  "at_least key wanted column \<longleftrightarrow>
     (case wanted of None \<Rightarrow> True | Some w \<Rightarrow> (case column of None \<Rightarrow> False | Some c \<Rightarrow> key w \<le> key c))"

definition at_most :: "('a \<Rightarrow> 'k::linorder) \<Rightarrow> 'a option \<Rightarrow> 'a option \<Rightarrow> bool" where
  "at_most key wanted column \<longleftrightarrow>
     (case wanted of None \<Rightarrow> True | Some w \<Rightarrow> (case column of None \<Rightarrow> False | Some c \<Rightarrow> key c \<le> key w))"

section \<open>Tables\<close>

record CustomerUserRecord =
  us_user_id :: string
  us_email :: "string option"
  us_status :: string
  us_created_at :: string
  us_updated_at :: string

record OrganizationMembershipRecord =
  om_organization_id :: string
  om_user_id :: string
  om_role :: string
  om_status :: string
  om_created_at :: string
  om_updated_at :: string

record CustomerApiKeyRecord =
  kk_api_key_id :: string
  kk_organization_id :: string
  kk_project_id :: "string option"
  kk_schema_version :: string
  kk_key_prefix :: string
  kk_status :: string
  kk_scopes :: "string list"
  kk_created_at :: string
  kk_last_used_at :: "string option"
  kk_expires_at :: "string option"
  kk_revoked_at :: "string option"

record api_key_row = CustomerApiKeyRecord +
  kk_key_hash :: string

record quota_row =
  qt_project_id :: string
  qt_max_active_reservations :: u32
  qt_max_reserved_gpu_seconds :: u64
  qt_max_reservation_ttl_seconds :: u32
  qt_updated_at :: string

record CustomerCreditLedgerEntry =
  ce_credit_entry_id :: string
  ce_organization_id :: string
  ce_project_id :: string
  ce_schema_version :: string
  ce_entry_type :: string
  ce_amount_credits :: int
  ce_reservation_id :: "string option"
  ce_reason :: string
  ce_created_at :: string

record CustomerCreditLedgerResponse =
  cl_request_id :: string
  cl_entry :: CustomerCreditLedgerEntry

record execution_profile_row =
  xp_workload_type :: string
  xp_template_id :: string
  xp_image_ref :: string
  xp_status :: string

record customer_artifact_row =
  ct_artifact_id :: string
  ct_organization_id :: string
  ct_project_id :: string
  ct_schema_version :: string
  ct_client_artifact_id :: "string option"
  ct_status :: string
  ct_object_key :: string
  ct_sha256 :: string
  ct_size_bytes :: int
  ct_content_type :: "string option"
  ct_upload_expires_at :: string
  ct_expires_at :: string
  ct_verified_sha256 :: "string option"
  ct_verified_size_bytes :: "int option"
  ct_uploaded_at :: "string option"
  ct_ready_at :: "string option"
  ct_idempotency_key :: string
  ct_request_hash :: string
  ct_created_at :: string
  ct_updated_at :: string

record input_binding_row =
  ib_workload_id :: string
  ib_project_id :: string
  ib_artifact_id :: string
  ib_bound_at :: string

text \<open>\<open>MarketplaceReservationRecord\<close>: the columns of a reservation the API shows.\<close>

record MarketplaceReservationRecord =
  mr_reservation_id :: string
  mr_organization_id :: string
  mr_project_id :: string
  mr_listing_id :: string
  mr_pricing_snapshot_id :: "string option"
  mr_provider_id :: string
  mr_device_id :: string
  mr_session_id :: "string option"
  mr_schema_version :: string
  mr_workload_type :: string
  mr_gpu_uuid :: "string option"
  mr_status :: string
  mr_starts_at :: string
  mr_expires_at :: string
  mr_cancelled_at :: "string option"
  mr_reserved_gpu_seconds :: u64
  mr_reason_codes :: "string list"
  mr_created_at :: string
  mr_updated_at :: string

record MarketplaceReservationResponse =
  mz_request_id :: string
  mz_reservation :: MarketplaceReservationRecord
  mz_duplicate :: bool

text \<open>\<open>CustomerArtifactRecord\<close> and the answers of \<^verbatim>\<open>customer_artifact.rs\<close>; an object key is not among their fields.\<close>

record CustomerArtifactRecord =
  ar_artifact_id :: string
  ar_organization_id :: string
  ar_project_id :: string
  ar_schema_version :: string
  ar_client_artifact_id :: "string option"
  ar_status :: string
  ar_sha256 :: string
  ar_size_bytes :: u64
  ar_content_type :: "string option"
  ar_upload_expires_at :: string
  ar_expires_at :: string
  ar_uploaded_at :: "string option"
  ar_ready_at :: "string option"
  ar_created_at :: string
  ar_updated_at :: string

record CustomerArtifactUploadTarget =
  ut_method :: string
  ut_url :: string
  ut_expires_at :: string
  ut_content_length :: u64
  ut_sha256 :: string

record CustomerArtifactUploadIntentResponse =
  ui_schema_version :: string
  ui_request_id :: string
  ui_artifact :: CustomerArtifactRecord
  ui_upload :: CustomerArtifactUploadTarget
  ui_duplicate :: bool

text \<open>What the marketplace reads of \<open>provider_verification_states\<close>, \<open>provider_network_states\<close> and \<open>benchmark_results\<close>.\<close>

record verification_state_row =
  vt_provider_id :: string
  vt_device_id :: string
  vt_last_verified_at :: "string option"

record network_state_row =
  nt_provider_id :: string
  nt_device_id :: string
  nt_effective_network_score :: "f64 option"

record benchmark_result_row =
  bk_result_id :: string
  bk_gpu_uuid :: string

text \<open>People: the identities at the OIDC provider and the browser sessions of \<^verbatim>\<open>migrations/0037\<close>.\<close>

record oidc_identity_row =
  hi_oidc_identity_id :: string
  hi_user_id :: string
  hi_provider :: string
  hi_provider_subject :: string
  hi_email :: "string option"
  hi_email_verified :: bool
  hi_created_at :: string
  hi_updated_at :: string
  hi_last_login_at :: "string option"

record human_session_row =
  hv_session_id :: string
  hv_user_id :: string
  hv_token_hash :: string
  hv_status :: string
  hv_created_at :: string
  hv_expires_at :: string
  hv_last_seen_at :: "string option"
  hv_revoked_at :: "string option"

record CustomerWorkloadResponse =
  wr_request_id :: string
  wr_workload :: CustomerWorkloadRecord
  wr_duplicate :: bool

record market =
  mk_billing :: billing
  mk_users :: "CustomerUserRecord list"
  mk_memberships :: "OrganizationMembershipRecord list"
  mk_identities :: "oidc_identity_row list"
  mk_human_sessions :: "human_session_row list"
  mk_api_keys :: "api_key_row list"
  mk_quotas :: "quota_row list"
  mk_credits :: "CustomerCreditLedgerEntry list"
  mk_profiles :: "execution_profile_row list"
  mk_artifacts :: "customer_artifact_row list"
  mk_verification_states :: "verification_state_row list"
  mk_network_states :: "network_state_row list"
  mk_benchmark_results :: "benchmark_result_row list"
  mk_input_bindings :: "input_binding_row list"
  mk_reservation_keys :: "MarketplaceReservationResponse key_row list"
  mk_credit_keys :: "CustomerCreditLedgerResponse key_row list"
  mk_workload_keys :: "CustomerWorkloadResponse key_row list"
  mk_artifact_keys :: "CustomerArtifactUploadIntentResponse key_row list"

abbreviation core :: "market \<Rightarrow> db" where
  "core m \<equiv> bl_core (mk_billing m)"

definition with_core :: "(db \<Rightarrow> db) \<Rightarrow> market \<Rightarrow> market" where
  "with_core f m = m\<lparr>mk_billing := (mk_billing m)\<lparr>bl_core := f (core m)\<rparr>\<rparr>"

lemma with_core_simps [simp]:
  "core (with_core f m) = f (core m)" "mk_quotas (with_core f m) = mk_quotas m" "mk_credits (with_core f m) = mk_credits m"
  "mk_profiles (with_core f m) = mk_profiles m" "mk_artifacts (with_core f m) = mk_artifacts m"
  "mk_input_bindings (with_core f m) = mk_input_bindings m"
  "mk_reservation_keys (with_core f m) = mk_reservation_keys m" "mk_credit_keys (with_core f m) = mk_credit_keys m"
  "mk_workload_keys (with_core f m) = mk_workload_keys m" "mk_artifact_keys (with_core f m) = mk_artifact_keys m"
  "mk_network_states (with_core f m) = mk_network_states m"
  "mk_verification_states (with_core f m) = mk_verification_states m" "mk_benchmark_results (with_core f m) = mk_benchmark_results m"
  "mk_users (with_core f m) = mk_users m" "mk_memberships (with_core f m) = mk_memberships m"
  "mk_identities (with_core f m) = mk_identities m" "mk_human_sessions (with_core f m) = mk_human_sessions m"
  "mk_api_keys (with_core f m) = mk_api_keys m"
  "bl_listings (mk_billing (with_core f m)) = bl_listings (mk_billing m)"
  "bl_snapshots (mk_billing (with_core f m)) = bl_snapshots (mk_billing m)"
  by (simp_all add: with_core_def)

interpretation reservation_keys: keyed_commands mk_reservation_keys "\<lambda>ks m. m\<lparr>mk_reservation_keys := ks\<rparr>"
  by unfold_locales simp

interpretation credit_keys: keyed_commands mk_credit_keys "\<lambda>ks m. m\<lparr>mk_credit_keys := ks\<rparr>"
  by unfold_locales simp

interpretation workload_keys: keyed_commands mk_workload_keys "\<lambda>ks m. m\<lparr>mk_workload_keys := ks\<rparr>"
  by unfold_locales simp

interpretation artifact_keys: keyed_commands mk_artifact_keys "\<lambda>ks m. m\<lparr>mk_artifact_keys := ks\<rparr>"
  by unfold_locales simp

section \<open>A market with one listing\<close>

definition example_listing :: listing_row where
  "example_listing = \<lparr>li_listing_id = ''li1'', li_provider_id = ''p1'', li_device_id = ''d1'', li_session_id = Some ''s1'',
     li_status = ''published'', li_current_status = ''available'', li_workload_type = ''w'', li_policy_id = ''pol'',
     li_policy_version = ''1'', li_gpu_uuid = Some ''gpu1'', li_gpu_verified = True,
     li_gpu_verification_source = ''backend_proof_and_benchmark'', li_vram_total_mib = Some 24000,
     li_vram_verified = True, li_vram_verification_source = ''backend_telemetry_bound_to_verified_gpu'', li_region = None,
     li_region_source = ''unobserved'', li_trust_score = Some (F64 90), li_risk_score = Some (F64 5),
     li_reliability_score = Some (F64 95), li_verification_status = Some ''verified'',
     li_proof_freshness_status = ''verified_without_timestamp'', li_last_verified_at = None, li_remote_network_score = None,
     li_price_currency = Some ''BRL'', li_price_per_hour_micros = Some 1000,
     li_price_source = ''billing_price_book'', li_active_lease_count = 0, li_reason_codes = [], li_source_hash = ''h'',
     li_published_at = Some ''+1'', li_updated_at = ''+1''\<rparr>"

definition example_market :: market where
  "example_market = \<lparr>mk_billing = \<lparr>bl_core = example_sched_db\<lparr>compute_jobs := []\<rparr>,
       bl_organizations = [\<lparr>og_organization_id = ''o1'', og_schema_version = ''v'', og_display_name = ''o'', og_status = ''active'',
         og_created_at = ''+1'', og_updated_at = ''+1''\<rparr>],
       bl_projects = [\<lparr>pj_project_id = ''pr1'', pj_organization_id = ''o1'', pj_schema_version = ''v'', pj_display_name = ''p'',
         pj_status = ''active'', pj_created_at = ''+1'', pj_updated_at = ''+1''\<rparr>],
       bl_listings = [example_listing],
       bl_prices = [\<lparr>mp_price_id = ''price1'', mp_listing_id = ''li1'', mp_schema_version = ''v'', mp_currency = ''BRL'',
         mp_price_per_hour_micros = 1000, mp_pricing_model = ''gpu_hour'', mp_status = ''active'', mp_created_at = ''+1'',
         mp_updated_at = ''+1''\<rparr>],
       bl_snapshots = [], bl_pix = [], bl_pix_keys = [], bl_invoices = [], bl_ledger = [], bl_payout_accounts = [], bl_payouts = []\<rparr>,
     mk_users = [], mk_memberships = [], mk_identities = [], mk_human_sessions = [], mk_api_keys = [],
     mk_quotas = [\<lparr>qt_project_id = ''pr1'', qt_max_active_reservations = 2, qt_max_reserved_gpu_seconds = 28800,
       qt_max_reservation_ttl_seconds = 3600, qt_updated_at = ''+1''\<rparr>],
     mk_credits = [], mk_profiles = [\<lparr>xp_workload_type = ''w'', xp_template_id = ''t'', xp_image_ref = ''i'', xp_status = ''active''\<rparr>],
     mk_artifacts = [\<lparr>ct_artifact_id = ''in1'', ct_organization_id = ''o1'', ct_project_id = ''pr1'',
       ct_schema_version = ''v'', ct_client_artifact_id = None, ct_status = ''ready'', ct_object_key = ''k/in1'', ct_sha256 = ''sha256:'' @ example_hash,
       ct_size_bytes = 10, ct_content_type = None, ct_upload_expires_at = ''-'', ct_expires_at = ''-'', ct_verified_sha256 = Some (''sha256:'' @ example_hash),
       ct_verified_size_bytes = Some 10, ct_uploaded_at = Some ''+1'', ct_ready_at = Some ''+1'', ct_idempotency_key = ''k'', ct_request_hash = ''h'',
       ct_created_at = ''+1'', ct_updated_at = ''+1''\<rparr>],
     mk_verification_states = [], mk_network_states = [], mk_benchmark_results = [\<lparr>bk_result_id = ''br1'', bk_gpu_uuid = ''gpu1''\<rparr>],
     mk_input_bindings = [], mk_reservation_keys = [], mk_credit_keys = [], mk_workload_keys = [], mk_artifact_keys = []\<rparr>"

definition example_member :: CustomerApiKeyAuth where
  "example_member = example_key\<lparr>ak_scopes := [''reservations:read'', ''reservations:write'', ''usage:read'', ''workloads:write'']\<rparr>"

end
