(* ===== verification/Placement.thy ===== *)
theory Placement
  imports Market Scheduler
begin

text \<open>
  The placement of a customer's workload, \<^verbatim>\<open>burd-control-plane/src/customer_compute.rs\<close>: one transaction
  that checks the request, chooses admitted supply on the marketplace or behind the customer's reservation,
  and writes the workload, its placement and the queued job, consuming the reservation. Generated
  identifiers, the instant, the listings other transactions have locked and the text of a JSON value are
  arguments.
\<close>

section \<open>Requests\<close>

definition CUSTOMER_WORKLOAD_SCHEMA_VERSION :: string where
  "CUSTOMER_WORKLOAD_SCHEMA_VERSION = ''burd-customer-workload-v1''"

definition PLACEMENT_SCHEMA_VERSION :: string where
  "PLACEMENT_SCHEMA_VERSION = ''burd-placement-v1''"

definition DEFAULT_WORKLOAD_TIMEOUT_SECONDS :: u32 where "DEFAULT_WORKLOAD_TIMEOUT_SECONDS = 3600"
definition MAX_WORKLOAD_TIMEOUT_SECONDS :: u32 where "MAX_WORKLOAD_TIMEOUT_SECONDS = 86400"
definition PLACEMENT_CANDIDATE_LIMIT :: nat where "PLACEMENT_CANDIDATE_LIMIT = 16"
definition MAX_WORKLOAD_INPUT_ARTIFACTS :: nat where "MAX_WORKLOAD_INPUT_ARTIFACTS = 32"

record CreateCustomerWorkloadRequest =
  wq_client_workload_id :: "string option"
  wq_reservation_id :: "string option"
  wq_input_artifact_ids :: "string list"
  wq_workload_type :: string
  wq_requirements :: ComputeRequirements
  wq_parameters :: json
  wq_timeout_seconds :: "u32 option"

record CreateCustomerWorkloadCommand =
  wc_request_id :: string
  wc_scope :: string
  wc_idempotency_key :: string
  wc_request_hash :: string
  wc_auth :: CustomerApiKeyAuth
  wc_project_id :: string
  wc_request :: CreateCustomerWorkloadRequest

type_synonym CreateCustomerWorkloadOutcome = "CustomerWorkloadResponse keyed_outcome"

record PlacementCandidate =
  pc_listing_id :: string
  pc_provider_id :: string
  pc_device_id :: string
  pc_session_id :: string
  pc_gpu_uuid :: string
  pc_policy_id :: string
  pc_policy_version :: string

record ReservationBinding =
  rb_reservation_id :: string
  rb_listing_id :: string
  rb_provider_id :: string
  rb_device_id :: string
  rb_session_id :: string
  rb_gpu_uuid :: string

fun workload_secret_field :: "json \<Rightarrow> bool" where
  "workload_secret_field (JObject members) =
     list_ex (\<lambda>(key, value). to_ascii_lowercase key \<in> {''authorization'', ''password'', ''private_key'', ''secret'', ''token''}
       \<or> workload_secret_field value) members"
| "workload_secret_field (JArray items) = list_ex workload_secret_field items"
| "workload_secret_field _ = False"

definition workload_parameters :: "(json \<Rightarrow> string) \<Rightarrow> json \<Rightarrow> json res" where
  "workload_parameters json_text value =
     bind_res (ensure (case value of JObject _ \<Rightarrow> True | _ \<Rightarrow> False)
       (Invalid ''workload parameters must be a JSON object'')) (\<lambda>_.
     bind_res (ensure (\<not> (length (json_text value) > 64 * 1024 \<or> workload_secret_field value))
       (Invalid ''workload parameters are too large or contain secret-like fields'')) (\<lambda>_.
     Inr value))"

text \<open>\<open>windows(2)\<close> of the sorted identifiers.\<close>

fun equal_neighbours :: "string list \<Rightarrow> bool" where
  "equal_neighbours (a # b # xs) \<longleftrightarrow> a = b \<or> equal_neighbours (b # xs)"
| "equal_neighbours _ \<longleftrightarrow> False"

definition score_in_range :: "f64 option \<Rightarrow> bool" where
  "score_in_range value = (case value of None \<Rightarrow> True | Some (F64 x) \<Rightarrow> 0 \<le> x \<and> x \<le> 100 | Some _ \<Rightarrow> False)"

definition optional_id :: "string \<Rightarrow> string option \<Rightarrow> nat \<Rightarrow> unit res" where
  "optional_id label value maximum_len =
     (case value of None \<Rightarrow> Inr () | Some v \<Rightarrow> validate_customer_id label v maximum_len)"

definition validate_requirements :: "ComputeRequirements \<Rightarrow> unit res" where
  "validate_requirements q =
     bind_res (ensure (cq_gpu_count q = 1) (Invalid ''single-GPU v1 requires gpu_count equal to 1'')) (\<lambda>_.
     bind_res (ensure (cq_backend q = ''cuda'') (Invalid ''single-GPU v1 requires cuda backend'')) (\<lambda>_.
     bind_res (ensure (cq_minimum_vram_mib q \<noteq> Some 0)
       (Invalid ''minimum_vram_mib must be greater than zero'')) (\<lambda>_.
     bind_res (ensure (cq_maximum_price_per_hour_micros q \<noteq> Some 0)
       (Invalid ''maximum_price_per_hour_micros must be greater than zero'')) (\<lambda>_.
     bind_res (optional_id ''region'' (cq_region q) 64) (\<lambda>_.
     bind_res (ensure (score_in_range (cq_minimum_trust_score q))
       (Invalid ''minimum_trust_score must be between 0 and 100'')) (\<lambda>_.
     bind_res (ensure (score_in_range (cq_maximum_risk_score q))
       (Invalid ''maximum_risk_score must be between 0 and 100'')) (\<lambda>_.
     ensure (score_in_range (cq_minimum_reliability_score q))
       (Invalid ''minimum_reliability_score must be between 0 and 100''))))))))"

definition validate_workload_request :: "(json \<Rightarrow> string) \<Rightarrow> CreateCustomerWorkloadRequest \<Rightarrow> unit res" where
  "validate_workload_request json_text r =
     bind_res (optional_id ''client_workload_id'' (wq_client_workload_id r) 128) (\<lambda>_.
     bind_res (optional_id ''reservation_id'' (wq_reservation_id r) 128) (\<lambda>_.
     bind_res (ensure (\<not> length (wq_input_artifact_ids r) > MAX_WORKLOAD_INPUT_ARTIFACTS)
       (Invalid ''too many workload input artifacts'')) (\<lambda>_.
     bind_res (ensure (\<not> equal_neighbours (sort (wq_input_artifact_ids r)))
       (Invalid ''workload input artifact IDs must be unique'')) (\<lambda>_.
     bind_res (try_each (\<lambda>a. validate_customer_id ''input_artifact_id'' a 128) (wq_input_artifact_ids r)) (\<lambda>_.
     bind_res (validate_customer_id ''workload_type'' (wq_workload_type r) 96) (\<lambda>_.
     bind_res (validate_requirements (wq_requirements r)) (\<lambda>_.
     bind_res (ensure (case wq_timeout_seconds r of None \<Rightarrow> True
           | Some t \<Rightarrow> \<not> (t = 0 \<or> t > MAX_WORKLOAD_TIMEOUT_SECONDS))
       (Invalid ''timeout_seconds is outside allowed range'')) (\<lambda>_.
     bind_res (workload_parameters json_text (wq_parameters r)) (\<lambda>_. Inr ())))))))))"

section \<open>Supply\<close>

text \<open>The two \<open>to_i64\<close> conversions of the requirements.\<close>

definition bigint_requirements :: "ComputeRequirements \<Rightarrow> unit res" where
  "bigint_requirements q =
     try_each (\<lambda>v. ensure (case v of None \<Rightarrow> True | Some x \<Rightarrow> uint x \<le> i64_max) (Invalid ''numeric value is too large''))
       [cq_minimum_vram_mib q, cq_maximum_price_per_hour_micros q]"

text \<open>The requirements both queries put into their \<open>WHERE\<close> clause.\<close>

definition listing_meets :: "ComputeRequirements \<Rightarrow> listing_row \<Rightarrow> bool" where
  "listing_meets q l \<longleftrightarrow> li_status l \<in> {''published'', ''limited''} \<and> li_gpu_verified l \<and> li_vram_verified l \<and>
     at_least id (cq_minimum_vram_mib q) (li_vram_total_mib l) \<and>
     (cq_region q = None \<or> li_region l = cq_region q) \<and>
     at_least f64_key (cq_minimum_trust_score q) (li_trust_score l) \<and>
     at_most f64_key (cq_maximum_risk_score q) (li_risk_score l) \<and>
     at_least f64_key (cq_minimum_reliability_score q) (li_reliability_score l) \<and>
     at_most id (cq_maximum_price_per_hour_micros q) (li_price_per_hour_micros l)"

definition same_gpu :: "string \<Rightarrow> string \<Rightarrow> string \<Rightarrow> placement_row \<Rightarrow> bool" where
  "same_gpu provider device gpu p \<longleftrightarrow> pl_provider_id p = provider \<and> pl_device_id p = device \<and>
     to_ascii_lowercase (pl_gpu_uuid p) = to_ascii_lowercase gpu \<and> pl_status p = ''selected''"

definition gpu_has_selected_placement :: "string \<Rightarrow> string \<Rightarrow> string \<Rightarrow> db \<Rightarrow> bool" where
  "gpu_has_selected_placement provider device gpu s \<longleftrightarrow>
     list_ex (same_gpu provider device gpu) (compute_placements s)"

definition candidate_from_listing :: "listing_row \<Rightarrow> PlacementCandidate option" where
  "candidate_from_listing l =
     (case (li_session_id l, li_gpu_uuid l) of
        (Some session, Some gpu) \<Rightarrow>
          Some \<lparr>pc_listing_id = li_listing_id l, pc_provider_id = li_provider_id l, pc_device_id = li_device_id l,
                pc_session_id = session, pc_gpu_uuid = gpu, pc_policy_id = li_policy_id l,
                pc_policy_version = li_policy_version l\<rparr>
      | _ \<Rightarrow> None)"

text \<open>
  The \<open>ORDER BY\<close> of the candidate query, as stable sorts from the least significant key; \<open>rev\<close> around a
  sort makes it descending and keeps it stable.
\<close>

definition price_asc :: "u64 option \<Rightarrow> nat \<times> int" where
  "price_asc p = (case p of None \<Rightarrow> (1, 0) | Some x \<Rightarrow> (0, uint x))"

definition candidate_order :: "externs \<Rightarrow> listing_row list \<Rightarrow> listing_row list" where
  "candidate_order X ls =
     sort_key (\<lambda>l. (price_asc (li_price_per_hour_micros l), f64_desc (li_trust_score l), f64_desc (li_reliability_score l)))
       (rev (sort_key (\<lambda>l. collation_key X (li_updated_at l))
         (rev (sort_key (\<lambda>l. collation_key X (li_listing_id l)) ls))))"

definition free_candidate :: "string \<Rightarrow> ComputeRequirements \<Rightarrow> db \<Rightarrow> listing_row \<Rightarrow> bool" where
  "free_candidate workload_type q s l \<longleftrightarrow>
     li_workload_type l = workload_type \<and> li_current_status l = ''available'' \<and> listing_meets q l \<and>
     (case candidate_from_listing l of None \<Rightarrow> False
      | Some c \<Rightarrow> \<not> gpu_has_active_lease (pc_provider_id c) (pc_device_id c) (pc_gpu_uuid c) (job_leases s) \<and>
                   \<not> gpu_has_selected_placement (pc_provider_id c) (pc_device_id c) (pc_gpu_uuid c) s)"

definition select_placement_candidates ::
  "externs \<Rightarrow> (string \<Rightarrow> bool) \<Rightarrow> string \<Rightarrow> ComputeRequirements \<Rightarrow> market \<Rightarrow> PlacementCandidate list res" where
  "select_placement_candidates X locked workload_type q m =
     bind_res (bigint_requirements q) (\<lambda>_.
     Inr (List.map_filter candidate_from_listing
       (take PLACEMENT_CANDIDATE_LIMIT
         (filter (\<lambda>l. \<not> locked (li_listing_id l))
           (candidate_order X (filter (free_candidate workload_type q (core m)) (bl_listings (mk_billing m))))))))"

section \<open>Reservations\<close>

record ProjectAccess =
  pac_organization_id :: string
  pac_project_id :: string

definition workload_project_access :: "CustomerApiKeyAuth \<Rightarrow> string \<Rightarrow> market \<Rightarrow> ProjectAccess res" where
  "workload_project_access auth project m =
     bind_res (authorize_project_access auth project (mk_billing m)) (\<lambda>org.
     Inr \<lparr>pac_organization_id = org, pac_project_id = project\<rparr>)"

definition assert_reserved_listing_requirements :: "string \<Rightarrow> ComputeRequirements \<Rightarrow> market \<Rightarrow> unit res" where
  "assert_reserved_listing_requirements listing q m =
     bind_res (bigint_requirements q) (\<lambda>_.
     ensure (find (\<lambda>l. li_listing_id l = listing \<and> listing_meets q l) (bl_listings (mk_billing m)) \<noteq> None)
       (Conflict ''reserved marketplace supply does not satisfy workload requirements''))"

definition load_reservation_binding ::
  "ProjectAccess \<Rightarrow> string \<Rightarrow> string \<Rightarrow> ComputeRequirements \<Rightarrow> string \<Rightarrow> market \<Rightarrow> ReservationBinding res" where
  "load_reservation_binding project reservation workload_type q now m =
     bind_res (validate_customer_id ''reservation_id'' reservation 128) (\<lambda>_.
     bind_res (ok_or (find (\<lambda>v. rv_reservation_id v = reservation) (marketplace_reservations (core m)))
       (NotFound ''marketplace reservation not found'')) (\<lambda>v.
     bind_res (ensure (\<not> (rv_organization_id v \<noteq> pac_organization_id project \<or> rv_project_id v \<noteq> pac_project_id project))
       Unauthorized) (\<lambda>_.
     bind_res (ensure (\<not> (rv_status v \<noteq> ''reserved'' \<or> rv_starts_at v > now \<or> rv_expires_at v \<le> now))
       (Conflict ''reservation is not active for workload consumption'')) (\<lambda>_.
     bind_res (ensure (rv_workload_type v = workload_type)
       (Conflict ''reservation workload_type does not match workload'')) (\<lambda>_.
     bind_res (ok_or (rv_session_id v) (Conflict ''reservation has no bound session'')) (\<lambda>session.
     bind_res (ok_or (rv_gpu_uuid v) (Conflict ''reservation has no bound GPU'')) (\<lambda>gpu.
     bind_res (assert_reserved_listing_requirements (rv_listing_id v) q m) (\<lambda>_.
     Inr \<lparr>rb_reservation_id = rv_reservation_id v, rb_listing_id = rv_listing_id v, rb_provider_id = rv_provider_id v,
          rb_device_id = rv_device_id v, rb_session_id = session, rb_gpu_uuid = gpu\<rparr>))))))))"

definition load_reserved_placement_candidate :: "ReservationBinding \<Rightarrow> market \<Rightarrow> PlacementCandidate res" where
  "load_reserved_placement_candidate b m =
     ok_or (Option.bind (find (\<lambda>l. li_listing_id l = rb_listing_id b \<and> li_provider_id l = rb_provider_id b
         \<and> li_device_id l = rb_device_id b \<and> li_session_id l = Some (rb_session_id b)
         \<and> map_option to_ascii_lowercase (li_gpu_uuid l) = Some (to_ascii_lowercase (rb_gpu_uuid b)))
         (bl_listings (mk_billing m))) candidate_from_listing)
       (Conflict ''reservation no longer matches backend marketplace supply'')"

definition consume_reservation :: "externs \<Rightarrow> string \<Rightarrow> string \<Rightarrow> db \<Rightarrow> db res" where
  "consume_reservation X reservation now s =
     (let P = (\<lambda>v. rv_reservation_id v = reservation \<and> rv_status v = ''reserved'' \<and> sql_le X (rv_starts_at v) now
            \<and> sql_less X now (rv_expires_at v)) in
      bind_res (ensure (sql_count P (marketplace_reservations s) = 1)
        (Conflict ''reservation is no longer available for workload consumption'')) (\<lambda>_.
      Inr (s\<lparr>marketplace_reservations := sql_update P (\<lambda>v. v\<lparr>rv_status := ''consumed'', rv_updated_at := now\<rparr>)
               (marketplace_reservations s)\<rparr>)))"

section \<open>The choice of supply\<close>

definition placement_candidates ::
  "externs \<Rightarrow> (string \<Rightarrow> bool) \<Rightarrow> CreateCustomerWorkloadRequest \<Rightarrow> ReservationBinding option \<Rightarrow> market \<Rightarrow>
     PlacementCandidate list res" where
  "placement_candidates X locked r reservation m =
     (case reservation of
        Some b \<Rightarrow> bind_res (load_reserved_placement_candidate b m) (\<lambda>c. Inr [c])
      | None \<Rightarrow> select_placement_candidates X locked (wq_workload_type r) (wq_requirements r) m)"

fun first_admitted ::
  "externs \<Rightarrow> canonical_hashes \<Rightarrow> RuntimeAdmissionPolicy \<Rightarrow> int \<Rightarrow> db \<Rightarrow> PlacementCandidate list \<Rightarrow>
     PlacementCandidate option res" where
  "first_admitted X H policy now s [] = Inr None"
| "first_admitted X H policy now s (c # cs) =
     (case assert_current_compute_protocol_negotiation (provider_sessions s) (pc_session_id c) of
        Inl _ \<Rightarrow> first_admitted X H policy now s cs
      | Inr _ \<Rightarrow>
          if gpu_has_selected_placement (pc_provider_id c) (pc_device_id c) (pc_gpu_uuid c) s
          then first_admitted X H policy now s cs
          else bind_res (evaluate_runtime_admission_for_gpu_in_transaction X H s (pc_provider_id c) (pc_device_id c)
                 (pc_gpu_uuid c) policy now) (\<lambda>d.
               if ad_status d = ''admitted'' then Inr (Some c) else first_admitted X H policy now s cs))"

definition load_backend_execution_contract :: "string \<Rightarrow> market \<Rightarrow> (string \<times> string) res" where
  "load_backend_execution_contract workload_type m =
     bind_res (ok_or (find (\<lambda>p. xp_workload_type p = workload_type \<and> xp_status p = ''active'') (mk_profiles m))
       (Conflict ''workload has no active execution profile'')) (\<lambda>p.
     Inr (xp_template_id p, xp_image_ref p))"

definition load_ready_input_artifact :: "ProjectAccess \<Rightarrow> string \<Rightarrow> market \<Rightarrow> string \<Rightarrow> JobArtifact res" where
  "load_ready_input_artifact project now m aid =
     bind_res (ok_or (find (\<lambda>a. ct_artifact_id a = aid \<and> ct_project_id a = pac_project_id project
         \<and> ct_organization_id a = pac_organization_id project) (mk_artifacts m))
       (NotFound ''customer input artifact not found'')) (\<lambda>a.
     bind_res (ensure (\<not> (ct_status a \<noteq> ''ready'' \<or> ct_expires_at a \<le> now))
       (Conflict ''customer input artifact is not ready or has expired'')) (\<lambda>_.
     bind_res (ensure (0 \<le> ct_size_bytes a) (Invalid ''customer input artifact size is invalid'')) (\<lambda>_.
     Inr \<lparr>artifact_id = ct_artifact_id a, art_role = ''input'', art_object_key = ct_object_key a,
          art_sha256 = Some (ct_sha256 a), art_size_bytes = Some (word_of_int (ct_size_bytes a)),
          art_content_type = ct_content_type a\<rparr>)))"

fun load_ready_input_artifacts ::
  "ProjectAccess \<Rightarrow> string \<Rightarrow> market \<Rightarrow> string list \<Rightarrow> JobArtifact list res" where
  "load_ready_input_artifacts project now m [] = Inr []"
| "load_ready_input_artifacts project now m (aid # aids) =
     bind_res (load_ready_input_artifact project now m aid) (\<lambda>a.
     bind_res (load_ready_input_artifacts project now m aids) (\<lambda>as. Inr (a # as)))"

section \<open>The transaction\<close>

text \<open>The rows the transaction writes.\<close>

definition new_workload_row ::
  "string \<Rightarrow> ProjectAccess \<Rightarrow> CreateCustomerWorkloadCommand \<Rightarrow> json \<Rightarrow> u32 \<Rightarrow> string \<Rightarrow> workload_row" where
  "new_workload_row wid project c parameters timeout now =
     \<lparr>wl_workload_id = wid, wl_organization_id = pac_organization_id project, wl_project_id = pac_project_id project,
      wl_reservation_id = wq_reservation_id (wc_request c), wl_schema_version = CUSTOMER_WORKLOAD_SCHEMA_VERSION,
      wl_client_workload_id = wq_client_workload_id (wc_request c), wl_workload_type = wq_workload_type (wc_request c),
      wl_requirements = wq_requirements (wc_request c), wl_parameters = parameters, wl_timeout_seconds = timeout,
      wl_status = ''queued'', wl_idempotency_key = wc_idempotency_key c, wl_request_hash = wc_request_hash c,
      wl_job_id = None, wl_created_at = now, wl_updated_at = now\<rparr>"

definition placement_reason_codes :: "ReservationBinding option \<Rightarrow> string list" where
  "placement_reason_codes reservation =
     [''marketplace_listing_available'', ''workload_requirements_satisfied'', ''runtime_admission_admitted'']
     @ (if reservation = None then [] else [''customer_reservation_bound''])"

definition new_placement_row ::
  "string \<Rightarrow> string \<Rightarrow> ReservationBinding option \<Rightarrow> PlacementCandidate \<Rightarrow> string \<Rightarrow> placement_row" where
  "new_placement_row pid wid reservation c now =
     \<lparr>pl_placement_id = pid, pl_workload_id = wid, pl_reservation_id = map_option rb_reservation_id reservation,
      pl_schema_version = PLACEMENT_SCHEMA_VERSION, pl_listing_id = pc_listing_id c, pl_provider_id = pc_provider_id c,
      pl_device_id = pc_device_id c, pl_session_id = pc_session_id c, pl_gpu_uuid = pc_gpu_uuid c,
      pl_policy_id = pc_policy_id c, pl_policy_version = pc_policy_version c, pl_status = ''selected'',
      pl_reason_codes = placement_reason_codes reservation, pl_created_at = now\<rparr>"

definition placed_job_row ::
  "string \<Rightarrow> string \<Rightarrow> string \<Rightarrow> ReservationBinding option \<Rightarrow> PlacementCandidate \<Rightarrow> CreateCustomerWorkloadRequest \<Rightarrow>
     string \<times> string \<Rightarrow> json \<Rightarrow> JobArtifact list \<Rightarrow> u32 \<Rightarrow> string \<Rightarrow> job_row" where
  "placed_job_row jid wid pid reservation c r contract parameters inputs timeout now =
     \<lparr>job_id = jid, job_client_job_id = None, job_provider_id = pc_provider_id c, job_device_id = pc_device_id c,
      job_session_id = pc_session_id c, job_schema_version = JOB_SCHEMA_VERSION,
      job_workload_type = wq_workload_type r, job_template_id = fst contract, job_image_ref = snd contract,
      job_gpu_uuid = pc_gpu_uuid c, job_backend = ''cuda'', job_parameters = parameters,
      job_input_artifacts = inputs, job_expected_outputs = [], job_result_artifacts = [],
      job_policy_id = Some (pc_policy_id c), job_policy_version = Some (pc_policy_version c), job_status = ''queued'',
      job_progress_percent = None, job_status_message = None, job_error_code = None, job_error_message = None,
      job_cancellation_reason = None, job_timeout_seconds = timeout, job_created_at = now, job_assigned_at = None,
      job_accepted_at = None, job_started_at = None, job_completed_at = None, job_updated_at = now,
      jr_result_metrics = JObject [], jr_assignment_lease_id = None, jr_job_credential_hash = None,
      jr_job_credential_expires_at = None, jr_scheduler_last_evaluated_at = None, jr_workload_id = Some wid,
      jr_placement_id = Some pid, jr_reservation_id = map_option rb_reservation_id reservation\<rparr>"

text \<open>The unique indexes of the three tables; \<open>NULL\<close> is equal to nothing.\<close>

definition same_some :: "'a option \<Rightarrow> 'a option \<Rightarrow> bool" where
  "same_some a b \<longleftrightarrow> a \<noteq> None \<and> a = b"

definition workload_clash :: "workload_row \<Rightarrow> workload_row \<Rightarrow> bool" where
  "workload_clash w o' \<longleftrightarrow> wl_workload_id o' = wl_workload_id w \<or>
     wl_project_id o' = wl_project_id w \<and> same_some (wl_client_workload_id w) (wl_client_workload_id o') \<or>
     wl_project_id o' = wl_project_id w \<and> wl_idempotency_key o' = wl_idempotency_key w \<or>
     same_some (wl_reservation_id w) (wl_reservation_id o')"

definition placement_clash :: "placement_row \<Rightarrow> placement_row \<Rightarrow> bool" where
  "placement_clash p o' \<longleftrightarrow> pl_placement_id o' = pl_placement_id p \<or> pl_workload_id o' = pl_workload_id p \<or>
     pl_status p = ''selected'' \<and> same_gpu (pl_provider_id p) (pl_device_id p) (pl_gpu_uuid p) o' \<or>
     same_some (pl_reservation_id p) (pl_reservation_id o')"

definition placed_job_clash :: "job_row \<Rightarrow> job_row \<Rightarrow> bool" where
  "placed_job_clash j o' \<longleftrightarrow> job_id o' = job_id j \<or> same_some (jr_workload_id j) (jr_workload_id o') \<or>
     same_some (jr_placement_id j) (jr_placement_id o') \<or> same_some (jr_reservation_id j) (jr_reservation_id o')"

text \<open>The foreign key of a placement into the columns of its reservation.\<close>

definition placement_binding_ok :: "placement_row \<Rightarrow> db \<Rightarrow> bool" where
  "placement_binding_ok p s \<longleftrightarrow>
     (case pl_reservation_id p of None \<Rightarrow> True
      | Some rid \<Rightarrow> list_ex (\<lambda>v. rv_reservation_id v = rid \<and> rv_listing_id v = pl_listing_id p
          \<and> rv_provider_id v = pl_provider_id p \<and> rv_device_id v = pl_device_id p
          \<and> rv_session_id v = Some (pl_session_id p) \<and> rv_gpu_uuid v = Some (pl_gpu_uuid p)) (marketplace_reservations s))"

definition workload_record :: "workload_row \<Rightarrow> CustomerWorkloadRecord" where
  "workload_record w =
     \<lparr>cw_workload_id = wl_workload_id w, cw_organization_id = wl_organization_id w, cw_project_id = wl_project_id w,
      cw_schema_version = wl_schema_version w, cw_client_workload_id = wl_client_workload_id w,
      cw_reservation_id = wl_reservation_id w, cw_workload_type = wl_workload_type w,
      cw_requirements = wl_requirements w, cw_status = wl_status w, cw_job_id = wl_job_id w,
      cw_created_at = wl_created_at w, cw_updated_at = wl_updated_at w\<rparr>"

definition load_workload :: "string \<Rightarrow> db \<Rightarrow> CustomerWorkloadRecord res" where
  "load_workload wid s = bind_res (load_one (\<lambda>w. wl_workload_id w = wid) (customer_workloads s)) (\<lambda>w. Inr (workload_record w))"

text \<open>The statements after the choice of supply, on the tables of the core database.\<close>

definition write_placement ::
  "externs \<Rightarrow> workload_row \<Rightarrow> placement_row \<Rightarrow> (string \<times> string) res \<Rightarrow> (string \<times> string \<Rightarrow> job_row) \<Rightarrow> string \<Rightarrow> db \<Rightarrow> db res" where
  "write_placement X w p profile job_of now s =
     bind_res (insert_unique workload_clash w (customer_workloads s)) (\<lambda>workloads.
     bind_res (ensure (placement_binding_ok p s) (Database ''insert violates foreign key constraint'')) (\<lambda>_.
     bind_res (insert_unique placement_clash p (compute_placements s)) (\<lambda>placements.
     bind_res profile (\<lambda>contract.
     let j = job_of contract in
     bind_res (insert_unique placed_job_clash j (compute_jobs s)) (\<lambda>jobs.
     let s1 = s\<lparr>customer_workloads := workloads, compute_placements := placements, compute_jobs := jobs\<rparr> in
     bind_res (case jr_reservation_id j of None \<Rightarrow> Inr s1 | Some rid \<Rightarrow> consume_reservation X rid now s1) (\<lambda>s2.
     Inr (s2\<lparr>customer_workloads := sql_update (\<lambda>v. wl_workload_id v = wl_workload_id w \<and> wl_status v = ''queued'')
            (\<lambda>v. v\<lparr>wl_status := ''placed'', wl_job_id := Some (job_id j), wl_updated_at := now\<rparr>)
            (customer_workloads s2)\<rparr>)))))))"

definition bind_inputs :: "string \<Rightarrow> string \<Rightarrow> string \<Rightarrow> JobArtifact list \<Rightarrow> input_binding_row list" where
  "bind_inputs wid project now inputs =
     map (\<lambda>a. \<lparr>ib_workload_id = wid, ib_project_id = project, ib_artifact_id = artifact_id a, ib_bound_at = now\<rparr>) inputs"

definition choose_supply ::
  "externs \<Rightarrow> canonical_hashes \<Rightarrow> (string \<Rightarrow> bool) \<Rightarrow> RuntimeAdmissionPolicy \<Rightarrow> CreateCustomerWorkloadCommand \<Rightarrow> int \<Rightarrow>
     market \<Rightarrow> (ProjectAccess \<times> ReservationBinding option \<times> PlacementCandidate) res" where
  "choose_supply X H locked policy c now m =
     (let r = wc_request c; now_text = to_rfc3339 X now in
      bind_res (workload_project_access (wc_auth c) (wc_project_id c) m) (\<lambda>project.
      bind_res (case wq_reservation_id r of None \<Rightarrow> Inr None
          | Some rid \<Rightarrow> bind_res (load_reservation_binding project rid (wq_workload_type r) (wq_requirements r) now_text m)
              (\<lambda>b. Inr (Some b))) (\<lambda>reservation.
      bind_res (placement_candidates X locked r reservation m) (\<lambda>candidates.
      bind_res (first_admitted X H policy now (core m) candidates) (\<lambda>selected.
      bind_res (ok_or selected (Conflict (if reservation \<noteq> None
          then ''reserved marketplace supply is not runtime-admitted for the workload''
          else ''no runtime-admitted marketplace supply satisfies the workload''))) (\<lambda>candidate.
      Inr (project, reservation, candidate)))))))"

definition place_workload ::
  "externs \<Rightarrow> canonical_hashes \<Rightarrow> (json \<Rightarrow> string) \<Rightarrow> (string \<Rightarrow> bool) \<Rightarrow> RuntimeAdmissionPolicy \<Rightarrow>
     string \<times> string \<times> string \<Rightarrow> CreateCustomerWorkloadCommand \<Rightarrow> int \<Rightarrow> market \<Rightarrow>
     (market \<times> CustomerWorkloadResponse) res" where
  "place_workload X H json_text locked policy uuids c now m =
     (let r = wc_request c; now_text = to_rfc3339 X now;
          wid = ''workload_'' @ fst uuids; pid = ''placement_'' @ fst (snd uuids); jid = ''job_'' @ snd (snd uuids);
          timeout = (case wq_timeout_seconds r of None \<Rightarrow> DEFAULT_WORKLOAD_TIMEOUT_SECONDS | Some t \<Rightarrow> t) in
      bind_res (choose_supply X H locked policy c now m) (\<lambda>(project, reservation, candidate).
      bind_res (workload_parameters json_text (wq_parameters r)) (\<lambda>parameters.
      bind_res (load_ready_input_artifacts project now_text m (wq_input_artifact_ids r)) (\<lambda>inputs.
      bind_res (write_placement X (new_workload_row wid project c parameters timeout now_text)
          (new_placement_row pid wid reservation candidate now_text)
          (load_backend_execution_contract (wq_workload_type r) m)
          (\<lambda>contract. placed_job_row jid wid pid reservation candidate r contract parameters inputs timeout now_text)
          now_text (core m)) (\<lambda>s.
      bind_res (load_workload wid s) (\<lambda>workload.
      Inr ((with_core (\<lambda>_. insert_customer_audit_event (pac_organization_id project) (Some (pac_project_id project))
               ''customer_api_key'' (Some (ak_api_key_id (wc_auth c))) ''customer_workload.placed'' ''customer_workload'' wid s) m)
             \<lparr>mk_input_bindings := mk_input_bindings m @ bind_inputs wid (pac_project_id project) now_text inputs\<rparr>,
           \<lparr>wr_request_id = wc_request_id c, wr_workload = workload, wr_duplicate = False\<rparr>)))))))"

definition create_customer_workload_idempotently ::
  "externs \<Rightarrow> canonical_hashes \<Rightarrow> (json \<Rightarrow> string) \<Rightarrow> (string \<Rightarrow> bool) \<Rightarrow> RuntimeAdmissionPolicy \<Rightarrow>
     string \<times> string \<times> string \<Rightarrow> CreateCustomerWorkloadCommand \<Rightarrow> int \<Rightarrow> market \<Rightarrow>
     (market \<times> CreateCustomerWorkloadOutcome) res" where
  "create_customer_workload_idempotently X H json_text locked policy uuids c now m =
     bind_res (require_customer_scope (wc_auth c) ''workloads:write'') (\<lambda>_.
     bind_res (validate_customer_id ''project_id'' (wc_project_id c) 128) (\<lambda>_.
     bind_res (validate_workload_request json_text (wc_request c)) (\<lambda>_.
     idempotently mk_workload_keys (\<lambda>ks m. m\<lparr>mk_workload_keys := ks\<rparr>) (wc_scope c) (wc_idempotency_key c)
       (wc_request_hash c) (place_workload X H json_text locked policy uuids c now) m)))"

section \<open>Lemmas\<close>

lemma equal_neighbours_sorted: "sorted xs \<Longrightarrow> equal_neighbours xs \<longleftrightarrow> \<not> distinct xs"
  by (induction xs rule: equal_neighbours.induct) auto

lemma equal_neighbours_sort [simp]: "equal_neighbours (sort xs) \<longleftrightarrow> \<not> distinct xs"
  by (simp add: equal_neighbours_sorted)

lemmas insert_unique_ok [simp] = insert_unique_Inr

lemma set_candidate_order [simp]: "set (candidate_order X ls) = set ls"
  by (simp add: candidate_order_def)

lemma candidate_from_listing_Some:
  assumes "candidate_from_listing l = Some c"
  shows "pc_listing_id c = li_listing_id l" "pc_provider_id c = li_provider_id l" "pc_device_id c = li_device_id l"
    "li_session_id l = Some (pc_session_id c)" "li_gpu_uuid l = Some (pc_gpu_uuid c)"
    "pc_policy_id c = li_policy_id l" "pc_policy_version c = li_policy_version l"
  using assms by (auto simp: candidate_from_listing_def split: option.split_asm)

lemma select_candidates_listed:
  assumes "select_placement_candidates X locked wt q m = Inr cs" "c \<in> set cs"
  shows "\<exists>l \<in> set (bl_listings (mk_billing m)). candidate_from_listing l = Some c \<and> free_candidate wt q (core m) l"
  using assms unfolding select_placement_candidates_def
  by (auto simp: List.map_filter_def dest!: in_set_takeD elim!: bind_resE) blast

lemma first_admitted_Some:
  assumes "first_admitted X H policy now s cs = Inr (Some c)"
  shows "c \<in> set cs \<and> assert_current_compute_protocol_negotiation (provider_sessions s) (pc_session_id c) = Inr () \<and>
    \<not> gpu_has_selected_placement (pc_provider_id c) (pc_device_id c) (pc_gpu_uuid c) s \<and>
    (\<exists>d. evaluate_runtime_admission_for_gpu_in_transaction X H s (pc_provider_id c) (pc_device_id c) (pc_gpu_uuid c) policy now = Inr d \<and>
       ad_status d = ''admitted'')"
  using assms
  by (induction cs) (auto split: sum.split_asm if_split_asm elim!: bind_resE)

text \<open>The reservation of a placement, if it has one, goes from reserved to consumed; no other row changes.\<close>

definition consumes :: "string option \<Rightarrow> reservation_row list \<Rightarrow> reservation_row list \<Rightarrow> bool" where
  "consumes reservation rows rows' \<longleftrightarrow>
     (case reservation of None \<Rightarrow> rows' = rows
      | Some rid \<Rightarrow> (\<exists>P now. sql_count P rows = 1 \<and> (\<forall>v. P v \<longrightarrow> rv_reservation_id v = rid \<and> rv_status v = ''reserved'') \<and>
          rows' = sql_update P (\<lambda>v. v\<lparr>rv_status := ''consumed'', rv_updated_at := now\<rparr>) rows))"

lemma consume_reservation_ok:
  assumes "consume_reservation X rid now s = Inr s'"
  shows "\<exists>rows. consumes (Some rid) (marketplace_reservations s) rows \<and> s' = s\<lparr>marketplace_reservations := rows\<rparr>"
  using assms unfolding consume_reservation_def Let_def consumes_def option.case by (elim bind_resE) auto

text \<open>What the writing statements do: one new row in each table, and the reservation consumed.\<close>

lemma write_placementE:
  assumes "write_placement X w p profile job_of now s = Inr s'"
    and w: "wl_status w = ''queued''"
  obtains contract j where "profile = Inr contract" "j = job_of contract"
    "customer_workloads s' = customer_workloads s @ [w\<lparr>wl_status := ''placed'', wl_job_id := Some (job_id j), wl_updated_at := now\<rparr>]"
    "compute_placements s' = compute_placements s @ [p]" "compute_jobs s' = compute_jobs s @ [j]"
    "\<forall>x \<in> set (customer_workloads s). \<not> workload_clash w x" "\<forall>x \<in> set (compute_placements s). \<not> placement_clash p x"
    "\<forall>x \<in> set (compute_jobs s). \<not> placed_job_clash j x" "placement_binding_ok p s"
    "consumes (jr_reservation_id j) (marketplace_reservations s) (marketplace_reservations s')"
    "job_leases s' = job_leases s" "job_events s' = job_events s" "usage_ledger_entries s' = usage_ledger_entries s"
proof -
  from assms(1) obtain contract s2 where c: "profile = Inr contract"
    and f: "\<forall>x \<in> set (customer_workloads s). \<not> workload_clash w x" "placement_binding_ok p s"
      "\<forall>x \<in> set (compute_placements s). \<not> placement_clash p x" "\<forall>x \<in> set (compute_jobs s). \<not> placed_job_clash (job_of contract) x"
    and s2: "(case jr_reservation_id (job_of contract) of None \<Rightarrow> Inr (s\<lparr>customer_workloads := customer_workloads s @ [w],
        compute_placements := compute_placements s @ [p], compute_jobs := compute_jobs s @ [job_of contract]\<rparr>)
      | Some rid \<Rightarrow> consume_reservation X rid now (s\<lparr>customer_workloads := customer_workloads s @ [w],
        compute_placements := compute_placements s @ [p], compute_jobs := compute_jobs s @ [job_of contract]\<rparr>)) = Inr s2"
    and s': "s' = s2\<lparr>customer_workloads := sql_update (\<lambda>v. wl_workload_id v = wl_workload_id w \<and> wl_status v = ''queued'')
        (\<lambda>v. v\<lparr>wl_status := ''placed'', wl_job_id := Some (job_id (job_of contract)), wl_updated_at := now\<rparr>) (customer_workloads s2)\<rparr>"
    unfolding write_placement_def Let_def by (auto elim!: bind_resE split: if_split_asm)
  let ?sel = "\<lambda>v. wl_workload_id v = wl_workload_id w \<and> wl_status v = ''queued''"
  have other: "sql_update ?sel g (customer_workloads s) = customer_workloads s" for g
    unfolding sql_update_def using f(1) by (intro map_idI) (auto simp: workload_clash_def)
  have upd: "sql_update ?sel g (customer_workloads s @ [w]) = customer_workloads s @ [g w]" for g
    using other w unfolding sql_update_def by simp
  have s2': "customer_workloads s2 = customer_workloads s @ [w] \<and> compute_placements s2 = compute_placements s @ [p] \<and>
      compute_jobs s2 = compute_jobs s @ [job_of contract] \<and> job_leases s2 = job_leases s \<and> job_events s2 = job_events s \<and>
      usage_ledger_entries s2 = usage_ledger_entries s \<and>
      consumes (jr_reservation_id (job_of contract)) (marketplace_reservations s) (marketplace_reservations s2)"
    using s2
  proof (cases "jr_reservation_id (job_of contract)")
    case None
    then show ?thesis using s2 by (auto simp: consumes_def)
  next
    case (Some rid)
    then show ?thesis using s2 by (auto dest!: consume_reservation_ok)
  qed
  show ?thesis
    by (rule that[OF c refl]) (use s2' s' upd f in auto)
qed

text \<open>
  What a choice of supply rests on, as a specification: a listing that meets the requirements, whose
  session has a current negotiation, whose GPU is admitted now and is not placed; either it is available
  and unleased, or it is the supply of a reservation of this project that is active now.
\<close>

definition rests_on ::
  "externs \<Rightarrow> canonical_hashes \<Rightarrow> RuntimeAdmissionPolicy \<Rightarrow> CreateCustomerWorkloadCommand \<Rightarrow> int \<Rightarrow> market \<Rightarrow>
     ProjectAccess \<Rightarrow> PlacementCandidate \<Rightarrow> listing_row \<Rightarrow> bool" where
  "rests_on X H policy c now m project candidate l \<longleftrightarrow>
     l \<in> set (bl_listings (mk_billing m)) \<and> candidate_from_listing l = Some candidate \<and>
     listing_meets (wq_requirements (wc_request c)) l \<and>
     assert_current_compute_protocol_negotiation (provider_sessions (core m)) (pc_session_id candidate) = Inr () \<and>
     \<not> gpu_has_selected_placement (pc_provider_id candidate) (pc_device_id candidate) (pc_gpu_uuid candidate) (core m) \<and>
     (\<exists>d. evaluate_runtime_admission_for_gpu_in_transaction X H (core m) (pc_provider_id candidate) (pc_device_id candidate)
        (pc_gpu_uuid candidate) policy now = Inr d \<and> ad_status d = ''admitted'') \<and>
     (case wq_reservation_id (wc_request c) of
        None \<Rightarrow> li_workload_type l = wq_workload_type (wc_request c) \<and> li_current_status l = ''available'' \<and>
          \<not> gpu_has_active_lease (pc_provider_id candidate) (pc_device_id candidate) (pc_gpu_uuid candidate) (job_leases (core m))
      | Some rid \<Rightarrow> (\<exists>v \<in> set (marketplace_reservations (core m)). rv_reservation_id v = rid \<and>
          rv_organization_id v = pac_organization_id project \<and> rv_project_id v = pac_project_id project \<and>
          rv_listing_id v = li_listing_id l \<and> rv_workload_type v = wq_workload_type (wc_request c) \<and>
          rv_status v = ''reserved'' \<and> rv_starts_at v \<le> to_rfc3339 X now \<and> to_rfc3339 X now < rv_expires_at v))"

lemma free_candidate_ok:
  assumes "free_candidate wt q s l" "candidate_from_listing l = Some c"
  shows "li_workload_type l = wt" "li_current_status l = ''available''" "listing_meets q l"
    "\<not> gpu_has_active_lease (pc_provider_id c) (pc_device_id c) (pc_gpu_uuid c) (job_leases s)"
  using assms by (simp_all add: free_candidate_def)

lemma reserved_candidate_listed:
  assumes b: "load_reservation_binding project rid wt q now m = Inr b"
    and c: "load_reserved_placement_candidate b m = Inr c"
    and ids: "distinct (map li_listing_id (bl_listings (mk_billing m)))"
  shows "rb_reservation_id b = rid"
    "\<exists>l \<in> set (bl_listings (mk_billing m)). candidate_from_listing l = Some c \<and> listing_meets q l \<and>
       (\<exists>v \<in> set (marketplace_reservations (core m)). rv_reservation_id v = rid \<and>
          rv_organization_id v = pac_organization_id project \<and> rv_project_id v = pac_project_id project \<and>
          rv_listing_id v = li_listing_id l \<and> rv_workload_type v = wt \<and> rv_status v = ''reserved'' \<and> rv_starts_at v \<le> now \<and> now < rv_expires_at v)"
proof -
  from b obtain v where v: "v \<in> set (marketplace_reservations (core m))" "rv_reservation_id v = rid"
      "rv_organization_id v = pac_organization_id project" "rv_project_id v = pac_project_id project" "rv_workload_type v = wt"
      "rv_status v = ''reserved''" "rv_starts_at v \<le> now" "now < rv_expires_at v" "rb_listing_id b = rv_listing_id v" "rb_reservation_id b = rid"
    and req: "assert_reserved_listing_requirements (rv_listing_id v) q m = Inr ()"
    unfolding load_reservation_binding_def by (auto elim!: bind_resE split: if_split_asm dest!: find_SomeD)
  show "rb_reservation_id b = rid" by fact
  from req obtain k where k: "k \<in> set (bl_listings (mk_billing m))" "li_listing_id k = rv_listing_id v" "listing_meets q k"
    unfolding assert_reserved_listing_requirements_def by (auto elim!: bind_resE dest!: find_SomeD)
  from c obtain l where l: "l \<in> set (bl_listings (mk_billing m))" "li_listing_id l = rv_listing_id v" "candidate_from_listing l = Some c"
    unfolding load_reserved_placement_candidate_def
    by (auto simp: bind_eq_Some_conv v(9) dest!: find_SomeD)
  have "l = k" using distinct_map_same[OF ids l(1) k(1)] l(2) k(2) by simp
  then show "\<exists>l \<in> set (bl_listings (mk_billing m)). candidate_from_listing l = Some c \<and> listing_meets q l \<and>
       (\<exists>v \<in> set (marketplace_reservations (core m)). rv_reservation_id v = rid \<and>
          rv_organization_id v = pac_organization_id project \<and> rv_project_id v = pac_project_id project \<and>
          rv_listing_id v = li_listing_id l \<and> rv_workload_type v = wt \<and> rv_status v = ''reserved'' \<and> rv_starts_at v \<le> now \<and> now < rv_expires_at v)"
    using l k(3) v(1-8) by (intro bexI[OF _ l(1)] conjI bexI[OF _ v(1)]) simp_all
qed

lemma choose_supplyE:
  assumes "choose_supply X H locked policy c now m = Inr (project, reservation, candidate)"
    and ids: "distinct (map li_listing_id (bl_listings (mk_billing m)))"
  obtains l where "workload_project_access (wc_auth c) (wc_project_id c) m = Inr project"
    "map_option rb_reservation_id reservation = wq_reservation_id (wc_request c)"
    "rests_on X H policy c now m project candidate l"
proof -
  let ?r = "wc_request c" and ?now = "to_rfc3339 X now"
  from assms(1) obtain cs where a: "workload_project_access (wc_auth c) (wc_project_id c) m = Inr project"
    and b: "(case wq_reservation_id ?r of None \<Rightarrow> Inr None
          | Some rid \<Rightarrow> bind_res (load_reservation_binding project rid (wq_workload_type ?r) (wq_requirements ?r) ?now m)
              (\<lambda>b. Inr (Some b))) = Inr reservation"
    and cs: "placement_candidates X locked ?r reservation m = Inr cs" "first_admitted X H policy now (core m) cs = Inr (Some candidate)"
    unfolding choose_supply_def Let_def by (auto elim!: bind_resE)
  note adm = first_admitted_Some[OF cs(2)]
  show ?thesis
  proof (cases "wq_reservation_id ?r")
    case None
    then have res: "reservation = None" using b by simp
    then obtain l where "l \<in> set (bl_listings (mk_billing m))" "candidate_from_listing l = Some candidate"
        "free_candidate (wq_workload_type ?r) (wq_requirements ?r) (core m) l"
      using cs(1) select_candidates_listed adm unfolding placement_candidates_def by fastforce
    then show ?thesis using that[of l] a res None adm free_candidate_ok[of "wq_workload_type ?r"]
      unfolding rests_on_def by simp
  next
    case (Some rid)
    then obtain b' where b': "load_reservation_binding project rid (wq_workload_type ?r) (wq_requirements ?r) ?now m = Inr b'"
      "reservation = Some b'" using b by (auto elim!: bind_resE)
    then have c: "load_reserved_placement_candidate b' m = Inr candidate"
      using cs(1) adm unfolding placement_candidates_def by (auto elim!: bind_resE)
    show ?thesis using that a b' Some adm reserved_candidate_listed[OF b'(1) c ids] unfolding rests_on_def by auto
  qed
qed

lemma workload_project_access_ok:
  assumes "workload_project_access auth project m = Inr a"
  shows "pac_project_id a = project" "pac_organization_id a = ak_organization_id auth"
    "ak_project_id auth = None \<or> ak_project_id auth = Some project"
  using assms unfolding workload_project_access_def authorize_project_access_def assert_project_binding_def
  by (auto elim!: bind_resE split: if_split_asm option.split_asm)

lemma ready_inputs:
  assumes "load_ready_input_artifacts project now m aids = Inr inputs"
  shows "map artifact_id inputs = aids \<and> (\<forall>a \<in> set inputs. \<exists>t \<in> set (mk_artifacts m). ct_artifact_id t = artifact_id a \<and>
    ct_object_key t = art_object_key a \<and> Some (ct_sha256 t) = art_sha256 a \<and>
    ct_project_id t = pac_project_id project \<and> ct_organization_id t = pac_organization_id project \<and>
    ct_status t = ''ready'' \<and> now < ct_expires_at t)"
  using assms
proof (induction aids arbitrary: inputs)
  case (Cons aid aids)
  then obtain a as where a: "load_ready_input_artifact project now m aid = Inr a" "load_ready_input_artifacts project now m aids = Inr as"
    "inputs = a # as" by (auto elim!: bind_resE)
  from a(1) obtain t where "t \<in> set (mk_artifacts m)" "ct_artifact_id t = aid" "ct_project_id t = pac_project_id project"
    "ct_organization_id t = pac_organization_id project" "ct_status t = ''ready''" "now < ct_expires_at t" "artifact_id a = aid"
    "ct_object_key t = art_object_key a" "Some (ct_sha256 t) = art_sha256 a"
    unfolding load_ready_input_artifact_def by (auto elim!: bind_resE split: if_split_asm dest!: find_SomeD)
  then show ?case using Cons.IH[OF a(2)] a(3) by auto
qed simp

text \<open>The rows of a placement belong together.\<close>

definition linked :: "workload_row \<Rightarrow> placement_row \<Rightarrow> job_row \<Rightarrow> bool" where
  "linked w p j \<longleftrightarrow> wl_job_id w = Some (job_id j) \<and> jr_workload_id j = Some (wl_workload_id w) \<and>
     jr_placement_id j = Some (pl_placement_id p) \<and> pl_workload_id p = wl_workload_id w \<and>
     jr_reservation_id j = wl_reservation_id w \<and> pl_reservation_id p = wl_reservation_id w \<and>
     job_provider_id j = pl_provider_id p \<and> job_device_id j = pl_device_id p \<and> job_session_id j = pl_session_id p \<and>
     job_gpu_uuid j = pl_gpu_uuid p"

lemma choose_supply_reservation:
  assumes "choose_supply X H locked policy c now m = Inr (project, reservation, candidate)"
  shows "map_option rb_reservation_id reservation = wq_reservation_id (wc_request c)"
  using assms unfolding choose_supply_def Let_def load_reservation_binding_def
  by (auto elim!: bind_resE split: option.split_asm if_split_asm dest!: find_SomeD)

lemma place_workloadE:
  assumes "place_workload X H jt locked policy uuids c now m = Inr (m', r)"
  obtains project reservation candidate w p j inputs where
    "choose_supply X H locked policy c now m = Inr (project, reservation, candidate)"
    "load_ready_input_artifacts project (to_rfc3339 X now) m (wq_input_artifact_ids (wc_request c)) = Inr inputs"
    "customer_workloads (core m') = customer_workloads (core m) @ [w]" "compute_placements (core m') = compute_placements (core m) @ [p]"
    "compute_jobs (core m') = compute_jobs (core m) @ [j]" "linked w p j" "wl_status w = ''placed''" "pl_status p = ''selected''"
    "job_status j = ''queued''" "jr_assignment_lease_id j = None" "jr_job_credential_hash j = None" "jr_job_credential_expires_at j = None"
    "wl_reservation_id w = wq_reservation_id (wc_request c)" "pl_reservation_id p = map_option rb_reservation_id reservation"
    "wl_organization_id w = pac_organization_id project"
    "wl_project_id w = pac_project_id project" "pl_listing_id p = pc_listing_id candidate" "pl_provider_id p = pc_provider_id candidate"
    "pl_device_id p = pc_device_id candidate" "pl_gpu_uuid p = pc_gpu_uuid candidate" "pl_session_id p = pc_session_id candidate"
    "job_input_artifacts j = inputs" "\<forall>x \<in> set (customer_workloads (core m)). \<not> workload_clash w x"
    "\<forall>x \<in> set (compute_placements (core m)). \<not> placement_clash p x"
    "\<forall>x \<in> set (compute_jobs (core m)). \<not> placed_job_clash j x"
    "consumes (wq_reservation_id (wc_request c)) (marketplace_reservations (core m)) (marketplace_reservations (core m'))"
    "job_leases (core m') = job_leases (core m)" "job_events (core m') = job_events (core m)"
    "usage_ledger_entries (core m') = usage_ledger_entries (core m)" "mk_workload_keys m' = mk_workload_keys m"
proof -
  let ?wid = "''workload_'' @ fst uuids" and ?pid = "''placement_'' @ fst (snd uuids)" and ?jid = "''job_'' @ snd (snd uuids)"
  let ?now = "to_rfc3339 X now" and ?r = "wc_request c"
  let ?timeout = "case wq_timeout_seconds ?r of None \<Rightarrow> DEFAULT_WORKLOAD_TIMEOUT_SECONDS | Some t \<Rightarrow> t"
  from assms obtain project reservation candidate parameters inputs s where
    cs: "choose_supply X H locked policy c now m = Inr (project, reservation, candidate)"
    and ins: "load_ready_input_artifacts project ?now m (wq_input_artifact_ids ?r) = Inr inputs"
    and wp: "write_placement X (new_workload_row ?wid project c parameters ?timeout ?now)
          (new_placement_row ?pid ?wid reservation candidate ?now) (load_backend_execution_contract (wq_workload_type ?r) m)
          (\<lambda>contract. placed_job_row ?jid ?wid ?pid reservation candidate ?r contract parameters inputs ?timeout ?now) ?now (core m) = Inr s"
    and m': "core m' = insert_customer_audit_event (pac_organization_id project) (Some (pac_project_id project)) ''customer_api_key''
        (Some (ak_api_key_id (wc_auth c))) ''customer_workload.placed'' ''customer_workload'' ?wid s" "mk_workload_keys m' = mk_workload_keys m"
    unfolding place_workload_def Let_def by (auto elim!: bind_resE)
  have res: "map_option rb_reservation_id reservation = wq_reservation_id ?r" using choose_supply_reservation[OF cs] .
  show ?thesis
  proof (rule write_placementE[OF wp], goal_cases)
    case 1
    then show ?case by (simp add: new_workload_row_def)
  next
    case prems: (2 contract j)
    show ?case
      by (rule that[OF cs ins]) (use prems m' res in \<open>auto simp: insert_customer_audit_event_def linked_def new_workload_row_def
          new_placement_row_def placed_job_row_def workload_clash_def\<close>)
  qed
qed

section \<open>Properties\<close>

text \<open>
  C8. A placement is sound: whoever changes the database through it has the scope and access to an active
  project; the chosen listing meets the requirements, its session's negotiation is current, its GPU is admitted
  now and not placed, and it is either free or the supply of an active reservation of the project; exactly one
  workload, one selected placement and one queued job are added, bound to each other and to the listing's GPU;
  the inputs are ready artifacts of the project; and the reservation, if there is one, is consumed.
\<close>

theorem placement_sound:
  assumes run: "create_customer_workload_idempotently X H jt locked policy uuids c now m = Inr (m', out)"
    and new: "core m' \<noteq> core m"
    and ids: "distinct (map li_listing_id (bl_listings (mk_billing m)))"
  shows "\<exists>project candidate l w p j. ''workloads:write'' \<in> set (ak_scopes (wc_auth c)) \<and>
    workload_project_access (wc_auth c) (wc_project_id c) m = Inr project \<and> rests_on X H policy c now m project candidate l \<and>
    customer_workloads (core m') = customer_workloads (core m) @ [w] \<and>
    compute_placements (core m') = compute_placements (core m) @ [p] \<and> compute_jobs (core m') = compute_jobs (core m) @ [j] \<and>
    linked w p j \<and> wl_organization_id w = ak_organization_id (wc_auth c) \<and> wl_project_id w = wc_project_id c \<and>
    wl_status w = ''placed'' \<and> pl_status p = ''selected'' \<and> job_status j = ''queued'' \<and>
    pl_listing_id p = li_listing_id l \<and> pl_provider_id p = li_provider_id l \<and> pl_device_id p = li_device_id l \<and>
    li_session_id l = Some (pl_session_id p) \<and> li_gpu_uuid l = Some (pl_gpu_uuid p) \<and>
    map artifact_id (job_input_artifacts j) = wq_input_artifact_ids (wc_request c) \<and>
    (\<forall>a \<in> set (job_input_artifacts j). \<exists>t \<in> set (mk_artifacts m). ct_artifact_id t = artifact_id a \<and>
       ct_object_key t = art_object_key a \<and> ct_project_id t = wc_project_id c \<and> ct_status t = ''ready'' \<and>
       to_rfc3339 X now < ct_expires_at t) \<and>
    consumes (wq_reservation_id (wc_request c)) (marketplace_reservations (core m)) (marketplace_reservations (core m'))"
proof -
  from run have scope: "''workloads:write'' \<in> set (ak_scopes (wc_auth c))"
    and idem: "idempotently mk_workload_keys (\<lambda>ks m. m\<lparr>mk_workload_keys := ks\<rparr>) (wc_scope c) (wc_idempotency_key c)
       (wc_request_hash c) (place_workload X H jt locked policy uuids c now) m = Inr (m', out)"
    unfolding create_customer_workload_idempotently_def require_customer_scope_def by (auto elim!: bind_resE split: if_split_asm)
  from idem new obtain n r where n: "place_workload X H jt locked policy uuids c now m = Inr (n, r)" "core m' = core n"
    by (cases rule: idempotentlyE) auto
  show ?thesis
  proof (rule place_workloadE[OF n(1)], goal_cases)
    case prems: (1 project reservation candidate w p j inputs)
    from choose_supplyE[OF prems(1) ids] obtain l where
      acc: "workload_project_access (wc_auth c) (wc_project_id c) m = Inr project" and l: "rests_on X H policy c now m project candidate l"
      by blast
    then have c: "candidate_from_listing l = Some candidate" by (simp add: rests_on_def)
    note proj = workload_project_access_ok[OF acc] and cand = candidate_from_listing_Some[OF c] and inp = ready_inputs[OF prems(2)]
    show ?case
      unfolding n(2) using scope acc l prems proj cand inp
      by (intro exI[of _ project] exI[of _ candidate] exI[of _ l] exI[of _ w] exI[of _ p] exI[of _ j]) auto
  qed
qed

definition example_command :: CreateCustomerWorkloadCommand where
  "example_command = \<lparr>wc_request_id = ''r'', wc_scope = ''s'', wc_idempotency_key = ''k'', wc_request_hash = ''h'',
     wc_auth = example_member, wc_project_id = ''pr1'',
     wc_request = \<lparr>wq_client_workload_id = None, wq_reservation_id = None, wq_input_artifact_ids = [''in1''], wq_workload_type = ''w'',
       wq_requirements = \<lparr>cq_gpu_count = 1, cq_backend = ''cuda'', cq_minimum_vram_mib = Some 8000, cq_region = None,
         cq_minimum_trust_score = Some (F64 50), cq_maximum_risk_score = None, cq_minimum_reliability_score = None,
         cq_maximum_price_per_hour_micros = Some 2000\<rparr>,
       wq_parameters = JObject [], wq_timeout_seconds = None\<rparr>\<rparr>"

definition example_placed :: "(market \<times> CreateCustomerWorkloadOutcome) res" where
  "example_placed = create_customer_workload_idempotently example_externs example_hashes (\<lambda>_. ''{}'') (\<lambda>_. False) example_policy
     (''u1'', ''u2'', ''u3'') example_command 5 example_market"

text \<open>The placement evaluates in the stages of the transaction.\<close>

definition example_access :: ProjectAccess where
  "example_access = \<lparr>pac_organization_id = ''o1'', pac_project_id = ''pr1''\<rparr>"

definition example_candidate :: PlacementCandidate where
  "example_candidate = \<lparr>pc_listing_id = ''li1'', pc_provider_id = ''p1'', pc_device_id = ''d1'', pc_session_id = ''s1'',
     pc_gpu_uuid = ''gpu1'', pc_policy_id = ''pol'', pc_policy_version = ''1''\<rparr>"

definition example_input :: JobArtifact where
  "example_input = \<lparr>artifact_id = ''in1'', art_role = ''input'', art_object_key = ''k/in1'', art_sha256 = Some (''sha256:'' @ example_hash),
     art_size_bytes = Some 10, art_content_type = None\<rparr>"

lemma example_choice:
  "choose_supply example_externs example_hashes (\<lambda>_. False) example_policy example_command 5 example_market = Inr (example_access, None, example_candidate)"
  by code_simp

lemma example_inputs:
  "load_ready_input_artifacts example_access (to_rfc3339 example_externs 5) example_market [''in1''] = Inr [example_input]"
  by code_simp

lemma example_parameters: "workload_parameters (\<lambda>_. ''{}'') (JObject []) = Inr (JObject [])"
  by code_simp

lemma example_write:
  "case write_placement example_externs (new_workload_row ''workload_u1'' example_access example_command (JObject []) 3600 (to_rfc3339 example_externs 5))
      (new_placement_row ''placement_u2'' ''workload_u1'' None example_candidate (to_rfc3339 example_externs 5))
      (load_backend_execution_contract ''w'' example_market)
      (\<lambda>contract. placed_job_row ''job_u3'' ''workload_u1'' ''placement_u2'' None example_candidate (wc_request example_command) contract
         (JObject []) [example_input] 3600 (to_rfc3339 example_externs 5))
      (to_rfc3339 example_externs 5) (core example_market)
   of Inr s \<Rightarrow> length (compute_jobs s) = 1 \<and> (case load_workload ''workload_u1'' s of Inr _ \<Rightarrow> True | Inl _ \<Rightarrow> False) | Inl _ \<Rightarrow> False"
  by code_simp

lemma example_place:
  "\<exists>m' r. place_workload example_externs example_hashes (\<lambda>_. ''{}'') (\<lambda>_. False) example_policy (''u1'', ''u2'', ''u3'') example_command 5
     example_market = Inr (m', r) \<and> length (compute_jobs (core m')) = 1"
proof -
  have f: "wq_input_artifact_ids (wc_request example_command) = [''in1'']" "wq_workload_type (wc_request example_command) = ''w''"
    "wq_timeout_seconds (wc_request example_command) = None" "wq_parameters (wc_request example_command) = JObject []"
    by (simp_all add: example_command_def)
  show ?thesis
    using example_write unfolding place_workload_def Let_def
    by (auto simp: example_choice example_inputs[folded f(1)] example_parameters f(2-) DEFAULT_WORKLOAD_TIMEOUT_SECONDS_def insert_customer_audit_event_def split: sum.split_asm)
qed

lemma example_placed_ok: "\<exists>m' out. example_placed = Inr (m', out) \<and> length (compute_jobs (core m')) = 1"
proof -
  have ids: "validate_customer_id ''input_artifact_id'' ''in1'' 128 = Inr ()" "validate_customer_id ''workload_type'' ''w'' 96 = Inr ()"
    "validate_customer_id ''project_id'' ''pr1'' 128 = Inr ()"
    by (code_simp, code_simp, code_simp)
  have v: "validate_workload_request (\<lambda>_. ''{}'') (wc_request example_command) = Inr ()"
    "require_customer_scope (wc_auth example_command) ''workloads:write'' = Inr ()"
    "validate_customer_id ''project_id'' (wc_project_id example_command) 128 = Inr ()"
    by (simp_all add: validate_workload_request_def validate_requirements_def example_command_def optional_id_def score_in_range_def
        example_parameters MAX_WORKLOAD_INPUT_ARTIFACTS_def MAX_WORKLOAD_TIMEOUT_SECONDS_def ids require_customer_scope_def example_member_def)
  have k: "find P (mk_workload_keys example_market) = None" for P by (simp add: example_market_def)
  from example_place obtain m' r where "place_workload example_externs example_hashes (\<lambda>_. ''{}'') (\<lambda>_. False) example_policy
      (''u1'', ''u2'', ''u3'') example_command 5 example_market = Inr (m', r)" "length (compute_jobs (core m')) = 1"
    by blast
  then show ?thesis
    unfolding example_placed_def create_customer_workload_idempotently_def idempotently_def v k Let_def by simp
qed

theorem placement_sound_witness:
  "\<exists>m' out j. example_placed = Inr (m', out) \<and> compute_jobs (core m') = [j] \<and> map artifact_id (job_input_artifacts j) = [''in1'']"
proof -
  obtain m' out where r: "example_placed = Inr (m', out)" and l: "length (compute_jobs (core m')) = 1"
    using example_placed_ok by blast
  have e: "compute_jobs (core example_market) = []" "distinct (map li_listing_id (bl_listings (mk_billing example_market)))"
    "wq_input_artifact_ids (wc_request example_command) = [''in1'']"
    by (simp_all add: example_market_def example_command_def)
  from l e(1) have ne: "core m' \<noteq> core example_market" by auto
  from placement_sound[OF r[unfolded example_placed_def] ne e(2)] obtain j
    where "compute_jobs (core m') = compute_jobs (core example_market) @ [j]"
      "map artifact_id (job_input_artifacts j) = wq_input_artifact_ids (wc_request example_command)"
    by blast
  with r e show ?thesis by auto
qed

end
