(* ===== verification/Placement_Mirror.thy ===== *)
theory Placement_Mirror
  imports Job_System Placement
begin

text \<open>
  The tables of the market mirror the jobs: \<^verbatim>\<open>customer_workloads\<close>, \<^verbatim>\<open>compute_placements\<close> and
  \<^verbatim>\<open>marketplace_reservations\<close> are written by placement (\<^verbatim>\<open>customer_compute.rs\<close>) and, when a job ends, by
  \<^verbatim>\<open>release_customer_placement\<close> of \<^verbatim>\<open>job_control.rs\<close>. The interface of the two sides is the locale \<open>mirrored_handler\<close>:
  a handler of job control either leaves the three tables alone while jobs live on, or ends one job and
  releases what it was placed on. Every handler is an instance.
\<close>

section \<open>The invariant\<close>

definition reflects :: "workload_row \<Rightarrow> placement_row \<Rightarrow> job_row \<Rightarrow> bool" where
  "reflects w p j \<longleftrightarrow> linked w p j \<and>
     wl_status w = (if is_terminal_status (job_status j) then job_status j else ''placed'') \<and>
     pl_status p = (if is_terminal_status (job_status j) then ''released'' else ''selected'')"

definition customer_job :: "job_row \<Rightarrow> bool" where
  "customer_job j \<longleftrightarrow> jr_workload_id j \<noteq> None"

definition unplaced :: "job_row \<Rightarrow> bool" where
  "unplaced j \<longleftrightarrow> jr_workload_id j = None \<and> jr_placement_id j = None \<and> jr_reservation_id j = None"

text \<open>What holds of the columns of jobs that never change.\<close>

definition well_bound :: "job_row list \<Rightarrow> bool" where
  "well_bound cs \<longleftrightarrow> (\<forall>c \<in> set cs. customer_job c \<or> unplaced c) \<and>
     (\<forall>a \<in> set cs. \<forall>b \<in> set cs. job_id a \<noteq> job_id b \<longrightarrow> \<not> placed_job_clash a b)"

definition booked :: "reservation_row list \<Rightarrow> job_row \<Rightarrow> bool" where
  "booked rows j \<longleftrightarrow> (\<forall>rid. jr_reservation_id j = Some rid \<longrightarrow> (\<exists>v \<in> set rows. rv_reservation_id v = rid \<and>
     rv_status v = (if is_terminal_status (job_status j) then ''released'' else ''consumed'')))"

definition exclusive_supply :: "placement_row list \<Rightarrow> bool" where
  "exclusive_supply = sorted_wrt (\<lambda>q p. \<not> (pl_status p = ''selected'' \<and>
     same_gpu (pl_provider_id p) (pl_device_id p) (pl_gpu_uuid p) q))"

definition mirror :: "db \<Rightarrow> bool" where
  "mirror s \<longleftrightarrow> well_bound (map job_contract (compute_jobs s)) \<and>
     length (customer_workloads s) = length (compute_placements s) \<and>
     list_all2 (\<lambda>(w, p). reflects w p) (zip (customer_workloads s) (compute_placements s)) (filter customer_job (compute_jobs s)) \<and>
     list_all (booked (marketplace_reservations s)) (compute_jobs s) \<and> exclusive_supply (compute_placements s)"

section \<open>The interface\<close>

definition market_tables :: "db \<Rightarrow> workload_row list \<times> placement_row list \<times> reservation_row list" where
  "market_tables s = (customer_workloads s, compute_placements s, marketplace_reservations s)"

text \<open>Jobs live on, and new ones are not placed.\<close>

definition quiet :: "db \<Rightarrow> db \<Rightarrow> bool" where
  "quiet s s' \<longleftrightarrow> market_tables s' = market_tables s \<and> (\<exists>kept new. compute_jobs s' = kept @ new \<and>
     list_all2 (job_evolves live_step) (compute_jobs s) kept \<and> list_all unplaced new)"

text \<open>One job ends, and what it was placed on is released.\<close>

definition ends_job :: "db \<Rightarrow> db \<Rightarrow> bool" where
  "ends_job s s' \<longleftrightarrow> (\<exists>job f now. job \<in> set (compute_jobs s) \<and> \<not> is_terminal_status (job_status job) \<and>
     is_terminal_status (job_status (f job)) \<and> (\<forall>j. job_contract (f j) = job_contract j) \<and>
     compute_jobs s' = sql_update (\<lambda>j. job_id j = job_id job) f (compute_jobs s) \<and>
     market_tables s' = market_tables (release_customer_placement (job_id job) now (s\<lparr>compute_jobs := compute_jobs s'\<rparr>)))"

text \<open>What follows from equal contracts.\<close>

lemma contract_columns:
  assumes "job_contract j' = job_contract j"
  shows "job_id j' = job_id j" "jr_workload_id j' = jr_workload_id j" "jr_placement_id j' = jr_placement_id j"
    "jr_reservation_id j' = jr_reservation_id j" "job_provider_id j' = job_provider_id j" "job_device_id j' = job_device_id j"
    "job_session_id j' = job_session_id j" "job_gpu_uuid j' = job_gpu_uuid j"
  using assms by (auto simp: job_contract_def job_row.defs dest!: arg_cong[of _ _ "\<lambda>j. (job_id j, jr_workload_id j, jr_placement_id j,
      jr_reservation_id j, job_provider_id j, job_device_id j, job_session_id j, job_gpu_uuid j)"])

lemma contract_same:
  "linked w p (job_contract j) = linked w p j" "customer_job (job_contract j) = customer_job j" "unplaced (job_contract j) = unplaced j"
  "placed_job_clash (job_contract j) k = placed_job_clash j k" "placed_job_clash k (job_contract j) = placed_job_clash k j"
  "job_id (job_contract j) = job_id j" "jr_reservation_id (job_contract j) = jr_reservation_id j"
  by (simp_all add: linked_def customer_job_def unplaced_def placed_job_clash_def job_contract_def)

lemma reflects_evolves: "job_evolves live_step j j' \<Longrightarrow> reflects w p j \<Longrightarrow> reflects w p j'"
  unfolding reflects_def job_evolves_def live_step_def by (metis contract_same(1))

lemma booked_evolves: "job_evolves live_step j j' \<Longrightarrow> booked rows j \<Longrightarrow> booked rows j'"
  unfolding booked_def job_evolves_def live_step_def by (metis contract_same(7))

lemma evolves_contracts: "list_all2 (job_evolves R) js ks \<Longrightarrow> map job_contract ks = map job_contract js"
  by (induction rule: list_all2_induct) (auto simp: job_evolves_def)

lemma evolves_customers:
  "list_all2 (job_evolves R) js ks \<Longrightarrow> list_all2 (job_evolves R) (filter customer_job js) (filter customer_job ks)"
  by (induction rule: list_all2_induct) (auto simp: job_evolves_def customer_job_def dest: contract_columns(2))

lemma unplaced_clash: "unplaced a \<Longrightarrow> job_id a \<noteq> job_id b \<Longrightarrow> \<not> placed_job_clash a b \<and> \<not> placed_job_clash b a"
  by (auto simp: unplaced_def placed_job_clash_def same_some_def)

lemma well_bound_unplaced: "well_bound cs \<Longrightarrow> \<forall>a \<in> set new. unplaced a \<Longrightarrow> well_bound (cs @ new)"
  unfolding well_bound_def set_append ball_Un using unplaced_clash[of _ _] unplaced_clash[THEN conjunct2, OF _ not_sym] by simp

lemma mirror_quiet:
  assumes m: "mirror s" and q: "quiet s s'"
  shows "mirror s'"
proof -
  from q obtain kept new where s': "compute_jobs s' = kept @ new" "list_all2 (job_evolves live_step) (compute_jobs s) kept" "list_all unplaced new"
    and t: "customer_workloads s' = customer_workloads s" "compute_placements s' = compute_placements s"
      "marketplace_reservations s' = marketplace_reservations s"
    unfolding quiet_def market_tables_def by auto
  let ?js = "map job_contract (compute_jobs s)"
  have c: "map job_contract (compute_jobs s') = ?js @ map job_contract new"
    using evolves_contracts[OF s'(2)] s'(1) by simp
  have "\<forall>a \<in> set (map job_contract new). unplaced a" using s'(3) by (auto simp: list_all_iff contract_same)
  then have wb: "well_bound (map job_contract (compute_jobs s'))"
    using m unfolding c mirror_def by (intro well_bound_unplaced) simp_all
  have new: "filter customer_job new = []" using s'(3) by (auto simp: list_all_iff filter_empty_conv customer_job_def unplaced_def)
  have "list_all2 (\<lambda>(w, p). reflects w p) (zip (customer_workloads s) (compute_placements s)) (filter customer_job (compute_jobs s))"
    using m by (simp add: mirror_def)
  then have refl: "list_all2 (\<lambda>(w, p). reflects w p) (zip (customer_workloads s) (compute_placements s)) (filter customer_job kept)"
    by (rule list_all2_trans[rotated, OF _ evolves_customers[OF s'(2)]]) (auto dest: reflects_evolves)
  have "list_all (booked (marketplace_reservations s)) kept"
    using m s'(2) unfolding mirror_def list_all_iff by (metis booked_evolves list_all2_find2)
  moreover have "list_all (booked (marketplace_reservations s)) new" using s'(3) by (auto simp: list_all_iff booked_def unplaced_def)
  ultimately show ?thesis using m wb refl new unfolding mirror_def t s'(1) by simp
qed

text \<open>The release touches the rows of the job that ended and no other.\<close>

lemma well_bound_same:
  assumes "well_bound (map job_contract js)" "distinct (map job_id js)" "j \<in> set js" "k \<in> set js"
    and "same_some (jr_workload_id j) (jr_workload_id k) \<or> same_some (jr_placement_id j) (jr_placement_id k) \<or>
      same_some (jr_reservation_id j) (jr_reservation_id k)"
  shows "j = k"
proof (rule ccontr)
  assume "j \<noteq> k"
  then have "job_id j \<noteq> job_id k" using assms(2-4) distinct_map_same by metis
  then have "\<not> placed_job_clash j k" using assms(1,3,4) unfolding well_bound_def by (auto simp: contract_same)
  then show False using assms(5) by (auto simp: placed_job_clash_def)
qed

definition released_workload :: "job_row \<Rightarrow> workload_row \<Rightarrow> workload_row" where
  "released_workload k w = (if jr_workload_id k = Some (wl_workload_id w) \<and> wl_status w = ''placed'' \<and> is_terminal_status (job_status k)
     then w\<lparr>wl_status := job_status k, wl_updated_at := job_updated_at k\<rparr> else w)"

definition released_placement :: "job_row \<Rightarrow> placement_row \<Rightarrow> placement_row" where
  "released_placement k p = (if jr_placement_id k = Some (pl_placement_id p) \<and> pl_status p = ''selected'' then p\<lparr>pl_status := ''released''\<rparr> else p)"

definition released_reservation :: "string \<Rightarrow> job_row \<Rightarrow> reservation_row \<Rightarrow> reservation_row" where
  "released_reservation now k v = (if jr_reservation_id k = Some (rv_reservation_id v) \<and> rv_status v = ''consumed''
     then v\<lparr>rv_status := ''released'', rv_updated_at := now\<rparr> else v)"

lemma release_tables:
  assumes "find (\<lambda>j. job_id j = jid) (compute_jobs s) = Some k"
  shows "market_tables (release_customer_placement jid now s) = (map (released_workload k) (customer_workloads s),
    map (released_placement k) (compute_placements s), map (released_reservation now k) (marketplace_reservations s))"
  using assms by (auto simp: market_tables_def release_customer_placement_def released_workload_def released_placement_def
      released_reservation_def sql_update_def is_terminal_status_def)

lemma reflects_released:
  assumes "reflects w p j" "\<not> is_terminal_status (job_status j)" "job_contract k = job_contract j" "is_terminal_status (job_status k)"
  shows "reflects (released_workload k w) (released_placement k p) k"
  using assms contract_columns[OF assms(3)] unfolding reflects_def linked_def released_workload_def released_placement_def by simp

lemma reflects_others:
  assumes "reflects w p j" "\<not> same_some (jr_workload_id j) (jr_workload_id k)" "\<not> same_some (jr_placement_id j) (jr_placement_id k)"
  shows "reflects (released_workload k w) (released_placement k p) j"
  using assms unfolding reflects_def linked_def released_workload_def released_placement_def same_some_def by auto

lemma booked_released:
  assumes b: "booked rows j" and j: "\<not> is_terminal_status (job_status j)" and c: "job_contract k = job_contract j"
    and k: "is_terminal_status (job_status k)"
  shows "booked (map (released_reservation now k) rows) k"
  unfolding booked_def
proof (intro allI impI)
  fix rid assume rid: "jr_reservation_id k = Some rid"
  then have "jr_reservation_id j = Some rid" using contract_columns(4)[OF c] by simp
  with b j obtain v where v: "v \<in> set rows" "rv_reservation_id v = rid" "rv_status v = ''consumed''"
    unfolding booked_def by auto
  show "\<exists>v \<in> set (map (released_reservation now k) rows). rv_reservation_id v = rid \<and>
      rv_status v = (if is_terminal_status (job_status k) then ''released'' else ''consumed'')"
    by (rule bexI[of _ "released_reservation now k v"]) (use v rid k in \<open>simp_all add: released_reservation_def\<close>)
qed

lemma booked_others:
  assumes b: "booked rows j" and other: "\<not> same_some (jr_reservation_id j) (jr_reservation_id k)"
  shows "booked (map (released_reservation now k) rows) j"
  unfolding booked_def
proof (intro allI impI)
  fix rid assume rid: "jr_reservation_id j = Some rid"
  with b obtain v where v: "v \<in> set rows" "rv_reservation_id v = rid"
    "rv_status v = (if is_terminal_status (job_status j) then ''released'' else ''consumed'')"
    unfolding booked_def by blast
  have "released_reservation now k v = v" using other rid v(2) by (auto simp: released_reservation_def same_some_def)
  then show "\<exists>v \<in> set (map (released_reservation now k) rows). rv_reservation_id v = rid \<and>
      rv_status v = (if is_terminal_status (job_status j) then ''released'' else ''consumed'')"
    using v by (intro bexI[of _ v]) (auto simp: image_iff intro!: bexI[of _ v])
qed

lemma exclusive_released: "exclusive_supply ps \<Longrightarrow> exclusive_supply (map (released_placement k) ps)"
  unfolding exclusive_supply_def sorted_wrt_map
  by (rule sorted_wrt_mono_rel[rotated], assumption) (auto simp: released_placement_def same_gpu_def)

lemma ends_jobE:
  assumes wb: "well_bound (map job_contract (compute_jobs s))" and d: "distinct (map job_id (compute_jobs s))" and e: "ends_job s s'"
  obtains job k g now where "job \<in> set (compute_jobs s)" "\<not> is_terminal_status (job_status job)" "is_terminal_status (job_status k)"
    "compute_jobs s' = map g (compute_jobs s)" "\<forall>j. job_contract (g j) = job_contract j" "g job = k"
    "\<forall>j \<in> set (compute_jobs s). j \<noteq> job \<longrightarrow> g j = j \<and> \<not> same_some (jr_workload_id j) (jr_workload_id k) \<and>
       \<not> same_some (jr_placement_id j) (jr_placement_id k) \<and> \<not> same_some (jr_reservation_id j) (jr_reservation_id k)"
    "customer_workloads s' = map (released_workload k) (customer_workloads s)"
    "compute_placements s' = map (released_placement k) (compute_placements s)"
    "marketplace_reservations s' = map (released_reservation now k) (marketplace_reservations s)"
proof -
  from e obtain job f now where job: "job \<in> set (compute_jobs s)" "\<not> is_terminal_status (job_status job)" "is_terminal_status (job_status (f job))"
    and f: "\<And>j. job_contract (f j) = job_contract j" and js: "compute_jobs s' = sql_update (\<lambda>j. job_id j = job_id job) f (compute_jobs s)"
    and t: "market_tables s' = market_tables (release_customer_placement (job_id job) now (s\<lparr>compute_jobs := compute_jobs s'\<rparr>))"
    unfolding ends_job_def by blast
  let ?k = "f job" and ?g = "\<lambda>j. if job_id j = job_id job then f j else j"
  note kc = contract_columns[OF f]
  have k: "?k \<in> set (compute_jobs s')" "job_id ?k = job_id job" using job(1) kc(1) by (auto simp: js sql_update_def)
  have d': "distinct (map job_id (compute_jobs s'))" using d unfolding js by (simp add: kc(1))
  have fd: "find (\<lambda>j. job_id j = job_id job) (compute_jobs s') = Some ?k" using find_distinct_key[OF d' k(1)] k(2) by simp
  have tabs: "customer_workloads s' = map (released_workload ?k) (customer_workloads s)"
    "compute_placements s' = map (released_placement ?k) (compute_placements s)"
    "marketplace_reservations s' = map (released_reservation now ?k) (marketplace_reservations s)"
    using t release_tables[of "job_id job" "s\<lparr>compute_jobs := compute_jobs s'\<rparr>" ?k now] fd by (auto simp: market_tables_def)
  have "?g j = j \<and> \<not> same_some (jr_workload_id j) (jr_workload_id ?k) \<and> \<not> same_some (jr_placement_id j) (jr_placement_id ?k) \<and>
      \<not> same_some (jr_reservation_id j) (jr_reservation_id ?k)" if "j \<in> set (compute_jobs s)" "j \<noteq> job" for j
    using well_bound_same[OF wb d that(1) job(1)] distinct_map_same[OF d that(1) job(1)] that(2) unfolding kc by auto
  then show ?thesis
    by (intro that[of job ?k ?g now, OF job _ _ _ _ tabs]) (simp_all add: js sql_update_def f)
qed

lemma mirror_ends:
  assumes m: "mirror s" and d: "distinct (map job_id (compute_jobs s))" and e: "ends_job s s'"
  shows "mirror s'"
proof -
  from m have wb: "well_bound (map job_contract (compute_jobs s))" by (simp add: mirror_def)
  from wb d e obtain job k g now where job: "job \<in> set (compute_jobs s)" "\<not> is_terminal_status (job_status job)" "is_terminal_status (job_status k)"
    and js: "compute_jobs s' = map g (compute_jobs s)" and g: "\<forall>j. job_contract (g j) = job_contract j" and k: "g job = k"
    and other: "\<forall>j \<in> set (compute_jobs s). j \<noteq> job \<longrightarrow> g j = j \<and> \<not> same_some (jr_workload_id j) (jr_workload_id k) \<and>
       \<not> same_some (jr_placement_id j) (jr_placement_id k) \<and> \<not> same_some (jr_reservation_id j) (jr_reservation_id k)"
    and tabs: "customer_workloads s' = map (released_workload k) (customer_workloads s)"
      "compute_placements s' = map (released_placement k) (compute_placements s)"
      "marketplace_reservations s' = map (released_reservation now k) (marketplace_reservations s)"
    by (rule ends_jobE)
  have kc: "job_contract k = job_contract job" using g k by blast
  have step: "reflects (released_workload k w) (released_placement k p) (g j)" if "reflects w p j" "j \<in> set (compute_jobs s)" for w p j
    using reflects_released[OF _ job(2) kc job(3)] reflects_others[OF that(1)] other that k by (cases "j = job") auto
  have book: "booked (map (released_reservation now k) (marketplace_reservations s)) (g j)" if "j \<in> set (compute_jobs s)" for j
    using booked_released[OF _ job(2) kc job(3)] booked_others[of _ j k] other m that k
    by (cases "j = job") (auto simp: mirror_def list_all_iff)
  have cs: "map job_contract (compute_jobs s') = map job_contract (compute_jobs s)" using g by (simp add: js)
  have cust: "filter customer_job (compute_jobs s') = map g (filter customer_job (compute_jobs s))"
    unfolding js filter_map o_def using g contract_same(2) by metis
  have "list_all2 (\<lambda>(w, p) j. reflects (released_workload k w) (released_placement k p) (g j))
      (zip (customer_workloads s) (compute_placements s)) (filter customer_job (compute_jobs s))"
    using m unfolding mirror_def by (elim conjE list.rel_mono_strong) (auto intro: step)
  then have "list_all2 (\<lambda>(w, p). reflects w p) (zip (customer_workloads s') (compute_placements s')) (filter customer_job (compute_jobs s'))"
    unfolding cust tabs zip_map_map list_all2_map1 list_all2_map2 by (rule list_all2_mono) auto
  then show ?thesis
    using m exclusive_released[of _ k] book unfolding mirror_def cs tabs by (simp add: js list_all_iff)
qed

text \<open>A change of the reservations that keeps those a job has used.\<close>

lemma mirror_reservations:
  assumes m: "mirror s" and jobs: "compute_jobs s' = compute_jobs s" "customer_workloads s' = customer_workloads s"
      "compute_placements s' = compute_placements s"
    and rows: "\<forall>v \<in> set (marketplace_reservations s). rv_status v \<in> {''consumed'', ''released''} \<longrightarrow> v \<in> set (marketplace_reservations s')"
  shows "mirror s'"
proof -
  have "booked (marketplace_reservations s') j" if "booked (marketplace_reservations s) j" for j
    using that rows unfolding booked_def by (smt (verit) insert_iff)
  with m show ?thesis unfolding mirror_def jobs list_all_iff by blast
qed

lemma consumes_others:
  assumes "consumes reservation rows rows'" "booked rows j"
  shows "booked rows' j"
  unfolding booked_def
proof (intro allI impI)
  fix rid assume "jr_reservation_id j = Some rid"
  with assms(2) obtain v where v: "v \<in> set rows" "rv_reservation_id v = rid"
    "rv_status v = (if is_terminal_status (job_status j) then ''released'' else ''consumed'')"
    unfolding booked_def by blast
  then have "rv_status v \<noteq> ''reserved''" by simp
  then have "v \<in> set rows'" using assms(1) v(1) unfolding consumes_def
    by (auto split: option.split_asm simp: in_sql_update_iff intro!: bexI[of _ v])
  with v show "\<exists>v \<in> set rows'. rv_reservation_id v = rid \<and> rv_status v = (if is_terminal_status (job_status j) then ''released'' else ''consumed'')"
    by blast
qed

lemma consumes_booked:
  assumes "consumes (jr_reservation_id j) rows rows'" "\<not> is_terminal_status (job_status j)"
  shows "booked rows' j"
proof (cases "jr_reservation_id j")
  case None
  then show ?thesis by (simp add: booked_def)
next
  case (Some rid)
  with assms(1) obtain P now where p: "sql_count P rows = 1" "\<forall>v. P v \<longrightarrow> rv_reservation_id v = rid \<and> rv_status v = ''reserved''"
    and r: "rows' = sql_update P (\<lambda>v. v\<lparr>rv_status := ''consumed'', rv_updated_at := now\<rparr>) rows"
    by (auto simp: consumes_def)
  from p(1) obtain v where v: "v \<in> set rows" "P v" using sql_count_one[of P rows] by auto
  then have "v\<lparr>rv_status := ''consumed'', rv_updated_at := now\<rparr> \<in> set rows'" unfolding r in_sql_update_iff by auto
  then show ?thesis using p(2) v(2) assms(2) Some unfolding booked_def by (intro allI impI bexI) auto
qed

lemma mirror_places:
  assumes m: "mirror s"
    and new: "customer_workloads s' = customer_workloads s @ [w]" "compute_placements s' = compute_placements s @ [p]"
      "compute_jobs s' = compute_jobs s @ [j]"
    and row: "linked w p j" "wl_status w = ''placed''" "pl_status p = ''selected''" "job_status j = ''queued''"
    and fresh: "\<forall>x \<in> set (compute_placements s). \<not> placement_clash p x" "\<forall>x \<in> set (compute_jobs s). \<not> placed_job_clash j x"
    and rows: "consumes (jr_reservation_id j) (marketplace_reservations s) (marketplace_reservations s')"
  shows "mirror s'"
proof -
  have live: "\<not> is_terminal_status (job_status j)" using row(4) by (simp add: not_terminal)
  have cust: "customer_job j" using row(1) by (simp add: linked_def customer_job_def)
  have sym: "placed_job_clash x j \<Longrightarrow> placed_job_clash j x" for x unfolding placed_job_clash_def same_some_def by metis
  have wb: "well_bound (map job_contract (compute_jobs s'))"
    using m fresh(2) cust sym unfolding mirror_def well_bound_def new by (auto simp: contract_same)
  have refl: "reflects w p j" using row live by (simp add: reflects_def)
  have excl: "exclusive_supply (compute_placements s')"
    using m fresh(1) row(3) unfolding mirror_def exclusive_supply_def new by (auto simp: sorted_wrt_append placement_clash_def)
  show ?thesis
    using m wb refl excl cust consumes_others[OF rows] consumes_booked[OF rows live]
    unfolding mirror_def new list_all_iff by (simp add: zip_append list_all2_appendI)
qed

section \<open>The handlers\<close>

locale mirrored_handler =
  fixes handler :: "db \<Rightarrow> db \<Rightarrow> bool"
  assumes quiet_or_ends: "lease_authority s \<Longrightarrow> handler s s' \<Longrightarrow> quiet s s' \<or> ends_job s s'"
begin

lemma keeps_mirror: "lease_authority s \<Longrightarrow> mirror s \<Longrightarrow> handler s s' \<Longrightarrow> mirror s'"
  using quiet_or_ends mirror_quiet mirror_ends unfolding lease_authority_def by blast

end

lemma quietI:
  assumes "jobs_evolve live_step s s'" "market_tables s' = market_tables s"
  shows "quiet s s'"
  unfolding quiet_def using assms by (intro conjI exI[of _ "compute_jobs s'"] exI[of _ "[]"]) auto

lemma quiet_refl: "quiet s s"
  by (rule quietI) (auto intro!: jobs_evolve_refl)

text \<open>An insertion into the audit log or of a usage entry is no change of the market.\<close>

lemma audit_market_tables [simp]:
  "market_tables (insert_audit_event a b c d e f s) = market_tables s"
  "market_tables (insert_customer_audit_event org project actor aid ev et eid s) = market_tables s"
  by (simp_all add: market_tables_def insert_audit_event_def insert_customer_audit_event_def)

interpretation creating_job: mirrored_handler "\<lambda>s s'. \<exists>uuid c now out. create_job_idempotently X uuid c now s = Inr (s', out)" for X
proof
  fix s s' assume "\<exists>uuid c now out. create_job_idempotently X uuid c now s = Inr (s', out)"
  then obtain uuid c now out where "create_job_idempotently X uuid c now s = Inr (s', out)" by blast
  then have "quiet s s'"
  proof (cases rule: create_job_idempotentlyE)
    case (created row ikr)
    have "compute_jobs s' = compute_jobs s @ [row]" "unplaced row" "market_tables s' = market_tables s"
      using created(2,5) by (auto simp: new_job_row_def unplaced_def market_tables_def insert_audit_event_def)
    then show ?thesis unfolding quiet_def
      by (intro conjI exI[of _ "compute_jobs s"] exI[of _ "[row]"]) (auto intro!: list.rel_refl_strong job_evolves_refl)
  qed (simp_all add: quiet_refl)
  then show "quiet s s' \<or> ends_job s s'" ..
qed

text \<open>The scheduler.\<close>

interpretation offers_market: sched_invariant X H E run "\<lambda>st. market_tables (ss_db st) = T \<and> compute_jobs (ss_db st) = js \<and> distinct (map job_id js)"
  for X H E run T js
proof
  fix st c st' b
  assume I: "market_tables (ss_db st) = T \<and> compute_jobs (ss_db st) = js \<and> distinct (map job_id js)"
    and e: "evaluate_candidate X H E run c st = Inr (st', b)"
  show "market_tables (ss_db st') = T \<and> compute_jobs (ss_db st') = js \<and> distinct (map job_id js)"
    using e I by (elim evaluate_candidateE) (auto simp: market_tables_def insert_audit_event_def skip_candidate_def)
qed simp

lemma run_scheduler_market:
  assumes "lease_authority s" "run_scheduler X H E rid request policy now s = Inr (s', r)"
  shows "market_tables s' = market_tables s"
proof -
  let ?s1 = "fst (expire_stale_offers X (to_rfc3339 X now) s)"
  obtain st where st: "schedule_loop X H E (scheduler_run_of X rid request policy now) (initial_sched_state ?s1) = Inr st"
    "s' = mark_evaluated (to_rfc3339 X now) (ss_evaluated st) (ss_db st)"
    using assms(2) by (rule run_scheduler_Inr)
  have "distinct (map job_id (compute_jobs ?s1))"
    using assms(1) by (simp add: expire_stale_offers_keys lease_authority_def)
  then have "market_tables (ss_db st) = market_tables ?s1"
    using offers_market.loop_invariant[OF st(1), of "market_tables ?s1" "compute_jobs ?s1"] by (simp add: initial_sched_state_def)
  then show ?thesis using st(2) by (simp add: market_tables_def mark_evaluated_def expire_stale_offers_def Let_def)
qed

interpretation scheduling_jobs: mirrored_handler
  "\<lambda>s s'. \<exists>E rid request policy now r. run_scheduler X H E rid request policy now s = Inr (s', r)" for X H
  by unfold_locales (blast intro: quietI run_scheduler_frame(1) run_scheduler_market)

text \<open>Assignment and acceptance.\<close>

lemma withhold_assignment_market:
  "withhold_assignment rid auth lid jid failure codes now s = Inr s' \<Longrightarrow> market_tables s' = market_tables s"
  unfolding withhold_assignment_def Let_def by (auto simp: market_tables_def insert_audit_event_def split: if_split_asm)

lemma assign_job_market:
  assumes "assign_job X rid auth token now lid queued s = Inr (s', r)"
  shows "market_tables s' = market_tables s"
  using assms by (rule assign_jobE) (simp add: assign_db_def market_tables_def insert_audit_event_def)

lemma next_job_loop_market:
  "next_job_loop X H rid auth policy token now ls s = Inr (s', r) \<Longrightarrow> market_tables s' = market_tables s"
proof (induction ls arbitrary: s)
  case (Cons l ls)
  then show ?case
    by (auto elim!: bind_resE split: if_splits dest!: withhold_assignment_market assign_job_market)
qed auto

interpretation offering_jobs: mirrored_handler
  "\<lambda>s s'. \<exists>locked rid auth policy token now r. next_job_for_session X H locked rid auth policy token now s = Inr (s', r)" for X H
proof
  fix s s' assume "\<exists>locked rid auth policy token now r. next_job_for_session X H locked rid auth policy token now s = Inr (s', r)"
  then obtain locked rid auth policy token now r where n: "next_job_for_session X H locked rid auth policy token now s = Inr (s', r)" by blast
  have "market_tables s' = market_tables s"
    using n by (auto simp: next_job_for_session_def elim!: bind_resE dest!: next_job_loop_market)
  then show "quiet s s' \<or> ends_job s s'" using next_job_frame[OF n] by (blast intro: quietI)
qed

lemma accept_job_market: "market_tables (fst (accept_job X H rid auth jid request policy now s)) = market_tables s"
proof -
  have w: "market_tables (fst (withhold_and_refuse (withhold_acceptance rid auth job lease f cs t s) s)) = market_tables s" for job lease f cs t
    unfolding withhold_and_refuse_def withhold_acceptance_def Let_def
    by (auto simp: market_tables_def insert_audit_event_def elim!: bind_resE split: sum.split if_split_asm)
  have a: "market_tables (fst (commit (accept_assigned X rid auth request t job lease s) s)) = market_tables s" for job lease t
    unfolding accept_assigned_def Let_def commit_state
    by (auto simp: market_tables_def insert_audit_event_def elim!: bind_resE split: sum.split if_split_asm)
  show ?thesis using w a unfolding accept_job_def Let_def by (simp split: option.split sum.split prod.split)
qed

interpretation accepting_jobs: mirrored_handler
  "\<lambda>s s'. \<exists>rid auth jid accept policy now. s' = fst (accept_job X H rid auth jid accept policy now s)" for X H
proof
  fix s s' assume "\<exists>rid auth jid accept policy now. s' = fst (accept_job X H rid auth jid accept policy now s)"
  then show "quiet s s' \<or> ends_job s s'" using accept_job_frame accept_job_market quietI by blast
qed

text \<open>Events and uploads.\<close>

interpretation recording_events: mirrored_handler
  "\<lambda>s s'. \<exists>uuid auth jid event now e r. record_job_event X uuid auth jid event now s = Inr (s', e, r)" for X
proof
  fix s s' assume a: "lease_authority s" and "\<exists>uuid auth jid event now e r. record_job_event X uuid auth jid event now s = Inr (s', e, r)"
  then obtain uuid auth jid event now e r where r: "record_job_event X uuid auth jid event now s = Inr (s', e, r)" by blast
  then have "market_tables s' = market_tables s" by (rule record_job_eventE) (simp add: market_tables_def)
  then show "quiet s s' \<or> ends_job s s'" using record_job_event_frame(1)[OF a r] by (blast intro: quietI)
qed

interpretation uploading_artifacts: mirrored_handler
  "\<lambda>s s'. \<exists>jid aid credential sha size_bytes ct now a. record_job_artifact_upload X jid aid credential sha size_bytes ct now s = Inr (s', a)" for X
proof
  fix s s'
  assume "\<exists>jid aid credential sha size_bytes ct now a. record_job_artifact_upload X jid aid credential sha size_bytes ct now s = Inr (s', a)"
  then have "compute_jobs s' = compute_jobs s" "market_tables s' = market_tables s"
    unfolding record_job_artifact_upload_def by (auto simp: market_tables_def elim!: bind_resE split: if_split_asm)
  then show "quiet s s' \<or> ends_job s s'" by (auto intro!: quietI jobs_evolve_refl)
qed

interpretation finalizing_usage: mirrored_handler
  "\<lambda>s s'. \<exists>uuid rid jid now e dup. finalize_job_usage X U uuid rid jid now s = Inr (s', e, dup)" for X U
proof
  fix s s' assume "\<exists>uuid rid jid now e dup. finalize_job_usage X U uuid rid jid now s = Inr (s', e, dup)"
  then have "compute_jobs s' = compute_jobs s" "market_tables s' = market_tables s"
    unfolding finalize_job_usage_def by (auto simp: market_tables_def insert_audit_event_def elim!: bind_resE append_usageE)
  then show "quiet s s' \<or> ends_job s s'" by (auto intro!: quietI jobs_evolve_refl)
qed

text \<open>The end of a job.\<close>

lemma release_market_cong:
  assumes "compute_jobs t = compute_jobs s" "market_tables t = market_tables s"
  shows "market_tables (release_customer_placement jid now t) = market_tables (release_customer_placement jid now s)"
  using assms by (auto simp: release_customer_placement_def market_tables_def split: option.split)

lemma append_usage_market:
  assumes "append_usage_ledger_for_job X U uuid rid jid now s = Inr (s', e, dup)"
  shows "market_tables s' = market_tables s"
  using assms by (rule append_usageE) (simp add: market_tables_def insert_audit_event_def)

lemma finish_job_ends:
  assumes f: "finish_job X U uuid rid (job_id job) now f status failure (insert_audit_event rid actor aid entity eid event) s = Inr (s', r)"
    and job: "job \<in> set (compute_jobs s)" "\<not> is_terminal_status (job_status job)" "is_terminal_status (job_status (f job))"
    and c: "\<And>j. job_contract (f j) = job_contract j"
  shows "ends_job s s'"
proof -
  let ?js = "sql_update (\<lambda>j. job_id j = job_id job) f (compute_jobs s)"
  let ?s1 = "release_customer_placement (job_id job) now (s\<lparr>compute_jobs := ?js\<rparr>)"
  from f obtain s3 e dup where a: "append_usage_ledger_for_job X U uuid rid (job_id job) now
      (?s1\<lparr>job_leases := mark_lease_terminal_for_job (job_id job) status failure now (job_leases ?s1)\<rparr>) = Inr (s3, e, dup)"
    and s': "s' = insert_audit_event rid actor aid entity eid event s3"
    unfolding finish_job_def Let_def by (auto elim!: bind_resE)
  have js: "compute_jobs s' = ?js" using append_usage_frame[OF a] by (simp add: s' insert_audit_event_def)
  have "market_tables s' = market_tables ?s1" using append_usage_market[OF a] by (simp add: s' market_tables_def insert_audit_event_def)
  with js job c show ?thesis unfolding ends_job_def by (intro exI[of _ job] exI[of _ f] exI[of _ now]) simp
qed

lemma terminal_statuses: "is_terminal_status ''succeeded''" "is_terminal_status ''failed''" "is_terminal_status ''cancelled''"
  by (simp_all add: is_terminal_status_def)

interpretation submitting_results: mirrored_handler
  "\<lambda>s s'. \<exists>uuid rid auth jid request now r. submit_job_result X U uuid rid auth jid request now s = Inr (s', r)" for X U
proof
  fix s s' assume "\<exists>uuid rid auth jid request now r. submit_job_result X U uuid rid auth jid request now s = Inr (s', r)"
  then obtain uuid rid auth jid request now r where "submit_job_result X U uuid rid auth jid request now s = Inr (s', r)" by blast
  then have "ends_job s s'"
  proof (rule submit_job_resultE)
    fix job metrics
    assume job: "job \<in> set (compute_jobs s)" "job_id job = jid" "executing_status (job_status job)" "rr_status request \<in> {''succeeded'', ''failed''}"
      and f: "finish_job X U uuid rid jid (to_rfc3339 X now) (finish_result request metrics (to_rfc3339 X now))
       (rr_status request) (rr_error_message request)
       (insert_audit_event rid ''device'' (Some (as_device_id auth)) ''compute_job'' jid
         (if rr_status request = ''succeeded'' then ''job.succeeded'' else ''job.failed'')) s = Inr (s', r)"
    have "job_status (finish_result request metrics (to_rfc3339 X now) job) = rr_status request" by (simp add: finish_result_def)
    then have "is_terminal_status (job_status (finish_result request metrics (to_rfc3339 X now) job))"
      using job(4) terminal_statuses by auto
    then show ?thesis by (rule finish_job_ends[OF f[folded job(2)] job(1) not_terminal(3)[OF job(3)] _ contract_frame(4)])
  qed
  then show "quiet s s' \<or> ends_job s s'" ..
qed

interpretation cancelling_jobs: mirrored_handler
  "\<lambda>s s'. \<exists>uuid rid jid request now r. cancel_job X U uuid rid jid request now s = Inr (s', r)" for X U
proof
  fix s s' assume "\<exists>uuid rid jid request now r. cancel_job X U uuid rid jid request now s = Inr (s', r)"
  then obtain uuid rid jid request now r where "cancel_job X U uuid rid jid request now s = Inr (s', r)" by blast
  then show "quiet s s' \<or> ends_job s s'"
  proof (rule cancel_jobE)
    fix job
    assume job: "job \<in> set (compute_jobs s)" "job_id job = jid" "\<not> is_terminal_status (job_status job)"
      and f: "finish_job X U uuid rid jid (to_rfc3339 X now) (finish_cancelled request (to_rfc3339 X now)) ''cancelled''
       (or_else (xr_reason request) (Some ''job_cancelled''))
       (insert_audit_event rid ''admin'' None ''compute_job'' jid ''job.cancelled'') s = Inr (s', r)"
    have "is_terminal_status (job_status (finish_cancelled request (to_rfc3339 X now) job))"
      by (simp only: finish_cancelled_status terminal_statuses)
    then show ?thesis using finish_job_ends[OF f[folded job(2)] job(1,3) _ contract_frame(5)] by blast
  qed
qed

lemma cancel_owned_ends:
  assumes inv: "lease_authority s" and c: "cancel_owned_job X U uuid rid auth project wid rt jid now s = Inr (s', r)"
  shows "ends_job s s'"
  using inv c
proof (rule cancel_owned_jobE)
  fix j s2
  assume j: "j \<in> set (compute_jobs s)" "job_id j = jid" "\<not> is_terminal_status (job_status j)"
    and s2: "compute_jobs s2 = sql_update (\<lambda>j. job_id j = jid) (finish_cancelled \<lparr>xr_reason = rt\<rparr> now) (compute_jobs s)"
    and js: "compute_jobs s' = compute_jobs s2"
  let ?f = "finish_cancelled \<lparr>xr_reason = rt\<rparr> now"
  let ?s1 = "s\<lparr>job_leases := mark_lease_terminal_for_job jid ''cancelled'' (or_else rt (Some ''customer_cancelled'')) now (job_leases s)\<rparr>"
  let ?u = "?s1\<lparr>compute_jobs := sql_update (cancel_open jid) ?f (compute_jobs ?s1)\<rparr>"
  from c obtain s3 e dup where a: "append_usage_ledger_for_job X U uuid rid jid now (release_customer_placement jid now ?u) = Inr (s3, e, dup)"
    and s': "s' = insert_customer_audit_event (ak_organization_id auth) (Some project) ''customer_api_key''
      (Some (ak_api_key_id auth)) ''customer_workload.cancelled'' ''customer_workload'' wid s3"
    unfolding cancel_owned_job_def Let_def by (auto elim!: bind_resE split: if_split_asm)
  have u: "compute_jobs s' = compute_jobs ?u" using append_usage_frame[OF a] by (simp add: s' insert_customer_audit_event_def)
  have "market_tables s' = market_tables (release_customer_placement jid now ?u)"
    using append_usage_market[OF a] by (simp add: s' market_tables_def insert_customer_audit_event_def)
  also have "\<dots> = market_tables (release_customer_placement jid now (s\<lparr>compute_jobs := compute_jobs s'\<rparr>))"
    by (rule release_market_cong) (simp_all add: u market_tables_def)
  finally show ?thesis
    using j s2 js contract_frame(5) terminal_statuses(3) unfolding ends_job_def
    by (intro exI[of _ j] exI[of _ ?f] exI[of _ now]) (simp add: finish_cancelled_status)
qed

interpretation customer_cancelling_jobs: mirrored_handler
  "\<lambda>s s'. \<exists>uuid rid auth project wid request now r. cancel_customer_job X U uuid rid auth project wid request now s = Inr (s', r)" for X U
proof
  fix s s' assume inv: "lease_authority s"
    and "\<exists>uuid rid auth project wid request now r. cancel_customer_job X U uuid rid auth project wid request now s = Inr (s', r)"
  then obtain uuid rid auth project wid request now r
    where "cancel_customer_job X U uuid rid auth project wid request now s = Inr (s', r)" by blast
  then show "quiet s s' \<or> ends_job s s'"
    by (cases rule: cancel_customer_jobE) (use quiet_refl cancel_owned_ends[OF inv] in blast)+
qed

end
