(* ===== verification/Customer_Account.thy ===== *)
theory Customer_Account
  imports Market
begin

text \<open>
  Customer accounts, the first half of \<^verbatim>\<open>burd-control-plane/src/customer.rs\<close>: users, organisations,
  projects with their quotas, and the API keys customers authenticate with. The token of a new key, its
  random source, generated identifiers and the instant of a transaction are arguments; the database holds
  only the hash of a token.
\<close>

section \<open>Constants and requests\<close>

definition CUSTOMER_ORGANIZATION_SCHEMA_VERSION :: string where
  "CUSTOMER_ORGANIZATION_SCHEMA_VERSION = ''burd-customer-organization-v1''"
definition CUSTOMER_PROJECT_SCHEMA_VERSION :: string where
  "CUSTOMER_PROJECT_SCHEMA_VERSION = ''burd-customer-project-v1''"
definition CUSTOMER_API_KEY_SCHEMA_VERSION :: string where
  "CUSTOMER_API_KEY_SCHEMA_VERSION = ''burd-customer-api-key-v1''"

definition DEFAULT_MAX_ACTIVE_RESERVATIONS :: u32 where "DEFAULT_MAX_ACTIVE_RESERVATIONS = 2"
definition DEFAULT_MAX_RESERVED_GPU_SECONDS :: u64 where "DEFAULT_MAX_RESERVED_GPU_SECONDS = 28800"
definition DEFAULT_MAX_RESERVATION_TTL_SECONDS :: u32 where "DEFAULT_MAX_RESERVATION_TTL_SECONDS = 3600"
definition MAX_RESERVATION_TTL_SECONDS :: u32 where "MAX_RESERVATION_TTL_SECONDS = 86400"

definition ALLOWED_CUSTOMER_SCOPES :: "string list" where
  "ALLOWED_CUSTOMER_SCOPES = [''artifacts:read'', ''artifacts:write'', ''billing:read'', ''billing:write'',
     ''reservations:read'', ''reservations:write'', ''usage:read'', ''workloads:read'', ''workloads:write'']"

definition DEFAULT_CUSTOMER_SCOPES :: "string list" where
  "DEFAULT_CUSTOMER_SCOPES = [''artifacts:read'', ''artifacts:write'', ''billing:read'', ''billing:write'',
     ''reservations:read'', ''reservations:write'', ''usage:read'', ''workloads:read'', ''workloads:write'']"

record CreateCustomerUserRequest =
  uq_email :: "string option"
  uq_status :: "string option"

record CreateOrganizationRequest =
  gq_display_name :: string
  gq_owner_user_id :: "string option"

record CreateProjectRequest =
  jq_display_name :: string

record UpsertProjectQuotaRequest =
  qq_max_active_reservations :: u32
  qq_max_reserved_gpu_seconds :: u64
  qq_max_reservation_ttl_seconds :: u32

record CreateCustomerApiKeyRequest =
  kq_scopes :: "string list"
  kq_expires_at :: "string option"

record CreateCustomerApiKeyResponse =
  kp_request_id :: string
  kp_api_key :: CustomerApiKeyRecord
  kp_token :: string

section \<open>Validation\<close>

definition validate_email :: "string \<Rightarrow> unit res" where
  "validate_email email =
     ensure (is_bounded_ascii email 254 \<and> CHR ''@'' \<in> set email \<and> CHR '' '' \<notin> set email \<and> \<not> sublist ''..'' email)
       (Invalid ''email must be a short printable ASCII address'')"

definition validate_display_name :: "string \<Rightarrow> string \<Rightarrow> unit res" where
  "validate_display_name label value =
     ensure (is_bounded_ascii value 120) (Invalid (label @ '' must be short printable ASCII''))"

definition validate_customer_user_request :: "CreateCustomerUserRequest \<Rightarrow> unit res" where
  "validate_customer_user_request r =
     bind_res (case uq_email r of None \<Rightarrow> Inr () | Some email \<Rightarrow> validate_email email) (\<lambda>_.
     ensure (case uq_status r of None \<Rightarrow> True | Some status \<Rightarrow> status \<in> {''active'', ''disabled''})
       (Invalid ''customer user status must be active or disabled''))"

definition validate_organization_request :: "CreateOrganizationRequest \<Rightarrow> unit res" where
  "validate_organization_request r =
     bind_res (validate_display_name ''organization display_name'' (gq_display_name r)) (\<lambda>_.
     case gq_owner_user_id r of None \<Rightarrow> Inr () | Some owner \<Rightarrow> validate_id ''owner_user_id'' owner 128)"

definition validate_project_request :: "CreateProjectRequest \<Rightarrow> unit res" where
  "validate_project_request r = validate_display_name ''project display_name'' (jq_display_name r)"

definition validate_quota_request :: "UpsertProjectQuotaRequest \<Rightarrow> unit res" where
  "validate_quota_request r =
     bind_res (ensure (\<not> (qq_max_active_reservations r = 0 \<or> qq_max_active_reservations r > 100))
       (Invalid ''max_active_reservations must be between 1 and 100'')) (\<lambda>_.
     bind_res (ensure (qq_max_reserved_gpu_seconds r \<noteq> 0)
       (Invalid ''max_reserved_gpu_seconds must be greater than zero'')) (\<lambda>_.
     ensure (\<not> (qq_max_reservation_ttl_seconds r = 0 \<or> qq_max_reservation_ttl_seconds r > MAX_RESERVATION_TTL_SECONDS))
       (Invalid ''max_reservation_ttl_seconds is outside allowed range'')))"

text \<open>The message of the parser, which the code appends, is not modelled.\<close>

definition customer_timestamp :: "externs \<Rightarrow> string \<Rightarrow> string \<Rightarrow> int res" where
  "customer_timestamp X label value = ok_or (parse_from_rfc3339 X value) (Invalid (''invalid '' @ label))"

definition validate_future_timestamp :: "externs \<Rightarrow> string \<Rightarrow> string \<Rightarrow> int \<Rightarrow> unit res" where
  "validate_future_timestamp X label value now =
     bind_res (customer_timestamp X label value) (\<lambda>t.
     ensure (now < t) (Invalid (label @ '' must be in the future'')))"

definition normalized_scopes :: "string list \<Rightarrow> string list res" where
  "normalized_scopes scopes =
     (let normalized = (if scopes = [] then DEFAULT_CUSTOMER_SCOPES else scopes) in
      bind_res (try_each (\<lambda>scope.
          bind_res (validate_id ''scope'' scope 64) (\<lambda>_.
          ensure (scope \<in> set ALLOWED_CUSTOMER_SCOPES) (Invalid ''customer API key scope is not supported''))) normalized) (\<lambda>_.
      Inr (remdups_adj (sort normalized))))"

section \<open>Rows\<close>

definition require_user_exists :: "string \<Rightarrow> market \<Rightarrow> unit res" where
  "require_user_exists user m =
     bind_res (validate_id ''user_id'' user 128) (\<lambda>_.
     ensure (list_ex (\<lambda>u. us_user_id u = user) (mk_users m)) (NotFound ''user not found''))"

definition require_active_organization :: "string \<Rightarrow> market \<Rightarrow> unit res" where
  "require_active_organization org m =
     bind_res (ok_or (find (\<lambda>g. og_organization_id g = org) (bl_organizations (mk_billing m)))
       (NotFound ''organization not found'')) (\<lambda>g.
     ensure (og_status g = ''active'') (Conflict ''organization is not active''))"

definition project_with_organization :: "string \<Rightarrow> market \<Rightarrow> (project_row \<times> organization_row) option" where
  "project_with_organization project m =
     find (\<lambda>(p, g). pj_project_id p = project \<and> og_organization_id g = pj_organization_id p)
       (List.product (bl_projects (mk_billing m)) (bl_organizations (mk_billing m)))"

definition require_active_project :: "string \<Rightarrow> market \<Rightarrow> string res" where
  "require_active_project project m =
     bind_res (ok_or (project_with_organization project m) (NotFound ''project not found'')) (\<lambda>(p, g).
     if pj_status p = ''active'' \<and> og_status g = ''active'' then Inr (pj_organization_id p)
     else Inl (Conflict ''project or organization is not active''))"

definition audit_market ::
  "string \<Rightarrow> string option \<Rightarrow> string \<Rightarrow> string option \<Rightarrow> string \<Rightarrow> string \<Rightarrow> string \<Rightarrow> market \<Rightarrow> market" where
  "audit_market org project actor_type actor_id event_type entity_type entity_id =
     with_core (insert_customer_audit_event org project actor_type actor_id event_type entity_type entity_id)"

section \<open>Operations\<close>

definition create_customer_user ::
  "externs \<Rightarrow> string \<Rightarrow> string \<Rightarrow> CreateCustomerUserRequest \<Rightarrow> int \<Rightarrow> market \<Rightarrow> (market \<times> CustomerUserRecord) res" where
  "create_customer_user X uuid request_id r now m =
     bind_res (validate_customer_user_request r) (\<lambda>_.
     let user = \<lparr>us_user_id = ''user_'' @ uuid, us_email = uq_email r,
                 us_status = (case uq_status r of None \<Rightarrow> ''active'' | Some status \<Rightarrow> status),
                 us_created_at = to_rfc3339 X now, us_updated_at = to_rfc3339 X now\<rparr> in
     bind_res (insert_unique (\<lambda>u old. us_user_id old = us_user_id u \<or> us_email u \<noteq> None \<and> us_email old = us_email u)
       user (mk_users m)) (\<lambda>users.
     Inr (with_core (insert_audit_event request_id ''admin'' None ''user'' (us_user_id user) ''customer_user.created'')
            (m\<lparr>mk_users := users\<rparr>), user)))"

definition create_organization ::
  "externs \<Rightarrow> string \<Rightarrow> string \<Rightarrow> CreateOrganizationRequest \<Rightarrow> int \<Rightarrow> market \<Rightarrow>
     (market \<times> organization_row \<times> OrganizationMembershipRecord option) res" where
  "create_organization X uuid request_id r now m =
     bind_res (validate_organization_request r) (\<lambda>_.
     bind_res (case gq_owner_user_id r of None \<Rightarrow> Inr () | Some owner \<Rightarrow> require_user_exists owner m) (\<lambda>_.
     let now_text = to_rfc3339 X now;
         org = \<lparr>og_organization_id = ''org_'' @ uuid, og_schema_version = CUSTOMER_ORGANIZATION_SCHEMA_VERSION,
           og_display_name = gq_display_name r, og_status = ''active'', og_created_at = now_text, og_updated_at = now_text\<rparr>;
         membership = map_option (\<lambda>owner. \<lparr>om_organization_id = og_organization_id org, om_user_id = owner, om_role = ''owner'',
           om_status = ''active'', om_created_at = now_text, om_updated_at = now_text\<rparr>) (gq_owner_user_id r) in
     bind_res (insert_unique (\<lambda>g old. og_organization_id old = og_organization_id g) org
       (bl_organizations (mk_billing m))) (\<lambda>orgs.
     bind_res (case membership of None \<Rightarrow> Inr (mk_memberships m)
       | Some x \<Rightarrow> insert_unique (\<lambda>x old. om_organization_id old = om_organization_id x \<and> om_user_id old = om_user_id x) x
           (mk_memberships m)) (\<lambda>rows.
     let m1 = m\<lparr>mk_billing := (mk_billing m)\<lparr>bl_organizations := orgs\<rparr>, mk_memberships := rows\<rparr> in
     Inr (with_core (insert_audit_event request_id ''admin'' None ''organization'' (og_organization_id org) ''organization.created'')
            (audit_market (og_organization_id org) None ''admin'' None ''organization.created'' ''organization'' (og_organization_id org) m1),
          org, membership)))))"

definition get_organization :: "string \<Rightarrow> market \<Rightarrow> organization_row res" where
  "get_organization org m =
     bind_res (validate_id ''organization_id'' org 128) (\<lambda>_.
     ok_or (find (\<lambda>g. og_organization_id g = org) (bl_organizations (mk_billing m))) (NotFound ''organization not found''))"

definition create_project ::
  "externs \<Rightarrow> string \<Rightarrow> string \<Rightarrow> CreateProjectRequest \<Rightarrow> int \<Rightarrow> market \<Rightarrow> (market \<times> project_row) res" where
  "create_project X uuid org r now m =
     bind_res (validate_id ''organization_id'' org 128) (\<lambda>_.
     bind_res (validate_project_request r) (\<lambda>_.
     bind_res (require_active_organization org m) (\<lambda>_.
     let now_text = to_rfc3339 X now;
         project = \<lparr>pj_project_id = ''project_'' @ uuid, pj_organization_id = org, pj_schema_version = CUSTOMER_PROJECT_SCHEMA_VERSION,
           pj_display_name = jq_display_name r, pj_status = ''active'', pj_created_at = now_text, pj_updated_at = now_text\<rparr>;
         quota = \<lparr>qt_project_id = pj_project_id project, qt_max_active_reservations = DEFAULT_MAX_ACTIVE_RESERVATIONS,
           qt_max_reserved_gpu_seconds = DEFAULT_MAX_RESERVED_GPU_SECONDS,
           qt_max_reservation_ttl_seconds = DEFAULT_MAX_RESERVATION_TTL_SECONDS, qt_updated_at = now_text\<rparr> in
     bind_res (insert_unique (\<lambda>p old. pj_project_id old = pj_project_id p) project (bl_projects (mk_billing m))) (\<lambda>projects.
     bind_res (insert_unique (\<lambda>q old. qt_project_id old = qt_project_id q) quota (mk_quotas m)) (\<lambda>quotas.
     Inr (audit_market org (Some (pj_project_id project)) ''admin'' None ''project.created'' ''project'' (pj_project_id project)
            (m\<lparr>mk_billing := (mk_billing m)\<lparr>bl_projects := projects\<rparr>, mk_quotas := quotas\<rparr>), project))))))"

text \<open>\<open>INSERT ... ON CONFLICT (project_id) DO UPDATE\<close>.\<close>

definition upsert_quota :: "quota_row \<Rightarrow> quota_row list \<Rightarrow> quota_row list" where
  "upsert_quota q rows =
     (if list_ex (\<lambda>o'. qt_project_id o' = qt_project_id q) rows
      then sql_update (\<lambda>o'. qt_project_id o' = qt_project_id q) (\<lambda>_. q) rows else rows @ [q])"

definition upsert_project_quota ::
  "externs \<Rightarrow> string \<Rightarrow> UpsertProjectQuotaRequest \<Rightarrow> int \<Rightarrow> market \<Rightarrow> (market \<times> quota_row) res" where
  "upsert_project_quota X project r now m =
     bind_res (validate_id ''project_id'' project 128) (\<lambda>_.
     bind_res (validate_quota_request r) (\<lambda>_.
     bind_res (require_active_project project m) (\<lambda>org.
     bind_res (ensure (uint (qq_max_reserved_gpu_seconds r) \<le> i64_max) (Invalid ''quantity exceeds i64'')) (\<lambda>_.
     let quota = \<lparr>qt_project_id = project, qt_max_active_reservations = qq_max_active_reservations r,
           qt_max_reserved_gpu_seconds = qq_max_reserved_gpu_seconds r,
           qt_max_reservation_ttl_seconds = qq_max_reservation_ttl_seconds r, qt_updated_at = to_rfc3339 X now\<rparr>;
         m1 = m\<lparr>mk_quotas := upsert_quota quota (mk_quotas m)\<rparr> in
     bind_res (load_one (\<lambda>q. qt_project_id q = project) (mk_quotas m1)) (\<lambda>stored.
     Inr (audit_market org (Some project) ''admin'' None ''project_quota.updated'' ''project_quota'' project m1, stored))))))"

definition new_api_key_row ::
  "externs \<Rightarrow> string \<Rightarrow> string \<Rightarrow> string \<Rightarrow> string list \<Rightarrow> CreateCustomerApiKeyRequest \<Rightarrow> string \<Rightarrow> string \<Rightarrow> api_key_row" where
  "new_api_key_row X uuid org project scopes r token now =
     \<lparr>kk_api_key_id = ''cak_'' @ uuid, kk_organization_id = org, kk_project_id = Some project,
      kk_schema_version = CUSTOMER_API_KEY_SCHEMA_VERSION, kk_key_prefix = take 24 token, kk_status = ''active'',
      kk_scopes = scopes, kk_created_at = now, kk_last_used_at = None, kk_expires_at = kq_expires_at r,
      kk_revoked_at = None, kk_key_hash = sha256_hex X token\<rparr>"

definition api_key_from_row :: "api_key_row \<Rightarrow> CustomerApiKeyRecord" where
  "api_key_from_row k = CustomerApiKeyRecord.truncate k"

definition create_customer_api_key ::
  "externs \<Rightarrow> string \<Rightarrow> string res \<Rightarrow> string \<Rightarrow> string \<Rightarrow> CreateCustomerApiKeyRequest \<Rightarrow> int \<Rightarrow> market \<Rightarrow>
     (market \<times> CreateCustomerApiKeyResponse) res" where
  "create_customer_api_key X uuid random_token request_id project r now m =
     bind_res (validate_id ''project_id'' project 128) (\<lambda>_.
     bind_res (normalized_scopes (kq_scopes r)) (\<lambda>scopes.
     bind_res (case kq_expires_at r of None \<Rightarrow> Inr () | Some t \<Rightarrow> validate_future_timestamp X ''expires_at'' t now) (\<lambda>_.
     bind_res (require_active_project project m) (\<lambda>org.
     bind_res random_token (\<lambda>token.
     let row = new_api_key_row X uuid org project scopes r token (to_rfc3339 X now) in
     bind_res (insert_unique (\<lambda>k old. kk_api_key_id old = kk_api_key_id k \<or> kk_key_hash old = kk_key_hash k) row
       (mk_api_keys m)) (\<lambda>keys.
     bind_res (load_one (\<lambda>k. kk_api_key_id k = kk_api_key_id row) keys) (\<lambda>k.
     Inr (audit_market org (Some project) ''admin'' None ''customer_api_key.created'' ''customer_api_key'' (kk_api_key_id row)
            (m\<lparr>mk_api_keys := keys\<rparr>),
          \<lparr>kp_request_id = request_id, kp_api_key = api_key_from_row k, kp_token = token\<rparr>))))))))"

definition key_with_organization :: "externs \<Rightarrow> string \<Rightarrow> market \<Rightarrow> (api_key_row \<times> organization_row) option" where
  "key_with_organization X token m =
     find (\<lambda>(k, g). kk_key_hash k = sha256_hex X token \<and> og_organization_id g = kk_organization_id k)
       (List.product (mk_api_keys m) (bl_organizations (mk_billing m)))"

definition bound_project :: "api_key_row \<Rightarrow> market \<Rightarrow> project_row option" where
  "bound_project k m = find (\<lambda>p. kk_project_id k = Some (pj_project_id p)) (bl_projects (mk_billing m))"

definition authorize_customer_api_key ::
  "externs \<Rightarrow> string \<Rightarrow> string option \<Rightarrow> int \<Rightarrow> market \<Rightarrow> (market \<times> CustomerApiKeyAuth) res" where
  "authorize_customer_api_key X token project now m =
     bind_res (ok_or (key_with_organization X token m) Unauthorized) (\<lambda>(k, g).
     bind_res (ensure (\<not> (kk_status k \<noteq> ''active'' \<or> og_status g \<noteq> ''active'')) Unauthorized) (\<lambda>_.
     bind_res (ensure (case bound_project k m of None \<Rightarrow> True | Some p \<Rightarrow> pj_status p = ''active'') Unauthorized) (\<lambda>_.
     bind_res (case kk_expires_at k of None \<Rightarrow> Inr ()
         | Some t \<Rightarrow> bind_res (customer_timestamp X ''expires_at'' t) (\<lambda>e. ensure (\<not> e \<le> now) Expired)) (\<lambda>_.
     bind_res (case project of None \<Rightarrow> Inr ()
         | Some pid \<Rightarrow>
             bind_res (validate_id ''project_id'' pid 128) (\<lambda>_.
             bind_res (ensure (case kk_project_id k of None \<Rightarrow> True | Some b \<Rightarrow> b = pid) Unauthorized) (\<lambda>_.
             bind_res (require_active_project pid m) (\<lambda>org.
             ensure (org = kk_organization_id k) Unauthorized)))) (\<lambda>_.
     Inr (m\<lparr>mk_api_keys := sql_update (\<lambda>o'. kk_api_key_id o' = kk_api_key_id k)
              (\<lambda>o'. o'\<lparr>kk_last_used_at := Some (to_rfc3339 X now)\<rparr>) (mk_api_keys m)\<rparr>,
          \<lparr>ak_api_key_id = kk_api_key_id k, ak_organization_id = kk_organization_id k,
           ak_project_id = kk_project_id k, ak_scopes = kk_scopes k\<rparr>))))))"

section \<open>Lemmas\<close>

lemma product_snoc: "List.product (xs @ [y]) zs = List.product xs zs @ map (Pair y) zs"
  by (induction xs) simp_all

lemma find_pair: "find (\<lambda>(a, b). P a \<and> Q a b) (map (Pair y) zs) = (if P y then map_option (Pair y) (find (Q y) zs) else None)"
  by (induction zs) auto

lemma find_unique:
  assumes "distinct (map f xs)" "x \<in> set xs"
  shows "find (\<lambda>y. f y = f x) xs = Some x"
  using assms by (induction xs) force+

lemma project_with_organization_Some:
  assumes "project_with_organization project m = Some (p, g)"
  shows "p \<in> set (bl_projects (mk_billing m))" "g \<in> set (bl_organizations (mk_billing m))" "pj_project_id p = project"
    "og_organization_id g = pj_organization_id p"
  using assms find_SomeD[of _ "List.product (bl_projects (mk_billing m)) (bl_organizations (mk_billing m))" "(p, g)"]
  by (auto simp: project_with_organization_def)

lemma require_active_projectE:
  assumes "require_active_project project m = Inr org"
  obtains p g where "p \<in> set (bl_projects (mk_billing m))" "g \<in> set (bl_organizations (mk_billing m))" "pj_project_id p = project"
    "pj_organization_id p = org" "og_organization_id g = org" "pj_status p = ''active''" "og_status g = ''active''"
proof -
  from assms obtain p g where pg: "project_with_organization project m = Some (p, g)"
    "pj_status p = ''active'' \<and> og_status g = ''active''" "pj_organization_id p = org"
    unfolding require_active_project_def by (auto elim!: bind_resE split: if_split_asm)
  show ?thesis using that[of p g] project_with_organization_Some[OF pg(1)] pg(2,3) by simp
qed

lemma account_frames [simp]:
  "bl_projects (mk_billing (audit_market a b c d e f g m)) = bl_projects (mk_billing m)"
  "bl_organizations (mk_billing (audit_market a b c d e f g m)) = bl_organizations (mk_billing m)"
  "mk_api_keys (audit_market a b c d e f g m) = mk_api_keys m"
  by (simp_all add: audit_market_def with_core_def)

lemma require_active_project_cong:
  "bl_projects (mk_billing m') = bl_projects (mk_billing m) \<Longrightarrow> bl_organizations (mk_billing m') = bl_organizations (mk_billing m) \<Longrightarrow>
   require_active_project project m' = require_active_project project m"
  by (simp add: require_active_project_def project_with_organization_def)

lemma strict_sorted_remdups_adj: "sorted xs \<Longrightarrow> sorted_wrt (<) (remdups_adj xs)"
  by (induction xs rule: remdups_adj.induct) (auto simp: order_less_le)

lemma normalized_scopes_ok:
  assumes "normalized_scopes scopes = Inr normalized"
  shows "sorted_wrt (<) normalized" "set normalized = set (if scopes = [] then DEFAULT_CUSTOMER_SCOPES else scopes)"
    "set normalized \<subseteq> set ALLOWED_CUSTOMER_SCOPES"
proof -
  from assms have n: "normalized = remdups_adj (sort (if scopes = [] then DEFAULT_CUSTOMER_SCOPES else scopes))"
    and a: "\<forall>s \<in> set (if scopes = [] then DEFAULT_CUSTOMER_SCOPES else scopes). s \<in> set ALLOWED_CUSTOMER_SCOPES"
    unfolding normalized_scopes_def Let_def by (auto simp: bind_res_eq_Inr split: if_split_asm)
  show "sorted_wrt (<) normalized"
    unfolding n by (intro strict_sorted_remdups_adj) simp
  show s: "set normalized = set (if scopes = [] then DEFAULT_CUSTOMER_SCOPES else scopes)" by (simp add: n)
  show "set normalized \<subseteq> set ALLOWED_CUSTOMER_SCOPES" using a unfolding s by blast
qed

lemma create_customer_api_keyE:
  assumes "create_customer_api_key X uuid (Inr token) rid project r now m = Inr (m', resp)"
  obtains scopes org row where "validate_id ''project_id'' project 128 = Inr ()" "normalized_scopes (kq_scopes r) = Inr scopes"
    "\<forall>t. kq_expires_at r = Some t \<longrightarrow> (\<exists>e. parse_from_rfc3339 X t = Some e)"
    "require_active_project project m = Inr org" "row = new_api_key_row X uuid org project scopes r token (to_rfc3339 X now)"
    "\<forall>k \<in> set (mk_api_keys m). kk_api_key_id k \<noteq> kk_api_key_id row \<and> kk_key_hash k \<noteq> kk_key_hash row"
    "mk_api_keys m' = mk_api_keys m @ [row]" "bl_projects (mk_billing m') = bl_projects (mk_billing m)"
    "bl_organizations (mk_billing m') = bl_organizations (mk_billing m)"
    "resp = \<lparr>kp_request_id = rid, kp_api_key = api_key_from_row row, kp_token = token\<rparr>"
proof -
  from assms obtain scopes org keys k where v: "validate_id ''project_id'' project 128 = Inr ()" "normalized_scopes (kq_scopes r) = Inr scopes"
    and x: "(case kq_expires_at r of None \<Rightarrow> Inr () | Some t \<Rightarrow> validate_future_timestamp X ''expires_at'' t now) = Inr ()"
    and org: "require_active_project project m = Inr org"
    and ins: "insert_unique (\<lambda>k old. kk_api_key_id old = kk_api_key_id k \<or> kk_key_hash old = kk_key_hash k)
        (new_api_key_row X uuid org project scopes r token (to_rfc3339 X now)) (mk_api_keys m) = Inr keys"
    and k: "load_one (\<lambda>k. kk_api_key_id k = kk_api_key_id (new_api_key_row X uuid org project scopes r token (to_rfc3339 X now))) keys = Inr k"
    and m': "m' = audit_market org (Some project) ''admin'' None ''customer_api_key.created'' ''customer_api_key''
        (kk_api_key_id (new_api_key_row X uuid org project scopes r token (to_rfc3339 X now))) (m\<lparr>mk_api_keys := keys\<rparr>)"
      "resp = \<lparr>kp_request_id = rid, kp_api_key = api_key_from_row k, kp_token = token\<rparr>"
    unfolding create_customer_api_key_def Let_def by (auto elim!: bind_resE)
  let ?row = "new_api_key_row X uuid org project scopes r token (to_rfc3339 X now)"
  have fresh: "\<forall>k \<in> set (mk_api_keys m). kk_api_key_id k \<noteq> kk_api_key_id ?row \<and> kk_key_hash k \<noteq> kk_key_hash ?row"
    and keys: "keys = mk_api_keys m @ [?row]"
    using ins by (auto simp: insert_unique_def list_ex_iff split: if_split_asm)
  then have "find (\<lambda>k. kk_api_key_id k = kk_api_key_id ?row) (mk_api_keys m) = None" by (auto simp: find_None_iff)
  then have "k = ?row" using k by (simp add: load_one_def keys find_append_None)
  then show ?thesis using that[OF v _ org refl fresh] x m' keys
    by (auto simp: validate_future_timestamp_def customer_timestamp_def split: option.split_asm elim!: bind_resE)
qed

section \<open>Properties\<close>

text \<open>
  The token of a new API key authorises exactly its project: until the key expires, authorising with it
  for the project succeeds with the project's active organisation and with the requested scopes, deduplicated,
  sorted and among the supported ones, or with the default ones; for every other project it is refused.
\<close>

theorem api_key_round_trip:
  assumes c: "create_customer_api_key X uuid (Inr token) rid project r now m = Inr (m', resp)"
    and ids: "distinct (map pj_project_id (bl_projects (mk_billing m)))" "distinct (map og_organization_id (bl_organizations (mk_billing m)))"
    and valid: "\<forall>t e. kq_expires_at r = Some t \<longrightarrow> parse_from_rfc3339 X t = Some e \<longrightarrow> later < e"
  shows "\<exists>auth m'' org. authorize_customer_api_key X (kp_token resp) (Some project) later m' = Inr (m'', auth) \<and>
    require_active_project project m = Inr org \<and>
    auth = \<lparr>ak_api_key_id = kk_api_key_id (kp_api_key resp), ak_organization_id = org, ak_project_id = Some project,
             ak_scopes = kk_scopes (kp_api_key resp)\<rparr> \<and>
    sorted_wrt (<) (ak_scopes auth) \<and> set (ak_scopes auth) \<subseteq> set ALLOWED_CUSTOMER_SCOPES \<and>
    set (ak_scopes auth) = set (if kq_scopes r = [] then DEFAULT_CUSTOMER_SCOPES else kq_scopes r) \<and>
    (\<forall>other. other \<noteq> project \<longrightarrow> (\<exists>e. authorize_customer_api_key X (kp_token resp) (Some other) later m' = Inl e))"
  using c
proof (rule create_customer_api_keyE)
  fix scopes org row
  assume v: "validate_id ''project_id'' project 128 = Inr ()" "normalized_scopes (kq_scopes r) = Inr scopes"
    and t: "\<forall>t. kq_expires_at r = Some t \<longrightarrow> (\<exists>e. parse_from_rfc3339 X t = Some e)"
    and org: "require_active_project project m = Inr org"
    and row: "row = new_api_key_row X uuid org project scopes r token (to_rfc3339 X now)"
    and fresh: "\<forall>k \<in> set (mk_api_keys m). kk_api_key_id k \<noteq> kk_api_key_id row \<and> kk_key_hash k \<noteq> kk_key_hash row"
    and m': "mk_api_keys m' = mk_api_keys m @ [row]" "bl_projects (mk_billing m') = bl_projects (mk_billing m)"
      "bl_organizations (mk_billing m') = bl_organizations (mk_billing m)"
    and resp: "resp = \<lparr>kp_request_id = rid, kp_api_key = api_key_from_row row, kp_token = token\<rparr>"
  from org obtain p g where p: "p \<in> set (bl_projects (mk_billing m))" "pj_project_id p = project" "pj_status p = ''active''"
    and g: "g \<in> set (bl_organizations (mk_billing m))" "og_organization_id g = org" "og_status g = ''active''"
    by (rule require_active_projectE)
  have rowf: "kk_key_hash row = sha256_hex X token" "kk_organization_id row = org" "kk_project_id row = Some project"
    "kk_status row = ''active''" "kk_scopes row = scopes" "kk_expires_at row = kq_expires_at r"
    by (simp_all add: row new_api_key_row_def)
  have "find (\<lambda>(k, g). kk_key_hash k = sha256_hex X token \<and> og_organization_id g = kk_organization_id k)
      (List.product (mk_api_keys m) (bl_organizations (mk_billing m))) = None"
    using fresh rowf(1) by (auto simp: find_None_iff)
  then have key: "key_with_organization X token m' = Some (row, g)"
    using find_unique[OF ids(2) g(1)] unfolding g(2)
    by (simp add: key_with_organization_def m' product_snoc find_append_None find_pair rowf)
  have bp: "bound_project row m' = Some p"
    using find_unique[OF ids(1) p(1)] unfolding p(2) by (simp add: bound_project_def m' rowf eq_commute)
  have exp: "(case kq_expires_at r of None \<Rightarrow> Inr ()
         | Some t \<Rightarrow> bind_res (customer_timestamp X ''expires_at'' t) (\<lambda>e. ensure (\<not> e \<le> later) Expired)) = Inr ()"
    using t valid by (auto simp: customer_timestamp_def split: option.split)
  have act: "require_active_project project m' = Inr org" using org require_active_project_cong[OF m'(2,3)] by simp
  have ok: "\<exists>m''. authorize_customer_api_key X token (Some project) later m' = Inr (m'',
      \<lparr>ak_api_key_id = kk_api_key_id row, ak_organization_id = org, ak_project_id = Some project, ak_scopes = scopes\<rparr>)"
    unfolding authorize_customer_api_key_def by (simp add: key bp exp act v(1) rowf g p)
  have other: "\<exists>e. authorize_customer_api_key X token (Some q) later m' = Inl e" if "q \<noteq> project" for q
    using that unfolding authorize_customer_api_key_def
    by (simp add: key bp exp rowf g p) (simp add: validate_id_def ensure_def)
  have rec: "kp_token resp = token" "kk_api_key_id (kp_api_key resp) = kk_api_key_id row" "kk_scopes (kp_api_key resp) = scopes"
    by (simp_all add: resp api_key_from_row_def CustomerApiKeyRecord.defs rowf)
  show ?thesis
    unfolding rec using ok other org normalized_scopes_ok[OF v(2)] by (elim exE) (intro exI conjI, assumption+, simp_all)
qed

definition example_api_key :: "(market \<times> CreateCustomerApiKeyResponse) res" where
  "example_api_key = create_customer_api_key example_externs ''u'' (Inr ''token'') ''r'' ''pr1''
     \<lparr>kq_scopes = [], kq_expires_at = Some ''+11111''\<rparr> 5 example_market"

lemma example_api_key_ok: "case example_api_key of Inr _ \<Rightarrow> True | Inl _ \<Rightarrow> False"
  by code_simp

theorem api_key_round_trip_witness:
  "\<exists>m' resp m'' auth. example_api_key = Inr (m', resp) \<and>
     authorize_customer_api_key example_externs (kp_token resp) (Some ''pr1'') 8 m' = Inr (m'', auth) \<and> ak_project_id auth = Some ''pr1''"
proof -
  obtain m' resp where r: "example_api_key = Inr (m', resp)" using example_api_key_ok by (auto split: sum.split_asm)
  have d: "distinct (map pj_project_id (bl_projects (mk_billing example_market)))"
    "distinct (map og_organization_id (bl_organizations (mk_billing example_market)))"
    by (simp_all add: example_market_def)
  have e: "parse_from_rfc3339 example_externs ''+11111'' = Some 31" by code_simp
  then have v: "\<forall>t e. kq_expires_at \<lparr>kq_scopes = [], kq_expires_at = Some ''+11111''\<rparr> = Some t \<longrightarrow>
      parse_from_rfc3339 example_externs t = Some e \<longrightarrow> 8 < e"
    by auto
  from api_key_round_trip[OF r[unfolded example_api_key_def] d v] obtain auth m''
    where "authorize_customer_api_key example_externs (kp_token resp) (Some ''pr1'') 8 m' = Inr (m'', auth)" "ak_project_id auth = Some ''pr1''"
    by (metis CustomerApiKeyAuth.select_convs(3))
  with r show ?thesis by blast
qed

end
