(* ===== verification/Reservation.thy ===== *)
theory Reservation
  imports Customer_Account
begin

text \<open>
  Marketplace reservations and customer credits, the second half of
  \<^verbatim>\<open>burd-control-plane/src/customer.rs\<close>: a project reserves a listing at a frozen price within its quota,
  the reservation is cancelled, expires, or is consumed by a workload, and every hold and release leaves an
  entry in the append-only credit ledger. Every operation first expires what is stale. The identifiers an
  operation generates are a sequence \<open>uuids\<close> and one instant stands for its calls of the clock.
\<close>

section \<open>Requests\<close>

definition MARKETPLACE_RESERVATION_SCHEMA_VERSION :: string where
  "MARKETPLACE_RESERVATION_SCHEMA_VERSION = ''burd-marketplace-reservation-v2''"
definition CUSTOMER_CREDIT_LEDGER_SCHEMA_VERSION :: string where
  "CUSTOMER_CREDIT_LEDGER_SCHEMA_VERSION = ''burd-customer-credit-ledger-v1''"
definition PRICING_SNAPSHOT_SCHEMA_VERSION :: string where
  "PRICING_SNAPSHOT_SCHEMA_VERSION = ''burd-pricing-snapshot-v1''"
definition MARKETPLACE_FEE_POLICY_VERSION :: string where
  "MARKETPLACE_FEE_POLICY_VERSION = ''burd-marketplace-fee-v1''"
definition DEFAULT_PLATFORM_FEE_BPS :: u32 where "DEFAULT_PLATFORM_FEE_BPS = 1500"
definition DEFAULT_CHARGEBACK_RESERVE_BPS :: u32 where "DEFAULT_CHARGEBACK_RESERVE_BPS = 500"
definition MAX_RESERVATION_LIST_LIMIT :: nat where "MAX_RESERVATION_LIST_LIMIT = 200"

record CreateReservationRequest =
  vq_listing_id :: string
  vq_duration_seconds :: u32
  vq_starts_at :: "string option"
  vq_workload_type :: "string option"

record CreateReservationCommand =
  vc_request_id :: string
  vc_scope :: string
  vc_idempotency_key :: string
  vc_request_hash :: string
  vc_auth :: CustomerApiKeyAuth
  vc_project_id :: string
  vc_request :: CreateReservationRequest

type_synonym CreateReservationOutcome = "MarketplaceReservationResponse keyed_outcome"

record CancelReservationRequest =
  vx_reason :: "string option"

record GrantCustomerCreditsRequest =
  eq_amount_credits :: int
  eq_reason :: string

record GrantCustomerCreditsCommand =
  ec_request_id :: string
  ec_scope :: string
  ec_idempotency_key :: string
  ec_request_hash :: string
  ec_project_id :: string
  ec_request :: GrantCustomerCreditsRequest

type_synonym GrantCustomerCreditsOutcome = "CustomerCreditLedgerResponse keyed_outcome"

record CustomerUsageSummary =
  cu_project_id :: string
  cu_active_reservations :: nat
  cu_reserved_gpu_seconds :: int
  cu_total_reservations :: nat
  cu_cancelled_reservations :: nat
  cu_expired_reservations :: nat
  cu_credit_balance :: int

definition validate_credit_request :: "GrantCustomerCreditsRequest \<Rightarrow> unit res" where
  "validate_credit_request r =
     bind_res (ensure (eq_amount_credits r \<noteq> 0) (Invalid ''amount_credits must be non-zero'')) (\<lambda>_.
     ensure (is_bounded_ascii (eq_reason r) 256) (Invalid ''credit reason must be printable ASCII''))"

definition validate_reservation_request :: "externs \<Rightarrow> CreateReservationRequest \<Rightarrow> unit res" where
  "validate_reservation_request X r =
     bind_res (validate_id ''listing_id'' (vq_listing_id r) 160) (\<lambda>_.
     bind_res (ensure (\<not> (vq_duration_seconds r = 0 \<or> vq_duration_seconds r > MAX_RESERVATION_TTL_SECONDS))
       (Invalid ''reservation duration_seconds is outside allowed range'')) (\<lambda>_.
     bind_res (case vq_starts_at r of None \<Rightarrow> Inr 0 | Some t \<Rightarrow> customer_timestamp X ''starts_at'' t) (\<lambda>_.
     case vq_workload_type r of None \<Rightarrow> Inr () | Some w \<Rightarrow> validate_id ''workload_type'' w 96)))"

definition reservation_start_time :: "externs \<Rightarrow> string option \<Rightarrow> int \<Rightarrow> int res" where
  "reservation_start_time X starts_at now =
     (case starts_at of
        None \<Rightarrow> Inr now
      | Some t \<Rightarrow>
          bind_res (customer_timestamp X ''starts_at'' t) (\<lambda>parsed.
          bind_res (ensure (\<not> parsed + 30 * nanos_per_second < now)
            (Invalid ''reservation starts_at cannot be in the past'')) (\<lambda>_. Inr parsed)))"

section \<open>Credits\<close>

definition credit_clash :: "CustomerCreditLedgerEntry \<Rightarrow> CustomerCreditLedgerEntry \<Rightarrow> bool" where
  "credit_clash e old \<longleftrightarrow> ce_credit_entry_id old = ce_credit_entry_id e \<or>
     ce_reservation_id e \<noteq> None \<and> ce_entry_type e \<in> {''reservation_hold'', ''reservation_release''} \<and>
     ce_reservation_id old = ce_reservation_id e \<and> ce_entry_type old = ce_entry_type e"

definition append_customer_credit_ledger_entry ::
  "externs \<Rightarrow> string \<Rightarrow> string \<Rightarrow> string \<Rightarrow> string \<Rightarrow> int \<Rightarrow> string option \<Rightarrow> string \<Rightarrow> int \<Rightarrow> market \<Rightarrow>
     (market \<times> CustomerCreditLedgerEntry) res" where
  "append_customer_credit_ledger_entry X uuid org project entry_type amount reservation why now m =
     bind_res (validate_id ''entry_type'' entry_type 64) (\<lambda>_.
     bind_res (ensure (is_bounded_ascii why 256) (Invalid ''credit ledger reason must be printable ASCII'')) (\<lambda>_.
     let e = \<lparr>ce_credit_entry_id = ''credit_'' @ uuid, ce_organization_id = org, ce_project_id = project,
           ce_schema_version = CUSTOMER_CREDIT_LEDGER_SCHEMA_VERSION, ce_entry_type = entry_type, ce_amount_credits = amount,
           ce_reservation_id = reservation, ce_reason = why, ce_created_at = to_rfc3339 X now\<rparr> in
     bind_res (insert_unique credit_clash e (mk_credits m)) (\<lambda>credits.
     Inr (m\<lparr>mk_credits := credits\<rparr>, e))))"

definition grant_credits ::
  "externs \<Rightarrow> string \<Rightarrow> string \<Rightarrow> GrantCustomerCreditsCommand \<Rightarrow> int \<Rightarrow> market \<Rightarrow> (market \<times> CustomerCreditLedgerResponse) res" where
  "grant_credits X uuid org c now m =
     bind_res (append_customer_credit_ledger_entry X uuid org (ec_project_id c)
       (if eq_amount_credits (ec_request c) \<ge> 0 then ''credit_grant'' else ''credit_adjustment'')
       (eq_amount_credits (ec_request c)) None (eq_reason (ec_request c)) now m) (\<lambda>(m1, e).
     Inr (with_core (insert_audit_event (ec_request_id c) ''admin'' None ''customer_credit_ledger_entry''
              (ce_credit_entry_id e) ''customer_credits.granted'')
            (audit_market org (Some (ec_project_id c)) ''admin'' None ''customer_credits.granted'' ''customer_credit_ledger_entry''
              (ce_credit_entry_id e) m1),
          \<lparr>cl_request_id = ec_request_id c, cl_entry = e\<rparr>))"

definition grant_customer_credits_idempotently ::
  "externs \<Rightarrow> string \<Rightarrow> GrantCustomerCreditsCommand \<Rightarrow> int \<Rightarrow> market \<Rightarrow> (market \<times> GrantCustomerCreditsOutcome) res" where
  "grant_customer_credits_idempotently X uuid c now m =
     bind_res (validate_id ''project_id'' (ec_project_id c) 128) (\<lambda>_.
     bind_res (validate_credit_request (ec_request c)) (\<lambda>_.
     bind_res (require_active_project (ec_project_id c) m) (\<lambda>org.
     idempotently mk_credit_keys (\<lambda>ks m. m\<lparr>mk_credit_keys := ks\<rparr>) (ec_scope c) (ec_idempotency_key c) (ec_request_hash c)
       (grant_credits X uuid org c now) m)))"

section \<open>Holds on listings\<close>

definition released_listing_status :: "string \<Rightarrow> string option \<Rightarrow> string" where
  "released_listing_status listing_status session_status =
     (if listing_status = ''blocked'' then ''blocked''
      else if session_status = Some ''online'' \<and> listing_status \<in> {''published'', ''limited''} then ''available''
      else if session_status = Some ''degraded'' \<and> listing_status \<in> {''published'', ''limited''} then ''degraded''
      else if session_status \<in> {Some ''online'', Some ''degraded''} then listing_status
      else ''offline'')"

definition reserved_on :: "string \<Rightarrow> reservation_row \<Rightarrow> bool" where
  "reserved_on listing v \<longleftrightarrow> rv_listing_id v = listing \<and> rv_status v = ''reserved''"

definition update_listings :: "(listing_row list \<Rightarrow> listing_row list) \<Rightarrow> market \<Rightarrow> market" where
  "update_listings f m = m\<lparr>mk_billing := (mk_billing m)\<lparr>bl_listings := f (bl_listings (mk_billing m))\<rparr>\<rparr>"

definition release_listing_reservation_hold :: "string \<Rightarrow> string \<Rightarrow> market \<Rightarrow> market" where
  "release_listing_reservation_hold listing now m =
     (case find (\<lambda>l. li_listing_id l = listing) (bl_listings (mk_billing m)) of
        None \<Rightarrow> m
      | Some l \<Rightarrow>
          let session_status = map_option ps_status (find (\<lambda>ps. li_session_id l = Some (ps_session_id ps)) (provider_sessions (core m))) in
          if sql_count (reserved_on listing) (marketplace_reservations (core m)) > 0 then m
          else update_listings (sql_update (\<lambda>x. li_listing_id x = listing \<and> li_current_status x = ''reserved'')
                 (\<lambda>x. x\<lparr>li_current_status := released_listing_status (li_status l) session_status, li_updated_at := now\<rparr>)) m)"

section \<open>Expiry\<close>

definition stale_reservation :: "externs \<Rightarrow> string \<Rightarrow> reservation_row \<Rightarrow> bool" where
  "stale_reservation X now v \<longleftrightarrow> rv_status v = ''reserved'' \<and> sql_le X (rv_expires_at v) now"

text \<open>The loop over the rows the \<open>UPDATE\<close> returned.\<close>

fun append_releases ::
  "externs \<Rightarrow> (nat \<Rightarrow> string) \<Rightarrow> nat \<Rightarrow> int \<Rightarrow> reservation_row list \<Rightarrow> market \<Rightarrow> market res" where
  "append_releases X uuids k now [] m = Inr m"
| "append_releases X uuids k now (v # vs) m =
     bind_res (append_customer_credit_ledger_entry X (uuids k) (rv_organization_id v) (rv_project_id v) ''reservation_release'' 0
       (Some (rv_reservation_id v)) ''reservation hold expired without credit settlement in BN-17'' now m) (\<lambda>(m1, _).
     append_releases X uuids (Suc k) now vs m1)"

text \<open>Keeps the first occurrence of every element.\<close>

definition dedup_first :: "'a list \<Rightarrow> 'a list" where
  "dedup_first xs = rev (remdups (rev xs))"

definition expire_stale_reservations ::
  "externs \<Rightarrow> (nat \<Rightarrow> string) \<Rightarrow> int \<Rightarrow> market \<Rightarrow> (market \<times> nat) res" where
  "expire_stale_reservations X uuids now m =
     (let now_text = to_rfc3339 X now;
          stale = filter (stale_reservation X now_text) (marketplace_reservations (core m));
          m1 = with_core (\<lambda>s. s\<lparr>marketplace_reservations := sql_update (stale_reservation X now_text)
                 (\<lambda>v. v\<lparr>rv_status := ''expired'', rv_updated_at := now_text\<rparr>) (marketplace_reservations s)\<rparr>) m in
      bind_res (append_releases X uuids 0 now stale m1) (\<lambda>m2.
      Inr (fold (\<lambda>l. release_listing_reservation_hold l now_text) (dedup_first (map rv_listing_id stale)) m2, length stale)))"

section \<open>Access and quota\<close>

record reservation_access =
  ra_organization_id :: string
  ra_project_id :: string
  ra_max_active_reservations :: u32
  ra_max_reserved_gpu_seconds :: u64
  ra_max_reservation_ttl_seconds :: u32

definition reservation_project_access :: "CustomerApiKeyAuth \<Rightarrow> string \<Rightarrow> market \<Rightarrow> reservation_access res" where
  "reservation_project_access auth project m =
     bind_res (assert_project_binding auth project) (\<lambda>_.
     bind_res (ok_or (find (\<lambda>((p, g), q). pj_project_id p = project \<and> og_organization_id g = pj_organization_id p
           \<and> qt_project_id q = pj_project_id p)
         (List.product (List.product (bl_projects (mk_billing m)) (bl_organizations (mk_billing m))) (mk_quotas m)))
       (NotFound ''project not found'')) (\<lambda>((p, g), q).
     bind_res (ensure (pj_organization_id p = ak_organization_id auth) Unauthorized) (\<lambda>_.
     bind_res (ensure (\<not> (pj_status p \<noteq> ''active'' \<or> og_status g \<noteq> ''active''))
       (Conflict ''project or organization is not active'')) (\<lambda>_.
     Inr \<lparr>ra_organization_id = pj_organization_id p, ra_project_id = pj_project_id p,
          ra_max_active_reservations = qt_max_active_reservations q,
          ra_max_reserved_gpu_seconds = qt_max_reserved_gpu_seconds q,
          ra_max_reservation_ttl_seconds = qt_max_reservation_ttl_seconds q\<rparr>))))"

definition holding :: "externs \<Rightarrow> string \<Rightarrow> string \<Rightarrow> reservation_row \<Rightarrow> bool" where
  "holding X project now v \<longleftrightarrow> rv_project_id v = project \<and> rv_status v = ''reserved'' \<and> sql_less X now (rv_expires_at v)"

definition held_seconds :: "(reservation_row \<Rightarrow> bool) \<Rightarrow> reservation_row list \<Rightarrow> int" where
  "held_seconds P rows = sum_list (map (\<lambda>v. uint (rv_reserved_gpu_seconds v)) (filter P rows))"

definition assert_project_quota :: "externs \<Rightarrow> reservation_access \<Rightarrow> u32 \<Rightarrow> string \<Rightarrow> market \<Rightarrow> unit res" where
  "assert_project_quota X access duration now m =
     bind_res (ensure (\<not> duration > ra_max_reservation_ttl_seconds access)
       (Conflict ''reservation duration exceeds project TTL quota'')) (\<lambda>_.
     let P = holding X (ra_project_id access) now; rows = marketplace_reservations (core m) in
     bind_res (cast_bigint (held_seconds P rows)) (\<lambda>seconds.
     bind_res (ensure (int (sql_count P rows) < 2 ^ 32) (Database ''customer count overflow'')) (\<lambda>_.
     bind_res (ensure (0 \<le> seconds) (Database ''negative customer quantity'')) (\<lambda>_.
     bind_res (ensure (\<not> int (sql_count P rows) \<ge> uint (ra_max_active_reservations access))
       (Conflict ''project active reservation quota exceeded'')) (\<lambda>_.
     ensure (\<not> saturating_add (word_of_int seconds) (ucast duration) > ra_max_reserved_gpu_seconds access)
       (Conflict ''project reserved GPU-second quota exceeded''))))))"

section \<open>Reserving\<close>

definition load_listing_for_reservation :: "string \<Rightarrow> market \<Rightarrow> listing_row res" where
  "load_listing_for_reservation listing m =
     bind_res (validate_id ''listing_id'' listing 160) (\<lambda>_.
     ok_or (find (\<lambda>l. li_listing_id l = listing) (bl_listings (mk_billing m))) (NotFound ''marketplace listing not found''))"

definition load_active_price_for_reservation :: "externs \<Rightarrow> string \<Rightarrow> market \<Rightarrow> MarketplacePriceRecord res" where
  "load_active_price_for_reservation X listing m =
     ok_or (latest_by (\<lambda>p. collation_key X (mp_updated_at p))
         (filter (\<lambda>p. mp_listing_id p = listing \<and> mp_status p = ''active'') (bl_prices (mk_billing m))))
       (Conflict ''listing has no active billing price'')"

definition assert_listing_reservable :: "listing_row \<Rightarrow> unit res" where
  "assert_listing_reservable l =
     bind_res (ensure (li_status l \<in> {''published'', ''limited''})
       (Conflict ''marketplace listing is not published for reservation'')) (\<lambda>_.
     ensure (li_current_status l \<in> {''available'', ''degraded''})
       (Conflict ''marketplace listing is not currently reservable''))"

definition new_snapshot :: "string \<Rightarrow> MarketplacePriceRecord \<Rightarrow> string \<Rightarrow> string \<Rightarrow> PricingSnapshotRecord" where
  "new_snapshot nid price listing now =
     \<lparr>pn_pricing_snapshot_id = nid, pn_source_price_id = mp_price_id price, pn_listing_id = listing,
      pn_schema_version = PRICING_SNAPSHOT_SCHEMA_VERSION, pn_currency = mp_currency price,
      pn_pricing_model = mp_pricing_model price, pn_price_per_hour_micros = mp_price_per_hour_micros price,
      pn_platform_fee_bps = DEFAULT_PLATFORM_FEE_BPS, pn_chargeback_reserve_bps = DEFAULT_CHARGEBACK_RESERVE_BPS,
      pn_fee_policy_version = MARKETPLACE_FEE_POLICY_VERSION, pn_created_at = now\<rparr>"

text \<open>The constraints \<open>CHECK\<close> on a snapshot that are not met by its constants.\<close>

definition insert_snapshot :: "PricingSnapshotRecord \<Rightarrow> PricingSnapshotRecord list \<Rightarrow> PricingSnapshotRecord list res" where
  "insert_snapshot n rows =
     bind_res (ensure (length (pn_currency n) = 3 \<and> list_all is_ascii_uppercase (pn_currency n) \<and> pn_price_per_hour_micros n \<noteq> 0)
       (Database ''new row violates check constraint'')) (\<lambda>_.
     insert_unique (\<lambda>x old. pn_pricing_snapshot_id old = pn_pricing_snapshot_id x) n rows)"

definition reservation_reason_codes :: "string list" where
  "reservation_reason_codes = [''marketplace_listing_backend_published'', ''pricing_snapshot_created'',
     ''customer_project_quota_satisfied'', ''customer_api_key_authorized'']"

definition new_reservation ::
  "externs \<Rightarrow> string \<Rightarrow> reservation_access \<Rightarrow> listing_row \<Rightarrow> string \<Rightarrow> CreateReservationCommand \<Rightarrow> int \<Rightarrow> string \<Rightarrow> reservation_row" where
  "new_reservation X rid access l nid c starts now =
     \<lparr>rv_reservation_id = rid, rv_organization_id = ra_organization_id access, rv_project_id = ra_project_id access,
      rv_listing_id = li_listing_id l, rv_pricing_snapshot_id = Some nid, rv_provider_id = li_provider_id l,
      rv_device_id = li_device_id l, rv_session_id = li_session_id l, rv_schema_version = MARKETPLACE_RESERVATION_SCHEMA_VERSION,
      rv_workload_type = li_workload_type l, rv_gpu_uuid = li_gpu_uuid l, rv_status = ''reserved'',
      rv_idempotency_key = Some (vc_idempotency_key c), rv_request_hash = Some (vc_request_hash c),
      rv_starts_at = to_rfc3339 X starts,
      rv_expires_at = to_rfc3339 X (starts + uint (vq_duration_seconds (vc_request c)) * nanos_per_second), rv_cancelled_at = None,
      rv_reserved_gpu_seconds = ucast (vq_duration_seconds (vc_request c)), rv_reason_codes = reservation_reason_codes,
      rv_created_at = now, rv_updated_at = now\<rparr>"

definition reservation_clash :: "reservation_row \<Rightarrow> reservation_row \<Rightarrow> bool" where
  "reservation_clash v old \<longleftrightarrow> rv_reservation_id old = rv_reservation_id v \<or>
     rv_project_id old = rv_project_id v \<and> rv_idempotency_key v \<noteq> None \<and> rv_idempotency_key old = rv_idempotency_key v \<or>
     rv_status v = ''reserved'' \<and> reserved_on (rv_listing_id v) old \<or>
     rv_pricing_snapshot_id v \<noteq> None \<and> rv_pricing_snapshot_id old = rv_pricing_snapshot_id v"

definition reservation_from_row :: "reservation_row \<Rightarrow> MarketplaceReservationRecord" where
  "reservation_from_row v =
     \<lparr>mr_reservation_id = rv_reservation_id v, mr_organization_id = rv_organization_id v, mr_project_id = rv_project_id v,
      mr_listing_id = rv_listing_id v, mr_pricing_snapshot_id = rv_pricing_snapshot_id v, mr_provider_id = rv_provider_id v,
      mr_device_id = rv_device_id v, mr_session_id = rv_session_id v, mr_schema_version = rv_schema_version v,
      mr_workload_type = rv_workload_type v, mr_gpu_uuid = rv_gpu_uuid v, mr_status = rv_status v, mr_starts_at = rv_starts_at v,
      mr_expires_at = rv_expires_at v, mr_cancelled_at = rv_cancelled_at v, mr_reserved_gpu_seconds = rv_reserved_gpu_seconds v,
      mr_reason_codes = rv_reason_codes v, mr_created_at = rv_created_at v, mr_updated_at = rv_updated_at v\<rparr>"

definition load_reservation :: "string \<Rightarrow> market \<Rightarrow> MarketplaceReservationRecord res" where
  "load_reservation rid m =
     bind_res (ok_or (find (\<lambda>v. rv_reservation_id v = rid) (marketplace_reservations (core m)))
       (NotFound ''reservation not found'')) (\<lambda>v. Inr (reservation_from_row v))"

text \<open>The checks of a reservation, and the writes after them.\<close>

definition check_reservation ::
  "externs \<Rightarrow> CreateReservationCommand \<Rightarrow> int \<Rightarrow> market \<Rightarrow> (reservation_access \<times> listing_row \<times> MarketplacePriceRecord \<times> int) res" where
  "check_reservation X c now m =
     bind_res (reservation_project_access (vc_auth c) (vc_project_id c) m) (\<lambda>access.
     bind_res (load_listing_for_reservation (vq_listing_id (vc_request c)) m) (\<lambda>l.
     bind_res (ensure (case vq_workload_type (vc_request c) of None \<Rightarrow> True | Some w \<Rightarrow> w = li_workload_type l)
       (Conflict ''reservation workload_type does not match listing'')) (\<lambda>_.
     bind_res (assert_listing_reservable l) (\<lambda>_.
     bind_res (ok_or (li_session_id l) (Conflict ''marketplace listing has no active session'')) (\<lambda>session.
     bind_res (assert_current_compute_protocol_negotiation (provider_sessions (core m)) session) (\<lambda>_.
     bind_res (assert_project_quota X access (vq_duration_seconds (vc_request c)) (to_rfc3339 X now) m) (\<lambda>_.
     bind_res (load_active_price_for_reservation X (li_listing_id l) m) (\<lambda>price.
     bind_res (reservation_start_time X (vq_starts_at (vc_request c)) now) (\<lambda>starts.
     Inr (access, l, price, starts))))))))))"

definition write_reservation ::
  "externs \<Rightarrow> (nat \<Rightarrow> string) \<Rightarrow> CreateReservationCommand \<Rightarrow> reservation_access \<Rightarrow> listing_row \<Rightarrow> MarketplacePriceRecord \<Rightarrow>
     int \<Rightarrow> int \<Rightarrow> market \<Rightarrow> (market \<times> MarketplaceReservationResponse) res" where
  "write_reservation X uuids c access l price starts now m =
     (let now_text = to_rfc3339 X now; rid = ''reservation_'' @ uuids 0; nid = ''pricing_snapshot_'' @ uuids 1;
          v = new_reservation X rid access l nid c starts now_text in
      bind_res (ensure (uint (mp_price_per_hour_micros price) \<le> i64_max) (Invalid ''quantity exceeds i64'')) (\<lambda>_.
      bind_res (insert_snapshot (new_snapshot nid price (li_listing_id l) now_text) (bl_snapshots (mk_billing m))) (\<lambda>snapshots.
      bind_res (insert_unique reservation_clash v (marketplace_reservations (core m))) (\<lambda>rows.
      let m1 = update_listings (sql_update (\<lambda>x. li_listing_id x = li_listing_id l)
                 (\<lambda>x. x\<lparr>li_current_status := ''reserved'', li_updated_at := now_text\<rparr>))
                (with_core (\<lambda>s. s\<lparr>marketplace_reservations := rows\<rparr>)
                  (m\<lparr>mk_billing := (mk_billing m)\<lparr>bl_snapshots := snapshots\<rparr>\<rparr>)) in
      bind_res (append_customer_credit_ledger_entry X (uuids 2) (ra_organization_id access) (ra_project_id access)
        ''reservation_hold'' 0 (Some rid) ''reservation hold recorded without credit debit in BN-17'' now m1) (\<lambda>(m2, _).
      bind_res (load_reservation rid m2) (\<lambda>loaded.
      Inr (audit_market (ra_organization_id access) (Some (ra_project_id access)) ''customer_api_key''
             (Some (ak_api_key_id (vc_auth c))) ''marketplace_reservation.created'' ''marketplace_reservation'' rid m2,
           \<lparr>mz_request_id = vc_request_id c, mz_reservation = loaded, mz_duplicate = False\<rparr>)))))))"

definition reserve ::
  "externs \<Rightarrow> (nat \<Rightarrow> string) \<Rightarrow> CreateReservationCommand \<Rightarrow> int \<Rightarrow> market \<Rightarrow> (market \<times> MarketplaceReservationResponse) res" where
  "reserve X uuids c now m =
     bind_res (expire_stale_reservations X (\<lambda>k. uuids (k + 3)) now m) (\<lambda>(m1, _).
     bind_res (check_reservation X c now m1) (\<lambda>(access, l, price, starts).
     write_reservation X uuids c access l price starts now m1))"

definition create_marketplace_reservation_idempotently ::
  "externs \<Rightarrow> (nat \<Rightarrow> string) \<Rightarrow> CreateReservationCommand \<Rightarrow> int \<Rightarrow> market \<Rightarrow> (market \<times> CreateReservationOutcome) res" where
  "create_marketplace_reservation_idempotently X uuids c now m =
     bind_res (require_customer_scope (vc_auth c) ''reservations:write'') (\<lambda>_.
     bind_res (validate_id ''project_id'' (vc_project_id c) 128) (\<lambda>_.
     bind_res (validate_reservation_request X (vc_request c)) (\<lambda>_.
     idempotently mk_reservation_keys (\<lambda>ks m. m\<lparr>mk_reservation_keys := ks\<rparr>) (vc_scope c) (vc_idempotency_key c)
       (vc_request_hash c) (reserve X uuids c now) m)))"

section \<open>Cancelling and reading\<close>

definition cancel_reserved ::
  "externs \<Rightarrow> string \<Rightarrow> CustomerApiKeyAuth \<Rightarrow> MarketplaceReservationRecord \<Rightarrow> int \<Rightarrow> market \<Rightarrow> market res" where
  "cancel_reserved X uuid auth b now m =
     (let now_text = to_rfc3339 X now; rid = mr_reservation_id b;
          m1 = with_core (\<lambda>s. s\<lparr>marketplace_reservations := sql_update (\<lambda>v. rv_reservation_id v = rid \<and> rv_status v = ''reserved'')
                 (\<lambda>v. v\<lparr>rv_status := ''cancelled'', rv_cancelled_at := Some now_text, rv_updated_at := now_text\<rparr>)
                 (marketplace_reservations s)\<rparr>) m in
      bind_res (append_customer_credit_ledger_entry X uuid (mr_organization_id b) (mr_project_id b) ''reservation_release'' 0
        (Some rid) ''reservation hold released without credit settlement in BN-17'' now m1) (\<lambda>(m2, _).
      Inr (audit_market (mr_organization_id b) (Some (mr_project_id b)) ''customer_api_key'' (Some (ak_api_key_id auth))
             ''marketplace_reservation.cancelled'' ''marketplace_reservation'' rid
             (release_listing_reservation_hold (mr_listing_id b) now_text m2))))"

definition cancel_marketplace_reservation ::
  "externs \<Rightarrow> (nat \<Rightarrow> string) \<Rightarrow> string \<Rightarrow> CustomerApiKeyAuth \<Rightarrow> string \<Rightarrow> CancelReservationRequest \<Rightarrow> int \<Rightarrow> market \<Rightarrow>
     (market \<times> MarketplaceReservationResponse) res" where
  "cancel_marketplace_reservation X uuids request_id auth rid r now m =
     bind_res (require_customer_scope auth ''reservations:write'') (\<lambda>_.
     bind_res (validate_id ''reservation_id'' rid 160) (\<lambda>_.
     bind_res (ensure (case vx_reason r of None \<Rightarrow> True | Some why \<Rightarrow> is_bounded_ascii why 256)
       (Invalid ''reservation cancellation reason must be printable ASCII'')) (\<lambda>_.
     bind_res (expire_stale_reservations X (\<lambda>k. uuids (Suc k)) now m) (\<lambda>(m1, _).
     bind_res (load_reservation rid m1) (\<lambda>b.
     bind_res (reservation_project_access auth (mr_project_id b) m1) (\<lambda>_.
     bind_res (ensure (mr_status b \<noteq> ''consumed'') (Conflict ''consumed reservations cannot be cancelled directly'')) (\<lambda>_.
     bind_res (if mr_status b = ''reserved'' then cancel_reserved X (uuids 0) auth b now m1 else Inr m1) (\<lambda>m2.
     bind_res (load_reservation rid m2) (\<lambda>after.
     Inr (m2, \<lparr>mz_request_id = request_id, mz_reservation = after, mz_duplicate = mr_status b \<noteq> ''reserved''\<rparr>))))))))))"

definition list_project_reservations ::
  "externs \<Rightarrow> (nat \<Rightarrow> string) \<Rightarrow> CustomerApiKeyAuth \<Rightarrow> string \<Rightarrow> u32 \<Rightarrow> int \<Rightarrow> market \<Rightarrow>
     (market \<times> MarketplaceReservationRecord list) res" where
  "list_project_reservations X uuids auth project limit now m =
     bind_res (require_customer_scope auth ''reservations:read'') (\<lambda>_.
     bind_res (validate_id ''project_id'' project 128) (\<lambda>_.
     bind_res (expire_stale_reservations X uuids now m) (\<lambda>(m1, _).
     bind_res (reservation_project_access auth project m1) (\<lambda>_.
     Inr (m1, map reservation_from_row (take (clamp 1 MAX_RESERVATION_LIST_LIMIT (unat limit))
       (rev (sort_key (\<lambda>v. collation_key X (rv_updated_at v))
         (filter (\<lambda>v. rv_project_id v = project) (marketplace_reservations (core m1))))))))))) "

definition customer_project_usage ::
  "externs \<Rightarrow> (nat \<Rightarrow> string) \<Rightarrow> CustomerApiKeyAuth \<Rightarrow> string \<Rightarrow> int \<Rightarrow> market \<Rightarrow> (market \<times> CustomerUsageSummary) res" where
  "customer_project_usage X uuids auth project now m =
     bind_res (require_customer_scope auth ''usage:read'') (\<lambda>_.
     bind_res (validate_id ''project_id'' project 128) (\<lambda>_.
     bind_res (expire_stale_reservations X uuids now m) (\<lambda>(m1, _).
     bind_res (reservation_project_access auth project m1) (\<lambda>_.
     let rows = filter (\<lambda>v. rv_project_id v = project) (marketplace_reservations (core m1));
         n = (\<lambda>st. sql_count (\<lambda>v. rv_status v = st) rows) in
     bind_res (cast_bigint (held_seconds (\<lambda>v. rv_status v = ''reserved'') rows)) (\<lambda>seconds.
     bind_res (cast_bigint (sum_list (map ce_amount_credits (filter (\<lambda>e. ce_project_id e = project) (mk_credits m1))))) (\<lambda>balance.
     bind_res (ensure (int (length rows) < 2 ^ 32) (Database ''customer count overflow'')) (\<lambda>_.
     Inr (m1, \<lparr>cu_project_id = project, cu_active_reservations = n ''reserved'', cu_reserved_gpu_seconds = seconds,
                cu_total_reservations = length rows, cu_cancelled_reservations = n ''cancelled'',
                cu_expired_reservations = n ''expired'', cu_credit_balance = balance\<rparr>))))))))"

end
