(* ===== verification/Reservation_Safety.thy ===== *)
theory Reservation_Safety
  imports Reservation
begin

text \<open>
  What the reservations of \<^verbatim>\<open>burd-control-plane/src/customer.rs\<close> guarantee: quotas, the frozen price, and the
  agreement of the reservations with the entries of the append-only credit ledger.
\<close>

section \<open>What the operations write\<close>

text \<open>The ledger entry of an operation on the reservation \<open>v\<close>.\<close>

definition entry_for :: "string \<Rightarrow> reservation_row \<Rightarrow> CustomerCreditLedgerEntry \<Rightarrow> bool" where
  "entry_for ty v e \<longleftrightarrow> ce_entry_type e = ty \<and> ce_reservation_id e = Some (rv_reservation_id v) \<and> ce_amount_credits e = 0 \<and>
     ce_project_id e = rv_project_id v \<and> ce_organization_id e = rv_organization_id v"

lemma append_creditE:
  assumes "append_customer_credit_ledger_entry X uuid org project ty amount rid why now m = Inr (m', e)"
  obtains "m' = m\<lparr>mk_credits := mk_credits m @ [e]\<rparr>" "ce_credit_entry_id e = ''credit_'' @ uuid" "ce_entry_type e = ty"
    "ce_reservation_id e = rid" "ce_amount_credits e = amount" "ce_project_id e = project" "ce_organization_id e = org"
    "\<forall>x \<in> set (mk_credits m). \<not> credit_clash e x"
  using assms unfolding append_customer_credit_ledger_entry_def insert_unique_def
  by (auto elim!: bind_resE simp: Let_def list_ex_iff split: if_split_asm)

lemma append_releasesE:
  assumes "append_releases X uuids k now vs m = Inr m'"
  obtains es where "m' = m\<lparr>mk_credits := mk_credits m @ es\<rparr>" "list_all2 (entry_for ''reservation_release'') vs es"
  using assms
proof (induction vs arbitrary: k m thesis)
  case Nil
  then show ?case by simp
next
  case (Cons v vs)
  from Cons.prems(2) obtain m1 e where e: "append_customer_credit_ledger_entry X (uuids k) (rv_organization_id v) (rv_project_id v)
      ''reservation_release'' 0 (Some (rv_reservation_id v)) ''reservation hold expired without credit settlement in BN-17'' now m = Inr (m1, e)"
    and rest: "append_releases X uuids (Suc k) now vs m1 = Inr m'"
    by (auto elim!: bind_resE)
  from e have m1: "m1 = m\<lparr>mk_credits := mk_credits m @ [e]\<rparr>" and en: "entry_for ''reservation_release'' v e"
    by (auto elim!: append_creditE simp: entry_for_def)
  show ?case
    by (rule Cons.IH[OF _ rest]) (rule Cons.prems(1)[of "e # es" for es], simp_all add: m1 en)
qed

text \<open>Releasing a hold writes the listings only.\<close>

lemma release_hold_listings:
  "\<exists>ls. release_listing_reservation_hold l now m = update_listings (\<lambda>_. ls) m"
proof -
  have "m = m\<lparr>mk_billing := (mk_billing m)\<lparr>bl_listings := bl_listings (mk_billing m)\<rparr>\<rparr>" by simp
  then have "\<exists>ls. m = m\<lparr>mk_billing := (mk_billing m)\<lparr>bl_listings := ls\<rparr>\<rparr>" by blast
  then show ?thesis by (auto simp: release_listing_reservation_hold_def Let_def update_listings_def split: option.split)
qed

lemma release_holds_listings:
  "\<exists>ls. fold (\<lambda>l. release_listing_reservation_hold l now) hs m = update_listings (\<lambda>_. ls) m"
proof (induction hs arbitrary: m)
  case Nil
  show ?case by (rule exI[of _ "bl_listings (mk_billing m)"]) (simp add: update_listings_def)
next
  case (Cons h hs)
  from release_hold_listings[of h now m] obtain ls where "release_listing_reservation_hold h now m = update_listings (\<lambda>_. ls) m" ..
  with Cons[of "update_listings (\<lambda>_. ls) m"] show ?case by (auto simp: update_listings_def)
qed

definition expired_rows :: "externs \<Rightarrow> int \<Rightarrow> reservation_row list \<Rightarrow> reservation_row list" where
  "expired_rows X now = sql_update (stale_reservation X (to_rfc3339 X now))
     (\<lambda>v. v\<lparr>rv_status := ''expired'', rv_updated_at := to_rfc3339 X now\<rparr>)"

lemma expire_staleE:
  assumes "expire_stale_reservations X uuids now m = Inr (m', n)"
  obtains es ls where
    "m' = update_listings (\<lambda>_. ls) ((with_core (\<lambda>s. s\<lparr>marketplace_reservations := expired_rows X now (marketplace_reservations s)\<rparr>) m)
       \<lparr>mk_credits := mk_credits m @ es\<rparr>)"
    "list_all2 (entry_for ''reservation_release'') (filter (stale_reservation X (to_rfc3339 X now)) (marketplace_reservations (core m))) es"
    "n = length es"
proof -
  let ?stale = "filter (stale_reservation X (to_rfc3339 X now)) (marketplace_reservations (core m))"
  let ?m1 = "with_core (\<lambda>s. s\<lparr>marketplace_reservations := expired_rows X now (marketplace_reservations s)\<rparr>) m"
  from assms obtain m2 where a: "append_releases X uuids 0 now ?stale ?m1 = Inr m2"
    and m': "m' = fold (\<lambda>l. release_listing_reservation_hold l (to_rfc3339 X now)) (dedup_first (map rv_listing_id ?stale)) m2"
    and n: "n = length ?stale"
    unfolding expire_stale_reservations_def expired_rows_def by (auto simp: Let_def elim!: bind_resE)
  from a obtain es where es: "m2 = ?m1\<lparr>mk_credits := mk_credits ?m1 @ es\<rparr>" "list_all2 (entry_for ''reservation_release'') ?stale es"
    by (rule append_releasesE)
  from release_holds_listings obtain ls where "m' = update_listings (\<lambda>_. ls) m2" unfolding m' by blast
  with es n show ?thesis by (intro that[of ls es]) (simp_all add: list_all2_lengthD)
qed

lemma update_listings_simps [simp]:
  "core (update_listings f m) = core m" "mk_credits (update_listings f m) = mk_credits m" "mk_quotas (update_listings f m) = mk_quotas m"
  "bl_projects (mk_billing (update_listings f m)) = bl_projects (mk_billing m)"
  "bl_organizations (mk_billing (update_listings f m)) = bl_organizations (mk_billing m)"
  "bl_snapshots (mk_billing (update_listings f m)) = bl_snapshots (mk_billing m)"
  "bl_prices (mk_billing (update_listings f m)) = bl_prices (mk_billing m)"
  "bl_listings (mk_billing (update_listings f m)) = f (bl_listings (mk_billing m))"
  "mk_reservation_keys (update_listings f m) = mk_reservation_keys m" "mk_credit_keys (update_listings f m) = mk_credit_keys m"
  "mk_workload_keys (update_listings f m) = mk_workload_keys m"
  by (simp_all add: update_listings_def)

lemma with_core_accounts [simp]:
  "bl_projects (mk_billing (with_core f m)) = bl_projects (mk_billing m)"
  "bl_organizations (mk_billing (with_core f m)) = bl_organizations (mk_billing m)"
  "bl_prices (mk_billing (with_core f m)) = bl_prices (mk_billing m)"
  by (simp_all add: with_core_def)

lemma reservation_project_access_cong:
  "bl_projects (mk_billing m') = bl_projects (mk_billing m) \<Longrightarrow> bl_organizations (mk_billing m') = bl_organizations (mk_billing m) \<Longrightarrow>
   mk_quotas m' = mk_quotas m \<Longrightarrow> reservation_project_access auth project m' = reservation_project_access auth project m"
  by (simp add: reservation_project_access_def)

text \<open>A reservation that is written: its row, its snapshot, its entry in the ledger, and what stays.\<close>

lemma write_reservationE:
  assumes "write_reservation X uuids c access l price starts now m = Inr (m', r)"
  obtains v n e where "v = new_reservation X (''reservation_'' @ uuids 0) access l (''pricing_snapshot_'' @ uuids 1) c starts (to_rfc3339 X now)"
    "n = new_snapshot (''pricing_snapshot_'' @ uuids 1) price (li_listing_id l) (to_rfc3339 X now)"
    "entry_for ''reservation_hold'' v e" "\<forall>x \<in> set (marketplace_reservations (core m)). \<not> reservation_clash v x"
    "\<forall>x \<in> set (bl_snapshots (mk_billing m)). pn_pricing_snapshot_id x \<noteq> pn_pricing_snapshot_id n"
    "marketplace_reservations (core m') = marketplace_reservations (core m) @ [v]"
    "core m' = insert_customer_audit_event (ra_organization_id access) (Some (ra_project_id access)) ''customer_api_key''
       (Some (ak_api_key_id (vc_auth c))) ''marketplace_reservation.created'' ''marketplace_reservation'' (''reservation_'' @ uuids 0)
       ((core m)\<lparr>marketplace_reservations := marketplace_reservations (core m) @ [v]\<rparr>)"
    "bl_snapshots (mk_billing m') = bl_snapshots (mk_billing m) @ [n]" "mk_credits m' = mk_credits m @ [e]"
    "bl_prices (mk_billing m') = bl_prices (mk_billing m)" "mk_reservation_keys m' = mk_reservation_keys m"
    "mz_reservation r = reservation_from_row v"
proof -
  let ?v = "new_reservation X (''reservation_'' @ uuids 0) access l (''pricing_snapshot_'' @ uuids 1) c starts (to_rfc3339 X now)"
  let ?n = "new_snapshot (''pricing_snapshot_'' @ uuids 1) price (li_listing_id l) (to_rfc3339 X now)"
  let ?m1 = "update_listings (sql_update (\<lambda>x. li_listing_id x = li_listing_id l)
      (\<lambda>x. x\<lparr>li_current_status := ''reserved'', li_updated_at := to_rfc3339 X now\<rparr>))
    (with_core (\<lambda>s. s\<lparr>marketplace_reservations := marketplace_reservations (core m) @ [?v]\<rparr>)
      (m\<lparr>mk_billing := (mk_billing m)\<lparr>bl_snapshots := bl_snapshots (mk_billing m) @ [?n]\<rparr>\<rparr>))"
  from assms obtain m2 e loaded where n: "\<forall>x \<in> set (bl_snapshots (mk_billing m)). pn_pricing_snapshot_id x \<noteq> pn_pricing_snapshot_id ?n"
    and v: "\<forall>x \<in> set (marketplace_reservations (core m)). \<not> reservation_clash ?v x"
    and e: "append_customer_credit_ledger_entry X (uuids 2) (ra_organization_id access) (ra_project_id access) ''reservation_hold'' 0
      (Some (''reservation_'' @ uuids 0)) ''reservation hold recorded without credit debit in BN-17'' now ?m1 = Inr (m2, e)"
    and loaded: "load_reservation (''reservation_'' @ uuids 0) m2 = Inr loaded" "mz_reservation r = loaded"
    and m': "m' = audit_market (ra_organization_id access) (Some (ra_project_id access)) ''customer_api_key''
      (Some (ak_api_key_id (vc_auth c))) ''marketplace_reservation.created'' ''marketplace_reservation'' (''reservation_'' @ uuids 0) m2"
    unfolding write_reservation_def insert_snapshot_def
    by (auto simp: Let_def insert_unique_Inr elim!: bind_resE split: if_split_asm)
  from e have m2: "m2 = ?m1\<lparr>mk_credits := mk_credits m @ [e]\<rparr>" and en: "entry_for ''reservation_hold'' ?v e"
    by (auto elim!: append_creditE simp: entry_for_def new_reservation_def)
  have "find (\<lambda>x. rv_reservation_id x = ''reservation_'' @ uuids 0) (marketplace_reservations (core m)) = None"
    using v by (auto simp: find_None_iff reservation_clash_def new_reservation_def)
  then have "loaded = reservation_from_row ?v"
    using loaded(1) by (auto simp: load_reservation_def m2 find_append_None new_reservation_def elim!: bind_resE)
  then show ?thesis
    by (intro that[OF refl refl en v n]) (simp_all add: m' m2 audit_market_def loaded(2) insert_customer_audit_event_def)
qed

section \<open>The ledger agrees with the reservations\<close>

definition entries :: "string \<Rightarrow> string \<Rightarrow> CustomerCreditLedgerEntry list \<Rightarrow> nat" where
  "entries ty rid = sql_count (\<lambda>e. ce_entry_type e = ty \<and> ce_reservation_id e = Some rid)"

text \<open>
  Reservations have distinct identifiers, a listing has at most one that is reserved, each has one hold entry and
  a release entry exactly when it was cancelled or expired, and there are no other entries of the two types.
\<close>

definition ledger_agrees :: "reservation_row list \<Rightarrow> CustomerCreditLedgerEntry list \<Rightarrow> bool" where
  "ledger_agrees rows credits \<longleftrightarrow> distinct (map rv_reservation_id rows) \<and> (\<forall>l. sql_count (reserved_on l) rows \<le> 1) \<and>
     (\<forall>v \<in> set rows. entries ''reservation_hold'' (rv_reservation_id v) credits = 1 \<and>
        entries ''reservation_release'' (rv_reservation_id v) credits = (if rv_status v \<in> {''cancelled'', ''expired''} then 1 else 0)) \<and>
     (\<forall>e \<in> set credits. ce_entry_type e \<in> {''reservation_hold'', ''reservation_release''} \<longrightarrow>
        (\<exists>v \<in> set rows. entry_for (ce_entry_type e) v e))"

lemma entries_append [simp]: "entries ty rid (xs @ ys) = entries ty rid xs + entries ty rid ys"
  by (simp add: entries_def sql_count_def)

lemma entries_for:
  "list_all2 (entry_for ty) vs es \<Longrightarrow> entries ty' rid es = (if ty' = ty then sql_count (\<lambda>v. rv_reservation_id v = rid) vs else 0)"
  by (induction rule: list_all2_induct) (auto simp: entries_def sql_count_def entry_for_def)

lemma filter_key:
  assumes "distinct (map k rows)" "v \<in> set rows"
  shows "filter (\<lambda>x. k x = k v \<and> P x) rows = (if P v then [v] else [])"
proof -
  have "filter (\<lambda>x. k x = k v) rows = [v]"
    using assms by (induction rows) (auto simp: image_iff filter_empty_conv)
  then have "filter P (filter (\<lambda>x. k x = k v) rows) = (if P v then [v] else [])" by simp
  then show ?thesis by simp
qed

lemma sql_count_key:
  "distinct (map k rows) \<Longrightarrow> v \<in> set rows \<Longrightarrow> sql_count (\<lambda>x. k x = k v) (filter P rows) = (if P v then 1 else 0)"
  using filter_key[of k rows v P] by (simp add: sql_count_def conj_commute)

abbreviation given_up :: "reservation_row \<Rightarrow> bool" where
  "given_up v \<equiv> rv_status v \<in> {''cancelled'', ''expired''}"

definition keeps_terms :: "(reservation_row \<Rightarrow> reservation_row) \<Rightarrow> bool" where
  "keeps_terms f \<longleftrightarrow> (\<forall>v. rv_reservation_id (f v) = rv_reservation_id v \<and> rv_project_id (f v) = rv_project_id v \<and>
     rv_organization_id (f v) = rv_organization_id v \<and> rv_listing_id (f v) = rv_listing_id v)"

text \<open>The update \<open>f\<close> of the rows goes with the new entries \<open>es\<close>.\<close>

lemma ledger_agrees_map:
  assumes agrees: "ledger_agrees rows credits" and f: "keeps_terms f"
    and res: "\<And>v. rv_status (f v) = ''reserved'' \<Longrightarrow> rv_status v = ''reserved''" and up: "\<And>v. given_up v \<Longrightarrow> given_up (f v)"
    and hold: "\<And>rid. entries ''reservation_hold'' rid es = 0"
    and rel: "\<And>v. v \<in> set rows \<Longrightarrow> entries ''reservation_release'' (rv_reservation_id v) es = (if given_up (f v) \<and> \<not> given_up v then 1 else 0)"
    and new: "\<And>e. e \<in> set es \<Longrightarrow> \<exists>v \<in> set rows. entry_for (ce_entry_type e) v e"
  shows "ledger_agrees (map f rows) (credits @ es)"
  unfolding ledger_agrees_def
proof (intro conjI)
  have keep: "rv_reservation_id (f v) = rv_reservation_id v" "entry_for ty (f v) e = entry_for ty v e" for v ty e
    using f by (simp_all add: keeps_terms_def entry_for_def)
  from agrees show "distinct (map rv_reservation_id (map f rows))" by (simp add: ledger_agrees_def keep o_def)
  have "sql_count (reserved_on l) (map f rows) \<le> sql_count (reserved_on l) rows" for l
    using f unfolding sql_count_def keeps_terms_def by (induction rows) (auto simp: reserved_on_def dest: res)
  with agrees show "\<forall>l. sql_count (reserved_on l) (map f rows) \<le> 1" unfolding ledger_agrees_def by (meson order_trans)
  from agrees show "\<forall>v \<in> set (map f rows). entries ''reservation_hold'' (rv_reservation_id v) (credits @ es) = 1 \<and>
      entries ''reservation_release'' (rv_reservation_id v) (credits @ es) = (if given_up v then 1 else 0)"
    unfolding ledger_agrees_def using up by (auto simp: keep hold rel)
  from agrees new show "\<forall>e \<in> set (credits @ es). ce_entry_type e \<in> {''reservation_hold'', ''reservation_release''} \<longrightarrow>
      (\<exists>v \<in> set (map f rows). entry_for (ce_entry_type e) v e)"
    unfolding ledger_agrees_def by (simp only: list.set_map bex_simps(7) keep set_append) blast
qed

text \<open>Updates that neither create a reserved row nor cancel or expire one.\<close>

lemma ledger_agrees_update:
  assumes "ledger_agrees rows credits" "keeps_terms f"
    and "\<And>v. P v \<Longrightarrow> \<not> given_up v \<and> rv_status (f v) \<notin> {''cancelled'', ''expired'', ''reserved''}"
  shows "ledger_agrees (sql_update P f rows) credits"
proof -
  have "ledger_agrees (map (\<lambda>v. if P v then f v else v) rows) (credits @ [])"
    by (rule ledger_agrees_map[OF assms(1)])
       (use assms(2,3) in \<open>auto simp: keeps_terms_def entries_def sql_count_def split: if_split_asm\<close>)
  then show ?thesis by (simp add: sql_update_def)
qed

lemma ledger_agrees_release:
  assumes agrees: "ledger_agrees rows credits" and f: "keeps_terms f"
    and es: "list_all2 (entry_for ''reservation_release'') (filter P rows) es"
    and live: "\<And>v. P v \<Longrightarrow> rv_status v = ''reserved'' \<and> given_up (f v)"
  shows "ledger_agrees (sql_update P f rows) (credits @ es)"
  unfolding sql_update_def
proof (rule ledger_agrees_map[OF agrees])
  from agrees have d: "distinct (map rv_reservation_id rows)" by (simp add: ledger_agrees_def)
  show "entries ''reservation_release'' (rv_reservation_id v) es = (if given_up (if P v then f v else v) \<and> \<not> given_up v then 1 else 0)"
    if "v \<in> set rows" for v
    using sql_count_key[OF d that] live[of v] by (cases "P v") (auto simp: entries_for[OF es])
  show "\<exists>v \<in> set rows. entry_for (ce_entry_type e) v e" if "e \<in> set es" for e
    using es that by (auto simp: list_all2_conv_all_nth in_set_conv_nth entry_for_def) (metis nth_mem filter_is_subset subset_iff)
  show "rv_status v = ''reserved''" if "rv_status (if P v then f v else v) = ''reserved''" for v
    using that live[of v] by (cases "P v") auto
  show "given_up (if P v then f v else v)" if "given_up v" for v using that live[of v] by (cases "P v") auto
qed (use f es in \<open>auto simp: keeps_terms_def entries_for\<close>)

lemma ledger_agrees_new:
  assumes agrees: "ledger_agrees rows credits" and e: "entry_for ''reservation_hold'' v e" and v: "rv_status v = ''reserved''"
    and fresh: "\<forall>x \<in> set rows. \<not> reservation_clash v x"
  shows "ledger_agrees (rows @ [v]) (credits @ [e])"
proof -
  from fresh v have id: "rv_reservation_id v \<notin> rv_reservation_id ` set rows" and one: "\<forall>x \<in> set rows. \<not> reserved_on (rv_listing_id v) x"
    by (auto simp: reservation_clash_def)
  have none: "entries ty (rv_reservation_id v) credits = 0" if "ty \<in> {''reservation_hold'', ''reservation_release''}" for ty
  proof -
    have "ce_reservation_id x \<noteq> Some (rv_reservation_id v)" if "x \<in> set credits" "ce_entry_type x = ty" for x
      using agrees that \<open>ty \<in> _\<close> id unfolding ledger_agrees_def entry_for_def by (metis imageI option.inject)
    then show ?thesis by (auto simp: entries_def sql_count_def filter_empty_conv)
  qed
  have last: "entries ty rid [e] = (if ty = ''reservation_hold'' \<and> rid = rv_reservation_id v then 1 else 0)" for ty rid
    using e by (auto simp: entries_def sql_count_def entry_for_def)
  have listing: "sql_count (reserved_on l) (rows @ [v]) \<le> 1" for l
    using agrees one by (cases "l = rv_listing_id v") (auto simp: ledger_agrees_def sql_count_def reserved_on_def filter_empty_conv)
  show ?thesis
    unfolding ledger_agrees_def
  proof (intro conjI)
    show "\<forall>x \<in> set (rows @ [v]). entries ''reservation_hold'' (rv_reservation_id x) (credits @ [e]) = 1 \<and>
        entries ''reservation_release'' (rv_reservation_id x) (credits @ [e]) = (if given_up x then 1 else 0)"
      using agrees id none v unfolding ledger_agrees_def by (auto simp: last)
    show "\<forall>x \<in> set (credits @ [e]). ce_entry_type x \<in> {''reservation_hold'', ''reservation_release''} \<longrightarrow>
        (\<exists>u \<in> set (rows @ [v]). entry_for (ce_entry_type x) u x)"
      using agrees e unfolding ledger_agrees_def by (auto simp: entry_for_def)
  qed (use agrees id listing in \<open>auto simp: ledger_agrees_def\<close>)
qed

lemma ledger_agrees_grant:
  assumes "ledger_agrees rows credits" "ce_entry_type e \<notin> {''reservation_hold'', ''reservation_release''}"
  shows "ledger_agrees rows (credits @ [e])"
proof -
  have "entries ty rid [e] = 0" if "ty \<in> {''reservation_hold'', ''reservation_release''}" for ty rid
    using assms(2) that by (auto simp: entries_def sql_count_def)
  with assms show ?thesis unfolding ledger_agrees_def by auto
qed

section \<open>Every operation keeps the ledger\<close>

definition holds_recorded :: "market \<Rightarrow> bool" where
  "holds_recorded m \<longleftrightarrow> ledger_agrees (marketplace_reservations (core m)) (mk_credits m)"

lemma expire_keeps_ledger:
  assumes "expire_stale_reservations X uuids now m = Inr (m', n)" "holds_recorded m"
  shows "holds_recorded m'"
  using assms(1)
proof (rule expire_staleE)
  fix es ls
  assume m': "m' = update_listings (\<lambda>_. ls) ((with_core (\<lambda>s. s\<lparr>marketplace_reservations := expired_rows X now (marketplace_reservations s)\<rparr>) m)
       \<lparr>mk_credits := mk_credits m @ es\<rparr>)"
    and es: "list_all2 (entry_for ''reservation_release'') (filter (stale_reservation X (to_rfc3339 X now)) (marketplace_reservations (core m))) es"
  have "ledger_agrees (expired_rows X now (marketplace_reservations (core m))) (mk_credits m @ es)"
    unfolding expired_rows_def
    by (rule ledger_agrees_release[OF _ _ es]) (use assms(2) in \<open>simp_all add: holds_recorded_def keeps_terms_def stale_reservation_def\<close>)
  then show ?thesis by (simp add: holds_recorded_def m')
qed

lemma reserve_keeps_ledger:
  assumes "reserve X uuids c now m = Inr (m', r)" "holds_recorded m"
  shows "holds_recorded m'"
proof -
  from assms(1) obtain m1 n access l price starts where x: "expire_stale_reservations X (\<lambda>k. uuids (k + 3)) now m = Inr (m1, n)"
    and w: "write_reservation X uuids c access l price starts now m1 = Inr (m', r)"
    unfolding reserve_def by (auto elim!: bind_resE)
  from w show ?thesis
    by (rule write_reservationE)
       (use expire_keeps_ledger[OF x assms(2)] in \<open>simp add: holds_recorded_def ledger_agrees_new new_reservation_def\<close>)
qed

lemma create_reservation_keeps_ledger:
  assumes "create_marketplace_reservation_idempotently X uuids c now m = Inr (m', out)" "holds_recorded m"
  shows "holds_recorded m'"
proof -
  from assms(1) have "idempotently mk_reservation_keys (\<lambda>ks m. m\<lparr>mk_reservation_keys := ks\<rparr>) (vc_scope c) (vc_idempotency_key c)
       (vc_request_hash c) (reserve X uuids c now) m = Inr (m', out)"
    unfolding create_marketplace_reservation_idempotently_def by (auto elim!: bind_resE)
  then show ?thesis
    by (cases rule: idempotentlyE) (use assms(2) in \<open>auto dest: reserve_keeps_ledger simp: holds_recorded_def\<close>)
qed

lemma cancel_reserved_keeps_ledger:
  assumes run: "cancel_reserved X uuid auth (reservation_from_row v) now m = Inr m'" and agrees: "holds_recorded m"
    and v: "v \<in> set (marketplace_reservations (core m))" "rv_status v = ''reserved''"
  shows "holds_recorded m'"
proof -
  let ?P = "\<lambda>x. rv_reservation_id x = rv_reservation_id v \<and> rv_status x = ''reserved''"
  let ?f = "\<lambda>x. x\<lparr>rv_status := ''cancelled'', rv_cancelled_at := Some (to_rfc3339 X now), rv_updated_at := to_rfc3339 X now\<rparr>"
  let ?m1 = "with_core (\<lambda>s. s\<lparr>marketplace_reservations := sql_update ?P ?f (marketplace_reservations s)\<rparr>) m"
  from run obtain m2 e where e: "append_customer_credit_ledger_entry X uuid (rv_organization_id v) (rv_project_id v) ''reservation_release'' 0
      (Some (rv_reservation_id v)) ''reservation hold released without credit settlement in BN-17'' now ?m1 = Inr (m2, e)"
    and m': "marketplace_reservations (core m') = marketplace_reservations (core (release_listing_reservation_hold (rv_listing_id v) (to_rfc3339 X now) m2))"
      "mk_credits m' = mk_credits (release_listing_reservation_hold (rv_listing_id v) (to_rfc3339 X now) m2)"
    unfolding cancel_reserved_def
    by (auto simp: Let_def reservation_from_row_def audit_market_def insert_customer_audit_event_def elim!: bind_resE)
  from e have m2: "m2 = ?m1\<lparr>mk_credits := mk_credits m @ [e]\<rparr>" and en: "entry_for ''reservation_release'' v e"
    by (auto elim!: append_creditE simp: entry_for_def)
  have d: "distinct (map rv_reservation_id (marketplace_reservations (core m)))" using agrees by (simp add: holds_recorded_def ledger_agrees_def)
  have "filter ?P (marketplace_reservations (core m)) = [v]"
    using filter_key[OF d v(1), of "\<lambda>x. rv_status x = ''reserved''"] v(2) by simp
  then have "ledger_agrees (sql_update ?P ?f (marketplace_reservations (core m))) (mk_credits m @ [e])"
    by (intro ledger_agrees_release) (use agrees en in \<open>simp_all add: holds_recorded_def keeps_terms_def\<close>)
  moreover obtain ls where "release_listing_reservation_hold (rv_listing_id v) (to_rfc3339 X now) m2 = update_listings (\<lambda>_. ls) m2"
    using release_hold_listings by blast
  ultimately show ?thesis by (simp add: holds_recorded_def m' m2)
qed

lemma cancel_reservation_keeps_ledger:
  assumes "cancel_marketplace_reservation X uuids rq auth rid r now m = Inr (m', out)" "holds_recorded m"
  shows "holds_recorded m'"
proof -
  from assms(1) obtain m1 n b m2 where x: "expire_stale_reservations X (\<lambda>k. uuids (Suc k)) now m = Inr (m1, n)"
    and b: "load_reservation rid m1 = Inr b" and m': "m' = m2"
    and m2: "(if mr_status b = ''reserved'' then cancel_reserved X (uuids 0) auth b now m1 else Inr m1) = Inr m2"
    unfolding cancel_marketplace_reservation_def by (auto elim!: bind_resE split: if_split_asm)
  from b obtain v where v: "v \<in> set (marketplace_reservations (core m1))" "b = reservation_from_row v"
    unfolding load_reservation_def by (auto elim!: bind_resE) (blast dest: find_SomeD)
  note m1 = expire_keeps_ledger[OF x assms(2)]
  show ?thesis
  proof (cases "mr_status b = ''reserved''")
    case True
    with m2 show ?thesis unfolding m' v(2) by (intro cancel_reserved_keeps_ledger[OF _ m1 v(1)]) (simp_all add: reservation_from_row_def)
  next
    case False
    with m2 m1 m' show ?thesis by simp
  qed
qed

lemma list_reservations_keeps_ledger:
  "list_project_reservations X uuids auth project limit now m = Inr (m', out) \<Longrightarrow> holds_recorded m \<Longrightarrow> holds_recorded m'"
  unfolding list_project_reservations_def by (auto elim!: bind_resE dest: expire_keeps_ledger)

lemma project_usage_keeps_ledger:
  "customer_project_usage X uuids auth project now m = Inr (m', out) \<Longrightarrow> holds_recorded m \<Longrightarrow> holds_recorded m'"
  unfolding customer_project_usage_def Let_def by (auto elim!: bind_resE dest: expire_keeps_ledger split: if_split_asm)

lemma grant_keeps_ledger:
  assumes "grant_customer_credits_idempotently X uuid c now m = Inr (m', out)" "holds_recorded m"
  shows "holds_recorded m'"
proof -
  from assms(1) obtain org where "idempotently mk_credit_keys (\<lambda>ks m. m\<lparr>mk_credit_keys := ks\<rparr>) (ec_scope c) (ec_idempotency_key c)
       (ec_request_hash c) (grant_credits X uuid org c now) m = Inr (m', out)"
    unfolding grant_customer_credits_idempotently_def by (auto elim!: bind_resE)
  then show ?thesis
  proof (cases rule: idempotentlyE)
    case (performed t r k)
    then obtain m1 e where a: "append_customer_credit_ledger_entry X uuid org (ec_project_id c)
        (if eq_amount_credits (ec_request c) \<ge> 0 then ''credit_grant'' else ''credit_adjustment'')
        (eq_amount_credits (ec_request c)) None (eq_reason (ec_request c)) now m = Inr (m1, e)"
      and t: "marketplace_reservations (core t) = marketplace_reservations (core m1)" "mk_credits t = mk_credits m1"
      unfolding grant_credits_def
      by (auto simp: audit_market_def insert_customer_audit_event_def insert_audit_event_def elim!: bind_resE)
    from a have "m1 = m\<lparr>mk_credits := mk_credits m @ [e]\<rparr>" "ce_entry_type e \<notin> {''reservation_hold'', ''reservation_release''}"
      by (auto elim!: append_creditE split: if_split_asm)
    with assms(2) performed(2) t show ?thesis by (simp add: holds_recorded_def ledger_agrees_grant)
  qed (use assms(2) in simp)
qed

section \<open>Expiry always succeeds\<close>

text \<open>The identifiers an operation draws are new.\<close>

definition fresh_credit_ids :: "(nat \<Rightarrow> string) \<Rightarrow> market \<Rightarrow> bool" where
  "fresh_credit_ids uuids m \<longleftrightarrow> inj uuids \<and> (\<forall>e \<in> set (mk_credits m). \<forall>k. ce_credit_entry_id e \<noteq> ''credit_'' @ uuids k)"

lemma append_releases_ok:
  assumes "distinct (map rv_reservation_id vs)" "\<forall>v \<in> set vs. entries ''reservation_release'' (rv_reservation_id v) (mk_credits m) = 0"
    and "inj uuids" "\<forall>e \<in> set (mk_credits m). \<forall>i \<ge> k. ce_credit_entry_id e \<noteq> ''credit_'' @ uuids i"
  shows "\<exists>m'. append_releases X uuids k now vs m = Inr m'"
  using assms
proof (induction vs arbitrary: k m)
  case Nil
  then show ?case by simp
next
  case (Cons v vs)
  let ?e = "\<lparr>ce_credit_entry_id = ''credit_'' @ uuids k, ce_organization_id = rv_organization_id v, ce_project_id = rv_project_id v,
      ce_schema_version = CUSTOMER_CREDIT_LEDGER_SCHEMA_VERSION, ce_entry_type = ''reservation_release'', ce_amount_credits = 0,
      ce_reservation_id = Some (rv_reservation_id v), ce_reason = ''reservation hold expired without credit settlement in BN-17'',
      ce_created_at = to_rfc3339 X now\<rparr>"
  have ok: "validate_id ''entry_type'' ''reservation_release'' 64 = Inr ()"
    "is_bounded_ascii ''reservation hold expired without credit settlement in BN-17'' 256"
    by code_simp+
  have new: "\<not> list_ex (credit_clash ?e) (mk_credits m)"
    using Cons.prems(2,4) by (fastforce simp: list_ex_iff credit_clash_def entries_def sql_count_def filter_empty_conv)
  have a: "append_customer_credit_ledger_entry X (uuids k) (rv_organization_id v) (rv_project_id v) ''reservation_release'' 0
      (Some (rv_reservation_id v)) ''reservation hold expired without credit settlement in BN-17'' now m
    = Inr (m\<lparr>mk_credits := mk_credits m @ [?e]\<rparr>, ?e)"
    unfolding append_customer_credit_ledger_entry_def insert_unique_def Let_def using new by (simp add: ok)
  have "\<exists>m'. append_releases X uuids (Suc k) now vs (m\<lparr>mk_credits := mk_credits m @ [?e]\<rparr>) = Inr m'"
    by (rule Cons.IH) (use Cons.prems in \<open>auto simp: entries_def sql_count_def dest: injD\<close>)
  then show ?case by (simp add: a)
qed


section \<open>Quota\<close>

lemma assert_project_quotaE:
  assumes "assert_project_quota X access duration now m = Inr u"
  shows "uint duration \<le> uint (ra_max_reservation_ttl_seconds access)"
    "int (sql_count (holding X (ra_project_id access) now) (marketplace_reservations (core m))) < uint (ra_max_active_reservations access)"
    "held_seconds (holding X (ra_project_id access) now) (marketplace_reservations (core m)) + uint duration \<le> uint (ra_max_reserved_gpu_seconds access)"
proof -
  let ?h = "held_seconds (holding X (ra_project_id access) now) (marketplace_reservations (core m))"
  have "\<not> duration > ra_max_reservation_ttl_seconds access" and
    c: "\<not> int (sql_count (holding X (ra_project_id access) now) (marketplace_reservations (core m))) \<ge> uint (ra_max_active_reservations access)" and
    h: "0 \<le> ?h" "?h \<le> i64_max" "\<not> saturating_add (word_of_int ?h) (ucast duration) > ra_max_reserved_gpu_seconds access"
    using assms unfolding assert_project_quota_def Let_def cast_bigint_def by (auto elim!: bind_resE split: if_split_asm)
  then show "uint duration \<le> uint (ra_max_reservation_ttl_seconds access)"
    and "int (sql_count (holding X (ra_project_id access) now) (marketplace_reservations (core m))) < uint (ra_max_active_reservations access)"
    by (simp_all add: word_less_def)
  have u: "uint (word_of_int ?h :: u64) = ?h" using h(1,2) by (simp add: uint_word_of_int i64_max_def)
  have d: "uint (ucast duration :: u64) = uint duration" "uint duration < 2 ^ 32"
    using uint_lt2p[of duration] by (simp_all add: unsigned_ucast_eq take_bit_int_eq_self)
  have "?h + uint duration < 2 ^ 64" using d(2) h(2) by (simp add: i64_max_def)
  then have "uint (saturating_add (word_of_int ?h) (ucast duration)) = ?h + uint duration"
    using u d(1) h(1) by (simp add: saturating_add_def uint_word_arith_bintrs take_bit_int_eq_self)
  then show "?h + uint duration \<le> uint (ra_max_reserved_gpu_seconds access)" using h(3) by (simp add: word_less_def)
qed

lemma check_reservationE:
  assumes "check_reservation X c now m = Inr (access, l, price, starts)"
  shows "reservation_project_access (vc_auth c) (vc_project_id c) m = Inr access"
    "li_listing_id l = vq_listing_id (vc_request c)" "l \<in> set (bl_listings (mk_billing m))"
    "li_status l \<in> {''published'', ''limited''}" "li_current_status l \<in> {''available'', ''degraded''}"
    "ra_project_id access = vc_project_id c" "ra_organization_id access = ak_organization_id (vc_auth c)"
    "assert_project_quota X access (vq_duration_seconds (vc_request c)) (to_rfc3339 X now) m = Inr ()"
    "price \<in> set (bl_prices (mk_billing m))" "mp_listing_id price = li_listing_id l" "mp_status price = ''active''"
proof -
  from assms have acc: "reservation_project_access (vc_auth c) (vc_project_id c) m = Inr access"
    and l: "load_listing_for_reservation (vq_listing_id (vc_request c)) m = Inr l" and r: "assert_listing_reservable l = Inr ()"
    and q: "assert_project_quota X access (vq_duration_seconds (vc_request c)) (to_rfc3339 X now) m = Inr ()"
    and p: "load_active_price_for_reservation X (li_listing_id l) m = Inr price"
    unfolding check_reservation_def by (auto elim!: bind_resE split: if_split_asm)
  show "reservation_project_access (vc_auth c) (vc_project_id c) m = Inr access"
    and "assert_project_quota X access (vq_duration_seconds (vc_request c)) (to_rfc3339 X now) m = Inr ()" by (fact acc q)+
  from acc show "ra_project_id access = vc_project_id c" "ra_organization_id access = ak_organization_id (vc_auth c)"
    unfolding reservation_project_access_def by (auto elim!: bind_resE split: if_split_asm dest!: find_SomeD)
  from l show "li_listing_id l = vq_listing_id (vc_request c)" "l \<in> set (bl_listings (mk_billing m))"
    unfolding load_listing_for_reservation_def by (auto elim!: bind_resE dest!: find_SomeD)
  from r show "li_status l \<in> {''published'', ''limited''}" "li_current_status l \<in> {''available'', ''degraded''}"
    unfolding assert_listing_reservable_def by (auto split: if_split_asm)
  from p show "price \<in> set (bl_prices (mk_billing m))" "mp_listing_id price = li_listing_id l" "mp_status price = ''active''"
    unfolding load_active_price_for_reservation_def by (auto dest!: latest_by_Some)
qed

text \<open>A reservation that is created: what was checked, and what is written after the sweep.\<close>

lemma reserveE:
  assumes "reserve X uuids c now m = Inr (m', r)"
  obtains access l price starts m1 v n e where
    "reservation_project_access (vc_auth c) (vc_project_id c) m = Inr access"
    "check_reservation X c now m1 = Inr (access, l, price, starts)"
    "marketplace_reservations (core m1) = expired_rows X now (marketplace_reservations (core m))"
    "bl_prices (mk_billing m1) = bl_prices (mk_billing m)" "bl_snapshots (mk_billing m1) = bl_snapshots (mk_billing m)"
    "v = new_reservation X (''reservation_'' @ uuids 0) access l (''pricing_snapshot_'' @ uuids 1) c starts (to_rfc3339 X now)"
    "n = new_snapshot (''pricing_snapshot_'' @ uuids 1) price (li_listing_id l) (to_rfc3339 X now)"
    "\<forall>x \<in> set (marketplace_reservations (core m1)). \<not> reservation_clash v x"
    "\<forall>x \<in> set (bl_snapshots (mk_billing m)). pn_pricing_snapshot_id x \<noteq> pn_pricing_snapshot_id n"
    "marketplace_reservations (core m') = marketplace_reservations (core m1) @ [v]"
    "bl_snapshots (mk_billing m') = bl_snapshots (mk_billing m) @ [n]" "bl_prices (mk_billing m') = bl_prices (mk_billing m)"
    "mk_reservation_keys m' = mk_reservation_keys m" "mz_reservation r = reservation_from_row v"
proof -
  from assms obtain m1 k access l price starts where x: "expire_stale_reservations X (\<lambda>k. uuids (k + 3)) now m = Inr (m1, k)"
    and ch: "check_reservation X c now m1 = Inr (access, l, price, starts)"
    and w: "write_reservation X uuids c access l price starts now m1 = Inr (m', r)"
    unfolding reserve_def by (auto elim!: bind_resE)
  from x have m1: "marketplace_reservations (core m1) = expired_rows X now (marketplace_reservations (core m))"
    "bl_prices (mk_billing m1) = bl_prices (mk_billing m)" "bl_snapshots (mk_billing m1) = bl_snapshots (mk_billing m)"
    "mk_reservation_keys m1 = mk_reservation_keys m"
    "reservation_project_access (vc_auth c) (vc_project_id c) m1 = reservation_project_access (vc_auth c) (vc_project_id c) m"
    by (auto elim!: expire_staleE intro!: reservation_project_access_cong)
  have acc: "reservation_project_access (vc_auth c) (vc_project_id c) m = Inr access"
    using check_reservationE(1)[OF ch] m1(5) by simp
  from w show ?thesis
    by (rule write_reservationE) (rule that[OF acc ch m1(1-3)], (assumption | simp add: m1)+)
qed

lemma create_reservationE:
  assumes "create_marketplace_reservation_idempotently X uuids c now m = Inr (m', out)" "m' \<noteq> m"
  obtains t r where "''reservations:write'' \<in> set (ak_scopes (vc_auth c))" "reserve X uuids c now m = Inr (t, r)"
    "core m' = core t" "mk_billing m' = mk_billing t"
proof -
  from assms(1) have scope: "''reservations:write'' \<in> set (ak_scopes (vc_auth c))"
    and idem: "idempotently mk_reservation_keys (\<lambda>ks m. m\<lparr>mk_reservation_keys := ks\<rparr>) (vc_scope c) (vc_idempotency_key c)
       (vc_request_hash c) (reserve X uuids c now) m = Inr (m', out)"
    unfolding create_marketplace_reservation_idempotently_def require_customer_scope_def by (auto elim!: bind_resE split: if_split_asm)
  from idem show ?thesis by (cases rule: idempotentlyE) (use assms(2) that[OF scope] in auto)
qed

text \<open>
  C13. Reservations stay within the quota: whoever changes the database through a new reservation has the scope and access to
  an active project; stale reservations are expired first and one row is added, for the requested listing, which no other
  reservation holds; its length is within the project's limit; and counting it, the reservations the project holds and
  their GPU seconds, summed without wrap-around, are within the project's quota.
\<close>

theorem reservation_within_quota:
  assumes run: "create_marketplace_reservation_idempotently X uuids c now m = Inr (m', out)" and new: "m' \<noteq> m"
  shows "\<exists>access v. ''reservations:write'' \<in> set (ak_scopes (vc_auth c)) \<and>
    reservation_project_access (vc_auth c) (vc_project_id c) m = Inr access \<and>
    marketplace_reservations (core m') = expired_rows X now (marketplace_reservations (core m)) @ [v] \<and>
    rv_project_id v = vc_project_id c \<and> rv_organization_id v = ak_organization_id (vc_auth c) \<and>
    rv_listing_id v = vq_listing_id (vc_request c) \<and> rv_status v = ''reserved'' \<and>
    sql_count (reserved_on (rv_listing_id v)) (marketplace_reservations (core m')) = 1 \<and>
    uint (rv_reserved_gpu_seconds v) \<le> uint (ra_max_reservation_ttl_seconds access) \<and>
    int (sql_count (holding X (vc_project_id c) (to_rfc3339 X now)) (marketplace_reservations (core m')))
      \<le> uint (ra_max_active_reservations access) \<and>
    held_seconds (holding X (vc_project_id c) (to_rfc3339 X now)) (marketplace_reservations (core m'))
      \<le> uint (ra_max_reserved_gpu_seconds access)"
  using run new
proof (rule create_reservationE)
  fix t r
  assume scope: "''reservations:write'' \<in> set (ak_scopes (vc_auth c))" and t: "reserve X uuids c now m = Inr (t, r)"
    and m': "core m' = core t"
  from t obtain access l price starts m1 v where acc: "reservation_project_access (vc_auth c) (vc_project_id c) m = Inr access"
    and ch: "check_reservation X c now m1 = Inr (access, l, price, starts)"
    and m1: "marketplace_reservations (core m1) = expired_rows X now (marketplace_reservations (core m))"
    and v: "v = new_reservation X (''reservation_'' @ uuids 0) access l (''pricing_snapshot_'' @ uuids 1) c starts (to_rfc3339 X now)"
    and fresh: "\<forall>x \<in> set (marketplace_reservations (core m1)). \<not> reservation_clash v x"
    and rows: "marketplace_reservations (core t) = marketplace_reservations (core m1) @ [v]"
    by (rule reserveE)
  note chk = check_reservationE[OF ch] and q = assert_project_quotaE[OF check_reservationE(8)[OF ch]]
  let ?P = "holding X (vc_project_id c) (to_rfc3339 X now)"
  have d: "uint (ucast (vq_duration_seconds (vc_request c)) :: u64) = uint (vq_duration_seconds (vc_request c))"
    using uint_lt2p[of "vq_duration_seconds (vc_request c)"] by (simp add: unsigned_ucast_eq take_bit_int_eq_self)
  have vf: "rv_project_id v = vc_project_id c" "rv_organization_id v = ak_organization_id (vc_auth c)"
    "rv_listing_id v = vq_listing_id (vc_request c)" "rv_status v = ''reserved''"
    "uint (rv_reserved_gpu_seconds v) = uint (vq_duration_seconds (vc_request c))"
    by (simp_all add: v new_reservation_def chk d)
  have one: "sql_count (reserved_on (rv_listing_id v)) (marketplace_reservations (core m1) @ [v]) = 1"
    using fresh vf(4) by (simp add: sql_count_def reserved_on_def reservation_clash_def filter_empty_conv)
  have cnt: "int (sql_count ?P (marketplace_reservations (core m1) @ [v])) \<le> uint (ra_max_active_reservations access)"
    using q(2) by (simp add: sql_count_def chk(6))
  have "held_seconds ?P (marketplace_reservations (core m1) @ [v])
      \<le> held_seconds ?P (marketplace_reservations (core m1)) + uint (vq_duration_seconds (vc_request c))"
    by (simp add: held_seconds_def vf(5))
  then have secs: "held_seconds ?P (marketplace_reservations (core m1) @ [v]) \<le> uint (ra_max_reserved_gpu_seconds access)"
    using q(3) unfolding chk(6) by (rule order_trans)
  show ?thesis
    unfolding m' rows m1[symmetric]
    by (intro exI[of _ access] exI[of _ v] conjI scope acc refl vf(1-4) one cnt secs) (simp add: vf(5) q(1))
qed

definition example_reserve :: CreateReservationCommand where
  "example_reserve = \<lparr>vc_request_id = ''r'', vc_scope = ''s'', vc_idempotency_key = ''k'', vc_request_hash = ''h'',
     vc_auth = example_member, vc_project_id = ''pr1'',
     vc_request = \<lparr>vq_listing_id = ''li1'', vq_duration_seconds = 60, vq_starts_at = None, vq_workload_type = None\<rparr>\<rparr>"

definition example_ids :: "nat \<Rightarrow> string" where
  "example_ids k = replicate k CHR ''u''"

definition example_reserved :: "(market \<times> CreateReservationOutcome) res" where
  "example_reserved = create_marketplace_reservation_idempotently example_externs example_ids example_reserve 5 example_market"

lemma example_reserved_ok:
  "case example_reserved of Inr (m', out) \<Rightarrow> length (marketplace_reservations (core m')) = 1 \<and> length (mk_reservation_keys m') = 1 \<and>
     map ce_credit_entry_id (mk_credits m') = [''credit_uu''] \<and> map (\<lambda>v. (rv_status v, rv_expires_at v)) (marketplace_reservations (core m')) = [(''reserved'', to_rfc3339 example_externs 60000000005)] | Inl _ \<Rightarrow> False"
  by code_simp

lemma example_late: "sql_le example_externs (to_rfc3339 example_externs 60000000005) (to_rfc3339 example_externs 70000000000)"
  by code_simp

theorem reservation_within_quota_witness:
  "\<exists>m' out. example_reserved = Inr (m', out) \<and>
    held_seconds (holding example_externs ''pr1'' (to_rfc3339 example_externs 5)) (marketplace_reservations (core m')) \<le> 28800"
proof -
  obtain m' out where r: "example_reserved = Inr (m', out)" and l: "length (marketplace_reservations (core m')) = 1"
    using example_reserved_ok by (auto split: sum.split_asm)
  have e: "marketplace_reservations (core example_market) = []" by (simp add: example_market_def example_sched_db_def example_db_def)
  with l have ne: "m' \<noteq> example_market" by auto
  have a: "reservation_project_access (vc_auth example_reserve) (vc_project_id example_reserve) example_market
    = Inr \<lparr>ra_organization_id = ''o1'', ra_project_id = ''pr1'', ra_max_active_reservations = 2,
        ra_max_reserved_gpu_seconds = 28800, ra_max_reservation_ttl_seconds = 3600\<rparr>"
    by code_simp
  show ?thesis
    using reservation_within_quota[OF r[unfolded example_reserved_def] ne] r a by (auto simp: example_reserve_def)
qed

text \<open>
  The price is frozen when the supply is reserved: a new reservation adds one pricing snapshot, a copy of the listing's
  active price with the platform's fees, under an identifier no snapshot has; the snapshot is the one of the new
  reservation, so that the checks of billing's settlement accept the pair, and older snapshots and the price book stay.
\<close>

theorem reservation_freezes_price:
  assumes run: "create_marketplace_reservation_idempotently X uuids c now m = Inr (m', out)" and new: "m' \<noteq> m"
  shows "\<exists>v n price. marketplace_reservations (core m') = expired_rows X now (marketplace_reservations (core m)) @ [v] \<and>
    bl_snapshots (mk_billing m') = bl_snapshots (mk_billing m) @ [n] \<and>
    find (\<lambda>x. Some (pn_pricing_snapshot_id x) = rv_pricing_snapshot_id v) (bl_snapshots (mk_billing m')) = Some n \<and>
    price \<in> set (bl_prices (mk_billing m)) \<and> mp_listing_id price = rv_listing_id v \<and> mp_status price = ''active'' \<and>
    pn_source_price_id n = mp_price_id price \<and> pn_price_per_hour_micros n = mp_price_per_hour_micros price \<and>
    pn_currency n = mp_currency price \<and> pn_pricing_model n = mp_pricing_model price \<and>
    validate_pricing_snapshot_matches_reservation v n = Inr () \<and>
    validate_legacy_fee_request_matches_snapshot \<lparr>tq_usage_entry_id = u, tq_platform_fee_bps = None, tq_chargeback_reserve_bps = None\<rparr> n
      = Inr () \<and> bl_prices (mk_billing m') = bl_prices (mk_billing m)"
  using run new
proof (rule create_reservationE)
  fix t r
  assume t: "reserve X uuids c now m = Inr (t, r)" and m': "core m' = core t" "mk_billing m' = mk_billing t"
  from t obtain access l price starts m1 v n where ch: "check_reservation X c now m1 = Inr (access, l, price, starts)"
    and m1: "marketplace_reservations (core m1) = expired_rows X now (marketplace_reservations (core m))"
      "bl_prices (mk_billing m1) = bl_prices (mk_billing m)"
    and v: "v = new_reservation X (''reservation_'' @ uuids 0) access l (''pricing_snapshot_'' @ uuids 1) c starts (to_rfc3339 X now)"
    and n: "n = new_snapshot (''pricing_snapshot_'' @ uuids 1) price (li_listing_id l) (to_rfc3339 X now)"
    and fresh: "\<forall>x \<in> set (bl_snapshots (mk_billing m)). pn_pricing_snapshot_id x \<noteq> pn_pricing_snapshot_id n"
    and w: "marketplace_reservations (core t) = marketplace_reservations (core m1) @ [v]"
      "bl_snapshots (mk_billing t) = bl_snapshots (mk_billing m) @ [n]" "bl_prices (mk_billing t) = bl_prices (mk_billing m)"
    by (rule reserveE)
  note chk = check_reservationE(9-11)[OF ch]
  have ids: "rv_pricing_snapshot_id v = Some (pn_pricing_snapshot_id n)" "rv_listing_id v = li_listing_id l" "pn_listing_id n = li_listing_id l"
    by (simp_all add: v n new_reservation_def new_snapshot_def)
  have "find (\<lambda>x. pn_pricing_snapshot_id x = pn_pricing_snapshot_id n) (bl_snapshots (mk_billing m)) = None"
    using fresh by (auto simp: find_None_iff)
  then have found: "find (\<lambda>x. Some (pn_pricing_snapshot_id x) = rv_pricing_snapshot_id v) (bl_snapshots (mk_billing m')) = Some n"
    by (simp add: m' w find_append_None ids(1))
  have fees: "validate_legacy_fee_request_matches_snapshot \<lparr>tq_usage_entry_id = u, tq_platform_fee_bps = None, tq_chargeback_reserve_bps = None\<rparr> n
      = Inr ()"
    by (simp add: validate_legacy_fee_request_matches_snapshot_def validate_bps_def n new_snapshot_def DEFAULT_PLATFORM_FEE_BPS_def
        DEFAULT_CHARGEBACK_RESERVE_BPS_def)
  show ?thesis
    by (rule exI[of _ v], rule exI[of _ n], rule exI[of _ price])
       (use chk found fees in \<open>simp add: m' w m1 ids validate_pricing_snapshot_matches_reservation_def, simp add: n new_snapshot_def\<close>)
qed

theorem reservation_freezes_price_witness:
  "\<exists>m' out n. example_reserved = Inr (m', out) \<and> bl_snapshots (mk_billing m') = [n] \<and> pn_price_per_hour_micros n = 1000"
proof -
  obtain m' out where r: "example_reserved = Inr (m', out)" and l: "length (marketplace_reservations (core m')) = 1"
    using example_reserved_ok by (auto split: sum.split_asm)
  have e: "marketplace_reservations (core example_market) = []" "bl_snapshots (mk_billing example_market) = []"
    "\<forall>p \<in> set (bl_prices (mk_billing example_market)). mp_price_per_hour_micros p = 1000"
    by (simp_all add: example_market_def example_sched_db_def example_db_def)
  from l e(1) have ne: "m' \<noteq> example_market" by auto
  from reservation_freezes_price[OF r[unfolded example_reserved_def] ne] obtain n price
    where "bl_snapshots (mk_billing m') = bl_snapshots (mk_billing example_market) @ [n]"
      "price \<in> set (bl_prices (mk_billing example_market))" "pn_price_per_hour_micros n = mp_price_per_hour_micros price"
    by blast
  with r e(2,3) show ?thesis by auto
qed


end
