(* ===== verification/Marketplace.thy ===== *)
theory Marketplace
  imports Placement Reservation_Safety
begin

text \<open>
  The marketplace registry (\<^verbatim>\<open>burd-control-plane/src/marketplace.rs\<close>): a sweep derives a listing for every row
  of workload eligibility from what the backend verified, and writes it over the listing of the same provider,
  device, workload and policy. The sweep reads its candidates in one transaction and writes the listings in
  another; the two are \<open>marketplace_candidates\<close> and \<open>sweep_listings\<close>. Columns of a listing that are copied from the
  candidate and only shown are left out.
\<close>

section \<open>Candidates\<close>

definition MARKETPLACE_SWEEP_LIMIT :: u32 where "MARKETPLACE_SWEEP_LIMIT = 500"
definition MAX_MARKETPLACE_LIST_LIMIT :: u32 where "MAX_MARKETPLACE_LIST_LIMIT = 200"

record RunMarketplaceListingSweepRequest =
  sw_limit :: "u32 option"
  sw_force :: bool
  sw_reason :: "string option"

record RunMarketplaceListingSweepResponse =
  rw_request_id :: string
  rw_evaluated :: nat
  rw_published :: nat
  rw_updated :: nat
  rw_skipped :: nat
  rw_listings :: "listing_row list"

record MarketplaceCandidate =
  cd_provider_id :: string
  cd_provider_status :: string
  cd_device_id :: string
  cd_device_status :: string
  cd_session_id :: "string option"
  cd_session_status :: "string option"
  cd_protocol_eligible :: bool
  cd_workload_type :: string
  cd_policy_id :: string
  cd_policy_version :: string
  cd_eligibility_status :: string
  cd_eligibility_reason_codes :: "string list"
  cd_trust_score :: "f64 option"
  cd_risk_score :: "f64 option"
  cd_reliability_score :: "f64 option"
  cd_verification_status :: "string option"
  cd_last_verified_at :: "string option"
  cd_remote_network_score :: "f64 option"
  cd_effective_network_score :: "f64 option"
  cd_regional_reachability :: "RegionalReachability list"
  cd_latest_gpu_uuid :: "string option"
  cd_vram_total_mib :: "int option"
  cd_benchmark_result_id :: "string option"
  cd_benchmark_status :: "string option"
  cd_benchmark_gpu_uuid :: "string option"
  cd_active_lease_count :: u32
  cd_active_reservation_count :: u32

text \<open>The lateral joins of the candidate query; the GPU is compared as it is written.\<close>

definition session_of :: "externs \<Rightarrow> eligibility_row \<Rightarrow> db \<Rightarrow> provider_session option" where
  "session_of X e s = latest_by (\<lambda>t. collation_key X (ps_started_at t))
     (filter (\<lambda>t. ps_provider_id t = el_provider_id e \<and> ps_device_id t = el_device_id e) (provider_sessions s))"

definition leases_on :: "eligibility_row \<Rightarrow> JobLeaseRecord \<Rightarrow> bool" where
  "leases_on e l \<longleftrightarrow> lease_provider_id l = el_provider_id e \<and> lease_device_id l = el_device_id e \<and>
     (case el_latest_gpu_uuid e of None \<Rightarrow> True | Some g \<Rightarrow> lease_gpu_uuid l = g) \<and> lease_active l"

definition reservations_on :: "eligibility_row \<Rightarrow> reservation_row \<Rightarrow> bool" where
  "reservations_on e v \<longleftrightarrow> rv_provider_id v = el_provider_id e \<and> rv_device_id v = el_device_id e \<and>
     rv_workload_type v = el_workload_type e \<and>
     (case el_latest_gpu_uuid e of None \<Rightarrow> True | Some g \<Rightarrow> rv_gpu_uuid v = Some g) \<and> rv_status v = ''reserved''"

text \<open>One row of the query; \<open>JOIN\<close> drops a row without provider or device, \<open>LEFT JOIN\<close> leaves columns \<open>NULL\<close>.\<close>

definition marketplace_candidate_from_row ::
  "externs \<Rightarrow> market \<Rightarrow> eligibility_row \<Rightarrow> MarketplaceCandidate option" where
  "marketplace_candidate_from_row X m e =
     Option.bind (find (\<lambda>p. pr_provider_id p = el_provider_id e) (providers (core m))) (\<lambda>p.
     Option.bind (find (\<lambda>d. dv_device_id d = el_device_id e \<and> dv_provider_id d = el_provider_id e) (devices (core m))) (\<lambda>d.
     let session = session_of X e (core m);
         verification = find (\<lambda>v. vt_provider_id v = el_provider_id e \<and> vt_device_id v = el_device_id e) (mk_verification_states m);
         network = find (\<lambda>v. nt_provider_id v = el_provider_id e \<and> nt_device_id v = el_device_id e) (mk_network_states m);
         benchmark = find (\<lambda>b. el_benchmark_result_id e = Some (bk_result_id b)) (mk_benchmark_results m) in
     Some \<lparr>cd_provider_id = el_provider_id e, cd_provider_status = pr_status p, cd_device_id = el_device_id e,
       cd_device_status = dv_status d, cd_session_id = map_option ps_session_id session,
       cd_session_status = (case session of Some t \<Rightarrow> Some (ps_status t) | None \<Rightarrow> el_session_status e),
       cd_protocol_eligible = (case session of None \<Rightarrow> False
          | Some t \<Rightarrow> assert_current_compute_protocol_negotiation (provider_sessions (core m)) (ps_session_id t) = Inr ()),
       cd_workload_type = el_workload_type e, cd_policy_id = el_policy_id e, cd_policy_version = el_policy_version e,
       cd_eligibility_status = el_status e, cd_eligibility_reason_codes = el_reason_codes e,
       cd_trust_score = el_trust_score e, cd_risk_score = el_risk_score e, cd_reliability_score = el_reliability_score e,
       cd_verification_status = el_verification_status e,
       cd_last_verified_at = Option.bind verification vt_last_verified_at,
       cd_remote_network_score = el_remote_network_score e,
       cd_effective_network_score = Option.bind network nt_effective_network_score,
       cd_regional_reachability = el_regional_reachability e, cd_latest_gpu_uuid = el_latest_gpu_uuid e,
       cd_vram_total_mib = el_vram_total_mib e, cd_benchmark_result_id = el_benchmark_result_id e,
       cd_benchmark_status = el_benchmark_status e, cd_benchmark_gpu_uuid = map_option bk_gpu_uuid benchmark,
       cd_active_lease_count = word_of_nat (sql_count (leases_on e) (job_leases (core m))),
       cd_active_reservation_count = word_of_nat (sql_count (reservations_on e) (marketplace_reservations (core m)))\<rparr>))"

definition sweep_order :: "externs \<Rightarrow> eligibility_row list \<Rightarrow> eligibility_row list" where
  "sweep_order X es =
     rev (sort_key (\<lambda>e. collation_key X (el_updated_at e))
       (rev (sort_key (\<lambda>e. (collation_key X (el_provider_id e), collation_key X (el_device_id e), collation_key X (el_workload_type e))) es)))"

definition marketplace_candidates :: "externs \<Rightarrow> u32 \<Rightarrow> market \<Rightarrow> MarketplaceCandidate list" where
  "marketplace_candidates X limit m =
     take (unat limit) (List.map_filter (marketplace_candidate_from_row X m) (sweep_order X (workload_eligibility (core m))))"

section \<open>Evaluation\<close>

record ListingEvaluation =
  ev_status :: string
  ev_current_status :: string
  ev_gpu_verified :: bool
  ev_gpu_verification_source :: string
  ev_vram_verified :: bool
  ev_vram_verification_source :: string
  ev_region :: "string option"
  ev_region_source :: string
  ev_proof_freshness_status :: string
  ev_price_source :: string
  ev_reason_codes :: "string list"

fun observed_region :: "RegionalReachability list \<Rightarrow> string option \<times> string" where
  "observed_region [] = (None, ''unobserved'')"
| "observed_region (r # rs) =
     (if rg_status r = ''unreachable'' then observed_region rs
      else case rg_approximate_region r of
        Some a \<Rightarrow> (Some a, ''regional_probe_approximate'')
      | None \<Rightarrow> (Some (rg_probe_region r), ''regional_probe''))"

definition current_marketplace_status :: "MarketplaceCandidate \<Rightarrow> string \<Rightarrow> string" where
  "current_marketplace_status c listing_status =
     (if listing_status = ''blocked'' then ''blocked''
      else if cd_active_lease_count c > 0 \<or> cd_active_reservation_count c > 0 then ''reserved''
      else case cd_session_status c of
        None \<Rightarrow> ''offline''
      | Some st \<Rightarrow>
          if st = ''online'' \<and> listing_status \<in> {''published'', ''limited''} then ''available''
          else if st = ''degraded'' \<and> listing_status \<in> {''published'', ''limited''} then ''degraded''
          else if st \<in> {''online'', ''degraded''} then listing_status
          else ''offline'')"

definition gpu_backend_verified :: "MarketplaceCandidate \<Rightarrow> bool" where
  "gpu_backend_verified c \<longleftrightarrow>
     cd_latest_gpu_uuid c \<noteq> None \<and> cd_verification_status c = Some ''verified'' \<and>
     (case (cd_latest_gpu_uuid c, cd_benchmark_gpu_uuid c) of
        (Some latest, Some benchmark) \<Rightarrow> latest = benchmark
      | (Some _, None) \<Rightarrow> cd_benchmark_result_id c \<noteq> None \<and> cd_benchmark_status c = Some ''succeeded''
      | _ \<Rightarrow> False)"

definition supply_blocked :: "MarketplaceCandidate \<Rightarrow> bool" where
  "supply_blocked c \<longleftrightarrow> cd_provider_status c \<in> {''blocked'', ''quarantined''} \<or> cd_device_status c \<noteq> ''active''"

definition listing_status_of :: "MarketplaceCandidate \<Rightarrow> bool \<Rightarrow> bool \<Rightarrow> string" where
  "listing_status_of c gpu_verified vram_verified =
     (if supply_blocked c then ''blocked''
      else if \<not> cd_protocol_eligible c \<or> \<not> gpu_verified \<or> \<not> vram_verified then ''verification_required''
      else if cd_eligibility_status c = ''eligible'' then ''published''
      else if cd_eligibility_status c = ''limited'' then ''limited''
      else if cd_eligibility_status c = ''temporarily_unavailable'' then ''temporarily_unavailable''
      else if cd_eligibility_status c = ''verification_required'' then ''verification_required''
      else if cd_eligibility_status c \<in> {''blocked'', ''ineligible''} then ''blocked''
      else ''verification_required'')"

definition proof_freshness :: "MarketplaceCandidate \<Rightarrow> string" where
  "proof_freshness c =
     (case cd_verification_status c of
        None \<Rightarrow> ''verification_missing''
      | Some st \<Rightarrow>
          if st = ''verified'' then (if cd_last_verified_at c \<noteq> None then ''freshness_backend_timestamp_present'' else ''verified_without_timestamp'')
          else ''not_verified_'' @ st)"

definition evaluate_marketplace_candidate :: "MarketplaceCandidate \<Rightarrow> ListingEvaluation" where
  "evaluate_marketplace_candidate c =
     (let gpu_verified = gpu_backend_verified c;
          vram_verified = (cd_vram_total_mib c \<noteq> None \<and> gpu_verified);
          (region, region_source) = observed_region (cd_regional_reachability c);
          status = listing_status_of c gpu_verified vram_verified;
          codes = cd_eligibility_reason_codes c
            @ (if cd_protocol_eligible c then [] else [''session_protocol_ineligible''])
            @ (if gpu_verified then [] else [''marketplace_gpu_not_backend_verified''])
            @ (if vram_verified then [] else [''marketplace_vram_not_backend_verified''])
            @ (if region = None then [''marketplace_region_unverified''] else [])
            @ [''marketplace_price_not_configured'']
            @ (if supply_blocked c then [''provider_or_device_blocked''] else []) in
      \<lparr>ev_status = status, ev_current_status = current_marketplace_status c status, ev_gpu_verified = gpu_verified,
       ev_gpu_verification_source = (if gpu_verified then ''backend_proof_and_benchmark''
          else if cd_latest_gpu_uuid c \<noteq> None then ''backend_observed_unverified'' else ''unobserved''),
       ev_vram_verified = vram_verified,
       ev_vram_verification_source = (if vram_verified then ''backend_telemetry_bound_to_verified_gpu''
          else if cd_vram_total_mib c \<noteq> None then ''backend_observed_unverified'' else ''unobserved''),
       ev_region = region, ev_region_source = region_source, ev_proof_freshness_status = proof_freshness c,
       ev_price_source = ''not_configured_bn16'', ev_reason_codes = remdups_adj (sort codes)\<rparr>)"

section \<open>The sweep\<close>

text \<open>The fields that the hash of a listing's source covers.\<close>

record ListingSourceClaims =
  lk_provider_id :: string
  lk_device_id :: string
  lk_workload_type :: string
  lk_policy_id :: string
  lk_policy_version :: string
  lk_eligibility_status :: string
  lk_trust_score :: "f64 option"
  lk_risk_score :: "f64 option"
  lk_reliability_score :: "f64 option"
  lk_verification_status :: "string option"
  lk_last_verified_at :: "string option"
  lk_remote_network_score :: "f64 option"
  lk_effective_network_score :: "f64 option"
  lk_latest_gpu_uuid :: "string option"
  lk_vram_total_mib :: "int option"
  lk_benchmark_result_id :: "string option"
  lk_benchmark_status :: "string option"
  lk_active_lease_count :: u32
  lk_active_reservation_count :: u32

definition listing_source_claims :: "MarketplaceCandidate \<Rightarrow> ListingSourceClaims" where
  "listing_source_claims c =
     \<lparr>lk_provider_id = cd_provider_id c, lk_device_id = cd_device_id c, lk_workload_type = cd_workload_type c,
      lk_policy_id = cd_policy_id c, lk_policy_version = cd_policy_version c, lk_eligibility_status = cd_eligibility_status c,
      lk_trust_score = cd_trust_score c, lk_risk_score = cd_risk_score c, lk_reliability_score = cd_reliability_score c,
      lk_verification_status = cd_verification_status c, lk_last_verified_at = cd_last_verified_at c,
      lk_remote_network_score = cd_remote_network_score c, lk_effective_network_score = cd_effective_network_score c,
      lk_latest_gpu_uuid = cd_latest_gpu_uuid c, lk_vram_total_mib = cd_vram_total_mib c,
      lk_benchmark_result_id = cd_benchmark_result_id c, lk_benchmark_status = cd_benchmark_status c,
      lk_active_lease_count = cd_active_lease_count c, lk_active_reservation_count = cd_active_reservation_count c\<rparr>"

definition new_listing_row ::
  "string \<Rightarrow> string \<Rightarrow> string \<Rightarrow> MarketplaceCandidate \<Rightarrow> listing_row" where
  "new_listing_row uuid source_hash now c =
     (let ev = evaluate_marketplace_candidate c in
      \<lparr>li_listing_id = ''listing_'' @ uuid, li_provider_id = cd_provider_id c, li_device_id = cd_device_id c,
       li_session_id = cd_session_id c, li_status = ev_status ev, li_current_status = ev_current_status ev,
       li_workload_type = cd_workload_type c, li_policy_id = cd_policy_id c, li_policy_version = cd_policy_version c,
       li_gpu_uuid = cd_latest_gpu_uuid c, li_gpu_verified = ev_gpu_verified ev,
       li_gpu_verification_source = ev_gpu_verification_source ev,
       li_vram_total_mib = map_option (\<lambda>v. word_of_int (max v 0)) (cd_vram_total_mib c), li_vram_verified = ev_vram_verified ev,
       li_vram_verification_source = ev_vram_verification_source ev, li_region = ev_region ev,
       li_region_source = ev_region_source ev, li_trust_score = cd_trust_score c, li_risk_score = cd_risk_score c,
       li_reliability_score = cd_reliability_score c, li_verification_status = cd_verification_status c,
       li_proof_freshness_status = ev_proof_freshness_status ev, li_last_verified_at = cd_last_verified_at c,
       li_remote_network_score = cd_remote_network_score c, li_price_currency = None, li_price_per_hour_micros = None,
       li_price_source = ev_price_source ev, li_active_lease_count = sint (cd_active_lease_count c),
       li_reason_codes = ev_reason_codes ev, li_source_hash = source_hash,
       li_published_at = (if ev_status ev \<in> {''published'', ''limited''} then Some now else None), li_updated_at = now\<rparr>)"

definition same_listing_key :: "listing_row \<Rightarrow> listing_row \<Rightarrow> bool" where
  "same_listing_key r l \<longleftrightarrow> li_provider_id l = li_provider_id r \<and> li_device_id l = li_device_id r \<and>
     li_workload_type l = li_workload_type r \<and> li_policy_id l = li_policy_id r \<and> li_policy_version l = li_policy_version r"

text \<open>\<open>INSERT \<dots> ON CONFLICT \<dots> DO UPDATE\<close>: every column but the identifier is overwritten.\<close>

definition upsert_listing :: "listing_row \<Rightarrow> listing_row list \<Rightarrow> listing_row list res" where
  "upsert_listing r ls =
     (if list_ex (same_listing_key r) ls
      then Inr (sql_update (same_listing_key r) (\<lambda>l. r\<lparr>li_listing_id := li_listing_id l\<rparr>) ls)
      else insert_unique (\<lambda>r l. li_listing_id l = li_listing_id r) r ls)"

definition marketplace_listing_from_row :: "listing_row \<Rightarrow> listing_row res" where
  "marketplace_listing_from_row l =
     bind_res (ensure (0 \<le> li_active_lease_count l) (Database ''negative marketplace count'')) (\<lambda>_. Inr l)"

fun sweep_listings ::
  "(ListingSourceClaims \<Rightarrow> string res) \<Rightarrow> (nat \<Rightarrow> string) \<Rightarrow> string \<Rightarrow> string \<Rightarrow> nat \<Rightarrow> MarketplaceCandidate list \<Rightarrow> market \<Rightarrow>
     (market \<times> listing_row list) res" where
  "sweep_listings hash uuids request_id now n [] m = Inr (m, [])"
| "sweep_listings hash uuids request_id now n (c # cs) m =
     bind_res (hash (listing_source_claims c)) (\<lambda>h.
     let row = new_listing_row (uuids n) h now c in
     bind_res (upsert_listing row (bl_listings (mk_billing m))) (\<lambda>ls.
     bind_res (load_one (same_listing_key row) ls) (\<lambda>stored.
     bind_res (marketplace_listing_from_row stored) (\<lambda>l.
     let m1 = with_core (insert_audit_event request_id ''system'' None ''marketplace_listing'' (li_listing_id l)
                ''marketplace_listing.recalculated'') (update_listings (\<lambda>_. ls) m) in
     bind_res (sweep_listings hash uuids request_id now (Suc n) cs m1) (\<lambda>(m2, rest). Inr (m2, l # rest))))))"

definition validate_marketplace_sweep_request :: "RunMarketplaceListingSweepRequest \<Rightarrow> unit res" where
  "validate_marketplace_sweep_request r =
     bind_res (ensure (sw_limit r \<noteq> Some 0) (Invalid ''limit must be greater than zero'')) (\<lambda>_.
     ensure (case sw_reason r of None \<Rightarrow> True | Some t \<Rightarrow> is_bounded_ascii t 160)
       (Invalid ''marketplace sweep reason must be printable ASCII''))"

definition run_marketplace_listing_sweep ::
  "externs \<Rightarrow> (ListingSourceClaims \<Rightarrow> string res) \<Rightarrow> (nat \<Rightarrow> string) \<Rightarrow> string \<Rightarrow> RunMarketplaceListingSweepRequest \<Rightarrow> int \<Rightarrow>
     market \<Rightarrow> (market \<times> RunMarketplaceListingSweepResponse) res" where
  "run_marketplace_listing_sweep X hash uuids request_id r now m =
     bind_res (validate_marketplace_sweep_request r) (\<lambda>_.
     let limit = min (case sw_limit r of None \<Rightarrow> MARKETPLACE_SWEEP_LIMIT | Some l \<Rightarrow> l) MARKETPLACE_SWEEP_LIMIT;
         candidates = marketplace_candidates X limit m;
         statuses = map (ev_status \<circ> evaluate_marketplace_candidate) candidates in
     bind_res (sweep_listings hash uuids request_id (to_rfc3339 X now) 0 candidates m) (\<lambda>(m', listings).
     Inr (m', \<lparr>rw_request_id = request_id, rw_evaluated = length candidates,
               rw_published = sql_count (\<lambda>s. s \<in> {''published'', ''limited''}) statuses, rw_updated = length listings,
               rw_skipped = sql_count (\<lambda>s. s = ''blocked'') statuses, rw_listings = listings\<rparr>)))"

section \<open>Reading listings\<close>

fun listings_from_rows :: "listing_row list \<Rightarrow> listing_row list res" where
  "listings_from_rows [] = Inr []"
| "listings_from_rows (l # ls) =
     bind_res (marketplace_listing_from_row l) (\<lambda>r. bind_res (listings_from_rows ls) (\<lambda>rs. Inr (r # rs)))"

definition list_marketplace_listings ::
  "externs \<Rightarrow> string option \<Rightarrow> string option \<Rightarrow> u32 \<Rightarrow> market \<Rightarrow> listing_row list res" where
  "list_marketplace_listings X status workload_type limit m =
     bind_res (case status of None \<Rightarrow> Inr () | Some s \<Rightarrow> validate_id ''status'' s 64) (\<lambda>_.
     bind_res (case workload_type of None \<Rightarrow> Inr () | Some w \<Rightarrow> validate_id ''workload_type'' w 96) (\<lambda>_.
     listings_from_rows (take (unat (clamp 1 MAX_MARKETPLACE_LIST_LIMIT limit))
       (sort_key (\<lambda>l. (f64_desc (li_trust_score l), f64_desc (li_reliability_score l), f64_desc (li_remote_network_score l)))
         (rev (sort_key (\<lambda>l. collation_key X (li_updated_at l))
           (rev (filter (\<lambda>l. (case status of None \<Rightarrow> li_status l \<in> {''published'', ''limited''} | Some s \<Rightarrow> li_status l = s) \<and>
              (case workload_type of None \<Rightarrow> True | Some w \<Rightarrow> li_workload_type l = w)) (bl_listings (mk_billing m))))))))))"

definition list_provider_marketplace_listings ::
  "externs \<Rightarrow> string \<Rightarrow> u32 \<Rightarrow> market \<Rightarrow> listing_row list res" where
  "list_provider_marketplace_listings X provider limit m =
     bind_res (validate_id ''provider_id'' provider 128) (\<lambda>_.
     listings_from_rows (take (unat (clamp 1 MAX_MARKETPLACE_LIST_LIMIT limit))
       (sort_key (\<lambda>l. (collation_key X (li_status l), collation_key X (li_workload_type l)))
         (rev (sort_key (\<lambda>l. collation_key X (li_updated_at l))
           (rev (filter (\<lambda>l. li_provider_id l = provider) (bl_listings (mk_billing m)))))))))"

section \<open>What a sweep writes\<close>

lemma same_listing_key_id [simp]: "same_listing_key r (l\<lparr>li_listing_id := x\<rparr>) = same_listing_key r l" "same_listing_key r r"
  by (simp_all add: same_listing_key_def)

lemma find_updated: "(\<And>x. P x \<Longrightarrow> P (f x)) \<Longrightarrow> find P (sql_update P f xs) = map_option f (find P xs)"
  by (induction xs) (auto simp: sql_update_def)

text \<open>The row that is read back is the one that was written, under the identifier the listing already had.\<close>

lemma upsert_listing_stored:
  assumes "upsert_listing r ls = Inr ls'" "load_one (same_listing_key r) ls' = Inr l"
  shows "l = r\<lparr>li_listing_id := li_listing_id l\<rparr>" "\<exists>new. map li_listing_id ls' = map li_listing_id ls @ new"
proof -
  have "l = r\<lparr>li_listing_id := li_listing_id l\<rparr> \<and> (\<exists>new. map li_listing_id ls' = map li_listing_id ls @ new)"
  proof (cases "list_ex (same_listing_key r) ls")
    case True
    then have ls': "ls' = sql_update (same_listing_key r) (\<lambda>l. r\<lparr>li_listing_id := li_listing_id l\<rparr>) ls"
      using assms(1) by (simp add: upsert_listing_def)
    then have "map li_listing_id ls' = map li_listing_id ls" by (simp add: sql_update_def)
    moreover have "l = r\<lparr>li_listing_id := li_listing_id l\<rparr>"
      using assms(2) unfolding ls' load_one_def by (subst (asm) find_updated) auto
    ultimately show ?thesis by auto
  next
    case False
    then have "ls' = ls @ [r]" using assms(1) by (simp add: upsert_listing_def insert_unique_Inr)
    moreover have "find (same_listing_key r) ls = None" using False by (simp add: find_None_iff list_ex_iff)
    ultimately show ?thesis using assms(2) by (simp add: load_one_def find_append_None)
  qed
  then show "l = r\<lparr>li_listing_id := li_listing_id l\<rparr>" "\<exists>new. map li_listing_id ls' = map li_listing_id ls @ new" by blast+
qed

lemma sweep_stepE:
  assumes "sweep_listings hash uuids rid now n (c # cs) m = Inr (m', ls)"
  obtains h l rest rows where "upsert_listing (new_listing_row (uuids n) h now c) (bl_listings (mk_billing m)) = Inr rows"
    "l = (new_listing_row (uuids n) h now c)\<lparr>li_listing_id := li_listing_id l\<rparr>"
    "\<exists>new. map li_listing_id rows = map li_listing_id (bl_listings (mk_billing m)) @ new" "ls = l # rest"
    "sweep_listings hash uuids rid now (Suc n) cs (with_core (insert_audit_event rid ''system'' None ''marketplace_listing'' (li_listing_id l)
       ''marketplace_listing.recalculated'') (update_listings (\<lambda>_. rows) m)) = Inr (m', rest)"
proof -
  from assms obtain h rows l rest where u: "upsert_listing (new_listing_row (uuids n) h now c) (bl_listings (mk_billing m)) = Inr rows"
      "load_one (same_listing_key (new_listing_row (uuids n) h now c)) rows = Inr l"
    and "ls = l # rest" "sweep_listings hash uuids rid now (Suc n) cs (with_core (insert_audit_event rid ''system'' None
       ''marketplace_listing'' (li_listing_id l) ''marketplace_listing.recalculated'') (update_listings (\<lambda>_. rows) m)) = Inr (m', rest)"
    unfolding sweep_listings.simps Let_def marketplace_listing_from_row_def by (elim bind_resE) (auto elim!: bind_resE split: if_split_asm)
  then show ?thesis by (intro that[OF u(1) upsert_listing_stored[OF u]])
qed

lemma swept_rows:
  "sweep_listings hash uuids rid now n cs m = Inr (m', ls) \<Longrightarrow> l \<in> set ls \<Longrightarrow>
     \<exists>c \<in> set cs. \<exists>u h. l = (new_listing_row u h now c)\<lparr>li_listing_id := li_listing_id l\<rparr>"
proof (induction cs arbitrary: n m ls)
  case (Cons c cs)
  from Cons.prems(1) show ?case
  proof (rule sweep_stepE)
    fix h l' rest rows
    assume l': "l' = (new_listing_row (uuids n) h now c)\<lparr>li_listing_id := li_listing_id l'\<rparr>" and "ls = l' # rest"
      and rest: "sweep_listings hash uuids rid now (Suc n) cs (with_core (insert_audit_event rid ''system'' None ''marketplace_listing''
        (li_listing_id l') ''marketplace_listing.recalculated'') (update_listings (\<lambda>_. rows) m)) = Inr (m', rest)"
    with Cons.prems(2) have "l = l' \<or> l \<in> set rest" by simp
    then show ?case using l' Cons.IH[OF rest] by (metis list.set_intros)
  qed
qed simp

lemma sweep_frame:
  "sweep_listings hash uuids rid now n cs m = Inr (m', ls) \<Longrightarrow>
     (\<exists>new. map li_listing_id (bl_listings (mk_billing m')) = map li_listing_id (bl_listings (mk_billing m)) @ new) \<and>
     bl_prices (mk_billing m') = bl_prices (mk_billing m) \<and>
     marketplace_reservations (core m') = marketplace_reservations (core m) \<and> mk_artifacts m' = mk_artifacts m"
proof (induction cs arbitrary: n m ls)
  case (Cons c cs)
  from Cons.prems show ?case
  proof (rule sweep_stepE)
    fix h l rest rows
    let ?m1 = "with_core (insert_audit_event rid ''system'' None ''marketplace_listing'' (li_listing_id l) ''marketplace_listing.recalculated'')
      (update_listings (\<lambda>_. rows) m)"
    assume rows: "\<exists>new. map li_listing_id rows = map li_listing_id (bl_listings (mk_billing m)) @ new"
      and "sweep_listings hash uuids rid now (Suc n) cs ?m1 = Inr (m', rest)"
    from Cons.IH[OF this(2)] rows show ?case
      by (auto simp: update_listings_def with_core_def insert_audit_event_def)
  qed
qed simp

text \<open>Where a published row comes from.\<close>

lemma published_row:
  assumes "ev_status (evaluate_marketplace_candidate c) \<in> {''published'', ''limited''}"
  shows "\<not> supply_blocked c" "cd_protocol_eligible c" "gpu_backend_verified c" "\<exists>v. cd_vram_total_mib c = Some v"
    "cd_eligibility_status c = (if ev_status (evaluate_marketplace_candidate c) = ''published'' then ''eligible'' else ''limited'')"
  using assms unfolding evaluate_marketplace_candidate_def Let_def listing_status_of_def
  by (auto split: prod.split_asm if_split_asm)

lemma available_row:
  assumes "ev_current_status (evaluate_marketplace_candidate c) = ''available''" "ev_status (evaluate_marketplace_candidate c) \<in> {''published'', ''limited''}"
  shows "cd_active_lease_count c = 0" "cd_active_reservation_count c = 0" "cd_session_status c = Some ''online''"
  using assms unfolding evaluate_marketplace_candidate_def Let_def
  by (auto simp: current_marketplace_status_def word_gt_0 split: prod.split_asm if_split_asm option.split_asm)

lemma candidate_sources:
  assumes "c \<in> set (marketplace_candidates X limit m)"
  obtains e p d where "e \<in> set (workload_eligibility (core m))" "p \<in> set (providers (core m))" "d \<in> set (devices (core m))"
    "pr_provider_id p = el_provider_id e" "dv_device_id d = el_device_id e" "marketplace_candidate_from_row X m e = Some c"
    "cd_provider_status c = pr_status p" "cd_device_status c = dv_status d"
proof -
  from assms obtain e where e: "e \<in> set (workload_eligibility (core m))" "marketplace_candidate_from_row X m e = Some c"
    unfolding marketplace_candidates_def sweep_order_def by (auto simp: List.map_filter_def dest!: in_set_takeD)
  from e(2) obtain p d where "find (\<lambda>p. pr_provider_id p = el_provider_id e) (providers (core m)) = Some p"
      "find (\<lambda>d. dv_device_id d = el_device_id e \<and> dv_provider_id d = el_provider_id e) (devices (core m)) = Some d"
      "cd_provider_status c = pr_status p" "cd_device_status c = dv_status d"
    unfolding marketplace_candidate_from_row_def Let_def by (auto simp: bind_eq_Some_conv)
  with find_SomeD[OF this(1)] find_SomeD[OF this(2)] show ?thesis by (intro that[OF e(1) _ _ _ _ e(2)]) simp_all
qed

lemma candidate_columns:
  assumes "marketplace_candidate_from_row X m e = Some c"
  shows "cd_provider_id c = el_provider_id e" "cd_device_id c = el_device_id e" "cd_workload_type c = el_workload_type e"
    "cd_eligibility_status c = el_status e" "cd_verification_status c = el_verification_status e"
    "cd_latest_gpu_uuid c = el_latest_gpu_uuid e" "cd_vram_total_mib c = el_vram_total_mib e"
    "cd_session_id c = map_option ps_session_id (session_of X e (core m))"
    "cd_session_status c = (case session_of X e (core m) of Some t \<Rightarrow> Some (ps_status t) | None \<Rightarrow> el_session_status e)"
    "cd_protocol_eligible c = (case session_of X e (core m) of None \<Rightarrow> False
       | Some t \<Rightarrow> assert_current_compute_protocol_negotiation (provider_sessions (core m)) (ps_session_id t) = Inr ())"
    "cd_active_lease_count c = word_of_nat (sql_count (leases_on e) (job_leases (core m)))"
    "cd_active_reservation_count c = word_of_nat (sql_count (reservations_on e) (marketplace_reservations (core m)))"
  using assms unfolding marketplace_candidate_from_row_def Let_def by (auto simp: bind_eq_Some_conv)

text \<open>The cast of a count to 32 bits is exact for tables of fewer rows.\<close>

lemma no_rows_counted:
  assumes "(word_of_nat (sql_count P rows) :: u32) = 0" "length rows < 2 ^ 32"
  shows "\<forall>r \<in> set rows. \<not> P r"
proof -
  have "sql_count P rows < 2 ^ 32" unfolding sql_count_def by (rule le_less_trans[OF length_filter_le assms(2)])
  then have "sql_count P rows = 0" using assms(1) by (auto simp: word_of_nat_eq_0_iff dest: nat_dvd_not_less)
  then show ?thesis by (simp add: sql_count_def filter_empty_conv)
qed

section \<open>Properties\<close>


text \<open>The sweep of the marketplace with one listing, and the same sweep after the listing was reserved.\<close>

definition example_source_hash :: "ListingSourceClaims \<Rightarrow> string res" where
  "example_source_hash _ = Inr ''h''"

definition example_sweep_request :: RunMarketplaceListingSweepRequest where
  "example_sweep_request = \<lparr>sw_limit = None, sw_force = False, sw_reason = None\<rparr>"

definition example_sweep :: "market \<Rightarrow> (market \<times> RunMarketplaceListingSweepResponse) res" where
  "example_sweep = run_marketplace_listing_sweep example_externs example_source_hash example_ids ''r'' example_sweep_request 7"

lemma example_swept:
  "case example_sweep example_market of Inr (m', r) \<Rightarrow>
     map (\<lambda>l. (li_listing_id l, li_status l, li_current_status l)) (rw_listings r) = [(''li1'', ''published'', ''available'')]
   | Inl _ \<Rightarrow> False"
  by code_simp


text \<open>
  C35. A sweep forgets prices: every listing it recalculates loses the price that the price book wrote into it, though
  the price book itself is unchanged, so that no workload with a price limit can be placed on it until the price is set
  again.
\<close>

theorem sweep_forgets_price:
  assumes run: "run_marketplace_listing_sweep X hash uuids rid r now m = Inr (m', resp)" and l: "l \<in> set (rw_listings resp)"
  shows "li_price_per_hour_micros l = None \<and> li_price_currency l = None \<and> bl_prices (mk_billing m') = bl_prices (mk_billing m) \<and>
    (\<forall>q limit. cq_maximum_price_per_hour_micros q = Some limit \<longrightarrow> \<not> listing_meets q l)"
proof -
  from run obtain cs where sw: "sweep_listings hash uuids rid (to_rfc3339 X now) 0 cs m = Inr (m', rw_listings resp)"
    unfolding run_marketplace_listing_sweep_def Let_def by (auto elim!: bind_resE)
  from swept_rows[OF this l] obtain c u h
    where row: "l = (new_listing_row u h (to_rfc3339 X now) c)\<lparr>li_listing_id := li_listing_id l\<rparr>" by blast
  have "li_price_per_hour_micros l = None" "li_price_currency l = None"
    by (subst row, simp add: new_listing_row_def Let_def)+
  then show ?thesis using sweep_frame[OF sw] by (simp add: listing_meets_def at_most_def)
qed

theorem sweep_forgets_price_witness:
  "\<exists>m' r l. example_sweep example_market = Inr (m', r) \<and> l \<in> set (rw_listings r) \<and> li_listing_id l = li_listing_id example_listing \<and>
     listing_meets (wq_requirements (wc_request example_command)) example_listing \<and>
     \<not> listing_meets (wq_requirements (wc_request example_command)) l"
proof -
  obtain m' r where run: "example_sweep example_market = Inr (m', r)"
    and "map (\<lambda>l. (li_listing_id l, li_status l, li_current_status l)) (rw_listings r) = [(''li1'', ''published'', ''available'')]"
    using example_swept by (auto split: sum.split_asm)
  then obtain l where l: "l \<in> set (rw_listings r)" "li_listing_id l = ''li1''" by auto
  have "listing_meets (wq_requirements (wc_request example_command)) example_listing" by code_simp
  moreover have "cq_maximum_price_per_hour_micros (wq_requirements (wc_request example_command)) = Some 2000" "li_listing_id example_listing = ''li1''"
    by (simp_all add: example_command_def example_listing_def)
  ultimately show ?thesis using sweep_forgets_price[OF run[unfolded example_sweep_def] l(1)] run l by (metis (no_types))
qed


end
