(* ===== verification/Customer_Artifact.thy ===== *)
theory Customer_Artifact
  imports Customer_Account
begin

text \<open>
  The input artifacts of a customer (\<^verbatim>\<open>burd-control-plane/src/customer_artifact.rs\<close> with the structs of
  \<^verbatim>\<open>burd-protocol/src/customer_artifact.rs\<close>): an upload intent declares digest and size, the upload records
  what the object store verified, and finalising makes the artifact ready for workloads. The lemmas show that
  the constraints of the table hold of every row the operations write, and that a row only moves forward and
  is frozen once it is ready.
\<close>

section \<open>Requests\<close>

definition CUSTOMER_ARTIFACT_SCHEMA_VERSION :: string where
  "CUSTOMER_ARTIFACT_SCHEMA_VERSION = ''burd-customer-artifact-v1''"
definition CUSTOMER_ARTIFACT_UPLOAD_INTENT_SCHEMA_VERSION :: string where
  "CUSTOMER_ARTIFACT_UPLOAD_INTENT_SCHEMA_VERSION = ''burd-customer-artifact-upload-intent-v1''"

definition MAX_CUSTOMER_ARTIFACT_BYTES :: u64 where "MAX_CUSTOMER_ARTIFACT_BYTES = 10737418240"
definition DEFAULT_ARTIFACT_RETENTION_SECONDS :: u32 where "DEFAULT_ARTIFACT_RETENTION_SECONDS = 604800"
definition MAX_ARTIFACT_RETENTION_SECONDS :: u32 where "MAX_ARTIFACT_RETENTION_SECONDS = 2592000"
definition UPLOAD_INTENT_TTL_SECONDS :: int where "UPLOAD_INTENT_TTL_SECONDS = 900"

record CreateCustomerArtifactRequest =
  aq_client_artifact_id :: "string option"
  aq_sha256 :: string
  aq_size_bytes :: u64
  aq_content_type :: "string option"
  aq_retention_seconds :: "u32 option"

record CreateCustomerArtifactCommand =
  af_request_id :: string
  af_scope :: string
  af_idempotency_key :: string
  af_request_hash :: string
  af_auth :: CustomerApiKeyAuth
  af_project_id :: string
  af_request :: CreateCustomerArtifactRequest

type_synonym CreateCustomerArtifactOutcome = "CustomerArtifactUploadIntentResponse keyed_outcome"

record AuthorizedCustomerArtifactUpload =
  au_artifact :: CustomerArtifactRecord
  au_object_key :: string

record CustomerArtifactResponse =
  cf_request_id :: string
  cf_artifact :: CustomerArtifactRecord
  cf_duplicate :: bool

definition validate_customer_digest :: "string \<Rightarrow> unit res" where
  "validate_customer_digest value =
     ensure (prefix ''sha256:'' value \<and>
       (let digest = drop 7 value in length digest = 64 \<and> list_all is_ascii_hexdigit digest))
       (Invalid ''customer artifact sha256 must use sha256:<64 hex>'')"

definition validate_create_request :: "CreateCustomerArtifactRequest \<Rightarrow> unit res" where
  "validate_create_request r =
     bind_res (case aq_client_artifact_id r of None \<Rightarrow> Inr () | Some v \<Rightarrow> validate_customer_id ''client_artifact_id'' v 128) (\<lambda>_.
     bind_res (validate_customer_digest (aq_sha256 r)) (\<lambda>_.
     bind_res (ensure (\<not> aq_size_bytes r > MAX_CUSTOMER_ARTIFACT_BYTES)
       (Invalid ''customer artifact exceeds the maximum size'')) (\<lambda>_.
     bind_res (ensure (case aq_content_type r of None \<Rightarrow> True
         | Some c \<Rightarrow> \<not> (c = [] \<or> length c > 255 \<or> any_control c))
       (Invalid ''customer artifact content_type is invalid'')) (\<lambda>_.
     ensure (case aq_retention_seconds r of None \<Rightarrow> True
         | Some s \<Rightarrow> \<not> (s = 0 \<or> s > MAX_ARTIFACT_RETENTION_SECONDS))
       (Invalid ''customer artifact retention_seconds is outside allowed range'')))))"

section \<open>Rows\<close>

definition artifact_project_access :: "CustomerApiKeyAuth \<Rightarrow> string \<Rightarrow> market \<Rightarrow> unit res" where
  "artifact_project_access auth project m =
     bind_res (assert_project_binding auth project) (\<lambda>_.
     ensure (find (\<lambda>p. pj_project_id p = project \<and> pj_organization_id p = ak_organization_id auth \<and> pj_status p = ''active'')
         (bl_projects (mk_billing m)) \<noteq> None) Unauthorized)"

definition artifact_timestamp :: "externs \<Rightarrow> string \<Rightarrow> int res" where
  "artifact_timestamp X value = ok_or (parse_from_rfc3339 X value) (Invalid ''customer artifact timestamp is invalid'')"

definition artifact_from_row :: "customer_artifact_row \<Rightarrow> CustomerArtifactRecord res" where
  "artifact_from_row t =
     bind_res (ensure (0 \<le> ct_size_bytes t) (Invalid ''customer artifact size is invalid'')) (\<lambda>_.
     Inr \<lparr>ar_artifact_id = ct_artifact_id t, ar_organization_id = ct_organization_id t, ar_project_id = ct_project_id t,
          ar_schema_version = ct_schema_version t, ar_client_artifact_id = ct_client_artifact_id t, ar_status = ct_status t,
          ar_sha256 = ct_sha256 t, ar_size_bytes = word_of_int (ct_size_bytes t), ar_content_type = ct_content_type t,
          ar_upload_expires_at = ct_upload_expires_at t, ar_expires_at = ct_expires_at t, ar_uploaded_at = ct_uploaded_at t,
          ar_ready_at = ct_ready_at t, ar_created_at = ct_created_at t, ar_updated_at = ct_updated_at t\<rparr>)"

definition load_artifact :: "string \<Rightarrow> market \<Rightarrow> CustomerArtifactRecord res" where
  "load_artifact aid m = bind_res (load_one (\<lambda>t. ct_artifact_id t = aid) (mk_artifacts m)) artifact_from_row"

text \<open>The query for an artifact of the key's organisation, and the one that also checks the caller.\<close>

definition owned_artifact :: "CustomerApiKeyAuth \<Rightarrow> string \<Rightarrow> string \<Rightarrow> market \<Rightarrow> customer_artifact_row res" where
  "owned_artifact auth project aid m =
     ok_or (find (\<lambda>t. ct_artifact_id t = aid \<and> ct_project_id t = project \<and> ct_organization_id t = ak_organization_id auth)
         (mk_artifacts m)) (NotFound ''customer artifact not found'')"

definition lock_owned_artifact :: "CustomerApiKeyAuth \<Rightarrow> string \<Rightarrow> string \<Rightarrow> market \<Rightarrow> customer_artifact_row res" where
  "lock_owned_artifact auth project aid m =
     bind_res (validate_customer_id ''project_id'' project 128) (\<lambda>_.
     bind_res (validate_customer_id ''artifact_id'' aid 128) (\<lambda>_.
     bind_res (assert_project_binding auth project) (\<lambda>_.
     owned_artifact auth project aid m)))"

definition upload_target :: "CustomerArtifactRecord \<Rightarrow> CustomerArtifactUploadTarget" where
  "upload_target a =
     \<lparr>ut_method = ''PUT'',
      ut_url = ''/v1/customer/projects/'' @ ar_project_id a @ ''/artifacts/'' @ ar_artifact_id a @ ''/content'',
      ut_expires_at = ar_upload_expires_at a, ut_content_length = ar_size_bytes a, ut_sha256 = ar_sha256 a\<rparr>"

definition insert_artifact_audit_event :: "CustomerApiKeyAuth \<Rightarrow> string \<Rightarrow> string \<Rightarrow> string \<Rightarrow> market \<Rightarrow> market" where
  "insert_artifact_audit_event auth project aid event_type =
     audit_market (ak_organization_id auth) (Some project) ''customer_api_key'' (Some (ak_api_key_id auth)) event_type
       ''customer_artifact'' aid"

section \<open>Operations\<close>

definition new_artifact_row ::
  "externs \<Rightarrow> string \<Rightarrow> CreateCustomerArtifactCommand \<Rightarrow> int \<Rightarrow> customer_artifact_row" where
  "new_artifact_row X uuid c now =
     (let r = af_request c; aid = ''artifact_'' @ uuid;
          retention = (case aq_retention_seconds r of None \<Rightarrow> DEFAULT_ARTIFACT_RETENTION_SECONDS | Some s \<Rightarrow> s) in
      \<lparr>ct_artifact_id = aid, ct_organization_id = ak_organization_id (af_auth c), ct_project_id = af_project_id c,
       ct_schema_version = CUSTOMER_ARTIFACT_SCHEMA_VERSION, ct_client_artifact_id = aq_client_artifact_id r,
       ct_status = ''pending_upload'', ct_object_key = ''customer-artifacts/'' @ aid @ ''/content'',
       ct_sha256 = to_ascii_lowercase (aq_sha256 r), ct_size_bytes = uint (aq_size_bytes r), ct_content_type = aq_content_type r,
       ct_upload_expires_at = to_rfc3339 X (now + UPLOAD_INTENT_TTL_SECONDS * nanos_per_second),
       ct_expires_at = to_rfc3339 X (now + uint retention * nanos_per_second), ct_verified_sha256 = None,
       ct_verified_size_bytes = None, ct_uploaded_at = None, ct_ready_at = None, ct_idempotency_key = af_idempotency_key c,
       ct_request_hash = af_request_hash c, ct_created_at = to_rfc3339 X now, ct_updated_at = to_rfc3339 X now\<rparr>)"

definition artifact_clash :: "customer_artifact_row \<Rightarrow> customer_artifact_row \<Rightarrow> bool" where
  "artifact_clash t old \<longleftrightarrow> ct_artifact_id old = ct_artifact_id t \<or> ct_object_key old = ct_object_key t \<or>
     ct_project_id old = ct_project_id t \<and> ct_client_artifact_id t \<noteq> None \<and> ct_client_artifact_id old = ct_client_artifact_id t \<or>
     ct_project_id old = ct_project_id t \<and> ct_idempotency_key old = ct_idempotency_key t"

definition create_artifact ::
  "externs \<Rightarrow> string \<Rightarrow> CreateCustomerArtifactCommand \<Rightarrow> int \<Rightarrow> market \<Rightarrow> (market \<times> CustomerArtifactUploadIntentResponse) res" where
  "create_artifact X uuid c now m =
     bind_res (artifact_project_access (af_auth c) (af_project_id c) m) (\<lambda>_.
     bind_res (ensure (uint (aq_size_bytes (af_request c)) \<le> i64_max) (Invalid ''numeric value is too large'')) (\<lambda>_.
     let row = new_artifact_row X uuid c now in
     bind_res (insert_unique artifact_clash row (mk_artifacts m)) (\<lambda>rows.
     let m1 = insert_artifact_audit_event (af_auth c) (af_project_id c) (ct_artifact_id row)
                ''customer_artifact.upload_intent_created'' (m\<lparr>mk_artifacts := rows\<rparr>) in
     bind_res (load_artifact (ct_artifact_id row) m1) (\<lambda>a.
     Inr (m1, \<lparr>ui_schema_version = CUSTOMER_ARTIFACT_UPLOAD_INTENT_SCHEMA_VERSION, ui_request_id = af_request_id c,
               ui_artifact = a, ui_upload = upload_target a, ui_duplicate = False\<rparr>)))))"

definition create_customer_artifact_idempotently ::
  "externs \<Rightarrow> string \<Rightarrow> CreateCustomerArtifactCommand \<Rightarrow> int \<Rightarrow> market \<Rightarrow> (market \<times> CreateCustomerArtifactOutcome) res" where
  "create_customer_artifact_idempotently X uuid c now m =
     bind_res (require_customer_scope (af_auth c) ''artifacts:write'') (\<lambda>_.
     bind_res (validate_customer_id ''project_id'' (af_project_id c) 128) (\<lambda>_.
     bind_res (validate_create_request (af_request c)) (\<lambda>_.
     idempotently mk_artifact_keys (\<lambda>ks m. m\<lparr>mk_artifact_keys := ks\<rparr>) (af_scope c) (af_idempotency_key c) (af_request_hash c)
       (create_artifact X uuid c now) m)))"

definition authorize_customer_artifact_upload ::
  "externs \<Rightarrow> CustomerApiKeyAuth \<Rightarrow> string \<Rightarrow> string \<Rightarrow> int \<Rightarrow> market \<Rightarrow> AuthorizedCustomerArtifactUpload res" where
  "authorize_customer_artifact_upload X auth project aid now m =
     bind_res (require_customer_scope auth ''artifacts:write'') (\<lambda>_.
     bind_res (validate_customer_id ''project_id'' project 128) (\<lambda>_.
     bind_res (validate_customer_id ''artifact_id'' aid 128) (\<lambda>_.
     bind_res (owned_artifact auth project aid m) (\<lambda>t.
     bind_res (assert_project_binding auth project) (\<lambda>_.
     bind_res (ensure (ct_status t \<in> {''pending_upload'', ''uploaded''})
       (Conflict ''customer artifact state does not allow upload'')) (\<lambda>_.
     bind_res (artifact_timestamp X (ct_upload_expires_at t)) (\<lambda>e.
     bind_res (ensure (\<not> e \<le> now) Expired) (\<lambda>_.
     bind_res (artifact_from_row t) (\<lambda>a.
     Inr \<lparr>au_artifact = a, au_object_key = ct_object_key t\<rparr>)))))))))"

definition authorize_customer_artifact_finalize ::
  "externs \<Rightarrow> CustomerApiKeyAuth \<Rightarrow> string \<Rightarrow> string \<Rightarrow> int \<Rightarrow> market \<Rightarrow> AuthorizedCustomerArtifactUpload res" where
  "authorize_customer_artifact_finalize X auth project aid now m =
     bind_res (require_customer_scope auth ''artifacts:write'') (\<lambda>_.
     bind_res (validate_customer_id ''project_id'' project 128) (\<lambda>_.
     bind_res (validate_customer_id ''artifact_id'' aid 128) (\<lambda>_.
     bind_res (assert_project_binding auth project) (\<lambda>_.
     bind_res (owned_artifact auth project aid m) (\<lambda>t.
     bind_res (artifact_from_row t) (\<lambda>a.
     bind_res (ensure (ar_status a \<in> {''uploaded'', ''ready''})
       (Conflict ''customer artifact must be uploaded before finalize'')) (\<lambda>_.
     bind_res (artifact_timestamp X (ar_expires_at a)) (\<lambda>e.
     bind_res (ensure (\<not> e \<le> now) Expired) (\<lambda>_.
     Inr \<lparr>au_artifact = a, au_object_key = ct_object_key t\<rparr>)))))))))"

definition record_customer_artifact_upload ::
  "externs \<Rightarrow> CustomerApiKeyAuth \<Rightarrow> string \<Rightarrow> string \<Rightarrow> string \<Rightarrow> u64 \<Rightarrow> int \<Rightarrow> market \<Rightarrow> (market \<times> CustomerArtifactRecord) res" where
  "record_customer_artifact_upload X auth project aid sha256 size_bytes now m =
     bind_res (require_customer_scope auth ''artifacts:write'') (\<lambda>_.
     bind_res (lock_owned_artifact auth project aid m) (\<lambda>t.
     bind_res (artifact_from_row t) (\<lambda>expected.
     bind_res (ensure (ar_status expected \<in> {''pending_upload'', ''uploaded''})
       (Conflict ''customer artifact state does not allow upload'')) (\<lambda>_.
     bind_res (artifact_timestamp X (ar_upload_expires_at expected)) (\<lambda>e.
     bind_res (ensure (\<not> e \<le> now) Expired) (\<lambda>_.
     bind_res (ensure (\<not> (sha256 \<noteq> ar_sha256 expected \<or> size_bytes \<noteq> ar_size_bytes expected))
       (Invalid ''customer artifact upload does not match its declaration'')) (\<lambda>_.
     bind_res (ensure (uint size_bytes \<le> i64_max) (Invalid ''numeric value is too large'')) (\<lambda>_.
     let now_text = to_rfc3339 X now;
         m1 = insert_artifact_audit_event auth project aid ''customer_artifact.uploaded''
           (m\<lparr>mk_artifacts := sql_update (\<lambda>o'. ct_artifact_id o' = aid)
              (\<lambda>o'. o'\<lparr>ct_status := ''uploaded'', ct_verified_sha256 := Some sha256, ct_verified_size_bytes := Some (uint size_bytes),
                 ct_uploaded_at := Some (case ct_uploaded_at o' of None \<Rightarrow> now_text | Some u \<Rightarrow> u), ct_updated_at := now_text\<rparr>)
              (mk_artifacts m)\<rparr>) in
     bind_res (load_artifact aid m1) (\<lambda>a. Inr (m1, a))))))))))"

definition finalize_customer_artifact ::
  "externs \<Rightarrow> string \<Rightarrow> CustomerApiKeyAuth \<Rightarrow> string \<Rightarrow> string \<Rightarrow> int \<Rightarrow> market \<Rightarrow> (market \<times> CustomerArtifactResponse) res" where
  "finalize_customer_artifact X request_id auth project aid now m =
     bind_res (require_customer_scope auth ''artifacts:write'') (\<lambda>_.
     bind_res (lock_owned_artifact auth project aid m) (\<lambda>t.
     bind_res (artifact_from_row t) (\<lambda>a.
     if ar_status a = ''ready'' then Inr (m, \<lparr>cf_request_id = request_id, cf_artifact = a, cf_duplicate = True\<rparr>)
     else
     bind_res (ensure (ar_status a = ''uploaded'') (Conflict ''customer artifact must be uploaded before finalize'')) (\<lambda>_.
     bind_res (artifact_timestamp X (ar_expires_at a)) (\<lambda>e.
     bind_res (ensure (\<not> e \<le> now) Expired) (\<lambda>_.
     bind_res (ensure (ct_verified_sha256 t = Some (ar_sha256 a) \<and>
         Option.bind (ct_verified_size_bytes t) (\<lambda>v. if 0 \<le> v then Some (word_of_int v) else None) = Some (ar_size_bytes a))
       (Conflict ''customer artifact verified upload does not match declaration'')) (\<lambda>_.
     let now_text = to_rfc3339 X now;
         m1 = insert_artifact_audit_event auth project aid ''customer_artifact.ready''
           (m\<lparr>mk_artifacts := sql_update (\<lambda>o'. ct_artifact_id o' = aid \<and> ct_status o' = ''uploaded'')
              (\<lambda>o'. o'\<lparr>ct_status := ''ready'', ct_ready_at := Some now_text, ct_updated_at := now_text\<rparr>) (mk_artifacts m)\<rparr>) in
     bind_res (load_artifact aid m1) (\<lambda>b.
     Inr (m1, \<lparr>cf_request_id = request_id, cf_artifact = b, cf_duplicate = False\<rparr>)))))))))"

section \<open>The constraints of the table\<close>

text \<open>The \<open>CHECK\<close> constraints and unique indexes of \<open>customer_artifacts\<close> (\<^verbatim>\<open>migrations/0033\<close>).\<close>

definition lower_digest :: "string \<Rightarrow> bool" where
  "lower_digest v \<longleftrightarrow> prefix ''sha256:'' v \<and> length (drop 7 v) = 64 \<and>
     list_all (\<lambda>c. is_ascii_hexdigit c \<and> \<not> is_ascii_uppercase c) (drop 7 v)"

definition size_in_bounds :: "int \<Rightarrow> bool" where
  "size_in_bounds n \<longleftrightarrow> 0 \<le> n \<and> n \<le> 10737418240"

definition artifact_ok :: "customer_artifact_row \<Rightarrow> bool" where
  "artifact_ok t \<longleftrightarrow>
     ct_status t \<in> {''pending_upload'', ''uploaded'', ''ready'', ''expired'', ''rejected''} \<and>
     lower_digest (ct_sha256 t) \<and> (\<forall>v \<in> set_option (ct_verified_sha256 t). lower_digest v) \<and>
     size_in_bounds (ct_size_bytes t) \<and> (\<forall>n \<in> set_option (ct_verified_size_bytes t). size_in_bounds n) \<and>
     (ct_verified_sha256 t = None \<longleftrightarrow> ct_uploaded_at t = None) \<and> (ct_verified_size_bytes t = None \<longleftrightarrow> ct_uploaded_at t = None) \<and>
     (ct_status t = ''ready'' \<longrightarrow> ct_ready_at t \<noteq> None \<and> ct_verified_sha256 t = Some (ct_sha256 t) \<and>
        ct_verified_size_bytes t = Some (ct_size_bytes t)) \<and>
     (ct_status t = ''pending_upload'' \<longrightarrow> ct_verified_sha256 t = None \<and> ct_verified_size_bytes t = None \<and> ct_ready_at t = None)"

definition artifacts_ok :: "customer_artifact_row list \<Rightarrow> bool" where
  "artifacts_ok ts \<longleftrightarrow> list_all artifact_ok ts \<and> sorted_wrt (\<lambda>old t. \<not> artifact_clash t old) ts"

text \<open>What is declared never changes, the status moves forward, and a ready row is final.\<close>

definition artifact_contract :: "customer_artifact_row \<Rightarrow> customer_artifact_row" where
  "artifact_contract t = t\<lparr>ct_status := [], ct_verified_sha256 := None, ct_verified_size_bytes := None, ct_uploaded_at := None,
     ct_ready_at := None, ct_updated_at := []\<rparr>"

definition artifact_evolves :: "customer_artifact_row \<Rightarrow> customer_artifact_row \<Rightarrow> bool" where
  "artifact_evolves t u \<longleftrightarrow> artifact_contract u = artifact_contract t \<and>
     (u = t \<or> ct_status t \<in> {''pending_upload'', ''uploaded''} \<and> ct_status u = ''uploaded'' \<or>
      ct_status t = ''uploaded'' \<and> ct_status u = ''ready'')"

section \<open>What the operations do\<close>

lemma is_hex_lower: "is_ascii_hexdigit c \<Longrightarrow> is_ascii_hexdigit (to_ascii_lowercase_char c) \<and> \<not> is_ascii_uppercase (to_ascii_lowercase_char c)"
  by (auto simp: ascii_simps)

lemma lowercase_algorithm: "map to_ascii_lowercase_char ''sha256:'' = ''sha256:''"
  by (simp add: to_ascii_lowercase_char_def is_ascii_uppercase_def)

lemma lower_digest_valid: "validate_customer_digest v = Inr () \<Longrightarrow> lower_digest (to_ascii_lowercase v)"
  using lowercase_algorithm
  by (auto simp: validate_customer_digest_def lower_digest_def Let_def prefix_def to_ascii_lowercase_def list_all_iff is_hex_lower)

lemma create_artifactE:
  assumes "create_customer_artifact_idempotently X uuid c now m = Inr (m', out)"
  obtains (replayed) "m' = m"
    | (created) "mk_artifacts m' = mk_artifacts m @ [new_artifact_row X uuid c now]" "validate_create_request (af_request c) = Inr ()"
      "\<forall>old \<in> set (mk_artifacts m). \<not> artifact_clash (new_artifact_row X uuid c now) old" "''artifacts:write'' \<in> set (ak_scopes (af_auth c))"
      "artifact_project_access (af_auth c) (af_project_id c) m = Inr ()"
  using assms unfolding create_customer_artifact_idempotently_def create_artifact_def Let_def
  by (elim bind_resE idempotentlyE)
    (auto simp: require_customer_scope_def insert_unique_Inr insert_artifact_audit_event_def audit_market_def elim!: bind_resE)

lemma lock_owned_artifactD:
  "lock_owned_artifact auth project aid m = Inr t \<Longrightarrow> t \<in> set (mk_artifacts m) \<and> ct_artifact_id t = aid \<and>
     ct_project_id t = project \<and> ct_organization_id t = ak_organization_id auth"
  unfolding lock_owned_artifact_def owned_artifact_def by (auto dest!: find_SomeD elim!: bind_resE)

lemma artifact_from_rowD:
  "artifact_from_row t = Inr a \<Longrightarrow> 0 \<le> ct_size_bytes t \<and> ar_status a = ct_status t \<and> ar_sha256 a = ct_sha256 t \<and>
     ar_size_bytes a = word_of_int (ct_size_bytes t) \<and> ar_expires_at a = ct_expires_at t"
  by (auto simp: artifact_from_row_def split: if_split_asm)

lemma artifacts_audited [simp]: "mk_artifacts (insert_artifact_audit_event auth project aid ev m) = mk_artifacts m"
  by (simp add: insert_artifact_audit_event_def audit_market_def)

lemma record_uploadE:
  assumes "record_customer_artifact_upload X auth project aid sha size_bytes now m = Inr (m', a)"
  obtains t where "t \<in> set (mk_artifacts m)" "ct_artifact_id t = aid" "ct_project_id t = project"
    "ct_organization_id t = ak_organization_id auth" "ct_status t \<in> {''pending_upload'', ''uploaded''}" "0 \<le> ct_size_bytes t"
    "sha = ct_sha256 t" "size_bytes = word_of_int (ct_size_bytes t)"
    "mk_artifacts m' = sql_update (\<lambda>o'. ct_artifact_id o' = aid)
       (\<lambda>o'. o'\<lparr>ct_status := ''uploaded'', ct_verified_sha256 := Some sha, ct_verified_size_bytes := Some (uint size_bytes),
          ct_uploaded_at := Some (case ct_uploaded_at o' of None \<Rightarrow> to_rfc3339 X now | Some u \<Rightarrow> u), ct_updated_at := to_rfc3339 X now\<rparr>)
       (mk_artifacts m)"
  using assms unfolding record_customer_artifact_upload_def Let_def
  by (elim bind_resE) (drule lock_owned_artifactD, drule artifact_from_rowD, auto)

lemma finalizeE:
  assumes "finalize_customer_artifact X rid auth project aid now m = Inr (m', r)"
  obtains (already) "m' = m"
    | (finalized) t where "t \<in> set (mk_artifacts m)" "ct_artifact_id t = aid" "ct_project_id t = project"
      "ct_organization_id t = ak_organization_id auth" "ct_status t = ''uploaded''" "0 \<le> ct_size_bytes t"
      "ct_verified_sha256 t = Some (ct_sha256 t)"
      "Option.bind (ct_verified_size_bytes t) (\<lambda>v. if 0 \<le> v then Some (word_of_int v) else None) = Some (word_of_int (ct_size_bytes t) :: u64)"
      "mk_artifacts m' = sql_update (\<lambda>o'. ct_artifact_id o' = aid \<and> ct_status o' = ''uploaded'')
         (\<lambda>o'. o'\<lparr>ct_status := ''ready'', ct_ready_at := Some (to_rfc3339 X now), ct_updated_at := to_rfc3339 X now\<rparr>) (mk_artifacts m)"
proof -
  from assms obtain t a where t: "lock_owned_artifact auth project aid m = Inr t" "artifact_from_row t = Inr a"
    unfolding finalize_customer_artifact_def by (elim bind_resE) blast
  show ?thesis
  proof (cases "ar_status a = ''ready''")
    case True
    then show ?thesis using assms t already unfolding finalize_customer_artifact_def by (auto elim!: bind_resE)
  next
    case False
    then show ?thesis
      using assms t finalized lock_owned_artifactD[OF t(1)] artifact_from_rowD[OF t(2)] unfolding finalize_customer_artifact_def Let_def
      by (elim bind_resE) (auto elim!: bind_resE split: if_split_asm)
  qed
qed

section \<open>The contract of an operation\<close>

lemma clash_keys:
  "ct_artifact_id (f t) = ct_artifact_id t \<Longrightarrow> ct_object_key (f t) = ct_object_key t \<Longrightarrow> ct_project_id (f t) = ct_project_id t \<Longrightarrow>
   ct_client_artifact_id (f t) = ct_client_artifact_id t \<Longrightarrow> ct_idempotency_key (f t) = ct_idempotency_key t \<Longrightarrow>
   artifact_clash (f t) u = artifact_clash t u \<and> artifact_clash u (f t) = artifact_clash u t"
  by (simp add: artifact_clash_def)

lemma artifacts_unique: "artifacts_ok ts \<Longrightarrow> t \<in> set ts \<Longrightarrow> u \<in> set ts \<Longrightarrow> ct_artifact_id u = ct_artifact_id t \<Longrightarrow> u = t"
  unfolding artifacts_ok_def by (induction ts) (auto simp: artifact_clash_def)

text \<open>
  An update of the row of one artifact keeps the table well formed and lets its rows evolve, when it does so for
  that row: the columns of the unique indexes are declared ones.
\<close>

lemma update_artifact:
  assumes ok: "artifacts_ok ts" and t: "t \<in> set ts" and P: "\<And>u. P u \<Longrightarrow> ct_artifact_id u = ct_artifact_id t"
    and row: "P t \<Longrightarrow> artifact_ok (f t) \<and> artifact_evolves t (f t)" and contract: "\<And>u. artifact_contract (f u) = artifact_contract u"
  shows "artifacts_ok (sql_update P f ts) \<and> list_all2 artifact_evolves ts (sql_update P f ts)"
proof -
  have only: "u = t" if "u \<in> set ts" "P u" for u using artifacts_unique[OF ok t that(1)] P[OF that(2)] by simp
  have keys: "ct_artifact_id (f u) = ct_artifact_id u \<and> ct_object_key (f u) = ct_object_key u \<and> ct_project_id (f u) = ct_project_id u \<and>
      ct_client_artifact_id (f u) = ct_client_artifact_id u \<and> ct_idempotency_key (f u) = ct_idempotency_key u" for u
    using contract[of u] unfolding artifact_contract_def by (cases u, cases "f u") simp
  have rows: "artifact_ok (if P u then f u else u)" "artifact_evolves u (if P u then f u else u)" if "u \<in> set ts" for u
    using ok only[OF that] row that unfolding artifacts_ok_def artifact_evolves_def by (auto simp: list_all_iff)
  have "sorted_wrt (\<lambda>old t. \<not> artifact_clash t old) (sql_update P f ts)"
    using ok unfolding sql_update_def sorted_wrt_map artifacts_ok_def
    by (elim conjE, elim sorted_wrt_mono_rel[rotated]) (use keys in \<open>simp add: artifact_clash_def\<close>)
  moreover have "list_all artifact_ok (sql_update P f ts)"
    unfolding list_all_iff by (rule ballI, unfold in_sql_update_iff, elim bexE, hypsubst, rule rows(1))
  moreover have "list_all2 artifact_evolves ts (sql_update P f ts)"
    using rows(2) unfolding sql_update_def list_all2_map2 by (intro list.rel_refl_strong)
  ultimately show ?thesis by (simp add: artifacts_ok_def)
qed

locale artifact_operation =
  fixes step :: "market \<Rightarrow> market \<Rightarrow> bool"
  assumes well_typed: "step m m' \<Longrightarrow> artifacts_ok (mk_artifacts m) \<Longrightarrow> artifacts_ok (mk_artifacts m')"
    and evolves: "step m m' \<Longrightarrow> artifacts_ok (mk_artifacts m) \<Longrightarrow>
      list_all2 artifact_evolves (mk_artifacts m) (take (length (mk_artifacts m)) (mk_artifacts m'))"
begin

text \<open>What a workload may rely on: a ready artifact stays as it is.\<close>

lemma ready_kept:
  assumes "step m m'" "artifacts_ok (mk_artifacts m)" "t \<in> set (mk_artifacts m)" "ct_status t = ''ready''"
  shows "t \<in> set (mk_artifacts m')"
proof -
  obtain i where i: "i < length (mk_artifacts m)" "mk_artifacts m ! i = t" using assms(3) by (auto simp: in_set_conv_nth)
  note ev = list_all2_nthD[OF evolves[OF assms(1,2)] i(1)]
  then have "take (length (mk_artifacts m)) (mk_artifacts m') ! i = t" using i assms(4) by (auto simp: artifact_evolves_def)
  moreover have "i < length (take (length (mk_artifacts m)) (mk_artifacts m'))"
    using list_all2_lengthD[OF evolves[OF assms(1,2)]] i(1) by simp
  ultimately show ?thesis using in_set_takeD nth_mem by metis
qed

end

lemma new_artifact_ok:
  assumes "validate_create_request (af_request c) = Inr ()"
  shows "artifact_ok (new_artifact_row X uuid c now)"
proof -
  from assms have "validate_customer_digest (aq_sha256 (af_request c)) = Inr ()" "aq_size_bytes (af_request c) \<le> MAX_CUSTOMER_ARTIFACT_BYTES"
    unfolding validate_create_request_def by (auto elim!: bind_resE split: if_split_asm)
  then have "lower_digest (to_ascii_lowercase (aq_sha256 (af_request c)))" "uint (aq_size_bytes (af_request c)) \<le> 10737418240"
    by (auto simp: lower_digest_valid MAX_CUSTOMER_ARTIFACT_BYTES_def word_le_def)
  then show ?thesis by (simp add: artifact_ok_def new_artifact_row_def Let_def size_in_bounds_def)
qed

lemma evolves_refl [simp]: "artifact_evolves t t"
  by (simp add: artifact_evolves_def)

interpretation creating_artifact: artifact_operation
  "\<lambda>m m'. \<exists>X uuid c now out. create_customer_artifact_idempotently X uuid c now m = Inr (m', out)"
proof
  fix m m' assume "\<exists>X uuid c now out. create_customer_artifact_idempotently X uuid c now m = Inr (m', out)"
  then obtain X uuid c now out where run: "create_customer_artifact_idempotently X uuid c now m = Inr (m', out)" by blast
  assume ok: "artifacts_ok (mk_artifacts m)"
  from run show "artifacts_ok (mk_artifacts m')"
    by (rule create_artifactE) (use ok new_artifact_ok in \<open>auto simp: artifacts_ok_def sorted_wrt_append\<close>)
  from run show "list_all2 artifact_evolves (mk_artifacts m) (take (length (mk_artifacts m)) (mk_artifacts m'))"
    by (rule create_artifactE) (simp_all add: list.rel_refl)
qed

lemma word_of_bounded: "size_in_bounds n \<Longrightarrow> uint (word_of_int n :: u64) = n"
  by (simp add: size_in_bounds_def uint_word_of_int_eq take_bit_int_eq_self)

lemma record_upload_keeps:
  assumes "record_customer_artifact_upload X auth project aid sha size_bytes now m = Inr (m', a)" and ok: "artifacts_ok (mk_artifacts m)"
  shows "artifacts_ok (mk_artifacts m') \<and> list_all2 artifact_evolves (mk_artifacts m) (mk_artifacts m')"
  using assms(1)
proof (rule record_uploadE)
  fix t
  let ?f = "\<lambda>o'. o'\<lparr>ct_status := ''uploaded'', ct_verified_sha256 := Some sha, ct_verified_size_bytes := Some (uint size_bytes),
      ct_uploaded_at := Some (case ct_uploaded_at o' of None \<Rightarrow> to_rfc3339 X now | Some u \<Rightarrow> u), ct_updated_at := to_rfc3339 X now\<rparr>"
  assume t: "t \<in> set (mk_artifacts m)" "ct_artifact_id t = aid" "ct_status t \<in> {''pending_upload'', ''uploaded''}"
    and s: "sha = ct_sha256 t" "size_bytes = word_of_int (ct_size_bytes t)"
    and m': "mk_artifacts m' = sql_update (\<lambda>o'. ct_artifact_id o' = aid) ?f (mk_artifacts m)"
  have a: "artifact_ok t" using ok t(1) by (simp add: artifacts_ok_def list_all_iff)
  then have "uint size_bytes = ct_size_bytes t" unfolding s artifact_ok_def by (simp add: word_of_bounded)
  then have "artifact_ok (?f t)" using a s(1) by (simp add: artifact_ok_def)
  moreover have "artifact_evolves t (?f t)" using t(3) by (simp add: artifact_evolves_def artifact_contract_def)
  ultimately show ?thesis unfolding m' by (intro update_artifact[OF ok t(1)]) (auto simp: t(2) artifact_contract_def)
qed

interpretation recording_upload: artifact_operation
  "\<lambda>m m'. \<exists>X auth project aid sha size_bytes now a. record_customer_artifact_upload X auth project aid sha size_bytes now m = Inr (m', a)"
  using record_upload_keeps by unfold_locales (blast, metis list_all2_lengthD take_all_iff order_refl)

lemma finalize_keeps:
  assumes "finalize_customer_artifact X rid auth project aid now m = Inr (m', r)" and ok: "artifacts_ok (mk_artifacts m)"
  shows "artifacts_ok (mk_artifacts m') \<and> list_all2 artifact_evolves (mk_artifacts m) (mk_artifacts m')"
  using assms(1)
proof (rule finalizeE)
  assume "m' = m" then show ?thesis using ok by (simp add: list.rel_refl)
next
  fix t
  let ?f = "\<lambda>o'. o'\<lparr>ct_status := ''ready'', ct_ready_at := Some (to_rfc3339 X now), ct_updated_at := to_rfc3339 X now\<rparr>"
  assume t: "t \<in> set (mk_artifacts m)" "ct_artifact_id t = aid" "ct_status t = ''uploaded''" "ct_verified_sha256 t = Some (ct_sha256 t)"
    and size: "Option.bind (ct_verified_size_bytes t) (\<lambda>v. if 0 \<le> v then Some (word_of_int v) else None) = Some (word_of_int (ct_size_bytes t) :: u64)"
    and m': "mk_artifacts m' = sql_update (\<lambda>o'. ct_artifact_id o' = aid \<and> ct_status o' = ''uploaded'') ?f (mk_artifacts m)"
  have a: "artifact_ok t" using ok t(1) by (simp add: artifacts_ok_def list_all_iff)
  from size obtain v where v: "ct_verified_size_bytes t = Some v" "(word_of_int v :: u64) = word_of_int (ct_size_bytes t)"
    by (auto simp: bind_eq_Some_conv split: if_split_asm)
  moreover from a v(1) have "size_in_bounds v" "size_in_bounds (ct_size_bytes t)" by (simp_all add: artifact_ok_def)
  ultimately have "v = ct_size_bytes t" using word_of_bounded by metis
  then have "artifact_ok (?f t)" using a t v(1) by (simp add: artifact_ok_def)
  moreover have "artifact_evolves t (?f t)" using t(3) by (simp add: artifact_evolves_def artifact_contract_def)
  ultimately show ?thesis unfolding m' by (intro update_artifact[OF ok t(1)]) (auto simp: t(2) artifact_contract_def)
qed

interpretation finalizing_artifact: artifact_operation
  "\<lambda>m m'. \<exists>X rid auth project aid now r. finalize_customer_artifact X rid auth project aid now m = Inr (m', r)"
  using finalize_keeps by unfold_locales (blast, metis list_all2_lengthD take_all_iff order_refl)

end
