(* ===== verification/Human_Auth.thy ===== *)
theory Human_Auth
  imports Customer_Account
begin

text \<open>
  The people behind the accounts (\<^verbatim>\<open>burd-control-plane/src/human_auth.rs\<close>, structs of
  \<^verbatim>\<open>burd-protocol/src/human_auth.rs\<close>): a login with a verified identity of the OIDC provider finds or creates
  its user and opens a browser session, of which the database holds only the hash of the token. Verifying the
  provider's own token is outside of this module; generated identifiers, the random token and the instant of a
  transaction are arguments.
\<close>

section \<open>Data\<close>

definition HUMAN_AUTH_SCHEMA_VERSION :: string where
  "HUMAN_AUTH_SCHEMA_VERSION = ''burd-human-auth-v1''"

record HumanSessionAuth =
  ha_session_id :: string
  ha_user_id :: string

record VerifiedGoogleIdentity =
  vg_subject :: string
  vg_email :: "string option"
  vg_email_verified :: bool

record CreatedHumanSession =
  ch_auth :: HumanSessionAuth
  ch_token :: string

record HumanIdentitySummary =
  hs_provider :: string
  hs_email :: "string option"
  hs_email_verified :: bool

record HumanOrganizationMembershipSummary =
  ho_organization_id :: string
  ho_role :: string
  ho_status :: string

record HumanMeResponse =
  hr_request_id :: string
  hr_schema_version :: string
  hr_user_id :: string
  hr_status :: string
  hr_identity :: HumanIdentitySummary
  hr_organization_memberships :: "HumanOrganizationMembershipSummary list"

section \<open>Operations\<close>

definition validate_google_identity :: "VerifiedGoogleIdentity \<Rightarrow> unit res" where
  "validate_google_identity i =
     bind_res (ensure (\<not> (vg_subject i = [] \<or> length (vg_subject i) > 255 \<or> \<not> list_all is_ascii (vg_subject i))) Unauthorized) (\<lambda>_.
     bind_res (ensure (\<not> (vg_email i = None \<or> \<not> vg_email_verified i)) Unauthorized) (\<lambda>_.
     ensure (case vg_email i of None \<Rightarrow> True | Some email \<Rightarrow> \<not> (length email > 254 \<or> \<not> list_all is_ascii email)) Unauthorized))"

definition insert_human_audit :: "string \<Rightarrow> string \<Rightarrow> string \<Rightarrow> market \<Rightarrow> market" where
  "insert_human_audit request_id user event_type =
     with_core (insert_audit_event request_id ''human_user'' (Some user) ''user'' user event_type)"

text \<open>The statement fails on the primary key, on the hash of the token and on the constraint that a session ends after it begins.\<close>

definition session_clash :: "human_session_row \<Rightarrow> human_session_row \<Rightarrow> bool" where
  "session_clash s old \<longleftrightarrow> hv_session_id old = hv_session_id s \<or> hv_token_hash old = hv_token_hash s"

definition new_session_row :: "externs \<Rightarrow> string \<Rightarrow> string \<Rightarrow> string \<Rightarrow> int \<Rightarrow> u32 \<Rightarrow> human_session_row" where
  "new_session_row X uuid token user now ttl =
     \<lparr>hv_session_id = ''hsess_'' @ uuid, hv_user_id = user, hv_token_hash = sha256_hex X token, hv_status = ''active'',
      hv_created_at = to_rfc3339 X now, hv_expires_at = to_rfc3339 X (now + uint ttl * nanos_per_second),
      hv_last_seen_at = None, hv_revoked_at = None\<rparr>"

definition insert_session ::
  "externs \<Rightarrow> string \<Rightarrow> string res \<Rightarrow> string \<Rightarrow> int \<Rightarrow> u32 \<Rightarrow> market \<Rightarrow> (market \<times> CreatedHumanSession) res" where
  "insert_session X uuid random_token user now ttl m =
     bind_res random_token (\<lambda>token.
     let row = new_session_row X uuid token user now ttl in
     bind_res (ensure (sql_less X (hv_created_at row) (hv_expires_at row))
       (Database ''violates check constraint human_sessions_expiry_after_creation'')) (\<lambda>_.
     bind_res (insert_unique session_clash row (mk_human_sessions m)) (\<lambda>rows.
     Inr (m\<lparr>mk_human_sessions := rows\<rparr>,
          \<lparr>ch_auth = \<lparr>ha_session_id = hv_session_id row, ha_user_id = user\<rparr>, ch_token = token\<rparr>))))"

text \<open>The identity with its user, as the login reads them.\<close>

definition identity_with_user :: "string \<Rightarrow> market \<Rightarrow> (oidc_identity_row \<times> CustomerUserRecord) option" where
  "identity_with_user subject m =
     find (\<lambda>(i, u). hi_provider i = ''google'' \<and> hi_provider_subject i = subject \<and> us_user_id u = hi_user_id i)
       (List.product (mk_identities m) (mk_users m))"

definition identity_clash :: "oidc_identity_row \<Rightarrow> oidc_identity_row \<Rightarrow> bool" where
  "identity_clash i old \<longleftrightarrow> hi_oidc_identity_id old = hi_oidc_identity_id i \<or>
     hi_provider old = hi_provider i \<and> hi_provider_subject old = hi_provider_subject i"

definition user_clash :: "CustomerUserRecord \<Rightarrow> CustomerUserRecord \<Rightarrow> bool" where
  "user_clash u old \<longleftrightarrow> us_user_id old = us_user_id u \<or> us_email u \<noteq> None \<and> us_email old = us_email u"

definition known_person ::
  "VerifiedGoogleIdentity \<Rightarrow> string \<Rightarrow> oidc_identity_row \<Rightarrow> CustomerUserRecord \<Rightarrow> market \<Rightarrow> (market \<times> string) res" where
  "known_person identity now_text i u m =
     bind_res (ensure (us_status u = ''active'') Unauthorized) (\<lambda>_.
     Inr (m\<lparr>mk_identities := sql_update (\<lambda>o'. hi_oidc_identity_id o' = hi_oidc_identity_id i)
              (\<lambda>o'. o'\<lparr>hi_email := vg_email identity, hi_email_verified := vg_email_verified identity,
                 hi_updated_at := now_text, hi_last_login_at := Some now_text\<rparr>) (mk_identities m)\<rparr>, hi_user_id i))"

definition new_person ::
  "string \<Rightarrow> string \<Rightarrow> string \<Rightarrow> VerifiedGoogleIdentity \<Rightarrow> string \<Rightarrow> market \<Rightarrow> (market \<times> string) res" where
  "new_person user_uuid identity_uuid request_id identity now_text m =
     (let user = ''user_'' @ user_uuid in
     bind_res (insert_unique user_clash
       \<lparr>us_user_id = user, us_email = None, us_status = ''active'', us_created_at = now_text, us_updated_at = now_text\<rparr>
       (mk_users m)) (\<lambda>users.
     bind_res (insert_unique identity_clash
       \<lparr>hi_oidc_identity_id = ''oidc_'' @ identity_uuid, hi_user_id = user, hi_provider = ''google'',
        hi_provider_subject = vg_subject identity, hi_email = vg_email identity, hi_email_verified = vg_email_verified identity,
        hi_created_at = now_text, hi_updated_at = now_text, hi_last_login_at = Some now_text\<rparr> (mk_identities m)) (\<lambda>identities.
     Inr (insert_human_audit request_id user ''human_oidc_identity.created'' (m\<lparr>mk_users := users, mk_identities := identities\<rparr>),
          user))))"

definition create_google_human_session ::
  "externs \<Rightarrow> string \<times> string \<times> string \<Rightarrow> string res \<Rightarrow> string \<Rightarrow> VerifiedGoogleIdentity \<Rightarrow> u32 \<Rightarrow> int \<Rightarrow> market \<Rightarrow>
     (market \<times> CreatedHumanSession) res" where
  "create_google_human_session X uuids random_token request_id identity ttl now m =
     (case uuids of (user_uuid, identity_uuid, session_uuid) \<Rightarrow>
     bind_res (validate_google_identity identity) (\<lambda>_.
     let now_text = to_rfc3339 X now in
     bind_res (case identity_with_user (vg_subject identity) m of
         Some (i, u) \<Rightarrow> known_person identity now_text i u m
       | None \<Rightarrow> new_person user_uuid identity_uuid request_id identity now_text m) (\<lambda>(m1, user).
     bind_res (insert_session X session_uuid random_token user now ttl m1) (\<lambda>(m2, created).
     Inr (insert_human_audit request_id user ''human_session.created'' m2, created)))))"

definition session_with_user :: "externs \<Rightarrow> string \<Rightarrow> market \<Rightarrow> (human_session_row \<times> CustomerUserRecord) option" where
  "session_with_user X token m =
     find (\<lambda>(s, u). hv_token_hash s = sha256_hex X token \<and> us_user_id u = hv_user_id s)
       (List.product (mk_human_sessions m) (mk_users m))"

text \<open>The message of the parser is not modelled.\<close>

definition authorize_human_session ::
  "externs \<Rightarrow> string \<Rightarrow> int \<Rightarrow> market \<Rightarrow> (market \<times> HumanSessionAuth) res" where
  "authorize_human_session X token now m =
     bind_res (ensure (\<not> (token = [] \<or> length token > 256)) Unauthorized) (\<lambda>_.
     bind_res (ok_or (session_with_user X token m) Unauthorized) (\<lambda>(s, u).
     bind_res (ok_or (parse_from_rfc3339 X (hv_expires_at s)) (Database ''invalid expires_at'')) (\<lambda>expires_at.
     bind_res (ensure (\<not> (hv_status s \<noteq> ''active'' \<or> us_status u \<noteq> ''active'' \<or> expires_at \<le> now)) Unauthorized) (\<lambda>_.
     Inr (m\<lparr>mk_human_sessions := sql_update (\<lambda>o'. hv_session_id o' = hv_session_id s \<and>
              (case hv_last_seen_at o' of None \<Rightarrow> True
               | Some seen \<Rightarrow> sql_less X seen (to_rfc3339 X (now - 5 * 60 * nanos_per_second))))
              (\<lambda>o'. o'\<lparr>hv_last_seen_at := Some (to_rfc3339 X now)\<rparr>) (mk_human_sessions m)\<rparr>,
          \<lparr>ha_session_id = hv_session_id s, ha_user_id = hv_user_id s\<rparr>)))))"

definition human_me :: "externs \<Rightarrow> string \<Rightarrow> HumanSessionAuth \<Rightarrow> market \<Rightarrow> HumanMeResponse res" where
  "human_me X request_id auth m =
     bind_res (load_one (\<lambda>u. us_user_id u = ha_user_id auth) (mk_users m)) (\<lambda>user.
     bind_res (load_one (\<lambda>_. True) (sort_key (\<lambda>i. collation_key X (hi_created_at i))
         (filter (\<lambda>i. hi_user_id i = ha_user_id auth) (mk_identities m)))) (\<lambda>identity.
     Inr \<lparr>hr_request_id = request_id, hr_schema_version = HUMAN_AUTH_SCHEMA_VERSION, hr_user_id = ha_user_id auth,
          hr_status = us_status user,
          hr_identity = \<lparr>hs_provider = hi_provider identity, hs_email = hi_email identity, hs_email_verified = hi_email_verified identity\<rparr>,
          hr_organization_memberships =
            map (\<lambda>o'. \<lparr>ho_organization_id = om_organization_id o', ho_role = om_role o', ho_status = om_status o'\<rparr>)
              (sort_key (\<lambda>o'. collation_key X (om_organization_id o'))
                 (filter (\<lambda>o'. om_user_id o' = ha_user_id auth) (mk_memberships m)))\<rparr>))"

definition revoke_sessions :: "externs \<Rightarrow> (human_session_row \<Rightarrow> bool) \<Rightarrow> int \<Rightarrow> market \<Rightarrow> market \<times> nat" where
  "revoke_sessions X P now m =
     (m\<lparr>mk_human_sessions := sql_update (\<lambda>s. P s \<and> hv_status s = ''active'')
          (\<lambda>s. s\<lparr>hv_status := ''revoked'', hv_revoked_at := coalesce (hv_revoked_at s) (to_rfc3339 X now)\<rparr>) (mk_human_sessions m)\<rparr>,
      sql_count (\<lambda>s. P s \<and> hv_status s = ''active'') (mk_human_sessions m))"

definition revoke_human_session :: "externs \<Rightarrow> string \<Rightarrow> HumanSessionAuth \<Rightarrow> int \<Rightarrow> market \<Rightarrow> (market \<times> nat) res" where
  "revoke_human_session X request_id auth now m =
     (let (m1, count) = revoke_sessions X (\<lambda>s. hv_session_id s = ha_session_id auth) now m in
      Inr (insert_human_audit request_id (ha_user_id auth) ''human_session.revoked'' m1, count))"

definition revoke_all_human_sessions :: "externs \<Rightarrow> string \<Rightarrow> HumanSessionAuth \<Rightarrow> int \<Rightarrow> market \<Rightarrow> (market \<times> nat) res" where
  "revoke_all_human_sessions X request_id auth now m =
     bind_res (load_one (\<lambda>u. us_user_id u = ha_user_id auth) (mk_users m)) (\<lambda>_.
     let (m1, count) = revoke_sessions X (\<lambda>s. hv_user_id s = ha_user_id auth) now m in
     Inr (insert_human_audit request_id (ha_user_id auth) ''human_session.revoked_all'' m1, count))"

section \<open>What a login does\<close>

lemma identity_with_user_Some:
  "identity_with_user subject m = Some (i, u) \<Longrightarrow> i \<in> set (mk_identities m) \<and> u \<in> set (mk_users m) \<and> hi_provider i = ''google'' \<and>
     hi_provider_subject i = subject \<and> us_user_id u = hi_user_id i"
  unfolding identity_with_user_def by (drule find_SomeD) auto

text \<open>What identifies a person, which no operation changes.\<close>

definition person_key :: "oidc_identity_row \<Rightarrow> string \<times> string \<times> string \<times> string" where
  "person_key i = (hi_oidc_identity_id i, hi_user_id i, hi_provider i, hi_provider_subject i)"

text \<open>The person is the user of the known identity, which is touched, or a new user with a new identity.\<close>

definition finds_person :: "externs \<Rightarrow> VerifiedGoogleIdentity \<Rightarrow> int \<Rightarrow> market \<Rightarrow> market \<Rightarrow> string \<Rightarrow> bool" where
  "finds_person X identity now m m' user \<longleftrightarrow>
     (case identity_with_user (vg_subject identity) m of
        Some (i, u) \<Rightarrow> us_status u = ''active'' \<and> user = hi_user_id i \<and> mk_users m' = mk_users m \<and>
          mk_identities m' = sql_update (\<lambda>o'. hi_oidc_identity_id o' = hi_oidc_identity_id i)
            (\<lambda>o'. o'\<lparr>hi_email := vg_email identity, hi_email_verified := vg_email_verified identity, hi_updated_at := to_rfc3339 X now,
               hi_last_login_at := Some (to_rfc3339 X now)\<rparr>) (mk_identities m)
      | None \<Rightarrow> \<exists>i u. mk_users m' = mk_users m @ [u] \<and> mk_identities m' = mk_identities m @ [i] \<and> us_user_id u = user \<and>
          us_status u = ''active'' \<and> hi_user_id i = user \<and> hi_provider i = ''google'' \<and> hi_provider_subject i = vg_subject identity \<and>
          (\<forall>old \<in> set (mk_users m). us_user_id old \<noteq> user) \<and> (\<forall>old \<in> set (mk_identities m). \<not> identity_clash i old))"

lemma loginE:
  assumes "create_google_human_session X uuids token' rid identity ttl now m = Inr (m', created)"
  obtains token user row where "token' = Inr token" "created = \<lparr>ch_auth = \<lparr>ha_session_id = hv_session_id row, ha_user_id = user\<rparr>, ch_token = token\<rparr>"
    "row = new_session_row X (snd (snd uuids)) token user now ttl" "\<forall>old \<in> set (mk_human_sessions m). \<not> session_clash row old"
    "mk_human_sessions m' = mk_human_sessions m @ [row]" "mk_memberships m' = mk_memberships m" "mk_api_keys m' = mk_api_keys m"
    "finds_person X identity now m m' user"
proof (cases uuids)
  case (fields user_uuid identity_uuid session_uuid)
  from assms obtain m1 user m2 where person: "(case identity_with_user (vg_subject identity) m of
         Some (i, u) \<Rightarrow> known_person identity (to_rfc3339 X now) i u m
       | None \<Rightarrow> new_person user_uuid identity_uuid rid identity (to_rfc3339 X now) m) = Inr (m1, user)"
    and session: "insert_session X session_uuid token' user now ttl m1 = Inr (m2, created)"
    and m': "m' = insert_human_audit rid user ''human_session.created'' m2"
    unfolding create_google_human_session_def fields by (auto simp: Let_def elim!: bind_resE)
  from session obtain token where t: "token' = Inr token" by (auto simp: insert_session_def elim!: bind_resE)
  let ?row = "new_session_row X session_uuid token user now ttl"
  from person have frame: "mk_human_sessions m1 = mk_human_sessions m" "mk_memberships m1 = mk_memberships m" "mk_api_keys m1 = mk_api_keys m"
    by (auto simp: known_person_def new_person_def insert_human_audit_def Let_def elim!: bind_resE split: option.split_asm if_split_asm)
  from session t have s: "m2 = m1\<lparr>mk_human_sessions := mk_human_sessions m1 @ [?row]\<rparr>"
      "created = \<lparr>ch_auth = \<lparr>ha_session_id = hv_session_id ?row, ha_user_id = user\<rparr>, ch_token = token\<rparr>"
      "\<forall>old \<in> set (mk_human_sessions m1). \<not> session_clash ?row old"
    by (auto simp: insert_session_def Let_def insert_unique_Inr elim!: bind_resE split: if_split_asm)
  show ?thesis
    by (rule that[OF t s(2)])
       (use s person frame in \<open>auto simp: m' fields finds_person_def insert_human_audit_def known_person_def new_person_def Let_def
          insert_unique_Inr user_clash_def elim!: bind_resE split: option.split_asm if_split_asm\<close>)
qed

lemma finds_person_user:
  assumes person: "finds_person X identity now m m' user" and users: "distinct (map us_user_id (mk_users m))"
  obtains u where "u \<in> set (mk_users m')" "us_user_id u = user" "us_status u = ''active''" "distinct (map us_user_id (mk_users m'))"
proof (cases "identity_with_user (vg_subject identity) m")
  case (Some iu)
  then show ?thesis using that[of "snd iu"] person users by (cases iu) (auto simp: finds_person_def dest: identity_with_user_Some)
next
  case None
  then obtain u where "mk_users m' = mk_users m @ [u]" "us_user_id u = user" "us_status u = ''active''" "\<forall>old \<in> set (mk_users m). us_user_id old \<noteq> user"
    using person by (auto simp: finds_person_def)
  moreover from this have "us_user_id u \<notin> us_user_id ` set (mk_users m)" by (metis imageE)
  ultimately show ?thesis using that[of u] users by simp
qed

lemma finds_person_identity:
  assumes person: "finds_person X identity now m m' user"
  shows "\<exists>i \<in> set (mk_identities m'). hi_provider_subject i = vg_subject identity \<and> hi_user_id i = user"
proof (cases "identity_with_user (vg_subject identity) m")
  case (Some iu)
  obtain i u where iu: "iu = (i, u)" by (cases iu)
  note known = identity_with_user_Some[OF Some[unfolded iu]]
  have "map person_key (mk_identities m') = map person_key (mk_identities m)" "user = hi_user_id i"
    using person Some iu by (simp_all add: finds_person_def person_key_def)
  moreover from known have "person_key i \<in> set (map person_key (mk_identities m))" by simp
  ultimately have "person_key i \<in> set (map person_key (mk_identities m'))" by simp
  then show ?thesis using known \<open>user = hi_user_id i\<close> by (auto simp: person_key_def)
qed (use person in \<open>auto simp: finds_person_def\<close>)

lemma session_with_user_new:
  assumes "mk_human_sessions m' = ss @ [row]" "\<forall>old \<in> set ss. \<not> session_clash row old" "hv_token_hash row = sha256_hex X token"
    "distinct (map us_user_id (mk_users m'))" "u \<in> set (mk_users m')" "us_user_id u = hv_user_id row"
  shows "session_with_user X token m' = Some (row, u)"
proof -
  have "find (\<lambda>(s, u). hv_token_hash s = sha256_hex X token \<and> us_user_id u = hv_user_id s) (List.product ss (mk_users m')) = None"
    using assms(2,3) by (auto simp: find_None_iff session_clash_def)
  then show ?thesis
    using find_unique[OF assms(4,5)] by (simp add: session_with_user_def assms(1,3,6) product_snoc find_append_None find_pair)
qed

section \<open>Properties\<close>

text \<open>
  A login opens a session that works: until it expires, the token authorises exactly the session and the user it was
  issued for, and that user is the one who holds the identity of the subject that signed in.
\<close>

theorem session_round_trip:
  assumes login: "create_google_human_session X uuids (Inr token) rid identity ttl now m = Inr (m', created)"
    and users: "distinct (map us_user_id (mk_users m))" and token: "token \<noteq> []" "length token \<le> 256"
    and times: "parse_from_rfc3339 X (to_rfc3339 X (now + uint ttl * nanos_per_second)) = Some (now + uint ttl * nanos_per_second)"
      "later < now + uint ttl * nanos_per_second"
  shows "ch_token created = token \<and> (\<exists>m''. authorize_human_session X token later m' = Inr (m'', ch_auth created)) \<and>
    (\<exists>i \<in> set (mk_identities m'). hi_provider_subject i = vg_subject identity \<and> hi_user_id i = ha_user_id (ch_auth created))"
  using login
proof (rule loginE)
  fix t user row
  assume t: "Inr token = Inr t" and created: "created = \<lparr>ch_auth = \<lparr>ha_session_id = hv_session_id row, ha_user_id = user\<rparr>, ch_token = t\<rparr>"
    and row: "row = new_session_row X (snd (snd uuids)) t user now ttl" "\<forall>old \<in> set (mk_human_sessions m). \<not> session_clash row old"
    and ss: "mk_human_sessions m' = mk_human_sessions m @ [row]"
    and person: "finds_person X identity now m m' user"
  have r: "hv_token_hash row = sha256_hex X token" "hv_user_id row = user" "hv_status row = ''active''"
      "hv_expires_at row = to_rfc3339 X (now + uint ttl * nanos_per_second)"
    using t by (simp_all add: row new_session_row_def)
  from finds_person_user[OF person users] obtain u
    where u: "u \<in> set (mk_users m')" "us_user_id u = user" "us_status u = ''active''" "distinct (map us_user_id (mk_users m'))" .
  note i = finds_person_identity[OF person]
  have "session_with_user X token m' = Some (row, u)"
    using session_with_user_new[OF ss row(2) r(1) u(4,1)] u(2) r(2) by simp
  then show ?thesis
    using token times i t by (simp add: authorize_human_session_def r u created)
qed

definition example_login :: "(market \<times> CreatedHumanSession) res" where
  "example_login = create_google_human_session example_externs (''1'', ''2'', ''3'') (Inr ''token'') ''r''
     \<lparr>vg_subject = ''sub'', vg_email = Some ''a@b.c'', vg_email_verified = True\<rparr> 60 5 example_market"

lemma example_login_ok: "case example_login of Inr _ \<Rightarrow> True | Inl _ \<Rightarrow> False"
  by code_simp

theorem session_round_trip_witness:
  "\<exists>m' created m'' auth. example_login = Inr (m', created) \<and> authorize_human_session example_externs ''token'' 9 m' = Inr (m'', auth) \<and>
     auth = ch_auth created"
proof -
  obtain m' created where r: "example_login = Inr (m', created)" using example_login_ok by (auto split: sum.split_asm)
  have d: "distinct (map us_user_id (mk_users example_market))" by (simp add: example_market_def)
  show ?thesis
    using session_round_trip[OF r[unfolded example_login_def] d, of 9] r by (auto simp: nanos_per_second_def)
qed

end
