(* ===== verification/Organization_Access.thy ===== *)
theory Organization_Access
  imports Human_Auth
begin

text \<open>
  Roles in an organisation (\<^verbatim>\<open>burd-control-plane/src/organization_rbac.rs\<close>): what each role may do, and the operations of
  a signed-in person on organisations, members, projects and API keys. The lemmas show what a command on members changes
  and who may give it.
\<close>

section \<open>Permissions and roles\<close>

datatype OrganizationPermission = OrganizationRead | OrganizationManage | MembersRead | MembersManage | ProjectsRead
  | ProjectsManage | ApiKeysRead | ApiKeysManage | BillingRead | BillingManage | WorkloadsRead | WorkloadsWrite
  | ReservationsRead | ReservationsManage | ArtifactsRead | ArtifactsWrite | UsageRead | AuditRead

datatype OrganizationRole = Owner | Admin | BillingAdmin | Developer | Viewer

definition parse_role :: "string \<Rightarrow> OrganizationRole res" where
  "parse_role value =
     (if value = ''owner'' then Inr Owner else if value = ''admin'' then Inr Admin
      else if value = ''billing_admin'' then Inr BillingAdmin else if value = ''developer'' then Inr Developer
      else if value = ''viewer'' then Inr Viewer else Inl Unauthorized)"

fun allows :: "OrganizationRole \<Rightarrow> OrganizationPermission \<Rightarrow> bool" where
  "allows Owner _ = True"
| "allows Admin p = (p \<notin> {OrganizationManage, BillingManage})"
| "allows BillingAdmin p = (p \<in> {OrganizationRead, BillingRead, BillingManage, UsageRead})"
| "allows Developer p = (p \<in> {OrganizationRead, ProjectsRead, ApiKeysRead, ApiKeysManage, WorkloadsRead, WorkloadsWrite,
     ReservationsRead, ReservationsManage, ArtifactsRead, ArtifactsWrite, UsageRead})"
| "allows Viewer p = (p \<in> {OrganizationRead, ProjectsRead, ApiKeysRead, WorkloadsRead, ReservationsRead, ArtifactsRead,
     UsageRead, AuditRead, BillingRead})"

section \<open>Requests\<close>

record AddOrganizationMemberRequest =
  aw_user_id :: string
  aw_role :: string

record UpdateOrganizationMemberRequest =
  uw_role :: "string option"
  uw_status :: "string option"

text \<open>
  \<open>str::trim\<close> removes the characters with the property \<open>White_Space\<close> from both ends; their encodings, and the
  removal from the end as the removal of the reversed encodings from the reversed string.
\<close>

definition white_space :: "string list" where
  "white_space = map (map char_of) ([[9], [10], [11], [12], [13], [32], [194, 133], [194, 160], [225, 154, 128],
     [226, 128, 168], [226, 128, 169], [226, 128, 175], [226, 129, 159], [227, 128, 128]] @
     map (\<lambda>n. [226, 128, 128 + n]) [0..<11] :: nat list list)"

function (sequential) trim_matches :: "string list \<Rightarrow> string \<Rightarrow> string" where
  "trim_matches ws s = (case find (\<lambda>w. w \<noteq> [] \<and> prefix w s) ws of None \<Rightarrow> s | Some w \<Rightarrow> trim_matches ws (drop (length w) s))"
  by pat_completeness auto
termination
  by (relation "measure (\<lambda>(ws, s). length s)") (auto dest!: find_SomeD simp: prefix_def)

definition trim :: "string \<Rightarrow> string" where
  "trim s = rev (trim_matches (map rev white_space) (rev (trim_matches white_space s)))"

section \<open>Authorisation\<close>

definition member_with_user :: "string \<Rightarrow> string \<Rightarrow> market \<Rightarrow> (OrganizationMembershipRecord \<times> CustomerUserRecord) option" where
  "member_with_user org user m =
     find (\<lambda>(ou, u). om_organization_id ou = org \<and> om_user_id ou = user \<and> us_user_id u = om_user_id ou)
       (List.product (mk_memberships m) (mk_users m))"

definition authorize_organization_member ::
  "HumanSessionAuth \<Rightarrow> string \<Rightarrow> OrganizationPermission \<Rightarrow> market \<Rightarrow> OrganizationRole res" where
  "authorize_organization_member auth org permission m =
     bind_res (ok_or (find (\<lambda>g. og_organization_id g = org) (bl_organizations (mk_billing m))) Unauthorized) (\<lambda>g.
     bind_res (ok_or (member_with_user org (ha_user_id auth) m) Unauthorized) (\<lambda>(ou, u).
     bind_res (parse_role (om_role ou)) (\<lambda>role.
     bind_res (ensure (\<not> (om_status ou \<noteq> ''active'' \<or> us_status u \<noteq> ''active'' \<or> og_status g \<noteq> ''active'' \<or> \<not> allows role permission))
       Unauthorized) (\<lambda>_.
     Inr role))))"

definition enforce_role_management :: "OrganizationRole \<Rightarrow> OrganizationRole \<Rightarrow> unit res" where
  "enforce_role_management actor target = ensure (\<not> (target = Owner \<and> actor \<noteq> Owner)) Unauthorized"

definition require_another_active_owner :: "string \<Rightarrow> string \<Rightarrow> market \<Rightarrow> unit res" where
  "require_another_active_owner org excluded m =
     ensure (\<not> sql_count (\<lambda>o'. om_organization_id o' = org \<and> om_role o' = ''owner'' \<and> om_status o' = ''active'' \<and> om_user_id o' \<noteq> excluded)
        (mk_memberships m) < 1) (Conflict ''organization must retain an active owner'')"

definition project_organization :: "string \<Rightarrow> market \<Rightarrow> string res" where
  "project_organization project m =
     bind_res (ok_or (find (\<lambda>p. pj_project_id p = project \<and> pj_status p = ''active'') (bl_projects (mk_billing m)))
       (NotFound ''project not found'')) (\<lambda>p. Inr (pj_organization_id p))"

definition human_customer_audit ::
  "string \<Rightarrow> string option \<Rightarrow> HumanSessionAuth \<Rightarrow> string \<Rightarrow> string \<Rightarrow> string \<Rightarrow> market \<Rightarrow> market" where
  "human_customer_audit org project auth event entity_type entity_id =
     audit_market org project ''human_user'' (Some (ha_user_id auth)) event entity_type entity_id"

text \<open>The row of a member, by the primary key of \<open>organization_users\<close>.\<close>

abbreviation member_of :: "string \<Rightarrow> string \<Rightarrow> OrganizationMembershipRecord \<Rightarrow> bool" where
  "member_of org user o' \<equiv> om_organization_id o' = org \<and> om_user_id o' = user"

definition locked_member :: "string \<Rightarrow> string \<Rightarrow> market \<Rightarrow> OrganizationMembershipRecord res" where
  "locked_member org user m =
     ok_or (find (member_of org user) (mk_memberships m)) (NotFound ''organization member not found'')"

section \<open>Organisations and their members\<close>

definition create_human_organization ::
  "externs \<Rightarrow> string \<Rightarrow> HumanSessionAuth \<Rightarrow> CreateOrganizationRequest \<Rightarrow> int \<Rightarrow> market \<Rightarrow>
     (market \<times> organization_row \<times> OrganizationMembershipRecord option) res" where
  "create_human_organization X uuid auth r now m =
     bind_res (ensure (\<not> (trim (gq_display_name r) = [] \<or> length (gq_display_name r) > 160 \<or> gq_owner_user_id r \<noteq> None))
       (Invalid ''human organization creation does not accept owner_user_id'')) (\<lambda>_.
     bind_res (ok_or (find (\<lambda>u. us_user_id u = ha_user_id auth \<and> us_status u = ''active'') (mk_users m)) Unauthorized) (\<lambda>_.
     let now_text = to_rfc3339 X now;
         org = \<lparr>og_organization_id = ''org_'' @ uuid, og_schema_version = CUSTOMER_ORGANIZATION_SCHEMA_VERSION,
           og_display_name = trim (gq_display_name r), og_status = ''active'', og_created_at = now_text, og_updated_at = now_text\<rparr>;
         membership = \<lparr>om_organization_id = og_organization_id org, om_user_id = ha_user_id auth, om_role = ''owner'',
           om_status = ''active'', om_created_at = now_text, om_updated_at = now_text\<rparr> in
     bind_res (insert_unique (\<lambda>g old. og_organization_id old = og_organization_id g) org (bl_organizations (mk_billing m))) (\<lambda>orgs.
     bind_res (insert_unique (\<lambda>o' old. member_of (om_organization_id o') (om_user_id o') old) membership (mk_memberships m)) (\<lambda>rows.
     Inr (human_customer_audit (og_organization_id org) None auth ''organization.created'' ''organization'' (og_organization_id org)
            (m\<lparr>mk_billing := (mk_billing m)\<lparr>bl_organizations := orgs\<rparr>, mk_memberships := rows\<rparr>),
          org, Some membership)))))"

definition list_organization_members ::
  "externs \<Rightarrow> HumanSessionAuth \<Rightarrow> string \<Rightarrow> market \<Rightarrow> OrganizationMembershipRecord list res" where
  "list_organization_members X auth org m =
     bind_res (authorize_organization_member auth org MembersRead m) (\<lambda>_.
     Inr (sort_key (\<lambda>o'. (collation_key X (om_created_at o'), collation_key X (om_user_id o')))
       (filter (\<lambda>o'. om_organization_id o' = org) (mk_memberships m))))"

definition add_organization_member ::
  "externs \<Rightarrow> HumanSessionAuth \<Rightarrow> string \<Rightarrow> AddOrganizationMemberRequest \<Rightarrow> int \<Rightarrow> market \<Rightarrow>
     (market \<times> OrganizationMembershipRecord) res" where
  "add_organization_member X auth org r now m =
     bind_res (parse_role (aw_role r)) (\<lambda>target_role.
     bind_res (authorize_organization_member auth org MembersManage m) (\<lambda>actor_role.
     bind_res (enforce_role_management actor_role target_role) (\<lambda>_.
     bind_res (ok_or (find (\<lambda>u. us_user_id u = aw_user_id r \<and> us_status u = ''active'') (mk_users m))
       (Invalid ''member user must exist and be active'')) (\<lambda>_.
     let now_text = to_rfc3339 X now;
         row = \<lparr>om_organization_id = org, om_user_id = aw_user_id r, om_role = aw_role r, om_status = ''active'',
           om_created_at = now_text, om_updated_at = now_text\<rparr>;
         rows = (if list_ex (member_of org (aw_user_id r)) (mk_memberships m) then mk_memberships m else mk_memberships m @ [row]) in
     bind_res (load_one (member_of org (aw_user_id r)) rows) (\<lambda>member.
     Inr (human_customer_audit org None auth ''organization_member.added'' ''user'' (aw_user_id r) (m\<lparr>mk_memberships := rows\<rparr>),
          member))))))"

definition update_organization_member ::
  "externs \<Rightarrow> HumanSessionAuth \<Rightarrow> string \<Rightarrow> string \<Rightarrow> UpdateOrganizationMemberRequest \<Rightarrow> int \<Rightarrow> market \<Rightarrow>
     (market \<times> OrganizationMembershipRecord) res" where
  "update_organization_member X auth org user r now m =
     bind_res (ensure (\<not> (uw_role r = None \<and> uw_status r = None)) (Invalid ''role or status is required'')) (\<lambda>_.
     bind_res (ensure (case uw_status r of None \<Rightarrow> True | Some s \<Rightarrow> s \<in> {''active'', ''inactive''})
       (Invalid ''membership status is invalid'')) (\<lambda>_.
     bind_res (load_one (\<lambda>g. og_organization_id g = org) (bl_organizations (mk_billing m))) (\<lambda>_.
     bind_res (authorize_organization_member auth org MembersManage m) (\<lambda>actor_role.
     bind_res (locked_member org user m) (\<lambda>current.
     bind_res (parse_role (om_role current)) (\<lambda>current_role.
     bind_res (case uw_role r of Some role \<Rightarrow> parse_role role | None \<Rightarrow> Inr current_role) (\<lambda>next_role.
     bind_res (enforce_role_management actor_role current_role) (\<lambda>_.
     bind_res (enforce_role_management actor_role next_role) (\<lambda>_.
     let next_status = (case uw_status r of Some s \<Rightarrow> s | None \<Rightarrow> om_status current) in
     bind_res (if current_role = Owner \<and> (next_role \<noteq> Owner \<or> next_status \<noteq> ''active'')
       then require_another_active_owner org user m else Inr ()) (\<lambda>_.
     let role = (case uw_role r of Some role \<Rightarrow> role | None \<Rightarrow> om_role current);
         rows = sql_update (member_of org user)
           (\<lambda>o'. o'\<lparr>om_role := role, om_status := next_status, om_updated_at := to_rfc3339 X now\<rparr>) (mk_memberships m) in
     bind_res (load_one (member_of org user) rows) (\<lambda>member.
     Inr (human_customer_audit org None auth ''organization_member.updated'' ''user'' user (m\<lparr>mk_memberships := rows\<rparr>), member))))))))))))"

definition remove_organization_member :: "HumanSessionAuth \<Rightarrow> string \<Rightarrow> string \<Rightarrow> market \<Rightarrow> market res" where
  "remove_organization_member auth org user m =
     bind_res (load_one (\<lambda>g. og_organization_id g = org) (bl_organizations (mk_billing m))) (\<lambda>_.
     bind_res (authorize_organization_member auth org MembersManage m) (\<lambda>actor_role.
     bind_res (locked_member org user m) (\<lambda>row.
     bind_res (parse_role (om_role row)) (\<lambda>target_role.
     bind_res (enforce_role_management actor_role target_role) (\<lambda>_.
     bind_res (if target_role = Owner \<and> om_status row = ''active'' then require_another_active_owner org user m else Inr ()) (\<lambda>_.
     Inr (human_customer_audit org None auth ''organization_member.removed'' ''user'' user
       (m\<lparr>mk_memberships := filter (\<lambda>o'. \<not> member_of org user o') (mk_memberships m)\<rparr>))))))))"

section \<open>Projects and keys\<close>

definition create_human_project ::
  "externs \<Rightarrow> string \<Rightarrow> HumanSessionAuth \<Rightarrow> string \<Rightarrow> CreateProjectRequest \<Rightarrow> int \<Rightarrow> market \<Rightarrow> (market \<times> project_row) res" where
  "create_human_project X uuid auth org r now m =
     bind_res (ensure (\<not> (trim (jq_display_name r) = [] \<or> length (jq_display_name r) > 160))
       (Invalid ''project display_name is invalid'')) (\<lambda>_.
     bind_res (authorize_organization_member auth org ProjectsManage m) (\<lambda>_.
     let now_text = to_rfc3339 X now;
         project = \<lparr>pj_project_id = ''project_'' @ uuid, pj_organization_id = org, pj_schema_version = CUSTOMER_PROJECT_SCHEMA_VERSION,
           pj_display_name = trim (jq_display_name r), pj_status = ''active'', pj_created_at = now_text, pj_updated_at = now_text\<rparr>;
         quota = \<lparr>qt_project_id = pj_project_id project, qt_max_active_reservations = DEFAULT_MAX_ACTIVE_RESERVATIONS,
           qt_max_reserved_gpu_seconds = DEFAULT_MAX_RESERVED_GPU_SECONDS,
           qt_max_reservation_ttl_seconds = DEFAULT_MAX_RESERVATION_TTL_SECONDS, qt_updated_at = now_text\<rparr> in
     bind_res (insert_unique (\<lambda>p old. pj_project_id old = pj_project_id p) project (bl_projects (mk_billing m))) (\<lambda>projects.
     bind_res (insert_unique (\<lambda>q old. qt_project_id old = qt_project_id q) quota (mk_quotas m)) (\<lambda>quotas.
     Inr (human_customer_audit org (Some (pj_project_id project)) auth ''project.created'' ''project'' (pj_project_id project)
            (m\<lparr>mk_billing := (mk_billing m)\<lparr>bl_projects := projects\<rparr>, mk_quotas := quotas\<rparr>), project)))))"

definition load_customer_api_key :: "string \<Rightarrow> api_key_row list \<Rightarrow> CustomerApiKeyRecord res" where
  "load_customer_api_key kid keys =
     bind_res (load_one (\<lambda>k. kk_api_key_id k = kid) keys) (\<lambda>k. Inr (api_key_from_row k))"

definition create_human_customer_api_key ::
  "externs \<Rightarrow> string \<Rightarrow> string res \<Rightarrow> string \<Rightarrow> HumanSessionAuth \<Rightarrow> string \<Rightarrow> CreateCustomerApiKeyRequest \<Rightarrow> int \<Rightarrow> market \<Rightarrow>
     (market \<times> CreateCustomerApiKeyResponse) res" where
  "create_human_customer_api_key X uuid random_token request_id auth project r now m =
     bind_res (normalized_scopes (kq_scopes r)) (\<lambda>scopes.
     bind_res (case kq_expires_at r of None \<Rightarrow> Inr ()
       | Some t \<Rightarrow> bind_res (ok_or (parse_from_rfc3339 X t) (Invalid ''expires_at must be RFC3339'')) (\<lambda>e.
           ensure (\<not> e \<le> now) (Invalid ''expires_at must be in the future''))) (\<lambda>_.
     bind_res (project_organization project m) (\<lambda>org.
     bind_res (authorize_organization_member auth org ApiKeysManage m) (\<lambda>_.
     bind_res random_token (\<lambda>token.
     let row = new_api_key_row X uuid org project scopes r token (to_rfc3339 X now) in
     bind_res (insert_unique (\<lambda>k old. kk_api_key_id old = kk_api_key_id k \<or> kk_key_hash old = kk_key_hash k) row (mk_api_keys m)) (\<lambda>keys.
     bind_res (load_customer_api_key (kk_api_key_id row) keys) (\<lambda>k.
     Inr (human_customer_audit org (Some project) auth ''customer_api_key.created'' ''customer_api_key'' (kk_api_key_id row)
            (m\<lparr>mk_api_keys := keys\<rparr>),
          \<lparr>kp_request_id = request_id, kp_api_key = k, kp_token = token\<rparr>))))))))"

fun load_customer_api_keys :: "api_key_row list \<Rightarrow> string list \<Rightarrow> CustomerApiKeyRecord list res" where
  "load_customer_api_keys keys [] = Inr []"
| "load_customer_api_keys keys (kid # kids) =
     bind_res (load_customer_api_key kid keys) (\<lambda>k. bind_res (load_customer_api_keys keys kids) (\<lambda>ks. Inr (k # ks)))"

definition list_human_customer_api_keys :: "externs \<Rightarrow> HumanSessionAuth \<Rightarrow> string \<Rightarrow> market \<Rightarrow> CustomerApiKeyRecord list res" where
  "list_human_customer_api_keys X auth project m =
     bind_res (project_organization project m) (\<lambda>org.
     bind_res (authorize_organization_member auth org ApiKeysRead m) (\<lambda>_.
     load_customer_api_keys (mk_api_keys m) (map kk_api_key_id (rev (sort_key (\<lambda>k. collation_key X (kk_created_at k))
       (filter (\<lambda>k. kk_project_id k = Some project) (mk_api_keys m)))))))"

definition revocable :: "string \<Rightarrow> string \<Rightarrow> api_key_row \<Rightarrow> bool" where
  "revocable kid project k \<longleftrightarrow> kk_api_key_id k = kid \<and> kk_project_id k = Some project \<and> kk_status k \<in> {''active'', ''revoked''}"

definition revoke_human_customer_api_key ::
  "externs \<Rightarrow> HumanSessionAuth \<Rightarrow> string \<Rightarrow> string \<Rightarrow> int \<Rightarrow> market \<Rightarrow> (market \<times> CustomerApiKeyRecord) res" where
  "revoke_human_customer_api_key X auth project kid now m =
     bind_res (project_organization project m) (\<lambda>org.
     bind_res (authorize_organization_member auth org ApiKeysManage m) (\<lambda>_.
     bind_res (ensure (sql_count (revocable kid project) (mk_api_keys m) \<noteq> 0) (NotFound ''customer API key not found'')) (\<lambda>_.
     let keys = sql_update (revocable kid project)
           (\<lambda>k. k\<lparr>kk_status := ''revoked'', kk_revoked_at := coalesce (kk_revoked_at k) (to_rfc3339 X now)\<rparr>) (mk_api_keys m) in
     bind_res (load_customer_api_key kid keys) (\<lambda>k.
     Inr (human_customer_audit org (Some project) auth ''customer_api_key.revoked'' ''customer_api_key'' kid
            (m\<lparr>mk_api_keys := keys\<rparr>), k)))))"

section \<open>What the commands on members do\<close>

lemma parse_owner [simp]: "parse_role ''owner'' = Inr Owner"
  by (simp add: parse_role_def)

lemma parse_role_owner: "parse_role v = Inr Owner \<Longrightarrow> v = ''owner''"
  by (simp add: parse_role_def split: if_split_asm)

lemma enforce_role [simp]: "enforce_role_management actor target = Inr u \<longleftrightarrow> (target = Owner \<longrightarrow> actor = Owner)"
  by (auto simp: enforce_role_management_def)

lemma authorize_memberE:
  assumes "authorize_organization_member auth org permission m = Inr role"
  obtains ou where "ou \<in> set (mk_memberships m)" "member_of org (ha_user_id auth) ou" "om_status ou = ''active''"
    "parse_role (om_role ou) = Inr role" "allows role permission"
proof -
  from assms obtain ou u where f: "member_with_user org (ha_user_id auth) m = Some (ou, u)"
    and r: "om_status ou = ''active''" "parse_role (om_role ou) = Inr role" "allows role permission"
    unfolding authorize_organization_member_def by (auto elim!: bind_resE split: if_split_asm)
  from f have "ou \<in> set (mk_memberships m)" "member_of org (ha_user_id auth) ou"
    unfolding member_with_user_def by (auto dest!: find_SomeD)
  then show ?thesis using that r by blast
qed

definition member_key :: "OrganizationMembershipRecord \<Rightarrow> string \<times> string" where
  "member_key o' = (om_organization_id o', om_user_id o')"

definition owned :: "string \<Rightarrow> OrganizationMembershipRecord list \<Rightarrow> bool" where
  "owned org ms \<longleftrightarrow> list_ex (\<lambda>o'. om_organization_id o' = org \<and> om_role o' = ''owner'' \<and> om_status o' = ''active'') ms"

lemma ownedI: "o' \<in> set ms \<Longrightarrow> om_organization_id o' = org \<Longrightarrow> om_role o' = ''owner'' \<Longrightarrow> om_status o' = ''active'' \<Longrightarrow> owned org ms"
  by (auto simp: owned_def list_ex_iff)

text \<open>The contract of a command on one membership of one organisation, by an actor with a role.\<close>

definition governs :: "OrganizationRole \<Rightarrow> string \<Rightarrow> string \<Rightarrow> OrganizationMembershipRecord list \<Rightarrow> OrganizationMembershipRecord list \<Rightarrow> bool" where
  "governs role org user ms ms' \<longleftrightarrow> allows role MembersManage \<and> (distinct (map member_key ms) \<longrightarrow> distinct (map member_key ms')) \<and>
     (\<forall>o'. \<not> member_of org user o' \<longrightarrow> (o' \<in> set ms' \<longleftrightarrow> o' \<in> set ms)) \<and>
     (\<forall>o'. om_role o' = ''owner'' \<and> (o' \<in> set ms) \<noteq> (o' \<in> set ms') \<longrightarrow> role = Owner) \<and> (owned org ms \<longrightarrow> owned org ms')"

lemma another_ownerE:
  assumes "require_another_active_owner org user m = Inr ()"
  obtains o' where "o' \<in> set (mk_memberships m)" "om_organization_id o' = org" "om_role o' = ''owner''" "om_status o' = ''active''" "om_user_id o' \<noteq> user"
  using assms by (auto simp: require_another_active_owner_def sql_count_def filter_empty_conv)

lemma locked_member_only:
  assumes "distinct (map member_key (mk_memberships m))" "locked_member org user m = Inr c"
  shows "c \<in> set (mk_memberships m)" "member_of org user c" "\<And>o'. o' \<in> set (mk_memberships m) \<Longrightarrow> member_of org user o' \<Longrightarrow> o' = c"
proof -
  from assms(2) show c: "c \<in> set (mk_memberships m)" "member_of org user c" by (auto simp: locked_member_def dest!: find_SomeD)
  fix o' assume "o' \<in> set (mk_memberships m)" "member_of org user o'"
  with c assms(1) show "o' = c" by (auto simp: distinct_map member_key_def dest!: inj_onD[of member_key "set (mk_memberships m)" o' c])
qed

lemma add_governs:
  assumes run: "add_organization_member X auth org r now m = Inr (m', member)"
  shows "\<exists>role. authorize_organization_member auth org MembersManage m = Inr role \<and> governs role org (aw_user_id r) (mk_memberships m) (mk_memberships m')"
proof -
  from run obtain target role where role: "parse_role (aw_role r) = Inr target" "authorize_organization_member auth org MembersManage m = Inr role"
      "target = Owner \<longrightarrow> role = Owner"
    and ms: "mk_memberships m' = (if list_ex (member_of org (aw_user_id r)) (mk_memberships m) then mk_memberships m
      else mk_memberships m @ [\<lparr>om_organization_id = org, om_user_id = aw_user_id r, om_role = aw_role r, om_status = ''active'',
           om_created_at = to_rfc3339 X now, om_updated_at = to_rfc3339 X now\<rparr>])"
    unfolding add_organization_member_def Let_def
    by (auto simp: human_customer_audit_def audit_market_def elim!: bind_resE)
  from role(2) have "allows role MembersManage" by (rule authorize_memberE)
  then have "governs role org (aw_user_id r) (mk_memberships m) (mk_memberships m')"
    using role(1,3) by (auto simp: ms governs_def member_key_def owned_def list_ex_iff image_iff)
  with role(2) show ?thesis by blast
qed

lemma remove_governs:
  assumes d: "distinct (map member_key (mk_memberships m))" and run: "remove_organization_member auth org user m = Inr m'"
  shows "\<exists>role. authorize_organization_member auth org MembersManage m = Inr role \<and> governs role org user (mk_memberships m) (mk_memberships m')"
proof -
  from run obtain role c target where role: "authorize_organization_member auth org MembersManage m = Inr role"
    and c: "locked_member org user m = Inr c" "parse_role (om_role c) = Inr target" "target = Owner \<longrightarrow> role = Owner"
    and other: "target = Owner \<and> om_status c = ''active'' \<longrightarrow> require_another_active_owner org user m = Inr ()"
    and ms: "mk_memberships m' = filter (\<lambda>o'. \<not> member_of org user o') (mk_memberships m)"
    unfolding remove_organization_member_def
    by (auto simp: human_customer_audit_def audit_market_def elim!: bind_resE split: if_split_asm)
  note only = locked_member_only[OF d c(1)]
  have "owned org (mk_memberships m')" if "owned org (mk_memberships m)"
  proof -
    from that obtain o' where o': "o' \<in> set (mk_memberships m)" "om_organization_id o' = org" "om_role o' = ''owner''" "om_status o' = ''active''"
      by (auto simp: owned_def list_ex_iff)
    show ?thesis
    proof (cases "om_user_id o' = user")
      case True
      then have "o' = c" using only(3)[OF o'(1)] o'(2) by simp
      with o' c(2) other have "require_another_active_owner org user m = Inr ()" by (simp add: parse_role_def)
      then show ?thesis by (rule another_ownerE) (rule ownedI, auto simp: ms)
    qed (rule ownedI[of o'], use o' in \<open>auto simp: ms\<close>)
  qed
  moreover from role have "allows role MembersManage" by (rule authorize_memberE)
  moreover have "role = Owner" if "o' \<in> set (mk_memberships m)" "member_of org user o'" "om_role o' = ''owner''" for o'
    using only(3)[OF that(1,2)] that(3) c(2,3) by (simp add: parse_role_def)
  ultimately have "governs role org user (mk_memberships m) (mk_memberships m')"
    by (auto simp: ms governs_def distinct_map_filter)
  with role show ?thesis by blast
qed

lemma update_memberE:
  assumes "update_organization_member X auth org user r now m = Inr (m', member)"
  obtains role c old new_role new_status where "authorize_organization_member auth org MembersManage m = Inr role"
    "locked_member org user m = Inr c" "parse_role (om_role c) = Inr old" "old = Owner \<longrightarrow> role = Owner" "new_role = ''owner'' \<longrightarrow> role = Owner"
    "old = Owner \<and> (new_role \<noteq> ''owner'' \<or> new_status \<noteq> ''active'') \<longrightarrow> require_another_active_owner org user m = Inr ()"
    "mk_memberships m' = sql_update (member_of org user)
       (\<lambda>o'. o'\<lparr>om_role := new_role, om_status := new_status, om_updated_at := to_rfc3339 X now\<rparr>) (mk_memberships m)"
  using assms unfolding update_organization_member_def Let_def
proof (elim bind_resE, goal_cases)
  case prems: (1 u1 u2 g role c old new u3 u4 u5 stored)
  let ?role = "case uw_role r of Some s \<Rightarrow> s | None \<Rightarrow> om_role c"
  have new: "?role = ''owner'' \<longleftrightarrow> new = Owner"
    using prems(7,8) by (auto dest: parse_role_owner split: option.split_asm)
  have ms: "mk_memberships m' = sql_update (member_of org user) (\<lambda>o'. o'\<lparr>om_role := ?role,
      om_status := case uw_status r of Some s \<Rightarrow> s | None \<Rightarrow> om_status c, om_updated_at := to_rfc3339 X now\<rparr>) (mk_memberships m)"
    using prems(13) by (auto simp: human_customer_audit_def audit_market_def)
  show ?case by (rule that[OF prems(5-7) _ _ _ ms]) (use prems(9-11) new in \<open>auto split: if_split_asm\<close>)
qed

lemma update_governs:
  assumes d: "distinct (map member_key (mk_memberships m))" and run: "update_organization_member X auth org user r now m = Inr (m', member)"
  shows "\<exists>role. authorize_organization_member auth org MembersManage m = Inr role \<and> governs role org user (mk_memberships m) (mk_memberships m')"
  using run
proof (rule update_memberE)
  fix role c old new_role new_status
  let ?f = "\<lambda>o'. o'\<lparr>om_role := new_role, om_status := new_status, om_updated_at := to_rfc3339 X now\<rparr>"
  assume role: "authorize_organization_member auth org MembersManage m = Inr role"
    and c: "locked_member org user m = Inr c" "parse_role (om_role c) = Inr old" "old = Owner \<longrightarrow> role = Owner" "new_role = ''owner'' \<longrightarrow> role = Owner"
    and other: "old = Owner \<and> (new_role \<noteq> ''owner'' \<or> new_status \<noteq> ''active'') \<longrightarrow> require_another_active_owner org user m = Inr ()"
    and ms: "mk_memberships m' = sql_update (member_of org user) ?f (mk_memberships m)"
  note only = locked_member_only[OF d c(1)]
  have kept: "o' \<in> set (mk_memberships m') \<longleftrightarrow> o' \<in> set (mk_memberships m)" if "\<not> member_of org user o'" for o'
    using that by (auto simp: ms sql_update_def image_iff)
  have "owned org (mk_memberships m')" if "owned org (mk_memberships m)"
  proof -
    from that obtain o' where o': "o' \<in> set (mk_memberships m)" "om_organization_id o' = org" "om_role o' = ''owner''" "om_status o' = ''active''"
      by (auto simp: owned_def list_ex_iff)
    consider "om_user_id o' \<noteq> user" | "o' = c" "new_role = ''owner'' \<and> new_status = ''active''" | "require_another_active_owner org user m = Inr ()"
    proof (cases "om_user_id o' = user")
      case True
      then have "o' = c" using only(3)[OF o'(1)] o'(2) by simp
      moreover from this have "old = Owner" using c(2) o'(3) by simp
      ultimately show ?thesis using that(2,3) other by blast
    qed
    then show ?thesis
    proof cases
      case 1
      then show ?thesis using o' kept by (intro ownedI[of o']) auto
    next
      case 2
      have "?f c \<in> set (mk_memberships m')" using sql_updateI[OF only(1), of "member_of org user" ?f] only(2) by (simp add: ms)
      then show ?thesis using 2 only(2) by (intro ownedI[of "?f c"]) auto
    next
      case 3
      then show ?thesis by (rule another_ownerE) (rule ownedI, use kept in auto)
    qed
  qed
  moreover from role have "allows role MembersManage" by (rule authorize_memberE)
  moreover have "role = Owner" if "om_role o' = ''owner''" "(o' \<in> set (mk_memberships m)) \<noteq> (o' \<in> set (mk_memberships m'))" for o'
  proof (cases "o' \<in> set (mk_memberships m)")
    case True
    then have "o' = c" using that(2) kept only(3) by blast
    then show ?thesis using that(1) c(2,3) by simp
  qed (use that c(4) in \<open>auto simp: ms sql_update_def split: if_split_asm\<close>)
  ultimately have "governs role org user (mk_memberships m) (mk_memberships m')"
    using kept by (auto simp: governs_def ms member_key_def)
  with role show ?thesis by blast
qed

end
