(* ===== verification/Account_System.thy ===== *)
theory Account_System
  imports Organization_Access
begin

text \<open>
  Accounts as a transition system. The transactions of \<^verbatim>\<open>customer.rs\<close>, \<^verbatim>\<open>human_auth.rs\<close> and \<^verbatim>\<open>organization_rbac.rs\<close>
  are all that writes users, identities, sessions, memberships and API keys. They implement an abstract account book: people
  join and sign in, one membership changes at a time, sessions and keys are issued once and only ever end. The properties
  are proved of the book and hold of every run of the transactions.
\<close>

section \<open>Transactions\<close>

inductive membership_command :: "externs \<Rightarrow> HumanSessionAuth \<Rightarrow> string \<Rightarrow> string \<Rightarrow> market \<Rightarrow> market \<Rightarrow> bool" for X :: externs where
  member_added: "add_organization_member X auth org ar now m = Inr (m', o') \<Longrightarrow> membership_command X auth org (aw_user_id ar) m m'"
| member_updated: "update_organization_member X auth org user ur now m = Inr (m', o') \<Longrightarrow> membership_command X auth org user m m'"
| member_removed: "remove_organization_member auth org user m = Inr m' \<Longrightarrow> membership_command X auth org user m m'"

inductive account_transaction :: "externs \<Rightarrow> market \<Rightarrow> market \<Rightarrow> bool" for X :: externs where
  user_created: "create_customer_user X uuid rid ur now m = Inr (m', u) \<Longrightarrow> account_transaction X m m'"
| organization_created: "create_organization X uuid rid gr now m = Inr (m', g, om) \<Longrightarrow> account_transaction X m m'"
| project_created: "create_project X uuid org jr now m = Inr (m', p) \<Longrightarrow> account_transaction X m m'"
| quota_set: "upsert_project_quota X project qr now m = Inr (m', q) \<Longrightarrow> account_transaction X m m'"
| key_created: "create_customer_api_key X uuid token rid project kr now m = Inr (m', kp) \<Longrightarrow> account_transaction X m m'"
| key_used: "authorize_customer_api_key X token' project' now m = Inr (m', auth) \<Longrightarrow> account_transaction X m m'"
| session_opened: "create_google_human_session X uuids token rid identity ttl now m = Inr (m', created) \<Longrightarrow> account_transaction X m m'"
| session_used: "authorize_human_session X token' now m = Inr (m', ha) \<Longrightarrow> account_transaction X m m'"
| session_revoked: "revoke_human_session X rid ha now m = Inr (m', n) \<Longrightarrow> account_transaction X m m'"
| sessions_revoked: "revoke_all_human_sessions X rid ha now m = Inr (m', n) \<Longrightarrow> account_transaction X m m'"
| human_organization_created: "create_human_organization X uuid ha gr now m = Inr (m', g, om) \<Longrightarrow> account_transaction X m m'"
| membership_changed: "membership_command X ha org user m m' \<Longrightarrow> account_transaction X m m'"
| human_project_created: "create_human_project X uuid ha org jr now m = Inr (m', p) \<Longrightarrow> account_transaction X m m'"
| human_key_created: "create_human_customer_api_key X uuid token rid ha project kr now m = Inr (m', kp) \<Longrightarrow> account_transaction X m m'"
| human_key_revoked: "revoke_human_customer_api_key X ha project kid now m = Inr (m', k) \<Longrightarrow> account_transaction X m m'"

section \<open>The account book\<close>

record people =
  pe_users :: "string list"
  pe_members :: "OrganizationMembershipRecord list"
  pe_identities :: "(string \<times> string \<times> string \<times> string) list"
  pe_sessions :: "human_session_row list"
  pe_keys :: "api_key_row list"

definition people_of :: "market \<Rightarrow> people" where
  "people_of m = \<lparr>pe_users = map us_user_id (mk_users m), pe_members = mk_memberships m,
     pe_identities = map person_key (mk_identities m), pe_sessions = mk_human_sessions m, pe_keys = mk_api_keys m\<rparr>"

abbreviation person_user :: "string \<times> string \<times> string \<times> string \<Rightarrow> string" where
  "person_user i \<equiv> fst (snd i)"

abbreviation person_subject :: "string \<times> string \<times> string \<times> string \<Rightarrow> string \<times> string" where
  "person_subject i \<equiv> snd (snd i)"

text \<open>A session and a key keep what they were issued for, and once they are not active never become so again.\<close>

definition session_evolves :: "human_session_row \<Rightarrow> human_session_row \<Rightarrow> bool" where
  "session_evolves s t \<longleftrightarrow> hv_session_id t = hv_session_id s \<and> hv_user_id t = hv_user_id s \<and> hv_token_hash t = hv_token_hash s \<and>
     hv_expires_at t = hv_expires_at s \<and> (hv_status s \<noteq> ''active'' \<longrightarrow> hv_status t \<noteq> ''active'')"

definition key_evolves :: "api_key_row \<Rightarrow> api_key_row \<Rightarrow> bool" where
  "key_evolves k l \<longleftrightarrow> kk_api_key_id l = kk_api_key_id k \<and> kk_key_hash l = kk_key_hash k \<and> kk_organization_id l = kk_organization_id k \<and>
     kk_project_id l = kk_project_id k \<and> kk_scopes l = kk_scopes k \<and> kk_expires_at l = kk_expires_at k \<and>
     (kk_status k \<noteq> ''active'' \<longrightarrow> kk_status l \<noteq> ''active'')"

inductive people_step :: "people \<Rightarrow> people \<Rightarrow> bool" where
  rests: "people_step p p"
| joins: "u \<notin> set (pe_users p) \<Longrightarrow> people_step p (p\<lparr>pe_users := pe_users p @ [u]\<rparr>)"
| governed: "distinct (map member_key (pe_members p)) \<longrightarrow> distinct (map member_key ms) \<Longrightarrow>
    \<forall>org. distinct (map member_key (pe_members p)) \<and> owned org (pe_members p) \<longrightarrow> owned org ms \<Longrightarrow> people_step p (p\<lparr>pe_members := ms\<rparr>)"
| signs_in: "hv_user_id s \<in> person_user ` set (pe_identities p) \<Longrightarrow> \<forall>old \<in> set (pe_sessions p). \<not> session_clash s old \<Longrightarrow>
    people_step p (p\<lparr>pe_sessions := pe_sessions p @ [s]\<rparr>)"
| signs_up: "hv_user_id s \<notin> set (pe_users p) \<Longrightarrow> person_user i = hv_user_id s \<Longrightarrow> fst (person_subject i) = ''google'' \<Longrightarrow>
    person_subject i \<notin> person_subject ` set (pe_identities p) \<Longrightarrow> \<forall>old \<in> set (pe_sessions p). \<not> session_clash s old \<Longrightarrow>
    people_step p (p\<lparr>pe_users := pe_users p @ [hv_user_id s], pe_identities := pe_identities p @ [i], pe_sessions := pe_sessions p @ [s]\<rparr>)"
| sessions_move: "list_all2 session_evolves (pe_sessions p) ss \<Longrightarrow> people_step p (p\<lparr>pe_sessions := ss\<rparr>)"
| key_issued: "\<forall>old \<in> set (pe_keys p). kk_api_key_id old \<noteq> kk_api_key_id k \<and> kk_key_hash old \<noteq> kk_key_hash k \<Longrightarrow>
    people_step p (p\<lparr>pe_keys := pe_keys p @ [k]\<rparr>)"
| keys_move: "list_all2 key_evolves (pe_keys p) ks \<Longrightarrow> people_step p (p\<lparr>pe_keys := ks\<rparr>)"

text \<open>Users, people and their sessions and keys are identified by what their tables say.\<close>

definition people_inv :: "people \<Rightarrow> bool" where
  "people_inv p \<longleftrightarrow> distinct (pe_users p) \<and> distinct (map member_key (pe_members p)) \<and> distinct (map person_subject (pe_identities p)) \<and>
     distinct (map person_user (pe_identities p)) \<and> list_all (\<lambda>i. person_user i \<in> set (pe_users p) \<and> fst (person_subject i) = ''google'') (pe_identities p) \<and>
     hv_user_id ` set (pe_sessions p) \<subseteq> person_user ` set (pe_identities p) \<and> distinct (map hv_token_hash (pe_sessions p)) \<and>
     distinct (map kk_key_hash (pe_keys p)) \<and> distinct (map kk_api_key_id (pe_keys p))"

definition people_init :: "people \<Rightarrow> bool" where
  "people_init p \<longleftrightarrow> distinct (pe_users p) \<and> distinct (map member_key (pe_members p)) \<and> pe_identities p = [] \<and> pe_sessions p = [] \<and>
     distinct (map kk_key_hash (pe_keys p)) \<and> distinct (map kk_api_key_id (pe_keys p))"

lemma key_determines: "distinct (map f xs) \<Longrightarrow> x \<in> set xs \<Longrightarrow> y \<in> set xs \<Longrightarrow> f x = f y \<Longrightarrow> x = y"
  by (auto simp: distinct_map dest: inj_onD)

lemma find_product_SomeD: "find (\<lambda>(a, b). P a \<and> Q a b) (List.product xs ys) = Some (a, b) \<Longrightarrow> a \<in> set xs \<and> P a"
  by (drule find_SomeD) auto

lemma list_all2_map_eq: "list_all2 R xs ys \<Longrightarrow> (\<And>x y. R x y \<Longrightarrow> f y = f x) \<Longrightarrow> map f ys = map f xs"
  by (induction rule: list_all2_induct) auto

lemma people_inv_step: "people_step p q \<Longrightarrow> people_inv p \<Longrightarrow> people_inv q"
proof (induction rule: people_step.induct)
  case (sessions_move p ss)
  have "map hv_token_hash ss = map hv_token_hash (pe_sessions p)" "map hv_user_id ss = map hv_user_id (pe_sessions p)"
    using sessions_move(1) by (auto elim!: list_all2_map_eq simp: session_evolves_def)
  then have "hv_user_id ` set ss = hv_user_id ` set (pe_sessions p)" by (metis set_map)
  with \<open>map hv_token_hash ss = _\<close> sessions_move(2) show ?case by (simp add: people_inv_def)
next
  case (keys_move p ks)
  have "map kk_key_hash ks = map kk_key_hash (pe_keys p)" "map kk_api_key_id ks = map kk_api_key_id (pe_keys p)"
    using keys_move(1) by (auto elim!: list_all2_map_eq simp: key_evolves_def)
  with keys_move(2) show ?case by (simp add: people_inv_def)
qed (auto simp: people_inv_def list_all_iff session_clash_def)

interpretation people_runs: invariant_system people_init people_step people_inv
proof
  fix p assume "people_init p"
  then show "people_inv p" by (simp add: people_init_def people_inv_def)
qed (rule people_inv_step)

section \<open>The transactions implement the book\<close>

lemma people_of_audit [simp]:
  "people_of (with_core f m) = people_of m" "people_of (audit_market a b c d e g h m) = people_of m"
  "people_of (human_customer_audit org project auth ev et eid m) = people_of m" "people_of (insert_human_audit rid user ev m) = people_of m"
  by (simp_all add: people_of_def audit_market_def human_customer_audit_def insert_human_audit_def)

lemma sql_update_evolves: "(\<And>r. P r \<Longrightarrow> R r (f r)) \<Longrightarrow> (\<And>r. R r r) \<Longrightarrow> list_all2 R t (sql_update P f t)"
  by (simp add: sql_update_def list_all2_map2 list.rel_refl_strong)

lemma membership_step:
  assumes "membership_command X auth org user m m'"
  shows "people_step (people_of m) (people_of m')"
proof -
  have frame: "people_of m' = (people_of m)\<lparr>pe_members := mk_memberships m'\<rparr>"
    using assms
  proof cases
    case (member_added ar now o')
    then show ?thesis unfolding add_organization_member_def Let_def by (elim bind_resE) (auto simp: people_of_def human_customer_audit_def audit_market_def)
  next
    case (member_updated ur now o')
    then show ?thesis unfolding update_organization_member_def Let_def by (elim bind_resE) (simp, auto simp: people_of_def human_customer_audit_def audit_market_def)
  next
    case member_removed
    then show ?thesis unfolding remove_organization_member_def by (elim bind_resE) (auto simp: people_of_def human_customer_audit_def audit_market_def)
  qed
  have gov: "\<exists>role. governs role org user (mk_memberships m) (mk_memberships m')" if "distinct (map member_key (mk_memberships m))"
    using assms by cases (blast dest: add_governs update_governs[OF that] remove_governs[OF that])+
  have other: "owned g (mk_memberships m')" if d: "distinct (map member_key (mk_memberships m))" and g: "owned g (mk_memberships m)" for g
  proof (cases "g = org")
    case False
    from g obtain o' where o': "o' \<in> set (mk_memberships m)" "om_organization_id o' = g" "om_role o' = ''owner''" "om_status o' = ''active''"
      by (auto simp: owned_def list_ex_iff)
    then have "o' \<in> set (mk_memberships m')" using gov[OF d] False by (auto simp: governs_def)
    then show ?thesis using o' by (intro ownedI)
  qed (use g gov[OF d] in \<open>auto simp: governs_def\<close>)
  show ?thesis
    unfolding frame by (rule governed) (use gov other in \<open>auto simp: people_of_def governs_def\<close>)
qed

lemma founded_step:
  assumes "people_of m' = (people_of m)\<lparr>pe_members := rows\<rparr>"
    "rows = mk_memberships m \<or> (\<exists>x. insert_unique (\<lambda>x old. om_organization_id old = om_organization_id x \<and> om_user_id old = om_user_id x) x
       (mk_memberships m) = Inr rows)"
  shows "people_step (people_of m) (people_of m')"
  using assms(2)
proof
  assume "rows = mk_memberships m"
  then show ?thesis using assms(1) rests by (simp add: people_of_def)
next
  assume "\<exists>x. insert_unique (\<lambda>x old. om_organization_id old = om_organization_id x \<and> om_user_id old = om_user_id x) x (mk_memberships m) = Inr rows"
  then obtain x where r: "rows = mk_memberships m @ [x]" "\<forall>old \<in> set (mk_memberships m). member_key old \<noteq> member_key x"
    by (auto simp: insert_unique_Inr member_key_def)
  from r(2) have "member_key x \<notin> member_key ` set (mk_memberships m)" by (metis imageE)
  then show ?thesis unfolding assms(1) r(1) by (intro governed) (auto simp: people_of_def owned_def)
qed

lemma login_step:
  assumes "create_google_human_session X uuids token rid identity ttl now m = Inr (m', created)"
  shows "people_step (people_of m) (people_of m')"
  using assms
proof (rule loginE)
  fix t user row
  assume row: "row = new_session_row X (snd (snd uuids)) t user now ttl" "\<forall>old \<in> set (mk_human_sessions m). \<not> session_clash row old"
    and ss: "mk_human_sessions m' = mk_human_sessions m @ [row]" "mk_memberships m' = mk_memberships m" "mk_api_keys m' = mk_api_keys m"
    and person: "finds_person X identity now m m' user"
  have user: "hv_user_id row = user" by (simp add: row(1) new_session_row_def)
  show ?thesis
  proof (cases "identity_with_user (vg_subject identity) m")
    case (Some iu)
    obtain i u where iu: "iu = (i, u)" by (cases iu)
    from person Some iu have p: "user = hi_user_id i" "mk_users m' = mk_users m" "map person_key (mk_identities m') = map person_key (mk_identities m)"
      by (simp_all add: finds_person_def person_key_def)
    from identity_with_user_Some[OF Some[unfolded iu]] have "user \<in> person_user ` set (map person_key (mk_identities m))"
      by (auto simp: p(1) person_key_def image_iff)
    moreover have "people_of m' = (people_of m)\<lparr>pe_sessions := pe_sessions (people_of m) @ [row]\<rparr>" by (simp add: people_of_def ss p)
    ultimately show ?thesis using signs_in[of row "people_of m"] row(2) user by (simp add: people_of_def)
  next
    case None
    with person obtain i u where p: "mk_users m' = mk_users m @ [u]" "mk_identities m' = mk_identities m @ [i]" "us_user_id u = user" "hi_user_id i = user"
        "hi_provider i = ''google''" "\<forall>old \<in> set (mk_users m). us_user_id old \<noteq> user" "\<forall>old \<in> set (mk_identities m). \<not> identity_clash i old"
      by (auto simp: finds_person_def)
    have "people_of m' = (people_of m)\<lparr>pe_users := pe_users (people_of m) @ [hv_user_id row], pe_identities := pe_identities (people_of m) @ [person_key i],
        pe_sessions := pe_sessions (people_of m) @ [row]\<rparr>"
      by (simp add: people_of_def ss p user)
    moreover have "user \<notin> us_user_id ` set (mk_users m)" using p(6) by (metis imageE)
    moreover have "person_subject (person_key i) \<noteq> person_subject (person_key old)" if "old \<in> set (mk_identities m)" for old
      using p(5,7) that by (auto simp: person_key_def identity_clash_def)
    then have "person_subject (person_key i) \<notin> person_subject ` person_key ` set (mk_identities m)"
      by (simp only: image_image image_iff) blast
    moreover have "person_user (person_key i) = user" "fst (person_subject (person_key i)) = ''google''" by (simp_all add: person_key_def p)
    ultimately show ?thesis using signs_up[of row "people_of m" "person_key i"] row(2) user by (simp add: people_of_def)
  qed
qed

lemma session_evolves_refl [simp]: "session_evolves s s" and key_evolves_refl [simp]: "key_evolves k k"
  by (simp_all add: session_evolves_def key_evolves_def)

lemma sessions_step:
  assumes "people_of m' = (people_of m)\<lparr>pe_sessions := mk_human_sessions m'\<rparr>" "list_all2 session_evolves (mk_human_sessions m) (mk_human_sessions m')"
  shows "people_step (people_of m) (people_of m')"
  unfolding assms(1) by (rule sessions_move) (simp add: people_of_def assms(2))

lemma keys_step:
  assumes "people_of m' = (people_of m)\<lparr>pe_keys := mk_api_keys m'\<rparr>" "list_all2 key_evolves (mk_api_keys m) (mk_api_keys m')"
  shows "people_step (people_of m) (people_of m')"
  unfolding assms(1) by (rule keys_move) (simp add: people_of_def assms(2))

lemma issue_step:
  assumes "people_of m' = (people_of m)\<lparr>pe_keys := rows\<rparr>"
    "insert_unique (\<lambda>k old. kk_api_key_id old = kk_api_key_id k \<or> kk_key_hash old = kk_key_hash k) row (mk_api_keys m) = Inr rows"
  shows "people_step (people_of m) (people_of m')"
  using key_issued[of "people_of m" row] assms by (auto simp: people_of_def insert_unique_Inr)

lemma account_transaction_people: "account_transaction X m m' \<Longrightarrow> people_step (people_of m) (people_of m')"
proof (induction rule: account_transaction.induct)
  case (user_created uuid rid ur now m m' u)
  then have "people_of m' = (people_of m)\<lparr>pe_users := pe_users (people_of m) @ [''user_'' @ uuid]\<rparr>" "''user_'' @ uuid \<notin> set (pe_users (people_of m))"
    by (auto simp: create_customer_user_def Let_def insert_unique_Inr people_of_def elim!: bind_resE)
  then show ?case using joins by metis
next
  case (organization_created uuid rid gr now m m' g om)
  then show ?case unfolding create_organization_def Let_def
    by (elim bind_resE) (rule founded_step, auto simp: people_of_def audit_market_def split: option.split_asm)
next
  case (project_created uuid org jr now m m' p)
  then have "people_of m' = people_of m" unfolding create_project_def Let_def by (elim bind_resE) (auto simp: people_of_def audit_market_def)
  then show ?case by (simp add: rests)
next
  case (quota_set project qr now m m' q)
  then have "people_of m' = people_of m" unfolding upsert_project_quota_def Let_def by (elim bind_resE) (auto simp: people_of_def audit_market_def)
  then show ?case by (simp add: rests)
next
  case (key_created uuid token rid project kr now m m' kp)
  then show ?case unfolding create_customer_api_key_def Let_def
    by (elim bind_resE) (rule issue_step, auto simp: people_of_def audit_market_def)
next
  case (key_used token' project' now m m' auth)
  then show ?case unfolding authorize_customer_api_key_def
    by (intro keys_step) (auto simp: people_of_def key_evolves_def intro!: sql_update_evolves elim!: bind_resE split: if_split_asm)
next
  case (session_opened uuids token rid identity ttl now m m' created)
  then show ?case by (rule login_step)
next
  case (session_used token' now m m' ha)
  then show ?case unfolding authorize_human_session_def
    by (intro sessions_step) (auto simp: people_of_def session_evolves_def intro!: sql_update_evolves elim!: bind_resE split: if_split_asm)
next
  case (session_revoked rid ha now m m' n)
  then show ?case unfolding revoke_human_session_def revoke_sessions_def
    by (intro sessions_step) (auto simp: people_of_def session_evolves_def insert_human_audit_def intro!: sql_update_evolves)
next
  case (sessions_revoked rid ha now m m' n)
  then show ?case unfolding revoke_all_human_sessions_def revoke_sessions_def
    by (intro sessions_step) (auto simp: people_of_def session_evolves_def insert_human_audit_def intro!: sql_update_evolves elim!: bind_resE)
next
  case (human_organization_created uuid ha gr now m m' g om)
  then show ?case unfolding create_human_organization_def Let_def
    by (elim bind_resE) (rule founded_step, auto simp: people_of_def human_customer_audit_def audit_market_def)
next
  case (membership_changed ha org user m m')
  then show ?case by (rule membership_step)
next
  case (human_project_created uuid ha org jr now m m' p)
  then have "people_of m' = people_of m" unfolding create_human_project_def Let_def
    by (elim bind_resE) (auto simp: people_of_def human_customer_audit_def audit_market_def)
  then show ?case by (simp add: rests)
next
  case (human_key_created uuid token rid ha project kr now m m' kp)
  then show ?case unfolding create_human_customer_api_key_def Let_def
    by (elim bind_resE) (rule issue_step, auto simp: people_of_def human_customer_audit_def audit_market_def)
next
  case (human_key_revoked ha project kid now m m' k)
  then show ?case unfolding revoke_human_customer_api_key_def Let_def
    by (intro keys_step) (auto simp: people_of_def human_customer_audit_def audit_market_def key_evolves_def intro!: sql_update_evolves
        elim!: bind_resE split: if_split_asm)
qed

lemma account_runs_people: "(account_transaction X)\<^sup>*\<^sup>* m m' \<Longrightarrow> people_step\<^sup>*\<^sup>* (people_of m) (people_of m')"
  by (induction rule: rtranclp_induct) (auto dest: account_transaction_people)

section \<open>Runs of the book\<close>

lemma people_step_owned: "people_step p q \<Longrightarrow> people_inv p \<Longrightarrow> owned org (pe_members p) \<Longrightarrow> owned org (pe_members q)"
  by (cases rule: people_step.cases) (auto simp: people_inv_def)

lemma session_evolves_trans: "session_evolves a b \<Longrightarrow> session_evolves b c \<Longrightarrow> session_evolves a c"
  and key_evolves_trans: "key_evolves d e \<Longrightarrow> key_evolves e f \<Longrightarrow> key_evolves d f"
  by (simp_all add: session_evolves_def key_evolves_def)

lemma people_step_sessions: "people_step p q \<Longrightarrow> s \<in> set (pe_sessions p) \<Longrightarrow> \<exists>t \<in> set (pe_sessions q). session_evolves s t"
  by (induction rule: people_step.induct) (auto dest: list_all2_find1 intro: session_evolves_refl)

lemma people_step_keys: "people_step p q \<Longrightarrow> k \<in> set (pe_keys p) \<Longrightarrow> \<exists>l \<in> set (pe_keys q). key_evolves k l"
  by (induction rule: people_step.induct) (auto dest: list_all2_find1 intro: key_evolves_refl)

lemma people_run_sessions: "people_step\<^sup>*\<^sup>* p q \<Longrightarrow> s \<in> set (pe_sessions p) \<Longrightarrow> \<exists>t \<in> set (pe_sessions q). session_evolves s t"
  by (induction rule: rtranclp_induct) (auto intro: session_evolves_refl dest!: people_step_sessions dest: session_evolves_trans)

lemma people_run_keys: "people_step\<^sup>*\<^sup>* p q \<Longrightarrow> k \<in> set (pe_keys p) \<Longrightarrow> \<exists>l \<in> set (pe_keys q). key_evolves k l"
  by (induction rule: rtranclp_induct) (auto intro: key_evolves_refl dest!: people_step_keys dest: key_evolves_trans)

definition accounts_ok :: "market \<Rightarrow> bool" where
  "accounts_ok m \<longleftrightarrow> people_inv (people_of m)"

definition accounts_init :: "market \<Rightarrow> bool" where
  "accounts_init m \<longleftrightarrow> people_init (people_of m)"

interpretation account_runs: invariant_system accounts_init "account_transaction X" accounts_ok for X
  by unfold_locales
    (auto simp: accounts_init_def accounts_ok_def intro: people_runs.inv_init people_runs.inv_step dest: account_transaction_people)

section \<open>Properties\<close>

text \<open>
  C10. An organisation that has an active owner keeps one: whatever sequence of account transactions runs, promotions,
  demotions, deactivations and removals by any member included, the organisation is never left without an active owner.
\<close>

theorem organization_keeps_owner:
  assumes "accounts_ok m" "(account_transaction X)\<^sup>*\<^sup>* m m'" "owned org (mk_memberships m)"
  shows "owned org (mk_memberships m')"
  using assms(2)
proof (induction rule: rtranclp_induct)
  case (step y z)
  from account_runs.inv_steps[OF step(1) assms(1)] have "people_inv (people_of y)" by (simp add: accounts_ok_def)
  from people_step_owned[OF account_transaction_people[OF step(2)] this] step(3) show ?case by (simp add: people_of_def)
qed (rule assms(3))

text \<open>
  C11. Who may change memberships: a command that adds, updates or removes a member is given by an active owner or
  administrator of that organisation, touches the membership of that one user in that organisation only, and only an owner
  can create, change or end the membership of an owner.
\<close>

theorem membership_changes_authorized:
  assumes "accounts_ok m" "membership_command X auth org user m m'"
  shows "\<exists>role a. role \<in> {Owner, Admin} \<and> a \<in> set (mk_memberships m) \<and> member_of org (ha_user_id auth) a \<and> om_status a = ''active'' \<and>
    parse_role (om_role a) = Inr role \<and>
    (\<forall>o'. (o' \<in> set (mk_memberships m)) \<noteq> (o' \<in> set (mk_memberships m')) \<longrightarrow>
       member_of org user o' \<and> (om_role o' = ''owner'' \<longrightarrow> role = Owner))"
proof -
  have d: "distinct (map member_key (mk_memberships m))" using assms(1) by (simp add: accounts_ok_def people_inv_def people_of_def)
  from assms(2) obtain role where r: "authorize_organization_member auth org MembersManage m = Inr role"
      and g: "governs role org user (mk_memberships m) (mk_memberships m')"
    by cases (blast dest: add_governs update_governs[OF d] remove_governs[OF d])+
  from g have "role \<in> {Owner, Admin}" by (cases role) (auto simp: governs_def)
  with r g show ?thesis by (elim authorize_memberE) (intro exI[of _ role] exI, auto simp: governs_def)
qed

text \<open>
  C26. A revoked API key is refused for ever: after a member revoked a key, authorising with its token fails in every later
  state, for any project and at any time, whatever transactions run in between.
\<close>

theorem revoked_key_refused:
  assumes ok: "accounts_ok m" and revoke: "revoke_human_customer_api_key X auth project kid now m = Inr (m', r)"
    and key: "k \<in> set (mk_api_keys m)" "kk_api_key_id k = kid" "kk_key_hash k = sha256_hex X token"
    and run: "(account_transaction X)\<^sup>*\<^sup>* m' m''"
  shows "authorize_customer_api_key X token project' later m'' = Inl Unauthorized"
proof -
  have step: "account_transaction X m m'" using revoke by (rule human_key_revoked)
  from revoke obtain k0 where k0: "k0 \<in> set (mk_api_keys m)" "revocable kid project k0"
    unfolding revoke_human_customer_api_key_def by (auto simp: sql_count_def filter_empty_conv elim!: bind_resE split: if_split_asm)
  let ?f = "\<lambda>k. k\<lparr>kk_status := ''revoked'', kk_revoked_at := coalesce (kk_revoked_at k) (to_rfc3339 X now)\<rparr>"
  have keys: "mk_api_keys m' = sql_update (revocable kid project) ?f (mk_api_keys m)"
    using revoke unfolding revoke_human_customer_api_key_def Let_def
    by (auto simp: human_customer_audit_def audit_market_def elim!: bind_resE split: if_split_asm)
  have ids: "distinct (map kk_api_key_id (mk_api_keys m))" using ok by (simp add: accounts_ok_def people_inv_def people_of_def)
  have "k0 = k" using key_determines[OF ids k0(1) key(1)] k0(2) key(2) by (simp add: revocable_def)
  then obtain l where l: "l \<in> set (mk_api_keys m')" "kk_status l \<noteq> ''active''" "kk_key_hash l = sha256_hex X token"
    using k0 key(3) sql_updateI[OF k0(1), of "revocable kid project" ?f] that[of "?f k"] by (auto simp: keys)
  from people_run_keys[OF account_runs_people[OF run], of l] l obtain l'
    where l': "l' \<in> set (mk_api_keys m'')" "kk_status l' \<noteq> ''active''" "kk_key_hash l' = sha256_hex X token"
    by (auto simp: people_of_def key_evolves_def)
  from account_runs.inv_steps[OF run account_runs.inv_step[OF ok step]] have d: "distinct (map kk_key_hash (mk_api_keys m''))"
    by (simp add: accounts_ok_def people_inv_def people_of_def)
  have "k' = l'" if "k' \<in> set (mk_api_keys m'')" "kk_key_hash k' = sha256_hex X token" for k'
    using key_determines[OF d that(1) l'(1)] that(2) l'(3) by simp
  then have "k' = l'" if "key_with_organization X token m'' = Some (k', g)" for k' g
    using find_product_SomeD[of "\<lambda>k. kk_key_hash k = sha256_hex X token", OF that[unfolded key_with_organization_def]] by blast
  then show ?thesis
    unfolding authorize_customer_api_key_def using l'(2) by (cases "key_with_organization X token m''") auto
qed

text \<open>
  After a logout everywhere no earlier session of the user works again: the token of every session the user had is
  refused in every later state, and a new login is needed.
\<close>

theorem logout_is_final:
  assumes ok: "accounts_ok m" and logout: "revoke_all_human_sessions X rid auth now m = Inr (m', n)"
    and session: "s \<in> set (mk_human_sessions m)" "hv_user_id s = ha_user_id auth" "hv_token_hash s = sha256_hex X token"
    and run: "(account_transaction X)\<^sup>*\<^sup>* m' m''"
  shows "\<exists>e. authorize_human_session X token later m'' = Inl e"
proof -
  have step: "account_transaction X m m'" using logout by (rule sessions_revoked)
  let ?P = "\<lambda>s. hv_user_id s = ha_user_id auth \<and> hv_status s = ''active''"
    and ?f = "\<lambda>s. s\<lparr>hv_status := ''revoked'', hv_revoked_at := coalesce (hv_revoked_at s) (to_rfc3339 X now)\<rparr>"
  have ss: "mk_human_sessions m' = sql_update ?P ?f (mk_human_sessions m)"
    using logout unfolding revoke_all_human_sessions_def revoke_sessions_def by (auto simp: insert_human_audit_def elim!: bind_resE)
  obtain t where t: "t \<in> set (mk_human_sessions m')" "hv_status t \<noteq> ''active''" "hv_token_hash t = sha256_hex X token"
    using sql_updateI[OF session(1), of ?P ?f] session that[of "if ?P s then ?f s else s"] by (auto simp: ss split: if_split_asm)
  from people_run_sessions[OF account_runs_people[OF run], of t] t obtain t'
    where t': "t' \<in> set (mk_human_sessions m'')" "hv_status t' \<noteq> ''active''" "hv_token_hash t' = sha256_hex X token"
    by (auto simp: people_of_def session_evolves_def)
  from account_runs.inv_steps[OF run account_runs.inv_step[OF ok step]] have d: "distinct (map hv_token_hash (mk_human_sessions m''))"
    by (simp add: accounts_ok_def people_inv_def people_of_def)
  have "s' = t'" if "s' \<in> set (mk_human_sessions m'')" "hv_token_hash s' = sha256_hex X token" for s'
    using key_determines[OF d that(1) t'(1)] that(2) t'(3) by simp
  then have "s' = t'" if "session_with_user X token m'' = Some (s', u)" for s' u
    using find_product_SomeD[of "\<lambda>s. hv_token_hash s = sha256_hex X token", OF that[unfolded session_with_user_def]] by blast
  then show ?thesis
    unfolding authorize_human_session_def using t'(2)
    by (cases "session_with_user X token m''"; cases "parse_from_rfc3339 X (hv_expires_at t')") auto
qed

text \<open>
  C27. A subject is one person: in every run of account transactions that starts before anyone signed in, a login gives the
  user who holds the identity of exactly that subject, and nobody else's; two subjects never share a user, and one subject
  never has two, whatever e-mail addresses the provider reports.
\<close>

theorem one_person_per_subject:
  assumes run: "accounts_init m0" "(account_transaction X)\<^sup>*\<^sup>* m0 m"
    and login: "create_google_human_session X uuids token rid identity ttl now m = Inr (m', created)"
  shows "\<exists>i \<in> set (mk_identities m'). \<forall>j \<in> set (mk_identities m'). (hi_provider_subject j = vg_subject identity \<longleftrightarrow> j = i) \<and>
    (hi_user_id j = ha_user_id (ch_auth created) \<longleftrightarrow> j = i)"
proof -
  have "accounts_ok m'" using account_runs.inv_step[OF account_runs.inv_reachable[OF run] session_opened[OF login]] .
  then have inv: "distinct (map (\<lambda>j. (hi_provider j, hi_provider_subject j)) (mk_identities m'))" "distinct (map hi_user_id (mk_identities m'))"
      "\<forall>j \<in> set (mk_identities m'). hi_provider j = ''google''"
    by (simp_all add: accounts_ok_def people_inv_def people_of_def person_key_def comp_def list_all_iff)
  from login obtain user where u: "ha_user_id (ch_auth created) = user" "finds_person X identity now m m' user" by (rule loginE) simp
  from finds_person_identity[OF u(2)] obtain i where i: "i \<in> set (mk_identities m')" "hi_provider_subject i = vg_subject identity" "hi_user_id i = user"
    by blast
  have "j = i" if "j \<in> set (mk_identities m')" "hi_provider_subject j = vg_subject identity" for j
    using key_determines[OF inv(1) that(1) i(1)] that i inv(3) by simp
  moreover have "j = i" if "j \<in> set (mk_identities m')" "hi_user_id j = user" for j
    using key_determines[OF inv(2) that(1) i(1)] that i by simp
  ultimately have "\<forall>j \<in> set (mk_identities m'). (hi_provider_subject j = vg_subject identity \<longleftrightarrow> j = i) \<and> (hi_user_id j = user \<longleftrightarrow> j = i)"
    using i(2,3) by blast
  then show ?thesis using i(1) u(1) by auto
qed

section \<open>A team\<close>

definition example_user :: "string \<Rightarrow> CustomerUserRecord" where
  "example_user user = \<lparr>us_user_id = user, us_email = None, us_status = ''active'', us_created_at = ''+1'', us_updated_at = ''+1''\<rparr>"

definition example_membership :: "string \<Rightarrow> string \<Rightarrow> OrganizationMembershipRecord" where
  "example_membership user role = \<lparr>om_organization_id = ''o1'', om_user_id = user, om_role = role, om_status = ''active'',
     om_created_at = ''+1'', om_updated_at = ''+1''\<rparr>"

definition example_api_key_row :: api_key_row where
  "example_api_key_row = new_api_key_row example_externs ''u'' ''o1'' ''pr1'' [''billing:read''] \<lparr>kq_scopes = [], kq_expires_at = None\<rparr> ''token'' ''+1''"

definition example_team :: market where
  "example_team = example_market\<lparr>mk_users := [example_user ''ann'', example_user ''bob'', example_user ''dev''],
     mk_memberships := [example_membership ''ann'' ''owner'', example_membership ''bob'' ''owner'', example_membership ''dev'' ''developer''],
     mk_api_keys := [example_api_key_row]\<rparr>"

abbreviation signed_in :: "string \<Rightarrow> HumanSessionAuth" where
  "signed_in user \<equiv> \<lparr>ha_session_id = ''s'', ha_user_id = user\<rparr>"

lemma example_team_init: "accounts_init example_team"
  by code_simp

lemma example_team_ok: "accounts_ok example_team"
  using account_runs.inv_init[OF example_team_init] .

definition example_removal :: "market res" where
  "example_removal = remove_organization_member (signed_in ''ann'') ''o1'' ''bob'' example_team"

lemma example_removal_ok: "case example_removal of Inr m \<Rightarrow> map om_user_id (mk_memberships m) = [''ann'', ''dev''] | Inl _ \<Rightarrow> False"
  by code_simp

theorem organization_keeps_owner_witness:
  "\<exists>m. example_removal = Inr m \<and> map om_user_id (mk_memberships m) = [''ann'', ''dev''] \<and> owned ''o1'' (mk_memberships m)"
proof -
  from example_removal_ok obtain m where m: "example_removal = Inr m" "map om_user_id (mk_memberships m) = [''ann'', ''dev'']"
    by (auto split: sum.split_asm)
  from m(1) have t: "account_transaction example_externs example_team m"
    unfolding example_removal_def by (intro membership_changed member_removed)
  have o: "owned ''o1'' (mk_memberships example_team)" by code_simp
  from organization_keeps_owner[OF example_team_ok r_into_rtranclp[of "account_transaction example_externs", OF t] o] show ?thesis by (intro exI[of _ m]) (simp add: m)
qed

theorem membership_changes_authorized_witness:
  "\<exists>m role. example_removal = Inr m \<and> role \<in> {Owner, Admin} \<and> (example_membership ''bob'' ''owner'' \<notin> set (mk_memberships m) \<longrightarrow> role = Owner)"
proof -
  from example_removal_ok obtain m where m: "example_removal = Inr m" by (auto split: sum.split_asm)
  have b: "example_membership ''bob'' ''owner'' \<in> set (mk_memberships example_team)" "om_role (example_membership ''bob'' ''owner'') = ''owner''"
    by (simp_all add: example_team_def example_membership_def)
  from m have "membership_command example_externs (signed_in ''ann'') ''o1'' ''bob'' example_team m"
    unfolding example_removal_def by (rule member_removed)
  from membership_changes_authorized[OF example_team_ok this] b show ?thesis using m by blast
qed

definition example_revocation :: "(market \<times> CustomerApiKeyRecord) res" where
  "example_revocation = revoke_human_customer_api_key example_externs (signed_in ''ann'') ''pr1'' ''cak_u'' 7 example_team"

lemma example_revocation_ok: "case example_revocation of Inr (m, k) \<Rightarrow> kk_status k = ''revoked'' | Inl _ \<Rightarrow> False"
  by code_simp

theorem revoked_key_refused_witness:
  "\<exists>m k. example_revocation = Inr (m, k) \<and> authorize_customer_api_key example_externs ''token'' (Some ''pr1'') 9 m = Inl Unauthorized"
proof -
  from example_revocation_ok obtain m k where m: "example_revocation = Inr (m, k)" by (auto split: sum.split_asm)
  have k: "example_api_key_row \<in> set (mk_api_keys example_team)" "kk_api_key_id example_api_key_row = ''cak_u''"
      "kk_key_hash example_api_key_row = sha256_hex example_externs ''token''"
    by (simp_all add: example_team_def example_api_key_row_def new_api_key_row_def)
  from revoked_key_refused[OF example_team_ok m[unfolded example_revocation_def] k rtranclp.rtrancl_refl] m show ?thesis by blast
qed

text \<open>A login, then a logout everywhere.\<close>

definition example_logout :: "market \<Rightarrow> HumanSessionAuth \<Rightarrow> (market \<times> nat) res" where
  "example_logout m auth = revoke_all_human_sessions example_externs ''r'' auth 7 m"

lemma example_logout_ok:
  "case example_login of Inl _ \<Rightarrow> False | Inr (m, created) \<Rightarrow> map (\<lambda>s. (hv_user_id s, hv_token_hash s)) (mk_human_sessions m) =
      [(ha_user_id (ch_auth created), sha256_hex example_externs ''token'')] \<and> map us_user_id (mk_users m) = [ha_user_id (ch_auth created)]"
  by code_simp

theorem logout_is_final_witness:
  "\<exists>m created m' n e. example_login = Inr (m, created) \<and> example_logout m (ch_auth created) = Inr (m', n) \<and>
     authorize_human_session example_externs ''token'' 9 m' = Inl e"
proof -
  from example_logout_ok obtain m created s u where m: "example_login = Inr (m, created)" "mk_human_sessions m = [s]" "mk_users m = [u]"
      "hv_user_id s = ha_user_id (ch_auth created)" "hv_token_hash s = sha256_hex example_externs ''token''" "us_user_id u = ha_user_id (ch_auth created)"
    by (auto split: sum.split_asm simp: map_eq_Cons_conv)
  have "accounts_init example_market" by code_simp
  from account_runs.inv_step[OF account_runs.inv_init[OF this] session_opened[OF m(1)[unfolded example_login_def]]] have ok: "accounts_ok m" .
  obtain m' n where l: "example_logout m (ch_auth created) = Inr (m', n)"
    by (simp add: example_logout_def revoke_all_human_sessions_def load_one_def m revoke_sessions_def)
  have "s \<in> set (mk_human_sessions m)" by (simp add: m(2))
  from logout_is_final[OF ok l[unfolded example_logout_def] this m(4,5) rtranclp.rtrancl_refl] obtain e
    where "authorize_human_session example_externs ''token'' 9 m' = Inl e" by blast
  with m(1) l show ?thesis by (intro exI[of _ m] exI[of _ created] exI[of _ m'] exI[of _ n] exI[of _ e]) simp
qed

theorem one_person_per_subject_witness:
  "\<exists>m created. example_login = Inr (m, created) \<and> (\<exists>i \<in> set (mk_identities m). hi_provider_subject i = ''sub'' \<and> hi_user_id i = ha_user_id (ch_auth created))"
proof -
  from example_login_ok obtain m created where m: "example_login = Inr (m, created)" by (auto split: sum.split_asm)
  have "accounts_init example_market" by code_simp
  from one_person_per_subject[OF this rtranclp.rtrancl_refl m[unfolded example_login_def]] m show ?thesis by auto
qed

definition example_member_key :: "(market \<times> CreateCustomerApiKeyResponse) res" where
  "example_member_key = create_human_customer_api_key example_externs ''v'' (Inr ''secret'') ''r'' (signed_in ''dev'') ''pr1''
     \<lparr>kq_scopes = [], kq_expires_at = None\<rparr> 5 example_team"

lemma example_member_key_ok: "case example_member_key of Inl _ \<Rightarrow> False | Inr (m, kp) \<Rightarrow>
    (case authorize_customer_api_key example_externs (kp_token kp) (Some ''pr1'') 9 m of Inl _ \<Rightarrow> False | Inr (m', auth) \<Rightarrow>
       ''billing:write'' \<in> set (ak_scopes auth) \<and>
       (case project_billing_balance example_externs auth ''pr1'' (mk_billing m') of Inl _ \<Rightarrow> False | Inr _ \<Rightarrow> True))"
  by code_simp

lemma succeedsD: "(case r of Inl _ \<Rightarrow> False | Inr x \<Rightarrow> P x) \<Longrightarrow> \<exists>x. r = Inr x \<and> P x"
  by (cases r) simp_all


end
