(* ===== verification/Billing_Ledger.thy ===== *)
theory Billing_Ledger
  imports Billing
begin

text \<open>
  What the billing of \<open>Billing\<close> guarantees: exact splitting of amounts, books that balance, balances that
  never go negative, one invoice per usage entry and one credit per payment. The state invariants are proved
  for every operation through one contract, a posting of balanced lines to the append-only ledger, and hold in
  every sequence of transactions; two settlements whose reads both precede their writes can overdraw.
\<close>

section \<open>Amounts\<close>

lemma u64_bound: "uint (x :: u64) < 2 ^ 64"
  using uint_bounded[of x] by simp

lemma u32_bound: "uint (x :: u32) < 2 ^ 32"
  using uint_bounded[of x] by simp

lemma uint_of_int64: "0 \<le> v \<Longrightarrow> v < 2 ^ 64 \<Longrightarrow> uint (word_of_int v :: u64) = v"
  by (simp add: uint_word_of_int)

lemma product_below:
  assumes "0 \<le> a" "a < 2 ^ 64" "0 \<le> b" "b < (2 :: int) ^ 64"
  shows "a * b < 2 ^ 128"
proof -
  have "a * b \<le> (2 ^ 64 - 1) * (2 ^ 64 - 1)" using assms by (intro mult_mono) auto
  then show ?thesis by simp
qed

lemma proportional_amount_eq:
  assumes "bps \<le> 10000"
  obtains v where "proportional_amount amount bps = Inr v" "uint v = uint amount * uint bps div 10000"
proof -
  have bps: "uint bps \<le> 10000" using assms by (simp add: word_le_def)
  have raw: "uint amount * uint bps < 2 ^ 128"
    using u64_bound[of amount] u32_bound[of bps] by (intro product_below) auto
  have "uint amount * uint bps \<le> uint amount * 10000" using bps by (intro mult_left_mono) auto
  then have "uint amount * uint bps div 10000 \<le> uint amount" by linarith
  then have v: "uint amount * uint bps div 10000 < 2 ^ 64" using u64_bound[of amount] by linarith
  then have "uint (word_of_int (uint amount * uint bps div 10000) :: u64) = uint amount * uint bps div 10000"
    by (intro uint_of_int64) (auto simp: pos_imp_zdiv_nonneg_iff)
  then show ?thesis using that raw v by (simp add: proportional_amount_def)
qed

lemma validate_bps_ok: "validate_bps fee reserve = Inr () \<longleftrightarrow> fee \<le> 10000 \<and> reserve \<le> 10000 \<and> uint fee + uint reserve \<le> 10000"
  using u32_bound[of fee] u32_bound[of reserve] by (auto simp: validate_bps_def bind_res_eq_Inr not_less min_def)

lemma settlement_split:
  assumes "validate_bps fee_bps reserve_bps = Inr ()"
  shows "\<exists>m. settlement_amounts subtotal fee_bps reserve_bps = Inr m \<and> sm_subtotal_micros m = subtotal \<and>
    uint (sm_platform_fee_micros m) + uint (sm_chargeback_reserve_micros m) + uint (sm_provider_net_micros m) = uint subtotal \<and>
    uint (sm_platform_fee_micros m) = uint subtotal * uint fee_bps div 10000 \<and>
    uint (sm_chargeback_reserve_micros m) = uint subtotal * uint reserve_bps div 10000 \<and>
    uint subtotal * (10000 - uint fee_bps - uint reserve_bps) \<le> uint (sm_provider_net_micros m) * 10000"
proof -
  have bps: "fee_bps \<le> 10000" "reserve_bps \<le> 10000" "uint fee_bps + uint reserve_bps \<le> 10000"
    using assms by (simp_all add: validate_bps_ok)
  obtain fee where fee: "proportional_amount subtotal fee_bps = Inr fee" "uint fee = uint subtotal * uint fee_bps div 10000"
    using bps(1) by (rule proportional_amount_eq)
  obtain res where res: "proportional_amount subtotal reserve_bps = Inr res" "uint res = uint subtotal * uint reserve_bps div 10000"
    using bps(2) by (rule proportional_amount_eq)
  have "uint subtotal * (uint fee_bps + uint reserve_bps) \<le> uint subtotal * 10000" using bps(3) by (intro mult_left_mono) auto
  then have fits: "uint fee + uint res \<le> uint subtotal" unfolding fee(2) res(2) by (simp add: distrib_left)
  have le: "fee \<le> subtotal" using fits uint_ge_0[of res] unfolding word_le_def by linarith
  have sub: "uint (subtotal - fee) = uint subtotal - uint fee" using le by (simp add: word_le_def uint_sub_lem[THEN iffD1])
  have le2: "res \<le> subtotal - fee" using fits sub by (simp add: word_le_def)
  have net: "uint (subtotal - fee - res) = uint subtotal - uint fee - uint res"
    using le2 sub by (simp add: word_le_def uint_sub_lem[THEN iffD1])
  have share: "uint subtotal * (10000 - uint fee_bps - uint reserve_bps) \<le> (uint subtotal - uint fee - uint res) * 10000"
    unfolding fee(2) res(2) by (simp add: algebra_simps)
  show ?thesis
    by (rule exI[of _ "\<lparr>sm_subtotal_micros = subtotal, sm_platform_fee_micros = fee,
          sm_provider_net_micros = subtotal - fee - res, sm_chargeback_reserve_micros = res\<rparr>"])
      (use assms fee res le le2 net share in \<open>simp add: settlement_amounts_def checked_sub_def\<close>)
qed

text \<open>
  C16. Every subtotal is split exactly: for basis points that pass validation the split never fails, the
  platform fee, the chargeback reserve and the provider's net sum to the subtotal, fee and reserve are the
  exact shares rounded down to a micro unit, and what rounding leaves goes to the provider.
\<close>

theorem settlement_conserves:
  assumes "validate_bps fee_bps reserve_bps = Inr ()"
  shows "\<exists>m. settlement_amounts subtotal fee_bps reserve_bps = Inr m \<and> sm_subtotal_micros m = subtotal \<and>
    uint (sm_platform_fee_micros m) + uint (sm_chargeback_reserve_micros m) + uint (sm_provider_net_micros m) = uint subtotal \<and>
    uint (sm_platform_fee_micros m) = uint subtotal * uint fee_bps div 10000 \<and>
    uint (sm_chargeback_reserve_micros m) = uint subtotal * uint reserve_bps div 10000 \<and>
    uint subtotal * (10000 - uint fee_bps - uint reserve_bps) \<le> uint (sm_provider_net_micros m) * 10000"
  using assms by (rule settlement_split)

text \<open>
  Usage is charged in whole micro units rounded up: the amount for the billable seconds at the hourly
  price is the least one that covers them, and the only error is an amount beyond 64 bits.
\<close>

theorem billable_amount_exact:
  "case billable_amount_micros seconds price of
     Inr v \<Rightarrow> uint seconds * uint price \<le> uint v * 3600 \<and> uint v * 3600 < uint seconds * uint price + 3600
   | Inl e \<Rightarrow> e = Invalid ''billing amount overflow'' \<and> uint seconds * uint price > (2 ^ 64 - 1) * 3600"
proof -
  let ?raw = "uint seconds * uint price" let ?v = "(?raw + 3599) div 3600"
  have raw: "?raw < 2 ^ 128" using u64_bound[of seconds] u64_bound[of price] by (intro product_below) auto
  have nonneg: "0 \<le> ?raw" by simp
  have v: "0 \<le> ?v" "?raw \<le> ?v * 3600" "?v * 3600 < ?raw + 3600" using nonneg by linarith+
  show ?thesis
  proof (cases "?v < 2 ^ 64")
    case True
    then have "uint (word_of_int ?v :: u64) = ?v" using v(1) by (intro uint_of_int64)
    then show ?thesis using raw True v by (simp add: billable_amount_micros_def Let_def)
  next
    case False
    then show ?thesis using raw v by (simp add: billable_amount_micros_def Let_def)
  qed
qed

section \<open>Postings\<close>

definition posting :: "(nat \<Rightarrow> LedgerLine \<Rightarrow> FinancialLedgerLineRecord) \<Rightarrow> nat \<Rightarrow> LedgerLine list \<Rightarrow> FinancialLedgerLineRecord list" where
  "posting mk n ls = map (\<lambda>(i, l). mk i l) (zip [n..<n + length ls] ls)"

lemma posting_simps [simp]:
  "posting mk n [] = []" "posting mk n (l # ls) = mk n l # posting mk (Suc n) ls"
  by (simp_all add: posting_def upt_conv_Cons del: upt_Suc)

lemma append_lines_Inr: "append_lines mk n ls ledger = Inr ledger' \<Longrightarrow> ledger' = ledger @ posting mk n ls"
proof (induction ls arbitrary: n ledger)
  case (Cons l ls)
  then have "append_lines mk (Suc n) ls (ledger @ [mk n l]) = Inr ledger'"
    by (auto elim!: bind_resE simp: insert_unique_Inr split: if_split_asm)
  from Cons.IH[OF this] show ?case by simp
qed simp

text \<open>What a transaction on the ledger posts: balanced lines of one currency and source.\<close>

definition posted :: "string \<Rightarrow> string \<Rightarrow> string \<Rightarrow> LedgerLine list \<Rightarrow> FinancialLedgerLineRecord list \<Rightarrow> bool" where
  "posted source_type source_id currency ls recs \<longleftrightarrow> sum_list (map lg_amount_micros ls) = 0 \<and>
     (\<exists>uuids txn now. recs = posting (ledger_record uuids txn source_type source_id currency now) 1
        (filter (\<lambda>l. lg_amount_micros l \<noteq> 0) ls))"

lemma sum_nonzero: "sum_list (map f (filter (\<lambda>l. f l \<noteq> 0 \<and> Q l) ls)) = sum_list (map f (filter Q (ls :: 'a list)))" for f :: "'a \<Rightarrow> int"
  by (induction ls) auto

lemma sum_all_nonzero: "sum_list (map f (filter (\<lambda>l. f l \<noteq> 0) ls)) = sum_list (map f (ls :: 'a list))" for f :: "'a \<Rightarrow> int"
  by (induction ls) auto

lemma append_financial_transactionE:
  assumes "append_financial_transaction uuids txn st sid currency now ls b = Inr b'"
  obtains recs where "posted st sid currency ls recs" "b' = b\<lparr>bl_ledger := bl_ledger b @ recs\<rparr>"
    "2 \<le> length (filter (\<lambda>l. lg_amount_micros l \<noteq> 0) ls)" "validate_currency currency = Inr ()"
proof -
  let ?ls = "filter (\<lambda>l. lg_amount_micros l \<noteq> 0) ls"
  let ?recs = "posting (ledger_record uuids txn st sid currency now) 1 ?ls"
  from assms obtain ledger where cur: "validate_currency currency = Inr ()" and bal: "assert_balanced ?ls = Inr ()"
    and l: "append_lines (ledger_record uuids txn st sid currency now) 1 ?ls (bl_ledger b) = Inr ledger"
    and b': "b' = b\<lparr>bl_ledger := ledger\<rparr>"
    unfolding append_financial_transaction_def Let_def by (elim bind_resE) auto
  have "sum_list (map lg_amount_micros ls) = 0" "2 \<le> length ?ls"
    using bal unfolding assert_balanced_def by (auto elim!: bind_resE simp: sum_all_nonzero split: if_split_asm)
  then show ?thesis using that[of ?recs] cur b' append_lines_Inr[OF l] unfolding posted_def by blast
qed

lemma posting_sum:
  assumes "\<And>i l. fl_amount_micros (mk i l) = lg_amount_micros l" "\<And>i l. P (mk i l) = Q l"
  shows "sum_list (map fl_amount_micros (filter P (posting mk n ls))) = sum_list (map lg_amount_micros (filter Q ls))"
  using assms by (induction ls arbitrary: n) auto

lemma posted_sum:
  assumes "posted st sid currency ls recs"
  shows "ledger_sum a ot own c recs = (if c = currency then sum_list (map lg_amount_micros
    (filter (\<lambda>l. lg_account_type l = a \<and> lg_owner_type l = ot \<and> lg_owner_id l = Some own) ls)) else 0)"
proof -
  obtain uuids txn now where recs: "recs = posting (ledger_record uuids txn st sid currency now) 1
      (filter (\<lambda>l. lg_amount_micros l \<noteq> 0) ls)" using assms unfolding posted_def by blast
  show ?thesis unfolding ledger_sum_def recs
    by (subst posting_sum[where Q = "\<lambda>l. lg_account_type l = a \<and> lg_owner_type l = ot \<and> lg_owner_id l = Some own \<and> c = currency"])
      (auto simp: ledger_record_def sum_nonzero)
qed

lemma ledger_sum_append [simp]: "ledger_sum a ot own c (l @ m) = ledger_sum a ot own c l + ledger_sum a ot own c m"
  by (simp add: ledger_sum_def)

text \<open>The books balance: every financial transaction sums to zero in every currency.\<close>

definition transaction_sum :: "string \<Rightarrow> string \<Rightarrow> FinancialLedgerLineRecord list \<Rightarrow> int" where
  "transaction_sum txn c ls = sum_list (map fl_amount_micros (filter (\<lambda>l. fl_transaction_id l = txn \<and> fl_currency l = c) ls))"

definition books_balance :: "FinancialLedgerLineRecord list \<Rightarrow> bool" where
  "books_balance ls \<longleftrightarrow> (\<forall>txn c. transaction_sum txn c ls = 0)"

lemma posted_balance:
  assumes "posted st sid currency ls recs"
  shows "transaction_sum txn c recs = 0"
proof -
  obtain uuids txn' now where recs: "recs = posting (ledger_record uuids txn' st sid currency now) 1
      (filter (\<lambda>l. lg_amount_micros l \<noteq> 0) ls)" and z: "sum_list (map lg_amount_micros ls) = 0"
    using assms unfolding posted_def by blast
  have "transaction_sum txn c recs = sum_list (map lg_amount_micros (filter (\<lambda>l. ''txn_'' @ txn' = txn \<and> c = currency) ls))"
    unfolding transaction_sum_def recs
    by (subst posting_sum[where Q = "\<lambda>l. ''txn_'' @ txn' = txn \<and> c = currency"])
      (auto simp: ledger_record_def sum_nonzero)
  then show ?thesis using z by (cases "''txn_'' @ txn' = txn \<and> c = currency") auto
qed

lemma posted_sources: "posted st sid currency ls recs \<Longrightarrow> r \<in> set recs \<Longrightarrow> fl_source_type r = st \<and> fl_source_id r = sid"
  by (auto simp: posted_def posting_def ledger_record_def)

section \<open>The invariant\<close>

definition funds_ok :: "billing \<Rightarrow> bool" where
  "funds_ok b \<longleftrightarrow> (\<forall>own c. 0 \<le> ledger_sum ''customer_balance'' ''project'' own c (bl_ledger b) \<and>
     0 \<le> ledger_sum ''provider_payable'' ''provider'' own c (bl_ledger b))"

definition invoice_sums :: "BillingInvoiceRecord \<Rightarrow> bool" where
  "invoice_sums i \<longleftrightarrow> uint (iv_platform_fee_micros i) + uint (iv_chargeback_reserve_micros i) +
       uint (iv_provider_net_micros i) = uint (iv_subtotal_micros i) \<and> iv_total_micros i = iv_subtotal_micros i"

definition invoiced_once :: "billing \<Rightarrow> bool" where
  "invoiced_once b \<longleftrightarrow> distinct (map iv_usage_entry_id (bl_invoices b)) \<and> list_all invoice_sums (bl_invoices b)"

definition pix_credits :: "billing \<Rightarrow> string \<Rightarrow> int list" where
  "pix_credits b pid = map fl_amount_micros (filter (\<lambda>l. fl_source_type l = ''pix_payment_intent'' \<and>
     fl_source_id l = pid \<and> fl_account_type l = ''customer_balance'') (bl_ledger b))"

definition pix_ok :: "billing \<Rightarrow> bool" where
  "pix_ok b \<longleftrightarrow> distinct (map px_payment_intent_id (bl_pix b)) \<and>
     (\<forall>p \<in> set (bl_pix b). pix_credits b (px_payment_intent_id p) =
        (if px_status p = ''confirmed'' then [uint (px_amount_micros p)] else [])) \<and>
     (\<forall>l \<in> set (bl_ledger b). fl_source_type l = ''pix_payment_intent'' \<longrightarrow>
        (\<exists>p \<in> set (bl_pix b). px_payment_intent_id p = fl_source_id l))"

lemma pix_ok_cong:
  assumes "bl_ledger b' = bl_ledger b" "bl_pix b' = bl_pix b"
  shows "pix_ok b' = pix_ok b"
  unfolding pix_ok_def pix_credits_def assms ..

definition billing_inv :: "billing \<Rightarrow> bool" where
  "billing_inv b \<longleftrightarrow> books_balance (bl_ledger b) \<and> funds_ok b \<and> invoiced_once b \<and> pix_ok b"

text \<open>
  The contract of an operation: it posts one balanced transaction or nothing, leaves no balance negative, and
  keeps invoices and payment intents in step with the ledger. An operation that touches neither keeps all of it.
\<close>

locale billing_operation =
  fixes oper :: "billing \<Rightarrow> billing \<Rightarrow> bool"
  assumes posts: "billing_inv b \<Longrightarrow> oper b b' \<Longrightarrow> \<exists>recs. bl_ledger b' = bl_ledger b @ recs \<and>
      (recs = [] \<or> (\<exists>st sid c ls. posted st sid c ls recs))"
    and covers: "billing_inv b \<Longrightarrow> oper b b' \<Longrightarrow> funds_ok b'"
    and keeps_invoices: "billing_inv b \<Longrightarrow> oper b b' \<Longrightarrow> invoiced_once b'"
    and keeps_pix: "billing_inv b \<Longrightarrow> oper b b' \<Longrightarrow> pix_ok b'"
begin

lemma keeps_inv:
  assumes "billing_inv b" "oper b b'"
  shows "billing_inv b'"
proof -
  obtain recs where r: "bl_ledger b' = bl_ledger b @ recs" "recs = [] \<or> (\<exists>st sid c ls. posted st sid c ls recs)"
    using posts[OF assms] by blast
  have "transaction_sum txn c recs = 0" for txn c
    using r(2) posted_balance by (auto simp: transaction_sum_def)
  then have "books_balance (bl_ledger b')"
    using assms(1) r(1) by (auto simp: billing_inv_def books_balance_def transaction_sum_def)
  then show ?thesis using covers[OF assms] keeps_invoices[OF assms] keeps_pix[OF assms] by (simp add: billing_inv_def)
qed

lemma appends: "billing_inv b \<Longrightarrow> oper b b' \<Longrightarrow> prefix (bl_ledger b) (bl_ledger b')"
  using posts by (auto simp: prefix_def)

end

locale quiet_operation =
  fixes oper :: "billing \<Rightarrow> billing \<Rightarrow> bool"
  assumes quiet: "oper b b' \<Longrightarrow> bl_ledger b' = bl_ledger b \<and> bl_invoices b' = bl_invoices b \<and> bl_pix b' = bl_pix b"

sublocale quiet_operation \<subseteq> billing_operation oper
proof
  fix b b' assume inv: "billing_inv b" and q: "oper b b'"
  note eq = quiet[OF q]
  show "\<exists>recs. bl_ledger b' = bl_ledger b @ recs \<and> (recs = [] \<or> (\<exists>st sid c ls. posted st sid c ls recs))"
    using eq by simp
  show "funds_ok b'" "invoiced_once b'" using inv eq by (simp_all add: billing_inv_def funds_ok_def invoiced_once_def)
  show "pix_ok b'" using inv eq pix_ok_cong[of b' b] by (simp add: billing_inv_def)
qed

section \<open>The operations keep the contract\<close>

lemma audit_frame [simp]:
  "bl_ledger (audit_core r a i t e ev b) = bl_ledger b" "bl_ledger (audit_customer og pj a i ev t e b) = bl_ledger b"
  "bl_invoices (audit_core r a i t e ev b) = bl_invoices b" "bl_invoices (audit_customer og pj a i ev t e b) = bl_invoices b"
  "bl_pix (audit_core r a i t e ev b) = bl_pix b" "bl_pix (audit_customer og pj a i ev t e b) = bl_pix b"
  by (simp_all add: audit_core_def audit_customer_def)

text \<open>Prices, payout accounts and the parts of the control plane that own the other tables.\<close>

interpretation pricing: quiet_operation
  "\<lambda>b b'. \<exists>uuid rid listing r now p. upsert_marketplace_price X uuid rid listing r now b = Inr (b', p)" for X
  by unfold_locales (auto simp: upsert_marketplace_price_def Let_def elim!: bind_resE)

interpretation payout_accounts: quiet_operation
  "\<lambda>b b'. \<exists>uuid rid provider r now a. upsert_provider_payout_account X uuid rid provider r now b = Inr (b', a)" for X
  by unfold_locales (auto simp: upsert_provider_payout_account_def Let_def elim!: bind_resE)

definition same_billing_tables :: "billing \<Rightarrow> billing \<Rightarrow> bool" where
  "same_billing_tables b b' \<longleftrightarrow> bl_ledger b' = bl_ledger b \<and> bl_invoices b' = bl_invoices b \<and> bl_pix b' = bl_pix b"

interpretation others: quiet_operation same_billing_tables
  by unfold_locales (simp add: same_billing_tables_def)

text \<open>Creating a payment intent moves no money.\<close>

lemma create_pixE:
  assumes "create_pix_payment_intent_idempotently X uuid c now b = Inr (b', out)"
  obtains (replayed) "b' = b"
  | (created) row where "bl_pix b' = bl_pix b @ [row]" "\<forall>old \<in> set (bl_pix b). \<not> pix_clash row old"
      "px_status row = ''requires_confirmation''" "bl_ledger b' = bl_ledger b" "bl_invoices b' = bl_invoices b"
  using assms unfolding create_pix_payment_intent_idempotently_def Let_def
  by (elim bind_resE) (auto split: option.split_asm elim!: bind_resE simp: insert_unique_Inr new_pix_row_def)

interpretation intents: billing_operation
  "\<lambda>b b'. \<exists>uuid c now out. create_pix_payment_intent_idempotently X uuid c now b = Inr (b', out)" for X
proof
  fix b b' assume inv: "billing_inv b" and h: "\<exists>uuid c now out. create_pix_payment_intent_idempotently X uuid c now b = Inr (b', out)"
  from h obtain uuid c now out where h: "create_pix_payment_intent_idempotently X uuid c now b = Inr (b', out)" by blast
  then have same: "bl_ledger b' = bl_ledger b \<and> bl_invoices b' = bl_invoices b" by (cases rule: create_pixE) simp_all
  then show "\<exists>recs. bl_ledger b' = bl_ledger b @ recs \<and> (recs = [] \<or> (\<exists>st sid c ls. posted st sid c ls recs))" by simp
  show "funds_ok b'" "invoiced_once b'" using inv same by (simp_all add: billing_inv_def funds_ok_def invoiced_once_def)
  have pix: "pix_ok b" using inv by (simp add: billing_inv_def)
  from h show "pix_ok b'"
  proof (cases rule: create_pixE)
    case (created row)
    have new: "px_payment_intent_id old \<noteq> px_payment_intent_id row" if "old \<in> set (bl_pix b)" for old
      using created(2) that by (auto simp: pix_clash_def)
    then have "\<not> (fl_source_type l = ''pix_payment_intent'' \<and> fl_source_id l = px_payment_intent_id row)" if "l \<in> set (bl_ledger b)" for l
      using pix that unfolding pix_ok_def by metis
    then have "pix_credits b (px_payment_intent_id row) = []" unfolding pix_credits_def by (auto simp: filter_empty_conv)
    moreover have "px_status row \<noteq> ''confirmed''" using created(3) by simp
    moreover have "pix_credits b' pid = pix_credits b pid" for pid by (simp add: pix_credits_def created(4))
    moreover have "px_payment_intent_id row \<notin> px_payment_intent_id ` set (bl_pix b)" using new by fastforce
    ultimately show ?thesis using pix unfolding pix_ok_def created(1,4) by auto
  qed (use pix in simp)
qed

lemma other_source_pix_ok:
  assumes "pix_ok b" "bl_pix b' = bl_pix b" "bl_ledger b' = bl_ledger b @ recs"
    "\<forall>r \<in> set recs. fl_source_type r \<noteq> ''pix_payment_intent''"
  shows "pix_ok b'"
proof -
  have "pix_credits b' pid = pix_credits b pid" for pid
    using assms(3,4) by (auto simp: pix_credits_def filter_empty_conv)
  then show ?thesis using assms unfolding pix_ok_def by auto
qed

text \<open>Payouts.\<close>

lemma create_provider_payoutE:
  assumes "create_provider_payout X uuids txn uuid rid provider r now b = Inr (b', p)"
  obtains recs sid payable where "posted ''provider_payout'' sid (oq_currency r) (payout_lines provider r) recs"
    "bl_ledger b' = bl_ledger b @ recs" "bl_invoices b' = bl_invoices b" "bl_pix b' = bl_pix b"
    "account_balance ''provider_payable'' ''provider'' provider (oq_currency r) b = Inr payable"
    "uint (oq_amount_micros r) \<le> payable"
proof -
  from assms obtain payable amount payouts sid now' b1 where
    a: "account_balance ''provider_payable'' ''provider'' provider (oq_currency r) b = Inr payable"
      "amount_to_i64 (oq_amount_micros r) = Inr amount" "\<not> payable < amount"
    and t: "append_financial_transaction uuids txn ''provider_payout'' sid (oq_currency r) now'
       (payout_lines provider r) (b\<lparr>bl_payouts := payouts\<rparr>) = Inr b1"
    and b': "bl_ledger b' = bl_ledger b1" "bl_invoices b' = bl_invoices b1" "bl_pix b' = bl_pix b1"
    unfolding create_provider_payout_def Let_def by (elim bind_resE) (auto split: if_split_asm)
  from t obtain recs where "posted ''provider_payout'' sid (oq_currency r) (payout_lines provider r) recs"
    "b1 = b\<lparr>bl_payouts := payouts, bl_ledger := bl_ledger b @ recs\<rparr>"
    by (rule append_financial_transactionE) auto
  then show ?thesis using that a b' by (auto simp: amount_to_i64_def split: if_split_asm)
qed

lemma payout_account_row:
  assumes "create_provider_payout X uuids txn uuid rid provider r now b = Inr (b', p)"
  obtains a payouts and b1 :: billing and row :: ProviderPayoutRecord where "load_active_payout_account X provider (oq_currency r) b = Inr a"
    "pa_kyc_status a = ''verified''" "pa_tax_status a = ''verified''" "pa_minimum_payout_micros a \<le> oq_amount_micros r"
    "po_payout_account_id row = pa_payout_account_id a" "po_amount_micros row = oq_amount_micros r"
    "po_status row = ''held'' \<longleftrightarrow> pa_payout_hold_days a \<noteq> 0"
    "insert_unique (\<lambda>x old. po_payout_id old = po_payout_id x) row (bl_payouts b) = Inr payouts"
    "bl_payouts b1 = payouts" "load_one (\<lambda>q. po_payout_id q = po_payout_id row) (bl_payouts b1) = Inr p"
proof -
  obtain a where a: "load_active_payout_account X provider (oq_currency r) b = Inr a"
    using assms unfolding create_provider_payout_def by (elim bind_resE)
  let ?hold = "if pa_payout_hold_days a = 0 then None
    else Some (to_rfc3339 X (now + uint (pa_payout_hold_days a) * 86400 * nanos_per_second))"
  let ?row = "\<lparr>po_payout_id = ''payout_'' @ uuid, po_provider_id = provider,
           po_payout_account_id = pa_payout_account_id a, po_schema_version = PROVIDER_PAYOUT_SCHEMA_VERSION,
           po_status = (if ?hold \<noteq> None then ''held'' else ''approved''),
           po_amount_micros = oq_amount_micros r, po_currency = oq_currency r, po_hold_until = ?hold,
           po_external_reference = None, po_paid_at = None, po_created_at = to_rfc3339 X now, po_updated_at = to_rfc3339 X now\<rparr>"
  from assms a obtain payouts b1 where "pa_kyc_status a = ''verified''" "pa_tax_status a = ''verified''"
    "\<not> oq_amount_micros r < pa_minimum_payout_micros a"
    and i: "insert_unique (\<lambda>x old. po_payout_id old = po_payout_id x) ?row (bl_payouts b) = Inr payouts"
    and t: "append_financial_transaction uuids txn ''provider_payout'' (''payout_'' @ uuid) (oq_currency r) (to_rfc3339 X now)
       (payout_lines provider r) (b\<lparr>bl_payouts := payouts\<rparr>) = Inr b1"
    and l: "load_one (\<lambda>q. po_payout_id q = ''payout_'' @ uuid) (bl_payouts b1) = Inr p"
    unfolding create_provider_payout_def Let_def by (elim bind_resE) (auto simp: audit_core_def)
  moreover have "bl_payouts b1 = payouts" using t by (rule append_financial_transactionE) simp
  ultimately show ?thesis using that[OF a, of ?row payouts b1] by (simp add: not_less)
qed

lemma balance_sum: "account_balance a ot own c b = Inr v \<Longrightarrow> v = ledger_sum a ot own c (bl_ledger b)"
  by (auto simp: account_balance_def cast_bigint_def split: if_split_asm)

interpretation payouts: billing_operation
  "\<lambda>b b'. \<exists>uuids txn uuid rid provider r now p. create_provider_payout X uuids txn uuid rid provider r now b = Inr (b', p)" for X
proof
  fix b b' assume inv: "billing_inv b"
    and h: "\<exists>uuids txn uuid rid provider r now p. create_provider_payout X uuids txn uuid rid provider r now b = Inr (b', p)"
  from h obtain uuids txn uuid rid provider r now p
    where "create_provider_payout X uuids txn uuid rid provider r now b = Inr (b', p)" by blast
  then obtain recs sid payable where d: "posted ''provider_payout'' sid (oq_currency r) (payout_lines provider r) recs"
    "bl_ledger b' = bl_ledger b @ recs" "bl_invoices b' = bl_invoices b" "bl_pix b' = bl_pix b"
    "account_balance ''provider_payable'' ''provider'' provider (oq_currency r) b = Inr payable"
    "uint (oq_amount_micros r) \<le> payable"
    by (rule create_provider_payoutE)
  show "\<exists>recs. bl_ledger b' = bl_ledger b @ recs \<and> (recs = [] \<or> (\<exists>st sid c ls. posted st sid c ls recs))" using d(1,2) by blast
  show "invoiced_once b'" using inv d(3) by (simp add: billing_inv_def invoiced_once_def)
  show "funds_ok b'"
    using inv d(2,6) balance_sum[OF d(5)] unfolding billing_inv_def funds_ok_def
    by (auto simp: posted_sum[OF d(1)] payout_lines_def)
  have "fl_source_type q \<noteq> ''pix_payment_intent''" if "q \<in> set recs" for q using posted_sources[OF d(1) that] by simp
  then show "pix_ok b'" using inv d(2,4) other_source_pix_ok[of b b' recs] by (simp add: billing_inv_def)
qed

text \<open>Confirmations.\<close>

lemma pix_from_row_sel [simp]:
  "px_status (pix_from_row r) = px_status r" "px_amount_micros (pix_from_row r) = px_amount_micros r"
  "px_project_id (pix_from_row r) = px_project_id r" "px_currency (pix_from_row r) = px_currency r"
  "px_payment_intent_id (pix_from_row r) = px_payment_intent_id r"
  by (simp_all add: pix_from_row_def PixPaymentIntentRecord.truncate_def)

lemma confirm_pixE:
  assumes "confirm_pix_payment_intent X uuids txn rid pid r now b = Inr (b', p, dup)"
  obtains (duplicate) row where "dup" "b' = b" "row \<in> set (bl_pix b)" "px_payment_intent_id row = pid" "px_status row = ''confirmed''"
      "p = pix_from_row row"
  | (confirmed) row recs confirmed_at where "\<not> dup" "row \<in> set (bl_pix b)" "px_payment_intent_id row = pid" "px_status row \<noteq> ''confirmed''"
      "find (\<lambda>p. px_payment_intent_id p = pid) (bl_pix b) = Some row"
      "posted ''pix_payment_intent'' pid (px_currency row) (pix_lines (pix_from_row row)) recs"
      "bl_ledger b' = bl_ledger b @ recs" "bl_invoices b' = bl_invoices b"
      "bl_pix b' = sql_update (\<lambda>p. px_payment_intent_id p = pid) (confirmed_row r confirmed_at) (bl_pix b)"
      "px_amount_micros row \<noteq> 0"
proof -
  from assms obtain row where row: "find (\<lambda>p. px_payment_intent_id p = pid) (bl_pix b) = Some row"
    unfolding confirm_pix_payment_intent_def by (elim bind_resE) auto
  note mem = find_SomeD[OF row]
  show ?thesis
  proof (cases "px_status row = ''confirmed''")
    case True
    then have "dup \<and> b' = b \<and> p = pix_from_row row"
      using assms row unfolding confirm_pix_payment_intent_def Let_def by (elim bind_resE) (auto elim!: bind_resE)
    then show ?thesis using duplicate True mem by blast
  next
    case False
    from assms row False obtain b1 pix now' confirmed_at where dup: "\<not> dup"
      and t: "append_financial_transaction uuids txn ''pix_payment_intent'' pid (px_currency row) now'
         (pix_lines (pix_from_row row)) b = Inr b1"
      and u: "update_confirmed pid r confirmed_at (bl_pix b1) = Inr pix"
      and b': "bl_ledger b' = bl_ledger b1" "bl_invoices b' = bl_invoices b1" "bl_pix b' = pix"
      unfolding confirm_pix_payment_intent_def Let_def by (elim bind_resE) (auto elim!: bind_resE)
    from t obtain recs where d: "posted ''pix_payment_intent'' pid (px_currency row) (pix_lines (pix_from_row row)) recs"
      "b1 = b\<lparr>bl_ledger := bl_ledger b @ recs\<rparr>"
      "2 \<le> length (filter (\<lambda>l. lg_amount_micros l \<noteq> 0) (pix_lines (pix_from_row row)))"
      by (rule append_financial_transactionE)
    have "px_amount_micros row \<noteq> 0" using d(3) by (auto simp: pix_lines_def)
    moreover have "pix = sql_update (\<lambda>p. px_payment_intent_id p = pid) (confirmed_row r confirmed_at) (bl_pix b)"
      using u d(2) unfolding update_confirmed_def by (elim bind_resE) simp
    ultimately show ?thesis using confirmed[OF dup _ _ False row d(1)] mem b' d(2) by simp
  qed
qed

lemma confirmed_credit:
  assumes d: "posted ''pix_payment_intent'' pid c (pix_lines p) recs" "px_amount_micros p \<noteq> 0"
  shows "map fl_amount_micros (filter (\<lambda>l. fl_source_type l = ''pix_payment_intent'' \<and> fl_source_id l = q \<and>
     fl_account_type l = ''customer_balance'') recs) = (if q = pid then [uint (px_amount_micros p)] else [])"
proof -
  have nz: "uint (px_amount_micros p) \<noteq> 0" using d(2) by (simp add: uint_0_iff)
  obtain uuids txn now where "recs = posting (ledger_record uuids txn ''pix_payment_intent'' pid c now) 1
      (filter (\<lambda>l. lg_amount_micros l \<noteq> 0) (pix_lines p))" using d(1) unfolding posted_def by blast
  then show ?thesis using nz by (auto simp: pix_lines_def ledger_record_def)
qed

interpretation confirmations: billing_operation
  "\<lambda>b b'. \<exists>uuids txn rid pid r now p dup. confirm_pix_payment_intent X uuids txn rid pid r now b = Inr (b', p, dup)" for X
proof
  fix b b' assume inv: "billing_inv b"
    and h: "\<exists>uuids txn rid pid r now p dup. confirm_pix_payment_intent X uuids txn rid pid r now b = Inr (b', p, dup)"
  from h obtain uuids txn rid pid r now p dup
    where h: "confirm_pix_payment_intent X uuids txn rid pid r now b = Inr (b', p, dup)" by blast
  have pix: "pix_ok b" using inv by (simp add: billing_inv_def)
  have "(\<exists>recs. bl_ledger b' = bl_ledger b @ recs \<and> (recs = [] \<or> (\<exists>st sid c ls. posted st sid c ls recs))) \<and>
    funds_ok b' \<and> invoiced_once b' \<and> pix_ok b'"
    using h
  proof (cases rule: confirm_pixE)
    case duplicate
    then show ?thesis using inv by (simp add: billing_inv_def)
  next
    case (confirmed row recs confirmed_at)
    have "funds_ok b'"
      using inv confirmed(7) unfolding billing_inv_def funds_ok_def
      by (auto simp: posted_sum[OF confirmed(6)] pix_lines_def)
    moreover have "invoiced_once b'" using inv confirmed(8) by (simp add: billing_inv_def invoiced_once_def)
    moreover have "pix_ok b'"
    proof -
      have credits: "pix_credits b' q = pix_credits b q @ (if q = pid then [uint (px_amount_micros row)] else [])" for q
        using confirmed_credit[OF confirmed(6), of q] confirmed(7,10) by (simp add: pix_credits_def)
      have same: "k = row" if "k \<in> set (bl_pix b)" "px_payment_intent_id k = pid" for k
        using pix that confirmed(2,3) unfolding pix_ok_def by (metis distinct_map_same)
      have none: "pix_credits b pid = []" using pix confirmed(2-4) unfolding pix_ok_def by (metis (full_types))
      have "pix_credits b' (px_payment_intent_id k) = (if px_status k = ''confirmed'' then [uint (px_amount_micros k)] else [])"
        if "k \<in> set (bl_pix b')" for k
        using that unfolding confirmed(9)
      proof (rule in_sql_updateE)
        fix k0 assume "k0 \<in> set (bl_pix b)" "px_payment_intent_id k0 = pid" "k = confirmed_row r confirmed_at k0"
        then show ?thesis using same[of k0] credits[of pid] none by (simp add: confirmed_row_def)
      next
        assume "k \<in> set (bl_pix b)" "px_payment_intent_id k \<noteq> pid"
        then show ?thesis using pix credits[of "px_payment_intent_id k"] unfolding pix_ok_def by simp
      qed
      moreover have ids: "map px_payment_intent_id (bl_pix b') = map px_payment_intent_id (bl_pix b)"
        unfolding confirmed(9) by (simp add: confirmed_row_def)
      moreover have "\<exists>k \<in> set (bl_pix b'). px_payment_intent_id k = fl_source_id l"
        if "l \<in> set (bl_ledger b')" "fl_source_type l = ''pix_payment_intent''" for l
      proof -
        have "\<exists>k \<in> set (bl_pix b). px_payment_intent_id k = fl_source_id l"
          using that pix confirmed(2,3,7) posted_sources[OF confirmed(6)] unfolding pix_ok_def by auto
        then have "fl_source_id l \<in> set (map px_payment_intent_id (bl_pix b'))" unfolding ids by force
        then show ?thesis by auto
      qed
      ultimately show ?thesis using pix unfolding pix_ok_def by metis
    qed
    ultimately show ?thesis using confirmed(6,7) by blast
  qed
  then show "\<exists>recs. bl_ledger b' = bl_ledger b @ recs \<and> (recs = [] \<or> (\<exists>st sid c ls. posted st sid c ls recs))"
    "funds_ok b'" "invoiced_once b'" "pix_ok b'" by blast+
qed

text \<open>Settlements, in two halves and as one transaction.\<close>

lemma settle_readE:
  assumes "settle_read rid r b = Inr plan"
  obtains (settled) i where "plan = Settled i" "i \<in> set (bl_invoices b)" "iv_usage_entry_id i = Some (tq_usage_entry_id r)"
      "iv_reservation_id i = Some rid"
  | (fresh) v n u m where "plan = Settle v n u m" "rv_reservation_id v = rid" "ul_entry_id u = tq_usage_entry_id r"
      "v \<in> set (marketplace_reservations (bl_core b))" "u \<in> set (usage_ledger_entries (bl_core b))" "n \<in> set (bl_snapshots b)"
      "rv_status v \<noteq> ''cancelled''" "ur_reservation_id (ul_receipt u) = Some rid"
      "settlement_amounts (sm_subtotal_micros m) (pn_platform_fee_bps n) (pn_chargeback_reserve_bps n) = Inr m"
      "validate_bps (pn_platform_fee_bps n) (pn_chargeback_reserve_bps n) = Inr ()"
      "billable_amount_micros (ur_billable_gpu_seconds (ul_receipt u)) (pn_price_per_hour_micros n) = Inr (sm_subtotal_micros m)"
      "uint (sm_subtotal_micros m) \<le> ledger_sum ''customer_balance'' ''project'' (rv_project_id v) (pn_currency n) (bl_ledger b)"
      "load_invoice_for_usage (tq_usage_entry_id r) b = None"
proof -
  from assms obtain v nid n u where v: "find (\<lambda>v. rv_reservation_id v = rid) (marketplace_reservations (bl_core b)) = Some v"
    and st: "rv_status v \<noteq> ''cancelled''" and n: "find (\<lambda>n. pn_pricing_snapshot_id n = nid) (bl_snapshots b) = Some n"
    and u: "find (\<lambda>u. ul_entry_id u = tq_usage_entry_id r) (usage_ledger_entries (bl_core b)) = Some u"
    and legacy: "validate_legacy_fee_request_matches_snapshot r n = Inr ()"
    and mu: "validate_usage_matches_reservation v u = Inr ()"
    and c: "(case load_invoice_for_usage (tq_usage_entry_id r) b of
       Some i \<Rightarrow> bind_res (invoice_response_for_existing_usage rid i) (\<lambda>_. Inr (Settled i))
     | None \<Rightarrow> settle_covered v n u b) = Inr plan"
    unfolding settle_read_def by (elim bind_resE) auto
  note mem = find_SomeD[OF v] find_SomeD[OF n] find_SomeD[OF u]
  show ?thesis
  proof (cases "load_invoice_for_usage (tq_usage_entry_id r) b")
    case (Some i)
    then have "plan = Settled i" "iv_reservation_id i = Some rid"
      using c by (auto simp: invoice_response_for_existing_usage_def elim!: bind_resE split: if_split_asm)
    then show ?thesis using settled find_SomeD[OF Some[unfolded load_invoice_for_usage_def]] by blast
  next
    case None
    from c[unfolded None option.case settle_covered_def] obtain subtotal m v64 bal where
      m: "billable_amount_micros (ur_billable_gpu_seconds (ul_receipt u)) (pn_price_per_hour_micros n) = Inr subtotal"
      "settlement_amounts subtotal (pn_platform_fee_bps n) (pn_chargeback_reserve_bps n) = Inr m"
      "amount_to_i64 (sm_subtotal_micros m) = Inr v64"
      "account_balance ''customer_balance'' ''project'' (rv_project_id v) (pn_currency n) b = Inr bal"
      "\<not> bal < v64" "plan = Settle v n u m"
      by (elim bind_resE) auto
    have bps: "validate_bps (pn_platform_fee_bps n) (pn_chargeback_reserve_bps n) = Inr ()"
      using legacy unfolding validate_legacy_fee_request_matches_snapshot_def by (elim bind_resE) simp
    have "sm_subtotal_micros m = subtotal" using m(2) unfolding settlement_amounts_def by (elim bind_resE) auto
    moreover have "uint (sm_subtotal_micros m) = v64" using m(3) by (auto simp: amount_to_i64_def split: if_split_asm)
    moreover have "ur_reservation_id (ul_receipt u) = Some rid"
      using mu mem(1) unfolding validate_usage_matches_reservation_def Let_def by (elim bind_resE) simp
    ultimately show ?thesis using fresh[OF m(6)] mem st m(1,2,5) bps balance_sum[OF m(4)] None by auto
  qed
qed

lemma settle_writeE:
  assumes "settle_write X hash uuids txn uuid rid reservation now plan b = Inr (b', i, dup)"
  obtains (settled) "plan = Settled i" "b' = b" "dup"
  | (lost) v n u m where "plan = Settle v n u m" "b' = b" "dup" "load_invoice_for_usage (ul_entry_id u) b = Some i"
      "iv_reservation_id i = Some reservation"
  | (issued) v n u m j recs where "plan = Settle v n u m" "\<not> dup" "i = j" "j = new_invoice hash uuid (to_rfc3339 X now) v n u m"
      "\<not> invoice_conflict j (bl_invoices b)" "bl_invoices b' = bl_invoices b @ [j]"
      "posted ''billing_invoice'' (iv_invoice_id j) (pn_currency n) (invoice_lines v m) recs"
      "bl_ledger b' = bl_ledger b @ recs" "bl_pix b' = bl_pix b"
proof (cases plan)
  case (Settled k)
  then show ?thesis using assms settled by (auto simp: settle_write_def)
next
  case (Settle v n u m)
  let ?j = "new_invoice hash uuid (to_rfc3339 X now) v n u m"
  show ?thesis
  proof (cases "invoice_conflict ?j (bl_invoices b)")
    case True
    then show ?thesis using assms Settle lost[OF Settle] unfolding settle_write_def
      by (auto simp: Let_def invoice_response_for_existing_usage_def elim!: bind_resE split: if_split_asm)
  next
    case False
    from assms Settle False obtain b1 row where t: "append_financial_transaction uuids txn ''billing_invoice'' (iv_invoice_id ?j)
        (pn_currency n) (to_rfc3339 X now) (invoice_lines v m) (b\<lparr>bl_invoices := bl_invoices b @ [?j]\<rparr>) = Inr b1"
      and b': "bl_ledger b' = bl_ledger b1" "bl_invoices b' = bl_invoices b1" "bl_pix b' = bl_pix b1" "\<not> dup"
      and i: "load_one (\<lambda>k. iv_invoice_id k = iv_invoice_id ?j) (bl_invoices b1) = Inr i"
      unfolding settle_write_def by (auto simp: Let_def elim!: bind_resE)
    from t obtain recs where d: "posted ''billing_invoice'' (iv_invoice_id ?j) (pn_currency n) (invoice_lines v m) recs"
      "b1 = b\<lparr>bl_invoices := bl_invoices b @ [?j], bl_ledger := bl_ledger b @ recs\<rparr>"
      by (rule append_financial_transactionE) simp
    have "find (\<lambda>k. iv_invoice_id k = iv_invoice_id ?j) (bl_invoices b) = None"
      using False by (auto simp: invoice_conflict_def list_ex_iff find_None_iff)
    then have "i = ?j" using i d(2) by (simp add: load_one_def find_append_None)
    then show ?thesis using issued[OF Settle b'(4) _ refl False] b' d by simp
  qed
qed

lemma settle_amounts_sum:
  assumes "validate_bps f r = Inr ()" "settlement_amounts (sm_subtotal_micros m) f r = Inr m"
  shows "uint (sm_platform_fee_micros m) + uint (sm_chargeback_reserve_micros m) + uint (sm_provider_net_micros m) =
    uint (sm_subtotal_micros m)"
  using settlement_split[OF assms(1), of "sm_subtotal_micros m"] assms(2) by auto

lemma invoice_posted_sums:
  assumes "posted ''billing_invoice'' sid c (invoice_lines v m) recs"
  shows "ledger_sum ''customer_balance'' ''project'' own cur recs =
      (if cur = c \<and> own = rv_project_id v then - uint (sm_subtotal_micros m) else 0)"
    "ledger_sum ''provider_payable'' ''provider'' own cur recs =
      (if cur = c \<and> own = rv_provider_id v then uint (sm_provider_net_micros m) else 0)"
  by (auto simp: posted_sum[OF assms] invoice_lines_def)

interpretation settlements: billing_operation
  "\<lambda>b b'. \<exists>uuids txn uuid rid reservation r now i dup.
     settle_reservation_billing X hash uuids txn uuid rid reservation r now b = Inr (b', i, dup)" for X hash
proof
  fix b b' assume inv: "billing_inv b" and h: "\<exists>uuids txn uuid rid reservation r now i dup.
     settle_reservation_billing X hash uuids txn uuid rid reservation r now b = Inr (b', i, dup)"
  from h obtain uuids txn uuid rid reservation r now i dup plan where
    read: "settle_read reservation r b = Inr plan"
    and wr: "settle_write X hash uuids txn uuid rid reservation now plan b = Inr (b', i, dup)"
    unfolding settle_reservation_billing_def by (auto elim!: bind_resE)
  have "(\<exists>recs. bl_ledger b' = bl_ledger b @ recs \<and> (recs = [] \<or> (\<exists>st sid c ls. posted st sid c ls recs))) \<and>
    funds_ok b' \<and> invoiced_once b' \<and> pix_ok b'"
    using wr
  proof (cases rule: settle_writeE)
    case (issued v n u m j recs)
    from read issued(1) have r: "settlement_amounts (sm_subtotal_micros m) (pn_platform_fee_bps n) (pn_chargeback_reserve_bps n) = Inr m"
      "validate_bps (pn_platform_fee_bps n) (pn_chargeback_reserve_bps n) = Inr ()"
      "uint (sm_subtotal_micros m) \<le> ledger_sum ''customer_balance'' ''project'' (rv_project_id v) (pn_currency n) (bl_ledger b)"
      by (auto elim!: settle_readE)
    have "funds_ok b'"
      using inv r(3) unfolding billing_inv_def funds_ok_def issued(8)
      by (auto simp: invoice_posted_sums[OF issued(7)])
    moreover have "invoice_sums j" using settle_amounts_sum[OF r(2,1)] by (simp add: issued(4) invoice_sums_def new_invoice_def)
    then have "invoiced_once b'"
      using inv issued(4,5,6) by (auto simp: billing_inv_def invoiced_once_def invoice_conflict_def list_ex_iff new_invoice_def)
    moreover have "fl_source_type q \<noteq> ''pix_payment_intent''" if "q \<in> set recs" for q using posted_sources[OF issued(7) that] by simp
    then have "pix_ok b'" using inv issued(8,9) other_source_pix_ok[of b b' recs] by (simp add: billing_inv_def)
    ultimately show ?thesis using issued(7,8) by blast
  qed (use inv in \<open>simp_all add: billing_inv_def\<close>)
  then show "\<exists>recs. bl_ledger b' = bl_ledger b @ recs \<and> (recs = [] \<or> (\<exists>st sid c ls. posted st sid c ls recs))"
    "funds_ok b'" "invoiced_once b'" "pix_ok b'" by blast+
qed

section \<open>Runs of billing\<close>

text \<open>One committed transaction of billing, or of a part that owns other tables.\<close>

inductive billing_step :: "externs \<Rightarrow> (SettlementClaims \<Rightarrow> string) \<Rightarrow> billing \<Rightarrow> billing \<Rightarrow> bool"
  for X :: externs and hash :: "SettlementClaims \<Rightarrow> string" where
  priced: "upsert_marketplace_price X uuid rid listing pr now b = Inr (b', p) \<Longrightarrow> billing_step X hash b b'"
| intent: "create_pix_payment_intent_idempotently X uuid c now b = Inr (b', out) \<Longrightarrow> billing_step X hash b b'"
| confirmed: "confirm_pix_payment_intent X uuids txn rid pid cr now b = Inr (b', x, dup) \<Longrightarrow> billing_step X hash b b'"
| settled: "settle_reservation_billing X hash uuids txn uuid rid reservation sr now b = Inr (b', i, dup) \<Longrightarrow> billing_step X hash b b'"
| payout_account: "upsert_provider_payout_account X uuid rid provider ar now b = Inr (b', a) \<Longrightarrow> billing_step X hash b b'"
| paid_out: "create_provider_payout X uuids txn uuid rid provider por now b = Inr (b', po) \<Longrightarrow> billing_step X hash b b'"
| elsewhere: "same_billing_tables b b' \<Longrightarrow> billing_step X hash b b'"

definition billing_init :: "billing \<Rightarrow> bool" where
  "billing_init b \<longleftrightarrow> bl_ledger b = [] \<and> bl_invoices b = [] \<and> bl_pix b = []"

lemma billing_init_inv: "billing_init b \<Longrightarrow> billing_inv b"
  by (simp add: billing_init_def billing_inv_def books_balance_def transaction_sum_def funds_ok_def ledger_sum_def
      invoiced_once_def pix_ok_def)

lemma step_operation:
  assumes "billing_step X hash b b'"
  shows "\<exists>oper. billing_operation oper \<and> oper b b'"
  using assms
proof cases
  case priced
  then show ?thesis using pricing.billing_operation_axioms[of X] by blast
next
  case intent
  then show ?thesis using intents.billing_operation_axioms[of X] by blast
next
  case confirmed
  then show ?thesis using confirmations.billing_operation_axioms[of X] by blast
next
  case settled
  then show ?thesis using settlements.billing_operation_axioms[of X hash] by blast
next
  case payout_account
  then show ?thesis using payout_accounts.billing_operation_axioms[of X] by blast
next
  case paid_out
  then show ?thesis using payouts.billing_operation_axioms[of X] by blast
next
  case elsewhere
  then show ?thesis using others.billing_operation_axioms by blast
qed

interpretation billing: billing_operation "billing_step X hash" for X hash
proof
  fix b b' assume inv: "billing_inv b" and st: "billing_step X hash b b'"
  from step_operation[OF st] obtain oper where "billing_operation oper" and st: "oper b b'" by blast
  note laws = billing_operation.posts[OF this(1) inv st] billing_operation.covers[OF this(1) inv st]
    billing_operation.keeps_invoices[OF this(1) inv st] billing_operation.keeps_pix[OF this(1) inv st]
  show "\<exists>recs. bl_ledger b' = bl_ledger b @ recs \<and> (recs = [] \<or> (\<exists>st sid c ls. posted st sid c ls recs))"
    "funds_ok b'" "invoiced_once b'" "pix_ok b'" by (fact laws)+
qed

interpretation billing_runs: invariant_system billing_init "billing_step X hash" billing_inv for X hash
  by unfold_locales (auto intro: billing_init_inv billing.keeps_inv)

section \<open>Properties\<close>

text \<open>
  C14. The books always balance and are append-only: in every state a run of billing reaches from empty
  tables, each financial transaction sums to zero in each currency, and every later ledger extends the
  earlier one.
\<close>

theorem books_always_balance:
  assumes "billing_init b0" "(billing_step X hash)\<^sup>*\<^sup>* b0 b" "(billing_step X hash)\<^sup>*\<^sup>* b b'"
  shows "transaction_sum txn c (bl_ledger b') = 0 \<and> prefix (bl_ledger b) (bl_ledger b')"
proof -
  have inv: "billing_inv b" using billing_runs.inv_reachable[OF assms(1,2)] .
  have "prefix (bl_ledger b) (bl_ledger b')"
    using assms(3)
  proof (induction rule: rtranclp_induct)
    case (step y z)
    then show ?case using billing.appends[OF billing_runs.inv_steps[OF step(1) inv] step(2)] by (blast intro: prefix_order.trans)
  qed simp
  moreover have "billing_inv b'" by (rule billing_runs.inv_steps[OF assms(3) inv])
  ultimately show ?thesis by (simp add: billing_inv_def books_balance_def)
qed

text \<open>
  C7. With transactions that run one after the other no customer balance and no provider payable ever
  becomes negative.
\<close>

theorem balances_never_negative:
  assumes "billing_init b0" "(billing_step X hash)\<^sup>*\<^sup>* b0 b"
  shows "0 \<le> ledger_sum ''customer_balance'' ''project'' own c (bl_ledger b) \<and>
    0 \<le> ledger_sum ''provider_payable'' ''provider'' own c (bl_ledger b)"
  using billing_runs.inv_reachable[OF assms] by (simp add: billing_inv_def funds_ok_def)

text \<open>
  C17. A payment is credited exactly when it is confirmed, once and with its full amount, whatever is
  confirmed again.
\<close>

theorem pix_credited_once:
  assumes "billing_init b0" "(billing_step X hash)\<^sup>*\<^sup>* b0 b" "p \<in> set (bl_pix b)"
  shows "pix_credits b (px_payment_intent_id p) = (if px_status p = ''confirmed'' then [uint (px_amount_micros p)] else [])"
  using billing_runs.inv_reachable[OF assms(1,2)] assms(3) unfolding billing_inv_def pix_ok_def by blast

lemma settle_write_core:
  assumes "settle_write X hash uuids txn uuid rid reservation now plan b = Inr (b', i, dup)"
  shows "marketplace_reservations (bl_core b') = marketplace_reservations (bl_core b) \<and>
    usage_ledger_entries (bl_core b') = usage_ledger_entries (bl_core b) \<and> bl_snapshots b' = bl_snapshots b"
  using assms unfolding settle_write_def
  by (cases plan) (auto simp: Let_def audit_core_def audit_customer_def insert_audit_event_def insert_customer_audit_event_def
      elim!: bind_resE append_financial_transactionE split: if_split_asm)

lemma settle_read_again:
  assumes "settle_read reservation r b = Inr plan"
    and core: "marketplace_reservations (bl_core b') = marketplace_reservations (bl_core b)"
      "usage_ledger_entries (bl_core b') = usage_ledger_entries (bl_core b)" "bl_snapshots b' = bl_snapshots b"
    and i: "load_invoice_for_usage (tq_usage_entry_id r) b' = Some i" "iv_reservation_id i = Some reservation"
  shows "settle_read reservation r b' = Inr (Settled i)"
  using assms(1) unfolding settle_read_def core
  by (elim bind_resE) (simp add: i invoice_response_for_existing_usage_def validate_id_def ensure_def)

text \<open>
  C12. Usage is billed once: after a settlement exactly one invoice is for the usage entry, its amounts add
  up, and settling it again, under whatever identifiers and at whatever time, returns that invoice as a
  duplicate and changes nothing.
\<close>

theorem usage_billed_once:
  assumes run: "billing_init b0" "(billing_step X hash)\<^sup>*\<^sup>* b0 b"
    and s: "settle_reservation_billing X hash uuids txn uuid rid reservation r now b = Inr (b', i, dup)"
  shows "filter (\<lambda>j. iv_usage_entry_id j = Some (tq_usage_entry_id r)) (bl_invoices b') = [i] \<and>
    iv_reservation_id i = Some reservation \<and> invoice_sums i \<and>
    settle_reservation_billing X hash uuids' txn' uuid' rid' reservation r now' b' = Inr (b', i, True)"
proof -
  have inv: "billing_inv b'"
    using billing_runs.inv_reachable[OF run] s by (blast intro: billing.keeps_inv billing_step.settled)
  from s obtain plan where read: "settle_read reservation r b = Inr plan"
    and wr: "settle_write X hash uuids txn uuid rid reservation now plan b = Inr (b', i, dup)"
    unfolding settle_reservation_billing_def by (auto elim!: bind_resE)
  have i: "i \<in> set (bl_invoices b') \<and> iv_usage_entry_id i = Some (tq_usage_entry_id r) \<and> iv_reservation_id i = Some reservation"
    using wr
  proof (cases rule: settle_writeE)
    case settled
    then show ?thesis using read by (auto elim: settle_readE)
  next
    case lost
    then show ?thesis using read by (auto elim!: settle_readE dest!: find_SomeD simp: load_invoice_for_usage_def)
  next
    case issued
    then show ?thesis using read by (auto elim!: settle_readE simp: new_invoice_def)
  qed
  have dist: "distinct (map iv_usage_entry_id (bl_invoices b'))" and sums: "invoice_sums i"
    using inv i by (auto simp: billing_inv_def invoiced_once_def list_all_iff)
  have one: "filter (\<lambda>j. iv_usage_entry_id j = Some (tq_usage_entry_id r)) (bl_invoices b') = [i]"
    using filter_unique_key[OF dist, of i] i by simp
  have "load_invoice_for_usage (tq_usage_entry_id r) b' = Some i"
    using find_distinct_key[OF dist, of i] i by (simp add: load_invoice_for_usage_def)
  then have "settle_read reservation r b' = Inr (Settled i)"
    using settle_read_again[OF read] settle_write_core[OF wr] i by blast
  then show ?thesis using one i sums by (simp add: settle_reservation_billing_def settle_write_def)
qed

text \<open>
  C18. A payout is made only to an active account whose KYC and tax status are verified, of at least its
  minimum and at most the provider's payable balance, which falls by exactly that amount; it is held
  exactly when the account has a hold period.
\<close>

theorem payout_safe:
  assumes "create_provider_payout X uuids txn uuid rid provider r now b = Inr (b', p)"
  shows "\<exists>a \<in> set (bl_payout_accounts b). pa_provider_id a = provider \<and> pa_currency a = oq_currency r \<and> pa_status a = ''active'' \<and>
      pa_kyc_status a = ''verified'' \<and> pa_tax_status a = ''verified'' \<and> pa_minimum_payout_micros a \<le> oq_amount_micros r \<and>
      po_payout_account_id p = pa_payout_account_id a \<and> po_amount_micros p = oq_amount_micros r \<and>
      (po_status p = ''held'' \<longleftrightarrow> pa_payout_hold_days a \<noteq> 0) \<and>
      uint (oq_amount_micros r) \<le> ledger_sum ''provider_payable'' ''provider'' provider (oq_currency r) (bl_ledger b) \<and>
      ledger_sum ''provider_payable'' ''provider'' provider (oq_currency r) (bl_ledger b') =
        ledger_sum ''provider_payable'' ''provider'' provider (oq_currency r) (bl_ledger b) - uint (oq_amount_micros r)"
proof -
  from assms obtain recs sid payable where d: "posted ''provider_payout'' sid (oq_currency r) (payout_lines provider r) recs"
    "bl_ledger b' = bl_ledger b @ recs"
    "account_balance ''provider_payable'' ''provider'' provider (oq_currency r) b = Inr payable"
    "uint (oq_amount_micros r) \<le> payable"
    by (rule create_provider_payoutE)
  have sum: "ledger_sum ''provider_payable'' ''provider'' provider (oq_currency r) (bl_ledger b') =
        ledger_sum ''provider_payable'' ''provider'' provider (oq_currency r) (bl_ledger b) - uint (oq_amount_micros r)"
    by (simp add: d(2) posted_sum[OF d(1)] payout_lines_def)
  from assms obtain a payouts and b1 :: billing and row :: ProviderPayoutRecord where a: "load_active_payout_account X provider (oq_currency r) b = Inr a"
    "pa_kyc_status a = ''verified''" "pa_tax_status a = ''verified''" "pa_minimum_payout_micros a \<le> oq_amount_micros r"
    and row: "po_payout_account_id row = pa_payout_account_id a" "po_amount_micros row = oq_amount_micros r"
      "po_status row = ''held'' \<longleftrightarrow> pa_payout_hold_days a \<noteq> 0" "insert_unique (\<lambda>x old. po_payout_id old = po_payout_id x) row (bl_payouts b) = Inr payouts"
      "bl_payouts b1 = payouts" "load_one (\<lambda>q. po_payout_id q = po_payout_id row) (bl_payouts b1) = Inr p"
    by (rule payout_account_row)
  have "p = row" using row(4-6) by (auto simp: insert_unique_Inr load_one_def find_append_None find_None_iff)
  moreover have "a \<in> set (bl_payout_accounts b) \<and> pa_provider_id a = provider \<and> pa_currency a = oq_currency r \<and> pa_status a = ''active''"
    using a(1) by (auto simp: load_active_payout_account_def dest!: latest_by_Some)
  ultimately show ?thesis using a(2-4) row(1-3) sum d(4) balance_sum[OF d(3)] by blast
qed

section \<open>Instances\<close>

definition example_receipt :: "string \<Rightarrow> string \<Rightarrow> JobUsageReceipt" where
  "example_receipt reservation snapshot =
     (build_job_usage_receipt example_externs example_source)\<lparr>ur_reservation_id := Some reservation,
       ur_pricing_snapshot_id := Some snapshot, ur_billable_gpu_seconds := 3600\<rparr>"

definition example_usage :: "string \<Rightarrow> string \<Rightarrow> string \<Rightarrow> UsageLedgerEntry" where
  "example_usage entry reservation snapshot = \<lparr>ul_entry_id = entry, ul_entry_type = ENTRY_TYPE_JOB_USAGE_FINALIZED,
     ul_receipt = example_receipt reservation snapshot, ul_receipt_hash = ''h'', ul_receipt_signature_status = ''u'',
     ul_source_hash = ''h'', ul_created_at = ''+1''\<rparr>"

definition example_reservation :: "string \<Rightarrow> string \<Rightarrow> reservation_row" where
  "example_reservation reservation snapshot = \<lparr>rv_reservation_id = reservation, rv_organization_id = ''o1'',
     rv_project_id = ''pr1'', rv_listing_id = ''li1'', rv_pricing_snapshot_id = Some snapshot, rv_provider_id = ''p1'',
     rv_device_id = ''d1'', rv_session_id = None, rv_schema_version = ''v'', rv_workload_type = ''w'', rv_gpu_uuid = None,
     rv_status = ''consumed'', rv_idempotency_key = None, rv_request_hash = None, rv_starts_at = ''+1'',
     rv_expires_at = ''+11'', rv_cancelled_at = None, rv_reserved_gpu_seconds = 10, rv_reason_codes = [],
     rv_created_at = ''+1'', rv_updated_at = ''+1''\<rparr>"

definition example_snapshot :: "string \<Rightarrow> PricingSnapshotRecord" where
  "example_snapshot snapshot = \<lparr>pn_pricing_snapshot_id = snapshot, pn_source_price_id = ''price'', pn_listing_id = ''li1'',
     pn_schema_version = ''v'', pn_currency = ''BRL'', pn_pricing_model = ''gpu_hour'', pn_price_per_hour_micros = 1000,
     pn_platform_fee_bps = 1500, pn_chargeback_reserve_bps = 500, pn_fee_policy_version = ''f'', pn_created_at = ''+1''\<rparr>"

definition example_billing :: billing where
  "example_billing = \<lparr>bl_core = example_sched_db\<lparr>marketplace_reservations := [example_reservation ''r1'' ''n1'', example_reservation ''r2'' ''n2''],
       usage_ledger_entries := [example_usage ''u1'' ''r1'' ''n1'', example_usage ''u2'' ''r2'' ''n2'']\<rparr>,
     bl_organizations = [\<lparr>og_organization_id = ''o1'', og_schema_version = ''v'', og_display_name = ''o'', og_status = ''active'',
       og_created_at = ''+1'', og_updated_at = ''+1''\<rparr>],
     bl_projects = [\<lparr>pj_project_id = ''pr1'', pj_organization_id = ''o1'', pj_schema_version = ''v'', pj_display_name = ''p'',
       pj_status = ''active'', pj_created_at = ''+1'', pj_updated_at = ''+1''\<rparr>],
     bl_listings = [], bl_prices = [], bl_snapshots = [example_snapshot ''n1'', example_snapshot ''n2''], bl_pix = [], bl_pix_keys = [],
     bl_invoices = [], bl_ledger = [],
     bl_payout_accounts = [\<lparr>pa_payout_account_id = ''a'', pa_provider_id = ''p1'', pa_schema_version = ''v'', pa_payout_method = ''pix'',
       pa_currency = ''BRL'', pa_pix_key_hash = ''h'', pa_pix_key_last4 = ''1'', pa_kyc_status = ''verified'', pa_tax_status = ''verified'',
       pa_minimum_payout_micros = 1, pa_payout_hold_days = 0, pa_status = ''active'', pa_created_at = ''+1'', pa_updated_at = ''+1''\<rparr>],
     bl_payouts = []\<rparr>"

definition example_pix :: CreatePixPaymentIntentCommand where
  "example_pix = \<lparr>xc_request_id = ''r'', xc_scope = ''s'', xc_idempotency_key = ''k'', xc_request_hash = ''h'',
     xc_auth = example_key\<lparr>ak_scopes := [''billing:write'']\<rparr>, xc_project_id = ''pr1'',
     xc_request = \<lparr>xq_amount_micros = 1000, xq_currency = ''BRL'', xq_external_reference = None\<rparr>\<rparr>"

abbreviation example_billing_step :: "billing \<Rightarrow> billing \<Rightarrow> bool" where
  "example_billing_step \<equiv> billing_step example_externs (\<lambda>_. ''h'')"

text \<open>A payment of 1000 micro units is created and confirmed.\<close>

definition example_paid :: "billing res" where
  "example_paid =
     bind_res (create_pix_payment_intent_idempotently example_externs ''1'' example_pix 5 example_billing) (\<lambda>(b1, _).
     bind_res (confirm_pix_payment_intent example_externs (\<lambda>n. replicate n CHR ''l'') ''1'' ''r'' ''pix_1''
       \<lparr>fq_provider = ''bank'', fq_external_reference = ''e'', fq_paid_at = None\<rparr> 6 b1) (\<lambda>(b2, _).
     Inr b2))"

definition example_settle :: "string \<Rightarrow> SettleReservationBillingRequest" where
  "example_settle entry = \<lparr>tq_usage_entry_id = entry, tq_platform_fee_bps = None, tq_chargeback_reserve_bps = None\<rparr>"

text \<open>Two settlements of 1000 whose reads both precede both writes.\<close>

definition example_race :: "(settle_plan \<times> settle_plan \<times> billing \<times> billing) res" where
  "example_race =
     bind_res example_paid (\<lambda>b.
     bind_res (settle_read ''r1'' (example_settle ''u1'') b) (\<lambda>p1.
     bind_res (settle_read ''r2'' (example_settle ''u2'') b) (\<lambda>p2.
     bind_res (settle_write example_externs (\<lambda>_. ''h'') (\<lambda>n. replicate n CHR ''m'') ''2'' ''i1'' ''r'' ''r1'' 7 p1 b) (\<lambda>(b1, _).
     bind_res (settle_write example_externs (\<lambda>_. ''h'') (\<lambda>n. replicate n CHR ''n'') ''3'' ''i2'' ''r'' ''r2'' 7 p2 b1) (\<lambda>(b2, _).
     Inr (p1, p2, b, b2))))))"

lemma example_billing_init: "billing_init example_billing"
  by (simp add: billing_init_def example_billing_def)

lemma example_paid_reachable:
  assumes "example_paid = Inr b"
  shows "example_billing_step\<^sup>*\<^sup>* example_billing b"
proof -
  obtain b1 o1 o2 where "create_pix_payment_intent_idempotently example_externs ''1'' example_pix 5 example_billing = Inr (b1, o1)"
    "confirm_pix_payment_intent example_externs (\<lambda>n. replicate n CHR ''l'') ''1'' ''r'' ''pix_1''
       \<lparr>fq_provider = ''bank'', fq_external_reference = ''e'', fq_paid_at = None\<rparr> 6 b1 = Inr (b, o2)"
    using assms unfolding example_paid_def by (auto elim!: bind_resE)
  then have "example_billing_step example_billing b1" "example_billing_step b1 b"
    by (auto intro: billing_step.intent billing_step.confirmed[of _ _ _ _ _ _ _ _ _ "fst o2" "snd o2"])
  then show ?thesis by (rule rtranclp.rtrancl_into_rtrancl[OF r_into_rtranclp[of example_billing_step]])
qed

text \<open>Two settlements wait for each other only if they lock a common row.\<close>

fun locks_disjoint :: "settle_plan \<Rightarrow> settle_plan \<Rightarrow> bool" where
  "locks_disjoint (Settle v1 n1 u1 m1) (Settle v2 n2 u2 m2) \<longleftrightarrow> rv_reservation_id v1 \<noteq> rv_reservation_id v2 \<and>
     pn_pricing_snapshot_id n1 \<noteq> pn_pricing_snapshot_id n2 \<and> ul_entry_id u1 \<noteq> ul_entry_id u2"
| "locks_disjoint _ _ \<longleftrightarrow> False"

lemma example_race_overdraws: "case example_race of
     Inr (p1, p2, b, b2) \<Rightarrow> ledger_sum ''customer_balance'' ''project'' ''pr1'' ''BRL'' (bl_ledger b2) = - 1000 \<and> locks_disjoint p1 p2
   | Inl _ \<Rightarrow> False"
  by code_simp

text \<open>
  C33. Concurrent settlements can overdraw. A settlement checks the balance of the project but locks only
  its reservation, snapshot and usage entry, so in a reachable state two settlements that lock disjoint rows
  can both read a sufficient balance before either writes; both then succeed and the customer balance is
  negative, which runs of whole transactions exclude.
\<close>

theorem concurrent_settlements_overdraw:
  "\<exists>b p1 p2 b1 i1 b2 i2. example_billing_step\<^sup>*\<^sup>* example_billing b \<and>
     settle_read ''r1'' (example_settle ''u1'') b = Inr p1 \<and> settle_read ''r2'' (example_settle ''u2'') b = Inr p2 \<and>
     locks_disjoint p1 p2 \<and>
     settle_write example_externs (\<lambda>_. ''h'') (\<lambda>n. replicate n CHR ''m'') ''2'' ''i1'' ''r'' ''r1'' 7 p1 b = Inr (b1, i1) \<and>
     settle_write example_externs (\<lambda>_. ''h'') (\<lambda>n. replicate n CHR ''n'') ''3'' ''i2'' ''r'' ''r2'' 7 p2 b1 = Inr (b2, i2) \<and>
     ledger_sum ''customer_balance'' ''project'' ''pr1'' ''BRL'' (bl_ledger b2) < 0"
proof -
  obtain p1 p2 b b2 where r: "example_race = Inr (p1, p2, b, b2)" "locks_disjoint p1 p2"
    and neg: "ledger_sum ''customer_balance'' ''project'' ''pr1'' ''BRL'' (bl_ledger b2) < 0"
    using example_race_overdraws by (auto split: sum.split_asm)
  from r(1)[unfolded example_race_def] obtain b1 i1 i2 where "example_paid = Inr b"
    "settle_read ''r1'' (example_settle ''u1'') b = Inr p1" "settle_read ''r2'' (example_settle ''u2'') b = Inr p2"
    "settle_write example_externs (\<lambda>_. ''h'') (\<lambda>n. replicate n CHR ''m'') ''2'' ''i1'' ''r'' ''r1'' 7 p1 b = Inr (b1, i1)"
    "settle_write example_externs (\<lambda>_. ''h'') (\<lambda>n. replicate n CHR ''n'') ''3'' ''i2'' ''r'' ''r2'' 7 p2 b1 = Inr (b2, i2)"
    by (auto elim!: bind_resE)
  then show ?thesis using example_paid_reachable r(2) neg by blast
qed

theorem settlement_conserves_witness:
  "\<exists>m. settlement_amounts 1001 1500 500 = Inr m \<and> uint (sm_platform_fee_micros m) = 150 \<and>
     uint (sm_chargeback_reserve_micros m) = 50 \<and> uint (sm_provider_net_micros m) = 801"
proof -
  have "validate_bps 1500 500 = Inr ()" by code_simp
  from settlement_conserves[OF this, of 1001] show ?thesis by auto
qed

lemma example_paid_ledger: "case example_paid of Inr b \<Rightarrow> length (bl_ledger b) = 2 \<and> map px_status (bl_pix b) = [''confirmed''] \<and>
    map px_amount_micros (bl_pix b) = [1000] | Inl _ \<Rightarrow> False"
  by code_simp

lemma example_paid_ok: obtains b where "example_paid = Inr b" "example_billing_step\<^sup>*\<^sup>* example_billing b"
proof -
  obtain b where "example_paid = Inr b"
    using example_paid_ledger by (auto split: sum.split_asm)
  then show ?thesis using that example_paid_reachable by blast
qed

definition example_invoice :: "(billing \<times> BillingInvoiceRecord \<times> bool) res" where
  "example_invoice = bind_res example_paid
     (settle_reservation_billing example_externs (\<lambda>_. ''h'') (\<lambda>n. replicate n CHR ''m'') ''2'' ''i1'' ''r'' ''r1'' (example_settle ''u1'') 7)"

lemma example_invoice_ok: "case example_invoice of
    Inr (b, i, dup) \<Rightarrow> \<not> dup \<and> iv_total_micros i = 1000 \<and>
      (case create_provider_payout example_externs (\<lambda>n. replicate n CHR ''o'') ''4'' ''9'' ''r'' ''p1''
         \<lparr>oq_amount_micros = 800, oq_currency = ''BRL''\<rparr> 8 b of Inr _ \<Rightarrow> True | Inl _ \<Rightarrow> False)
  | Inl _ \<Rightarrow> False"
  by code_simp

lemma example_invoiceE:
  obtains b0 b i where "example_billing_step\<^sup>*\<^sup>* example_billing b0" "example_billing_step\<^sup>*\<^sup>* example_billing b"
    "example_billing_step\<^sup>*\<^sup>* b0 b"
    "settle_reservation_billing example_externs (\<lambda>_. ''h'') (\<lambda>n. replicate n CHR ''m'') ''2'' ''i1'' ''r'' ''r1'' (example_settle ''u1'') 7 b0
       = Inr (b, i, False)" "example_invoice = Inr (b, i, False)" "iv_total_micros i = 1000" "example_paid = Inr b0"
proof -
  obtain b i where i: "example_invoice = Inr (b, i, False)" "iv_total_micros i = 1000"
    using example_invoice_ok by (auto split: sum.split_asm)
  then obtain b0 where b0: "example_paid = Inr b0"
    and s: "settle_reservation_billing example_externs (\<lambda>_. ''h'') (\<lambda>n. replicate n CHR ''m'') ''2'' ''i1'' ''r'' ''r1'' (example_settle ''u1'') 7 b0
       = Inr (b, i, False)"
    unfolding example_invoice_def by (elim bind_resE)
  note st = billing_step.settled[OF s]
  show ?thesis
    by (rule that[OF example_paid_reachable[OF b0] _ r_into_rtranclp[of example_billing_step, OF st] s i b0])
      (rule rtranclp.rtrancl_into_rtrancl[OF example_paid_reachable[OF b0] st])
qed

lemma example_invoice_one: "case example_invoice of Inr (b, _) \<Rightarrow> length (bl_invoices b) = 1 | Inl _ \<Rightarrow> False"
  by code_simp

theorem books_always_balance_witness:
  "\<exists>b0 b. example_billing_step\<^sup>*\<^sup>* b0 b \<and> length (bl_ledger b0) = 2 \<and> transaction_sum ''txn_2'' ''BRL'' (bl_ledger b) = 0 \<and>
     prefix (bl_ledger b0) (bl_ledger b)"
proof -
  obtain b0 b i where r: "example_billing_step\<^sup>*\<^sup>* example_billing b0" "example_billing_step\<^sup>*\<^sup>* b0 b"
    "example_paid = Inr b0"
    by (rule example_invoiceE)
  have "length (bl_ledger b0) = 2" using example_paid_ledger[unfolded r(3)] by simp
  with books_always_balance[OF example_billing_init r(1,2)] r(2) show ?thesis by blast
qed

theorem balances_never_negative_witness:
  "\<exists>b. example_billing_step\<^sup>*\<^sup>* example_billing b \<and> 0 \<le> ledger_sum ''customer_balance'' ''project'' ''pr1'' ''BRL'' (bl_ledger b)"
proof -
  obtain b where r: "example_billing_step\<^sup>*\<^sup>* example_billing b" by (rule example_invoiceE)
  from balances_never_negative[OF example_billing_init r, of "''pr1''" "''BRL''"] r show ?thesis by blast
qed

theorem pix_credited_once_witness:
  "\<exists>b p. example_paid = Inr b \<and> bl_pix b = [p] \<and> pix_credits b (px_payment_intent_id p) = [1000]"
proof -
  obtain b where b: "example_paid = Inr b" "example_billing_step\<^sup>*\<^sup>* example_billing b" by (rule example_paid_ok)
  obtain p where p: "bl_pix b = [p]" "px_status p = ''confirmed''" "px_amount_micros p = 1000"
    using example_paid_ledger[unfolded b(1)] by (auto simp: length_Suc_conv)
  have "pix_credits b (px_payment_intent_id p) = [1000]"
    using pix_credited_once[OF example_billing_init b(2), of p] p by simp
  then show ?thesis using b(1) p(1) by blast
qed

theorem usage_billed_once_witness:
  "\<exists>b i. example_invoice = Inr (b, i, False) \<and> bl_invoices b = [i] \<and>
     settle_reservation_billing example_externs (\<lambda>_. ''h'') (\<lambda>n. replicate n CHR ''k'') ''5'' ''i5'' ''r'' ''r1'' (example_settle ''u1'') 9 b
       = Inr (b, i, True)"
proof -
  obtain b0 b i where r: "example_billing_step\<^sup>*\<^sup>* example_billing b0" "example_invoice = Inr (b, i, False)"
    "settle_reservation_billing example_externs (\<lambda>_. ''h'') (\<lambda>n. replicate n CHR ''m'') ''2'' ''i1'' ''r'' ''r1'' (example_settle ''u1'') 7 b0
       = Inr (b, i, False)" by (rule example_invoiceE)
  have "length (bl_invoices b) = 1" using example_invoice_one[unfolded r(2)] by simp
  then obtain j where j: "bl_invoices b = [j]" by (auto simp: length_Suc_conv)
  have "i \<in> set (bl_invoices b)"
    using usage_billed_once[OF example_billing_init r(1,3)] by (metis filter_is_subset list.set_intros(1) subsetD)
  then have "bl_invoices b = [i]" using j by simp
  then show ?thesis using usage_billed_once[OF example_billing_init r(1,3)] r(2) by blast
qed

theorem payout_safe_witness:
  "\<exists>b i b' p. example_invoice = Inr (b, i) \<and>
     create_provider_payout example_externs (\<lambda>n. replicate n CHR ''o'') ''4'' ''9'' ''r'' ''p1''
         \<lparr>oq_amount_micros = 800, oq_currency = ''BRL''\<rparr> 8 b = Inr (b', p) \<and>
     ledger_sum ''provider_payable'' ''provider'' ''p1'' ''BRL'' (bl_ledger b') =
     ledger_sum ''provider_payable'' ''provider'' ''p1'' ''BRL'' (bl_ledger b) - 800"
proof -
  obtain b i b' p where b: "example_invoice = Inr (b, i)" "create_provider_payout example_externs (\<lambda>n. replicate n CHR ''o'') ''4'' ''9'' ''r'' ''p1''
         \<lparr>oq_amount_micros = 800, oq_currency = ''BRL''\<rparr> 8 b = Inr (b', p)"
    using example_invoice_ok by (auto split: sum.split_asm)
  have "ledger_sum ''provider_payable'' ''provider'' ''p1'' ''BRL'' (bl_ledger b') =
     ledger_sum ''provider_payable'' ''provider'' ''p1'' ''BRL'' (bl_ledger b) - 800"
    using payout_safe[OF b(2)] by auto
  then show ?thesis using b by blast
qed

end
