(* ===== verification/Market_System.thy ===== *)
theory Market_System
  imports Placement_Mirror Marketplace Customer_Artifact Account_System Billing_Ledger
begin

text \<open>
  The control plane as one transition system: the handlers of job control, the placement of workloads, the
  reservations and credits, the accounts and billing, interleaved as they commit. Every step of the market
  is a step of the systems of jobs and of billing, so what holds of their runs holds here, and the
  invariants that span components hold after every run: workloads, placements and reservations mirror the
  jobs, the credit ledger agrees with the reservations, and a price snapshot never changes.
\<close>

section \<open>Steps\<close>

text \<open>One committed transaction of a handler of job control, of the scheduler or of metering.\<close>

inductive job_transaction :: "externs \<Rightarrow> canonical_hashes \<Rightarrow> usage_hashes \<Rightarrow> db \<Rightarrow> db \<Rightarrow> bool"
  for X :: externs and H :: canonical_hashes and U :: usage_hashes where
  job_created: "create_job_idempotently X uuid c now s = Inr (s', out) \<Longrightarrow> job_transaction X H U s s'"
| job_scheduled: "run_scheduler X H E rid request policy now s = Inr (s', r) \<Longrightarrow> job_transaction X H U s s'"
| job_offered: "next_job_for_session X H locked rid auth policy token now s = Inr (s', r) \<Longrightarrow> job_transaction X H U s s'"
| job_accepted: "s' = fst (accept_job X H rid auth jid accept policy now s) \<Longrightarrow> job_transaction X H U s s'"
| job_recorded: "record_job_event X uuid auth jid event now s = Inr (s', e, r) \<Longrightarrow> job_transaction X H U s s'"
| job_uploaded: "record_job_artifact_upload X jid aid credential sha size_bytes ct now s = Inr (s', a) \<Longrightarrow> job_transaction X H U s s'"
| job_submitted: "submit_job_result X U uuid rid auth jid result now s = Inr (s', r) \<Longrightarrow> job_transaction X H U s s'"
| job_cancelled: "cancel_job X U uuid rid jid cancel now s = Inr (s', r) \<Longrightarrow> job_transaction X H U s s'"
| customer_job_cancelled:
    "cancel_customer_job X U uuid rid customer project wid cx now s = Inr (s', r) \<Longrightarrow> job_transaction X H U s s'"
| usage_finalized: "finalize_job_usage X U uuid rid jid now s = Inr (s', e, dup) \<Longrightarrow> job_transaction X H U s s'"

inductive billing_transaction :: "externs \<Rightarrow> (SettlementClaims \<Rightarrow> string) \<Rightarrow> billing \<Rightarrow> billing \<Rightarrow> bool"
  for X :: externs and hash :: "SettlementClaims \<Rightarrow> string" where
  price_set: "upsert_marketplace_price X uuid rid listing pr now b = Inr (b', p) \<Longrightarrow> billing_transaction X hash b b'"
| pix_created: "create_pix_payment_intent_idempotently X uuid c now b = Inr (b', out) \<Longrightarrow> billing_transaction X hash b b'"
| pix_confirmed: "confirm_pix_payment_intent X uuids txn rid pid cr now b = Inr (b', x, dup) \<Longrightarrow> billing_transaction X hash b b'"
| usage_settled: "settle_reservation_billing X hash uuids txn uuid rid reservation sr now b = Inr (b', i, dup) \<Longrightarrow>
    billing_transaction X hash b b'"
| account_set: "upsert_provider_payout_account X uuid rid provider ar now b = Inr (b', a) \<Longrightarrow> billing_transaction X hash b b'"
| payout_created: "create_provider_payout X uuids txn uuid rid provider por now b = Inr (b', po) \<Longrightarrow> billing_transaction X hash b b'"

inductive artifact_transaction :: "externs \<Rightarrow> market \<Rightarrow> market \<Rightarrow> bool" for X :: externs where
  artifact_created: "create_customer_artifact_idempotently X uuid c now m = Inr (m', out) \<Longrightarrow> artifact_transaction X m m'"
| artifact_uploaded: "record_customer_artifact_upload X auth project aid sha size_bytes now m = Inr (m', a) \<Longrightarrow> artifact_transaction X m m'"
| artifact_finalized: "finalize_customer_artifact X rid auth project aid now m = Inr (m', r) \<Longrightarrow> artifact_transaction X m m'"

text \<open>
  The tables the properties speak of are left alone: the reading operations, and the parts of the program that
  are not modelled (provider sessions and admission evidence, eligibility, profiles).
\<close>

definition same_market :: "market \<Rightarrow> market \<Rightarrow> bool" where
  "same_market m m' \<longleftrightarrow> same_job_tables (core m) (core m') \<and> market_tables (core m') = market_tables (core m) \<and>
     mk_credits m' = mk_credits m \<and> same_billing_tables (mk_billing m) (mk_billing m') \<and>
     bl_snapshots (mk_billing m') = bl_snapshots (mk_billing m) \<and> mk_artifacts m' = mk_artifacts m"

inductive market_step ::
  "externs \<Rightarrow> canonical_hashes \<Rightarrow> usage_hashes \<Rightarrow> (SettlementClaims \<Rightarrow> string) \<Rightarrow> (json \<Rightarrow> string) \<Rightarrow> market \<Rightarrow> market \<Rightarrow> bool"
  for X :: externs and H :: canonical_hashes and U :: usage_hashes and hash :: "SettlementClaims \<Rightarrow> string" and json_text :: "json \<Rightarrow> string" where
  jobs_step: "job_transaction X H U (core m) s' \<Longrightarrow> market_step X H U hash json_text m (with_core (\<lambda>_. s') m)"
| billing_step: "billing_transaction X hash (mk_billing m) b' \<Longrightarrow> market_step X H U hash json_text m (m\<lparr>mk_billing := b'\<rparr>)"
| account_step: "account_transaction X m m' \<Longrightarrow> market_step X H U hash json_text m m'"
| workload_placed: "create_customer_workload_idempotently X H json_text locked policy ids wc now m = Inr (m', wout) \<Longrightarrow>
    market_step X H U hash json_text m m'"
| reservation_created: "create_marketplace_reservation_idempotently X uuids vc now m = Inr (m', vout) \<Longrightarrow>
    market_step X H U hash json_text m m'"
| reservation_cancelled: "cancel_marketplace_reservation X uuids rid auth reservation cr now m = Inr (m', vr) \<Longrightarrow>
    market_step X H U hash json_text m m'"
| reservations_listed: "list_project_reservations X uuids auth project limit now m = Inr (m', rs) \<Longrightarrow>
    market_step X H U hash json_text m m'"
| usage_read: "customer_project_usage X uuids auth project now m = Inr (m', cu) \<Longrightarrow> market_step X H U hash json_text m m'"
| credits_granted: "grant_customer_credits_idempotently X uuid ec now m = Inr (m', ce) \<Longrightarrow> market_step X H U hash json_text m m'"
| artifact_step: "artifact_transaction X m m' \<Longrightarrow> market_step X H U hash json_text m m'"
| listings_swept: "sweep_listings source_hash uuids rid now_text n candidates m = Inr (m', ls) \<Longrightarrow> market_step X H U hash json_text m m'"
| elsewhere: "same_market m m' \<Longrightarrow> market_step X H U hash json_text m m'"

section \<open>What the transactions leave alone\<close>

lemma job_transaction_step: "job_transaction X H U s s' \<Longrightarrow> job_step X H U s s'"
  by (induction rule: job_transaction.induct) (blast intro: job_step.intros)+

interpretation job_transactions: mirrored_handler "job_transaction X H U" for X H U
proof
  fix s s' assume a: "lease_authority s" and st: "job_transaction X H U s s'"
  note laws = creating_job.quiet_or_ends[OF a] scheduling_jobs.quiet_or_ends[OF a] offering_jobs.quiet_or_ends[OF a]
    accepting_jobs.quiet_or_ends[OF a] recording_events.quiet_or_ends[OF a] uploading_artifacts.quiet_or_ends[OF a]
    submitting_results.quiet_or_ends[OF a] cancelling_jobs.quiet_or_ends[OF a] customer_cancelling_jobs.quiet_or_ends[OF a]
    finalizing_usage.quiet_or_ends[OF a]
  show "quiet s s' \<or> ends_job s s'" using st by cases (rule laws, blast)+
qed

lemma billing_transaction_step: "billing_transaction X hash b b' \<Longrightarrow> Billing_Ledger.billing_step X hash b b'"
  by (induction rule: billing_transaction.induct) (blast intro: Billing_Ledger.billing_step.intros)+

text \<open>Billing reads the database of jobs and writes its audit log only.\<close>

definition audits_only :: "billing \<Rightarrow> billing \<Rightarrow> bool" where
  "audits_only b b' \<longleftrightarrow> same_job_tables (bl_core b) (bl_core b') \<and> market_tables (bl_core b') = market_tables (bl_core b) \<and>
     bl_snapshots b' = bl_snapshots b"

lemma billing_transaction_audits: "billing_transaction X hash b b' \<Longrightarrow> audits_only b b'"
proof (induction rule: billing_transaction.induct)
  case (price_set uuid rid listing pr now b b' p)
  then show ?case
    unfolding upsert_marketplace_price_def Let_def audits_only_def
    by (auto simp: same_job_tables_def audit_core_def audit_customer_def insert_audit_event_def insert_customer_audit_event_def
        market_tables_def elim!: bind_resE)
next
  case (pix_created uuid c now b b' out)
  then show ?case
    unfolding create_pix_payment_intent_idempotently_def Let_def audits_only_def
    by (auto simp: same_job_tables_def audit_core_def audit_customer_def insert_audit_event_def insert_customer_audit_event_def
        market_tables_def elim!: bind_resE split: option.split_asm)
next
  case (pix_confirmed uuids txn rid pid cr now b b' x dup)
  then show ?case
    unfolding confirm_pix_payment_intent_def Let_def audits_only_def
    by (auto simp: same_job_tables_def audit_core_def audit_customer_def insert_audit_event_def insert_customer_audit_event_def
        market_tables_def elim!: bind_resE append_financial_transactionE split: option.split_asm if_split_asm)
next
  case (usage_settled uuids txn uuid rid reservation sr now b b' i dup)
  then obtain plan where "settle_write X hash uuids txn uuid rid reservation now plan b = Inr (b', i, dup)"
    unfolding settle_reservation_billing_def by (auto elim!: bind_resE)
  then show ?case
    unfolding settle_write_def audits_only_def
    by (cases plan) (auto simp: Let_def same_job_tables_def audit_core_def audit_customer_def insert_audit_event_def
        insert_customer_audit_event_def market_tables_def elim!: bind_resE append_financial_transactionE split: if_split_asm)
next
  case (account_set uuid rid provider ar now b b' a)
  then show ?case
    unfolding upsert_provider_payout_account_def Let_def audits_only_def
    by (auto simp: same_job_tables_def audit_core_def audit_customer_def insert_audit_event_def insert_customer_audit_event_def
        market_tables_def elim!: bind_resE)
next
  case (payout_created uuids txn uuid rid provider por now b b' po)
  then show ?case
    unfolding create_provider_payout_def Let_def audits_only_def
    by (auto simp: same_job_tables_def audit_core_def audit_customer_def insert_audit_event_def insert_customer_audit_event_def
        market_tables_def elim!: bind_resE append_financial_transactionE split: if_split_asm)
qed

lemma same_market_refl: "same_market m m"
  by (simp add: same_market_def same_billing_tables_def same_job_tables_def)

lemma same_market_trans: "same_market a b \<Longrightarrow> same_market b c \<Longrightarrow> same_market a c"
  by (simp add: same_market_def same_billing_tables_def same_job_tables_def)

text \<open>An audit event changes none of the tables, and neither do the tables of people.\<close>

lemma human_audits_same:
  "same_market m (human_customer_audit org project auth ev et eid m)" "same_market m (insert_human_audit rid user ev m)"
  "same_market m (m\<lparr>mk_memberships := ms\<rparr>)" "same_market m (m\<lparr>mk_human_sessions := ss\<rparr>)"
  "same_market m (m\<lparr>mk_identities := ids\<rparr>)" "same_market m (m\<lparr>mk_users := us, mk_identities := ids\<rparr>)"
  by (simp_all add: same_market_def same_billing_tables_def same_job_tables_def market_tables_def with_core_def human_customer_audit_def
      audit_market_def insert_customer_audit_event_def insert_human_audit_def insert_audit_event_def)

lemma membership_same: "membership_command X ha org user m m' \<Longrightarrow> same_market m m'"
proof (induction rule: membership_command.induct)
  case (member_added auth org ar now m m' o')
  then show ?case unfolding add_organization_member_def Let_def by (elim bind_resE) (auto intro: same_market_trans human_audits_same)
next
  case (member_updated auth org user ur now m m' o')
  then show ?case unfolding update_organization_member_def Let_def by (elim bind_resE) (simp, auto intro: same_market_trans human_audits_same)
next
  case (member_removed auth org user m m')
  then show ?case unfolding remove_organization_member_def by (elim bind_resE) (auto intro: same_market_trans human_audits_same)
qed

lemma login_same:
  assumes "create_google_human_session X uuids token rid identity ttl now m = Inr (m', created)"
  shows "same_market m m'"
proof -
  obtain user_uuid identity_uuid session_uuid where uuids: "uuids = (user_uuid, identity_uuid, session_uuid)" by (cases uuids)
  from assms obtain m1 user m2 where person: "(case identity_with_user (vg_subject identity) m of
         Some (i, u) \<Rightarrow> known_person identity (to_rfc3339 X now) i u m
       | None \<Rightarrow> new_person user_uuid identity_uuid rid identity (to_rfc3339 X now) m) = Inr (m1, user)"
    and session: "insert_session X session_uuid token user now ttl m1 = Inr (m2, created)"
    and m': "m' = insert_human_audit rid user ''human_session.created'' m2"
    unfolding create_google_human_session_def uuids by (auto simp: Let_def elim!: bind_resE)
  from person have "same_market m m1"
    by (auto simp: known_person_def new_person_def Let_def intro: same_market_trans human_audits_same elim!: bind_resE split: option.split_asm if_split_asm)
  moreover from session have "same_market m1 m2"
    by (auto simp: insert_session_def Let_def intro: human_audits_same elim!: bind_resE split: if_split_asm)
  ultimately show ?thesis unfolding m' by (blast intro: same_market_trans human_audits_same)
qed

lemma account_transaction_same: "account_transaction X m m' \<Longrightarrow> same_market m m'"
proof (induction rule: account_transaction.induct)
  case (user_created uuid rid ur now m m' u)
  then show ?case
    unfolding create_customer_user_def Let_def same_market_def same_billing_tables_def same_job_tables_def market_tables_def
    by (auto simp: with_core_def insert_audit_event_def elim!: bind_resE)
next
  case (organization_created uuid rid gr now m m' g om)
  then show ?case
    unfolding create_organization_def Let_def same_market_def same_billing_tables_def same_job_tables_def market_tables_def
    by (auto simp: with_core_def audit_market_def insert_audit_event_def insert_customer_audit_event_def elim!: bind_resE)
next
  case (project_created uuid org jr now m m' p)
  then show ?case
    unfolding create_project_def Let_def same_market_def same_billing_tables_def same_job_tables_def market_tables_def
    by (auto simp: with_core_def audit_market_def insert_customer_audit_event_def elim!: bind_resE)
next
  case (quota_set project qr now m m' q)
  then show ?case
    unfolding upsert_project_quota_def Let_def same_market_def same_billing_tables_def same_job_tables_def market_tables_def
    by (auto simp: with_core_def audit_market_def insert_customer_audit_event_def elim!: bind_resE split: if_split_asm)
next
  case (key_created uuid token rid project kr now m m' kp)
  then show ?case
    unfolding create_customer_api_key_def Let_def same_market_def same_billing_tables_def same_job_tables_def market_tables_def
    by (auto simp: with_core_def audit_market_def insert_customer_audit_event_def elim!: bind_resE)
next
  case (key_used token' project' now m m' auth)
  then show ?case
    unfolding authorize_customer_api_key_def same_market_def same_billing_tables_def same_job_tables_def market_tables_def
    by (auto elim!: bind_resE split: if_split_asm)
next
  case (session_opened uuids token rid identity ttl now m m' created)
  then show ?case by (rule login_same)
next
  case (session_used token' now m m' ha)
  then show ?case
    unfolding authorize_human_session_def same_market_def same_billing_tables_def same_job_tables_def market_tables_def
    by (auto elim!: bind_resE split: if_split_asm)
next
  case (session_revoked rid ha now m m' n)
  then show ?case
    unfolding revoke_human_session_def revoke_sessions_def insert_human_audit_def same_market_def same_billing_tables_def same_job_tables_def market_tables_def
    by (auto simp: with_core_def insert_audit_event_def)
next
  case (sessions_revoked rid ha now m m' n)
  then show ?case
    unfolding revoke_all_human_sessions_def revoke_sessions_def insert_human_audit_def same_market_def same_billing_tables_def same_job_tables_def
      market_tables_def
    by (auto simp: with_core_def insert_audit_event_def elim!: bind_resE)
next
  case (human_organization_created uuid ha gr now m m' g om)
  then show ?case
    unfolding create_human_organization_def Let_def same_market_def same_billing_tables_def same_job_tables_def market_tables_def
    by (elim bind_resE) (auto simp: with_core_def human_customer_audit_def audit_market_def insert_customer_audit_event_def)
next
  case (membership_changed ha org user m m')
  then show ?case by (rule membership_same)
next
  case (human_project_created uuid ha org jr now m m' p)
  then show ?case
    unfolding create_human_project_def Let_def same_market_def same_billing_tables_def same_job_tables_def market_tables_def
    by (elim bind_resE) (auto simp: with_core_def human_customer_audit_def audit_market_def insert_customer_audit_event_def)
next
  case (human_key_created uuid token rid ha project kr now m m' kp)
  then show ?case
    unfolding create_human_customer_api_key_def Let_def same_market_def same_billing_tables_def same_job_tables_def market_tables_def
    by (elim bind_resE) (auto simp: with_core_def human_customer_audit_def audit_market_def insert_customer_audit_event_def)
next
  case (human_key_revoked ha project kid now m m' k)
  then show ?case
    unfolding revoke_human_customer_api_key_def Let_def same_market_def same_billing_tables_def same_job_tables_def market_tables_def
    by (elim bind_resE) (auto simp: with_core_def human_customer_audit_def audit_market_def insert_customer_audit_event_def)
qed

text \<open>The operations on artifacts change nothing else, and a sweep changes listings and the audit log.\<close>

lemma artifact_transaction_same: "artifact_transaction X m m' \<Longrightarrow> same_market m (m'\<lparr>mk_artifacts := mk_artifacts m\<rparr>)"
proof (induction rule: artifact_transaction.induct)
  case (artifact_created uuid c now m m' out)
  then show ?case
    unfolding create_customer_artifact_idempotently_def create_artifact_def Let_def same_market_def same_billing_tables_def
      same_job_tables_def market_tables_def insert_artifact_audit_event_def audit_market_def
    by (elim bind_resE idempotentlyE) (auto simp: with_core_def insert_customer_audit_event_def elim!: bind_resE)
next
  case (artifact_uploaded auth project aid sha size_bytes now m m' a)
  then show ?case
    unfolding record_customer_artifact_upload_def Let_def same_market_def same_billing_tables_def same_job_tables_def market_tables_def
      insert_artifact_audit_event_def audit_market_def
    by (auto simp: with_core_def insert_customer_audit_event_def elim!: bind_resE split: if_split_asm)
next
  case (artifact_finalized rid auth project aid now m m' r)
  then show ?case
    unfolding finalize_customer_artifact_def Let_def same_market_def same_billing_tables_def same_job_tables_def market_tables_def
      insert_artifact_audit_event_def audit_market_def
    by (auto simp: with_core_def insert_customer_audit_event_def elim!: bind_resE split: if_split_asm)
qed

lemma sweep_same: "sweep_listings source_hash uuids rid now_text n cs m = Inr (m', ls) \<Longrightarrow> same_market m m'"
proof (induction cs arbitrary: n m ls)
  case (Cons c cs)
  from Cons.prems show ?case
  proof (rule sweep_stepE)
    fix h l rest rows
    let ?m1 = "with_core (insert_audit_event rid ''system'' None ''marketplace_listing'' (li_listing_id l) ''marketplace_listing.recalculated'')
      (update_listings (\<lambda>_. rows) m)"
    have "same_market m ?m1"
      by (simp add: same_market_def same_billing_tables_def same_job_tables_def market_tables_def update_listings_def with_core_def insert_audit_event_def)
    moreover assume "sweep_listings source_hash uuids rid now_text (Suc n) cs ?m1 = Inr (m', rest)"
    ultimately show ?case using Cons.IH same_market_trans by blast
  qed
qed (simp add: same_market_def same_billing_tables_def same_job_tables_def)

text \<open>Snapshots are only added, under new identifiers.\<close>

definition snapshots_grow :: "billing \<Rightarrow> billing \<Rightarrow> bool" where
  "snapshots_grow b b' \<longleftrightarrow> (\<exists>ns. bl_snapshots b' = bl_snapshots b @ ns \<and>
     (distinct (map pn_pricing_snapshot_id (bl_snapshots b)) \<longrightarrow> distinct (map pn_pricing_snapshot_id (bl_snapshots b'))))"

text \<open>What an operation on reservations leaves alone.\<close>

definition reserves :: "market \<Rightarrow> market \<Rightarrow> bool" where
  "reserves m m' \<longleftrightarrow> same_job_tables (core m) (core m') \<and> customer_workloads (core m') = customer_workloads (core m) \<and>
     compute_placements (core m') = compute_placements (core m) \<and> same_billing_tables (mk_billing m) (mk_billing m') \<and>
     snapshots_grow (mk_billing m) (mk_billing m') \<and> mk_artifacts m' = mk_artifacts m \<and>
     (\<forall>v \<in> set (marketplace_reservations (core m)). rv_status v \<in> {''consumed'', ''released''} \<longrightarrow> v \<in> set (marketplace_reservations (core m')))"

lemma snapshots_grow_same: "bl_snapshots b' = bl_snapshots b \<Longrightarrow> snapshots_grow b b'"
  by (simp add: snapshots_grow_def)

lemma snapshots_grow_trans: "snapshots_grow a b \<Longrightarrow> snapshots_grow b c \<Longrightarrow> snapshots_grow a c"
  unfolding snapshots_grow_def by (elim exE conjE) (rule exI, rule conjI, simp, blast)

lemma reserves_trans: "reserves a b \<Longrightarrow> reserves b c \<Longrightarrow> reserves a c"
  unfolding reserves_def same_job_tables_def same_billing_tables_def by simp (blast intro: snapshots_grow_trans)

lemma reserves_refl: "reserves m m"
  by (simp add: reserves_def same_job_tables_def same_billing_tables_def snapshots_grow_same)

lemma update_listings_artifacts [simp]: "mk_artifacts (update_listings f m) = mk_artifacts m"
  by (simp add: update_listings_def)

lemma used_kept:
  "\<forall>v. P v \<longrightarrow> rv_status v = ''reserved'' \<Longrightarrow> v \<in> set rows \<Longrightarrow> rv_status v \<in> {''consumed'', ''released''} \<Longrightarrow> v \<in> set (sql_update P f rows)"
  unfolding in_sql_update_iff by (intro bexI[of _ v]) auto

lemma expire_reserves:
  assumes "expire_stale_reservations X uuids now m = Inr (m', n)"
  shows "reserves m m'"
  using assms
proof (rule expire_staleE)
  fix es ls
  assume m': "m' = update_listings (\<lambda>_. ls) ((with_core (\<lambda>s. s\<lparr>marketplace_reservations := expired_rows X now (marketplace_reservations s)\<rparr>) m)
       \<lparr>mk_credits := mk_credits m @ es\<rparr>)"
  have "v \<in> set (expired_rows X now (marketplace_reservations (core m)))"
    if "v \<in> set (marketplace_reservations (core m))" "rv_status v \<in> {''consumed'', ''released''}" for v
    unfolding expired_rows_def by (rule used_kept[OF _ that]) (simp add: stale_reservation_def)
  then show ?thesis
    by (simp add: reserves_def m' same_job_tables_def same_billing_tables_def snapshots_grow_same) (simp add: update_listings_def with_core_def)
qed

lemma reserve_reserves:
  assumes "reserve X uuids c now m = Inr (m', r)"
  shows "reserves m m'"
proof -
  from assms obtain m1 n access l price starts where x: "expire_stale_reservations X (\<lambda>k. uuids (k + 3)) now m = Inr (m1, n)"
    and w: "write_reservation X uuids c access l price starts now m1 = Inr (m', r)"
    unfolding reserve_def by (auto elim!: bind_resE)
  from w have b: "same_billing_tables (mk_billing m1) (mk_billing m') \<and> mk_artifacts m' = mk_artifacts m1"
    unfolding write_reservation_def insert_snapshot_def
    by (auto simp: Let_def same_billing_tables_def audit_market_def with_core_def update_listings_def elim!: bind_resE append_creditE split: if_split_asm)
  from w have "reserves m1 m'"
    by (rule write_reservationE) (use b in \<open>auto simp: reserves_def same_job_tables_def insert_customer_audit_event_def snapshots_grow_def\<close>)
  then show ?thesis by (rule reserves_trans[OF expire_reserves[OF x]])
qed

lemma create_reservation_reserves:
  assumes "create_marketplace_reservation_idempotently X uuids c now m = Inr (m', out)"
  shows "reserves m m'"
proof (cases "m' = m")
  case False
  with assms obtain t r ks where "reserve X uuids c now m = Inr (t, r)" "m' = t\<lparr>mk_reservation_keys := ks\<rparr>"
    unfolding create_marketplace_reservation_idempotently_def by (elim bind_resE idempotentlyE) auto
  then show ?thesis using reserve_reserves[of X uuids c now m t r] by (simp add: reserves_def)
qed (simp add: reserves_refl)

lemma cancel_reserved_reserves:
  assumes "cancel_reserved X uuid auth b now m = Inr m'"
  shows "reserves m m'"
proof -
  let ?P = "\<lambda>v. rv_reservation_id v = mr_reservation_id b \<and> rv_status v = ''reserved''"
  let ?f = "\<lambda>v. v\<lparr>rv_status := ''cancelled'', rv_cancelled_at := Some (to_rfc3339 X now), rv_updated_at := to_rfc3339 X now\<rparr>"
  let ?m1 = "with_core (\<lambda>s. s\<lparr>marketplace_reservations := sql_update ?P ?f (marketplace_reservations s)\<rparr>) m"
  from assms obtain m2 e where e: "append_customer_credit_ledger_entry X uuid (mr_organization_id b) (mr_project_id b) ''reservation_release'' 0
      (Some (mr_reservation_id b)) ''reservation hold released without credit settlement in BN-17'' now ?m1 = Inr (m2, e)"
    and m': "m' = audit_market (mr_organization_id b) (Some (mr_project_id b)) ''customer_api_key'' (Some (ak_api_key_id auth))
      ''marketplace_reservation.cancelled'' ''marketplace_reservation'' (mr_reservation_id b)
      (release_listing_reservation_hold (mr_listing_id b) (to_rfc3339 X now) m2)"
    unfolding cancel_reserved_def by (auto simp: Let_def elim!: bind_resE)
  from e have m2: "m2 = ?m1\<lparr>mk_credits := mk_credits m @ [e]\<rparr>" by (auto elim!: append_creditE)
  obtain ls where ls: "release_listing_reservation_hold (mr_listing_id b) (to_rfc3339 X now) m2 = update_listings (\<lambda>_. ls) m2"
    using release_hold_listings by blast
  have "v \<in> set (sql_update ?P ?f (marketplace_reservations (core m)))"
    if "v \<in> set (marketplace_reservations (core m))" "rv_status v \<in> {''consumed'', ''released''}" for v
    by (rule used_kept[OF _ that]) simp
  then show ?thesis
    unfolding m' ls unfolding m2 audit_market_def
    by (simp add: reserves_def same_job_tables_def same_billing_tables_def snapshots_grow_same insert_customer_audit_event_def)
       (simp add: update_listings_def with_core_def)
qed

lemma reading_reserves:
  "list_project_reservations X uuids auth project limit now m = Inr (m', rs) \<Longrightarrow> reserves m m'"
  "customer_project_usage X uuids auth project now m = Inr (m', cu) \<Longrightarrow> reserves m m'"
  unfolding list_project_reservations_def customer_project_usage_def Let_def
  by (auto elim!: bind_resE dest: expire_reserves split: if_split_asm)

lemma cancel_reservation_reserves:
  assumes "cancel_marketplace_reservation X uuids rq auth rid r now m = Inr (m', out)"
  shows "reserves m m'"
proof -
  from assms obtain m1 n b where x: "expire_stale_reservations X (\<lambda>k. uuids (Suc k)) now m = Inr (m1, n)"
    and m': "cancel_reserved X (uuids 0) auth b now m1 = Inr m' \<or> m' = m1"
    unfolding cancel_marketplace_reservation_def by (auto elim!: bind_resE split: if_split_asm) blast
  from m' have "reserves m1 m'" using cancel_reserved_reserves reserves_refl by blast
  then show ?thesis by (rule reserves_trans[OF expire_reserves[OF x]])
qed

lemma grant_reserves:
  assumes "grant_customer_credits_idempotently X uuid c now m = Inr (m', out)"
  shows "reserves m m'"
proof -
  from assms obtain org where "idempotently mk_credit_keys (\<lambda>ks m. m\<lparr>mk_credit_keys := ks\<rparr>) (ec_scope c) (ec_idempotency_key c)
       (ec_request_hash c) (grant_credits X uuid org c now) m = Inr (m', out)"
    unfolding grant_customer_credits_idempotently_def by (auto elim!: bind_resE)
  then show ?thesis
  proof (cases rule: idempotentlyE)
    case (performed t r k)
    then have "reserves m t"
      unfolding grant_credits_def reserves_def
      by (auto simp: audit_market_def insert_customer_audit_event_def insert_audit_event_def same_job_tables_def same_billing_tables_def
          with_core_def snapshots_grow_same elim!: bind_resE append_creditE)
    then show ?thesis using performed(2) by (simp add: reserves_def)
  qed (simp add: reserves_refl)
qed

section \<open>Every step of the market is a step of jobs and of billing\<close>

lemma place_effect:
  assumes "create_customer_workload_idempotently X H jt locked policy ids c now m = Inr (m', out)"
  obtains "m' = m" | t r where "place_workload X H jt locked policy ids c now m = Inr (t, r)" "core m' = core t" "mk_billing m' = mk_billing t"
    "mk_credits m' = mk_credits t" "mk_artifacts m' = mk_artifacts m"
proof -
  from assms have "idempotently mk_workload_keys (\<lambda>ks m. m\<lparr>mk_workload_keys := ks\<rparr>) (wc_scope c) (wc_idempotency_key c)
       (wc_request_hash c) (place_workload X H jt locked policy ids c now) m = Inr (m', out)"
    unfolding create_customer_workload_idempotently_def by (auto elim!: bind_resE)
  then show ?thesis
  proof (cases rule: idempotentlyE)
    case (performed t r k)
    moreover have "mk_artifacts t = mk_artifacts m"
      using performed(1) unfolding place_workload_def Let_def by (auto elim!: bind_resE)
    ultimately show ?thesis using that(2) by simp
  qed (use that in simp)
qed

lemma place_workload_billing:
  "place_workload X H jt locked policy ids c now m = Inr (t, r) \<Longrightarrow> same_billing_tables (mk_billing m) (mk_billing t) \<and>
    bl_snapshots (mk_billing t) = bl_snapshots (mk_billing m) \<and> mk_credits t = mk_credits m"
  unfolding place_workload_def Let_def by (auto simp: same_billing_tables_def with_core_def elim!: bind_resE)

lemma place_workload_job:
  assumes "place_workload X H jt locked policy ids c now m = Inr (t, r)"
  shows "job_step X H U (core m) (core t)"
  using assms
proof (rule place_workloadE, goal_cases)
  case prems: (1 project reservation candidate w p j inputs)
  have "placed_job j (core m)" using prems by (auto simp: placed_job_def placed_job_clash_def)
  moreover have "same_job_tables ((core m)\<lparr>compute_jobs := compute_jobs (core m) @ [j]\<rparr>) (core t)" using prems by (simp add: same_job_tables_def)
  ultimately show ?case by (rule job_step.placed)
qed

lemma market_step_parts:
  assumes "market_step X H U hash json_text m m'"
  shows "job_step X H U (core m) (core m') \<and> Billing_Ledger.billing_step X hash (mk_billing m) (mk_billing m')"
proof -
  have quiet: ?thesis if "same_job_tables (core m) (core m')" "same_billing_tables (mk_billing m) (mk_billing m')"
    using that job_step.elsewhere Billing_Ledger.billing_step.elsewhere by blast
  have res: ?thesis if "reserves m m'" using that by (intro quiet) (simp_all add: reserves_def)
  show ?thesis
    using assms
  proof cases
    case (jobs_step s')
    then show ?thesis using job_transaction_step Billing_Ledger.billing_step.elsewhere
      by (auto simp: with_core_def same_billing_tables_def)
  next
    case (billing_step b')
    then show ?thesis using billing_transaction_step billing_transaction_audits job_step.elsewhere by (auto simp: audits_only_def)
  next
    case account_step
    then show ?thesis using account_transaction_same quiet by (simp add: same_market_def)
  next
    case workload_placed
    then show ?thesis
    proof (cases rule: place_effect)
      case 1
      then show ?thesis by (intro quiet) (simp_all add: same_job_tables_def same_billing_tables_def)
    next
      case (2 t r)
      then show ?thesis
        using place_workload_job[OF 2(1)] place_workload_billing[OF 2(1)] Billing_Ledger.billing_step.elsewhere by simp
    qed
  next
    case artifact_step
    from artifact_transaction_same[OF this] show ?thesis by (intro quiet) (simp_all add: same_market_def)
  next
    case listings_swept
    then show ?thesis using sweep_same by (intro quiet) (simp_all add: same_market_def)
  next
    case elsewhere
    then show ?thesis by (intro quiet) (simp_all add: same_market_def)
  qed (rule res, erule create_reservation_reserves cancel_reservation_reserves reading_reserves grant_reserves)+
qed

section \<open>Invariants of the market\<close>

definition market_inv :: "market \<Rightarrow> bool" where
  "market_inv m \<longleftrightarrow> job_inv (core m) \<and> billing_inv (mk_billing m) \<and> mirror (core m) \<and> holds_recorded m \<and>
     distinct (map pn_pricing_snapshot_id (bl_snapshots (mk_billing m)))"

definition market_init :: "market \<Rightarrow> bool" where
  "market_init m \<longleftrightarrow> job_init (core m) \<and> billing_init (mk_billing m) \<and> customer_workloads (core m) = [] \<and> compute_placements (core m) = [] \<and>
     marketplace_reservations (core m) = [] \<and> mk_credits m = [] \<and> bl_snapshots (mk_billing m) = []"

lemma market_init_inv: "market_init m \<Longrightarrow> market_inv m"
  by (simp add: market_init_def market_inv_def job_init_inv billing_init_inv mirror_def holds_recorded_def well_bound_def
      exclusive_supply_def ledger_agrees_def sql_count_def)
     (simp add: job_init_def)

lemma mirror_cong:
  "same_job_tables s s' \<Longrightarrow> market_tables s' = market_tables s \<Longrightarrow> mirror s \<Longrightarrow> mirror s'"
  by (simp add: mirror_def same_job_tables_def market_tables_def)

lemma ledger_after_job:
  assumes "ledger_agrees (marketplace_reservations s) credits" "well_bound (map job_contract (compute_jobs s))"
    "distinct (map job_id (compute_jobs s))" "quiet s s' \<or> ends_job s s'"
  shows "ledger_agrees (marketplace_reservations s') credits"
  using assms(4)
proof
  assume "quiet s s'"
  then show ?thesis using assms(1) by (simp add: quiet_def market_tables_def)
next
  assume "ends_job s s'"
  with assms(2,3) show ?thesis
  proof (rule ends_jobE)
    fix k now
    assume "marketplace_reservations s' = map (released_reservation now k) (marketplace_reservations s)"
    then have "marketplace_reservations s' = sql_update (\<lambda>v. jr_reservation_id k = Some (rv_reservation_id v) \<and> rv_status v = ''consumed'')
        (\<lambda>v. v\<lparr>rv_status := ''released'', rv_updated_at := now\<rparr>) (marketplace_reservations s)"
      by (simp add: sql_update_def released_reservation_def)
    then show ?thesis using assms(1) by (auto intro!: ledger_agrees_update simp: keeps_terms_def)
  qed
qed

lemma ledger_after_placement:
  assumes "ledger_agrees rows credits" "consumes reservation rows rows'"
  shows "ledger_agrees rows' credits"
proof (cases reservation)
  case (Some rid)
  with assms(2) obtain P now where P: "\<forall>v. P v \<longrightarrow> rv_reservation_id v = rid \<and> rv_status v = ''reserved''"
    and rows': "rows' = sql_update P (\<lambda>v. v\<lparr>rv_status := ''consumed'', rv_updated_at := now\<rparr>) rows"
    by (auto simp: consumes_def)
  show ?thesis unfolding rows' by (rule ledger_agrees_update[OF assms(1)]) (use P in \<open>auto simp: keeps_terms_def\<close>)
qed (use assms in \<open>simp add: consumes_def\<close>)

text \<open>The step of a placement.\<close>

lemma placement_keeps:
  assumes "place_workload X H jt locked policy ids c now m = Inr (t, r)" "mirror (core m)" "holds_recorded m"
  shows "mirror (core t) \<and> holds_recorded t"
  using assms(1)
proof (rule place_workloadE, goal_cases)
  case prems: (1 project reservation candidate w p j inputs)
  have j: "jr_reservation_id j = wq_reservation_id (wc_request c)" using prems(6,13) by (simp add: linked_def)
  have "mirror (core t)"
    by (rule mirror_places[OF assms(2) prems(3,4,5,6,7,8,9)]) (use prems j in simp_all)
  moreover have "ledger_agrees (marketplace_reservations (core t)) (mk_credits t)"
    using ledger_after_placement[of _ _ "wq_reservation_id (wc_request c)"] prems assms(3) place_workload_billing[OF assms(1)]
    by (simp add: holds_recorded_def)
  ultimately show ?case by (simp add: holds_recorded_def)
qed

text \<open>What spans the parts, step by step.\<close>

lemma market_step_spans:
  assumes st: "market_step X H U hash json_text m m'" and inv: "market_inv m"
  shows "mirror (core m') \<and> holds_recorded m' \<and> snapshots_grow (mk_billing m) (mk_billing m')"
proof -
  from inv have a: "lease_authority (core m)" and mir: "mirror (core m)" and hold: "holds_recorded m" by (simp_all add: market_inv_def job_inv_def)
  have same: ?thesis if "same_market m m'"
    using that mirror_cong[OF _ _ mir] hold by (simp add: same_market_def snapshots_grow_same holds_recorded_def market_tables_def)
  have res: ?thesis if "reserves m m'" "holds_recorded m'"
    using that mirror_reservations[OF mir] by (simp add: reserves_def same_job_tables_def)
  show ?thesis
    using st
  proof cases
    case (jobs_step s')
    have "ledger_agrees (marketplace_reservations s') (mk_credits m)"
      by (rule ledger_after_job[OF _ _ _ job_transactions.quiet_or_ends[OF a jobs_step(2)]])
         (use hold mir a in \<open>simp_all add: holds_recorded_def mirror_def lease_authority_def\<close>)
    then show ?thesis
      using job_transactions.keeps_mirror[OF a mir jobs_step(2)] jobs_step(1)
      by (simp add: holds_recorded_def snapshots_grow_def)
  next
    case (billing_step b')
    from billing_transaction_audits[OF billing_step(2)] show ?thesis
      using mirror_cong[OF _ _ mir] hold billing_step(1)
      by (simp add: audits_only_def snapshots_grow_same holds_recorded_def market_tables_def)
  next
    case account_step
    then show ?thesis by (intro same account_transaction_same)
  next
    case workload_placed
    then show ?thesis
    proof (cases rule: place_effect)
      case 1
      then show ?thesis using mir hold by (simp add: snapshots_grow_same)
    next
      case (2 t r)
      then show ?thesis using placement_keeps[OF 2(1) mir hold] place_workload_billing[OF 2(1)]
        by (simp add: holds_recorded_def snapshots_grow_same)
    qed
  next
    case artifact_step
    from artifact_transaction_same[OF this] show ?thesis
      using mirror_cong[OF _ _ mir] hold by (simp add: same_market_def snapshots_grow_same holds_recorded_def market_tables_def)
  next
    case listings_swept
    then show ?thesis by (intro same sweep_same)
  next
    case elsewhere
    then show ?thesis by (rule same)
  qed (rule res, erule create_reservation_reserves cancel_reservation_reserves reading_reserves grant_reserves,
      erule create_reservation_keeps_ledger[OF _ hold] cancel_reservation_keeps_ledger[OF _ hold] list_reservations_keeps_ledger[OF _ hold]
      project_usage_keeps_ledger[OF _ hold] grant_keeps_ledger[OF _ hold])+
qed

interpretation market_runs: invariant_system market_init "market_step X H U hash json_text" market_inv for X H U hash json_text
proof
  fix m m' assume inv: "market_inv m" and st: "market_step X H U hash json_text m m'"
  note parts = market_step_parts[OF st] and spans = market_step_spans[OF st inv]
  have "job_inv (core m')" using parts inv jobs.keeps_inv unfolding market_inv_def by blast
  moreover have "billing_inv (mk_billing m')" using parts inv billing.keeps_inv unfolding market_inv_def by blast
  moreover have "distinct (map pn_pricing_snapshot_id (bl_snapshots (mk_billing m')))"
    using spans inv by (auto simp: snapshots_grow_def market_inv_def)
  ultimately show "market_inv m'" using spans by (simp add: market_inv_def)
qed (rule market_init_inv)

lemma market_runs_parts:
  "(market_step X H U hash json_text)\<^sup>*\<^sup>* m m' \<Longrightarrow>
    (job_step X H U)\<^sup>*\<^sup>* (core m) (core m') \<and> (Billing_Ledger.billing_step X hash)\<^sup>*\<^sup>* (mk_billing m) (mk_billing m')"
proof (induction rule: rtranclp_induct)
  case (step y z)
  then show ?case using market_step_parts[OF step(2)] by (meson rtranclp.rtrancl_into_rtrancl)
qed simp

section \<open>Properties\<close>

text \<open>
  C5. The market refines its parts: a committed transaction of the control plane, whichever it is, is a step of the
  transition system of jobs on the tables of jobs and a step of the transition system of billing on the tables
  of billing, so that a run of the control plane is a run of each, and
  in the state it reaches the invariants of jobs and of billing hold together with those that span them.
\<close>

theorem market_refines_parts:
  assumes "market_init m0" "(market_step X H U hash json_text)\<^sup>*\<^sup>* m0 m"
  shows "(job_step X H U)\<^sup>*\<^sup>* (core m0) (core m) \<and> (Billing_Ledger.billing_step X hash)\<^sup>*\<^sup>* (mk_billing m0) (mk_billing m) \<and>
    job_inv (core m) \<and> billing_inv (mk_billing m) \<and> mirror (core m) \<and> holds_recorded m"
  using market_runs_parts[OF assms(2)] market_runs.inv_reachable[OF assms] by (simp add: market_inv_def)

text \<open>
  C2. Workloads, placements and reservations follow their jobs: after any run of the control plane from empty tables,
  a workload has one placement and one job, bound to each other and to the same GPU; it says placed while the
  job is open and repeats the job's final status afterwards; its placement is selected while the job is open and
  released afterwards; and its reservation, if it has one, is consumed while the job is open and released
  afterwards. Nothing stays held for a job that has ended, and nothing is released under one that is open.
\<close>

theorem placement_follows_job:
  assumes run: "market_init m0" "(market_step X H U hash json_text)\<^sup>*\<^sup>* m0 m" and w: "w \<in> set (customer_workloads (core m))"
  shows "\<exists>p \<in> set (compute_placements (core m)). \<exists>j \<in> set (compute_jobs (core m)). linked w p j \<and>
    (\<forall>k \<in> set (compute_jobs (core m)). jr_workload_id k = Some (wl_workload_id w) \<longrightarrow> k = j) \<and>
    wl_status w = (if is_terminal_status (job_status j) then job_status j else ''placed'') \<and>
    pl_status p = (if is_terminal_status (job_status j) then ''released'' else ''selected'') \<and>
    (\<forall>rid. wl_reservation_id w = Some rid \<longrightarrow> (\<exists>v \<in> set (marketplace_reservations (core m)). rv_reservation_id v = rid \<and>
       rv_status v = (if is_terminal_status (job_status j) then ''released'' else ''consumed'')))"
proof -
  from market_runs.inv_reachable[OF run] have mir: "mirror (core m)" and d: "distinct (map job_id (compute_jobs (core m)))"
    by (simp_all add: market_inv_def job_inv_def lease_authority_def)
  let ?z = "zip (customer_workloads (core m)) (compute_placements (core m))"
  from mir have z: "list_all2 (\<lambda>(w, p). reflects w p) ?z (filter customer_job (compute_jobs (core m)))"
    and len: "length (customer_workloads (core m)) = length (compute_placements (core m))"
    and wb: "well_bound (map job_contract (compute_jobs (core m)))"
    and bk: "list_all (booked (marketplace_reservations (core m))) (compute_jobs (core m))" by (simp_all add: mirror_def)
  from w len obtain p where p: "(w, p) \<in> set ?z" by (metis in_set_impl_in_set_zip1)
  from list_all2_find1[OF z p] obtain j where j: "j \<in> set (compute_jobs (core m))" "reflects w p j" by auto
  have "k = j" if "k \<in> set (compute_jobs (core m))" "jr_workload_id k = Some (wl_workload_id w)" for k
    by (rule well_bound_same[OF wb d that(1) j(1)]) (use that(2) j(2) in \<open>simp add: reflects_def linked_def same_some_def\<close>)
  then have one: "\<forall>k \<in> set (compute_jobs (core m)). jr_workload_id k = Some (wl_workload_id w) \<longrightarrow> k = j" by blast
  have "booked (marketplace_reservations (core m)) j" using bk j(1) by (simp add: list_all_iff)
  moreover have r: "linked w p j" "wl_status w = (if is_terminal_status (job_status j) then job_status j else ''placed'')"
    "pl_status p = (if is_terminal_status (job_status j) then ''released'' else ''selected'')" using j(2) by (simp_all only: reflects_def)
  moreover have "jr_reservation_id j = wl_reservation_id w" using r(1) by (simp add: linked_def)
  ultimately show ?thesis
    by (intro bexI[OF _ set_zip_rightD[OF p]] bexI[OF _ j(1)] conjI r one) (simp only: booked_def)
qed

text \<open>
  C22. A GPU is placed once: after any run of the control plane from empty tables, two placements that are selected for the
  same GPU of the same device of the same provider, compared as the code does, stand at the same position of the table.
\<close>

theorem placed_gpu_exclusive:
  assumes run: "market_init m0" "(market_step X H U hash json_text)\<^sup>*\<^sup>* m0 m"
    and i: "i < length (compute_placements (core m))" "k < length (compute_placements (core m))"
    and sel: "pl_status (compute_placements (core m) ! i) = ''selected''" "pl_status (compute_placements (core m) ! k) = ''selected''"
    and gpu: "pl_provider_id (compute_placements (core m) ! i) = pl_provider_id (compute_placements (core m) ! k)"
      "pl_device_id (compute_placements (core m) ! i) = pl_device_id (compute_placements (core m) ! k)"
      "to_ascii_lowercase (pl_gpu_uuid (compute_placements (core m) ! i)) = to_ascii_lowercase (pl_gpu_uuid (compute_placements (core m) ! k))"
  shows "i = k"
proof (rule ccontr)
  assume "i \<noteq> k"
  have "exclusive_supply (compute_placements (core m))"
    using market_runs.inv_reachable[OF run] by (simp add: market_inv_def mirror_def)
  then have "\<not> (pl_status (compute_placements (core m) ! b) = ''selected'' \<and> same_gpu (pl_provider_id (compute_placements (core m) ! b))
      (pl_device_id (compute_placements (core m) ! b)) (pl_gpu_uuid (compute_placements (core m) ! b)) (compute_placements (core m) ! a))"
    if "a < b" "b < length (compute_placements (core m))" for a b
    using that unfolding exclusive_supply_def sorted_wrt_iff_nth_less by blast
  from this[of i k] this[of k i] \<open>i \<noteq> k\<close> show False using i sel gpu by (auto simp: same_gpu_def neq_iff)
qed

text \<open>
  C15. The credit ledger agrees with the reservations: after any run of the control plane from empty tables, a
  reservation has exactly one hold entry and a release entry exactly when it was cancelled or expired, entries of
  these types move no credits and are for reservations that exist, and a listing has at most one reservation
  that is reserved.
\<close>

theorem reservation_ledger_agrees:
  assumes run: "market_init m0" "(market_step X H U hash json_text)\<^sup>*\<^sup>* m0 m"
  shows "(\<forall>v \<in> set (marketplace_reservations (core m)). entries ''reservation_hold'' (rv_reservation_id v) (mk_credits m) = 1 \<and>
      entries ''reservation_release'' (rv_reservation_id v) (mk_credits m) = (if rv_status v \<in> {''cancelled'', ''expired''} then 1 else 0)) \<and>
    (\<forall>e \<in> set (mk_credits m). ce_entry_type e \<in> {''reservation_hold'', ''reservation_release''} \<longrightarrow> ce_amount_credits e = 0 \<and>
      (\<exists>v \<in> set (marketplace_reservations (core m)). ce_reservation_id e = Some (rv_reservation_id v) \<and> ce_project_id e = rv_project_id v)) \<and>
    (\<forall>l. sql_count (reserved_on l) (marketplace_reservations (core m)) \<le> 1)"
proof -
  have l: "ledger_agrees (marketplace_reservations (core m)) (mk_credits m)"
    using market_runs.inv_reachable[OF run] by (simp add: market_inv_def holds_recorded_def)
  show ?thesis
    by (intro conjI) (use l in \<open>unfold ledger_agrees_def entry_for_def, blast+\<close>)
qed

text \<open>
  C23. A price stays frozen: once a snapshot exists, no later run of the control plane, whatever prices, settlements,
  reservations and jobs it contains, removes or changes it, so that a settlement finds under its identifier the
  price and fees of the time of the reservation.
\<close>

theorem snapshot_never_changes:
  assumes run: "market_init m0" "(market_step X H U hash json_text)\<^sup>*\<^sup>* m0 m" "(market_step X H U hash json_text)\<^sup>*\<^sup>* m m'"
    and n: "n \<in> set (bl_snapshots (mk_billing m))"
  shows "find (\<lambda>x. pn_pricing_snapshot_id x = pn_pricing_snapshot_id n) (bl_snapshots (mk_billing m')) = Some n"
proof -
  from run(3,1,2) have "n \<in> set (bl_snapshots (mk_billing m')) \<and> market_inv m'"
  proof (induction rule: rtranclp_induct)
    case base
    then show ?case using n market_runs.inv_reachable by blast
  next
    case (step y z)
    then have "market_inv y" and y: "n \<in> set (bl_snapshots (mk_billing y))" by blast+
    then have "market_inv z" using market_runs.inv_step step(2) by blast
    moreover have "snapshots_grow (mk_billing y) (mk_billing z)" using market_step_spans[OF step(2) \<open>market_inv y\<close>] by blast
    ultimately show ?case using y by (auto simp: snapshots_grow_def)
  qed
  then show ?thesis by (intro find_distinct_key) (simp_all add: market_inv_def)
qed

text \<open>
  C40. A workload is placed once: when the placement of a workload has been answered, sending the command again,
  at whatever time, with whatever locks, identifiers and admission policy, returns the stored answer and changes
  nothing, and sending another request under the same key is refused as a conflict and changes nothing.
\<close>

theorem workload_command_once:
  assumes run: "create_customer_workload_idempotently X H jt locked policy ids c now m = Inr (m', out)" and ok: "out \<noteq> KeyConflict"
  shows "create_customer_workload_idempotently X' H' jt locked' policy' ids' c now' m' = Inr (m', out) \<and>
      (h \<noteq> wc_request_hash c \<longrightarrow>
        create_customer_workload_idempotently X' H' jt locked' policy' ids' (c\<lparr>wc_request_hash := h\<rparr>) now' m' = Inr (m', KeyConflict))"
proof -
  from run have i: "idempotently mk_workload_keys (\<lambda>ks m. m\<lparr>mk_workload_keys := ks\<rparr>) (wc_scope c) (wc_idempotency_key c)
       (wc_request_hash c) (place_workload X H jt locked policy ids c now) m = Inr (m', out)"
    unfolding create_customer_workload_idempotently_def by (auto elim!: bind_resE)
  have "mk_workload_keys t' = mk_workload_keys t" if "place_workload X H jt locked policy ids c now t = Inr (t', r)" for t t' r
    using that by (rule place_workloadE)
  note again = workload_keys.replay[OF i ok this]
  show ?thesis using run again unfolding create_customer_workload_idempotently_def by (auto elim!: bind_resE)
qed

text \<open>
  A listing is reserved once: when the creation of a reservation has been answered, sending the command again at
  whatever time returns the stored answer and changes nothing, not even a reservation that has become stale, and
  another request under the same key is refused as a conflict and changes nothing.
\<close>

theorem reservation_command_once:
  assumes run: "create_marketplace_reservation_idempotently X uuids c now m = Inr (m', out)" and ok: "out \<noteq> KeyConflict"
  shows "create_marketplace_reservation_idempotently X uuids' c now' m' = Inr (m', out) \<and>
      (h \<noteq> vc_request_hash c \<longrightarrow>
        create_marketplace_reservation_idempotently X uuids' (c\<lparr>vc_request_hash := h\<rparr>) now' m' = Inr (m', KeyConflict))"
proof -
  from run have i: "idempotently mk_reservation_keys (\<lambda>ks m. m\<lparr>mk_reservation_keys := ks\<rparr>) (vc_scope c) (vc_idempotency_key c)
       (vc_request_hash c) (reserve X uuids c now) m = Inr (m', out)"
    unfolding create_marketplace_reservation_idempotently_def by (auto elim!: bind_resE)
  have "mk_reservation_keys t' = mk_reservation_keys t" if "reserve X uuids c now t = Inr (t', r)" for t t' r
    using that by (rule reserveE)
  note again = reservation_keys.replay[OF i ok this]
  show ?thesis using run again unfolding create_marketplace_reservation_idempotently_def by (auto elim!: bind_resE simp: validate_id_def)
qed

section \<open>Instances\<close>

abbreviation example_market_step :: "market \<Rightarrow> market \<Rightarrow> bool" where
  "example_market_step \<equiv> market_step example_externs example_hashes example_usage_hashes (\<lambda>_. ''h'') (\<lambda>_. ''{}'')"

lemma example_market_init: "market_init example_market"
  by (simp add: market_init_def job_init_def billing_init_def example_market_def example_sched_db_def example_db_def)

lemma example_run_placed:
  obtains m out where "example_placed = Inr (m, out)" "example_market_step\<^sup>*\<^sup>* example_market m" "length (compute_jobs (core m)) = 1"
proof -
  from example_placed_ok obtain m out where p: "example_placed = Inr (m, out)" "length (compute_jobs (core m)) = 1" by blast
  then have "example_market_step example_market m" unfolding example_placed_def by (blast intro: workload_placed)
  then show ?thesis using that p by blast
qed

lemma example_run_reserved:
  obtains m out v where "example_reserved = Inr (m, out)" "example_market_step\<^sup>*\<^sup>* example_market m" "marketplace_reservations (core m) = [v]"
    "rv_status v = ''reserved''"
proof -
  from example_reserved_ok obtain m out where p: "example_reserved = Inr (m, out)"
    "map (\<lambda>v. (rv_status v, rv_expires_at v)) (marketplace_reservations (core m)) = [(''reserved'', to_rfc3339 example_externs 60000000005)]"
    by (auto split: sum.split_asm)
  then have "example_market_step example_market m" unfolding example_reserved_def by (blast intro: reservation_created)
  then show ?thesis using that p by (auto simp: map_eq_Cons_conv)
qed

theorem market_refines_parts_witness:
  "\<exists>m out. example_placed = Inr (m, out) \<and> (job_step example_externs example_hashes example_usage_hashes)\<^sup>*\<^sup>* (core example_market) (core m) \<and>
    mirror (core m) \<and> length (compute_jobs (core m)) = 1"
proof (rule example_run_placed)
  fix m out assume p: "example_placed = Inr (m, out)" "example_market_step\<^sup>*\<^sup>* example_market m" "length (compute_jobs (core m)) = 1"
  then show ?thesis using market_refines_parts[OF example_market_init p(2)] by blast
qed

theorem placement_follows_job_witness:
  "\<exists>m out w. example_placed = Inr (m, out) \<and> customer_workloads (core m) = [w] \<and>
    (\<exists>p \<in> set (compute_placements (core m)). pl_workload_id p = wl_workload_id w)"
proof (rule example_run_placed)
  fix m out assume p: "example_placed = Inr (m, out)" "example_market_step\<^sup>*\<^sup>* example_market m" "length (compute_jobs (core m)) = 1"
  from p(1) obtain w where w: "customer_workloads (core m) = [w]"
    unfolding example_placed_def
  proof (cases rule: place_effect)
    case 1
    then show ?thesis using p(3) by (simp add: example_market_def)
  next
    case (2 t r)
    from 2(1) show ?thesis
      by (rule place_workloadE) (rule that, simp add: 2(2), simp add: example_market_def example_sched_db_def example_db_def)
  qed
  from placement_follows_job[OF example_market_init p(2), of w] w p(1) show ?thesis by (auto simp: linked_def)
qed

theorem placed_gpu_exclusive_witness:
  "\<exists>m out. example_placed = Inr (m, out) \<and> (\<forall>i k. i < length (compute_placements (core m)) \<and> k < length (compute_placements (core m)) \<and>
     pl_status (compute_placements (core m) ! i) = ''selected'' \<and> compute_placements (core m) ! i = compute_placements (core m) ! k \<longrightarrow> i = k)"
proof (rule example_run_placed)
  fix m out assume p: "example_placed = Inr (m, out)" "example_market_step\<^sup>*\<^sup>* example_market m"
  then show ?thesis using placed_gpu_exclusive[OF example_market_init p(2)] by (intro exI[of _ m] exI[of _ out] conjI allI impI) auto
qed

theorem reservation_ledger_agrees_witness:
  "\<exists>m out v. example_reserved = Inr (m, out) \<and> marketplace_reservations (core m) = [v] \<and>
    entries ''reservation_hold'' (rv_reservation_id v) (mk_credits m) = 1 \<and> entries ''reservation_release'' (rv_reservation_id v) (mk_credits m) = 0"
proof (rule example_run_reserved)
  fix m out v assume p: "example_reserved = Inr (m, out)" "example_market_step\<^sup>*\<^sup>* example_market m" "marketplace_reservations (core m) = [v]"
    "rv_status v = ''reserved''"
  then have "entries ''reservation_hold'' (rv_reservation_id v) (mk_credits m) = 1 \<and> entries ''reservation_release'' (rv_reservation_id v) (mk_credits m) = 0"
    using reservation_ledger_agrees[OF example_market_init p(2)] by simp
  with p show ?thesis by blast
qed

theorem snapshot_never_changes_witness:
  "\<exists>m out n. example_reserved = Inr (m, out) \<and> bl_snapshots (mk_billing m) = [n] \<and>
    (\<forall>m'. example_market_step\<^sup>*\<^sup>* m m' \<longrightarrow> find (\<lambda>x. pn_pricing_snapshot_id x = pn_pricing_snapshot_id n) (bl_snapshots (mk_billing m')) = Some n)"
proof (rule example_run_reserved)
  fix m out v assume p: "example_reserved = Inr (m, out)" "example_market_step\<^sup>*\<^sup>* example_market m" "marketplace_reservations (core m) = [v]"
  have ne: "m \<noteq> example_market" using p(3) by (auto simp: example_market_def example_sched_db_def example_db_def)
  from create_reservationE[OF p(1)[unfolded example_reserved_def] ne] obtain t r
    where t: "reserve example_externs example_ids example_reserve 5 example_market = Inr (t, r)" "mk_billing m = mk_billing t" by blast
  have e: "bl_snapshots (mk_billing example_market) = []" by (simp add: example_market_def)
  from t(1) obtain n where "bl_snapshots (mk_billing t) = bl_snapshots (mk_billing example_market) @ [n]" by (rule reserveE)
  then have n: "bl_snapshots (mk_billing m) = [n]" by (simp add: t(2) e)
  then show ?thesis using p(1) snapshot_never_changes[OF example_market_init p(2), of _ n] by auto
qed

theorem workload_command_once_witness:
  "\<exists>m out. example_placed = Inr (m, out) \<and> create_customer_workload_idempotently example_externs example_hashes (\<lambda>_. ''{}'') (\<lambda>_. True)
     example_policy (''v1'', ''v2'', ''v3'') example_command 9 m = Inr (m, out)"
proof (rule example_run_placed)
  fix m out assume p: "example_placed = Inr (m, out)" "length (compute_jobs (core m)) = 1"
  have "mk_workload_keys example_market = []" by (simp add: example_market_def)
  then have "out \<noteq> KeyConflict"
    using p(1) unfolding example_placed_def create_customer_workload_idempotently_def idempotently_def by (auto simp: Let_def elim!: bind_resE)
  then show ?thesis using workload_command_once[OF p(1)[unfolded example_placed_def]] p(1) by blast
qed

theorem reservation_command_once_witness:
  "\<exists>m out. example_reserved = Inr (m, out) \<and>
     create_marketplace_reservation_idempotently example_externs example_ids example_reserve 9 m = Inr (m, out)"
proof (rule example_run_reserved)
  fix m out assume p: "example_reserved = Inr (m, out)"
  have "mk_reservation_keys example_market = []" by (simp add: example_market_def)
  then have "out \<noteq> KeyConflict"
    using p(1) unfolding example_reserved_def create_marketplace_reservation_idempotently_def idempotently_def
    by (auto simp: Let_def elim!: bind_resE)
  then show ?thesis using reservation_command_once[OF p(1)[unfolded example_reserved_def]] p(1) by blast
qed

end
