(* ===== verification/Input_Safety.thy ===== *)
theory Input_Safety
  imports Market_System
begin

text \<open>
  Artifacts in the whole control plane: in every run the rows of \<open>customer_artifacts\<close> satisfy the constraints of their
  table, an artifact that is ready never changes again, and the inputs of a placed job are ready artifacts of the
  project of its workload whose bytes were verified. The life of one artifact, from the upload intent to the input of
  a workload, closes the theory.
\<close>

section \<open>Inputs of placed jobs\<close>

definition supplies :: "workload_row \<Rightarrow> JobArtifact \<Rightarrow> customer_artifact_row \<Rightarrow> bool" where
  "supplies w a t \<longleftrightarrow> ct_artifact_id t = artifact_id a \<and> ct_object_key t = art_object_key a \<and> art_sha256 a = Some (ct_sha256 t) \<and>
     art_size_bytes a = Some (word_of_int (ct_size_bytes t)) \<and> ct_project_id t = wl_project_id w \<and>
     ct_organization_id t = wl_organization_id w \<and> ct_status t = ''ready''"

definition inputs_supplied :: "workload_row list \<Rightarrow> customer_artifact_row list \<Rightarrow> job_row \<Rightarrow> bool" where
  "inputs_supplied ws ts j \<longleftrightarrow> (\<forall>wid. jr_workload_id j = Some wid \<longrightarrow>
     (\<exists>w \<in> set ws. wl_workload_id w = wid \<and> (\<forall>a \<in> set (job_input_artifacts j). \<exists>t \<in> set ts. supplies w a t)))"

definition inputs_ready :: "market \<Rightarrow> bool" where
  "inputs_ready m \<longleftrightarrow> list_all (inputs_supplied (customer_workloads (core m)) (mk_artifacts m)) (compute_jobs (core m))"

definition same_owner :: "workload_row \<Rightarrow> workload_row \<Rightarrow> bool" where
  "same_owner w w' \<longleftrightarrow> wl_workload_id w' = wl_workload_id w \<and> wl_project_id w' = wl_project_id w \<and> wl_organization_id w' = wl_organization_id w"

lemma inputs_supplied_mono:
  assumes "inputs_supplied ws ts j" "job_contract j' = job_contract j" "\<forall>w \<in> set ws. \<exists>w' \<in> set ws'. same_owner w w'"
    "\<forall>t \<in> set ts. ct_status t = ''ready'' \<longrightarrow> t \<in> set ts'"
  shows "inputs_supplied ws' ts' j'"
proof -
  have j: "jr_workload_id j' = jr_workload_id j" "job_input_artifacts j' = job_input_artifacts j"
    using contract_columns(2)[OF assms(2)] arg_cong[OF assms(2), of job_input_artifacts] by (simp_all add: job_contract_def)
  show ?thesis
    unfolding inputs_supplied_def j
  proof (intro allI impI)
    fix wid assume "jr_workload_id j = Some wid"
    with assms(1) obtain w where w: "w \<in> set ws" "wl_workload_id w = wid" "\<forall>a \<in> set (job_input_artifacts j). \<exists>t \<in> set ts. supplies w a t"
      by (auto simp: inputs_supplied_def)
    from assms(3) w(1) obtain w' where "w' \<in> set ws'" and o: "same_owner w w'" by blast
    moreover have "\<exists>t \<in> set ts'. supplies w' a t" if "a \<in> set (job_input_artifacts j)" for a
    proof -
      from w(3) that obtain t where "t \<in> set ts" "supplies w a t" by blast
      then show ?thesis using assms(4) o by (intro bexI[of _ t]) (auto simp: supplies_def same_owner_def)
    qed
    ultimately show "\<exists>w' \<in> set ws'. wl_workload_id w' = wid \<and> (\<forall>a \<in> set (job_input_artifacts j). \<exists>t \<in> set ts'. supplies w' a t)"
      using w(2) by (auto simp: same_owner_def)
  qed
qed

lemma same_owner_refl [simp]: "same_owner w w"
  by (simp add: same_owner_def)

lemma inputs_supplied_row: "inputs_supplied ws ts j \<Longrightarrow> job_contract j' = job_contract j \<Longrightarrow> inputs_supplied ws ts j'"
  by (erule inputs_supplied_mono) (auto intro: same_owner_refl)

lemma inputs_supplied_more: "inputs_supplied ws ts j \<Longrightarrow> inputs_supplied (ws @ vs) ts j"
  by (erule inputs_supplied_mono) (auto intro: same_owner_refl)

lemma inputs_readyD: "inputs_ready m \<Longrightarrow> j \<in> set (compute_jobs (core m)) \<Longrightarrow> inputs_supplied (customer_workloads (core m)) (mk_artifacts m) j"
  by (simp add: inputs_ready_def list_all_iff)

text \<open>Steps that leave jobs, workloads and artifacts alone, and steps of the job handlers.\<close>

lemma inputs_ready_same:
  "inputs_ready m \<Longrightarrow> compute_jobs (core m') = compute_jobs (core m) \<Longrightarrow> customer_workloads (core m') = customer_workloads (core m) \<Longrightarrow>
     \<forall>t \<in> set (mk_artifacts m). ct_status t = ''ready'' \<longrightarrow> t \<in> set (mk_artifacts m') \<Longrightarrow> inputs_ready m'"
  unfolding inputs_ready_def list_all_iff by (auto intro: inputs_supplied_mono[OF _ refl] same_owner_refl)

lemma inputs_ready_jobs:
  assumes m: "inputs_ready m" and q: "quiet (core m) s \<or> ends_job (core m) s"
    and wb: "well_bound (map job_contract (compute_jobs (core m)))" and d: "distinct (map job_id (compute_jobs (core m)))"
  shows "inputs_ready (with_core (\<lambda>_. s) m)"
  using q
proof
  assume "quiet (core m) s"
  then obtain kept new where w: "customer_workloads s = customer_workloads (core m)" and js: "compute_jobs s = kept @ new"
    and ev: "list_all2 (job_evolves live_step) (compute_jobs (core m)) kept" and un: "list_all unplaced new"
    by (auto simp: quiet_def market_tables_def)
  have "inputs_supplied (customer_workloads s) (mk_artifacts m) j" if "j \<in> set kept" for j
  proof -
    from list_all2_find2[OF ev that] obtain j0 where "j0 \<in> set (compute_jobs (core m))" "job_evolves live_step j0 j" by blast
    then show ?thesis using inputs_supplied_row[OF inputs_readyD[OF m]] w by (simp add: job_evolves_def)
  qed
  moreover have "inputs_supplied (customer_workloads s) (mk_artifacts m) j" if "j \<in> set new" for j
    using un that by (auto simp: list_all_iff unplaced_def inputs_supplied_def)
  ultimately show ?thesis by (auto simp: inputs_ready_def js list_all_iff)
next
  assume "ends_job (core m) s"
  with wb d show ?thesis
  proof (rule ends_jobE)
    fix k g
    assume js: "compute_jobs s = map g (compute_jobs (core m))" and g: "\<forall>j. job_contract (g j) = job_contract j"
      and ws: "customer_workloads s = map (released_workload k) (customer_workloads (core m))"
    have "same_owner w (released_workload k w)" for w by (simp add: released_workload_def same_owner_def)
    then have "\<forall>w \<in> set (customer_workloads (core m)). \<exists>w' \<in> set (customer_workloads s). same_owner w w'" by (auto simp: ws)
    from inputs_supplied_mono[OF inputs_readyD[OF m] _ this] g show ?thesis
      unfolding inputs_ready_def by (simp add: js list_all_iff)
  qed
qed

text \<open>A placement takes its inputs from ready artifacts of its project.\<close>

lemma loaded_inputs:
  assumes "load_ready_input_artifacts project now m aids = Inr inputs" "a \<in> set inputs"
    "wl_project_id w = pac_project_id project" "wl_organization_id w = pac_organization_id project"
  shows "\<exists>t \<in> set (mk_artifacts m). supplies w a t"
  using assms(1,2)
proof (induction aids arbitrary: inputs)
  case (Cons aid aids)
  then obtain b bs where b: "load_ready_input_artifact project now m aid = Inr b" "load_ready_input_artifacts project now m aids = Inr bs"
    "inputs = b # bs" by (auto elim!: bind_resE)
  from b(1) obtain t where t: "find (\<lambda>t. ct_artifact_id t = aid \<and> ct_project_id t = pac_project_id project \<and>
      ct_organization_id t = pac_organization_id project) (mk_artifacts m) = Some t" "ct_status t = ''ready''"
      "b = \<lparr>artifact_id = ct_artifact_id t, art_role = ''input'', art_object_key = ct_object_key t, art_sha256 = Some (ct_sha256 t),
        art_size_bytes = Some (word_of_int (ct_size_bytes t)), art_content_type = ct_content_type t\<rparr>"
    unfolding load_ready_input_artifact_def by (auto elim!: bind_resE split: if_split_asm)
  from find_SomeD[OF t(1)] t(2,3) have "\<exists>t \<in> set (mk_artifacts m). supplies w b t"
    by (intro bexI[of _ t]) (simp_all add: supplies_def assms(3,4))
  then show ?case using Cons b by auto
qed simp

lemma placement_inputs:
  assumes "place_workload X H jt locked policy ids c now m = Inr (t, r)" "inputs_ready m"
  shows "list_all (inputs_supplied (customer_workloads (core t)) (mk_artifacts m)) (compute_jobs (core t))"
  using assms(1)
proof (rule place_workloadE, goal_cases)
  case prems: (1 project reservation candidate w p j inputs)
  have new: "inputs_supplied (customer_workloads (core t)) (mk_artifacts m) j"
    using loaded_inputs[OF prems(2) _ prems(16) prems(15)] prems(3,6,22) by (auto simp: inputs_supplied_def linked_def)
  have old: "inputs_supplied (customer_workloads (core t)) (mk_artifacts m) k" if "k \<in> set (compute_jobs (core m))" for k
    using inputs_supplied_more[OF inputs_readyD[OF assms(2) that]] prems(3) by simp
  show ?case using new old by (auto simp: prems(5) list_all_iff)
qed

section \<open>The invariant\<close>

definition input_inv :: "market \<Rightarrow> bool" where
  "input_inv m \<longleftrightarrow> market_inv m \<and> artifacts_ok (mk_artifacts m) \<and> inputs_ready m"

definition input_init :: "market \<Rightarrow> bool" where
  "input_init m \<longleftrightarrow> market_init m \<and> artifacts_ok (mk_artifacts m)"

text \<open>Every transaction on artifacts satisfies the contract of an artifact operation.\<close>

interpretation artifact_transactions: artifact_operation "artifact_transaction X" for X
proof
  fix m m' assume st: "artifact_transaction X m m'" and ok: "artifacts_ok (mk_artifacts m)"
  from st show "artifacts_ok (mk_artifacts m')"
    by cases (use ok in \<open>blast intro: creating_artifact.well_typed recording_upload.well_typed finalizing_artifact.well_typed\<close>)+
  from st show "list_all2 artifact_evolves (mk_artifacts m) (take (length (mk_artifacts m)) (mk_artifacts m'))"
    by cases (use ok in \<open>blast intro: creating_artifact.evolves recording_upload.evolves finalizing_artifact.evolves\<close>)+
qed

lemma market_step_artifacts:
  assumes st: "market_step X H U hash json_text m m'" and inv: "market_inv m" and ok: "artifacts_ok (mk_artifacts m)" and inp: "inputs_ready m"
  shows "(artifact_transaction X m m' \<or> mk_artifacts m' = mk_artifacts m) \<and> inputs_ready m'"
proof -
  have same: ?thesis if "same_market m m'"
    using that by (auto simp: same_market_def same_job_tables_def market_tables_def intro: inputs_ready_same[OF inp])
  have res: ?thesis if "reserves m m'"
    using that by (auto simp: reserves_def same_job_tables_def intro: inputs_ready_same[OF inp])
  from inv have a: "lease_authority (core m)" and mir: "mirror (core m)" by (simp_all add: market_inv_def job_inv_def)
  show ?thesis
    using st
  proof cases
    case (jobs_step s')
    have "inputs_ready (with_core (\<lambda>_. s') m)"
      by (rule inputs_ready_jobs[OF inp job_transactions.quiet_or_ends[OF a jobs_step(2)]])
         (use mir a in \<open>simp_all add: mirror_def lease_authority_def\<close>)
    then show ?thesis using jobs_step(1) by simp
  next
    case (billing_step b')
    from billing_transaction_audits[OF billing_step(2)] show ?thesis
      using billing_step(1) by (auto simp: audits_only_def same_job_tables_def market_tables_def intro: inputs_ready_same[OF inp])
  next
    case account_step
    then show ?thesis by (intro same account_transaction_same)
  next
    case workload_placed
    then show ?thesis
    proof (cases rule: place_effect)
      case (2 t r)
      then show ?thesis using placement_inputs[OF 2(1) inp] by (simp add: inputs_ready_def)
    qed (use inp in simp)
  next
    case artifact_step
    from artifact_transaction_same[OF this] artifact_transactions.ready_kept[OF this ok] show ?thesis
      using artifact_step by (auto simp: same_market_def same_job_tables_def market_tables_def intro: inputs_ready_same[OF inp])
  next
    case listings_swept
    then show ?thesis by (intro same sweep_same)
  next
    case elsewhere
    then show ?thesis by (rule same)
  qed (rule res, erule create_reservation_reserves cancel_reservation_reserves reading_reserves grant_reserves)+
qed

interpretation input_runs: invariant_system input_init "market_step X H U hash json_text" input_inv for X H U hash json_text
proof
  fix m assume "input_init m"
  then show "input_inv m"
    by (simp add: input_init_def input_inv_def market_init_inv inputs_ready_def) (simp add: market_init_def job_init_def)
next
  fix m m' assume inv: "input_inv m" and st: "market_step X H U hash json_text m m'"
  then have "market_inv m'" using market_runs.inv_step by (auto simp: input_inv_def)
  with market_step_artifacts[OF st] inv artifact_transactions.well_typed show "input_inv m'" by (auto simp: input_inv_def)
qed

lemma ready_kept_runs:
  assumes "input_inv m" "(market_step X H U hash json_text)\<^sup>*\<^sup>* m m'" "t \<in> set (mk_artifacts m)" "ct_status t = ''ready''"
  shows "t \<in> set (mk_artifacts m')"
  using assms(2)
proof (induction rule: rtranclp_induct)
  case (step y z)
  have "input_inv y" using input_runs.inv_steps[OF step(1) assms(1)] .
  then show ?case using market_step_artifacts[OF step(2)] artifact_transactions.ready_kept step(3) assms(4) by (fastforce simp: input_inv_def)
qed (rule assms(3))

section \<open>Properties\<close>


text \<open>
  C9. The inputs of a placed job are what was verified, for ever: in every reachable state each input of a job that was
  placed for a workload is an artifact of the workload's organisation and project with the same object, whose stored
  bytes were verified to have exactly the digest and the size that the job's manifest announces; and the artifact is
  the same in every later state.
\<close>

theorem placed_inputs_verified:
  assumes run: "input_init m0" "(market_step X H U hash json_text)\<^sup>*\<^sup>* m0 m" and later: "(market_step X H U hash json_text)\<^sup>*\<^sup>* m m'"
    and j: "j \<in> set (compute_jobs (core m))" "jr_workload_id j = Some wid" and a: "a \<in> set (job_input_artifacts j)"
  shows "\<exists>w \<in> set (customer_workloads (core m)). \<exists>t \<in> set (mk_artifacts m). wl_workload_id w = wid \<and>
    ct_organization_id t = wl_organization_id w \<and> ct_project_id t = wl_project_id w \<and> ct_artifact_id t = artifact_id a \<and>
    ct_object_key t = art_object_key a \<and> art_sha256 a = ct_verified_sha256 t \<and> ct_verified_sha256 t \<noteq> None \<and>
    map_option uint (art_size_bytes a) = ct_verified_size_bytes t \<and> ct_verified_size_bytes t \<noteq> None \<and> t \<in> set (mk_artifacts m')"
proof -
  from input_runs.inv_reachable[OF run] have inv: "input_inv m" .
  with j have "inputs_supplied (customer_workloads (core m)) (mk_artifacts m) j" by (intro inputs_readyD) (simp_all add: input_inv_def)
  with j obtain w where w: "w \<in> set (customer_workloads (core m))" "wl_workload_id w = wid"
      "\<forall>a \<in> set (job_input_artifacts j). \<exists>t \<in> set (mk_artifacts m). supplies w a t"
    unfolding inputs_supplied_def by blast
  from w(3) a obtain t where t: "t \<in> set (mk_artifacts m)" "supplies w a t" by blast
  then have "artifact_ok t" "ct_status t = ''ready''" using inv by (simp_all add: input_inv_def artifacts_ok_def list_all_iff supplies_def)
  moreover from this have "uint (word_of_int (ct_size_bytes t) :: u64) = ct_size_bytes t" by (intro word_of_bounded) (simp add: artifact_ok_def)
  ultimately show ?thesis
    using w t ready_kept_runs[OF inv later t(1)] by (intro bexI[of _ w] bexI[of _ t]) (auto simp: supplies_def artifact_ok_def)
qed

section \<open>The life of an artifact\<close>

text \<open>The last row of the table, found and updated by its identifier.\<close>

definition newest :: "customer_artifact_row \<Rightarrow> market \<Rightarrow> bool" where
  "newest t m \<longleftrightarrow> mk_artifacts m \<noteq> [] \<and> last (mk_artifacts m) = t \<and>
     list_all (\<lambda>old. ct_artifact_id old \<noteq> ct_artifact_id t) (butlast (mk_artifacts m))"

lemma newestE:
  assumes "newest t m"
  obtains ts where "mk_artifacts m = ts @ [t]" "\<forall>old \<in> set ts. ct_artifact_id old \<noteq> ct_artifact_id t"
  using assms by (cases "mk_artifacts m" rule: rev_cases) (auto simp: newest_def list_all_iff)

lemma newestI: "mk_artifacts m = ts @ [t] \<Longrightarrow> \<forall>old \<in> set ts. ct_artifact_id old \<noteq> ct_artifact_id t \<Longrightarrow> newest t m"
  by (simp add: newest_def list_all_iff)

lemma newest_find:
  assumes "newest t m" "Q t"
  shows "find (\<lambda>o'. ct_artifact_id o' = ct_artifact_id t \<and> Q o') (mk_artifacts m) = Some t"
  using assms(1)
proof (rule newestE)
  fix ts assume ts: "mk_artifacts m = ts @ [t]" "\<forall>old \<in> set ts. ct_artifact_id old \<noteq> ct_artifact_id t"
  from ts(2) have "find (\<lambda>o'. ct_artifact_id o' = ct_artifact_id t \<and> Q o') ts = None" by (auto simp: find_None_iff)
  then show ?thesis using assms(2) by (simp add: ts(1) find_append_None)
qed

lemma newest_update:
  assumes "newest t m" "ct_artifact_id (f t) = ct_artifact_id t" "Q t"
    "mk_artifacts m' = sql_update (\<lambda>o'. ct_artifact_id o' = ct_artifact_id t \<and> Q o') f (mk_artifacts m)"
  shows "newest (f t) m'"
  using assms(1)
proof (rule newestE)
  fix ts assume ts: "mk_artifacts m = ts @ [t]" "\<forall>old \<in> set ts. ct_artifact_id old \<noteq> ct_artifact_id t"
  then have "mk_artifacts m' = ts @ [f t]" using assms(3,4) by (auto simp: sql_update_def intro: map_idI)
  then show ?thesis using ts(2) assms(2) by (intro newestI) auto
qed

lemma newest_load: "newest t m \<Longrightarrow> 0 \<le> ct_size_bytes t \<Longrightarrow> \<exists>a. load_artifact (ct_artifact_id t) m = Inr a \<and> ar_status a = ct_status t"
  using newest_find[of t m "\<lambda>_. True"] by (simp add: load_artifact_def load_one_def artifact_from_row_def)

text \<open>A caller who may write the artifact.\<close>

definition may_write :: "CustomerApiKeyAuth \<Rightarrow> string \<Rightarrow> customer_artifact_row \<Rightarrow> bool" where
  "may_write auth project t \<longleftrightarrow> ''artifacts:write'' \<in> set (ak_scopes auth) \<and> validate_customer_id ''project_id'' project 128 = Inr () \<and>
     validate_customer_id ''artifact_id'' (ct_artifact_id t) 128 = Inr () \<and> assert_project_binding auth project = Inr () \<and>
     ct_project_id t = project \<and> ct_organization_id t = ak_organization_id auth \<and> size_in_bounds (ct_size_bytes t)"

lemma may_write_lock: "may_write auth project t \<Longrightarrow> newest t m \<Longrightarrow> lock_owned_artifact auth project (ct_artifact_id t) m = Inr t"
  using newest_find[of t m "\<lambda>o'. ct_project_id o' = project \<and> ct_organization_id o' = ak_organization_id auth"]
  by (simp add: lock_owned_artifact_def owned_artifact_def may_write_def)

lemma record_newest:
  assumes "newest t m" "may_write auth project t" "ct_status t = ''pending_upload''" "ct_uploaded_at t = None"
    "parse_from_rfc3339 X (ct_upload_expires_at t) = Some u" "now < u"
  shows "\<exists>m' a. record_customer_artifact_upload X auth project (ct_artifact_id t) (ct_sha256 t) (word_of_int (ct_size_bytes t)) now m = Inr (m', a) \<and>
    newest (t\<lparr>ct_status := ''uploaded'', ct_verified_sha256 := Some (ct_sha256 t), ct_verified_size_bytes := Some (ct_size_bytes t),
      ct_uploaded_at := Some (to_rfc3339 X now), ct_updated_at := to_rfc3339 X now\<rparr>) m'"
proof -
  let ?f = "\<lambda>o'. o'\<lparr>ct_status := ''uploaded'', ct_verified_sha256 := Some (ct_sha256 t), ct_verified_size_bytes := Some (ct_size_bytes t),
     ct_uploaded_at := Some (case ct_uploaded_at o' of None \<Rightarrow> to_rfc3339 X now | Some u \<Rightarrow> u), ct_updated_at := to_rfc3339 X now\<rparr>"
  let ?m = "insert_artifact_audit_event auth project (ct_artifact_id t) ''customer_artifact.uploaded''
     (m\<lparr>mk_artifacts := sql_update (\<lambda>o'. ct_artifact_id o' = ct_artifact_id t) ?f (mk_artifacts m)\<rparr>)"
  have s: "uint (word_of_int (ct_size_bytes t) :: u64) = ct_size_bytes t" using assms(2) by (intro word_of_bounded) (simp add: may_write_def)
  have n: "newest (?f t) ?m" using newest_update[OF assms(1), of ?f "\<lambda>_. True" ?m] by simp
  from newest_load[OF n] assms(2) obtain a where "load_artifact (ct_artifact_id t) ?m = Inr a" by (auto simp: may_write_def size_in_bounds_def)
  then have "record_customer_artifact_upload X auth project (ct_artifact_id t) (ct_sha256 t) (word_of_int (ct_size_bytes t)) now m = Inr (?m, a)"
    unfolding record_customer_artifact_upload_def may_write_lock[OF assms(2,1)]
    using assms by (simp add: artifact_from_row_def artifact_timestamp_def require_customer_scope_def may_write_def size_in_bounds_def i64_max_def s Let_def)
  with n assms(4) show ?thesis by auto
qed

lemma finalize_newest:
  assumes "newest t m" "may_write auth project t" "ct_status t = ''uploaded''" "ct_verified_sha256 t = Some (ct_sha256 t)"
    "ct_verified_size_bytes t = Some (ct_size_bytes t)" "parse_from_rfc3339 X (ct_expires_at t) = Some e" "now < e"
  shows "\<exists>m' r. finalize_customer_artifact X rid auth project (ct_artifact_id t) now m = Inr (m', r) \<and> ar_status (cf_artifact r) = ''ready'' \<and>
    newest (t\<lparr>ct_status := ''ready'', ct_ready_at := Some (to_rfc3339 X now), ct_updated_at := to_rfc3339 X now\<rparr>) m'"
proof -
  let ?f = "\<lambda>o'. o'\<lparr>ct_status := ''ready'', ct_ready_at := Some (to_rfc3339 X now), ct_updated_at := to_rfc3339 X now\<rparr>"
  let ?m = "insert_artifact_audit_event auth project (ct_artifact_id t) ''customer_artifact.ready''
     (m\<lparr>mk_artifacts := sql_update (\<lambda>o'. ct_artifact_id o' = ct_artifact_id t \<and> ct_status o' = ''uploaded'') ?f (mk_artifacts m)\<rparr>)"
  have n: "newest (?f t) ?m" using newest_update[OF assms(1), of ?f "\<lambda>o'. ct_status o' = ''uploaded''" ?m] assms(3) by simp
  from newest_load[OF n] assms(2) obtain a where "load_artifact (ct_artifact_id t) ?m = Inr a" "ar_status a = ''ready''" by (auto simp: may_write_def size_in_bounds_def)
  then have "finalize_customer_artifact X rid auth project (ct_artifact_id t) now m = Inr (?m, \<lparr>cf_request_id = rid, cf_artifact = a, cf_duplicate = False\<rparr>)"
    unfolding finalize_customer_artifact_def may_write_lock[OF assms(2,1)]
    using assms by (simp add: artifact_from_row_def artifact_timestamp_def require_customer_scope_def may_write_def size_in_bounds_def Let_def)
  with n \<open>ar_status a = ''ready''\<close> show ?thesis by auto
qed

lemma load_newest:
  assumes "newest t m" "ct_status t = ''ready''" "0 \<le> ct_size_bytes t" "pac_project_id project = ct_project_id t"
    "pac_organization_id project = ct_organization_id t" "\<not> ct_expires_at t \<le> text"
  shows "load_ready_input_artifact project text m (ct_artifact_id t) = Inr \<lparr>artifact_id = ct_artifact_id t, art_role = ''input'',
    art_object_key = ct_object_key t, art_sha256 = Some (ct_sha256 t), art_size_bytes = Some (word_of_int (ct_size_bytes t)),
    art_content_type = ct_content_type t\<rparr>"
  using newest_find[OF assms(1), of "\<lambda>o'. ct_project_id o' = pac_project_id project \<and> ct_organization_id o' = pac_organization_id project"] assms
  by (simp add: load_ready_input_artifact_def)

lemma created_newest:
  assumes "create_customer_artifact_idempotently X uuid c now m = Inr (m', out)" "mk_artifacts m' \<noteq> mk_artifacts m"
    "validate_customer_id ''artifact_id'' (''artifact_'' @ uuid) 128 = Inr ()"
  shows "newest (new_artifact_row X uuid c now) m' \<and> may_write (af_auth c) (af_project_id c) (new_artifact_row X uuid c now)"
  using assms(1)
proof (cases rule: create_artifactE)
  case created
  from assms(1) have "validate_customer_id ''project_id'' (af_project_id c) 128 = Inr ()"
    unfolding create_customer_artifact_idempotently_def by (auto elim!: bind_resE)
  moreover have "assert_project_binding (af_auth c) (af_project_id c) = Inr ()"
    using created(5) unfolding artifact_project_access_def by (auto elim!: bind_resE)
  moreover have "aq_size_bytes (af_request c) \<le> MAX_CUSTOMER_ARTIFACT_BYTES"
    using created(2) unfolding validate_create_request_def by (auto elim!: bind_resE simp: linorder_not_less split: if_split_asm)
  then have "size_in_bounds (uint (aq_size_bytes (af_request c)))"
    by (simp add: MAX_CUSTOMER_ARTIFACT_BYTES_def word_le_def size_in_bounds_def)
  ultimately show ?thesis
    using created assms(3) by (auto intro!: newestI simp: may_write_def artifact_clash_def new_artifact_row_def Let_def)
qed (use assms(2) in simp)

text \<open>
  C28. The life of an artifact: once an upload intent is accepted, storing bytes with the declared digest and size before the
  intent expires is recorded, finalising before the artifact expires makes it ready, and from then on until it expires the
  artifact is accepted as an input of its project with exactly the digest (in lower case) and the size the customer declared.
\<close>

theorem artifact_round_trip:
  assumes create: "create_customer_artifact_idempotently X uuid c now m = Inr (m1, out)" "mk_artifacts m1 \<noteq> mk_artifacts m"
    and aid: "validate_customer_id ''artifact_id'' (''artifact_'' @ uuid) 128 = Inr ()"
    and upload: "parse_from_rfc3339 X (ct_upload_expires_at (new_artifact_row X uuid c now)) = Some u" "t1 < u"
    and keep: "parse_from_rfc3339 X (ct_expires_at (new_artifact_row X uuid c now)) = Some e" "t2 < e"
  shows "\<exists>m2 a m3 r. record_customer_artifact_upload X (af_auth c) (af_project_id c) (''artifact_'' @ uuid) (to_ascii_lowercase (aq_sha256 (af_request c)))
        (aq_size_bytes (af_request c)) t1 m1 = Inr (m2, a) \<and>
      finalize_customer_artifact X rid (af_auth c) (af_project_id c) (''artifact_'' @ uuid) t2 m2 = Inr (m3, r) \<and> ar_status (cf_artifact r) = ''ready'' \<and>
      (\<forall>project text. pac_project_id project = af_project_id c \<and> pac_organization_id project = ak_organization_id (af_auth c) \<and>
           \<not> ct_expires_at (new_artifact_row X uuid c now) \<le> text \<longrightarrow>
         (\<exists>i. load_ready_input_artifact project text m3 (''artifact_'' @ uuid) = Inr i \<and>
           art_sha256 i = Some (to_ascii_lowercase (aq_sha256 (af_request c))) \<and> art_size_bytes i = Some (aq_size_bytes (af_request c))))"
proof -
  let ?t = "new_artifact_row X uuid c now"
  let ?t1 = "?t\<lparr>ct_status := ''uploaded'', ct_verified_sha256 := Some (ct_sha256 ?t), ct_verified_size_bytes := Some (ct_size_bytes ?t),
     ct_uploaded_at := Some (to_rfc3339 X t1), ct_updated_at := to_rfc3339 X t1\<rparr>"
  let ?t2 = "?t1\<lparr>ct_status := ''ready'', ct_ready_at := Some (to_rfc3339 X t2), ct_updated_at := to_rfc3339 X t2\<rparr>"
  have c: "newest ?t m1" "may_write (af_auth c) (af_project_id c) ?t" using created_newest[OF create aid] by simp_all
  have t: "ct_artifact_id ?t = ''artifact_'' @ uuid" "ct_status ?t = ''pending_upload''" "ct_sha256 ?t = to_ascii_lowercase (aq_sha256 (af_request c))"
    "ct_uploaded_at ?t = None" "word_of_int (ct_size_bytes ?t) = aq_size_bytes (af_request c)" "0 \<le> ct_size_bytes ?t"
    "ct_project_id ?t = af_project_id c" "ct_organization_id ?t = ak_organization_id (af_auth c)"
    by (simp_all add: new_artifact_row_def Let_def)
  from record_newest[OF c t(2,4) upload] obtain m2 a where m2: "record_customer_artifact_upload X (af_auth c) (af_project_id c) (''artifact_'' @ uuid)
      (to_ascii_lowercase (aq_sha256 (af_request c))) (aq_size_bytes (af_request c)) t1 m1 = Inr (m2, a)" "newest ?t1 m2"
    unfolding t by blast
  have w: "may_write (af_auth c) (af_project_id c) ?t1" using c(2) by (simp add: may_write_def)
  from finalize_newest[OF m2(2) w, of X e t2 rid] keep obtain m3 r where m3:
      "finalize_customer_artifact X rid (af_auth c) (af_project_id c) (''artifact_'' @ uuid) t2 m2 = Inr (m3, r)"
      "ar_status (cf_artifact r) = ''ready''" "newest ?t2 m3"
    by (auto simp: t)
  from load_newest[OF m3(3)] show ?thesis
    using m2(1) m3(1,2) by (intro exI[of _ m2] exI[of _ a] exI[of _ m3] exI[of _ r] conjI allI impI) (simp_all add: t)
qed

section \<open>Instances\<close>

lemma example_input_init: "input_init example_market"
proof -
  have "list_all artifact_ok (mk_artifacts example_market)" by code_simp
  moreover have "length (mk_artifacts example_market) = 1" by (simp add: example_market_def)
  ultimately show ?thesis using example_market_init by (auto simp: input_init_def artifacts_ok_def length_Suc_conv)
qed


theorem placed_inputs_verified_witness:
  "\<exists>m out j a t. example_placed = Inr (m, out) \<and> compute_jobs (core m) = [j] \<and> job_input_artifacts j = [a] \<and>
     artifact_id a = ''in1'' \<and> t \<in> set (mk_artifacts m) \<and> art_sha256 a = ct_verified_sha256 t"
proof (rule example_run_placed)
  fix m out assume p: "example_placed = Inr (m, out)" "example_market_step\<^sup>*\<^sup>* example_market m" "length (compute_jobs (core m)) = 1"
  obtain j a wid where j: "compute_jobs (core m) = [j]" "jr_workload_id j = Some wid" "job_input_artifacts j = [a]" "artifact_id a = ''in1''"
    using p(1) unfolding example_placed_def
  proof (cases rule: place_effect)
    case 1
    then show ?thesis using p(3) by (simp add: example_market_def)
  next
    case (2 t r)
    have c: "wq_input_artifact_ids (wc_request example_command) = [''in1'']" "compute_jobs (core example_market) = []"
      by (simp_all add: example_command_def example_market_def)
    from 2(1) show ?thesis
    proof (rule place_workloadE, goal_cases)
      case prems: (1 project reservation candidate w pl j inputs)
      from ready_inputs[OF prems(2)] have "map artifact_id inputs = [''in1'']" by (simp add: c)
      then obtain a where "inputs = [a]" "artifact_id a = ''in1''" by (auto simp: map_eq_Cons_conv)
      then show ?case using that[of j _ a] prems 2(2) c by (auto simp: linked_def)
    qed
  qed
  from placed_inputs_verified[OF example_input_init p(2) rtranclp.rtrancl_refl _ j(2), of a] j obtain t
    where "t \<in> set (mk_artifacts m)" "art_sha256 a = ct_verified_sha256 t" by auto
  with p(1) j show ?thesis by blast
qed

definition example_intent :: CreateCustomerArtifactCommand where
  "example_intent = \<lparr>af_request_id = ''r'', af_scope = ''s'', af_idempotency_key = ''k2'', af_request_hash = ''h'',
     af_auth = example_key\<lparr>ak_scopes := [''artifacts:write'']\<rparr>, af_project_id = ''pr1'',
     af_request = \<lparr>aq_client_artifact_id = None, aq_sha256 = ''sha256:'' @ replicate 64 CHR ''A'', aq_size_bytes = 7, aq_content_type = None,
       aq_retention_seconds = None\<rparr>\<rparr>"

definition example_created :: "(market \<times> CreateCustomerArtifactOutcome) res" where
  "example_created = create_customer_artifact_idempotently example_externs ''u9'' example_intent 5 example_market"

lemma example_created_ok: "case example_created of Inr (m, _) \<Rightarrow> length (mk_artifacts m) = 2 | Inl _ \<Rightarrow> False"
  by code_simp

theorem artifact_round_trip_witness:
  "\<exists>m1 out m2 a m3 r. example_created = Inr (m1, out) \<and>
     record_customer_artifact_upload example_externs (af_auth example_intent) ''pr1'' ''artifact_u9'' (to_ascii_lowercase (aq_sha256 (af_request example_intent)))
       7 6 m1 = Inr (m2, a) \<and>
     finalize_customer_artifact example_externs ''r2'' (af_auth example_intent) ''pr1'' ''artifact_u9'' 8 m2 = Inr (m3, r) \<and> ar_status (cf_artifact r) = ''ready''"
proof -
  from example_created_ok obtain m1 out where m1: "example_created = Inr (m1, out)" "length (mk_artifacts m1) = 2" by (auto split: sum.split_asm)
  have ne: "mk_artifacts m1 \<noteq> mk_artifacts example_market" using m1(2) by (auto simp: example_market_def)
  have v: "validate_customer_id ''artifact_id'' (''artifact_'' @ ''u9'') 128 = Inr ()" by code_simp
  have e: "parse_from_rfc3339 example_externs (ct_upload_expires_at (new_artifact_row example_externs ''u9'' example_intent 5)) = Some 900000000005"
    "parse_from_rfc3339 example_externs (ct_expires_at (new_artifact_row example_externs ''u9'' example_intent 5)) = Some 604800000000005"
    by (simp_all add: new_artifact_row_def Let_def UPLOAD_INTENT_TTL_SECONDS_def nanos_per_second_def example_intent_def DEFAULT_ARTIFACT_RETENTION_SECONDS_def)
  from artifact_round_trip[OF m1(1)[unfolded example_created_def] ne v e(1) _ e(2), of 6 8 "''r2''"] m1(1) show ?thesis
    by (auto simp: example_intent_def)
qed

end
