(* ===== verification/Spec2Isabelle.thy ===== *)
theory Spec2Isabelle
  imports Rate_Limit Job_Safety Input_Safety
begin

text \<open>
  \<^bold>\<open>Verification of the Burd compute control plane\<close>

  \<^bold>\<open>The program.\<close> Burd rents GPUs. Providers run an agent (\<^verbatim>\<open>src/crates/burd-agent\<close>) on their machines; a
  central service, the control plane (\<^verbatim>\<open>src/crates/burd-control-plane\<close>), keeps all durable state in
  PostgreSQL and decides what runs where and who pays whom. The two exchange the messages of
  \<^verbatim>\<open>src/crates/burd-protocol\<close>. This development is about the control plane's core and the part of the
  protocol the agent checks. A job passes through these parts, in this order:

  \<^enum> An agent opens a session and negotiates a protocol version (\<^verbatim>\<open>protocol_negotiation.rs\<close>); it publishes
    GPU inventory, runtime observations and runtime verifications, from which \<^verbatim>\<open>runtime_admission.rs\<close>
    decides whether a GPU is admitted.
  \<^enum> People sign in (\<^verbatim>\<open>human_auth.rs\<close>) and manage organisations by their roles (\<^verbatim>\<open>organization_rbac.rs\<close>). A sweep
    publishes verified GPUs as listings (\<^verbatim>\<open>marketplace.rs\<close>); customers upload input artifacts (\<^verbatim>\<open>customer_artifact.rs\<close>).
  \<^enum> A customer opens an account with projects, quotas and API keys, and may reserve a listing of the marketplace,
    which freezes its price (\<^verbatim>\<open>customer.rs\<close>). A workload is placed on a listing (\<^verbatim>\<open>customer_compute.rs\<close>): the
    control plane chooses admitted supply, or the reserved one, and inserts workload, placement and queued job.
  \<^enum> A job is created by a placement or by an administrator (\<^verbatim>\<open>job_control.rs\<close>), bound to a provider, device,
    session and GPU.
  \<^enum> The scheduler (\<^verbatim>\<open>scheduler.rs\<close>) expires stale offers and offers leases for queued jobs.
  \<^enum> The agent asks for its next job, accepts the offer, reports events and submits a result; each of these
    handlers of \<^verbatim>\<open>job_control.rs\<close> moves the job and its lease together. Artifacts are uploaded through
    \<^verbatim>\<open>job_artifact.rs\<close>.
  \<^enum> When the job ends, its usage is metered once (\<^verbatim>\<open>metering.rs\<close>) and later settled (\<^verbatim>\<open>billing.rs\<close>) against
    the customer's prepaid balance, in a double-entry ledger that also holds Pix payments and payouts.
  \<^enum> The customer reads or cancels the job (\<^verbatim>\<open>customer_job.rs\<close>). Every HTTP request passes the rate limiter
    (\<^verbatim>\<open>rate_limit.rs\<close>).

  \<^bold>\<open>The theories\<close>, in the order of their imports, with the code they model.

  \<^item> \<open>Prelude\<close>: results and early returns, byte predicates of Rust's standard library, bounded integers, JSON
    values, SQL statements on tables, and the locale \<open>invariant_system\<close> of transition systems.
  \<^item> \<open>Rate_Limit\<close> (\<^verbatim>\<open>rate_limit.rs\<close>): the limiter, exact within a window and safe across windows; the
    \<open>Retry-After\<close> it answers may be too short.
  \<^item> \<open>Protocol\<close>, \<open>Job_Execution\<close> (\<^verbatim>\<open>burd-protocol/src/job.rs\<close>, \<^verbatim>\<open>lease.rs\<close>, \<^verbatim>\<open>job_execution.rs\<close>): the structs,
    the execution state machine with its termination, and the agent's validators.
  \<^item> \<open>Validation\<close>: the validators of \<^verbatim>\<open>job_control.rs\<close>, and where the server's and the agent's idea of an image
    reference agree and differ.
  \<^item> \<open>Negotiation\<close> (\<^verbatim>\<open>protocol_negotiation.rs\<close>): negotiation, what it persists, and that the compute check
    holds exactly of accepted negotiations.
  \<^item> \<open>Store\<close>: the record \<open>db\<close> with one field per table of \<^verbatim>\<open>migrations/\<close> that the modelled code uses, and
    the audit log of \<^verbatim>\<open>db.rs\<close>.
  \<^item> \<open>Lease_State\<close>, \<open>Scheduler\<close> (\<^verbatim>\<open>scheduler.rs\<close>): the lease statements behind the locales \<open>lease_update\<close>
    and \<open>job_lease_update\<close>, expiry, and the run with its batches, budget and decisions.
  \<^item> \<open>Admission\<close> (\<^verbatim>\<open>runtime_admission.rs\<close> of both crates, \<^verbatim>\<open>runtime_verification.rs\<close> of the protocol): the
    decision, total and sound.
  \<^item> \<open>Job_Artifact\<close> (\<^verbatim>\<open>job_artifact.rs\<close>), \<open>Metering\<close> (\<^verbatim>\<open>metering.rs\<close>), \<open>Job_Control\<close> (\<^verbatim>\<open>job_control.rs\<close>) and
    \<open>Customer_Job\<close> (\<^verbatim>\<open>customer_job.rs\<close>): every handler of these files.
  \<^item> \<open>Job_Invariant\<close>, \<open>Job_Lifecycle\<close>, \<open>Job_System\<close>, \<open>Job_Safety\<close>: the composition. \<open>Job_Invariant\<close> shows that each
    handler keeps the agreement of jobs and leases; \<open>Job_Lifecycle\<close> that each implements the abstract life
    cycle; \<open>Job_System\<close> states the contract of a handler as the locales \<open>job_handler\<close>, \<open>live_handler\<close> and
    \<open>ending_handler\<close>, interprets them for all handlers, and derives what holds in every interleaving of
    transactions; \<open>Job_Safety\<close> holds what the agent and the API's clients rely on.
  \<^item> \<open>Billing\<close> (\<^verbatim>\<open>billing.rs\<close>) and \<open>Billing_Ledger\<close>: prices, Pix intents, settlement, ledger and payouts; the
    locale \<open>billing_operation\<close> is the contract of an operation, interpreted for each, and the transition
    system of billing transactions keeps the books balanced and the balances non-negative. Two settlements
    that read before either writes can overdraw an account; that run is a theorem too.
  \<^item> \<open>Market\<close>: the record \<open>market\<close>, which adds the tables of accounts, reservations, credits and workloads to
    those of billing and jobs, the order of \<open>DOUBLE PRECISION\<close> scores, and the protocol of idempotent commands,
    whose locale \<open>keyed_commands\<close> is interpreted for reservations, credit grants, workloads and artifacts.
  \<^item> \<open>Customer_Account\<close>, \<open>Reservation\<close> (\<^verbatim>\<open>customer.rs\<close>) and \<open>Reservation_Safety\<close>: accounts, quotas and API keys;
    credit grants, reservations, cancellation and expiry; that reservations stay within the quota, freeze the
    price and agree with the credit ledger, and that expiry cannot fail.
  \<^item> \<open>Human_Auth\<close> (\<^verbatim>\<open>human_auth.rs\<close>), \<open>Organization_Access\<close> (\<^verbatim>\<open>organization_rbac.rs\<close>) and \<open>Account_System\<close>: logins and
    sessions, roles and every operation a role permits. The transactions on accounts implement an abstract account book,
    so that an organisation keeps an owner, a subject is one person, and a revoked key or session stays refused. A role does
    not bound the scopes of the keys it creates; that too is a theorem.
  \<^item> \<open>Customer_Artifact\<close> (\<^verbatim>\<open>customer_artifact.rs\<close>): upload intents, uploads and finalisation, with the constraints of the
    table as a predicate; the locale \<open>artifact_operation\<close> is interpreted for each operation.
  \<^item> \<open>Placement\<close> (\<^verbatim>\<open>customer_compute.rs\<close>): validation of a workload, the candidate query with its filters and
    order, the binding of a reservation and of input artifacts, and the rows that are written; what a placement
    rests on.
  \<^item> \<open>Placement_Mirror\<close>: the invariant \<open>mirror\<close> between workloads, placements, reservations and jobs, with the
    locale \<open>mirrored_handler\<close> interpreted for every job handler.
  \<^item> \<open>Marketplace\<close> (\<^verbatim>\<open>marketplace.rs\<close>): the sweep that evaluates eligible supply and upserts listings, in its two transactions;
    what a published listing rests on, and the two ways in which a sweep loses what others wrote.
  \<^item> \<open>Market_System\<close>: the transition system of the whole control plane. Each of its transactions is a step of the
    job system on the tables of jobs and a step of the billing system on the tables of billing, so the theorems of
    both carry over; what spans them (workloads follow their jobs, a GPU is placed once, the credit ledger agrees
    with the reservations, snapshots never change) is proved there.
  \<^item> \<open>Input_Safety\<close>: artifacts in the runs of the whole control plane: rows are well typed, the inputs of placed jobs are
    verified and final, and the life of an artifact from the intent to a workload's input.

  \<^bold>\<open>How code becomes definitions.\<close> A handler is a function from its arguments and the state \<open>db\<close> (or \<open>billing\<close>,
  or \<open>market\<close>) to \<open>session_error + (state \<times> response)\<close>. A handler that commits before it returns an error has the type
  \<open>db \<times> response res\<close>. One call is one transaction: a handler's statements are applied in the order of the
  code and an error discards them, as PostgreSQL does; row locks make transactions on the same
  rows serial, so an interleaving is a sequence of calls. Where the code holds no lock that serialises two
  transactions, the split of the transaction is modelled (\<open>settle_read\<close> and \<open>settle_write\<close>). Rows that
  \<open>SKIP LOCKED\<close> passes over are an argument \<open>locked\<close>. A table is the list of its rows, \<open>UPDATE\<close> is
  \<open>sql_update\<close>, and unique indexes are clash tests that fail the statement. Structs are records with the
  source's field names behind a prefix, a JSON column is its value, statuses keep their text.

  Arguments that stand for code outside the repository: the clock (\<open>now\<close>, in nanoseconds), generated identifiers
  and tokens, the timestamp functions of \<^verbatim>\<open>chrono\<close> in the record \<open>externs\<close>, and the hashes of canonical JSON
  in \<open>canonical_hashes\<close>. Theorems that need a law of such a function, for instance that a printed time parses
  back, have it as a hypothesis, and their witnesses instantiate it with a concrete function.
  Machine integers keep their width as words where the code computes with them (sizes, seconds, amounts,
  counters), with Rust's checked and saturating operations and PostgreSQL's casts written out; a \<open>BIGINT\<close>
  column holds the value written through \<open>to_i64\<close>. Limits the code only compares with are numbers.

  \<^bold>\<open>Loops and bounds.\<close> All definitions terminate. The scheduler's loop is bounded by the code itself: its
  evaluation budget falls with every batch that is not empty, which is the measure of \<open>schedule_loop\<close>; no
  fuel is used. Properties that a handler returns a result are stated as such (\<open>scheduler_run_succeeds\<close>,
  \<open>admission_total\<close>).

  \<^bold>\<open>Properties\<close> are the theorems whose text begins with a number \<open>C1\<close> to \<open>C40\<close>, the most important first: those
  that span all transactions of jobs, billing or the market, then those of one handler or component. A theorem
  with hypotheses is followed or accompanied by a theorem \<open>..._witness\<close> at concrete input.

  \<^bold>\<open>Environment steps.\<close> The transition system of \<open>Job_System\<close> has rules for what other parts of the control
  plane do to the same tables: providers, devices, sessions and evidence change arbitrarily, and customer
  placement inserts queued jobs. In \<open>Market_System\<close> placement, accounts, people, artifacts and the refresh
  of listings are the code, and only provider sessions, evidence, eligibility and execution profiles remain to the environment.

  \<^bold>\<open>Not modelled.\<close> HTTP routing, OpenAPI text and configuration (\<^verbatim>\<open>http.rs\<close>, \<^verbatim>\<open>openapi.rs\<close>, \<^verbatim>\<open>config.rs\<close>): glue
  and documentation. Signature checks, the verification of OIDC tokens and enrolment (third-party cryptography around record keeping).
  The agent's Docker backends and its benchmarks (I/O and hardware). The ingestion of observations, inventory
  and telemetry, whose rows are arbitrary here. Of a listing and its audit events, the JSON columns that are only
  displayed (\<open>availability_window_json\<close>, benchmark metrics, audit metadata). The policies that derive trust scores and workload
  eligibility (\<^verbatim>\<open>trust_policy.rs\<close>, \<^verbatim>\<open>verification_policy.rs\<close>, \<^verbatim>\<open>workload_policy.rs\<close>): their rows are arbitrary here, so the theorems
  hold for any policy. The bytes of an artifact: the object store that hashes them is outside, and an upload is recorded with
  the digest and size it reports.
\<close>

end
